(* ===== verification/Nyx_Prelude.thy ===== *)
theory Nyx_Prelude
  imports Main "HOL-Library.Word"
begin

unbundle bit_operations_syntax

text \<open>
  Shared vocabulary of the development.

  \<^item> Byte arrays: a \<open>Uint8Array\<close> or \<open>Buffer\<close> is a list of 8-bit words, a JavaScript
    \<open>bigint\<close> is an \<open>int\<close>, a \<open>number\<close> used as an index or a count is an \<open>int\<close> or a
    \<open>nat\<close>. Little-endian and big-endian conversions and their round trips live here.
  \<^item> A Solana public key and a SHA-256 digest are 256-bit values (\<open>256 word\<close>); their byte
    arrays always have 32 bytes.
  \<^item> Synchronous code that may throw returns a sum, \<open>Inl\<close> the thrown error and \<open>Inr\<close>
    the value; \<open>rbind\<close> is sequencing and \<open>rcat\<close> the \<open>cat(a, b, ...)\<close> of the sources, whose
    arguments are evaluated from left to right and may throw.
  \<^item> Asynchronous code with effects is a function from a state to a sum and a new state;
    \<open>io_bind\<close> is \<open>await\<close> followed by the rest, \<open>io_catch\<close> is \<open>try ... catch\<close>.

  The collections \<open>wire_simps\<close> (byte layouts) and \<open>io_simps\<close> (unfolding of the effect
  combinators) carry the component proofs.
\<close>

named_theorems wire_simps "lengths and slices of byte layouts"
named_theorems io_simps "unfolding of the effect combinators"

section \<open>Bytes\<close>

type_synonym byte = "8 word"
type_synonym bytes = "byte list"
type_synonym pubkey = "256 word"
type_synonym digest = "256 word"

text \<open>The low \<open>n\<close> bytes of an integer, least significant byte first: what
  \<open>DataView.setBigUint64\<close> and \<open>setUint16\<close> write, wrapping the value at the field's width.\<close>

primrec int_to_le :: "nat \<Rightarrow> int \<Rightarrow> bytes" where
  "int_to_le 0 v = []"
| "int_to_le (Suc n) v = word_of_int v # int_to_le n (v div 256)"

primrec le_to_int :: "bytes \<Rightarrow> int" where
  "le_to_int [] = 0"
| "le_to_int (b # bs) = uint b + 256 * le_to_int bs"

definition int_to_be :: "nat \<Rightarrow> int \<Rightarrow> bytes" where
  "int_to_be n v = rev (int_to_le n v)"

text \<open>The accumulating loop of the sources, \<open>n = (n << 8n) | BigInt(b)\<close>.\<close>

definition be_to_int :: "bytes \<Rightarrow> int" where
  "be_to_int bs = foldl (\<lambda>n b. push_bit 8 n OR uint b) 0 bs"

lemma length_int_to_le [simp]: "length (int_to_le n v) = n"
  by (induction n arbitrary: v) simp_all

lemma int_to_le_numeral [wire_simps]:
  "int_to_le (numeral k) v = word_of_int v # int_to_le (pred_numeral k) (v div 256)"
  by (simp add: numeral_eq_Suc)

lemma length_int_to_be [simp]: "length (int_to_be n v) = n"
  by (simp add: int_to_be_def)

lemma uint_byte_bound: "uint (b :: byte) < 256"
  using uint_bounded [of b] by simp

lemma uint_byte_mod [simp]: "uint (b :: byte) mod 256 = uint b"
  by (rule mod_pos_pos_trivial) (simp_all add: uint_byte_bound)

lemma uint_byte_div [simp]: "uint (b :: byte) div 256 = 0"
  by (rule div_pos_pos_trivial) (simp_all add: uint_byte_bound)

lemma word_of_int_byte_mod: "word_of_int (k mod 256) = (word_of_int k :: byte)"
  using wi_hom_syms word_of_int_eq_iff [of "k mod 256" k, where 'a = 8]
  by (simp add: take_bit_eq_mod)

lemma uint_word_of_int_byte: "0 \<le> k \<Longrightarrow> k < 256 \<Longrightarrow> uint (word_of_int k :: byte) = k"
  by (simp only: uint_word_of_int) simp

lemma mod_digit:
  fixes d r m :: int
  assumes "0 \<le> r" "r < 256" "0 \<le> m"
  shows "(256 * d + r) mod (256 * m) = 256 * (d mod m) + r"
  using zmod_zmult2_eq [OF assms(3), of "256 * d + r" 256] assms by simp

lemma le_to_int_nonneg [simp]: "0 \<le> le_to_int bs"
  by (induction bs) simp_all

lemma le_to_int_bound: "le_to_int bs < 256 ^ length bs"
proof (induction bs)
  case Nil
  then show ?case by simp
next
  case (Cons b bs)
  have step: "uint b + 256 * x < 256 * k" if "x < k" for x k :: int
    using that uint_byte_bound [of b] by linarith
  from step [OF Cons.IH] show ?case by simp
qed

lemma le_to_int_to_le: "le_to_int (int_to_le n v) = v mod 256 ^ n"
proof (induction n arbitrary: v)
  case 0
  then show ?case by simp
next
  case (Suc n)
  have "v mod (256 * 256 ^ n) = 256 * (v div 256 mod 256 ^ n) + v mod 256"
    by (rule zmod_zmult2_eq) simp
  with Suc show ?case by (simp add: uint_word_of_int)
qed

lemma int_to_le_to_int [simp]: "int_to_le (length bs) (le_to_int bs) = bs"
proof (induction bs)
  case Nil
  then show ?case by simp
next
  case (Cons b bs)
  have "(uint b + 256 * le_to_int bs) div 256 = le_to_int bs" by simp
  moreover have "word_of_int (uint b + 256 * le_to_int bs) = b"
    using word_of_int_byte_mod [of "uint b + 256 * le_to_int bs"]
    by (simp del: of_int_add of_int_mult)
  ultimately show ?case using Cons by simp
qed

lemma int_to_le_inject:
  assumes "int_to_le n v = int_to_le n w"
  shows "v mod 256 ^ n = w mod 256 ^ n"
  using assms by (metis le_to_int_to_le)

lemma be_step: "push_bit 8 n OR uint (b :: byte) = 256 * n + uint b"
proof -
  have "push_bit 8 n AND uint b = 0"
  proof (rule bit_eqI)
    fix k
    show "bit (push_bit 8 n AND uint b) k = bit 0 k"
      by (auto simp: bit_push_bit_iff bit_and_iff bit_uint_iff)
  qed
  then have "push_bit 8 n OR uint b = push_bit 8 n + uint b"
    by (simp add: disjunctive_add_eq_or)
  then show ?thesis by (simp add: push_bit_eq_mult)
qed

lemma be_to_int_Nil [simp]: "be_to_int [] = 0"
  by (simp add: be_to_int_def)

lemma be_to_int_snoc: "be_to_int (bs @ [b]) = 256 * be_to_int bs + uint b"
  by (simp add: be_to_int_def be_step)

lemma be_to_int_rev: "be_to_int bs = le_to_int (rev bs)"
  by (induction bs rule: rev_induct) (simp_all add: be_to_int_snoc)

lemma be_to_int_nonneg [simp]: "0 \<le> be_to_int bs"
  by (simp add: be_to_int_rev)

lemma be_to_int_bound: "be_to_int bs < 256 ^ length bs"
  using le_to_int_bound [of "rev bs"] by (simp add: be_to_int_rev)

lemma be_to_int_to_be: "be_to_int (int_to_be n v) = v mod 256 ^ n"
  by (simp add: be_to_int_rev int_to_be_def le_to_int_to_le)

lemma int_to_be_to_int [simp]: "length bs = n \<Longrightarrow> int_to_be n (be_to_int bs) = bs"
  using int_to_le_to_int [of "rev bs"] by (simp add: be_to_int_rev int_to_be_def)

lemma be_to_int_inject:
  assumes "be_to_int a = be_to_int b" and "length a = length b"
  shows "a = b"
  using assms by (metis int_to_be_to_int)

lemma be_to_int_append: "be_to_int (a @ b) = be_to_int a * 256 ^ length b + be_to_int b"
  by (induction b rule: rev_induct)
    (simp_all add: be_to_int_snoc algebra_simps flip: append_assoc)

lemma and_255: "(x :: int) AND 255 = x mod 256"
  using take_bit_eq_mask [of 8 x] by (simp add: take_bit_eq_mod mask_eq_exp_minus_1)

lemma byte_and_255: "word_of_int (x AND 255) = (word_of_int x :: byte)"
  by (simp add: and_255 word_of_int_byte_mod)

lemma drop_bit_8: "drop_bit 8 (x :: int) = x div 256"
  by (simp add: drop_bit_eq_div)

section \<open>Wire primitives\<close>

text \<open>\<open>u64LE\<close>, \<open>u32LE\<close> and \<open>u16LE\<close> write the value modulo the field width, as
  \<open>DataView\<close> does: a value outside the range is truncated without an error.\<close>

definition u64LE :: "int \<Rightarrow> bytes" where "u64LE v = int_to_le 8 v"
definition u32LE :: "int \<Rightarrow> bytes" where "u32LE v = int_to_le 4 v"
definition u16LE :: "int \<Rightarrow> bytes" where "u16LE v = int_to_le 2 v"

text \<open>\<open>new Uint8Array([x])\<close>: one byte, the value modulo 256.\<close>

definition u8 :: "int \<Rightarrow> bytes" where "u8 v = [word_of_int v]"

text \<open>\<open>a.subarray(off, off + len)\<close>, clamped at the end of the array.\<close>

definition slice :: "'a list \<Rightarrow> nat \<Rightarrow> nat \<Rightarrow> 'a list" where
  "slice bs off len = take len (drop off bs)"

text \<open>The 32 bytes of a public key or of a SHA-256 digest (most significant byte first).\<close>

definition toBytes :: "256 word \<Rightarrow> bytes" where
  "toBytes w = int_to_be 32 (uint w)"

definition bytes_to_word :: "bytes \<Rightarrow> 256 word" where
  "bytes_to_word bs = word_of_int (be_to_int bs)"

text \<open>\<open>new TextEncoder().encode(s)\<close> for a string kept as its UTF-8 bytes.\<close>

definition utf8 :: "string \<Rightarrow> bytes" where
  "utf8 s = map of_char s"

definition zeros :: "nat \<Rightarrow> bytes" where
  "zeros n = replicate n 0"

definition isZero :: "bytes \<Rightarrow> bool" where
  "isZero bs = list_all (\<lambda>x. x = 0) bs"

lemma length_wire [simp, wire_simps]:
  "length (u64LE v) = 8" "length (u32LE v) = 4" "length (u16LE v) = 2" "length (u8 v) = 1"
  "length (toBytes w) = 32" "length (utf8 s) = length s" "length (zeros n) = n"
  by (simp_all add: u64LE_def u32LE_def u16LE_def u8_def toBytes_def utf8_def zeros_def)

lemma le_to_int_u64LE [wire_simps]: "le_to_int (u64LE v) = v mod 2 ^ 64"
  by (simp add: u64LE_def le_to_int_to_le)

lemma le_to_int_u32LE [wire_simps]: "le_to_int (u32LE v) = v mod 2 ^ 32"
  by (simp add: u32LE_def le_to_int_to_le)

lemma le_to_int_u16LE [wire_simps]: "le_to_int (u16LE v) = v mod 2 ^ 16"
  by (simp add: u16LE_def le_to_int_to_le)

lemma u64LE_inject: "u64LE v = u64LE w \<longleftrightarrow> v mod 2 ^ 64 = w mod 2 ^ 64"
proof
  assume "u64LE v = u64LE w"
  then show "v mod 2 ^ 64 = w mod 2 ^ 64" by (metis le_to_int_u64LE)
next
  assume "v mod 2 ^ 64 = w mod 2 ^ 64"
  then show "u64LE v = u64LE w"
    using int_to_le_to_int [of "u64LE v"] int_to_le_to_int [of "u64LE w"]
    by (simp add: le_to_int_u64LE)
qed

definition u64_range :: "int \<Rightarrow> bool" where
  "u64_range v \<longleftrightarrow> 0 \<le> v \<and> v < 2 ^ 64"

lemma u64_range_mod [simp]: "u64_range v \<Longrightarrow> v mod 18446744073709551616 = v"
  by (simp add: u64_range_def)

lemma u64LE_inj_range: "u64_range v \<Longrightarrow> u64_range w \<Longrightarrow> u64LE v = u64LE w \<longleftrightarrow> v = w"
  by (simp add: u64LE_inject)

lemma toBytes_inject [simp]: "toBytes a = toBytes b \<longleftrightarrow> a = b"
proof
  assume "toBytes a = toBytes b"
  then have "uint a mod 256 ^ 32 = uint b mod 256 ^ 32"
    by (metis be_to_int_to_be toBytes_def)
  then show "a = b"
    using uint_bounded [of a] uint_bounded [of b] by (simp add: word_uint_eq_iff)
qed simp

lemma bytes_to_word_toBytes [simp]: "bytes_to_word (toBytes w) = w"
  using uint_bounded [of w] by (simp add: bytes_to_word_def toBytes_def be_to_int_to_be)

lemma toBytes_bytes_to_word [simp]: "length bs = 32 \<Longrightarrow> toBytes (bytes_to_word bs) = bs"
  using be_to_int_bound [of bs]
  by (simp add: bytes_to_word_def toBytes_def uint_word_of_int)

lemma slice_append_skip [wire_simps]:
  "length a \<le> off \<Longrightarrow> slice (a @ b) off len = slice b (off - length a) len"
  by (simp add: slice_def)

lemma slice_append_hit [wire_simps]:
  "length a = len \<Longrightarrow> slice (a @ b) 0 len = a"
  by (simp add: slice_def)

lemma slice_full [wire_simps]: "length a = len \<Longrightarrow> slice a 0 len = a"
  by (simp add: slice_def)

lemma length_slice [wire_simps]: "off + len \<le> length bs \<Longrightarrow> length (slice bs off len) = len"
  by (simp add: slice_def)

lemma int_to_be_Suc: "int_to_be (Suc n) v = int_to_be n (v div 256) @ [word_of_int v]"
  by (simp add: int_to_be_def)

lemma int_to_be_zero: "int_to_be n 0 = zeros n"
proof (induction n)
  case 0
  then show ?case by (simp add: int_to_be_def zeros_def)
next
  case (Suc n)
  then show ?case by (simp add: int_to_be_Suc zeros_def replicate_append_same)
qed

text \<open>Absence of a collision on two given messages.\<close>

lemma inj_on_pair: "inj_on f {a, b} \<longleftrightarrow> (f a = f b \<longrightarrow> a = b)"
  by (auto simp: inj_on_def)

lemma le_to_int_replicate0 [simp]: "le_to_int (replicate n 0) = 0"
  by (induction n) simp_all

lemma be_to_int_zeros [simp]: "be_to_int (zeros n) = 0"
  by (simp add: be_to_int_rev zeros_def)

lemma isZero_iff: "isZero bs \<longleftrightarrow> bs = zeros (length bs)"
  by (induction bs) (auto simp: isZero_def zeros_def)

section \<open>Results of code that may throw\<close>

fun rbind :: "'e + 'a \<Rightarrow> ('a \<Rightarrow> 'e + 'b) \<Rightarrow> 'e + 'b" where
  "rbind (Inl e) f = Inl e"
| "rbind (Inr x) f = f x"

text \<open>\<open>cat(a, b, ...)\<close>: the arguments are evaluated in order, the first one that throws wins.\<close>

fun rcat :: "('e + 'a list) list \<Rightarrow> 'e + 'a list" where
  "rcat [] = Inr []"
| "rcat (p # ps) = rbind p (\<lambda>b. rbind (rcat ps) (\<lambda>r. Inr (b @ r)))"

text \<open>A loop over an array whose body may throw.\<close>

fun rmapM :: "('a \<Rightarrow> 'e + 'b) \<Rightarrow> 'a list \<Rightarrow> 'e + 'b list" where
  "rmapM f [] = Inr []"
| "rmapM f (x # xs) = rbind (f x) (\<lambda>y. rbind (rmapM f xs) (\<lambda>ys. Inr (y # ys)))"

lemma rbind_eq_Inr: "rbind m f = Inr y \<longleftrightarrow> (\<exists>x. m = Inr x \<and> f x = Inr y)"
  by (cases m) auto

lemma rbind_eq_Inl: "rbind m f = Inl e \<longleftrightarrow> m = Inl e \<or> (\<exists>x. m = Inr x \<and> f x = Inl e)"
  by (cases m) auto

lemma rbind_cong [fundef_cong]:
  "m = m' \<Longrightarrow> (\<And>x. m' = Inr x \<Longrightarrow> f x = f' x) \<Longrightarrow> rbind m f = rbind m' f'"
  by (cases m) auto

lemma rcat_eq_Inr:
  "rcat ps = Inr bs \<longleftrightarrow> (\<exists>qs. ps = map Inr qs \<and> bs = concat qs)"
proof (induction ps arbitrary: bs)
  case Nil
  then show ?case by auto
next
  case (Cons p ps)
  then show ?case by (cases p) (auto simp: rbind_eq_Inr Cons_eq_map_conv)
qed

lemma rmapM_Inr: "(\<And>x. x \<in> set xs \<Longrightarrow> f x = Inr (g x)) \<Longrightarrow> rmapM f xs = Inr (map g xs)"
  by (induction xs) auto

lemma length_rmapM: "rmapM f xs = Inr ys \<Longrightarrow> length ys = length xs"
  by (induction xs arbitrary: ys) (auto simp: rbind_eq_Inr)

section \<open>Effects\<close>

type_synonym ('s, 'e, 'a) io = "'s \<Rightarrow> ('e + 'a) \<times> 's"

definition io_return :: "'a \<Rightarrow> ('s, 'e, 'a) io" where
  "io_return x s = (Inr x, s)"

definition io_throw :: "'e \<Rightarrow> ('s, 'e, 'a) io" where
  "io_throw e s = (Inl e, s)"

definition io_of :: "'e + 'a \<Rightarrow> ('s, 'e, 'a) io" where
  "io_of r s = (r, s)"

definition io_bind :: "('s, 'e, 'a) io \<Rightarrow> ('a \<Rightarrow> ('s, 'e, 'b) io) \<Rightarrow> ('s, 'e, 'b) io" where
  "io_bind m f s = (case m s of (Inl e, t) \<Rightarrow> (Inl e, t) | (Inr x, t) \<Rightarrow> f x t)"

definition io_catch :: "('s, 'e, 'a) io \<Rightarrow> ('e \<Rightarrow> ('s, 'e, 'a) io) \<Rightarrow> ('s, 'e, 'a) io" where
  "io_catch m h s = (case m s of (Inl e, t) \<Rightarrow> h e t | (Inr x, t) \<Rightarrow> (Inr x, t))"

lemma io_run [simp, io_simps]:
  "io_return x s = (Inr x, s)" "io_throw e s = (Inl e, s)" "io_of r s = (r, s)"
  by (simp_all add: io_return_def io_throw_def io_of_def)

lemma io_bind_eq_Inr:
  "io_bind m f s = (Inr y, u) \<longleftrightarrow> (\<exists>x t. m s = (Inr x, t) \<and> f x t = (Inr y, u))"
  by (auto simp: io_bind_def split: prod.splits sum.splits)

lemma io_bind_eq_Inl:
  "io_bind m f s = (Inl e, u) \<longleftrightarrow>
     m s = (Inl e, u) \<or> (\<exists>x t. m s = (Inr x, t) \<and> f x t = (Inl e, u))"
  by (auto simp: io_bind_def split: prod.splits sum.splits)

lemma io_bind_Inr [io_simps]: "m s = (Inr x, t) \<Longrightarrow> io_bind m f s = f x t"
  by (simp add: io_bind_def)

lemma io_bind_Inl [io_simps]: "m s = (Inl e, t) \<Longrightarrow> io_bind m f s = (Inl e, t)"
  by (simp add: io_bind_def)

lemma io_catch_Inr [io_simps]: "m s = (Inr x, t) \<Longrightarrow> io_catch m h s = (Inr x, t)"
  by (simp add: io_catch_def)

lemma io_catch_Inl [io_simps]: "m s = (Inl e, t) \<Longrightarrow> io_catch m h s = h e t"
  by (simp add: io_catch_def)

section \<open>Decimal text\<close>

text \<open>\<open>bigint.toString()\<close> and \<open>BigInt(s)\<close> on the decimal digits of \<open>s\<close>.\<close>

definition digit_char :: "nat \<Rightarrow> char" where
  "digit_char d = char_of (48 + d)"

definition digit_val :: "char \<Rightarrow> nat" where
  "digit_val c = of_char c - 48"

definition is_digit :: "char \<Rightarrow> bool" where
  "is_digit c \<longleftrightarrow> 48 \<le> (of_char c :: nat) \<and> (of_char c :: nat) \<le> 57"

fun nat_toString :: "nat \<Rightarrow> string" where
  "nat_toString n =
     (if n < 10 then [digit_char n] else nat_toString (n div 10) @ [digit_char (n mod 10)])"

declare nat_toString.simps [simp del]

definition bigint_toString :: "int \<Rightarrow> string" where
  "bigint_toString v = (if v < 0 then ''-'' @ nat_toString (nat (- v)) else nat_toString (nat v))"

definition dec_val :: "string \<Rightarrow> nat" where
  "dec_val s = foldl (\<lambda>n c. 10 * n + digit_val c) 0 s"

text \<open>\<open>Buffer.from(bs).toString("hex")\<close>: two lower-case digits per byte.\<close>

definition hex_char :: "nat \<Rightarrow> char" where
  "hex_char d = char_of (if d < 10 then 48 + d else 87 + d)"

definition bytes_hex :: "bytes \<Rightarrow> string" where
  "bytes_hex bs = concat (map (\<lambda>b. [hex_char (unat b div 16), hex_char (unat b mod 16)]) bs)"

lemma digit_char_props [simp]:
  assumes "d < 10"
  shows "is_digit (digit_char d)" and "digit_val (digit_char d) = d"
proof -
  have "(of_char (char_of (48 + d) :: char) :: nat) = 48 + d"
    using assms by (simp add: of_char_of)
  then show "is_digit (digit_char d)" "digit_val (digit_char d) = d"
    using assms by (simp_all add: is_digit_def digit_val_def digit_char_def)
qed

lemma dec_val_snoc: "dec_val (s @ [c]) = 10 * dec_val s + digit_val c"
  by (simp add: dec_val_def)

lemma dec_val_Nil [simp]: "dec_val [] = 0"
  by (simp add: dec_val_def)

lemma dec_val_append: "dec_val (s @ t) = dec_val s * 10 ^ length t + dec_val t"
  by (induction t rule: rev_induct)
    (simp_all add: dec_val_snoc algebra_simps flip: append_assoc)

lemma digit_val_less: "is_digit c \<Longrightarrow> digit_val c < 10"
  by (auto simp: is_digit_def digit_val_def)

lemma dec_val_bound: "list_all is_digit s \<Longrightarrow> dec_val s < 10 ^ length s"
proof (induction s rule: rev_induct)
  case (snoc c s)
  then have "dec_val s < 10 ^ length s" "digit_val c < 10" by (simp_all add: digit_val_less)
  then show ?case by (simp add: dec_val_snoc)
qed simp

lemma nat_toString_digits: "list_all is_digit (nat_toString n)"
proof (induction n rule: nat_toString.induct)
  case (1 n)
  then show ?case by (subst nat_toString.simps) simp
qed

lemma nat_toString_nonempty [simp]: "nat_toString n \<noteq> []"
  by (subst nat_toString.simps) simp

lemma dec_val_nat_toString [simp]: "dec_val (nat_toString n) = n"
proof (induction n rule: nat_toString.induct)
  case (1 n)
  then show ?case
    by (subst nat_toString.simps) (simp add: dec_val_snoc dec_val_def [of "[_]"])
qed

lemma bigint_toString_nonempty [simp]: "bigint_toString v \<noteq> []"
  by (simp add: bigint_toString_def)

end
