(* ===== verification/Nyx_Errors.thy ===== *)
theory Nyx_Errors
  imports Nyx_Prelude
begin

text \<open>
  \<open>packages/sdk/src/errors.ts\<close>: the staged errors of the SDK. A thrown value is either a
  \<open>DarkPoolError\<close> with its stage, its message (already prefixed by the constructor) and an
  optional cause, or another \<open>Error\<close> with its \<open>name\<close> and \<open>message\<close>.
\<close>

text \<open>The em dash of the messages, as its UTF-8 bytes.\<close>

definition em_dash :: string where
  "em_dash = [char_of (226 :: nat), char_of (128 :: nat), char_of (148 :: nat)]"

datatype DarkPoolErrorStage =
    AttestationVerify
  | AuthTokenFetch
  | NoteLockCheck
  | MerkleProofFetch
  | MerklePositionFetch
  | NoteBuild
  | ProofGeneration
  | TransactionSend
  | TransactionValidate
  | InstructionBuild
  | Parameter

fun stage_name :: "DarkPoolErrorStage \<Rightarrow> string" where
  "stage_name AttestationVerify = ''attestation-verify''"
| "stage_name AuthTokenFetch = ''auth-token-fetch''"
| "stage_name NoteLockCheck = ''note-lock-check''"
| "stage_name MerkleProofFetch = ''merkle-proof-fetch''"
| "stage_name MerklePositionFetch = ''merkle-position-fetch''"
| "stage_name NoteBuild = ''note-build''"
| "stage_name ProofGeneration = ''proof-generation''"
| "stage_name TransactionSend = ''transaction-send''"
| "stage_name TransactionValidate = ''transaction-validate''"
| "stage_name InstructionBuild = ''instruction-build''"
| "stage_name Parameter = ''parameter''"

datatype js_error =
    DarkPoolError (err_stage: DarkPoolErrorStage) (err_message: string) (err_cause: "js_error option")
  | JsError (err_name: string) (err_message: string)

text \<open>\<open>new DarkPoolError(stage, message, cause)\<close>: the constructor prefixes the message.\<close>

definition newDarkPoolError :: "DarkPoolErrorStage \<Rightarrow> string \<Rightarrow> js_error option \<Rightarrow> js_error" where
  "newDarkPoolError stage message cause =
     DarkPoolError stage (''['' @ stage_name stage @ ''] '' @ message) cause"

abbreviation newError :: "string \<Rightarrow> js_error" where
  "newError msg \<equiv> JsError ''Error'' msg"

abbreviation dpError :: "DarkPoolErrorStage \<Rightarrow> string \<Rightarrow> js_error" where
  "dpError st msg \<equiv> newDarkPoolError st msg None"

text \<open>\<open>String(err)\<close>: the name, a colon and the message.\<close>

fun error_String :: "js_error \<Rightarrow> string" where
  "error_String (DarkPoolError st msg c) = ''DarkPoolError: '' @ msg"
| "error_String (JsError n msg) = n @ '': '' @ msg"

fun isDarkPoolError :: "js_error \<Rightarrow> bool" where
  "isDarkPoolError (DarkPoolError _ _ _) = True"
| "isDarkPoolError (JsError _ _) = False"

definition hasStage :: "DarkPoolErrorStage \<Rightarrow> js_error \<Rightarrow> bool" where
  "hasStage st e \<longleftrightarrow> isDarkPoolError e \<and> err_stage e = st"

text \<open>\<open>DarkPoolError.isRetryable\<close>.\<close>

fun isRetryable :: "js_error \<Rightarrow> bool" where
  "isRetryable (JsError _ _) = False"
| "isRetryable (DarkPoolError st _ _) =
     (case st of
        AuthTokenFetch \<Rightarrow> True
      | MerkleProofFetch \<Rightarrow> True
      | MerklePositionFetch \<Rightarrow> True
      | TransactionSend \<Rightarrow> True
      | TransactionValidate \<Rightarrow> True
      | AttestationVerify \<Rightarrow> False
      | NoteLockCheck \<Rightarrow> False
      | NoteBuild \<Rightarrow> False
      | ProofGeneration \<Rightarrow> False
      | InstructionBuild \<Rightarrow> False
      | Parameter \<Rightarrow> False)"

lemma newDarkPoolError_simps [simp]:
  "isDarkPoolError (newDarkPoolError st msg c)"
  "err_stage (newDarkPoolError st msg c) = st"
  "hasStage st' (newDarkPoolError st msg c) \<longleftrightarrow> st' = st"
  "newDarkPoolError st msg c \<noteq> JsError n m"
  by (auto simp: newDarkPoolError_def hasStage_def)

lemma hasStage_JsError [simp]: "\<not> hasStage st (JsError n m)"
  by (simp add: hasStage_def)

lemma hasStage_unique: "hasStage st e \<Longrightarrow> hasStage st' e \<Longrightarrow> st = st'"
  by (auto simp: hasStage_def)

lemma stage_name_inject [simp]: "stage_name a = stage_name b \<longleftrightarrow> a = b"
  by (cases a; cases b) simp_all

text \<open>An error is retryable exactly when it carries one of the five retryable stages.\<close>

lemma isRetryable_iff:
  "isRetryable e \<longleftrightarrow>
     (\<exists>st \<in> {AuthTokenFetch, MerkleProofFetch, MerklePositionFetch, TransactionSend,
              TransactionValidate}. hasStage st e)"
  by (cases e) (auto simp: hasStage_def split: DarkPoolErrorStage.splits)

end
