(* ===== verification/Nyx_Lib.thy ===== *)
theory Nyx_Lib
  imports Nyx_Errors
begin

text \<open>
  What the sources take from elsewhere: hash functions, Poseidon (\<open>circomlibjs\<close>), the program
  address derivation and the well-known keys of \<open>@solana/web3.js\<close>. They are one record,
  \<open>lib\<close>, passed to every definition that uses them. A SHA-256 or HMAC-SHA-256 digest is a
  256-bit value, a SHA-512 digest a 512-bit value. \<open>poseidon\<close> is
  \<open>p.F.toObject(p(inputs))\<close>, whose result is the canonical representative of a field element
  (hypothesis \<open>poseidon_canonical\<close>).
\<close>

record lib =
  sha256_digest :: "bytes \<Rightarrow> digest"
  hmac_sha256_digest :: "bytes \<Rightarrow> bytes \<Rightarrow> digest"
  sha512_digest :: "bytes \<Rightarrow> 512 word"
  shake256 :: "nat \<Rightarrow> bytes \<Rightarrow> bytes"
  poseidon :: "int list \<Rightarrow> int"
  findProgramAddressSync :: "bytes list \<Rightarrow> pubkey \<Rightarrow> js_error + pubkey \<times> int"
  pubkeyOfBase58 :: "string \<Rightarrow> pubkey"
  pubkey_toBase58 :: "pubkey \<Rightarrow> string"
  SystemProgram_programId :: pubkey
  SYSVAR_INSTRUCTIONS_PUBKEY :: pubkey

definition sha256 :: "lib \<Rightarrow> bytes \<Rightarrow> bytes" where
  "sha256 L m = toBytes (sha256_digest L m)"

definition hmac_sha256 :: "lib \<Rightarrow> bytes \<Rightarrow> bytes \<Rightarrow> bytes" where
  "hmac_sha256 L k m = toBytes (hmac_sha256_digest L k m)"

definition sha512 :: "lib \<Rightarrow> bytes \<Rightarrow> bytes" where
  "sha512 L m = int_to_be 64 (uint (sha512_digest L m))"

lemma length_digest [simp, wire_simps]:
  "length (sha256 L m) = 32" "length (hmac_sha256 L k m) = 32" "length (sha512 L m) = 64"
  by (simp_all add: sha256_def hmac_sha256_def sha512_def)

text \<open>Two different messages with one digest.\<close>

definition sha256_collision :: "lib \<Rightarrow> bool" where
  "sha256_collision L \<longleftrightarrow> (\<exists>a b. a \<noteq> b \<and> sha256 L a = sha256 L b)"

lemma sha256_eq_or_collision: "sha256 L a = sha256 L b \<Longrightarrow> a = b \<or> sha256_collision L"
  by (auto simp: sha256_collision_def)

text \<open>\<open>new PublicKey(bytes)\<close>: more than 32 bytes are refused, fewer are padded on the left.\<close>

definition newPublicKey :: "bytes \<Rightarrow> js_error + pubkey" where
  "newPublicKey bs =
     (if length bs > 32 then Inl (newError ''Invalid public key input'')
      else Inr (bytes_to_word bs))"

text \<open>\<open>AccountMeta\<close> and \<open>TransactionInstruction\<close>.\<close>

record account_meta =
  am_pubkey :: pubkey
  am_isSigner :: bool
  am_isWritable :: bool

record instruction =
  ix_programId :: pubkey
  ix_keys :: "account_meta list"
  ix_data :: bytes

definition meta :: "pubkey \<Rightarrow> bool \<Rightarrow> bool \<Rightarrow> account_meta" where
  "meta k s w = \<lparr>am_pubkey = k, am_isSigner = s, am_isWritable = w\<rparr>"

lemma meta_simps [simp]:
  "am_pubkey (meta k s w) = k" "am_isSigner (meta k s w) = s" "am_isWritable (meta k s w) = w"
  by (simp_all add: meta_def)

text \<open>The keys that must sign an instruction.\<close>

definition signers_of :: "instruction \<Rightarrow> pubkey list" where
  "signers_of ix = map am_pubkey (filter am_isSigner (ix_keys ix))"

definition writables_of :: "instruction \<Rightarrow> pubkey list" where
  "writables_of ix = map am_pubkey (filter am_isWritable (ix_keys ix))"

section \<open>DataView\<close>

text \<open>\<open>getBigUint64(off, true)\<close> on a view of an array: it throws when the eight bytes do not fit.\<close>

definition getBigUint64 :: "bytes \<Rightarrow> nat \<Rightarrow> js_error + int" where
  "getBigUint64 buf off =
     (if off + 8 \<le> length buf then Inr (le_to_int (slice buf off 8))
      else Inl (JsError ''RangeError'' ''Offset is outside the bounds of the DataView''))"

lemma slice_shift [wire_simps]: "slice (pre @ rest) (length pre + k) n = slice rest k n"
  by (simp add: slice_def)

lemma getBigUint64_shift [wire_simps]: "getBigUint64 (pre @ rest) (length pre + k) = getBigUint64 rest k"
  by (simp add: getBigUint64_def wire_simps)

lemma getBigUint64_skip [wire_simps]:
  "length a \<le> off \<Longrightarrow> getBigUint64 (a @ b) off = getBigUint64 b (off - length a)"
  using getBigUint64_shift [of a b "off - length a"] by simp

lemma getBigUint64_hit [wire_simps]: "u64_range v \<Longrightarrow> getBigUint64 (u64LE v @ b) 0 = Inr v"
  by (simp add: getBigUint64_def slice_def le_to_int_u64LE)

lemma getBigUint64_ok: "off + 8 \<le> length buf \<Longrightarrow> getBigUint64 buf off = Inr (le_to_int (slice buf off 8))"
  by (simp add: getBigUint64_def)

end
