(* ===== verification/Nyx_Keys.thy ===== *)
theory Nyx_Keys
  imports Nyx_Lib
begin

unbundle bit_operations_syntax

text \<open>
  \<open>packages/sdk/src/keys/key-generators.ts\<close> and \<open>key-rotation.ts\<close>: HKDF-SHA-256, KMAC256
  (NIST SP 800-185 encodings over SHAKE256), the four-key derivation, the field encodings and
  the resolution of the master seed. Proved here: HKDF is RFC 5869, field encodings round-trip
  and fail exactly outside the field, the KMAC input is an injective encoding of its arguments
  (domain separation), trading-key offsets are taken modulo \<open>2 ^ 64\<close>.
\<close>

section \<open>Field elements\<close>

definition MASTER_SEED_BYTES :: nat where
  "MASTER_SEED_BYTES = 64"

definition BN254_R :: int where
  "BN254_R = 21888242871839275222246405745257275088548364400416034343698204186575808495617"

text \<open>\<open>reduceMod\<close>: big-endian bytes modulo the scalar field.\<close>

definition reduceMod :: "bytes \<Rightarrow> int" where
  "reduceMod bs = be_to_int bs mod BN254_R"

text \<open>The loop of \<open>bigintToBE32\<close>, from the last byte to the first; it returns the bytes
  written so far and what is left of the value.\<close>

fun be32_loop :: "nat \<Rightarrow> int \<Rightarrow> bytes \<Rightarrow> bytes \<times> int" where
  "be32_loop 0 x out = (out, x)"
| "be32_loop (Suc i) x out = be32_loop i (drop_bit 8 x) (word_of_int (x AND 255) # out)"

definition bigintToBE32 :: "int \<Rightarrow> js_error + bytes" where
  "bigintToBE32 n =
     (let (out, x) = be32_loop 32 n []
      in if x \<noteq> 0 then Inl (newError ''value does not fit in 32 bytes'') else Inr out)"

definition bn254ToBE32 :: "int \<Rightarrow> js_error + bytes" where
  "bn254ToBE32 x =
     (if x < 0 \<or> x \<ge> BN254_R then Inl (newError ''field element out of range'')
      else bigintToBE32 x)"

lemma be32_loop_eq: "be32_loop k x out = (int_to_be k x @ out, x div 256 ^ k)"
proof (induction k arbitrary: x out)
  case 0
  then show ?case by (simp add: int_to_be_def)
next
  case (Suc k)
  have "x div 256 div 256 ^ k = x div (256 * 256 ^ k)"
    by (simp add: zdiv_zmult2_eq)
  with Suc show ?case by (simp add: int_to_be_def byte_and_255 drop_bit_8)
qed

lemma bigintToBE32_eq:
  "bigintToBE32 n =
     (if 0 \<le> n \<and> n < 256 ^ 32 then Inr (int_to_be 32 n)
      else Inl (newError ''value does not fit in 32 bytes''))"
proof -
  have "n div 256 ^ 32 = 0 \<longleftrightarrow> 0 \<le> n \<and> n < 256 ^ 32"
    by (auto simp: zdiv_eq_0_iff)
  then show ?thesis unfolding bigintToBE32_def by (simp add: be32_loop_eq del: be32_loop.simps)
qed

lemma BN254_R_bounds: "0 < BN254_R" "BN254_R < 256 ^ 32"
  by (simp_all add: BN254_R_def)

text \<open>The field encoding in closed form: it succeeds exactly on field elements.\<close>

lemma bn254ToBE32_eq:
  "bn254ToBE32 x =
     (if 0 \<le> x \<and> x < BN254_R then Inr (int_to_be 32 x)
      else Inl (newError ''field element out of range''))"
  using BN254_R_bounds by (auto simp: bn254ToBE32_def bigintToBE32_eq)

lemma bn254ToBE32_Inr_iff:
  "bn254ToBE32 x = Inr bs \<longleftrightarrow> length bs = 32 \<and> be_to_int bs = x \<and> x < BN254_R"
proof
  assume "bn254ToBE32 x = Inr bs"
  then have x: "0 \<le> x" "x < BN254_R" and bs: "bs = int_to_be 32 x"
    by (auto simp: bn254ToBE32_eq split: if_splits)
  from x BN254_R_bounds have "x mod 256 ^ 32 = x" by simp
  with x bs show "length bs = 32 \<and> be_to_int bs = x \<and> x < BN254_R"
    by (simp add: be_to_int_to_be)
next
  assume "length bs = 32 \<and> be_to_int bs = x \<and> x < BN254_R"
  then show "bn254ToBE32 x = Inr bs"
    using be_to_int_nonneg [of bs] by (auto simp: bn254ToBE32_eq)
qed

lemma reduceMod_range [simp]: "0 \<le> reduceMod bs" "reduceMod bs < BN254_R"
  by (simp_all add: reduceMod_def BN254_R_def)

section \<open>HKDF-SHA-256\<close>

text \<open>The expansion loop of \<open>hkdfExpand\<close>; \<open>out\<close> is the filled prefix of the output buffer.\<close>

function hkdf_loop :: "lib \<Rightarrow> bytes \<Rightarrow> bytes \<Rightarrow> nat \<Rightarrow> bytes \<Rightarrow> bytes \<Rightarrow> int \<Rightarrow> bytes" where
  "hkdf_loop L prk info len out prev counter =
     (if length out < len then
        let prev' = hmac_sha256 L prk (prev @ info @ u8 counter);
            tk = min (length prev') (len - length out)
        in hkdf_loop L prk info len (out @ take tk prev') prev' (counter + 1)
      else out)"
  by pat_completeness auto
termination
  by (relation "measure (\<lambda>(L, prk, info, len, out, prev, counter). len - length out)") auto

declare hkdf_loop.simps [simp del]

definition hkdfExpand :: "lib \<Rightarrow> bytes \<Rightarrow> bytes \<Rightarrow> nat \<Rightarrow> bytes" where
  "hkdfExpand L ikm info len =
     (let salt = zeros 32;
          prk = hmac_sha256 L salt ikm
      in hkdf_loop L prk info len [] [] 1)"

text \<open>RFC 5869: \<open>T(0)\<close> is empty, \<open>T(i) = HMAC(PRK, T(i-1) | info | i)\<close>, and the output is the
  first \<open>len\<close> bytes of \<open>T(1) | T(2) | ...\<close>.\<close>

fun hkdf_T :: "lib \<Rightarrow> bytes \<Rightarrow> bytes \<Rightarrow> nat \<Rightarrow> bytes" where
  "hkdf_T L prk info 0 = []"
| "hkdf_T L prk info (Suc i) =
     hmac_sha256 L prk (hkdf_T L prk info i @ info @ u8 (int i + 1))"

definition hkdf_stream :: "lib \<Rightarrow> bytes \<Rightarrow> bytes \<Rightarrow> nat \<Rightarrow> bytes" where
  "hkdf_stream L prk info n = concat (map (\<lambda>i. hkdf_T L prk info (Suc i)) [0..<n])"

lemma length_hkdf_stream [simp]: "length (hkdf_stream L prk info n) = 32 * n"
  by (induction n) (simp_all add: hkdf_stream_def)

lemma hkdf_stream_Suc:
  "hkdf_stream L prk info (Suc n) = hkdf_stream L prk info n @ hkdf_T L prk info (Suc n)"
  by (simp add: hkdf_stream_def)

lemma hkdf_loop_step:
  assumes "32 * k < len" and "len \<le> 32 * n"
  shows "hkdf_loop L prk info len (take len (hkdf_stream L prk info k)) (hkdf_T L prk info k) (int k + 1)
       = take len (hkdf_stream L prk info n)"
  using assms
proof (induction "n - k" arbitrary: k)
  case 0
  then show ?case by simp
next
  case (Suc d)
  let ?S = "hkdf_stream L prk info"
  have full: "length (?S k) < len" using Suc.prems by simp
  have grow: "?S k @ take (min 32 (len - 32 * k)) (hkdf_T L prk info (Suc k))
      = take len (?S (Suc k))"
    using full by (simp add: hkdf_stream_Suc min_def)
  have step: "hkdf_loop L prk info len (?S k) (hkdf_T L prk info k) (int k + 1)
      = hkdf_loop L prk info len (take len (?S (Suc k))) (hkdf_T L prk info (Suc k)) (int (Suc k) + 1)"
    using full grow by (subst hkdf_loop.simps) (simp add: Let_def add.commute)
  show ?case
  proof (cases "32 * Suc k < len")
    case True
    moreover have "d = n - Suc k" using Suc.hyps(2) by simp
    ultimately have "hkdf_loop L prk info len (take len (?S (Suc k))) (hkdf_T L prk info (Suc k))
        (int (Suc k) + 1) = take len (?S n)"
      using Suc.hyps(1) [of "Suc k"] Suc.prems by blast
    with step full show ?thesis by simp
  next
    case False
    then have last: "n = Suc k \<or> take len (?S n) = take len (?S (Suc k))"
    proof -
      have "take len (?S n) = take len (?S (Suc k))" if "Suc k \<le> n"
        using that False
      proof (induction n)
        case (Suc n)
        then show ?case
          by (cases "Suc k \<le> n") (auto simp: hkdf_stream_Suc [of _ _ _ n] le_Suc_eq)
      qed simp
      then show ?thesis using Suc.hyps(2) by simp
    qed
    have "length (take len (?S (Suc k))) = len" using False by simp
    then have "hkdf_loop L prk info len (take len (?S (Suc k))) p c = take len (?S (Suc k))" for p c
      by (subst hkdf_loop.simps) simp
    with step full last show ?thesis by auto
  qed
qed

lemma hkdfExpand_stream:
  assumes "len \<le> 32 * n"
  shows "hkdfExpand L ikm info len
       = take len (hkdf_stream L (hmac_sha256 L (zeros 32) ikm) info n)"
proof (cases "len = 0")
  case True
  then show ?thesis by (simp add: hkdfExpand_def hkdf_loop.simps [of _ _ _ _ "[]"])
next
  case False
  then show ?thesis
    using hkdf_loop_step [of 0 len n L "hmac_sha256 L (zeros 32) ikm" info] assms
    by (simp add: hkdfExpand_def hkdf_stream_def)
qed

lemma length_hkdfExpand [simp]: "length (hkdfExpand L ikm info len) = len"
  using hkdfExpand_stream [of len len L ikm info] by simp

section \<open>KMAC256\<close>

text \<open>The loop shared by \<open>leftEncode\<close> and \<open>rightEncode\<close>: bytes are put in front of the
  array until the value is used up.\<close>

function enc_loop :: "int \<Rightarrow> bytes \<Rightarrow> bytes" where
  "enc_loop y bs =
     (if y > 0 then enc_loop (drop_bit 8 y) (word_of_int (y AND 255) # bs) else bs)"
  by pat_completeness auto
termination
  by (relation "measure (\<lambda>(y, bs). nat y)") (auto simp: drop_bit_8)

declare enc_loop.simps [simp del]

definition leftEncode :: "int \<Rightarrow> bytes" where
  "leftEncode x =
     (if x = 0 then [1, 0]
      else let bs = enc_loop x [] in u8 (int (length bs)) @ bs)"

definition rightEncode :: "int \<Rightarrow> bytes" where
  "rightEncode x =
     (if x = 0 then [0, 1]
      else let bs = enc_loop x [] in bs @ u8 (int (length bs)))"

definition encodeString :: "bytes \<Rightarrow> bytes" where
  "encodeString s = leftEncode (int (length s) * 8) @ s"

text \<open>The padding loop of \<open>bytepad\<close>. The width is 136 at every call; at width 0 the source's
  \<open>length % 0\<close> is \<open>NaN\<close> and its loop would not end, a case no caller reaches.\<close>

function pad_loop :: "bytes \<Rightarrow> nat \<Rightarrow> bytes" where
  "pad_loop out w = (if w \<noteq> 0 \<and> length out mod w \<noteq> 0 then pad_loop (out @ [0]) w else out)"
  by pat_completeness auto
termination
proof (relation "measure (\<lambda>(out, w). (w - length out mod w) mod w)")
  fix out :: bytes and w :: nat
  assume w: "w \<noteq> 0 \<and> length out mod w \<noteq> 0"
  then have "length out mod w < w" by simp
  with w show "((out @ [0], w), (out, w)) \<in> measure (\<lambda>(out, w). (w - length out mod w) mod w)"
    by (auto simp: mod_Suc)
qed simp

declare pad_loop.simps [simp del]

definition bytepad :: "bytes \<Rightarrow> nat \<Rightarrow> bytes" where
  "bytepad x w = pad_loop (leftEncode (int w) @ x) w"

text \<open>The bytes fed to SHAKE256, in the order of the four \<open>update\<close> calls.\<close>

definition kmac_input :: "bytes \<Rightarrow> bytes \<Rightarrow> bytes \<Rightarrow> nat \<Rightarrow> bytes" where
  "kmac_input key customInfo data outLen =
     (let name = utf8 ''KMAC'';
          header = encodeString name @ encodeString customInfo;
          paddedHeader = bytepad header 136;
          paddedKey = bytepad (encodeString key) 136;
          bits = int outLen * 8
      in paddedHeader @ paddedKey @ data @ rightEncode bits)"

definition kmac256 :: "lib \<Rightarrow> bytes \<Rightarrow> bytes \<Rightarrow> bytes \<Rightarrow> nat \<Rightarrow> bytes" where
  "kmac256 L key customInfo data outLen =
     shake256 L outLen (kmac_input key customInfo data outLen)"

subsection \<open>The encodings parse uniquely\<close>

lemma enc_loop_append: "enc_loop y bs = enc_loop y [] @ bs"
proof (induction "nat y" arbitrary: y bs rule: less_induct)
  case less
  show ?case
  proof (cases "y > 0")
    case True
    let ?b = "word_of_int (y AND 255) :: byte"
    have small: "nat (drop_bit 8 y) < nat y" using True by (simp add: drop_bit_8)
    have "enc_loop y bs = enc_loop (drop_bit 8 y) (?b # bs)" for bs
      using True by (simp add: enc_loop.simps [of y])
    with less [OF small, of "?b # bs"] less [OF small, of "[?b]"] show ?thesis by simp
  next
    case False
    then show ?thesis by (simp add: enc_loop.simps [of y])
  qed
qed

lemma enc_loop_pos: "y > 0 \<Longrightarrow> enc_loop y [] = enc_loop (y div 256) [] @ [word_of_int y]"
  using enc_loop_append [of "y div 256" "[word_of_int y]"]
  by (simp add: enc_loop.simps [of y] byte_and_255 drop_bit_8)

lemma enc_loop_nonpos [simp]: "y \<le> 0 \<Longrightarrow> enc_loop y [] = []"
  by (simp add: enc_loop.simps [of y])

lemma be_to_int_enc_loop: "0 \<le> y \<Longrightarrow> be_to_int (enc_loop y []) = y"
proof (induction "nat y" arbitrary: y rule: less_induct)
  case less
  show ?case
  proof (cases "y > 0")
    case True
    then have "be_to_int (enc_loop (y div 256) []) = y div 256"
      using less.hyps [of "y div 256"] by simp
    with True show ?thesis by (simp add: enc_loop_pos be_to_int_snoc uint_word_of_int)
  next
    case False
    with less.prems show ?thesis by simp
  qed
qed

lemma length_enc_loop: "0 \<le> y \<Longrightarrow> y < 256 ^ k \<Longrightarrow> length (enc_loop y []) \<le> k"
proof (induction k arbitrary: y)
  case 0
  then show ?case by simp
next
  case (Suc k)
  show ?case
  proof (cases "y > 0")
    case True
    from Suc.prems have "y div 256 < 256 ^ k" by (simp add: div_less_iff_less_mult mult.commute)
    with Suc.IH [of "y div 256"] True show ?thesis by (simp add: enc_loop_pos)
  next
    case False
    then show ?thesis by simp
  qed
qed

lemma u8_length_inject:
  assumes "u8 (int m) = u8 (int n)" and "m < 256" and "n < 256"
  shows "m = n"
proof -
  from assms(1) have "(word_of_int (int m) :: byte) = word_of_int (int n)" by (simp add: u8_def)
  then have "uint (word_of_int (int m) :: byte) = uint (word_of_int (int n) :: byte)"
    by (rule arg_cong)
  with assms(2,3) show ?thesis by (simp only: uint_word_of_int) simp
qed

lemma leftEncode_form:
  assumes "0 \<le> x" and "x < 256 ^ 255"
  obtains bs where "leftEncode x = u8 (int (length bs)) @ bs" and "be_to_int bs = x"
    and "length bs < 256"
proof (cases "x = 0")
  case True
  have "leftEncode x = u8 (int (length [0 :: byte])) @ [0]"
    using True by (simp add: leftEncode_def u8_def)
  moreover have "be_to_int [0] = x" using True be_to_int_snoc [of "[]" 0] by simp
  ultimately show ?thesis using that [of "[0]"] by simp
next
  case False
  from assms have "length (enc_loop x []) \<le> 255" by (rule length_enc_loop)
  with False assms show ?thesis
    using that [of "enc_loop x []"] by (simp add: leftEncode_def be_to_int_enc_loop Let_def)
qed

lemma leftEncode_prefix_free:
  assumes "leftEncode x @ r = leftEncode y @ t"
    and "0 \<le> x" "x < 256 ^ 255" "0 \<le> y" "y < 256 ^ 255"
  shows "x = y \<and> r = t"
proof -
  obtain a where a: "leftEncode x = u8 (int (length a)) @ a" "be_to_int a = x" "length a < 256"
    using assms(2,3) by (rule leftEncode_form)
  obtain b where b: "leftEncode y = u8 (int (length b)) @ b" "be_to_int b = y" "length b < 256"
    using assms(4,5) by (rule leftEncode_form)
  from assms(1) a b have eq: "u8 (int (length a)) @ a @ r = u8 (int (length b)) @ b @ t"
    by simp
  then have "u8 (int (length a)) = u8 (int (length b))" and rest: "a @ r = b @ t"
    by (simp_all add: u8_def)
  then have "length a = length b" using a(3) b(3) u8_length_inject by blast
  with rest have "a = b \<and> r = t" by simp
  with a(2) b(2) show ?thesis by auto
qed

definition enc_ok :: "bytes \<Rightarrow> bool" where
  "enc_ok s \<longleftrightarrow> int (length s) * 8 < 256 ^ 255"

lemma encodeString_prefix_free:
  assumes "encodeString s @ r = encodeString u @ t" and "enc_ok s" and "enc_ok u"
  shows "s = u \<and> r = t"
proof -
  from assms(1) have "leftEncode (int (length s) * 8) @ s @ r = leftEncode (int (length u) * 8) @ u @ t"
    by (simp add: encodeString_def)
  then have "int (length s) * 8 = int (length u) * 8 \<and> s @ r = u @ t"
    by (rule leftEncode_prefix_free) (use assms(2,3) in \<open>simp_all add: enc_ok_def\<close>)
  then show ?thesis by auto
qed

lemma pad_loop_eq:
  "w \<noteq> 0 \<Longrightarrow> pad_loop out w = out @ zeros ((w - length out mod w) mod w)"
proof (induction out w rule: pad_loop.induct)
  case (1 out w)
  show ?case
  proof (cases "length out mod w = 0")
    case True
    then show ?thesis by (simp add: pad_loop.simps [of out] zeros_def)
  next
    case False
    with 1 have IH: "pad_loop (out @ [0]) w
        = (out @ [0]) @ zeros ((w - length (out @ [0]) mod w) mod w)" by blast
    have "length out mod w < w" using 1 by simp
    with False have "(w - length out mod w) mod w
        = Suc ((w - length (out @ [0]) mod w) mod w)"
      by (auto simp: mod_Suc)
    with False IH 1 show ?thesis by (simp add: pad_loop.simps [of out] zeros_def)
  qed
qed

lemma length_bytepad: "w \<noteq> 0 \<Longrightarrow> length (bytepad x w) mod w = 0"
proof -
  assume w: "w \<noteq> 0"
  let ?n = "length (leftEncode (int w) @ x)"
  have "(?n + (w - ?n mod w) mod w) mod w = (?n mod w + (w - ?n mod w)) mod w"
    by (simp add: mod_simps)
  also have "\<dots> = 0" using w by (simp add: less_imp_le)
  finally show ?thesis using w by (simp add: bytepad_def pad_loop_eq add.assoc)
qed

lemma bytepad_136: "bytepad x 136 = leftEncode 136 @ x @ zeros ((136 - length (leftEncode 136 @ x) mod 136) mod 136)"
  by (simp add: bytepad_def pad_loop_eq)

lemma kmac_input_injective:
  assumes eq: "kmac_input k c d n = kmac_input k' c' d' n"
    and ok: "enc_ok k" "enc_ok c" "enc_ok k'" "enc_ok c'"
  shows "k = k' \<and> c = c' \<and> d = d'"
proof -
  let ?z = "\<lambda>x. zeros ((136 - length (leftEncode 136 @ x) mod 136) mod 136)"
  let ?K = "encodeString (utf8 ''KMAC'')"
  let ?rest = "\<lambda>k c d. ?z (?K @ encodeString c) @ bytepad (encodeString k) 136 @ d @ rightEncode (int n * 8)"
  from eq have "encodeString c @ ?rest k c d = encodeString c' @ ?rest k' c' d'"
    by (simp add: kmac_input_def Let_def bytepad_136)
  then have c: "c = c'" and rest: "?rest k c d = ?rest k' c' d'"
    using encodeString_prefix_free ok by blast+
  from c rest have "encodeString k @ ?z (encodeString k) @ d @ rightEncode (int n * 8)
      = encodeString k' @ ?z (encodeString k') @ d' @ rightEncode (int n * 8)"
    by (simp add: bytepad_136)
  then have k: "k = k'" and
      "?z (encodeString k) @ d @ rightEncode (int n * 8)
       = ?z (encodeString k') @ d' @ rightEncode (int n * 8)"
    using encodeString_prefix_free ok by blast+
  then show ?thesis using c by simp
qed

section \<open>Key derivation\<close>

definition INFO_SPENDING :: bytes where "INFO_SPENDING = utf8 ''darkpool_spend_key_v1''"
definition INFO_VIEWING :: bytes where "INFO_VIEWING = utf8 ''darkpool_viewing_key_v1''"
definition INFO_TRADING :: bytes where "INFO_TRADING = utf8 ''darkpool_trading_key_v1''"
definition INFO_ROOT :: bytes where "INFO_ROOT = utf8 ''darkpool_root_key_v1''"
definition INFO_BLINDING :: bytes where "INFO_BLINDING = utf8 ''note_blinding_v1''"

definition deriveSpendingKey :: "lib \<Rightarrow> bytes \<Rightarrow> int" where
  "deriveSpendingKey L seed = reduceMod (hkdfExpand L seed INFO_SPENDING 64)"

definition deriveMasterViewingKey :: "lib \<Rightarrow> bytes \<Rightarrow> int" where
  "deriveMasterViewingKey L seed = reduceMod (kmac256 L seed INFO_VIEWING [] 64)"

text \<open>\<open>Ed25519RawKeypair\<close> has one field, the 32-byte secret seed.\<close>

record Ed25519RawKeypair =
  secretKey :: bytes

definition deriveTradingKeyAtOffset :: "lib \<Rightarrow> bytes \<Rightarrow> int \<Rightarrow> Ed25519RawKeypair" where
  "deriveTradingKeyAtOffset L seed offset =
     (let info = INFO_TRADING @ u64LE offset
      in \<lparr>secretKey = hkdfExpand L seed info 32\<rparr>)"

definition deriveRootKey :: "lib \<Rightarrow> bytes \<Rightarrow> Ed25519RawKeypair" where
  "deriveRootKey L seed = \<lparr>secretKey = hkdfExpand L seed INFO_ROOT 32\<rparr>"

definition deriveBlindingFactor :: "lib \<Rightarrow> bytes \<Rightarrow> int \<Rightarrow> int" where
  "deriveBlindingFactor L seed counter =
     (let info = INFO_BLINDING @ u64LE counter
      in reduceMod (kmac256 L seed info [] 64))"

definition rotateTradingKey :: "lib \<Rightarrow> bytes \<Rightarrow> int \<Rightarrow> int \<times> Ed25519RawKeypair" where
  "rotateTradingKey L seed currentOffset =
     (let nextOffset = currentOffset + 1
      in (nextOffset, deriveTradingKeyAtOffset L seed nextOffset))"

lemma derived_scalars_in_field [simp]:
  "0 \<le> deriveSpendingKey L seed" "deriveSpendingKey L seed < BN254_R"
  "0 \<le> deriveMasterViewingKey L seed" "deriveMasterViewingKey L seed < BN254_R"
  "0 \<le> deriveBlindingFactor L seed n" "deriveBlindingFactor L seed n < BN254_R"
  by (simp_all add: deriveSpendingKey_def deriveMasterViewingKey_def deriveBlindingFactor_def Let_def)

lemma length_derived_keys [simp]:
  "length (secretKey (deriveTradingKeyAtOffset L seed n)) = 32"
  "length (secretKey (deriveRootKey L seed)) = 32"
  by (simp_all add: deriveTradingKeyAtOffset_def deriveRootKey_def Let_def)

lemma hkdf_32:
  "hkdfExpand L seed info 32 = hmac_sha256 L (hmac_sha256 L (zeros 32) seed) (info @ u8 1)"
  using hkdfExpand_stream [of 32 1 L seed info] by (simp add: hkdf_stream_def)

section \<open>The master seed\<close>

text \<open>\<open>MasterSeedStorage\<close> and \<open>MasterSeedMode\<close> of \<open>providers.ts\<close>; \<open>'w\<close> is the state of the
  world the injected functions act on.\<close>

record 'w MasterSeedStorage =
  ms_load :: "('w, js_error, bytes option) io"
  ms_store :: "bytes \<Rightarrow> ('w, js_error, unit) io"
  ms_generate :: "('w, js_error, bytes) io"

datatype 'w MasterSeedMode =
    Csprng "'w MasterSeedStorage"
  | WalletSignature "bytes \<Rightarrow> ('w, js_error, bytes) io" "bytes option"

definition generateMasterSeed :: "(nat \<Rightarrow> ('w, js_error, bytes) io) \<Rightarrow> ('w, js_error, bytes) io" where
  "generateMasterSeed randomBytes = randomBytes MASTER_SEED_BYTES"

definition resolveMasterSeed ::
    "lib \<Rightarrow> (nat \<Rightarrow> ('w, js_error, bytes) io) \<Rightarrow> 'w MasterSeedMode \<Rightarrow> ('w, js_error, bytes) io" where
  "resolveMasterSeed L randomBytes mode =
     (case mode of
        Csprng storage \<Rightarrow>
          io_bind (ms_load storage) (\<lambda>existing.
            case existing of
              Some s \<Rightarrow> io_return s
            | None \<Rightarrow>
                io_bind (generateMasterSeed randomBytes) (\<lambda>fresh.
                io_bind (ms_store storage fresh) (\<lambda>_.
                io_return fresh)))
      | WalletSignature signMessage message \<Rightarrow>
          (let msg = (case message of Some m \<Rightarrow> m | None \<Rightarrow> utf8 ''NYX_DARKPOOL_SEED_V1'')
           in io_bind (signMessage msg) (\<lambda>sig.
              io_return (take MASTER_SEED_BYTES (sha512 L sig)))))"

text \<open>What the code relies on in a storage: a stored seed is the one loaded afterwards, and
  loading changes nothing.\<close>

definition storage_persists :: "'w MasterSeedStorage \<Rightarrow> bool" where
  "storage_persists st \<longleftrightarrow>
     (\<forall>w w' s. ms_store st s w = (Inr (), w') \<longrightarrow> ms_load st w' = (Inr (Some s), w')) \<and>
     (\<forall>w w' r. ms_load st w = (Inr r, w') \<longrightarrow> w' = w)"

section \<open>A concrete library\<close>

text \<open>An instance of the external functions, for concrete runs: digests are the message read
  as a number, the program address is the first 32 bytes of the concatenated seeds.\<close>

definition ref_lib :: lib where
  "ref_lib = \<lparr>
     sha256_digest = (\<lambda>m. word_of_int (be_to_int m)),
     hmac_sha256_digest = (\<lambda>k m. word_of_int (be_to_int k + be_to_int m)),
     sha512_digest = (\<lambda>m. word_of_int (be_to_int m)),
     shake256 = (\<lambda>n m. int_to_be n (be_to_int m)),
     poseidon = (\<lambda>xs. sum_list xs mod BN254_R),
     findProgramAddressSync = (\<lambda>seeds pid. Inr (bytes_to_word (take 32 (concat seeds)), 255)),
     pubkeyOfBase58 = (\<lambda>s. bytes_to_word (utf8 s)),
     pubkey_toBase58 = (\<lambda>k. nat_toString (unat k)),
     SystemProgram_programId = 0,
     SYSVAR_INSTRUCTIONS_PUBKEY = 1\<rparr>"

definition poseidon_canonical :: "lib \<Rightarrow> bool" where
  "poseidon_canonical L \<longleftrightarrow> (\<forall>xs. 0 \<le> poseidon L xs \<and> poseidon L xs < BN254_R)"

lemma ref_lib_canonical [simp]: "poseidon_canonical ref_lib"
  by (simp add: poseidon_canonical_def ref_lib_def BN254_R_def)

section \<open>Properties\<close>

text \<open>(C39) \<open>hkdfExpand\<close> is HKDF-SHA-256 of RFC 5869 with a zero salt: for every input key, info
  string and length it returns the first \<open>len\<close> bytes of \<open>T(1) | T(2) | ...\<close>, so it always
  returns, with exactly \<open>len\<close> bytes.\<close>

theorem hkdfExpand_is_rfc5869:
  "hkdfExpand L ikm info len
     = take len (hkdf_stream L (hmac_sha256 L (zeros 32) ikm) info ((len + 31) div 32))
   \<and> length (hkdfExpand L ikm info len) = len"
proof -
  have "len \<le> 32 * ((len + 31) div 32)" by arith
  then show ?thesis using hkdfExpand_stream by simp
qed

text \<open>\<open>bn254ToBE32\<close> accepts exactly the canonical field elements \<open>0 \<le> x < r\<close>, its result
  has 32 bytes and reads back as \<open>x\<close>, and every other integer is the error "field element out of
  range".\<close>

theorem bn254ToBE32_roundtrip:
  "if 0 \<le> x \<and> x < BN254_R
   then \<exists>bs. bn254ToBE32 x = Inr bs \<and> length bs = 32 \<and> be_to_int bs = x
   else bn254ToBE32 x = Inl (newError ''field element out of range'')"
proof (cases "0 \<le> x \<and> x < BN254_R")
  case True
  then have "bn254ToBE32 x = Inr (int_to_be 32 x)" by (simp add: bn254ToBE32_eq)
  with True bn254ToBE32_Inr_iff show ?thesis by metis
next
  case False
  then show ?thesis by (auto simp: bn254ToBE32_eq)
qed

text \<open>(C40) Domain separation of KMAC256: with the same output length, two outputs are equal
  exactly when the key, the customisation string and the data are, as long as SHAKE256 does not
  collide on the two strings hashed, for any arguments whose bit length fits the one-byte length
  of \<open>leftEncode\<close>.\<close>

theorem kmac256_domain_separation:
  assumes "inj_on (shake256 L n) {kmac_input key c d n, kmac_input key' c' d' n}"
    and "enc_ok key" "enc_ok c" "enc_ok key'" "enc_ok c'"
  shows "kmac256 L key c d n = kmac256 L key' c' d' n \<longleftrightarrow> key = key' \<and> c = c' \<and> d = d'"
proof
  assume "kmac256 L key c d n = kmac256 L key' c' d' n"
  with assms(1) have "kmac_input key c d n = kmac_input key' c' d' n"
    by (simp only: kmac256_def inj_on_pair)
  then show "key = key' \<and> c = c' \<and> d = d'" using assms(2-5) by (rule kmac_input_injective)
qed simp

definition tagged_lib :: lib where
  "tagged_lib = ref_lib \<lparr>shake256 := (\<lambda>n m. m)\<rparr>"

theorem kmac256_domain_separation_witness:
  "kmac256 tagged_lib [1] INFO_VIEWING [] 64 \<noteq> kmac256 tagged_lib [1] INFO_BLINDING [] 64"
proof -
  have inj: "inj_on (shake256 tagged_lib n) S" for n S by (simp add: tagged_lib_def inj_on_def)
  have ok: "enc_ok [1]" "enc_ok INFO_VIEWING" "enc_ok INFO_BLINDING"
    by (simp_all add: enc_ok_def INFO_VIEWING_def INFO_BLINDING_def)
  have "INFO_VIEWING \<noteq> INFO_BLINDING"
    by (rule notI, drule arg_cong [where f = length]) (simp add: INFO_VIEWING_def INFO_BLINDING_def)
  then show ?thesis
    using kmac256_domain_separation [OF inj ok(1) ok(2) ok(1) ok(3)] by blast
qed

text \<open>Rotation of the trading key: the next offset is the current one plus one, the key
  depends on the offset modulo \<open>2 ^ 64\<close> only (the offset wraps), and two offsets in range give
  the same key exactly when they are equal, as long as HMAC-SHA-256 under the extracted key does
  not collide on the two info strings.\<close>

theorem rotateTradingKey_offsets:
  assumes "u64_range a" and "u64_range b"
    and "inj_on (hmac_sha256 L (hmac_sha256 L (zeros 32) seed))
           {INFO_TRADING @ u64LE a @ u8 1, INFO_TRADING @ u64LE b @ u8 1}"
  shows "rotateTradingKey L seed a = (a + 1, deriveTradingKeyAtOffset L seed (a + 1))
     \<and> deriveTradingKeyAtOffset L seed (a + 2 ^ 64) = deriveTradingKeyAtOffset L seed a
     \<and> (deriveTradingKeyAtOffset L seed a = deriveTradingKeyAtOffset L seed b \<longleftrightarrow> a = b)"
proof (intro conjI iffI)
  show "rotateTradingKey L seed a = (a + 1, deriveTradingKeyAtOffset L seed (a + 1))"
    by (simp add: rotateTradingKey_def Let_def)
  have "u64LE (a + 2 ^ 64) = u64LE a" by (simp add: u64LE_inject)
  then show "deriveTradingKeyAtOffset L seed (a + 2 ^ 64) = deriveTradingKeyAtOffset L seed a"
    by (simp add: deriveTradingKeyAtOffset_def)
next
  let ?k = "hmac_sha256 L (zeros 32) seed"
  let ?m = "\<lambda>x. INFO_TRADING @ u64LE x @ u8 1"
  assume "deriveTradingKeyAtOffset L seed a = deriveTradingKeyAtOffset L seed b"
  then have "hmac_sha256 L ?k (?m a) = hmac_sha256 L ?k (?m b)"
    by (simp add: deriveTradingKeyAtOffset_def Let_def hkdf_32)
  with assms(3) have "?m a = ?m b" by (simp only: inj_on_pair)
  then show "a = b" using assms(1,2) by (simp add: u64LE_inj_range)
qed simp

definition offset_lib :: lib where
  "offset_lib = ref_lib \<lparr>hmac_sha256_digest := (\<lambda>k m. bytes_to_word (drop 23 m))\<rparr>"

theorem rotateTradingKey_offsets_witness:
  "rotateTradingKey offset_lib [7] 0 = (1, deriveTradingKeyAtOffset offset_lib [7] 1) \<and>
   deriveTradingKeyAtOffset offset_lib [7] 0 \<noteq> deriveTradingKeyAtOffset offset_lib [7] 1"
proof -
  have r: "u64_range 0" "u64_range 1" by (simp_all add: u64_range_def)
  have hm: "hmac_sha256 offset_lib k (INFO_TRADING @ u64LE x @ u8 1)
      = toBytes (bytes_to_word (u64LE x @ u8 1))" for k x
    by (simp add: hmac_sha256_def offset_lib_def INFO_TRADING_def)
  have "bytes_to_word (u64LE 0 @ u8 1) \<noteq> bytes_to_word (u64LE 1 @ u8 1)"
    by (simp add: bytes_to_word_def u64LE_def u8_def be_to_int_rev int_to_le_numeral)
  then have "inj_on (hmac_sha256 offset_lib (hmac_sha256 offset_lib (zeros 32) [7]))
          {INFO_TRADING @ u64LE 0 @ u8 1, INFO_TRADING @ u64LE 1 @ u8 1}"
    by (simp only: inj_on_pair hm toBytes_inject simp_thms)
  then show ?thesis using rotateTradingKey_offsets [OF r, of offset_lib "[7]"] by simp
qed

text \<open>A master seed resolved from a persisting CSPRNG storage is stable: if the first
  resolution returns a seed, resolving again in the resulting world returns the same seed and
  changes nothing.\<close>

theorem resolveMasterSeed_stable:
  assumes "storage_persists st"
    and "resolveMasterSeed L rng (Csprng st) w = (Inr seed, w')"
  shows "resolveMasterSeed L rng' (Csprng st) w' = (Inr seed, w')"
proof -
  from assms(2) obtain ex w1 where load: "ms_load st w = (Inr ex, w1)"
    by (auto simp: resolveMasterSeed_def io_bind_eq_Inr)
  with assms(1) have w1: "w1 = w" by (auto simp: storage_persists_def)
  have "ms_load st w' = (Inr (Some seed), w')"
  proof (cases ex)
    case (Some s)
    with assms(2) load w1 show ?thesis by (simp add: resolveMasterSeed_def io_simps)
  next
    case None
    with assms(2) load obtain w2 where "ms_store st seed w2 = (Inr (), w')"
      by (auto simp: resolveMasterSeed_def io_simps io_bind_eq_Inr)
    with assms(1) show ?thesis by (auto simp: storage_persists_def)
  qed
  then show ?thesis by (simp add: resolveMasterSeed_def io_simps)
qed

definition memory_storage :: "(bytes option) MasterSeedStorage" where
  "memory_storage = \<lparr>ms_load = (\<lambda>w. (Inr w, w)), ms_store = (\<lambda>s w. (Inr (), Some s)),
     ms_generate = (\<lambda>w. (Inr (zeros 64), w))\<rparr>"

theorem resolveMasterSeed_stable_witness:
  "storage_persists memory_storage \<and>
   resolveMasterSeed ref_lib (\<lambda>n w. (Inr (zeros n), w)) (Csprng memory_storage) None
     = (Inr (zeros 64), Some (zeros 64)) \<and>
   resolveMasterSeed ref_lib (\<lambda>n w. (Inr [], w)) (Csprng memory_storage) (Some (zeros 64))
     = (Inr (zeros 64), Some (zeros 64))"
proof -
  have p: "storage_persists memory_storage"
    by (simp add: storage_persists_def memory_storage_def)
  have r: "resolveMasterSeed ref_lib (\<lambda>n w. (Inr (zeros n), w)) (Csprng memory_storage) None
     = (Inr (zeros 64), Some (zeros 64))"
    by (simp add: resolveMasterSeed_def memory_storage_def io_bind_def generateMasterSeed_def
        MASTER_SEED_BYTES_def)
  show ?thesis using resolveMasterSeed_stable [OF p r] p r by blast
qed

end
