(* ===== verification/Nyx_Note.thy ===== *)
theory Nyx_Note
  imports Nyx_Keys
begin

unbundle bit_operations_syntax

text \<open>
  \<open>packages/sdk/src/utxo/note.ts\<close>, \<open>keys/user-commitment.ts\<close> and \<open>keys/viewing-keys.ts\<close>:
  notes and the Poseidon commitments built on them. The cached Poseidon instance of each module is
  the parameter \<open>poseidon\<close>; each function hashes a list of integers and encodes the result as a
  field element. Proved here: the commitments are total on well-formed input, 32 bytes long and
  canonical, and equal commitments mean equal notes or a Poseidon collision.
\<close>

text \<open>\<open>poseidonHashBytesBE\<close>.\<close>

definition poseidonHashBytesBE :: "lib \<Rightarrow> int list \<Rightarrow> js_error + bytes" where
  "poseidonHashBytesBE L inputs = bn254ToBE32 (poseidon L inputs)"

text \<open>\<open>pubkeyToFrPair\<close>: the high half is the first 16 bytes, the low half the last 16; the
  pair is \<open>[lo, hi]\<close>.\<close>

definition pubkeyToFrPair :: "bytes \<Rightarrow> js_error + int \<times> int" where
  "pubkeyToFrPair pk =
     (if length pk \<noteq> 32 then Inl (newError ''pubkey must be 32 bytes'')
      else let hi = be_to_int (slice pk 0 16);
               lo = be_to_int (slice pk 16 16)
           in Inr (lo, hi))"

record Note =
  nt_tokenMint :: bytes
  nt_amount :: int
  nt_ownerCommitment :: int
  nt_nonce :: int
  nt_blindingR :: int

definition noteCommitment :: "lib \<Rightarrow> Note \<Rightarrow> js_error + bytes" where
  "noteCommitment L note =
     rbind (pubkeyToFrPair (nt_tokenMint note)) (\<lambda>(lo, hi).
       poseidonHashBytesBE L
         [lo, hi, nt_amount note, nt_ownerCommitment note, nt_nonce note, nt_blindingR note])"

definition ownerCommitment :: "lib \<Rightarrow> int \<Rightarrow> int \<Rightarrow> int" where
  "ownerCommitment L spendingKey blinding = poseidon L [spendingKey, blinding]"

definition nullifier :: "lib \<Rightarrow> int \<Rightarrow> bytes \<Rightarrow> js_error + bytes" where
  "nullifier L spendingKey commitmentBE =
     (if length commitmentBE \<noteq> 32 then Inl (newError ''commitment must be 32 bytes'')
      else let cBig = be_to_int commitmentBE
           in bn254ToBE32 (poseidon L [spendingKey, cBig]))"

text \<open>\<open>UserCommitmentInputs\<close> and \<open>userCommitmentFromKeys\<close>: no trading key among the inputs.\<close>

record UserCommitmentInputs =
  uc_rootKeyPubkey :: bytes
  uc_spendingKey :: int
  uc_viewingKey :: int
  uc_r0 :: int
  uc_r1 :: int
  uc_r2 :: int

definition userCommitmentFromKeys :: "lib \<Rightarrow> UserCommitmentInputs \<Rightarrow> js_error + bytes" where
  "userCommitmentFromKeys L inputs =
     (if length (uc_rootKeyPubkey inputs) \<noteq> 32
      then Inl (newError ''rootKeyPubkey must be 32 bytes'')
      else rbind (pubkeyToFrPair (uc_rootKeyPubkey inputs)) (\<lambda>(rootLo, rootHi).
        let rootHash = poseidon L [rootLo, rootHi, uc_r0 inputs];
            spendHash = poseidon L [uc_spendingKey inputs, uc_r1 inputs];
            viewHash = poseidon L [uc_viewingKey inputs, uc_r2 inputs];
            leafPair = poseidon L [rootHash, spendHash];
            commitment = poseidon L [leafPair, viewHash]
        in bn254ToBE32 commitment))"

definition deriveViewingKeyForPair :: "lib \<Rightarrow> int \<Rightarrow> bytes \<Rightarrow> bytes \<Rightarrow> js_error + int" where
  "deriveViewingKeyForPair L mvk baseMint quoteMint =
     rbind (pubkeyToFrPair baseMint) (\<lambda>(bLo, bHi).
     rbind (pubkeyToFrPair quoteMint) (\<lambda>(qLo, qHi).
       Inr (poseidon L [mvk, bLo, bHi, qLo, qHi])))"

definition deriveMonthlyViewingKey :: "lib \<Rightarrow> int \<Rightarrow> int \<Rightarrow> int \<Rightarrow> int" where
  "deriveMonthlyViewingKey L pairVk year month =
     (let yearly = poseidon L [pairVk, year] in poseidon L [yearly, month])"

section \<open>Lemmas\<close>

lemma pubkeyToFrPair_Inr_iff:
  "(\<exists>p. pubkeyToFrPair pk = Inr p) \<longleftrightarrow> length pk = 32"
  by (auto simp: pubkeyToFrPair_def Let_def)

text \<open>The two halves determine the key, and both are below \<open>2 ^ 128\<close>, so they are field
  elements.\<close>

lemma pubkeyToFrPair_value:
  assumes "length pk = 32"
  obtains lo hi where "pubkeyToFrPair pk = Inr (lo, hi)"
    and "be_to_int pk = hi * 2 ^ 128 + lo"
    and "0 \<le> lo" "lo < 2 ^ 128" "0 \<le> hi" "hi < 2 ^ 128"
proof -
  let ?hi = "slice pk 0 16" and ?lo = "slice pk 16 16"
  have split: "pk = ?hi @ ?lo" using assms by (simp add: slice_def)
  have len: "length ?hi = 16" "length ?lo = 16" using assms by (simp_all add: slice_def)
  have "be_to_int pk = be_to_int ?hi * 2 ^ 128 + be_to_int ?lo"
    using len by (subst split) (simp add: be_to_int_append)
  moreover have "be_to_int ?hi < 2 ^ 128" "be_to_int ?lo < 2 ^ 128"
    using be_to_int_bound [of ?hi] be_to_int_bound [of ?lo] len by simp_all
  ultimately show ?thesis
    using that [of "be_to_int ?lo" "be_to_int ?hi"] assms
    by (simp add: pubkeyToFrPair_def Let_def)
qed

lemma pubkeyToFrPair_inject:
  assumes "pubkeyToFrPair a = Inr p" and "pubkeyToFrPair b = Inr p"
  shows "a = b"
proof -
  have la: "length a = 32" and lb: "length b = 32"
    using assms pubkeyToFrPair_Inr_iff by blast+
  obtain lo hi where a: "pubkeyToFrPair a = Inr (lo, hi)" "be_to_int a = hi * 2 ^ 128 + lo"
    using la by (rule pubkeyToFrPair_value)
  obtain lo' hi' where b: "pubkeyToFrPair b = Inr (lo', hi')" "be_to_int b = hi' * 2 ^ 128 + lo'"
    using lb by (rule pubkeyToFrPair_value)
  from assms a b have "be_to_int a = be_to_int b" by auto
  then show ?thesis using la lb be_to_int_inject by simp
qed

lemma poseidonHashBytesBE_ok:
  assumes "poseidon_canonical L"
  obtains bs where "poseidonHashBytesBE L xs = Inr bs" and "length bs = 32"
    and "be_to_int bs = poseidon L xs"
proof -
  have "0 \<le> poseidon L xs" "poseidon L xs < BN254_R"
    using assms by (simp_all add: poseidon_canonical_def)
  then obtain bs where "bn254ToBE32 (poseidon L xs) = Inr bs"
    by (simp add: bn254ToBE32_eq)
  then show ?thesis
    using that [of bs] by (simp add: poseidonHashBytesBE_def bn254ToBE32_Inr_iff)
qed

lemma bn254ToBE32_inject: "bn254ToBE32 x = Inr bs \<Longrightarrow> bn254ToBE32 y = Inr bs \<Longrightarrow> x = y"
  by (auto simp: bn254ToBE32_Inr_iff)

lemma noteCommitment_length: "noteCommitment L n = Inr c \<Longrightarrow> length c = 32"
  by (auto simp: noteCommitment_def poseidonHashBytesBE_def rbind_eq_Inr bn254ToBE32_Inr_iff
      split: prod.splits)

lemma nullifier_length: "nullifier L k c = Inr n \<Longrightarrow> length n = 32"
  by (auto simp: nullifier_def bn254ToBE32_Inr_iff Let_def split: if_splits)

lemma noteCommitment_total:
  assumes "poseidon_canonical L" and "length (nt_tokenMint n) = 32"
  obtains c where "noteCommitment L n = Inr c"
proof -
  obtain lo hi where p: "pubkeyToFrPair (nt_tokenMint n) = Inr (lo, hi)"
    using assms(2) by (rule pubkeyToFrPair_value)
  obtain bs where "poseidonHashBytesBE L
      [lo, hi, nt_amount n, nt_ownerCommitment n, nt_nonce n, nt_blindingR n] = Inr bs"
    using assms(1) by (rule poseidonHashBytesBE_ok)
  with p show ?thesis using that by (simp add: noteCommitment_def)
qed

section \<open>Properties\<close>

text \<open>The six field elements a note commits to.\<close>

definition noteInputs :: "Note \<Rightarrow> int list" where
  "noteInputs n =
     [be_to_int (slice (nt_tokenMint n) 16 16), be_to_int (slice (nt_tokenMint n) 0 16),
      nt_amount n, nt_ownerCommitment n, nt_nonce n, nt_blindingR n]"

lemma noteCommitment_Inr:
  "noteCommitment L n = Inr c \<longleftrightarrow>
     length (nt_tokenMint n) = 32 \<and> bn254ToBE32 (poseidon L (noteInputs n)) = Inr c"
  by (auto simp: noteCommitment_def poseidonHashBytesBE_def pubkeyToFrPair_def noteInputs_def)

lemma noteInputs_inject:
  assumes "noteInputs m = noteInputs n"
    and "length (nt_tokenMint m) = 32" "length (nt_tokenMint n) = 32"
  shows "m = n"
proof -
  have "pubkeyToFrPair (nt_tokenMint m) = pubkeyToFrPair (nt_tokenMint n)"
    using assms by (simp add: pubkeyToFrPair_def noteInputs_def)
  moreover obtain p where "pubkeyToFrPair (nt_tokenMint m) = Inr p"
    using assms(2) pubkeyToFrPair_Inr_iff by blast
  ultimately have "nt_tokenMint m = nt_tokenMint n" using pubkeyToFrPair_inject by metis
  with assms(1) show ?thesis by (simp add: noteInputs_def)
qed

text \<open>(C34) A note commitment is total and binding: with a canonical Poseidon, a note with a
  32-byte mint has a commitment of 32 bytes, and another note has the same commitment exactly when
  it is the same note in all five fields, mint included, as long as Poseidon does not collide on
  the two lists of inputs.\<close>

theorem noteCommitment_binding:
  assumes "poseidon_canonical L" and "length (nt_tokenMint m) = 32"
    and "inj_on (poseidon L) {noteInputs m, noteInputs n}"
  shows "(\<exists>c. noteCommitment L m = Inr c \<and> length c = 32)
     \<and> (noteCommitment L n = noteCommitment L m \<longleftrightarrow> n = m)"
proof (intro conjI iffI)
  obtain c where c: "noteCommitment L m = Inr c" using assms(1,2) by (rule noteCommitment_total)
  then show "\<exists>c. noteCommitment L m = Inr c \<and> length c = 32"
    using noteCommitment_length by blast
  assume "noteCommitment L n = noteCommitment L m"
  with c have n: "noteCommitment L n = Inr c" by simp
  with c have "poseidon L (noteInputs m) = poseidon L (noteInputs n)"
    unfolding noteCommitment_Inr using bn254ToBE32_inject by blast
  with assms(3) have "noteInputs m = noteInputs n" by (simp only: inj_on_pair)
  with n assms(2) show "n = m" using noteInputs_inject unfolding noteCommitment_Inr by blast
qed simp

definition sample_note :: Note where
  "sample_note = \<lparr>nt_tokenMint = zeros 32, nt_amount = 100, nt_ownerCommitment = 5,
     nt_nonce = 6, nt_blindingR = 7\<rparr>"

theorem noteCommitment_binding_witness:
  "(\<exists>c. noteCommitment ref_lib sample_note = Inr c \<and> length c = 32) \<and>
   noteCommitment ref_lib (sample_note \<lparr>nt_amount := 101\<rparr>) \<noteq> noteCommitment ref_lib sample_note"
proof -
  let ?n = "sample_note \<lparr>nt_amount := 101\<rparr>"
  have len: "length (nt_tokenMint sample_note) = 32" by (simp add: sample_note_def)
  have z: "be_to_int (slice (zeros 32) k 16) = 0" if "k \<le> 16" for k
    using be_to_int_to_be [of 16 0] that by (simp add: slice_def zeros_def int_to_be_zero)
  have inj: "inj_on (poseidon ref_lib) {noteInputs sample_note, noteInputs ?n}"
    by (simp add: inj_on_pair ref_lib_def noteInputs_def sample_note_def z BN254_R_def)
  have "?n \<noteq> sample_note"
    by (rule notI, drule arg_cong [where f = nt_amount]) (simp add: sample_note_def)
  then show ?thesis using noteCommitment_binding [OF ref_lib_canonical len inj] by blast
qed

text \<open>A nullifier is determined by the spending key and the note commitment: on 32-byte
  commitments it never throws, two pairs have the same nullifier exactly when they are equal, as
  long as Poseidon does not collide on them, and a commitment of another length is refused.\<close>

theorem nullifier_binding:
  assumes "poseidon_canonical L" and "length c = 32" and "length c' = 32"
    and "inj_on (poseidon L) {[k, be_to_int c], [k', be_to_int c']}"
  shows "(\<exists>n. nullifier L k c = Inr n \<and> length n = 32)
     \<and> (nullifier L k c = nullifier L k' c' \<longleftrightarrow> k = k' \<and> c = c')
     \<and> nullifier L k (c @ [b]) = Inl (newError ''commitment must be 32 bytes'')"
proof (intro conjI iffI)
  have "0 \<le> poseidon L [k, be_to_int c]" "poseidon L [k, be_to_int c] < BN254_R"
    using assms(1) by (simp_all add: poseidon_canonical_def)
  then obtain n where n: "nullifier L k c = Inr n"
    using assms(2) by (simp add: nullifier_def bn254ToBE32_eq)
  then show "\<exists>n. nullifier L k c = Inr n \<and> length n = 32" using nullifier_length by blast
  show "nullifier L k (c @ [b]) = Inl (newError ''commitment must be 32 bytes'')"
    using assms(2) by (simp add: nullifier_def)
  assume "nullifier L k c = nullifier L k' c'"
  with n assms have "bn254ToBE32 (poseidon L [k, be_to_int c]) = Inr n"
      and "bn254ToBE32 (poseidon L [k', be_to_int c']) = Inr n"
    by (simp_all add: nullifier_def)
  then have "poseidon L [k, be_to_int c] = poseidon L [k', be_to_int c']"
    by (rule bn254ToBE32_inject)
  with assms(4) have "[k, be_to_int c] = [k', be_to_int c']" by (simp only: inj_on_pair)
  then have "k = k' \<and> be_to_int c = be_to_int c'" by simp
  then show "k = k'" and "c = c'" using assms(2,3) be_to_int_inject by auto
qed simp

theorem nullifier_binding_witness:
  "(\<exists>n. nullifier ref_lib 9 (zeros 32) = Inr n \<and> length n = 32) \<and>
   nullifier ref_lib 9 (zeros 32) \<noteq> nullifier ref_lib 8 (zeros 32)"
proof -
  have "be_to_int (zeros 32) = 0"
    using be_to_int_to_be [of 32 0] by (simp add: int_to_be_zero)
  then have inj: "inj_on (poseidon ref_lib) {[9, be_to_int (zeros 32)], [8, be_to_int (zeros 32)]}"
    by (simp add: inj_on_pair ref_lib_def BN254_R_def)
  show ?thesis
    using nullifier_binding [OF ref_lib_canonical _ _ inj, of 0] by simp
qed

end
