(* ===== verification/Nyx_Groth16.thy ===== *)
theory Nyx_Groth16
  imports Nyx_Note
begin

text \<open>
  \<open>packages/sdk/src/zk/groth16-format.ts\<close> and \<open>zk/prover-suite.ts\<close>: from the decimal strings of
  a snarkjs proof to the bytes the on-chain verifier reads. Proved here: the digit-by-digit base
  conversion \<open>decToBe32\<close> computes the value modulo \<open>2 ^ 256\<close> and agrees with the field encoding
  of the SDK, the byte-wise subtraction is subtraction modulo \<open>2 ^ 256\<close>, and \<open>negateG1\<close> is the
  negation of the second coordinate.
\<close>

section \<open>Definitions\<close>

definition BN254_P :: bytes where
  "BN254_P =
     [0x30, 0x64, 0x4e, 0x72, 0xe1, 0x31, 0xa0, 0x29, 0xb8, 0x50, 0x45, 0xb6, 0x81,
      0x81, 0x58, 0x5d, 0x97, 0x81, 0x6a, 0x91, 0x68, 0x71, 0xca, 0x8d, 0x3c, 0x20,
      0x8c, 0x16, 0xd8, 0x7c, 0xfd, 0x47]"

record SnarkjsRawProof =
  pi_a :: "string list"
  pi_b :: "string list list"
  pi_c :: "string list"

record Groth16OnChainProof =
  piA :: bytes
  piB :: bytes
  piC :: bytes

record FormatGroth16Result =
  fg_proof :: Groth16OnChainProof
  fg_publicInputsBE :: "bytes list"

text \<open>The inner loop of \<open>decToBe32\<close>: long division of a list of decimal digits by 256. It
  returns the quotient's digits without leading zeros and the remainder.\<close>

fun div_step :: "nat list \<Rightarrow> nat \<Rightarrow> nat list \<Rightarrow> nat list \<times> nat" where
  "div_step [] rem next = (next, rem)"
| "div_step (d # ds) rem next =
     (let cur = rem * 10 + d;
          q = cur div 256;
          rem' = cur mod 256
      in div_step ds rem' (if next = [] \<and> q = 0 then next else next @ [q]))"

text \<open>The outer loop; the second argument is \<open>byteIdx\<close>.\<close>

fun dec_loop :: "nat list \<Rightarrow> nat \<Rightarrow> bytes \<Rightarrow> bytes" where
  "dec_loop digits 0 out = out"
| "dec_loop digits (Suc i) out =
     (if digits = [] then out
      else case div_step digits 0 [] of
             (next, rem) \<Rightarrow> dec_loop next i (out[i := word_of_int (int rem)]))"

definition decToBe32 :: "string \<Rightarrow> js_error + bytes" where
  "decToBe32 s =
     (if \<not> (s \<noteq> [] \<and> list_all is_digit s) then Inl (newError (''non-decimal: '' @ s))
      else Inr (dec_loop (map digit_val s) 32 (zeros 32)))"

text \<open>\<open>v[i]\<close> of an array of strings; past the end it is \<open>undefined\<close>, whose text fails the
  regular expression of \<open>decToBe32\<close>.\<close>

definition str_at :: "string list \<Rightarrow> nat \<Rightarrow> string" where
  "str_at v i = (if i < length v then v ! i else ''undefined'')"

definition row_at :: "string list list \<Rightarrow> nat \<Rightarrow> js_error + string list" where
  "row_at v i =
     (if i < length v then Inr (v ! i)
      else Inl (JsError ''TypeError'' ''Cannot read properties of undefined''))"

definition groth16G1Bytes :: "string list \<Rightarrow> js_error + bytes" where
  "groth16G1Bytes v = rcat [decToBe32 (str_at v 0), decToBe32 (str_at v 1)]"

definition groth16G2Bytes :: "string list list \<Rightarrow> js_error + bytes" where
  "groth16G2Bytes v =
     rbind (row_at v 0) (\<lambda>r0. rbind (decToBe32 (str_at r0 0)) (\<lambda>x0.
     rbind (decToBe32 (str_at r0 1)) (\<lambda>x1.
     rbind (row_at v 1) (\<lambda>r1. rbind (decToBe32 (str_at r1 0)) (\<lambda>y0.
     rbind (decToBe32 (str_at r1 1)) (\<lambda>y1.
       Inr (x1 @ x0 @ y1 @ y0)))))))"

text \<open>The loop of \<open>subBe\<close>, from the last byte to the first, with its borrow.\<close>

fun sub_loop :: "(byte \<times> byte) list \<Rightarrow> int \<Rightarrow> bytes \<Rightarrow> bytes" where
  "sub_loop [] borrow out = out"
| "sub_loop ((a, b) # rest) borrow out =
     (let diff = uint a - uint b - borrow
      in if diff < 0 then sub_loop rest 1 (word_of_int (diff + 256) # out)
         else sub_loop rest 0 (word_of_int diff # out))"

definition subBe :: "bytes \<Rightarrow> bytes \<Rightarrow> js_error + bytes" where
  "subBe a b =
     (if length a \<noteq> 32 \<or> length b \<noteq> 32 then Inl (newError ''32B operands only'')
      else Inr (sub_loop (rev (zip a b)) 0 []))"

definition negateG1 :: "bytes \<Rightarrow> js_error + bytes" where
  "negateG1 point =
     (if length point \<noteq> 64 then Inl (newError ''G1 point must be 64 bytes'')
      else rbind (subBe BN254_P (slice point 32 32)) (\<lambda>yNeg.
             Inr (slice point 0 32 @ yNeg)))"

definition formatGroth16ForOnChain ::
    "SnarkjsRawProof \<Rightarrow> string list \<Rightarrow> js_error + FormatGroth16Result" where
  "formatGroth16ForOnChain proofJson publicJson =
     rbind (groth16G1Bytes (pi_a proofJson)) (\<lambda>a.
     rbind (groth16G2Bytes (pi_b proofJson)) (\<lambda>b.
     rbind (groth16G1Bytes (pi_c proofJson)) (\<lambda>c.
     rbind (negateG1 a) (\<lambda>piANeg.
     rbind (rmapM decToBe32 publicJson) (\<lambda>publicInputsBE.
       Inr \<lparr>fg_proof = \<lparr>piA = piANeg, piB = b, piC = c\<rparr>,
            fg_publicInputsBE = publicInputsBE\<rparr>)))))"

section \<open>The base conversion\<close>

definition digits_val :: "nat list \<Rightarrow> nat" where
  "digits_val ds = foldl (\<lambda>n d. 10 * n + d) 0 ds"

lemma digits_val_Nil [simp]: "digits_val [] = 0"
  by (simp add: digits_val_def)

lemma digits_val_snoc: "digits_val (ds @ [d]) = 10 * digits_val ds + d"
  by (simp add: digits_val_def)

lemma digits_val_append: "digits_val (a @ b) = digits_val a * 10 ^ length b + digits_val b"
  by (induction b rule: rev_induct)
    (simp_all add: digits_val_snoc algebra_simps flip: append_assoc)

lemma digits_val_Cons: "digits_val (d # ds) = d * 10 ^ length ds + digits_val ds"
  using digits_val_append [of "[d]" ds] by (simp add: digits_val_def)

lemma digits_val_map: "digits_val (map digit_val s) = dec_val s"
  by (simp add: digits_val_def dec_val_def foldl_map)

lemma div_step_value:
  assumes "div_step ds rem next = (next', rem')"
  shows "digits_val next' * 256 + rem'
       = digits_val next * 256 * 10 ^ length ds + rem * 10 ^ length ds + digits_val ds"
  using assms
proof (induction ds rem "next" arbitrary: next' rem' rule: div_step.induct)
  case (1 r nx)
  then show ?case by simp
next
  case (2 d ds r nx)
  define cur where "cur = r * 10 + d"
  define q where "q = cur div 256"
  let ?nx = "if nx = [] \<and> q = 0 then nx else nx @ [q]"
  have nx: "digits_val ?nx = 10 * digits_val nx + q" by (simp add: digits_val_snoc)
  from "2.prems" have "div_step ds (cur mod 256) ?nx = (next', rem')"
    by (simp only: div_step.simps Let_def cur_def q_def)
  then have "digits_val next' * 256 + rem'
      = digits_val ?nx * 256 * 10 ^ length ds + cur mod 256 * 10 ^ length ds + digits_val ds"
    using "2.IH" [OF cur_def q_def refl] by simp
  also have "\<dots> = (10 * digits_val nx * 256 + (q * 256 + cur mod 256)) * 10 ^ length ds + digits_val ds"
    by (simp only: nx) (simp add: algebra_simps)
  also have "q * 256 + cur mod 256 = cur" by (simp add: q_def)
  finally show ?case by (simp add: cur_def digits_val_Cons algebra_simps)
qed

lemma div_step_rem: "rem < 256 \<Longrightarrow> div_step ds rem next = (next', rem') \<Longrightarrow> rem' < 256"
  by (induction ds rem "next" rule: div_step.induct) (auto simp: Let_def)

lemma div_step_divides:
  assumes "div_step ds 0 [] = (next, rem)"
  shows "digits_val next = digits_val ds div 256" and "rem = digits_val ds mod 256"
proof -
  have v: "digits_val next * 256 + rem = digits_val ds"
    using div_step_value [OF assms] by simp
  have r: "rem < 256" using div_step_rem [OF _ assms] by simp
  from v r show "digits_val next = digits_val ds div 256" "rem = digits_val ds mod 256"
    by (auto simp flip: v)
qed

lemma dec_loop_value:
  assumes "take i out = zeros i" and "i \<le> length out"
  shows "dec_loop ds i out = int_to_be i (int (digits_val ds)) @ drop i out"
  using assms
proof (induction i arbitrary: ds out)
  case 0
  then show ?case by (simp add: int_to_be_def)
next
  case (Suc i)
  show ?case
  proof (cases "ds = []")
    case True
    have "out = zeros (Suc i) @ drop (Suc i) out"
      using Suc.prems(1) by (metis append_take_drop_id)
    with True show ?thesis by (simp add: int_to_be_zero)
  next
    case False
    obtain nx rm where step: "div_step ds 0 [] = (nx, rm)" by fastforce
    let ?out = "out[i := word_of_int (int rm)]"
    have i: "i < length out" using Suc.prems(2) by simp
    have "take i ?out = zeros i"
      using arg_cong [OF Suc.prems(1), of "take i"] by (simp add: zeros_def del: replicate_Suc)
    then have IH: "dec_loop nx i ?out = int_to_be i (int (digits_val nx)) @ drop i ?out"
      using i by (intro Suc.IH) simp_all
    have tail: "drop i ?out = word_of_int (int rm) # drop (Suc i) out"
      using i by (metis Cons_nth_drop_Suc drop_update_cancel length_list_update lessI nth_list_update_eq)
    have "int (digits_val nx) = int (digits_val ds) div 256"
      and "word_of_int (int rm) = (word_of_int (int (digits_val ds)) :: byte)"
      using div_step_divides [OF step] word_of_int_byte_mod [of "int (digits_val ds)"]
      by (simp_all add: zdiv_int zmod_int)
    with IH tail False step show ?thesis by (simp add: int_to_be_Suc)
  qed
qed

lemma decToBe32_eq:
  "decToBe32 s =
     (if s \<noteq> [] \<and> list_all is_digit s then Inr (int_to_be 32 (int (dec_val s)))
      else Inl (newError (''non-decimal: '' @ s)))"
  unfolding decToBe32_def by (auto simp: dec_loop_value zeros_def digits_val_map)

lemma decToBe32_length: "decToBe32 s = Inr bs \<Longrightarrow> length bs = 32"
  by (auto simp: decToBe32_eq split: if_splits)

section \<open>The subtraction\<close>

lemma sub_loop_value:
  assumes "borrow = 0 \<or> borrow = 1"
  shows "\<exists>res. sub_loop ps borrow out = res @ out \<and> length res = length ps
    \<and> be_to_int res = (le_to_int (map fst ps) - le_to_int (map snd ps) - borrow) mod 256 ^ length ps"
  using assms
proof (induction ps arbitrary: borrow out)
  case Nil
  then show ?case by simp
next
  case (Cons p ps)
  obtain a b where p: "p = (a, b)" by fastforce
  define diff where "diff = uint a - uint b - borrow"
  define nb where "nb = (if diff < 0 then 1 else 0 :: int)"
  define byt where "byt = (word_of_int (diff + 256 * nb) :: byte)"
  have aux: "0 \<le> x - y - borrow + 256 * (if x - y - borrow < 0 then 1 else 0)
      \<and> x - y - borrow + 256 * (if x - y - borrow < 0 then 1 else 0) < 256"
    if "0 \<le> x" "x < 256" "0 \<le> y" "y < 256" for x y :: int
    using that Cons.prems by auto
  have rng: "0 \<le> diff + 256 * nb" "diff + 256 * nb < 256"
    using aux [OF uint_ge_0 uint_byte_bound uint_ge_0 uint_byte_bound, of a b]
    by (simp_all only: diff_def nb_def)
  then have byt: "uint byt = diff + 256 * nb" unfolding byt_def by (rule uint_word_of_int_byte)
  have step: "sub_loop (p # ps) borrow out = sub_loop ps nb (byt # out)"
    by (simp add: p Let_def nb_def byt_def flip: diff_def)
  have "nb = 0 \<or> nb = 1" by (simp add: nb_def)
  from Cons.IH [OF this, of "byt # out"] obtain res where res:
      "sub_loop ps nb (byt # out) = res @ byt # out" "length res = length ps"
      "be_to_int res = (le_to_int (map fst ps) - le_to_int (map snd ps) - nb) mod 256 ^ length ps"
    by auto
  let ?d = "le_to_int (map fst ps) - le_to_int (map snd ps) - nb"
  have "be_to_int (res @ [byt]) = 256 * (?d mod 256 ^ length ps) + (diff + 256 * nb)"
    by (simp add: be_to_int_snoc res(3) byt)
  also have "\<dots> = (256 * ?d + (diff + 256 * nb)) mod (256 * 256 ^ length ps)"
    using rng by (subst mod_digit) simp_all
  also have "256 * ?d + (diff + 256 * nb)
      = le_to_int (map fst (p # ps)) - le_to_int (map snd (p # ps)) - borrow"
    by (simp add: p diff_def algebra_simps)
  finally show ?case using step res by (intro exI [of _ "res @ [byt]"]) simp
qed

lemma subBe_value:
  assumes "length a = 32" and "length b = 32"
  obtains d where "subBe a b = Inr d" and "length d = 32"
    and "be_to_int d = (be_to_int a - be_to_int b) mod 2 ^ 256"
proof -
  let ?ps = "rev (zip a b)"
  obtain res where res: "sub_loop ?ps 0 [] = res" "length res = length ?ps"
      "be_to_int res = (le_to_int (map fst ?ps) - le_to_int (map snd ?ps) - 0) mod 256 ^ length ?ps"
    using sub_loop_value [of 0 ?ps "[]"] by auto
  moreover have "map fst ?ps = rev a" "map snd ?ps = rev b"
    using assms by (simp_all add: rev_map flip: rev_map)
  ultimately show ?thesis
    using that [of res] assms by (simp add: subBe_def be_to_int_rev)
qed

definition BN254_P_int :: int where
  "BN254_P_int = be_to_int BN254_P"

lemma BN254_P_int_eq:
  "BN254_P_int = 21888242871839275222246405745257275088696311157297823662689037894645226208583"
  unfolding BN254_P_int_def BN254_P_def by (simp add: be_to_int_rev)

lemma length_BN254_P [simp]: "length BN254_P = 32"
  by (simp add: BN254_P_def)

lemma negateG1_value:
  assumes "length point = 64"
  obtains q where "negateG1 point = Inr q" and "length q = 64"
    and "slice q 0 32 = slice point 0 32"
    and "be_to_int (slice q 32 32) = (BN254_P_int - be_to_int (slice point 32 32)) mod 2 ^ 256"
proof -
  have "length (slice point 32 32) = 32" using assms by (simp add: slice_def)
  then obtain d where d: "subBe BN254_P (slice point 32 32) = Inr d" "length d = 32"
      "be_to_int d = (be_to_int BN254_P - be_to_int (slice point 32 32)) mod 2 ^ 256"
    using subBe_value [OF length_BN254_P] by blast
  have x: "length (slice point 0 32) = 32" using assms by (simp add: slice_def)
  show ?thesis
  proof (rule that)
    show "negateG1 point = Inr (slice point 0 32 @ d)"
      using assms d(1) by (simp add: negateG1_def)
  qed (use d x in \<open>simp_all add: wire_simps BN254_P_int_def\<close>)
qed

section \<open>Properties\<close>

text \<open>\<open>decToBe32\<close> converts a decimal string of any length to the 32 big-endian bytes of its
  value modulo \<open>2 ^ 256\<close> (the digits above 256 bits are dropped without an error) and throws on
  every string that is empty or has a character other than \<open>0\<close> to \<open>9\<close>.\<close>

theorem decToBe32_correct:
  "if s \<noteq> [] \<and> list_all is_digit s
   then \<exists>bs. decToBe32 s = Inr bs \<and> length bs = 32 \<and> be_to_int bs = int (dec_val s) mod 2 ^ 256
   else decToBe32 s = Inl (newError (''non-decimal: '' @ s))"
  by (simp add: decToBe32_eq be_to_int_to_be)

text \<open>The two encoders of field elements agree: formatting a field element as the decimal
  string a prover emits and converting it with \<open>decToBe32\<close> gives the bytes of \<open>bn254ToBE32\<close>.\<close>

theorem decToBe32_of_toString:
  assumes "0 \<le> x" and "x < BN254_R"
  shows "decToBe32 (bigint_toString x) = bn254ToBE32 x"
  using assms
  by (simp add: decToBe32_eq bn254ToBE32_eq bigint_toString_def nat_toString_digits)

theorem decToBe32_of_toString_witness:
  "(0 :: int) \<le> 12345 \<and> 12345 < BN254_R \<and>
   decToBe32 (bigint_toString 12345) = bn254ToBE32 12345"
  using decToBe32_of_toString [of 12345] by (simp add: BN254_R_def)

text \<open>\<open>negateG1\<close> keeps the first coordinate and replaces the second, \<open>y\<close>, by \<open>(P - y) mod
  2 ^ 256\<close>: for \<open>0 < y < P\<close> that is the canonical \<open>P - y\<close>, the negation is an involution on every
  64-byte input, and for \<open>y = 0\<close> the result is \<open>P\<close> itself, which is not reduced modulo \<open>P\<close>.\<close>

theorem negateG1_negates:
  assumes "length point = 64"
  shows "\<exists>q. negateG1 point = Inr q \<and> length q = 64 \<and> slice q 0 32 = slice point 0 32
     \<and> (let y = be_to_int (slice point 32 32) in
          (0 < y \<and> y < BN254_P_int \<longrightarrow> be_to_int (slice q 32 32) = BN254_P_int - y)
          \<and> (y = 0 \<longrightarrow> be_to_int (slice q 32 32) = BN254_P_int))
     \<and> negateG1 q = Inr point"
proof -
  obtain q where q: "negateG1 point = Inr q" "length q = 64" "slice q 0 32 = slice point 0 32"
      "be_to_int (slice q 32 32) = (BN254_P_int - be_to_int (slice point 32 32)) mod 2 ^ 256"
    using assms by (rule negateG1_value)
  obtain r where r: "negateG1 q = Inr r" "length r = 64" "slice r 0 32 = slice q 0 32"
      "be_to_int (slice r 32 32) = (BN254_P_int - be_to_int (slice q 32 32)) mod 2 ^ 256"
    using q(2) by (rule negateG1_value)
  have len: "length (slice point 32 32) = 32" "length (slice r 32 32) = 32"
    using assms r(2) by (simp_all add: slice_def)
  have "be_to_int (slice r 32 32) = be_to_int (slice point 32 32) mod 2 ^ 256"
    by (simp only: r(4) q(4)) (simp add: mod_simps)
  also have "\<dots> = be_to_int (slice point 32 32)"
    using be_to_int_bound [of "slice point 32 32"] len by simp
  finally have "slice r 32 32 = slice point 32 32" using len be_to_int_inject by simp
  moreover have "slice r 0 32 = slice point 0 32" using r(3) q(3) by simp
  moreover have "xs = slice xs 0 32 @ slice xs 32 32" if "length xs = 64" for xs :: bytes
    using that by (simp add: slice_def)
  ultimately have "r = point" using r(2) assms by metis
  then show ?thesis using q r by (simp add: Let_def BN254_P_int_eq)
qed

theorem negateG1_negates_witness:
  "length (zeros 63 @ [2]) = 64 \<and>
   (\<exists>q. negateG1 (zeros 63 @ [2]) = Inr q \<and> length q = 64 \<and> negateG1 q = Inr (zeros 63 @ [2]))"
proof -
  have len: "length (zeros 63 @ [2]) = 64" by simp
  show ?thesis using negateG1_negates [OF len] len by blast
qed

end
