(* ===== verification/Nyx_Vault_Client.thy ===== *)
theory Nyx_Vault_Client
  imports Nyx_Groth16
begin

text \<open>
  \<open>packages/sdk/src/idl/seeds.ts\<close> and \<open>idl/vault-client.ts\<close>: the program addresses and the
  instruction builders of the vault program. A builder that may throw (a byte array of the wrong
  length, an address that cannot be derived, a parameter out of range) returns a sum, and the
  throws come in the order of the source. Proved here: the seeds of the six kinds of vault
  addresses never coincide, a builder succeeds exactly when its byte arrays have the right lengths,
  the instruction data has the wire layout, and only the intended key has to sign.
\<close>

section \<open>Seeds\<close>

definition VAULT_CONFIG_SEED :: bytes where "VAULT_CONFIG_SEED = utf8 ''vault_config''"
definition WALLET_SEED :: bytes where "WALLET_SEED = utf8 ''wallet''"
definition NULLIFIER_SEED :: bytes where "NULLIFIER_SEED = utf8 ''nullifier''"
definition CONSUMED_NOTE_SEED :: bytes where "CONSUMED_NOTE_SEED = utf8 ''consumed_note''"
definition NOTE_LOCK_SEED :: bytes where "NOTE_LOCK_SEED = utf8 ''note_lock''"
definition VAULT_TOKEN_SEED :: bytes where "VAULT_TOKEN_SEED = utf8 ''vault_token''"
definition DARK_CLOB_SEED :: bytes where "DARK_CLOB_SEED = utf8 ''dark_clob''"
definition MATCHING_CONFIG_SEED :: bytes where "MATCHING_CONFIG_SEED = utf8 ''matching_config''"
definition BATCH_RESULTS_SEED :: bytes where "BATCH_RESULTS_SEED = utf8 ''batch_results''"
definition PENDING_ORDER_SEED :: bytes where "PENDING_ORDER_SEED = utf8 ''pending_order''"

lemmas seed_defs = VAULT_CONFIG_SEED_def WALLET_SEED_def NULLIFIER_SEED_def CONSUMED_NOTE_SEED_def
  NOTE_LOCK_SEED_def VAULT_TOKEN_SEED_def DARK_CLOB_SEED_def MATCHING_CONFIG_SEED_def
  BATCH_RESULTS_SEED_def PENDING_ORDER_SEED_def

section \<open>Serialisation helpers\<close>

definition anchorDiscriminator :: "lib \<Rightarrow> string \<Rightarrow> bytes" where
  "anchorDiscriminator L name = take 8 (sha256 L (utf8 (''global:'' @ name)))"

lemma length_anchorDiscriminator [simp, wire_simps]: "length (anchorDiscriminator L n) = 8"
  by (simp add: anchorDiscriminator_def)

definition fixed16 :: "bytes \<Rightarrow> js_error + bytes" where
  "fixed16 x = (if length x \<noteq> 16 then Inl (newError (''expected 16 bytes, got '' @ nat_toString (length x))) else Inr x)"

definition fixed32 :: "bytes \<Rightarrow> js_error + bytes" where
  "fixed32 x = (if length x \<noteq> 32 then Inl (newError (''expected 32 bytes, got '' @ nat_toString (length x))) else Inr x)"

definition fixed64 :: "bytes \<Rightarrow> js_error + bytes" where
  "fixed64 x = (if length x \<noteq> 64 then Inl (newError (''expected 64 bytes, got '' @ nat_toString (length x))) else Inr x)"

definition fixed128 :: "bytes \<Rightarrow> js_error + bytes" where
  "fixed128 x = (if length x \<noteq> 128 then Inl (newError (''expected 128 bytes, got '' @ nat_toString (length x))) else Inr x)"

definition serializeProof :: "Groth16OnChainProof \<Rightarrow> js_error + bytes" where
  "serializeProof p = rcat [fixed64 (piA p), fixed128 (piB p), fixed64 (piC p)]"

section \<open>Program addresses\<close>

definition vaultConfigPda :: "lib \<Rightarrow> pubkey \<Rightarrow> js_error + pubkey \<times> int" where
  "vaultConfigPda L programId = findProgramAddressSync L [VAULT_CONFIG_SEED] programId"

definition walletEntryPda :: "lib \<Rightarrow> pubkey \<Rightarrow> bytes \<Rightarrow> js_error + pubkey \<times> int" where
  "walletEntryPda L programId commitment =
     rbind (fixed32 commitment) (\<lambda>c. findProgramAddressSync L [WALLET_SEED, c] programId)"

definition nullifierEntryPda :: "lib \<Rightarrow> pubkey \<Rightarrow> bytes \<Rightarrow> js_error + pubkey \<times> int" where
  "nullifierEntryPda L programId nul =
     rbind (fixed32 nul) (\<lambda>n. findProgramAddressSync L [NULLIFIER_SEED, n] programId)"

definition noteLockPda :: "lib \<Rightarrow> pubkey \<Rightarrow> bytes \<Rightarrow> js_error + pubkey \<times> int" where
  "noteLockPda L programId noteComm =
     rbind (fixed32 noteComm) (\<lambda>c. findProgramAddressSync L [NOTE_LOCK_SEED, c] programId)"

definition consumedNotePda :: "lib \<Rightarrow> pubkey \<Rightarrow> bytes \<Rightarrow> js_error + pubkey \<times> int" where
  "consumedNotePda L programId noteComm =
     rbind (fixed32 noteComm) (\<lambda>c. findProgramAddressSync L [CONSUMED_NOTE_SEED, c] programId)"

definition vaultTokenAccountPda :: "lib \<Rightarrow> pubkey \<Rightarrow> pubkey \<Rightarrow> js_error + pubkey \<times> int" where
  "vaultTokenAccountPda L programId mint =
     findProgramAddressSync L [VAULT_TOKEN_SEED, toBytes mint] programId"

section \<open>Instruction builders\<close>

text \<open>\<open>new TransactionInstruction({ programId, keys, data })\<close>.\<close>

definition mkIx :: "pubkey \<Rightarrow> account_meta list \<Rightarrow> bytes \<Rightarrow> instruction" where
  "mkIx pid ks d = \<lparr>ix_programId = pid, ix_keys = ks, ix_data = d\<rparr>"

lemma mkIx_simps [simp]:
  "ix_programId (mkIx p k d) = p" "ix_keys (mkIx p k d) = k" "ix_data (mkIx p k d) = d"
  by (simp_all add: mkIx_def)

record BuildInitializeParams =
  ini_programId :: pubkey
  ini_admin :: pubkey
  ini_teePubkey :: pubkey
  ini_rootKey :: pubkey

definition buildInitializeInstruction :: "lib \<Rightarrow> BuildInitializeParams \<Rightarrow> js_error + instruction" where
  "buildInitializeInstruction L p =
     rbind (vaultConfigPda L (ini_programId p)) (\<lambda>(vaultPda, _).
     let data = anchorDiscriminator L ''initialize'' @ toBytes (ini_teePubkey p) @ toBytes (ini_rootKey p)
     in Inr (mkIx (ini_programId p)
         [meta (ini_admin p) True True,
          meta vaultPda False True,
          meta (SystemProgram_programId L) False False] data))"

record BuildSetProtocolConfigParams =
  spc_programId :: pubkey
  spc_admin :: pubkey
  spc_protocolOwnerCommitment :: bytes
  spc_feeRateBps :: int

definition buildSetProtocolConfigInstruction ::
    "lib \<Rightarrow> BuildSetProtocolConfigParams \<Rightarrow> js_error + instruction" where
  "buildSetProtocolConfigInstruction L p =
     (if spc_feeRateBps p < 0 \<or> spc_feeRateBps p > 10000
      then Inl (newError (''feeRateBps out of range: '' @ bigint_toString (spc_feeRateBps p)))
      else
        rbind (vaultConfigPda L (spc_programId p)) (\<lambda>(vaultPda, _).
        rbind (rcat [Inr (anchorDiscriminator L ''set_protocol_config''),
                     fixed32 (spc_protocolOwnerCommitment p),
                     Inr (u16LE (spc_feeRateBps p))]) (\<lambda>data.
        Inr (mkIx (spc_programId p)
          [meta (spc_admin p) True False,
           meta vaultPda False True] data))))"

record BuildResetMerkleTreeParams =
  rmt_programId :: pubkey
  rmt_admin :: pubkey

definition buildResetMerkleTreeInstruction ::
    "lib \<Rightarrow> BuildResetMerkleTreeParams \<Rightarrow> js_error + instruction" where
  "buildResetMerkleTreeInstruction L p =
     rbind (vaultConfigPda L (rmt_programId p)) (\<lambda>(vaultPda, _).
     let data = anchorDiscriminator L ''reset_merkle_tree''
     in Inr (mkIx (rmt_programId p)
         [meta (rmt_admin p) True False,
          meta vaultPda False True] data))"

record BuildRotateRootKeyParams =
  rrk_programId :: pubkey
  rrk_currentRootKey :: pubkey
  rrk_newRootKey :: pubkey

definition buildRotateRootKeyInstruction ::
    "lib \<Rightarrow> BuildRotateRootKeyParams \<Rightarrow> js_error + instruction" where
  "buildRotateRootKeyInstruction L p =
     rbind (vaultConfigPda L (rrk_programId p)) (\<lambda>(vaultPda, _).
     let data = anchorDiscriminator L ''rotate_root_key'' @ toBytes (rrk_newRootKey p)
     in Inr (mkIx (rrk_programId p)
         [meta (rrk_currentRootKey p) True False,
          meta vaultPda False True] data))"

record BuildCreateWalletParams =
  cw_programId :: pubkey
  cw_owner :: pubkey
  cw_commitment :: bytes
  cw_proof :: Groth16OnChainProof

definition buildCreateWalletInstruction ::
    "lib \<Rightarrow> BuildCreateWalletParams \<Rightarrow> js_error + instruction" where
  "buildCreateWalletInstruction L p =
     rbind (vaultConfigPda L (cw_programId p)) (\<lambda>(vaultPda, _).
     rbind (walletEntryPda L (cw_programId p) (cw_commitment p)) (\<lambda>(walletPda, _).
     rbind (rcat [Inr (anchorDiscriminator L ''create_wallet''),
                  fixed32 (cw_commitment p),
                  serializeProof (cw_proof p)]) (\<lambda>data.
     Inr (mkIx (cw_programId p)
       [meta (cw_owner p) True True,
        meta vaultPda False False,
        meta walletPda False True,
        meta (SystemProgram_programId L) False False] data))))"

record BuildDepositParams =
  dp_programId :: pubkey
  dp_depositor :: pubkey
  dp_tokenMint :: pubkey
  dp_depositorTokenAccount :: pubkey
  dp_tokenProgramId :: pubkey
  dp_amount :: int
  dp_ownerCommitment :: bytes
  dp_nonce :: bytes
  dp_blindingR :: bytes

definition buildDepositInstruction :: "lib \<Rightarrow> BuildDepositParams \<Rightarrow> js_error + instruction" where
  "buildDepositInstruction L p =
     rbind (vaultConfigPda L (dp_programId p)) (\<lambda>(vaultPda, _).
     rbind (vaultTokenAccountPda L (dp_programId p) (dp_tokenMint p)) (\<lambda>(vaultTokenAcct, _).
     rbind (rcat [Inr (anchorDiscriminator L ''deposit''),
                  Inr (u64LE (dp_amount p)),
                  fixed32 (dp_ownerCommitment p),
                  fixed32 (dp_nonce p),
                  fixed32 (dp_blindingR p)]) (\<lambda>data.
     let rentSysvar = pubkeyOfBase58 L ''SysvarRent111111111111111111111111111111111''
     in Inr (mkIx (dp_programId p)
       [meta (dp_depositor p) True True,
        meta vaultPda False True,
        meta (dp_tokenMint p) False False,
        meta (dp_depositorTokenAccount p) False True,
        meta vaultTokenAcct False True,
        meta (dp_tokenProgramId p) False False,
        meta (SystemProgram_programId L) False False,
        meta rentSysvar False False] data))))"

record BuildWithdrawParams =
  wd_programId :: pubkey
  wd_payer :: pubkey
  wd_tokenMint :: pubkey
  wd_destinationTokenAccount :: pubkey
  wd_tokenProgramId :: pubkey
  wd_noteCommitment :: bytes
  wd_nullifier :: bytes
  wd_merkleRoot :: bytes
  wd_amount :: int
  wd_proof :: Groth16OnChainProof

record BuildLockNoteParams =
  ln_programId :: pubkey
  ln_teeAuthority :: pubkey
  ln_noteCommitment :: bytes
  ln_orderId :: bytes
  ln_expirySlot :: int
  ln_amount :: int

definition buildLockNoteInstruction :: "lib \<Rightarrow> BuildLockNoteParams \<Rightarrow> js_error + instruction" where
  "buildLockNoteInstruction L p =
     rbind (vaultConfigPda L (ln_programId p)) (\<lambda>(vaultPda, _).
     rbind (noteLockPda L (ln_programId p) (ln_noteCommitment p)) (\<lambda>(noteLock, _).
     if length (ln_orderId p) \<noteq> 16
     then Inl (newError (''orderId must be 16 bytes, got '' @ nat_toString (length (ln_orderId p))))
     else
       rbind (rcat [Inr (anchorDiscriminator L ''lock_note''),
                    fixed32 (ln_noteCommitment p),
                    Inr (ln_orderId p),
                    Inr (u64LE (ln_expirySlot p)),
                    Inr (u64LE (ln_amount p))]) (\<lambda>data.
       Inr (mkIx (ln_programId p)
         [meta (ln_teeAuthority p) True True,
          meta vaultPda False False,
          meta noteLock False True,
          meta (SystemProgram_programId L) False False] data))))"

definition buildWithdrawInstruction :: "lib \<Rightarrow> BuildWithdrawParams \<Rightarrow> js_error + instruction" where
  "buildWithdrawInstruction L p =
     rbind (vaultConfigPda L (wd_programId p)) (\<lambda>(vaultPda, _).
     rbind (vaultTokenAccountPda L (wd_programId p) (wd_tokenMint p)) (\<lambda>(vaultTokenAcct, _).
     rbind (consumedNotePda L (wd_programId p) (wd_noteCommitment p)) (\<lambda>(consumedNote, _).
     rbind (noteLockPda L (wd_programId p) (wd_noteCommitment p)) (\<lambda>(noteLock, _).
     rbind (nullifierEntryPda L (wd_programId p) (wd_nullifier p)) (\<lambda>(nullifierEntry, _).
     rbind (rcat [Inr (anchorDiscriminator L ''withdraw''),
                  fixed32 (wd_noteCommitment p),
                  fixed32 (wd_nullifier p),
                  fixed32 (wd_merkleRoot p),
                  Inr (u64LE (wd_amount p)),
                  serializeProof (wd_proof p)]) (\<lambda>data.
     Inr (mkIx (wd_programId p)
       [meta (wd_payer p) True True,
        meta vaultPda False True,
        meta (wd_tokenMint p) False False,
        meta vaultTokenAcct False True,
        meta (wd_destinationTokenAccount p) False True,
        meta consumedNote False False,
        meta noteLock False False,
        meta nullifierEntry False True,
        meta (wd_tokenProgramId p) False False,
        meta (SystemProgram_programId L) False False] data)))))))"

section \<open>Lemmas\<close>

lemma fixed_Inr [simp]:
  "fixed16 x = Inr y \<longleftrightarrow> length x = 16 \<and> y = x"
  "fixed32 x = Inr y \<longleftrightarrow> length x = 32 \<and> y = x"
  "fixed64 x = Inr y \<longleftrightarrow> length x = 64 \<and> y = x"
  "fixed128 x = Inr y \<longleftrightarrow> length x = 128 \<and> y = x"
  by (auto simp: fixed16_def fixed32_def fixed64_def fixed128_def)

lemma fixed_ok [wire_simps]:
  "length x = 16 \<Longrightarrow> fixed16 x = Inr x" "length x = 32 \<Longrightarrow> fixed32 x = Inr x"
  "length x = 64 \<Longrightarrow> fixed64 x = Inr x" "length x = 128 \<Longrightarrow> fixed128 x = Inr x"
  by simp_all

definition wf_proof :: "Groth16OnChainProof \<Rightarrow> bool" where
  "wf_proof p \<longleftrightarrow> length (piA p) = 64 \<and> length (piB p) = 128 \<and> length (piC p) = 64"

lemma serializeProof_Inr:
  "serializeProof p = Inr bs \<longleftrightarrow> wf_proof p \<and> bs = piA p @ piB p @ piC p"
  by (auto simp: serializeProof_def wf_proof_def rbind_eq_Inr)

text \<open>What the builders need from the address derivation: a bump exists for the seeds.\<close>

definition pda_total :: "lib \<Rightarrow> bool" where
  "pda_total L \<longleftrightarrow> (\<forall>ss pid. \<exists>a b. findProgramAddressSync L ss pid = Inr (a, b))"

lemma ref_lib_pda_total [simp]: "pda_total ref_lib"
  by (simp add: pda_total_def ref_lib_def)

lemma pda_totalE:
  assumes "pda_total L"
  obtains a b where "findProgramAddressSync L ss pid = Inr (a, b)"
  using assms unfolding pda_total_def by blast

text \<open>The vault addresses by kind, with their seeds.\<close>

datatype vault_pda =
    PVaultConfig
  | PWalletEntry bytes
  | PNullifierEntry bytes
  | PNoteLock bytes
  | PConsumedNote bytes
  | PVaultToken pubkey

fun vault_pda_key :: "lib \<Rightarrow> pubkey \<Rightarrow> vault_pda \<Rightarrow> js_error + pubkey \<times> int" where
  "vault_pda_key L pid PVaultConfig = vaultConfigPda L pid"
| "vault_pda_key L pid (PWalletEntry c) = walletEntryPda L pid c"
| "vault_pda_key L pid (PNullifierEntry n) = nullifierEntryPda L pid n"
| "vault_pda_key L pid (PNoteLock c) = noteLockPda L pid c"
| "vault_pda_key L pid (PConsumedNote c) = consumedNotePda L pid c"
| "vault_pda_key L pid (PVaultToken m) = vaultTokenAccountPda L pid m"

fun vault_pda_arg_ok :: "vault_pda \<Rightarrow> bool" where
  "vault_pda_arg_ok PVaultConfig = True"
| "vault_pda_arg_ok (PWalletEntry c) = (length c = 32)"
| "vault_pda_arg_ok (PNullifierEntry n) = (length n = 32)"
| "vault_pda_arg_ok (PNoteLock c) = (length c = 32)"
| "vault_pda_arg_ok (PConsumedNote c) = (length c = 32)"
| "vault_pda_arg_ok (PVaultToken m) = True"

fun vault_pda_seeds :: "vault_pda \<Rightarrow> bytes" where
  "vault_pda_seeds PVaultConfig = VAULT_CONFIG_SEED"
| "vault_pda_seeds (PWalletEntry c) = WALLET_SEED @ c"
| "vault_pda_seeds (PNullifierEntry n) = NULLIFIER_SEED @ n"
| "vault_pda_seeds (PNoteLock c) = NOTE_LOCK_SEED @ c"
| "vault_pda_seeds (PConsumedNote c) = CONSUMED_NOTE_SEED @ c"
| "vault_pda_seeds (PVaultToken m) = VAULT_TOKEN_SEED @ toBytes m"

lemma vault_pda_seeds_inject: "vault_pda_seeds j = vault_pda_seeds k \<Longrightarrow> j = k"
  by (cases j; cases k) (simp_all add: seed_defs utf8_def)

text \<open>The derivation of a program address hashes the concatenation of the seeds.\<close>

definition pda_of_concat :: "lib \<Rightarrow> (bytes \<Rightarrow> pubkey \<Rightarrow> js_error + pubkey \<times> int) \<Rightarrow> bool" where
  "pda_of_concat L f \<longleftrightarrow> (\<forall>ss pid. findProgramAddressSync L ss pid = f (concat ss) pid)"

lemma vault_pda_key_concat:
  assumes "pda_of_concat L f" and "vault_pda_arg_ok k"
  shows "vault_pda_key L pid k = f (vault_pda_seeds k) pid"
  using assms
  by (cases k) (simp_all add: pda_of_concat_def vaultConfigPda_def walletEntryPda_def
      nullifierEntryPda_def noteLockPda_def consumedNotePda_def vaultTokenAccountPda_def fixed_ok)

section \<open>Properties\<close>

text \<open>The addresses of the vault never coincide: two vault addresses (configuration, wallet
  entry, nullifier entry, note lock, consumed note, token account, with their arguments) are
  equal exactly when they are the same kind with the same argument, even though the derivation
  sees only the concatenated seeds, as long as it does not collide on the two seed strings. A note
  lock or a consumed-note marker can thus never be mistaken for a nullifier entry.\<close>

theorem vault_addresses_distinct:
  assumes "pda_of_concat L f" and "vault_pda_arg_ok j" and "vault_pda_arg_ok k"
    and "inj_on (\<lambda>s. f s pid) {vault_pda_seeds j, vault_pda_seeds k}"
  shows "vault_pda_key L pid j = vault_pda_key L pid k \<longleftrightarrow> j = k"
proof
  assume "vault_pda_key L pid j = vault_pda_key L pid k"
  then have "f (vault_pda_seeds j) pid = f (vault_pda_seeds k) pid"
    using assms(1-3) by (simp add: vault_pda_key_concat)
  with assms(4) have "vault_pda_seeds j = vault_pda_seeds k" by (simp only: inj_on_pair)
  then show "j = k" by (rule vault_pda_seeds_inject)
qed simp

theorem vault_addresses_distinct_witness:
  "vault_pda_key ref_lib 7 (PNoteLock (zeros 32)) \<noteq> vault_pda_key ref_lib 7 (PNullifierEntry (zeros 32))"
proof -
  let ?f = "\<lambda>s pid. Inr (bytes_to_word (take 32 s), 255)"
  let ?j = "PNoteLock (zeros 32)" and ?k = "PNullifierEntry (zeros 32)"
  have c: "pda_of_concat ref_lib ?f" by (simp add: pda_of_concat_def ref_lib_def)
  have ok: "vault_pda_arg_ok ?j" "vault_pda_arg_ok ?k" by simp_all
  have "take 32 (vault_pda_seeds ?j) \<noteq> take 32 (vault_pda_seeds ?k)"
    by (simp add: seed_defs utf8_def)
  then have "bytes_to_word (take 32 (vault_pda_seeds ?j)) \<noteq> bytes_to_word (take 32 (vault_pda_seeds ?k))"
    by (metis (no_types, lifting) length_take length_append length_wire(6) length_wire(7) min.absorb2
        toBytes_bytes_to_word vault_pda_seeds.simps(3,4) NOTE_LOCK_SEED_def NULLIFIER_SEED_def
        le_add2)
  then have "inj_on (\<lambda>s. ?f s 7) {vault_pda_seeds ?j, vault_pda_seeds ?k}"
    by (simp only: inj_on_pair sum.inject prod.inject simp_thms)
  from vault_addresses_distinct [OF c ok this] show ?thesis by simp
qed

lemma buildWithdrawInstruction_ok:
  assumes "pda_total L" and "length (wd_noteCommitment p) = 32" and "length (wd_nullifier p) = 32"
    and "length (wd_merkleRoot p) = 32" and "wf_proof (wd_proof p)"
  shows "\<exists>ix vault vb token tb nul nb. buildWithdrawInstruction L p = Inr ix
        \<and> vaultConfigPda L (wd_programId p) = Inr (vault, vb)
        \<and> vaultTokenAccountPda L (wd_programId p) (wd_tokenMint p) = Inr (token, tb)
        \<and> nullifierEntryPda L (wd_programId p) (wd_nullifier p) = Inr (nul, nb)
        \<and> ix_data ix = anchorDiscriminator L ''withdraw'' @ wd_noteCommitment p @ wd_nullifier p
             @ wd_merkleRoot p @ u64LE (wd_amount p)
             @ piA (wd_proof p) @ piB (wd_proof p) @ piC (wd_proof p)
        \<and> length (ix_data ix) = 368
        \<and> signers_of ix = [wd_payer p]
        \<and> writables_of ix = [wd_payer p, vault, token, wd_destinationTokenAccount p, nul]"
proof -
  let ?pid = "wd_programId p"
  obtain v vb t tb c cb l lb n nb where
      "findProgramAddressSync L [VAULT_CONFIG_SEED] ?pid = Inr (v, vb)"
      "findProgramAddressSync L [VAULT_TOKEN_SEED, toBytes (wd_tokenMint p)] ?pid = Inr (t, tb)"
      "findProgramAddressSync L [CONSUMED_NOTE_SEED, wd_noteCommitment p] ?pid = Inr (c, cb)"
      "findProgramAddressSync L [NOTE_LOCK_SEED, wd_noteCommitment p] ?pid = Inr (l, lb)"
      "findProgramAddressSync L [NULLIFIER_SEED, wd_nullifier p] ?pid = Inr (n, nb)"
    using pda_totalE [OF assms(1)] by metis
  moreover have "serializeProof (wd_proof p) = Inr (piA (wd_proof p) @ piB (wd_proof p) @ piC (wd_proof p))"
    using assms(5) by (simp add: serializeProof_Inr)
  moreover have "length (piA (wd_proof p)) = 64" "length (piB (wd_proof p)) = 128"
      "length (piC (wd_proof p)) = 64"
    using assms(5) by (simp_all add: wf_proof_def)
  ultimately show ?thesis using assms(2-)
    by (simp add: buildWithdrawInstruction_def vaultConfigPda_def vaultTokenAccountPda_def
        consumedNotePda_def noteLockPda_def nullifierEntryPda_def fixed_ok signers_of_def writables_of_def)
qed

text \<open>The withdraw instruction: when addresses can be derived, the builder returns an
  instruction exactly when the commitment, the nullifier and the root have 32 bytes and the proof
  points 64, 128 and 64; its data is then the discriminator, the three 32-byte values, the amount
  modulo \<open>2 ^ 64\<close> and the proof, 368 bytes in all, the payer is the only signer, and the
  writable accounts are the payer, the vault, its token account, the destination and the
  nullifier entry.\<close>

theorem buildWithdrawInstruction_wire:
  assumes "pda_total L"
  shows "if length (wd_noteCommitment p) = 32 \<and> length (wd_nullifier p) = 32
        \<and> length (wd_merkleRoot p) = 32 \<and> wf_proof (wd_proof p)
     then \<exists>ix vault vb token tb nul nb. buildWithdrawInstruction L p = Inr ix
        \<and> vaultConfigPda L (wd_programId p) = Inr (vault, vb)
        \<and> vaultTokenAccountPda L (wd_programId p) (wd_tokenMint p) = Inr (token, tb)
        \<and> nullifierEntryPda L (wd_programId p) (wd_nullifier p) = Inr (nul, nb)
        \<and> ix_data ix = anchorDiscriminator L ''withdraw'' @ wd_noteCommitment p @ wd_nullifier p
             @ wd_merkleRoot p @ u64LE (wd_amount p)
             @ piA (wd_proof p) @ piB (wd_proof p) @ piC (wd_proof p)
        \<and> length (ix_data ix) = 368
        \<and> signers_of ix = [wd_payer p]
        \<and> writables_of ix = [wd_payer p, vault, token, wd_destinationTokenAccount p, nul]
     else \<exists>e. buildWithdrawInstruction L p = Inl e"
proof (cases "length (wd_noteCommitment p) = 32 \<and> length (wd_nullifier p) = 32
        \<and> length (wd_merkleRoot p) = 32 \<and> wf_proof (wd_proof p)")
  case True
  then have w: "length (wd_noteCommitment p) = 32" "length (wd_nullifier p) = 32"
      "length (wd_merkleRoot p) = 32" "wf_proof (wd_proof p)" by simp_all
  show ?thesis unfolding if_P [OF True] by (rule buildWithdrawInstruction_ok [OF assms w])
next
  case False
  have "buildWithdrawInstruction L p \<noteq> Inr ix" for ix
  proof
    assume "buildWithdrawInstruction L p = Inr ix"
    then have "length (wd_noteCommitment p) = 32 \<and> length (wd_nullifier p) = 32
        \<and> length (wd_merkleRoot p) = 32 \<and> wf_proof (wd_proof p)"
      by (auto simp: buildWithdrawInstruction_def rbind_eq_Inr serializeProof_Inr)
    with False show False by blast
  qed
  then have "\<exists>e. buildWithdrawInstruction L p = Inl e" by (metis sum.exhaust)
  with False show ?thesis by (simp only: if_False)
qed

definition sample_withdraw_params :: BuildWithdrawParams where
  "sample_withdraw_params = \<lparr>wd_programId = 9, wd_payer = 1, wd_tokenMint = 2,
     wd_destinationTokenAccount = 3, wd_tokenProgramId = 4, wd_noteCommitment = zeros 32,
     wd_nullifier = zeros 32, wd_merkleRoot = zeros 32, wd_amount = 5,
     wd_proof = \<lparr>piA = zeros 64, piB = zeros 128, piC = zeros 64\<rparr>\<rparr>"

theorem buildWithdrawInstruction_wire_witness:
  "\<exists>ix. buildWithdrawInstruction ref_lib sample_withdraw_params = Inr ix
     \<and> length (ix_data ix) = 368 \<and> signers_of ix = [1]"
  using buildWithdrawInstruction_wire [OF ref_lib_pda_total, of sample_withdraw_params]
  by (auto simp: sample_withdraw_params_def wf_proof_def)

text \<open>The protocol fee is bounded before anything is built: \<open>buildSetProtocolConfigInstruction\<close>
  refuses every rate outside \<open>0..10000\<close> basis points, and for a rate in range and a 32-byte owner
  commitment the two rate bytes of the instruction read back as the rate (no truncation to 16 bits
  happens).\<close>

theorem buildSetProtocolConfig_fee:
  assumes "pda_total L" and "length (spc_protocolOwnerCommitment p) = 32"
  shows "if 0 \<le> spc_feeRateBps p \<and> spc_feeRateBps p \<le> 10000
     then \<exists>ix. buildSetProtocolConfigInstruction L p = Inr ix
        \<and> le_to_int (slice (ix_data ix) 40 2) = spc_feeRateBps p
        \<and> slice (ix_data ix) 8 32 = spc_protocolOwnerCommitment p
        \<and> signers_of ix = [spc_admin p]
     else buildSetProtocolConfigInstruction L p
        = Inl (newError (''feeRateBps out of range: '' @ bigint_toString (spc_feeRateBps p)))"
proof (cases "0 \<le> spc_feeRateBps p \<and> spc_feeRateBps p \<le> 10000")
  case True
  obtain v vb where "findProgramAddressSync L [VAULT_CONFIG_SEED] (spc_programId p) = Inr (v, vb)"
    using assms(1) by (rule pda_totalE)
  with True assms(2) show ?thesis
    by (simp add: buildSetProtocolConfigInstruction_def vaultConfigPda_def fixed_ok signers_of_def
        wire_simps)
next
  case False
  then show ?thesis by (auto simp: buildSetProtocolConfigInstruction_def)
qed

theorem buildSetProtocolConfig_fee_witness:
  "\<exists>ix. buildSetProtocolConfigInstruction ref_lib \<lparr>spc_programId = 9, spc_admin = 1,
       spc_protocolOwnerCommitment = zeros 32, spc_feeRateBps = 30\<rparr> = Inr ix
     \<and> le_to_int (slice (ix_data ix) 40 2) = 30"
  using buildSetProtocolConfig_fee [OF ref_lib_pda_total, of "\<lparr>spc_programId = 9, spc_admin = 1,
       spc_protocolOwnerCommitment = zeros 32, spc_feeRateBps = 30\<rparr>"]
  by auto

end
