(* ===== verification/Nyx_Matching_Client.thy ===== *)
theory Nyx_Matching_Client
  imports Nyx_Vault_Client
begin

text \<open>
  \<open>packages/sdk/src/idl/matching-engine-client.ts\<close>: addresses and instruction builders of the
  matching engine. Proved here: the addresses never coincide, each order slot has its own address,
  the builders guard the slot index and the side, and the submit_order arguments round-trip
  through the Borsh layout the program reads.
\<close>

definition PERMISSION_PROGRAM_ID :: "lib \<Rightarrow> pubkey" where
  "PERMISSION_PROGRAM_ID L = pubkeyOfBase58 L ''ACLseoPoyC3cBqoUtkbjZ4aDrkurZW86v19pXz2XQnp1''"

definition darkClobPda :: "lib \<Rightarrow> pubkey \<Rightarrow> pubkey \<Rightarrow> js_error + pubkey \<times> int" where
  "darkClobPda L programId market = findProgramAddressSync L [DARK_CLOB_SEED, toBytes market] programId"

definition matchingConfigPda :: "lib \<Rightarrow> pubkey \<Rightarrow> pubkey \<Rightarrow> js_error + pubkey \<times> int" where
  "matchingConfigPda L programId market =
     findProgramAddressSync L [MATCHING_CONFIG_SEED, toBytes market] programId"

definition batchResultsPda :: "lib \<Rightarrow> pubkey \<Rightarrow> pubkey \<Rightarrow> js_error + pubkey \<times> int" where
  "batchResultsPda L programId market =
     findProgramAddressSync L [BATCH_RESULTS_SEED, toBytes market] programId"

definition pendingOrderPda :: "lib \<Rightarrow> pubkey \<Rightarrow> pubkey \<Rightarrow> pubkey \<Rightarrow> int \<Rightarrow> js_error + pubkey \<times> int" where
  "pendingOrderPda L programId market tradingKey slotIdx =
     (if slotIdx < 0 \<or> slotIdx > 255
      then Inl (newError (''slotIdx must be a u8 (0..255), got '' @ bigint_toString slotIdx))
      else findProgramAddressSync L
             [PENDING_ORDER_SEED, toBytes market, toBytes tradingKey, u8 slotIdx] programId)"

definition MAX_PENDING_SLOTS_PER_USER :: int where
  "MAX_PENDING_SLOTS_PER_USER = 4"

datatype OrderType = Limit | IOC | FOK

fun orderTypeCode :: "OrderType \<Rightarrow> int" where
  "orderTypeCode Limit = 0"
| "orderTypeCode IOC = 1"
| "orderTypeCode FOK = 2"

record BuildInitMarketParams =
  im_programId :: pubkey
  im_vaultProgramId :: pubkey
  im_payer :: pubkey
  im_market :: pubkey
  im_baseMint :: pubkey
  im_quoteMint :: pubkey
  im_pythAccount :: pubkey
  im_batchIntervalSlots :: int
  im_circuitBreakerBps :: int
  im_tickSize :: int
  im_minOrderSize :: int

definition buildInitMarketInstruction :: "lib \<Rightarrow> BuildInitMarketParams \<Rightarrow> js_error + instruction" where
  "buildInitMarketInstruction L p =
     rbind (vaultConfigPda L (im_vaultProgramId p)) (\<lambda>(vaultCfg, _).
     rbind (darkClobPda L (im_programId p) (im_market p)) (\<lambda>(clobPda, _).
     rbind (matchingConfigPda L (im_programId p) (im_market p)) (\<lambda>(matchPda, _).
     rbind (batchResultsPda L (im_programId p) (im_market p)) (\<lambda>(batchPda, _).
     let data = anchorDiscriminator L ''init_market'' @ toBytes (im_market p)
          @ toBytes (im_baseMint p) @ toBytes (im_quoteMint p) @ toBytes (im_pythAccount p)
          @ u64LE (im_batchIntervalSlots p) @ u64LE (im_circuitBreakerBps p)
          @ u64LE (im_tickSize p) @ u64LE (im_minOrderSize p)
     in Inr (mkIx (im_programId p)
         [meta (im_payer p) True True,
          meta vaultCfg False False,
          meta clobPda False True,
          meta matchPda False True,
          meta batchPda False True,
          meta (SystemProgram_programId L) False False] data)))))"

record MemberArgJson =
  mem_flags :: int
  mem_pubkey :: pubkey

record BuildConfigureAccessParams =
  ca_programId :: pubkey
  ca_rootKey :: pubkey
  ca_market :: pubkey
  ca_members :: "MemberArgJson list"
  ca_isUpdate :: bool
  ca_permissionPda :: pubkey

definition buildConfigureAccessInstruction ::
    "lib \<Rightarrow> BuildConfigureAccessParams \<Rightarrow> js_error + instruction" where
  "buildConfigureAccessInstruction L p =
     rbind (darkClobPda L (ca_programId p) (ca_market p)) (\<lambda>(clobPda, _).
     rbind (matchingConfigPda L (ca_programId p) (ca_market p)) (\<lambda>(matchPda, _).
     let memberBytes = concat (map (\<lambda>m. [u8 (mem_flags m), toBytes (mem_pubkey m)]) (ca_members p));
         data = anchorDiscriminator L ''configure_access'' @ toBytes (ca_market p)
           @ u32LE (int (length (ca_members p))) @ concat memberBytes
           @ u8 (if ca_isUpdate p then 1 else 0)
     in Inr (mkIx (ca_programId p)
         [meta (ca_rootKey p) True True,
          meta clobPda False True,
          meta matchPda False False,
          meta (ca_permissionPda p) False True,
          meta (PERMISSION_PROGRAM_ID L) False False,
          meta (SystemProgram_programId L) False False] data)))"

text \<open>The guard shared by the four builders that take a slot index.\<close>

definition slot_guard :: "int \<Rightarrow> js_error + unit" where
  "slot_guard slotIdx =
     (if slotIdx < 0 \<or> slotIdx \<ge> MAX_PENDING_SLOTS_PER_USER
      then Inl (newError (''slotIdx must be in [0, '' @ bigint_toString MAX_PENDING_SLOTS_PER_USER
             @ ''); got '' @ bigint_toString slotIdx))
      else Inr ())"

record BuildInitPendingOrderSlotParams =
  ip_programId :: pubkey
  ip_tradingKey :: pubkey
  ip_market :: pubkey
  ip_slotIdx :: int

definition buildInitPendingOrderSlotInstruction ::
    "lib \<Rightarrow> BuildInitPendingOrderSlotParams \<Rightarrow> js_error + instruction" where
  "buildInitPendingOrderSlotInstruction L p =
     rbind (slot_guard (ip_slotIdx p)) (\<lambda>_.
     rbind (pendingOrderPda L (ip_programId p) (ip_market p) (ip_tradingKey p) (ip_slotIdx p)) (\<lambda>(pda, _).
     let data = anchorDiscriminator L ''init_pending_order_slot'' @ toBytes (ip_market p) @ u8 (ip_slotIdx p)
     in Inr (mkIx (ip_programId p)
         [meta (ip_tradingKey p) True True,
          meta pda False True,
          meta (SystemProgram_programId L) False False] data)))"

record BuildDelegatePendingOrderParams =
  dpo_programId :: pubkey
  dpo_payer :: pubkey
  dpo_tradingKey :: pubkey
  dpo_market :: pubkey
  dpo_slotIdx :: int

definition buildDelegatePendingOrderInstruction ::
    "lib \<Rightarrow> BuildDelegatePendingOrderParams \<Rightarrow> js_error + instruction" where
  "buildDelegatePendingOrderInstruction L p =
     rbind (slot_guard (dpo_slotIdx p)) (\<lambda>_.
     rbind (pendingOrderPda L (dpo_programId p) (dpo_market p) (dpo_tradingKey p) (dpo_slotIdx p)) (\<lambda>(pda, _).
     let delegationProgram = pubkeyOfBase58 L ''DELeGGvXpWV2fqJUhqcF5ZSYMS4JTLjteaAMARRSaeSh'' in
     rbind (findProgramAddressSync L [utf8 ''buffer'', toBytes pda] (dpo_programId p)) (\<lambda>(bufferPda, _).
     rbind (findProgramAddressSync L [utf8 ''delegation'', toBytes pda] delegationProgram) (\<lambda>(recordPda, _).
     rbind (findProgramAddressSync L [utf8 ''delegation-metadata'', toBytes pda] delegationProgram) (\<lambda>(metadataPda, _).
     let data = anchorDiscriminator L ''delegate_pending_order'' @ toBytes (dpo_market p) @ u8 (dpo_slotIdx p)
     in Inr (mkIx (dpo_programId p)
         [meta (dpo_payer p) True True,
          meta (dpo_tradingKey p) True False,
          meta bufferPda False True,
          meta recordPda False True,
          meta metadataPda False True,
          meta pda False True,
          meta (dpo_programId p) False False,
          meta delegationProgram False False,
          meta (SystemProgram_programId L) False False] data))))))"

record BuildSubmitOrderParams =
  so_programId :: pubkey
  so_tradingKey :: pubkey
  so_market :: pubkey
  so_slotIdx :: int
  so_side :: int
  so_amount :: int
  so_priceLimit :: int
  so_noteAmount :: int
  so_expirySlot :: int
  so_orderId :: bytes
  so_noteCommitment :: bytes
  so_userCommitment :: bytes
  so_orderType :: "OrderType option"
  so_minFillQty :: "int option"

record SubmitOrderIxAndKeys =
  sok_ix :: instruction
  sok_pendingOrderPda :: pubkey

definition submit_order_args :: "BuildSubmitOrderParams \<Rightarrow> js_error + bytes" where
  "submit_order_args p =
     rcat [Inr (toBytes (so_market p)),
           Inr (u8 (so_slotIdx p)),
           Inr (u8 (so_side p)),
           Inr (u8 (orderTypeCode (case so_orderType p of Some t \<Rightarrow> t | None \<Rightarrow> Limit))),
           Inr (zeros 5),
           Inr (u64LE (so_amount p)),
           Inr (u64LE (case so_minFillQty p of Some q \<Rightarrow> q | None \<Rightarrow> 0)),
           Inr (u64LE (so_priceLimit p)),
           Inr (u64LE (so_noteAmount p)),
           Inr (u64LE (so_expirySlot p)),
           fixed16 (so_orderId p),
           fixed32 (so_noteCommitment p),
           fixed32 (so_userCommitment p)]"

definition buildSubmitOrderInstruction ::
    "lib \<Rightarrow> BuildSubmitOrderParams \<Rightarrow> js_error + SubmitOrderIxAndKeys" where
  "buildSubmitOrderInstruction L p =
     rbind (slot_guard (so_slotIdx p)) (\<lambda>_.
     if so_side p \<noteq> 0 \<and> so_side p \<noteq> 1
     then Inl (newError (''side must be 0 (bid) or 1 (ask); got '' @ bigint_toString (so_side p)))
     else
       rbind (pendingOrderPda L (so_programId p) (so_market p) (so_tradingKey p) (so_slotIdx p)) (\<lambda>(slotPda, _).
       rbind (submit_order_args p) (\<lambda>argsBytes.
       let data = anchorDiscriminator L ''submit_order'' @ argsBytes;
           ix = mkIx (so_programId p) [meta (so_tradingKey p) True True, meta slotPda False True] data
       in Inr \<lparr>sok_ix = ix, sok_pendingOrderPda = slotPda\<rparr>)))"

record BuildCancelOrderParams =
  co_programId :: pubkey
  co_tradingKey :: pubkey
  co_market :: pubkey
  co_slotIdx :: int

definition buildCancelOrderInstruction :: "lib \<Rightarrow> BuildCancelOrderParams \<Rightarrow> js_error + instruction" where
  "buildCancelOrderInstruction L p =
     rbind (slot_guard (co_slotIdx p)) (\<lambda>_.
     rbind (pendingOrderPda L (co_programId p) (co_market p) (co_tradingKey p) (co_slotIdx p)) (\<lambda>(slotPda, _).
     let data = anchorDiscriminator L ''cancel_order'' @ toBytes (co_market p) @ u8 (co_slotIdx p)
     in Inr (mkIx (co_programId p)
         [meta (co_tradingKey p) True True,
          meta slotPda False True] data)))"

record BuildRunBatchParams =
  rb_programId :: pubkey
  rb_vaultProgramId :: pubkey
  rb_teeAuthority :: pubkey
  rb_market :: pubkey
  rb_pythAccount :: pubkey
  rb_pendingOrderPdas :: "pubkey list"

definition buildRunBatchInstruction :: "lib \<Rightarrow> BuildRunBatchParams \<Rightarrow> js_error + instruction" where
  "buildRunBatchInstruction L p =
     rbind (matchingConfigPda L (rb_programId p) (rb_market p)) (\<lambda>(matchPda, _).
     rbind (batchResultsPda L (rb_programId p) (rb_market p)) (\<lambda>(batchPda, _).
     rbind (vaultConfigPda L (rb_vaultProgramId p)) (\<lambda>(vaultCfg, _).
     let data = anchorDiscriminator L ''run_batch'' @ toBytes (rb_market p);
         keys = [meta (rb_teeAuthority p) True True,
                 meta matchPda False False,
                 meta batchPda False True,
                 meta vaultCfg False False,
                 meta (rb_pythAccount p) False False]
     in Inr (mkIx (rb_programId p)
          (keys @ map (\<lambda>pda. meta pda False True) (rb_pendingOrderPdas p)) data))))"

record BuildInitMockOracleParams =
  mo_programId :: pubkey
  mo_payer :: pubkey
  mo_mockOracle :: pubkey
  mo_twap :: int

definition buildInitMockOracleInstruction :: "lib \<Rightarrow> BuildInitMockOracleParams \<Rightarrow> instruction" where
  "buildInitMockOracleInstruction L p =
     mkIx (mo_programId p)
       [meta (mo_payer p) True True,
        meta (mo_mockOracle p) True True,
        meta (SystemProgram_programId L) False False]
       (anchorDiscriminator L ''init_mock_oracle'' @ u64LE (mo_twap p))"

section \<open>Addresses\<close>

datatype engine_pda =
    PDarkClob pubkey
  | PMatchingConfig pubkey
  | PBatchResults pubkey
  | PPendingOrder pubkey pubkey int

fun engine_pda_key :: "lib \<Rightarrow> pubkey \<Rightarrow> engine_pda \<Rightarrow> js_error + pubkey \<times> int" where
  "engine_pda_key L pid (PDarkClob m) = darkClobPda L pid m"
| "engine_pda_key L pid (PMatchingConfig m) = matchingConfigPda L pid m"
| "engine_pda_key L pid (PBatchResults m) = batchResultsPda L pid m"
| "engine_pda_key L pid (PPendingOrder m t i) = pendingOrderPda L pid m t i"

fun engine_pda_arg_ok :: "engine_pda \<Rightarrow> bool" where
  "engine_pda_arg_ok (PPendingOrder m t i) = (0 \<le> i \<and> i \<le> 255)"
| "engine_pda_arg_ok _ = True"

fun engine_pda_seeds :: "engine_pda \<Rightarrow> bytes" where
  "engine_pda_seeds (PDarkClob m) = DARK_CLOB_SEED @ toBytes m"
| "engine_pda_seeds (PMatchingConfig m) = MATCHING_CONFIG_SEED @ toBytes m"
| "engine_pda_seeds (PBatchResults m) = BATCH_RESULTS_SEED @ toBytes m"
| "engine_pda_seeds (PPendingOrder m t i) = PENDING_ORDER_SEED @ toBytes m @ toBytes t @ u8 i"

lemma u8_inject:
  assumes "0 \<le> i" "i \<le> 255" "0 \<le> j" "j \<le> 255" and "u8 i = u8 j"
  shows "i = j"
proof -
  have "(word_of_int i :: byte) = word_of_int j" using assms(5) by (simp add: u8_def)
  then have "uint (word_of_int i :: byte) = uint (word_of_int j :: byte)" by (rule arg_cong)
  then show ?thesis using assms(1-4) by (simp only: uint_word_of_int_byte)
qed

lemma engine_pda_seeds_inject:
  assumes "engine_pda_seeds j = engine_pda_seeds k" and "engine_pda_arg_ok j" and "engine_pda_arg_ok k"
  shows "j = k"
proof (cases j)
  case j: (PPendingOrder m t i)
  show ?thesis
  proof (cases k)
    case k: (PPendingOrder m' t' i')
    from assms(1) j k have "toBytes m @ toBytes t @ u8 i = toBytes m' @ toBytes t' @ u8 i'" by simp
    then have "toBytes m = toBytes m'" "toBytes t = toBytes t'" "u8 i = u8 i'" by simp_all
    then show ?thesis using assms(2,3) j k u8_inject [of i i'] by simp
  qed (use assms j in \<open>simp_all add: seed_defs utf8_def\<close>)
qed (use assms in \<open>cases k; simp add: seed_defs utf8_def\<close>)+

lemma engine_pda_key_concat:
  assumes "pda_of_concat L f" and "engine_pda_arg_ok k"
  shows "engine_pda_key L pid k = f (engine_pda_seeds k) pid"
  using assms
  by (cases k) (simp_all add: pda_of_concat_def darkClobPda_def matchingConfigPda_def
      batchResultsPda_def pendingOrderPda_def)

section \<open>The submit_order arguments\<close>

text \<open>\<open>SubmitOrderArgs\<close> of \<open>programs/matching_engine/src/instructions/submit_order.rs\<close>, read in
  Borsh order.\<close>

record SubmitOrderArgs =
  soa_market :: bytes
  soa_slot_idx :: int
  soa_side :: int
  soa_order_type :: int
  soa_amount :: int
  soa_min_fill_qty :: int
  soa_price_limit :: int
  soa_note_amount :: int
  soa_expiry_slot :: int
  soa_order_id :: bytes
  soa_note_commitment :: bytes
  soa_user_commitment :: bytes

definition borshSubmitOrderArgs :: "bytes \<Rightarrow> SubmitOrderArgs" where
  "borshSubmitOrderArgs bs =
     \<lparr>soa_market = slice bs 0 32, soa_slot_idx = le_to_int (slice bs 32 1),
      soa_side = le_to_int (slice bs 33 1), soa_order_type = le_to_int (slice bs 34 1),
      soa_amount = le_to_int (slice bs 40 8), soa_min_fill_qty = le_to_int (slice bs 48 8),
      soa_price_limit = le_to_int (slice bs 56 8), soa_note_amount = le_to_int (slice bs 64 8),
      soa_expiry_slot = le_to_int (slice bs 72 8), soa_order_id = slice bs 80 16,
      soa_note_commitment = slice bs 96 32, soa_user_commitment = slice bs 128 32\<rparr>"

lemma le_to_int_u8 [wire_simps]: "le_to_int (u8 v) = v mod 256"
  by (simp add: u8_def uint_word_of_int)

lemma orderTypeCode_mod [simp]: "orderTypeCode t mod 256 = orderTypeCode t"
  by (cases t) simp_all

lemma slot_guard_Inr [simp]: "slot_guard i = Inr u \<longleftrightarrow> 0 \<le> i \<and> i < 4"
  by (auto simp: slot_guard_def MAX_PENDING_SLOTS_PER_USER_def)

lemma slot_guard_ok: "0 \<le> i \<Longrightarrow> i < 4 \<Longrightarrow> slot_guard i = Inr ()"
  by simp

lemma pendingOrderPda_ok:
  assumes "pda_total L" and "0 \<le> i" and "i < 4"
  obtains k b where "pendingOrderPda L pid m t i = Inr (k, b)"
proof -
  obtain k b where "findProgramAddressSync L [PENDING_ORDER_SEED, toBytes m, toBytes t, u8 i] pid = Inr (k, b)"
    using assms(1) by (rule pda_totalE)
  then show ?thesis using that assms(2,3) by (simp add: pendingOrderPda_def)
qed

section \<open>Properties\<close>

text \<open>The addresses of the matching engine never coincide: order book, matching configuration
  and batch results of a market, and the order slots, one for every market, trading key and slot
  index below 256, are equal only when they are the same thing, as long as the derivation
  does not collide on the two seed strings. Two orders of one user in different slots, or of
  different users, never share an account.\<close>

theorem engine_addresses_distinct:
  assumes "pda_of_concat L f" and "engine_pda_arg_ok j" and "engine_pda_arg_ok k"
    and "inj_on (\<lambda>s. f s pid) {engine_pda_seeds j, engine_pda_seeds k}"
  shows "engine_pda_key L pid j = engine_pda_key L pid k \<longleftrightarrow> j = k"
proof
  assume "engine_pda_key L pid j = engine_pda_key L pid k"
  then have "f (engine_pda_seeds j) pid = f (engine_pda_seeds k) pid"
    using assms(1-3) by (simp add: engine_pda_key_concat)
  with assms(4) have "engine_pda_seeds j = engine_pda_seeds k" by (simp only: inj_on_pair)
  then show "j = k" using assms(2,3) by (rule engine_pda_seeds_inject)
qed simp

theorem engine_addresses_distinct_witness:
  "engine_pda_key ref_lib 7 (PDarkClob 1) \<noteq> engine_pda_key ref_lib 7 (PPendingOrder 1 2 3)"
proof -
  let ?f = "\<lambda>s pid. Inr (bytes_to_word (take 32 s), 255)"
  let ?j = "PDarkClob 1" and ?k = "PPendingOrder 1 2 3"
  have c: "pda_of_concat ref_lib ?f" by (simp add: pda_of_concat_def ref_lib_def)
  have ok: "engine_pda_arg_ok ?j" "engine_pda_arg_ok ?k" by simp_all
  have "take 32 (engine_pda_seeds ?j) \<noteq> take 32 (engine_pda_seeds ?k)"
    by (simp add: seed_defs utf8_def)
  moreover have "length (take 32 (engine_pda_seeds ?j)) = 32" "length (take 32 (engine_pda_seeds ?k)) = 32"
    by (simp_all add: seed_defs)
  ultimately have "bytes_to_word (take 32 (engine_pda_seeds ?j)) \<noteq> bytes_to_word (take 32 (engine_pda_seeds ?k))"
    by (metis toBytes_bytes_to_word)
  then have "inj_on (\<lambda>s. ?f s 7) {engine_pda_seeds ?j, engine_pda_seeds ?k}"
    by (simp only: inj_on_pair sum.inject prod.inject simp_thms)
  from engine_addresses_distinct [OF c ok this] show ?thesis by simp
qed

text \<open>What the program reads from a submit_order instruction that was built.\<close>

lemma buildSubmitOrder_wire:
  assumes "buildSubmitOrderInstruction L p = Inr r"
  shows "0 \<le> so_slotIdx p \<and> so_slotIdx p < 4 \<and> so_side p \<in> {0, 1} \<and> length (so_orderId p) = 16
       \<and> length (so_noteCommitment p) = 32 \<and> length (so_userCommitment p) = 32"
    and "\<exists>b. pendingOrderPda L (so_programId p) (so_market p) (so_tradingKey p) (so_slotIdx p) = Inr (sok_pendingOrderPda r, b)"
    and "length (ix_data (sok_ix r)) = 168"
    and "take 8 (ix_data (sok_ix r)) = anchorDiscriminator L ''submit_order''"
    and "borshSubmitOrderArgs (drop 8 (ix_data (sok_ix r))) =
            \<lparr>soa_market = toBytes (so_market p), soa_slot_idx = so_slotIdx p, soa_side = so_side p,
             soa_order_type = orderTypeCode (case so_orderType p of None \<Rightarrow> Limit | Some t \<Rightarrow> t),
             soa_amount = so_amount p mod 2 ^ 64,
             soa_min_fill_qty = (case so_minFillQty p of None \<Rightarrow> 0 | Some q \<Rightarrow> q) mod 2 ^ 64,
             soa_price_limit = so_priceLimit p mod 2 ^ 64,
             soa_note_amount = so_noteAmount p mod 2 ^ 64,
             soa_expiry_slot = so_expirySlot p mod 2 ^ 64, soa_order_id = so_orderId p,
             soa_note_commitment = so_noteCommitment p, soa_user_commitment = so_userCommitment p\<rparr>"
    and "ix_keys (sok_ix r) = [meta (so_tradingKey p) True True, meta (sok_pendingOrderPda r) False True]"
proof -
  show ok: "0 \<le> so_slotIdx p \<and> so_slotIdx p < 4 \<and> so_side p \<in> {0, 1} \<and> length (so_orderId p) = 16
       \<and> length (so_noteCommitment p) = 32 \<and> length (so_userCommitment p) = 32"
    using assms by (auto simp: buildSubmitOrderInstruction_def rbind_eq_Inr submit_order_args_def split: if_splits)
  obtain k b where pda: "pendingOrderPda L (so_programId p) (so_market p) (so_tradingKey p) (so_slotIdx p) = Inr (k, b)"
    using assms by (auto simp: buildSubmitOrderInstruction_def rbind_eq_Inr split: if_splits)
  have m: "so_slotIdx p mod 256 = so_slotIdx p" "so_side p mod 256 = so_side p" using ok by auto
  show "\<exists>b. pendingOrderPda L (so_programId p) (so_market p) (so_tradingKey p) (so_slotIdx p) = Inr (sok_pendingOrderPda r, b)"
    and "length (ix_data (sok_ix r)) = 168"
    and "take 8 (ix_data (sok_ix r)) = anchorDiscriminator L ''submit_order''"
    and "borshSubmitOrderArgs (drop 8 (ix_data (sok_ix r))) =
            \<lparr>soa_market = toBytes (so_market p), soa_slot_idx = so_slotIdx p, soa_side = so_side p,
             soa_order_type = orderTypeCode (case so_orderType p of None \<Rightarrow> Limit | Some t \<Rightarrow> t),
             soa_amount = so_amount p mod 2 ^ 64,
             soa_min_fill_qty = (case so_minFillQty p of None \<Rightarrow> 0 | Some q \<Rightarrow> q) mod 2 ^ 64,
             soa_price_limit = so_priceLimit p mod 2 ^ 64,
             soa_note_amount = so_noteAmount p mod 2 ^ 64,
             soa_expiry_slot = so_expirySlot p mod 2 ^ 64, soa_order_id = so_orderId p,
             soa_note_commitment = so_noteCommitment p, soa_user_commitment = so_userCommitment p\<rparr>"
    and "ix_keys (sok_ix r) = [meta (so_tradingKey p) True True, meta (sok_pendingOrderPda r) False True]"
    using assms ok pda m
    by (auto simp: buildSubmitOrderInstruction_def slot_guard_ok submit_order_args_def fixed_ok
        borshSubmitOrderArgs_def wire_simps)
qed

text \<open>(C30) The submit_order instruction: when addresses can be derived, the builder succeeds
  exactly for a slot in \<open>0..3\<close>, a side 0 or 1, a 16-byte order id and 32-byte commitments; the
  program's Borsh reader then gets every argument back, with defaults for the optional ones,
  amounts and prices modulo \<open>2 ^ 64\<close>, and the instruction names two accounts: the trading key,
  which alone signs, and the order slot it returns.\<close>

theorem buildSubmitOrderInstruction_roundtrip:
  assumes "pda_total L"
  shows "if 0 \<le> so_slotIdx p \<and> so_slotIdx p < 4 \<and> so_side p \<in> {0, 1} \<and> length (so_orderId p) = 16
        \<and> length (so_noteCommitment p) = 32 \<and> length (so_userCommitment p) = 32
     then \<exists>r b. buildSubmitOrderInstruction L p = Inr r
        \<and> pendingOrderPda L (so_programId p) (so_market p) (so_tradingKey p) (so_slotIdx p)
            = Inr (sok_pendingOrderPda r, b)
        \<and> length (ix_data (sok_ix r)) = 168
        \<and> take 8 (ix_data (sok_ix r)) = anchorDiscriminator L ''submit_order''
        \<and> borshSubmitOrderArgs (drop 8 (ix_data (sok_ix r))) =
            \<lparr>soa_market = toBytes (so_market p), soa_slot_idx = so_slotIdx p, soa_side = so_side p,
             soa_order_type = orderTypeCode (case so_orderType p of None \<Rightarrow> Limit | Some t \<Rightarrow> t),
             soa_amount = so_amount p mod 2 ^ 64,
             soa_min_fill_qty = (case so_minFillQty p of None \<Rightarrow> 0 | Some q \<Rightarrow> q) mod 2 ^ 64,
             soa_price_limit = so_priceLimit p mod 2 ^ 64,
             soa_note_amount = so_noteAmount p mod 2 ^ 64,
             soa_expiry_slot = so_expirySlot p mod 2 ^ 64, soa_order_id = so_orderId p,
             soa_note_commitment = so_noteCommitment p, soa_user_commitment = so_userCommitment p\<rparr>
        \<and> ix_keys (sok_ix r) = [meta (so_tradingKey p) True True, meta (sok_pendingOrderPda r) False True]
     else \<exists>e. buildSubmitOrderInstruction L p = Inl e"
proof (cases "0 \<le> so_slotIdx p \<and> so_slotIdx p < 4 \<and> so_side p \<in> {0, 1} \<and> length (so_orderId p) = 16
        \<and> length (so_noteCommitment p) = 32 \<and> length (so_userCommitment p) = 32")
  case True
  obtain k b where "pendingOrderPda L (so_programId p) (so_market p) (so_tradingKey p) (so_slotIdx p) = Inr (k, b)"
    using pendingOrderPda_ok [OF assms] True by blast
  then obtain r where r: "buildSubmitOrderInstruction L p = Inr r" using True
    by (simp add: buildSubmitOrderInstruction_def slot_guard_ok submit_order_args_def fixed_ok)
  show ?thesis using True r buildSubmitOrder_wire(2-) [OF r] by auto
next
  case False
  have "buildSubmitOrderInstruction L p \<noteq> Inr r" for r using False buildSubmitOrder_wire(1) by blast
  then have "\<exists>e. buildSubmitOrderInstruction L p = Inl e" by (metis sum.exhaust)
  with False show ?thesis by (simp only: if_False)
qed

definition sample_submit_params :: BuildSubmitOrderParams where
  "sample_submit_params = \<lparr>so_programId = 9, so_tradingKey = 1, so_market = 2, so_slotIdx = 3,
     so_side = 1, so_amount = 2 ^ 64 + 5, so_priceLimit = 7, so_noteAmount = 8, so_expirySlot = 9,
     so_orderId = zeros 16, so_noteCommitment = zeros 32, so_userCommitment = zeros 32,
     so_orderType = Some FOK, so_minFillQty = None\<rparr>"

theorem buildSubmitOrderInstruction_roundtrip_witness:
  "\<exists>r. buildSubmitOrderInstruction ref_lib sample_submit_params = Inr r
     \<and> soa_amount (borshSubmitOrderArgs (drop 8 (ix_data (sok_ix r)))) = 5
     \<and> soa_order_type (borshSubmitOrderArgs (drop 8 (ix_data (sok_ix r)))) = 2"
  using buildSubmitOrderInstruction_roundtrip [OF ref_lib_pda_total, of sample_submit_params]
  by (auto simp: sample_submit_params_def)

end
