(* ===== verification/Nyx_Json.thy ===== *)
theory Nyx_Json
  imports Nyx_Lib
begin

text \<open>
  The pieces of the JavaScript runtime the network code uses: JSON values, base64, and HTTP
  requests and replies as \<open>fetch\<close> sees them. A request body is kept as the JSON value given to
  \<open>JSON.stringify\<close>; a reply carries its status, the value of \<open>res.json()\<close> (which may throw) and the
  bytes of \<open>res.arrayBuffer()\<close>.
\<close>

section \<open>JSON values\<close>

datatype json =
    JNull
  | JBool bool
  | JNum int
  | JStr string
  | JList "json list"
  | JObj "(string \<times> json) list"

text \<open>Property access on a parsed reply: a missing property is \<open>undefined\<close> (\<open>None\<close>), a property of
  \<open>null\<close> throws.\<close>

fun jget :: "json \<Rightarrow> string \<Rightarrow> js_error + json option" where
  "jget JNull k = Inl (JsError ''TypeError'' (''Cannot read properties of null (reading '' @ k @ '')''))"
| "jget (JObj ps) k = Inr (map_of ps k)"
| "jget _ k = Inr None"

text \<open>JavaScript truthiness.\<close>

fun truthy :: "json option \<Rightarrow> bool" where
  "truthy None = False"
| "truthy (Some JNull) = False"
| "truthy (Some (JBool b)) = b"
| "truthy (Some (JNum n)) = (n \<noteq> 0)"
| "truthy (Some (JStr s)) = (s \<noteq> [])"
| "truthy (Some (JList _)) = True"
| "truthy (Some (JObj _)) = True"

text \<open>\<open>JSON.stringify\<close>.\<close>

definition quote_char :: char where "quote_char = char_of (34 :: nat)"
definition backslash :: char where "backslash = char_of (92 :: nat)"

definition json_escape :: "char \<Rightarrow> string" where
  "json_escape c =
     (let n = (of_char c :: nat)
      in if c = quote_char \<or> c = backslash then [backslash, c]
         else if n = 8 then [backslash, CHR ''b''] else if n = 9 then [backslash, CHR ''t'']
         else if n = 10 then [backslash, CHR ''n''] else if n = 12 then [backslash, CHR ''f'']
         else if n = 13 then [backslash, CHR ''r'']
         else if n < 32 then [backslash] @ ''u00'' @ [hex_char (n div 16), hex_char (n mod 16)]
         else [c])"

definition json_quote :: "string \<Rightarrow> string" where
  "json_quote s = [quote_char] @ concat (map json_escape s) @ [quote_char]"

fun join_with :: "string \<Rightarrow> string list \<Rightarrow> string" where
  "join_with sep [] = []"
| "join_with sep [x] = x"
| "join_with sep (x # y # xs) = x @ sep @ join_with sep (y # xs)"

fun json_stringify :: "json \<Rightarrow> string" where
  "json_stringify JNull = ''null''"
| "json_stringify (JBool b) = (if b then ''true'' else ''false'')"
| "json_stringify (JNum n) = bigint_toString n"
| "json_stringify (JStr s) = json_quote s"
| "json_stringify (JList xs) = ''['' @ join_with '','' (map json_stringify xs) @ '']''"
| "json_stringify (JObj ps) =
     ''{'' @ join_with '','' (map (\<lambda>(k, v). json_quote k @ '':'' @ json_stringify v) ps) @ ''}''"

text \<open>\<open>Array.from(bytes)\<close> as a JSON array, and \<open>new Uint8Array(numbers)\<close>; a value that is not an
  array of numbers gives the empty array here.\<close>

definition json_bytes :: "bytes \<Rightarrow> json" where
  "json_bytes bs = JList (map (\<lambda>b. JNum (uint b)) bs)"

fun json_num :: "json \<Rightarrow> int" where
  "json_num (JNum n) = n"
| "json_num _ = 0"

fun json_to_bytes :: "json option \<Rightarrow> bytes" where
  "json_to_bytes (Some (JList xs)) = map (\<lambda>x. word_of_int (json_num x)) xs"
| "json_to_bytes _ = []"

fun json_to_string :: "json option \<Rightarrow> string" where
  "json_to_string (Some (JStr s)) = s"
| "json_to_string (Some v) = json_stringify v"
| "json_to_string None = ''undefined''"

lemma json_bytes_roundtrip [simp]: "json_to_bytes (Some (json_bytes bs)) = bs"
  by (simp add: json_bytes_def comp_def)

section \<open>Base64\<close>

definition base64_char :: "nat \<Rightarrow> char" where
  "base64_char n =
     char_of (if n < 26 then 65 + n else if n < 52 then 71 + n else if n < 62 then n - 4
              else if n = 62 then 43 else 47)"

fun base64 :: "bytes \<Rightarrow> string" where
  "base64 [] = []"
| "base64 [a] = (let n = unat a * 16 in [base64_char (n div 64), base64_char (n mod 64)] @ ''=='')"
| "base64 [a, b] =
     (let n = (unat a * 256 + unat b) * 4
      in [base64_char (n div 4096), base64_char (n div 64 mod 64), base64_char (n mod 64)] @ ''='')"
| "base64 (a # b # c # rest) =
     (let n = (unat a * 256 + unat b) * 256 + unat c
      in [base64_char (n div 262144), base64_char (n div 4096 mod 64), base64_char (n div 64 mod 64),
          base64_char (n mod 64)] @ base64 rest)"

section \<open>HTTP\<close>

record http_request =
  rq_url :: string
  rq_method :: string
  rq_headers :: "(string \<times> string) list"
  rq_body :: "json option"

record http_response =
  rs_status :: int
  rs_json :: "js_error + json"
  rs_arrayBuffer :: bytes

definition res_ok :: "http_response \<Rightarrow> bool" where
  "res_ok r \<longleftrightarrow> 200 \<le> rs_status r \<and> rs_status r \<le> 299"

text \<open>\<open>url.replace(/\/$/, "")\<close>: one trailing slash is removed.\<close>

definition strip_slash :: "string \<Rightarrow> string" where
  "strip_slash url = (if url \<noteq> [] \<and> last url = CHR ''/'' then butlast url else url)"

end
