(* ===== verification/Nyx_Session.thy ===== *)
theory Nyx_Session
  imports Nyx_Json
begin

text \<open>
  \<open>packages/sdk/src/per/attestation.ts\<close> and \<open>per/session-manager.ts\<close>: the attestation verifiers, the
  session-manager interface, the live manager with its cached token, and the mock manager of the
  unit tests. A manager is a record of operations over its own state; the live manager's state is
  its cached token and the state of the outside world its \<open>fetch\<close> and \<open>signNonce\<close> act on.

  The locale \<open>per_session\<close> is the contract the order functions rely on; the live and the mock
  manager are its instances.
\<close>

section \<open>Attestation\<close>

type_synonym 'w fetch_fn = "http_request \<Rightarrow> ('w, js_error, http_response) io"
type_synonym 'w attestation_verifier = "string \<Rightarrow> ('w, js_error, bool) io"

definition quote_acceptable :: "http_response \<Rightarrow> bool" where
  "quote_acceptable res =
     (if \<not> res_ok res then False
      else let buf = rs_arrayBuffer res
           in if length buf < 64 then False
              else if buf ! 0 \<noteq> 4 then False
              else True)"

definition defaultAttestationVerifier :: "'w fetch_fn \<Rightarrow> 'w attestation_verifier" where
  "defaultAttestationVerifier fetch perRpcUrl =
     io_bind (fetch \<lparr>rq_url = strip_slash perRpcUrl @ ''/attestation'', rq_method = ''GET'',
                     rq_headers = [], rq_body = None\<rparr>) (\<lambda>res.
     io_return (quote_acceptable res))"

definition alwaysPassAttestation :: "'w attestation_verifier" where
  "alwaysPassAttestation url = io_return True"

definition alwaysFailAttestation :: "'w attestation_verifier" where
  "alwaysFailAttestation url = io_return False"

section \<open>The interface\<close>

record 's IPerSessionManager =
  pm_verifyAttestation :: "('s, js_error, bool) io"
  pm_getToken :: "('s, js_error, string) io"
  pm_invalidateToken :: "'s \<Rightarrow> 's"
  pm_sendInstruction :: "instruction \<Rightarrow> string \<Rightarrow> bytes \<Rightarrow> ('s, js_error, string) io"

section \<open>The live manager\<close>

record 'w LivePerSessionManagerOptions =
  lo_perRpcUrl :: string
  lo_traderPubkey :: bytes
  lo_signNonce :: "bytes \<Rightarrow> ('w, js_error, bytes) io"
  lo_attestationVerifier :: "'w attestation_verifier option"
  lo_fetchImpl :: "'w fetch_fn option"

record 'w live_manager =
  lm_perRpcUrl :: string
  lm_traderPubkey :: bytes
  lm_signNonce :: "bytes \<Rightarrow> ('w, js_error, bytes) io"
  lm_attestationVerifier :: "'w attestation_verifier"
  lm_fetchImpl :: "'w fetch_fn"

record 'w live_state =
  ls_cachedToken :: "string option"
  ls_world :: 'w

text \<open>The constructor; \<open>globalFetch\<close> is the runtime's \<open>fetch\<close>, which the default verifier uses too.\<close>

definition newLivePerSessionManager ::
    "'w fetch_fn \<Rightarrow> 'w LivePerSessionManagerOptions \<Rightarrow> 'w live_manager" where
  "newLivePerSessionManager globalFetch opts =
     \<lparr>lm_perRpcUrl = strip_slash (lo_perRpcUrl opts),
      lm_traderPubkey = lo_traderPubkey opts,
      lm_signNonce = lo_signNonce opts,
      lm_attestationVerifier =
        (case lo_attestationVerifier opts of Some v \<Rightarrow> v | None \<Rightarrow> defaultAttestationVerifier globalFetch),
      lm_fetchImpl = (case lo_fetchImpl opts of Some f \<Rightarrow> f | None \<Rightarrow> globalFetch)\<rparr>"

text \<open>An effect on the outside world leaves the cached token alone.\<close>

definition lift_world :: "('w, js_error, 'a) io \<Rightarrow> ('w live_state, js_error, 'a) io" where
  "lift_world m s = (case m (ls_world s) of (r, w') \<Rightarrow> (r, s \<lparr>ls_world := w'\<rparr>))"

definition live_verifyAttestation :: "'w live_manager \<Rightarrow> ('w live_state, js_error, bool) io" where
  "live_verifyAttestation M = lift_world (lm_attestationVerifier M (lm_perRpcUrl M))"

definition json_header :: "(string \<times> string) list" where
  "json_header = [(''content-type'', ''application/json'')]"

definition fetchNewToken :: "'w live_manager \<Rightarrow> ('w, js_error, string) io" where
  "fetchNewToken M =
     io_bind (lm_fetchImpl M \<lparr>rq_url = lm_perRpcUrl M @ ''/auth/challenge'', rq_method = ''POST'',
        rq_headers = json_header,
        rq_body = Some (JObj [(''pubkey'', json_bytes (lm_traderPubkey M))])\<rparr>) (\<lambda>nonceRes.
     if \<not> res_ok nonceRes
     then io_throw (dpError AuthTokenFetch (''challenge fetch failed: '' @ bigint_toString (rs_status nonceRes)))
     else
       io_bind (io_of (rs_json nonceRes)) (\<lambda>nonceJson.
       io_bind (io_of (jget nonceJson ''nonce'')) (\<lambda>nonceVal.
       let nonce = json_to_bytes nonceVal in
       io_bind (lm_signNonce M nonce) (\<lambda>sig.
       io_bind (lm_fetchImpl M \<lparr>rq_url = lm_perRpcUrl M @ ''/auth/token'', rq_method = ''POST'',
          rq_headers = json_header,
          rq_body = Some (JObj [(''pubkey'', json_bytes (lm_traderPubkey M)),
                                (''nonce'', json_bytes nonce),
                                (''signature'', json_bytes sig)])\<rparr>) (\<lambda>tokRes.
       if \<not> res_ok tokRes
       then io_throw (dpError AuthTokenFetch (''token exchange failed: '' @ bigint_toString (rs_status tokRes)))
       else
         io_bind (io_of (rs_json tokRes)) (\<lambda>tokJson.
         io_bind (io_of (jget tokJson ''token'')) (\<lambda>tok.
         if \<not> truthy tok then io_throw (dpError AuthTokenFetch ''no token in response'')
         else io_return (json_to_string tok))))))))"

text \<open>\<open>if (this.cachedToken)\<close>: the empty string counts as no token.\<close>

definition live_getToken :: "'w live_manager \<Rightarrow> ('w live_state, js_error, string) io" where
  "live_getToken M s =
     (case ls_cachedToken s of
        Some t \<Rightarrow>
          if t \<noteq> [] then (Inr t, s)
          else io_bind (lift_world (fetchNewToken M))
                 (\<lambda>token st. (Inr token, st \<lparr>ls_cachedToken := Some token\<rparr>)) s
      | None \<Rightarrow> io_bind (lift_world (fetchNewToken M))
                 (\<lambda>token st. (Inr token, st \<lparr>ls_cachedToken := Some token\<rparr>)) s)"

definition live_invalidateToken :: "'w live_state \<Rightarrow> 'w live_state" where
  "live_invalidateToken s = s \<lparr>ls_cachedToken := None\<rparr>"

definition submit_body :: "instruction \<Rightarrow> json" where
  "submit_body ix =
     (let ixBytes = toBytes (ix_programId ix) @ ix_data ix
      in JObj [(''jsonrpc'', JStr ''2.0''), (''id'', JNum 1), (''method'', JStr ''submitOrderIx''),
               (''params'', JList [JStr (base64 ixBytes), JObj [(''encoding'', JStr ''base64'')]])])"

definition live_sendInstruction ::
    "'w live_manager \<Rightarrow> instruction \<Rightarrow> string \<Rightarrow> bytes \<Rightarrow> ('w live_state, js_error, string) io" where
  "live_sendInstruction M ix jwt ctx =
     io_bind (lift_world (lm_fetchImpl M \<lparr>rq_url = lm_perRpcUrl M, rq_method = ''POST'',
        rq_headers = [(''content-type'', ''application/json''), (''authorization'', ''Bearer '' @ jwt)],
        rq_body = Some (submit_body ix)\<rparr>)) (\<lambda>res.
     if rs_status res = 401
     then (\<lambda>s. io_throw (dpError AuthTokenFetch ''JWT expired / rejected'') (live_invalidateToken s))
     else if \<not> res_ok res
     then io_throw (dpError TransactionSend (''PER RPC returned '' @ bigint_toString (rs_status res)))
     else
       io_bind (io_of (rs_json res)) (\<lambda>j.
       io_bind (io_of (jget j ''error'')) (\<lambda>err.
       if truthy err
       then io_throw (dpError TransactionSend (''PER RPC error: ''
              @ (case err of Some v \<Rightarrow> json_stringify v | None \<Rightarrow> ''undefined'')))
       else
         io_bind (io_of (jget j ''result'')) (\<lambda>result.
         if \<not> truthy result then io_throw (dpError TransactionSend ''PER RPC empty result'')
         else io_return (json_to_string result)))))"

definition LivePerSessionManager :: "'w live_manager \<Rightarrow> ('w live_state) IPerSessionManager" where
  "LivePerSessionManager M =
     \<lparr>pm_verifyAttestation = live_verifyAttestation M, pm_getToken = live_getToken M,
      pm_invalidateToken = live_invalidateToken, pm_sendInstruction = live_sendInstruction M\<rparr>"

section \<open>The mock manager\<close>

record mock_state =
  mk_attestationOk :: bool
  mk_fixedToken :: string
  mk_tokenFetchCount :: int
  mk_sendCallCount :: int
  mk_injectNext401 :: bool
  mk_injectNextFailure :: "js_error option"
  mk_lastIx :: "instruction option"
  mk_lastJwt :: "string option"

definition newMockState :: mock_state where
  "newMockState = \<lparr>mk_attestationOk = True, mk_fixedToken = ''mock_jwt_ok'', mk_tokenFetchCount = 0,
     mk_sendCallCount = 0, mk_injectNext401 = False, mk_injectNextFailure = None, mk_lastIx = None,
     mk_lastJwt = None\<rparr>"

definition mock_verifyAttestation :: "(mock_state, js_error, bool) io" where
  "mock_verifyAttestation s = (Inr (mk_attestationOk s), s)"

definition mock_getToken :: "(mock_state, js_error, string) io" where
  "mock_getToken s =
     (let s' = s \<lparr>mk_tokenFetchCount := mk_tokenFetchCount s + 1\<rparr> in (Inr (mk_fixedToken s'), s'))"

definition mock_invalidateToken :: "mock_state \<Rightarrow> mock_state" where
  "mock_invalidateToken s =
     s \<lparr>mk_fixedToken := mk_fixedToken s @ ''_refreshed_'' @ bigint_toString (mk_tokenFetchCount s)\<rparr>"

definition mock_sendInstruction ::
    "string \<Rightarrow> instruction \<Rightarrow> string \<Rightarrow> bytes \<Rightarrow> (mock_state, js_error, string) io" where
  "mock_sendInstruction replySignature ix jwt ctx s =
     (let s1 = s \<lparr>mk_sendCallCount := mk_sendCallCount s + 1, mk_lastIx := Some ix, mk_lastJwt := Some jwt\<rparr>
      in case mk_injectNextFailure s1 of
           Some err \<Rightarrow> (Inl err, s1 \<lparr>mk_injectNextFailure := None\<rparr>)
         | None \<Rightarrow>
             if mk_injectNext401 s1
             then (Inl (dpError AuthTokenFetch ''mock 401''),
                   mock_invalidateToken (s1 \<lparr>mk_injectNext401 := False\<rparr>))
             else (Inr replySignature, s1))"

definition MockPerSessionManager :: "string option \<Rightarrow> mock_state IPerSessionManager" where
  "MockPerSessionManager replySignature =
     \<lparr>pm_verifyAttestation = mock_verifyAttestation, pm_getToken = mock_getToken,
      pm_invalidateToken = mock_invalidateToken,
      pm_sendInstruction =
        mock_sendInstruction (case replySignature of Some r \<Rightarrow> r | None \<Rightarrow> ''mock_sig_stub'')\<rparr>"

section \<open>The contract of a session manager\<close>

text \<open>\<open>token_of\<close> is the token a state would hand out, \<open>wb\<close> the states in which errors about
  tokens come from the manager itself.\<close>

locale per_session =
  fixes m :: "'s IPerSessionManager"
    and token_of :: "'s \<Rightarrow> string option"
    and wb :: "'s \<Rightarrow> bool"
  assumes getToken_caches: "pm_getToken m s = (Inr t, s') \<Longrightarrow> token_of s' = Some t"
    and getToken_cached: "token_of s = Some t \<Longrightarrow> \<exists>s'. pm_getToken m s = (Inr t, s')"
    and send_rejected: "wb s \<Longrightarrow> token_of s = Some jwt \<Longrightarrow> pm_sendInstruction m ix jwt ctx s = (Inl e, s')
          \<Longrightarrow> hasStage AuthTokenFetch e \<Longrightarrow> token_of s' \<noteq> Some jwt"
    and send_keeps: "pm_sendInstruction m ix jwt ctx s = (r, s')
          \<Longrightarrow> \<forall>e. r = Inl e \<longrightarrow> \<not> hasStage AuthTokenFetch e \<Longrightarrow> token_of s' = token_of s"
    and invalidate_drops: "token_of s = Some t \<Longrightarrow> token_of (pm_invalidateToken m s) \<noteq> Some t"
    and verify_keeps: "pm_verifyAttestation m s = (rv, s') \<Longrightarrow> token_of s' = token_of s"
    and wb_verify: "wb s \<Longrightarrow> pm_verifyAttestation m s = (rv, s') \<Longrightarrow> wb s'"
    and wb_getToken: "wb s \<Longrightarrow> pm_getToken m s = (r, s') \<Longrightarrow> wb s'"
begin

lemma getToken_stable:
  assumes "pm_getToken m s = (Inr t, s')"
  obtains s'' where "pm_getToken m s' = (Inr t, s'')"
  using getToken_caches [OF assms] getToken_cached by blast

text \<open>A token the service rejected is not handed out again from the cache: the refresh that
  follows is a real one.\<close>

lemma rejected_token_not_cached:
  assumes "wb s" and "pm_getToken m s = (Inr jwt, s1)"
    and "pm_sendInstruction m ix jwt ctx s1 = (Inl e, s2)" and "hasStage AuthTokenFetch e"
  shows "token_of s2 \<noteq> Some jwt"
  using send_rejected [OF wb_getToken [OF assms(1,2)] getToken_caches [OF assms(2)] assms(3,4)] .

end

section \<open>The two managers keep the contract\<close>

definition live_token :: "'w live_state \<Rightarrow> string option" where
  "live_token s = (case ls_cachedToken s of Some t \<Rightarrow> if t = [] then None else Some t | None \<Rightarrow> None)"

lemma json_stringify_nonempty [simp]: "json_stringify v \<noteq> []"
  by (cases v) (simp_all add: bigint_toString_def json_quote_def)

lemma truthy_string: "truthy v \<Longrightarrow> json_to_string v \<noteq> []"
  by (cases v rule: truthy.cases) (simp_all add: bigint_toString_def)

lemma fetchNewToken_nonempty: "fetchNewToken M w = (Inr t, w') \<Longrightarrow> t \<noteq> []"
  by (auto simp: fetchNewToken_def io_bind_eq_Inr Let_def truthy_string split: if_splits)

lemma lift_world_eq:
  "lift_world f s = (r, s') \<longleftrightarrow> (\<exists>w'. f (ls_world s) = (r, w') \<and> s' = s \<lparr>ls_world := w'\<rparr>)"
  by (auto simp: lift_world_def split: prod.splits)

lemma live_getToken_uncached:
  assumes "live_token s = None"
  shows "live_getToken M s =
     (case fetchNewToken M (ls_world s) of
        (Inr t, w') \<Rightarrow> (Inr t, \<lparr>ls_cachedToken = Some t, ls_world = w'\<rparr>)
      | (Inl e, w') \<Rightarrow> (Inl e, s \<lparr>ls_world := w'\<rparr>))"
  using assms
  by (cases s) (auto simp: live_token_def live_getToken_def lift_world_def io_bind_def
      split: option.splits prod.splits sum.splits if_splits)

lemma live_getToken_cached:
  "live_token s = Some t \<Longrightarrow> live_getToken M s = (Inr t, s)"
  by (auto simp: live_token_def live_getToken_def split: option.splits if_splits)

lemma live_getToken_Inr:
  assumes "live_getToken M s = (Inr t, s')"
  shows "live_token s' = Some t"
proof (cases "live_token s")
  case None
  with assms obtain w' where "fetchNewToken M (ls_world s) = (Inr t, w')" "s' = \<lparr>ls_cachedToken = Some t, ls_world = w'\<rparr>"
    by (auto simp: live_getToken_uncached split: prod.splits sum.splits)
  then show ?thesis using fetchNewToken_nonempty [of M "ls_world s" t w'] by (simp add: live_token_def)
next
  case (Some t')
  with assms show ?thesis by (simp add: live_getToken_cached)
qed

text \<open>What a send does to the cached token, by the reply.\<close>

lemma live_sendInstruction_token:
  assumes "live_sendInstruction M ix jwt ctx s = (r, s')"
  shows "ls_cachedToken s' = ls_cachedToken s
    \<or> ls_cachedToken s' = None \<and> r = Inl (dpError AuthTokenFetch ''JWT expired / rejected'')"
  using assms
  by (auto simp: live_sendInstruction_def io_bind_def lift_world_def live_invalidateToken_def Let_def
      split: prod.splits sum.splits if_splits)

text \<open>A runtime whose \<open>fetch\<close> and \<open>json()\<close> do not themselves throw the SDK's errors.\<close>

definition fetch_plain :: "'w live_manager \<Rightarrow> bool" where
  "fetch_plain M \<longleftrightarrow>
     (\<forall>rq w. case fst (lm_fetchImpl M rq w) of
        Inl e \<Rightarrow> \<not> isDarkPoolError e
      | Inr res \<Rightarrow> (case rs_json res of Inl e \<Rightarrow> \<not> isDarkPoolError e | Inr _ \<Rightarrow> True))"

lemma jget_plain: "jget j k = Inl e \<Longrightarrow> \<not> isDarkPoolError e"
  by (cases "(j, k)" rule: jget.cases) auto

lemma live_send_auth_error:
  assumes "fetch_plain M" and "live_sendInstruction M ix jwt ctx s = (Inl e, s')"
    and "hasStage AuthTokenFetch e"
  shows "ls_cachedToken s' = None"
proof -
  let ?rq = "\<lparr>rq_url = lm_perRpcUrl M, rq_method = ''POST'',
        rq_headers = [(''content-type'', ''application/json''), (''authorization'', ''Bearer '' @ jwt)],
        rq_body = Some (submit_body ix)\<rparr>"
  obtain r w' where f: "lm_fetchImpl M ?rq (ls_world s) = (r, w')" by fastforce
  from assms(1) have plain: "case r of Inl e \<Rightarrow> \<not> isDarkPoolError e
      | Inr res \<Rightarrow> (case rs_json res of Inl e \<Rightarrow> \<not> isDarkPoolError e | Inr _ \<Rightarrow> True)"
    unfolding fetch_plain_def by (metis f fst_conv)
  have dp: "isDarkPoolError e" using assms(3) by (simp add: hasStage_def)
  show ?thesis
  proof (cases r)
    case (Inl e')
    with f assms(2) have "e = e'" by (simp add: live_sendInstruction_def io_bind_def lift_world_def)
    with plain Inl dp show ?thesis by simp
  next
    case (Inr res)
    show ?thesis
      using assms(2,3) f Inr plain dp jget_plain
      by (auto simp: live_sendInstruction_def io_bind_def lift_world_def live_invalidateToken_def
          split: if_splits sum.splits)
  qed
qed

interpretation live: per_session "LivePerSessionManager M" live_token "\<lambda>s. fetch_plain M"
  for M :: "'w live_manager"
proof unfold_locales
  fix s s' :: "'w live_state" and t jwt :: string and ix ctx e
  show "pm_getToken (LivePerSessionManager M) s = (Inr t, s') \<Longrightarrow> live_token s' = Some t"
    by (simp add: LivePerSessionManager_def live_getToken_Inr)
  show "live_token s = Some t \<Longrightarrow> \<exists>s'. pm_getToken (LivePerSessionManager M) s = (Inr t, s')"
    by (simp add: LivePerSessionManager_def live_getToken_cached)
  show "live_token s' \<noteq> Some jwt" if "fetch_plain M" "live_token s = Some jwt"
    "pm_sendInstruction (LivePerSessionManager M) ix jwt ctx s = (Inl e, s')" "hasStage AuthTokenFetch e"
    using live_send_auth_error [of M ix jwt ctx s e s'] that by (simp add: LivePerSessionManager_def live_token_def)
  show "live_token (pm_invalidateToken (LivePerSessionManager M) s) \<noteq> Some t"
    by (simp add: LivePerSessionManager_def live_invalidateToken_def live_token_def)
next
  fix s s' :: "'w live_state" and r :: "js_error + string" and ix jwt ctx
  assume "pm_sendInstruction (LivePerSessionManager M) ix jwt ctx s = (r, s')"
    and "\<forall>e. r = Inl e \<longrightarrow> \<not> hasStage AuthTokenFetch e"
  then show "live_token s' = live_token s"
    using live_sendInstruction_token [of M ix jwt ctx s r s'] by (auto simp: LivePerSessionManager_def live_token_def)
next
  fix s s' :: "'w live_state" and r :: "js_error + bool"
  assume "pm_verifyAttestation (LivePerSessionManager M) s = (r, s')"
  then show "live_token s' = live_token s"
    by (auto simp: LivePerSessionManager_def live_verifyAttestation_def lift_world_eq live_token_def)
qed

interpretation mock: per_session "MockPerSessionManager reply" "\<lambda>s. Some (mk_fixedToken s)"
    "\<lambda>s. case mk_injectNextFailure s of Some e \<Rightarrow> \<not> hasStage AuthTokenFetch e | None \<Rightarrow> True"
  for reply
  by unfold_locales
    (auto simp: MockPerSessionManager_def mock_getToken_def mock_sendInstruction_def
      mock_invalidateToken_def mock_verifyAttestation_def Let_def split: option.splits if_splits)

section \<open>Properties\<close>

text \<open>(C37) The life of the live manager's token: a cached token is returned with no effect at all;
  without one, a successful handshake caches exactly the token it returns, never an empty one, and
  a failed one caches nothing; a send drops the token exactly when the service answers 401, which
  is reported as an \<open>auth-token-fetch\<close> error, and otherwise leaves it alone.\<close>

theorem live_token_lifecycle:
  "(case live_token s of
      Some t \<Rightarrow> live_getToken M s = (Inr t, s)
    | None \<Rightarrow> (case live_getToken M s of
          (Inr t, s') \<Rightarrow> t \<noteq> [] \<and> ls_cachedToken s' = Some t
        | (Inl e, s') \<Rightarrow> ls_cachedToken s' = ls_cachedToken s))
   \<and> (case lm_fetchImpl M \<lparr>rq_url = lm_perRpcUrl M, rq_method = ''POST'',
          rq_headers = [(''content-type'', ''application/json''), (''authorization'', ''Bearer '' @ jwt)],
          rq_body = Some (submit_body ix)\<rparr> (ls_world s) of
        (Inl e, w') \<Rightarrow> live_sendInstruction M ix jwt ctx s = (Inl e, s \<lparr>ls_world := w'\<rparr>)
      | (Inr res, w') \<Rightarrow>
          (if rs_status res = 401
           then live_sendInstruction M ix jwt ctx s =
                  (Inl (dpError AuthTokenFetch ''JWT expired / rejected''),
                   \<lparr>ls_cachedToken = None, ls_world = w'\<rparr>)
           else \<exists>r. live_sendInstruction M ix jwt ctx s = (r, s \<lparr>ls_world := w'\<rparr>)))"
proof (rule conjI)
  show "case live_token s of
      Some t \<Rightarrow> live_getToken M s = (Inr t, s)
    | None \<Rightarrow> (case live_getToken M s of
          (Inr t, s') \<Rightarrow> t \<noteq> [] \<and> ls_cachedToken s' = Some t
        | (Inl e, s') \<Rightarrow> ls_cachedToken s' = ls_cachedToken s)"
    using fetchNewToken_nonempty [of M "ls_world s"]
    by (auto simp: live_getToken_cached live_getToken_uncached split: option.splits prod.splits sum.splits)
qed (cases s, auto simp: live_sendInstruction_def io_bind_def lift_world_def live_invalidateToken_def
      split: prod.splits sum.splits if_splits)

text \<open>A rejected token is really replaced: with a live manager whose runtime does not throw
  the SDK's own errors, if the token just obtained is used in a send that fails with an
  \<open>auth-token-fetch\<close> error, the next \<open>getToken\<close> runs a new handshake instead of returning the cached
  value; with the mock manager the next token differs from the rejected one.\<close>

theorem rejected_token_replaced:
  assumes "fetch_plain M" and "live_getToken M s = (Inr jwt, s1)"
    and "live_sendInstruction M ix jwt ctx s1 = (Inl e, s2)" and "hasStage AuthTokenFetch e"
    and "mock_getToken k = (Inr mjwt, k1)" and "mk_injectNextFailure k = None"
    and "mock_sendInstruction reply ix mjwt ctx k1 = (Inl me, k2)"
  shows "live_getToken M s2 =
     (case fetchNewToken M (ls_world s2) of
        (Inr t, w') \<Rightarrow> (Inr t, \<lparr>ls_cachedToken = Some t, ls_world = w'\<rparr>)
      | (Inl e, w') \<Rightarrow> (Inl e, s2 \<lparr>ls_world := w'\<rparr>))
   \<and> fst (mock_getToken k2) \<noteq> Inr mjwt"
proof (rule conjI)
  have "ls_cachedToken s2 = None" using assms(1,3,4) by (rule live_send_auth_error)
  then show "live_getToken M s2 =
     (case fetchNewToken M (ls_world s2) of
        (Inr t, w') \<Rightarrow> (Inr t, \<lparr>ls_cachedToken = Some t, ls_world = w'\<rparr>)
      | (Inl e, w') \<Rightarrow> (Inl e, s2 \<lparr>ls_world := w'\<rparr>))"
    by (intro live_getToken_uncached) (simp add: live_token_def)
  have wb: "case mk_injectNextFailure k of Some e \<Rightarrow> \<not> hasStage AuthTokenFetch e | None \<Rightarrow> True"
    using assms(6) by simp
  have get: "pm_getToken (MockPerSessionManager (Some reply)) k = (Inr mjwt, k1)"
    using assms(5) by (simp add: MockPerSessionManager_def)
  have snd': "pm_sendInstruction (MockPerSessionManager (Some reply)) ix mjwt ctx k1 = (Inl me, k2)"
    using assms(7) by (simp add: MockPerSessionManager_def)
  have "hasStage AuthTokenFetch me"
    using assms(5-7) by (auto simp: mock_getToken_def mock_sendInstruction_def Let_def split: if_splits)
  from mock.rejected_token_not_cached [OF wb get snd' this]
  show "fst (mock_getToken k2) \<noteq> Inr mjwt" by (simp add: mock_getToken_def Let_def)
qed

text \<open>A runtime that answers every request with 401 once a token was given out.\<close>

definition reject_manager :: "nat live_manager" where
  "reject_manager = \<lparr>lm_perRpcUrl = ''u'', lm_traderPubkey = [], lm_signNonce = (\<lambda>n w. (Inr [], w)),
     lm_attestationVerifier = alwaysPassAttestation,
     lm_fetchImpl = (\<lambda>rq w. (Inr \<lparr>rs_status = (if w < 2 then 200 else 401),
        rs_json = Inr (JObj [(''token'', JStr ''t'')]), rs_arrayBuffer = []\<rparr>, w + 1))\<rparr>"

definition ix0 :: instruction where
  "ix0 = \<lparr>ix_programId = 0, ix_keys = [], ix_data = []\<rparr>"

definition mock401 :: mock_state where
  "mock401 = newMockState \<lparr>mk_injectNext401 := True\<rparr>"

theorem rejected_token_replaced_witness:
  "live_getToken reject_manager \<lparr>ls_cachedToken = None, ls_world = 0\<rparr>
     = (Inr ''t'', \<lparr>ls_cachedToken = Some ''t'', ls_world = 2\<rparr>)
   \<and> (case fetchNewToken reject_manager 3 of
        (Inr t, w') \<Rightarrow> live_getToken reject_manager \<lparr>ls_cachedToken = None, ls_world = 3\<rparr>
            = (Inr t, \<lparr>ls_cachedToken = Some t, ls_world = w'\<rparr>)
      | (Inl e, w') \<Rightarrow> live_getToken reject_manager \<lparr>ls_cachedToken = None, ls_world = 3\<rparr>
            = (Inl e, \<lparr>ls_cachedToken = None, ls_world = w'\<rparr>))
   \<and> fst (mock_getToken (snd (mock_sendInstruction ''r'' ix0 ''mock_jwt_ok'' [] (snd (mock_getToken mock401)))))
       \<noteq> Inr ''mock_jwt_ok''"
proof -
  have plain: "fetch_plain reject_manager" by (simp add: fetch_plain_def reject_manager_def)
  have get: "live_getToken reject_manager \<lparr>ls_cachedToken = None, ls_world = 0\<rparr>
      = (Inr ''t'', \<lparr>ls_cachedToken = Some ''t'', ls_world = 2\<rparr>)"
    by (simp add: live_getToken_def io_bind_def lift_world_def fetchNewToken_def reject_manager_def res_ok_def)
  have send: "live_sendInstruction reject_manager ix0 ''t'' [] \<lparr>ls_cachedToken = Some ''t'', ls_world = 2\<rparr>
      = (Inl (dpError AuthTokenFetch ''JWT expired / rejected''), \<lparr>ls_cachedToken = None, ls_world = 3\<rparr>)"
    by (simp add: live_sendInstruction_def io_bind_def lift_world_def reject_manager_def live_invalidateToken_def)
  have mget: "mock_getToken mock401 = (Inr ''mock_jwt_ok'', snd (mock_getToken mock401))"
    by (simp add: mock_getToken_def mock401_def newMockState_def)
  have fail: "mk_injectNextFailure mock401 = None" by (simp add: mock401_def newMockState_def)
  have msend: "mock_sendInstruction ''r'' ix0 ''mock_jwt_ok'' [] (snd (mock_getToken mock401))
      = (Inl (dpError AuthTokenFetch ''mock 401''),
         snd (mock_sendInstruction ''r'' ix0 ''mock_jwt_ok'' [] (snd (mock_getToken mock401))))"
    by (simp add: mock_sendInstruction_def mock_getToken_def mock401_def newMockState_def)
  show ?thesis
    using get rejected_token_replaced [OF plain get send _ mget fail msend]
    by (auto split: prod.splits sum.splits)
qed

end
