(* ===== verification/Nyx_Orders.thy ===== *)
theory Nyx_Orders
  imports Nyx_Matching_Client Nyx_Session "HOL-Library.Sublist"
begin

text \<open>
  \<open>packages/sdk/src/orders/submit-order.ts\<close> and \<open>orders/cancel-order.ts\<close>: the two order functions over
  any session manager. The state is the manager's; the client contributes the matching-engine
  program id, without which the factory itself throws.

  To state what leaves the client, \<open>traced\<close> wraps a manager so that it also records the calls
  made to it, and \<open>order_run\<close> lists the runs there are. Proved here: the calls of a run are a prefix of
  attestation, token, send, token, send, so nothing is sent before a positive attestation and
  nothing more than twice, each send with the token fetched before it; parameter errors have no
  effect at all; which errors carry a stage; how the collateral guard compares to the program's.
\<close>

section \<open>Definitions\<close>

datatype OrderSide = Bid | Ask
datatype OrderTypeName = NLimit | NIoc | NFok

record OrderParams =
  op_tradingKey :: pubkey
  op_market :: pubkey
  op_slotIdx :: int
  op_userCommitment :: bytes
  op_noteCommitment :: bytes
  op_amount :: int
  op_priceLimit :: int
  op_side :: OrderSide
  op_noteAmount :: int
  op_expirySlot :: int
  op_orderId :: bytes
  op_orderType :: "OrderTypeName option"
  op_minFillQty :: "int option"

fun ORDER_TYPE_BY_NAME :: "OrderTypeName \<Rightarrow> OrderType" where
  "ORDER_TYPE_BY_NAME NLimit = Limit"
| "ORDER_TYPE_BY_NAME NIoc = IOC"
| "ORDER_TYPE_BY_NAME NFok = FOK"

record OrderReceipt =
  or_signature :: string
  or_pendingOrderPda :: pubkey

text \<open>The synchronous checks, in their order; the value is the effective \<open>minFillQty\<close>.\<close>

definition validate_order :: "OrderParams \<Rightarrow> js_error + int" where
  "validate_order p =
     (if length (op_noteCommitment p) \<noteq> 32
      then Inl (dpError Parameter ''noteCommitment must be 32 bytes'')
      else if length (op_userCommitment p) \<noteq> 32
      then Inl (dpError Parameter ''userCommitment must be 32 bytes'')
      else if length (op_orderId p) \<noteq> 16
      then Inl (dpError Parameter ''orderId must be 16 bytes'')
      else if op_amount p \<le> 0 then Inl (dpError Parameter ''amount must be > 0'')
      else if op_priceLimit p \<le> 0 then Inl (dpError Parameter ''priceLimit must be > 0'')
      else if op_slotIdx p < 0 \<or> op_slotIdx p \<ge> MAX_PENDING_SLOTS_PER_USER
      then Inl (dpError Parameter (''slotIdx must be in [0, ''
             @ bigint_toString MAX_PENDING_SLOTS_PER_USER @ '')''))
      else
        let notional = op_amount p * op_priceLimit p
        in if notional > op_noteAmount p
           then Inl (dpError Parameter ''notional (amount * priceLimit) exceeds noteAmount'')
           else
             let minFillQty = (case op_minFillQty p of Some q \<Rightarrow> q | None \<Rightarrow> 0)
             in if minFillQty < 0 then Inl (dpError Parameter ''minFillQty must be >= 0'')
                else if minFillQty > op_amount p then Inl (dpError Parameter ''minFillQty must be <= amount'')
                else Inr minFillQty)"

text \<open>The token stage: an unstaged error is wrapped.\<close>

definition fetch_token :: "'s IPerSessionManager \<Rightarrow> ('s, js_error, string) io" where
  "fetch_token pm =
     io_catch (pm_getToken pm) (\<lambda>err.
       if isDarkPoolError err then io_throw err
       else io_throw (dpError AuthTokenFetch (''getToken failed: '' @ error_String err)))"

text \<open>The send stage: on an \<open>auth-token-fetch\<close> error one refresh and one more send, whose errors
  are not wrapped; other unstaged errors are.\<close>

definition send_with_refresh ::
    "'s IPerSessionManager \<Rightarrow> instruction \<Rightarrow> string \<Rightarrow> bytes \<Rightarrow> ('s, js_error, string) io" where
  "send_with_refresh pm ix jwt ctx =
     io_catch (pm_sendInstruction pm ix jwt ctx) (\<lambda>err.
       if isDarkPoolError err \<and> err_stage err = AuthTokenFetch
       then io_bind (pm_getToken pm) (\<lambda>jwt2. pm_sendInstruction pm ix jwt2 ctx)
       else if isDarkPoolError err then io_throw err
       else io_throw (dpError TransactionSend (''PER send failed: '' @ error_String err)))"

definition submit_params :: "pubkey \<Rightarrow> OrderParams \<Rightarrow> int \<Rightarrow> BuildSubmitOrderParams" where
  "submit_params meProgramId p minFillQty =
     \<lparr>so_programId = meProgramId, so_tradingKey = op_tradingKey p, so_market = op_market p,
      so_slotIdx = op_slotIdx p, so_side = (if op_side p = Bid then 0 else 1),
      so_amount = op_amount p, so_priceLimit = op_priceLimit p, so_noteAmount = op_noteAmount p,
      so_expirySlot = op_expirySlot p, so_orderId = op_orderId p,
      so_noteCommitment = op_noteCommitment p, so_userCommitment = op_userCommitment p,
      so_orderType = Some (ORDER_TYPE_BY_NAME (case op_orderType p of Some t \<Rightarrow> t | None \<Rightarrow> NLimit)),
      so_minFillQty = Some minFillQty\<rparr>"

definition submit_order ::
    "lib \<Rightarrow> pubkey \<Rightarrow> 's IPerSessionManager \<Rightarrow> OrderParams \<Rightarrow> ('s, js_error, OrderReceipt) io" where
  "submit_order L meProgramId pm p =
     io_bind (io_of (validate_order p)) (\<lambda>minFillQty.
     io_bind (pm_verifyAttestation pm) (\<lambda>attestOk.
     if \<not> attestOk
     then io_throw (dpError AttestationVerify (''TEE attestation failed '' @ em_dash @ '' no order data sent''))
     else
       io_bind (fetch_token pm) (\<lambda>jwt.
       io_bind (io_catch (io_of (buildSubmitOrderInstruction L (submit_params meProgramId p minFillQty)))
                 (\<lambda>err. io_throw (dpError InstructionBuild (''instruction build failed: '' @ error_String err))))
         (\<lambda>built.
       io_bind (send_with_refresh pm (sok_ix built) jwt (toBytes (op_tradingKey p))) (\<lambda>signature.
       io_return \<lparr>or_signature = signature, or_pendingOrderPda = sok_pendingOrderPda built\<rparr>)))))"

definition getOrderSubmitFunction ::
    "lib \<Rightarrow> pubkey option \<Rightarrow> 's IPerSessionManager
      \<Rightarrow> js_error + (OrderParams \<Rightarrow> ('s, js_error, OrderReceipt) io)" where
  "getOrderSubmitFunction L matchingEngineProgramId pm =
     (case matchingEngineProgramId of
        None \<Rightarrow> Inl (dpError Parameter
          ''DarkPoolClient.matchingEngineProgramId must be set for order submission'')
      | Some meProgramId \<Rightarrow> Inr (submit_order L meProgramId pm))"

record CancelOrderParams =
  cp_tradingKey :: pubkey
  cp_market :: pubkey
  cp_slotIdx :: int

record CancelOrderReceipt =
  cr_signature :: string

definition cancel_params :: "pubkey \<Rightarrow> CancelOrderParams \<Rightarrow> BuildCancelOrderParams" where
  "cancel_params meProgramId p =
     \<lparr>co_programId = meProgramId, co_tradingKey = cp_tradingKey p, co_market = cp_market p,
      co_slotIdx = cp_slotIdx p\<rparr>"

definition cancel_order ::
    "lib \<Rightarrow> pubkey \<Rightarrow> 's IPerSessionManager \<Rightarrow> CancelOrderParams \<Rightarrow> ('s, js_error, CancelOrderReceipt) io" where
  "cancel_order L meProgramId pm p =
     (if cp_slotIdx p < 0 \<or> cp_slotIdx p > 255 then io_throw (dpError Parameter ''slotIdx must be a u8'')
      else
        io_bind (pm_verifyAttestation pm) (\<lambda>attestOk.
        if \<not> attestOk
        then io_throw (dpError AttestationVerify (''TEE attestation failed '' @ em_dash @ '' no cancel sent''))
        else
          io_bind (fetch_token pm) (\<lambda>jwt.
          io_bind (io_of (buildCancelOrderInstruction L (cancel_params meProgramId p))) (\<lambda>ix.
          io_bind (send_with_refresh pm ix jwt (toBytes (cp_tradingKey p))) (\<lambda>signature.
          io_return \<lparr>cr_signature = signature\<rparr>)))))"

definition getOrderCancelFunction ::
    "lib \<Rightarrow> pubkey option \<Rightarrow> 's IPerSessionManager
      \<Rightarrow> js_error + (CancelOrderParams \<Rightarrow> ('s, js_error, CancelOrderReceipt) io)" where
  "getOrderCancelFunction L matchingEngineProgramId pm =
     (case matchingEngineProgramId of
        None \<Rightarrow> Inl (dpError Parameter
          ''DarkPoolClient.matchingEngineProgramId must be set for cancel_order'')
      | Some meProgramId \<Rightarrow> Inr (cancel_order L meProgramId pm))"

section \<open>Recording the calls\<close>

datatype call =
    CAttest "js_error + bool"
  | CToken "js_error + string"
  | CSend instruction string bytes "js_error + string"

datatype call_kind = KAttest | KToken | KSend

fun kind :: "call \<Rightarrow> call_kind" where
  "kind (CAttest _) = KAttest"
| "kind (CToken _) = KToken"
| "kind (CSend _ _ _ _) = KSend"

definition traced :: "'s IPerSessionManager \<Rightarrow> ('s \<times> call list) IPerSessionManager" where
  "traced pm =
     \<lparr>pm_verifyAttestation = (\<lambda>(s, tr). case pm_verifyAttestation pm s of (r, s') \<Rightarrow> (r, (s', tr @ [CAttest r]))),
      pm_getToken = (\<lambda>(s, tr). case pm_getToken pm s of (r, s') \<Rightarrow> (r, (s', tr @ [CToken r]))),
      pm_invalidateToken = (\<lambda>(s, tr). (pm_invalidateToken pm s, tr)),
      pm_sendInstruction = (\<lambda>ix jwt ctx (s, tr).
        case pm_sendInstruction pm ix jwt ctx s of (r, s') \<Rightarrow> (r, (s', tr @ [CSend ix jwt ctx r])))\<rparr>"

text \<open>What happens to an error without a stage: it is wrapped as one of the given stage.\<close>

definition staged :: "DarkPoolErrorStage \<Rightarrow> string \<Rightarrow> js_error \<Rightarrow> js_error" where
  "staged stage msg err = (if isDarkPoolError err then err else dpError stage (msg @ error_String err))"

text \<open>The runs of an order function for a trader, as the manager sees them, with the signature or the error they
  end with. \<open>built\<close> is the instruction or the builder's error and \<open>wrap\<close> what is thrown for the latter.\<close>

inductive order_run ::
    "bytes \<Rightarrow> (js_error \<Rightarrow> js_error) \<Rightarrow> string \<Rightarrow> js_error + instruction \<Rightarrow> js_error + string \<Rightarrow> call list \<Rightarrow> bool"
  for trader wrap refusal built where
  unattested: "order_run trader wrap refusal built (Inl e) [CAttest (Inl e)]"
| refused: "order_run trader wrap refusal built (Inl (dpError AttestationVerify refusal)) [CAttest (Inr False)]"
| no_token: "order_run trader wrap refusal built (Inl (staged AuthTokenFetch ''getToken failed: '' e)) [CAttest (Inr True), CToken (Inl e)]"
| not_built: "built = Inl e \<Longrightarrow> order_run trader wrap refusal built (Inl (wrap e)) [CAttest (Inr True), CToken (Inr jwt)]"
| sent: "built = Inr ix \<Longrightarrow> order_run trader wrap refusal built (Inr sig) [CAttest (Inr True), CToken (Inr jwt), CSend ix jwt trader (Inr sig)]"
| not_sent: "built = Inr ix \<Longrightarrow> \<not> hasStage AuthTokenFetch e \<Longrightarrow>
    order_run trader wrap refusal built (Inl (staged TransactionSend ''PER send failed: '' e))
      [CAttest (Inr True), CToken (Inr jwt), CSend ix jwt trader (Inl e)]"
| no_second_token: "built = Inr ix \<Longrightarrow> hasStage AuthTokenFetch e \<Longrightarrow>
    order_run trader wrap refusal built (Inl e') [CAttest (Inr True), CToken (Inr jwt), CSend ix jwt trader (Inl e), CToken (Inl e')]"
| sent_again: "built = Inr ix \<Longrightarrow> hasStage AuthTokenFetch e \<Longrightarrow>
    order_run trader wrap refusal built res
      [CAttest (Inr True), CToken (Inr jwt), CSend ix jwt trader (Inl e), CToken (Inr jwt'), CSend ix jwt' trader res]"

definition full_order_run :: "call_kind list" where
  "full_order_run = [KAttest, KToken, KSend, KToken, KSend]"

text \<open>The shape of a run.\<close>

definition order_run_ok ::
    "(js_error + instruction) \<Rightarrow> js_error + 'a \<Rightarrow> call list \<Rightarrow> bool" where
  "order_run_ok built r tr \<longleftrightarrow>
     prefix (map kind tr) full_order_run
     \<and> (\<forall>c \<in> set tr. case c of CAttest a \<Rightarrow> a = Inr True \<or> length tr = 1 | CToken _ \<Rightarrow> True
           | CSend ix jwt ctx res \<Rightarrow> built = Inr ix)
     \<and> (case r of
          Inr _ \<Rightarrow> (\<exists>ix jwt ctx sig. tr \<noteq> [] \<and> last tr = CSend ix jwt ctx (Inr sig))
        | Inl e \<Rightarrow> isDarkPoolError e \<or> tr = [CAttest (Inl e)] \<or> built = Inl e \<and> length tr = 2 \<or> 4 \<le> length tr)"

lemma staged_staged [simp]: "isDarkPoolError (staged stage msg e)"
  by (simp add: staged_def)

lemma order_run_shape:
  assumes "order_run trader wrap refusal built r tr" and "\<And>e. wrap e = e \<or> isDarkPoolError (wrap e)"
  shows "tr \<noteq> []" and "order_run_ok built (map_sum id f r) tr"
proof -
  show "order_run_ok built (map_sum id f r) tr"
    using assms(1)
  proof cases
    case (not_built e jwt)
    then show ?thesis using assms(2) [of e] by (auto simp: order_run_ok_def full_order_run_def)
  next
    case (sent_again ix e jwt jwt')
    then show ?thesis by (cases r) (auto simp: order_run_ok_def full_order_run_def)
  qed (simp_all add: order_run_ok_def full_order_run_def)
qed (use assms(1) in \<open>cases; simp\<close>)

lemma traced_run:
  "pm_sendInstruction pm ix jwt ctx s = (r, s') \<Longrightarrow>
     pm_sendInstruction (traced pm) ix jwt ctx (s, tr) = (r, (s', tr @ [CSend ix jwt ctx r]))"
  "pm_getToken pm s = (q, s') \<Longrightarrow> pm_getToken (traced pm) (s, tr) = (q, (s', tr @ [CToken q]))"
  "pm_verifyAttestation pm s = (b, s') \<Longrightarrow>
     pm_verifyAttestation (traced pm) (s, tr) = (b, (s', tr @ [CAttest b]))"
  by (simp_all add: traced_def)

lemma stage_hasStage: "isDarkPoolError err \<and> err_stage err = stage \<longleftrightarrow> hasStage stage err"
  by (simp add: hasStage_def)

text \<open>Both order functions after a positive attestation, a token and a built instruction.\<close>

lemma send_with_refresh_traced:
  "\<exists>r s' cs. send_with_refresh (traced pm) ix jwt trader (s, [CAttest (Inr True), CToken (Inr jwt)])
       = (r, (s', [CAttest (Inr True), CToken (Inr jwt)] @ cs))
     \<and> order_run trader wrap refusal (Inr ix) r ([CAttest (Inr True), CToken (Inr jwt)] @ cs)"
proof -
  obtain r1 s1 where 1: "pm_sendInstruction pm ix jwt trader s = (r1, s1)" by fastforce
  obtain q s2 where 2: "pm_getToken pm s1 = (q, s2)" by fastforce
  note run = traced_run(1) [OF 1] traced_run(2) [OF 2]
  consider (ok) sig where "r1 = Inr sig"
    | (auth) e where "r1 = Inl e" "hasStage AuthTokenFetch e"
    | (other) e where "r1 = Inl e" "\<not> hasStage AuthTokenFetch e"
    by (cases r1) auto
  then show ?thesis
  proof cases
    case ok
    then show ?thesis by (simp add: send_with_refresh_def io_catch_def run order_run.sent)
  next
    case other
    then show ?thesis using order_run.not_sent [OF refl other(2), of trader wrap refusal ix jwt]
      by (simp add: send_with_refresh_def io_catch_def run stage_hasStage staged_def split: if_splits)
  next
    case auth
    show ?thesis
    proof (cases q)
      case (Inl e2)
      with auth show ?thesis
        by (simp add: send_with_refresh_def io_catch_def io_bind_def run stage_hasStage order_run.no_second_token)
    next
      case (Inr jwt2)
      obtain r3 s3 where 3: "pm_sendInstruction pm ix jwt2 trader s2 = (r3, s3)" by fastforce
      from auth Inr show ?thesis
        by (simp add: send_with_refresh_def io_catch_def io_bind_def run stage_hasStage traced_run(1) [OF 3] order_run.sent_again)
    qed
  qed
qed

lemma fetch_token_traced:
  assumes "pm_getToken pm s = (q, s')"
  shows "fetch_token (traced pm) (s, tr) = (map_sum (staged AuthTokenFetch ''getToken failed: '') id q, (s', tr @ [CToken q]))"
  by (cases q) (simp_all add: fetch_token_def io_catch_def traced_run(2) [OF assms] staged_def)

subsection \<open>Recording changes nothing else\<close>

definition sim :: "('s, 'e, 'a) io \<Rightarrow> ('s \<times> 't, 'e, 'a) io \<Rightarrow> bool" where
  "sim f g \<longleftrightarrow> (\<forall>s t. \<exists>t'. g (s, t) = (fst (f s), (snd (f s), t')))"

lemma sim_basic: "sim (io_return x) (io_return x)" "sim (io_throw e) (io_throw e)" "sim (io_of r) (io_of r)"
  by (simp_all add: sim_def)

lemma sim_bind:
  assumes "sim f g" and "\<And>x. sim (h x) (k x)"
  shows "sim (io_bind f h) (io_bind g k)"
  unfolding sim_def
proof (intro allI)
  fix s t
  obtain t' where g: "g (s, t) = (fst (f s), (snd (f s), t'))" using assms(1) by (auto simp: sim_def)
  show "\<exists>t''. io_bind g k (s, t) = (fst (io_bind f h s), (snd (io_bind f h s), t''))"
  proof (cases "f s")
    case (Pair r u)
    then show ?thesis
      using g assms(2) by (cases r) (auto simp: io_bind_def sim_def)
  qed
qed

lemma sim_catch:
  assumes "sim f g" and "\<And>x. sim (h x) (k x)"
  shows "sim (io_catch f h) (io_catch g k)"
  unfolding sim_def
proof (intro allI)
  fix s t
  obtain t' where g: "g (s, t) = (fst (f s), (snd (f s), t'))" using assms(1) by (auto simp: sim_def)
  show "\<exists>t''. io_catch g k (s, t) = (fst (io_catch f h s), (snd (io_catch f h s), t''))"
  proof (cases "f s")
    case (Pair r u)
    then show ?thesis
      using g assms(2) by (cases r) (auto simp: io_catch_def sim_def)
  qed
qed

lemma sim_manager:
  "sim (pm_verifyAttestation pm) (pm_verifyAttestation (traced pm))"
  "sim (pm_getToken pm) (pm_getToken (traced pm))"
  "sim (pm_sendInstruction pm ix jwt ctx) (pm_sendInstruction (traced pm) ix jwt ctx)"
  by (simp_all add: sim_def traced_def case_prod_unfold)

lemma sim_if: "sim f g \<Longrightarrow> sim f' g' \<Longrightarrow> sim (if b then f else f') (if b then g else g')"
  by simp

lemmas sim_rules = sim_basic sim_bind sim_catch sim_manager sim_if

lemma sim_submit_order: "sim (submit_order L me pm p) (submit_order L me (traced pm) p)"
  unfolding submit_order_def fetch_token_def send_with_refresh_def by (intro sim_rules)

lemma sim_cancel_order: "sim (cancel_order L me pm p) (cancel_order L me (traced pm) p)"
  unfolding cancel_order_def fetch_token_def send_with_refresh_def by (intro sim_rules)

lemma simD: "sim f g \<Longrightarrow> g (s, t) = (r, (s', t')) \<Longrightarrow> f s = (r, s')"
  unfolding sim_def by (metis prod.collapse prod.inject)

section \<open>The runs\<close>

text \<open>The common part of both functions: attestation, token, a builder whose error is rethrown by \<open>wrap\<close>, and the send.\<close>

definition order_steps ::
    "'s IPerSessionManager \<Rightarrow> string \<Rightarrow> (js_error \<Rightarrow> js_error) \<Rightarrow> bytes \<Rightarrow> js_error + 'b \<Rightarrow> ('b \<Rightarrow> instruction)
      \<Rightarrow> ('b \<Rightarrow> string \<Rightarrow> 'a) \<Rightarrow> ('s, js_error, 'a) io" where
  "order_steps pm refusal wrap trader built ix receipt =
     io_bind (pm_verifyAttestation pm) (\<lambda>attestOk.
     if \<not> attestOk then io_throw (dpError AttestationVerify refusal)
     else io_bind (fetch_token pm) (\<lambda>jwt.
       io_bind (io_of (map_sum wrap id built)) (\<lambda>b.
       io_bind (send_with_refresh pm (ix b) jwt trader) (\<lambda>signature. io_return (receipt b signature)))))"

definition receipt_of :: "('b \<Rightarrow> string \<Rightarrow> 'a) \<Rightarrow> js_error + 'b \<Rightarrow> js_error + string \<Rightarrow> js_error + 'a" where
  "receipt_of receipt built res = map_sum id (receipt (projr built)) res"

lemma order_steps_traced:
  "\<exists>res s' tr. order_steps (traced pm) refusal wrap trader built ix receipt (s, []) = (receipt_of receipt built res, (s', tr))
     \<and> order_run trader wrap refusal (map_sum id ix built) res tr"
proof -
  obtain a s1 where A: "pm_verifyAttestation pm s = (a, s1)" by fastforce
  obtain q s2 where Q: "pm_getToken pm s1 = (q, s2)" by fastforce
  note run = traced_run(3) [OF A, of "[]", simplified] fetch_token_traced [OF Q]
  consider (err) e where "a = Inl e" | (no) "a = Inr False" | (token) e where "a = Inr True" "q = Inl e"
    | (build) jwt e where "a = Inr True" "q = Inr jwt" "built = Inl e" | (send) jwt b where "a = Inr True" "q = Inr jwt" "built = Inr b"
    by (cases a; cases q; cases built) auto
  then show ?thesis
  proof cases
    case err
    then show ?thesis by (auto simp: order_steps_def io_bind_def run receipt_of_def intro!: exI [of _ "Inl e"] order_run.unattested)
  next
    case no
    then show ?thesis
      by (auto simp: order_steps_def io_bind_def run receipt_of_def intro!: exI [of _ "Inl (dpError AttestationVerify refusal)"] order_run.refused)
  next
    case token
    then show ?thesis
      by (auto simp: order_steps_def io_bind_def run receipt_of_def intro!: exI [of _ "Inl (staged AuthTokenFetch ''getToken failed: '' e)"] order_run.no_token)
  next
    case build
    then show ?thesis
      by (auto simp: order_steps_def io_bind_def run receipt_of_def intro!: exI [of _ "Inl (wrap e)"] order_run.not_built)
  next
    case send
    obtain r s3 cs where S: "send_with_refresh (traced pm) (ix b) jwt trader (s2, [CAttest (Inr True), CToken (Inr jwt)])
          = (r, (s3, [CAttest (Inr True), CToken (Inr jwt)] @ cs))"
        "order_run trader wrap refusal (Inr (ix b)) r ([CAttest (Inr True), CToken (Inr jwt)] @ cs)"
      using send_with_refresh_traced [of pm "ix b" jwt trader s2 wrap refusal] by blast
    then show ?thesis using send
      by (cases r) (auto simp: order_steps_def io_bind_def run receipt_of_def intro!: exI [of _ r])
  qed
qed

definition submit_wrap :: "js_error \<Rightarrow> js_error" where
  "submit_wrap err = dpError InstructionBuild (''instruction build failed: '' @ error_String err)"

definition submit_receipt :: "SubmitOrderIxAndKeys \<Rightarrow> string \<Rightarrow> OrderReceipt" where
  "submit_receipt built signature = \<lparr>or_signature = signature, or_pendingOrderPda = sok_pendingOrderPda built\<rparr>"

lemma submit_order_steps:
  assumes "validate_order p = Inr mfq"
  shows "submit_order L me (pm :: 'a IPerSessionManager) p = order_steps pm (''TEE attestation failed '' @ em_dash @ '' no order data sent'') submit_wrap (toBytes (op_tradingKey p))
     (buildSubmitOrderInstruction L (submit_params me p mfq)) sok_ix submit_receipt"
proof -
  have "io_catch (io_of x) (\<lambda>err. io_throw (submit_wrap err)) = (io_of (map_sum submit_wrap id x) :: ('a, js_error, SubmitOrderIxAndKeys) io)" for x :: "js_error + SubmitOrderIxAndKeys"
    by (rule ext, cases x) (simp_all add: io_catch_def)
  moreover have "io_bind (io_of (Inr mfq)) k = k mfq" for k :: "int \<Rightarrow> ('a, js_error, OrderReceipt) io"
    by (rule ext) (simp add: io_bind_def)
  ultimately show ?thesis
    unfolding submit_order_def order_steps_def assms submit_receipt_def submit_wrap_def [symmetric] by (simp only:)
qed

lemma cancel_order_steps:
  assumes "0 \<le> cp_slotIdx p" and "cp_slotIdx p \<le> 255"
  shows "cancel_order L me pm p = order_steps pm (''TEE attestation failed '' @ em_dash @ '' no cancel sent'') id (toBytes (cp_tradingKey p))
     (buildCancelOrderInstruction L (cancel_params me p)) id (\<lambda>_ sig. \<lparr>cr_signature = sig\<rparr>)"
proof -
  have "\<not> (cp_slotIdx p < 0 \<or> cp_slotIdx p > 255)" using assms by simp
  then show ?thesis unfolding cancel_order_def order_steps_def sum.map_id id_apply by (simp only: if_False)
qed

lemma cancel_order_traced:
  assumes "0 \<le> cp_slotIdx p" and "cp_slotIdx p \<le> 255"
  shows "\<exists>r s' tr. cancel_order L me (traced pm) p (s, []) = (r, (s', tr)) \<and> tr \<noteq> []
    \<and> order_run_ok (buildCancelOrderInstruction L (cancel_params me p)) r tr"
proof -
  obtain res s' tr where run: "cancel_order L me (traced pm) p (s, []) =
        (receipt_of (\<lambda>_ sig. \<lparr>cr_signature = sig\<rparr>) (buildCancelOrderInstruction L (cancel_params me p)) res, (s', tr))"
      "order_run (toBytes (cp_tradingKey p)) id (''TEE attestation failed '' @ em_dash @ '' no cancel sent'')
         (buildCancelOrderInstruction L (cancel_params me p)) res tr"
    unfolding cancel_order_steps [OF assms]
    using order_steps_traced [of pm _ id _ "buildCancelOrderInstruction L (cancel_params me p)" id "\<lambda>_ sig. \<lparr>cr_signature = sig\<rparr>" s, unfolded sum.map_id]
    by blast
  then show ?thesis using order_run_shape [OF run(2)] by (auto simp: receipt_of_def)
qed

section \<open>The program's rule\<close>

text \<open>The parameter and collateral checks of \<open>submit_order_handler\<close> in
  \<open>programs/matching_engine/src/instructions/submit_order.rs\<close>: a bid needs \<open>amount * price\<close> of the
  quote note, an ask needs \<open>amount\<close> of the base note.\<close>

definition program_accepts_order :: "OrderParams \<Rightarrow> bool" where
  "program_accepts_order p \<longleftrightarrow>
     op_amount p > 0 \<and> op_priceLimit p > 0
     \<and> (case op_minFillQty p of Some q \<Rightarrow> q | None \<Rightarrow> 0) \<le> op_amount p
     \<and> (if op_side p = Bid then op_amount p * op_priceLimit p else op_amount p) \<le> op_noteAmount p"

text \<open>The parts of the client's check that are about shape and range only.\<close>

definition order_shape_ok :: "OrderParams \<Rightarrow> bool" where
  "order_shape_ok p \<longleftrightarrow> length (op_noteCommitment p) = 32 \<and> length (op_userCommitment p) = 32
     \<and> length (op_orderId p) = 16 \<and> 0 \<le> op_slotIdx p \<and> op_slotIdx p < 4
     \<and> 0 \<le> (case op_minFillQty p of Some q \<Rightarrow> q | None \<Rightarrow> 0)"

lemma validate_order_Inr:
  "validate_order p = Inr q \<longleftrightarrow>
     order_shape_ok p \<and> op_amount p > 0 \<and> op_priceLimit p > 0
     \<and> op_amount p * op_priceLimit p \<le> op_noteAmount p
     \<and> q = (case op_minFillQty p of Some q \<Rightarrow> q | None \<Rightarrow> 0) \<and> q \<le> op_amount p"
proof -
  define m where "m = (case op_minFillQty p of Some q \<Rightarrow> q | None \<Rightarrow> 0)"
  define n where "n = op_amount p * op_priceLimit p"
  show ?thesis
    unfolding validate_order_def order_shape_ok_def Let_def m_def [symmetric] n_def [symmetric]
      MAX_PENDING_SLOTS_PER_USER_def
    by (simp add: not_less not_le) (metis not_less not_le)
qed

lemma validate_order_Inl: "validate_order p = Inl e \<Longrightarrow> hasStage Parameter e"
  unfolding validate_order_def Let_def by (simp split: if_split_asm) (blast|auto)+

section \<open>Properties\<close>

text \<open>(C7) Every run of order submission, with any session manager. If the parameters are invalid
  the result is a \<open>parameter\<close> error, no call is made and the manager's state is unchanged. Otherwise the
  run is one of those of \<open>order_run\<close>: the calls are a prefix of attestation, token, send, token, send; a
  second call happens only after a positive attestation; every send carries the instruction built
  from the parameters, the token fetched just before it and the trader's key; there is a second
  send only when the first was refused with an \<open>auth-token-fetch\<close> error. A receipt has the signature
  of the last send and the built slot address; an error without a stage is that of the attestation call or
  of the retry, and a builder's error becomes \<open>instruction-build\<close>. Recording the calls does not
  change the run.\<close>

theorem submit_order_runs:
  "\<exists>r s' tr. submit_order L me (traced pm) p (s, []) = (r, (s', tr))
     \<and> submit_order L me pm p s = (r, s')
     \<and> (case validate_order p of
          Inl e \<Rightarrow> r = Inl e \<and> hasStage Parameter e \<and> s' = s \<and> tr = []
        | Inr mfq \<Rightarrow>
            let built = buildSubmitOrderInstruction L (submit_params me p mfq) in
            \<exists>res. order_run (toBytes (op_tradingKey p))
                (\<lambda>e. dpError InstructionBuild (''instruction build failed: '' @ error_String e))
                (''TEE attestation failed '' @ em_dash @ '' no order data sent'') (map_sum id sok_ix built) res tr
              \<and> prefix (map kind tr) full_order_run
              \<and> r = map_sum id (\<lambda>sig. \<lparr>or_signature = sig, or_pendingOrderPda = sok_pendingOrderPda (projr built)\<rparr>) res
              \<and> (case r of Inl e \<Rightarrow> isDarkPoolError e \<or> tr = [CAttest (Inl e)] \<or> 4 \<le> length tr | Inr _ \<Rightarrow> True))"
proof (cases "validate_order p")
  case (Inl e)
  then show ?thesis using validate_order_Inl by (simp add: submit_order_def io_bind_def)
next
  case (Inr mfq)
  let ?built = "buildSubmitOrderInstruction L (submit_params me p mfq)"
  have wrap: "submit_wrap = (\<lambda>e. dpError InstructionBuild (''instruction build failed: '' @ error_String e))"
    by (rule ext) (simp add: submit_wrap_def)
  obtain res s' tr where run: "submit_order L me (traced pm) p (s, []) = (receipt_of submit_receipt ?built res, (s', tr))"
      "order_run (toBytes (op_tradingKey p)) submit_wrap (''TEE attestation failed '' @ em_dash @ '' no order data sent'') (map_sum id sok_ix ?built) res tr"
    using order_steps_traced [of pm _ submit_wrap _ ?built sok_ix submit_receipt s] unfolding submit_order_steps [OF Inr] by blast
  have shape: "prefix (map kind tr) full_order_run"
    using order_run_shape(2) [OF run(2), of id] by (simp add: order_run_ok_def submit_wrap_def)
  have "case res of Inl e \<Rightarrow> isDarkPoolError e \<or> tr = [CAttest (Inl e)] \<or> 4 \<le> length tr | Inr _ \<Rightarrow> True"
    using run(2) by cases (simp_all add: submit_wrap_def split: sum.splits)
  then have err: "case receipt_of submit_receipt ?built res of Inl e \<Rightarrow> isDarkPoolError e \<or> tr = [CAttest (Inl e)] \<or> 4 \<le> length tr | Inr _ \<Rightarrow> True"
    by (cases res) (simp_all add: receipt_of_def)
  show ?thesis
    using Inr run simD [OF sim_submit_order run(1)] shape err
    by (auto simp: wrap receipt_of_def submit_receipt_def [abs_def] Let_def intro!: exI [of _ res])
qed

text \<open>(C36) Every run of order cancellation, with any session manager: a slot index outside \<open>0..255\<close>
  is a \<open>parameter\<close> error with no call made; otherwise the run has the shape of a submission's. But the
  guard is wider than the builder's: for a slot in \<open>4..255\<close> with a positive attestation and a
  token, the run ends after those two calls with the builder's error, which has no stage.\<close>

theorem cancel_order_runs:
  "\<exists>r s' tr. cancel_order L me (traced pm) p (s, []) = (r, (s', tr))
     \<and> cancel_order L me pm p s = (r, s')
     \<and> (if cp_slotIdx p < 0 \<or> cp_slotIdx p > 255
        then r = Inl (dpError Parameter ''slotIdx must be a u8'') \<and> s' = s \<and> tr = []
        else tr \<noteq> [] \<and> order_run_ok (buildCancelOrderInstruction L (cancel_params me p)) r tr)
     \<and> (case pm_verifyAttestation pm s of
          (Inr True, s1) \<Rightarrow>
            (case pm_getToken pm s1 of
               (Inr jwt, s2) \<Rightarrow>
                 (if cp_slotIdx p \<in> {4..255}
                  then \<exists>msg. r = Inl (newError msg) \<and> s' = s2 \<and> tr = [CAttest (Inr True), CToken (Inr jwt)]
                  else True)
             | _ \<Rightarrow> True)
        | _ \<Rightarrow> True)"
proof (cases "cp_slotIdx p < 0 \<or> cp_slotIdx p > 255")
  case True
  then show ?thesis by (auto simp: cancel_order_def split: prod.splits sum.splits bool.splits)
next
  case False
  then obtain r s' tr where run: "cancel_order L me (traced pm) p (s, []) = (r, (s', tr))"
      "tr \<noteq> []" "order_run_ok (buildCancelOrderInstruction L (cancel_params me p)) r tr"
    using cancel_order_traced [of p L me pm s] by auto
  have wide: "\<exists>msg. r = Inl (newError msg) \<and> s' = s2 \<and> tr = [CAttest (Inr True), CToken (Inr jwt)]"
    if a: "pm_verifyAttestation pm s = (Inr True, s1)" and t: "pm_getToken pm s1 = (Inr jwt, s2)"
      and slot: "cp_slotIdx p \<in> {4..255}" for s1 jwt s2
  proof -
    have "\<exists>msg. buildCancelOrderInstruction L (cancel_params me p) = Inl (newError msg)"
      using slot by (simp add: buildCancelOrderInstruction_def cancel_params_def slot_guard_def
          MAX_PENDING_SLOTS_PER_USER_def)
    with run(1) False show ?thesis
      by (auto simp: cancel_order_def io_bind_def fetch_token_def io_catch_def
          traced_run(3) [OF a] traced_run(2) [OF t])
  qed
  show ?thesis
    using run False wide simD [OF sim_cancel_order run(1)]
    by (auto split: prod.splits sum.splits bool.splits)
qed

text \<open>The collateral guard of the client against the program's. For a bid of the right shape
  the client accepts exactly the orders the program's rule accepts. For an ask it accepts only
  orders the program accepts, but not all of them: the client holds the price-weighted notional
  against the base note, and so refuses an ask of 100 units at price 50 fully covered by a base
  note of 100, which the program takes.\<close>

theorem collateral_guard_vs_program:
  assumes "order_shape_ok p"
  shows "if op_side p = Bid
     then (\<exists>q. validate_order p = Inr q) \<longleftrightarrow> program_accepts_order p
     else ((\<exists>q. validate_order p = Inr q) \<longrightarrow> program_accepts_order p)
        \<and> (let a = p \<lparr>op_amount := 100, op_priceLimit := 50, op_noteAmount := 100, op_minFillQty := None\<rparr>
           in program_accepts_order a
              \<and> validate_order a = Inl (dpError Parameter ''notional (amount * priceLimit) exceeds noteAmount''))"
proof (cases "op_side p")
  case Bid
  then show ?thesis using assms by (auto simp: validate_order_Inr program_accepts_order_def)
next
  case Ask
  have "op_amount p \<le> op_noteAmount p"
    if "op_amount p > 0" "op_priceLimit p > 0" "op_amount p * op_priceLimit p \<le> op_noteAmount p"
    using that mult_left_mono [of 1 "op_priceLimit p" "op_amount p"] by linarith
  with Ask assms show ?thesis
    by (auto simp: validate_order_Inr program_accepts_order_def validate_order_def order_shape_ok_def
        MAX_PENDING_SLOTS_PER_USER_def Let_def)
qed

definition sample_order :: OrderParams where
  "sample_order = \<lparr>op_tradingKey = 1, op_market = 2, op_slotIdx = 0, op_userCommitment = zeros 32,
     op_noteCommitment = zeros 32, op_amount = 10, op_priceLimit = 5, op_side = Ask,
     op_noteAmount = 60, op_expirySlot = 99, op_orderId = zeros 16, op_orderType = None,
     op_minFillQty = Some 3\<rparr>"

theorem collateral_guard_vs_program_witness:
  "program_accepts_order sample_order
   \<and> (let a = sample_order \<lparr>op_amount := 100, op_priceLimit := 50, op_noteAmount := 100, op_minFillQty := None\<rparr>
      in program_accepts_order a
         \<and> validate_order a = Inl (dpError Parameter ''notional (amount * priceLimit) exceeds noteAmount''))"
proof -
  have shape: "order_shape_ok sample_order" by (simp add: order_shape_ok_def sample_order_def)
  have side: "op_side sample_order \<noteq> Bid" by (simp add: sample_order_def)
  have "validate_order sample_order = Inr 3"
    by (simp add: validate_order_Inr order_shape_ok_def sample_order_def)
  then show ?thesis using collateral_guard_vs_program [OF shape] side by simp
qed

end
