(* ===== verification/Nyx_Er_Client.thy ===== *)
theory Nyx_Er_Client
  imports Nyx_Matching_Client
begin

text \<open>
  \<open>packages/sdk/src/idl/er-client.ts\<close>: delegation addresses, the instructions that move a market
  into and out of the ephemeral rollup, and \<open>waitForL1AccountChange\<close>, which polls an account until
  its data changes. The polling loop need not end (the clock could stand still), so it is a
  partial function: \<open>None\<close> stands for a run that never returns. Proved here: with a clock that
  moves forward by at least the sleeping time it always returns, with changed data, with an
  error of the connection, or with the timeout error once the deadline has passed.
\<close>

section \<open>Definitions\<close>

definition DELEGATION_PROGRAM_ID :: "lib \<Rightarrow> pubkey" where
  "DELEGATION_PROGRAM_ID L = pubkeyOfBase58 L ''DELeGGvXpWV2fqJUhqcF5ZSYMS4JTLjteaAMARRSaeSh''"
definition MAGIC_PROGRAM_ID :: "lib \<Rightarrow> pubkey" where
  "MAGIC_PROGRAM_ID L = pubkeyOfBase58 L ''Magic11111111111111111111111111111111111111''"
definition MAGIC_CONTEXT_ID :: "lib \<Rightarrow> pubkey" where
  "MAGIC_CONTEXT_ID L = pubkeyOfBase58 L ''MagicContext1111111111111111111111111111111''"

definition DELEGATE_BUFFER_TAG :: bytes where "DELEGATE_BUFFER_TAG = utf8 ''buffer''"
definition DELEGATION_RECORD_TAG :: bytes where "DELEGATION_RECORD_TAG = utf8 ''delegation''"
definition DELEGATION_METADATA_TAG :: bytes where "DELEGATION_METADATA_TAG = utf8 ''delegation-metadata''"

record DelegationPdas =
  del_buffer :: pubkey
  del_record :: pubkey
  del_metadata :: pubkey

definition delegationPdas :: "lib \<Rightarrow> pubkey \<Rightarrow> pubkey \<Rightarrow> js_error + DelegationPdas" where
  "delegationPdas L ownerProgramId delegatedPda =
     rbind (findProgramAddressSync L [DELEGATE_BUFFER_TAG, toBytes delegatedPda] ownerProgramId) (\<lambda>(buffer, _).
     rbind (findProgramAddressSync L [DELEGATION_RECORD_TAG, toBytes delegatedPda]
              (DELEGATION_PROGRAM_ID L)) (\<lambda>(rec, _).
     rbind (findProgramAddressSync L [DELEGATION_METADATA_TAG, toBytes delegatedPda]
              (DELEGATION_PROGRAM_ID L)) (\<lambda>(metadata, _).
     Inr \<lparr>del_buffer = buffer, del_record = rec, del_metadata = metadata\<rparr>)))"

definition encodePubkeyArg :: "pubkey \<Rightarrow> bytes" where
  "encodePubkeyArg market = toBytes market"

record DelegateMarketPdaParams =
  dm_programId :: pubkey
  dm_payer :: pubkey
  dm_market :: pubkey

definition buildDelegatePdaIx ::
    "lib \<Rightarrow> DelegateMarketPdaParams \<Rightarrow> string \<Rightarrow> pubkey \<Rightarrow> js_error + instruction" where
  "buildDelegatePdaIx L params ixName pda =
     rbind (delegationPdas L (dm_programId params) pda) (\<lambda>d.
     let keys =
           [meta (dm_payer params) True True,
            meta (del_buffer d) False True,
            meta (del_record d) False True,
            meta (del_metadata d) False True,
            meta pda False True,
            meta (dm_programId params) False False,
            meta (DELEGATION_PROGRAM_ID L) False False,
            meta (SystemProgram_programId L) False False];
         data = anchorDiscriminator L ixName @ encodePubkeyArg (dm_market params)
     in Inr (mkIx (dm_programId params) keys data))"

definition buildDelegateDarkClobInstruction ::
    "lib \<Rightarrow> DelegateMarketPdaParams \<Rightarrow> js_error + instruction" where
  "buildDelegateDarkClobInstruction L p =
     rbind (darkClobPda L (dm_programId p) (dm_market p)) (\<lambda>(pda, _).
     buildDelegatePdaIx L p ''delegate_dark_clob'' pda)"

definition buildDelegateMatchingConfigInstruction ::
    "lib \<Rightarrow> DelegateMarketPdaParams \<Rightarrow> js_error + instruction" where
  "buildDelegateMatchingConfigInstruction L p =
     rbind (matchingConfigPda L (dm_programId p) (dm_market p)) (\<lambda>(pda, _).
     buildDelegatePdaIx L p ''delegate_matching_config'' pda)"

definition buildDelegateBatchResultsInstruction ::
    "lib \<Rightarrow> DelegateMarketPdaParams \<Rightarrow> js_error + instruction" where
  "buildDelegateBatchResultsInstruction L p =
     rbind (batchResultsPda L (dm_programId p) (dm_market p)) (\<lambda>(pda, _).
     buildDelegatePdaIx L p ''delegate_batch_results'' pda)"

record BuildCommitMarketStateParams =
  cm_programId :: pubkey
  cm_payer :: pubkey
  cm_market :: pubkey

definition commitMarketStateAccounts ::
    "lib \<Rightarrow> BuildCommitMarketStateParams \<Rightarrow> js_error + account_meta list" where
  "commitMarketStateAccounts L p =
     rbind (darkClobPda L (cm_programId p) (cm_market p)) (\<lambda>(clob, _).
     rbind (matchingConfigPda L (cm_programId p) (cm_market p)) (\<lambda>(mcfg, _).
     rbind (batchResultsPda L (cm_programId p) (cm_market p)) (\<lambda>(breq, _).
     Inr [meta (cm_payer p) True True,
          meta clob False True,
          meta mcfg False True,
          meta breq False True,
          meta (MAGIC_PROGRAM_ID L) False False,
          meta (MAGIC_CONTEXT_ID L) False True])))"

definition buildCommitMarketStateInstruction ::
    "lib \<Rightarrow> BuildCommitMarketStateParams \<Rightarrow> js_error + instruction" where
  "buildCommitMarketStateInstruction L p =
     rbind (commitMarketStateAccounts L p) (\<lambda>keys.
     Inr (mkIx (cm_programId p) keys (anchorDiscriminator L ''commit_market_state'')))"

definition buildUndelegateMarketInstruction ::
    "lib \<Rightarrow> BuildCommitMarketStateParams \<Rightarrow> js_error + instruction" where
  "buildUndelegateMarketInstruction L p =
     rbind (commitMarketStateAccounts L p) (\<lambda>keys.
     Inr (mkIx (cm_programId p) keys (anchorDiscriminator L ''undelegate_market'')))"

text \<open>\<open>new Connection(url, commitment)\<close> is the parameter \<open>newConnection\<close>.\<close>

record 'c DualConnections =
  dual_l1 :: 'c
  dual_er :: 'c

definition openDualConnections ::
    "(string \<Rightarrow> string \<Rightarrow> 'c) \<Rightarrow> string \<Rightarrow> string \<Rightarrow> string option \<Rightarrow> 'c DualConnections" where
  "openDualConnections newConnection l1RpcUrl erRpcUrl commitment =
     (let c = (case commitment of Some x \<Rightarrow> x | None \<Rightarrow> ''confirmed'')
      in \<lparr>dual_l1 = newConnection l1RpcUrl c, dual_er = newConnection erRpcUrl c\<rparr>)"

text \<open>The part of the outside world the polling loop touches: the account data of the
  connection, \<open>Date.now()\<close> and \<open>setTimeout\<close>.\<close>

record 'w polling_env =
  env_getAccountInfo :: "pubkey \<Rightarrow> ('w, js_error, bytes option) io"
  env_now :: "'w \<Rightarrow> int"
  env_sleep :: "int \<Rightarrow> 'w \<Rightarrow> 'w"

partial_function (option) wait_loop ::
    "'w polling_env \<Rightarrow> pubkey \<Rightarrow> string option \<Rightarrow> int \<Rightarrow> int \<Rightarrow> js_error \<Rightarrow> 'w
      \<Rightarrow> ((js_error + bytes) \<times> 'w) option" where
  "wait_loop env pubkey initialDataHex intervalMs deadline timeoutErr w =
     (if env_now env w < deadline then
        (case env_getAccountInfo env pubkey w of
           (r, w1) \<Rightarrow>
             (case r of
                Inl e \<Rightarrow> Some (Inl e, w1)
              | Inr acct \<Rightarrow>
                  (case acct of
                     Some data \<Rightarrow>
                       (if Some (bytes_hex data) \<noteq> initialDataHex then Some (Inr data, w1)
                        else wait_loop env pubkey initialDataHex intervalMs deadline timeoutErr
                               (env_sleep env intervalMs w1))
                   | None \<Rightarrow>
                       wait_loop env pubkey initialDataHex intervalMs deadline timeoutErr
                         (env_sleep env intervalMs w1))))
      else Some (Inl timeoutErr, w))"

definition wait_timeout_error :: "lib \<Rightarrow> pubkey \<Rightarrow> int \<Rightarrow> js_error" where
  "wait_timeout_error L pubkey timeoutMs =
     newError (''waitForL1AccountChange: '' @ pubkey_toBase58 L pubkey
       @ '' did not change within '' @ bigint_toString timeoutMs @ ''ms'')"

definition waitForL1AccountChange ::
    "lib \<Rightarrow> 'w polling_env \<Rightarrow> pubkey \<Rightarrow> string option \<Rightarrow> int option \<Rightarrow> int option \<Rightarrow> 'w
      \<Rightarrow> ((js_error + bytes) \<times> 'w) option" where
  "waitForL1AccountChange L env pubkey initialDataHex optTimeoutMs optIntervalMs w =
     (let timeoutMs = (case optTimeoutMs of Some t \<Rightarrow> t | None \<Rightarrow> 45000);
          intervalMs = (case optIntervalMs of Some i \<Rightarrow> i | None \<Rightarrow> 750);
          deadline = env_now env w + timeoutMs
      in wait_loop env pubkey initialDataHex intervalMs deadline
           (wait_timeout_error L pubkey timeoutMs) w)"

section \<open>Termination of the polling loop\<close>

text \<open>Documented behaviour of the runtime: a timer fires no earlier than asked for, and time does
  not go back while a request is pending.\<close>

definition clock_advances :: "'w polling_env \<Rightarrow> bool" where
  "clock_advances env \<longleftrightarrow>
     (\<forall>i w. env_now env (env_sleep env i w) \<ge> env_now env w + i) \<and>
     (\<forall>k w. env_now env (snd (env_getAccountInfo env k w)) \<ge> env_now env w)"

lemma clock_advances_step:
  assumes "clock_advances env" and "env_getAccountInfo env k w = (r, w1)"
  shows "env_now env (env_sleep env i w1) \<ge> env_now env w + i"
proof -
  have "env_now env w1 \<ge> env_now env w" "env_now env (env_sleep env i w1) \<ge> env_now env w1 + i"
    using assms unfolding clock_advances_def by (metis snd_conv)+
  then show ?thesis by simp
qed

text \<open>What a finished run of the loop says.\<close>

definition wait_outcome ::
    "'w polling_env \<Rightarrow> string option \<Rightarrow> int \<Rightarrow> js_error \<Rightarrow> pubkey \<Rightarrow> (js_error + bytes) \<times> 'w \<Rightarrow> bool" where
  "wait_outcome env ini deadline timeoutErr k res \<longleftrightarrow>
     (case res of
        (Inr data, w') \<Rightarrow> Some (bytes_hex data) \<noteq> ini
          \<and> (\<exists>w0. env_now env w0 < deadline \<and> env_getAccountInfo env k w0 = (Inr (Some data), w'))
      | (Inl e, w') \<Rightarrow> (e = timeoutErr \<and> env_now env w' \<ge> deadline)
          \<or> (\<exists>w0. env_now env w0 < deadline \<and> env_getAccountInfo env k w0 = (Inl e, w')))"

lemma wait_loop_returns:
  assumes "clock_advances env" and "0 < i"
  shows "\<exists>res. wait_loop env k ini i deadline te w = Some res \<and> wait_outcome env ini deadline te k res"
proof (induction "nat (deadline - env_now env w)" arbitrary: w rule: less_induct)
  case less
  show ?case
  proof (cases "env_now env w < deadline")
    case False
    then show ?thesis by (subst wait_loop.simps) (simp add: wait_outcome_def)
  next
    case True
    obtain r w1 where get: "env_getAccountInfo env k w = (r, w1)" by fastforce
    have "nat (deadline - env_now env (env_sleep env i w1)) < nat (deadline - env_now env w)"
      using clock_advances_step [OF assms(1) get, of i] assms(2) True by simp
    then have IH: "\<exists>res. wait_loop env k ini i deadline te (env_sleep env i w1) = Some res
        \<and> wait_outcome env ini deadline te k res"
      by (rule less)
    consider (err) e where "r = Inl e" | (none) "r = Inr None"
      | (same) d where "r = Inr (Some d)" "Some (bytes_hex d) = ini"
      | (change) d where "r = Inr (Some d)" "Some (bytes_hex d) \<noteq> ini"
      by (metis option.exhaust sum.exhaust)
    then show ?thesis
      using True get IH by cases (subst wait_loop.simps, auto simp: wait_outcome_def)+
  qed
qed

section \<open>Properties\<close>

text \<open>(C38) \<open>waitForL1AccountChange\<close> always returns when the clock advances and the interval is
  positive (the default is): either with account data read before the deadline whose hex differs
  from the initial one, or with the error of a request made before the deadline, or with the
  timeout error at a time not before the deadline.\<close>

theorem waitForL1AccountChange_returns:
  assumes "clock_advances env" and "case optIntervalMs of None \<Rightarrow> True | Some i \<Rightarrow> 0 < i"
  shows "let timeoutMs = (case optTimeoutMs of None \<Rightarrow> 45000 | Some t \<Rightarrow> t) in
     \<exists>res. waitForL1AccountChange L env k ini optTimeoutMs optIntervalMs w = Some res
     \<and> wait_outcome env ini (env_now env w + timeoutMs) (wait_timeout_error L k timeoutMs) k res"
proof -
  have "0 < (case optIntervalMs of None \<Rightarrow> 750 | Some i \<Rightarrow> i)"
    using assms(2) by (cases optIntervalMs) simp_all
  then show ?thesis
    unfolding waitForL1AccountChange_def Let_def
    using wait_loop_returns [OF assms(1)] by blast
qed

text \<open>A world with a clock and an account that gets its data at time 1000.\<close>

definition sample_env :: "int polling_env" where
  "sample_env = \<lparr>env_getAccountInfo = (\<lambda>k w. (Inr (if w < 1000 then None else Some [7]), w + 1)),
     env_now = (\<lambda>w. w), env_sleep = (\<lambda>i w. w + i)\<rparr>"

theorem waitForL1AccountChange_returns_witness:
  "\<exists>res. waitForL1AccountChange ref_lib sample_env 5 None (Some 3000) None 0 = Some res
     \<and> wait_outcome sample_env None 3000 (wait_timeout_error ref_lib 5 3000) 5 res"
proof -
  have "clock_advances sample_env" by (simp add: clock_advances_def sample_env_def)
  from waitForL1AccountChange_returns [OF this, of None "Some 3000" ref_lib 5 None 0]
  show ?thesis by (simp add: sample_env_def)
qed

end
