(* ===== verification/Nyx_Tree.thy ===== *)
theory Nyx_Tree
  imports Nyx_Prelude
begin

text \<open>
  Binary hash trees in general, shared by the SHA-256 inclusion tree of the batches and the
  Poseidon tree of the vault.

  \<^item> \<open>mtree node d xs\<close> is the specification of a root: the tree of depth \<open>d\<close> over \<open>2 ^ d\<close>
    leaves, left half against right half.
  \<^item> \<open>mfold\<close> is what a verifier does: it folds a leaf with its siblings from the bottom up,
    choosing the side by the bits of the index; \<open>mpairs\<close> lists the pairs it hashes.
  \<^item> \<open>mpath\<close> and \<open>mbits\<close> are the siblings and the side bits of a leaf.
  \<^item> \<open>sroot\<close> is the root of a tree whose missing leaves are a zero leaf and \<open>zroot\<close> that of an
    empty one; \<open>fr_ok\<close> says which subtree roots an incremental tree has to remember of its leaves,
    \<open>fr_sibs\<close> and \<open>fr_walk\<close> are the siblings used and the state left by an append.

  The locale \<open>merkle_scheme\<close> is the contract of an implementation (a root function and a path
  function over leaves it pads in its own way); in it the paths verify, and they are the only
  ones that do as long as the node function does not collide on the pairs hashed.
\<close>

section \<open>Perfect trees\<close>

fun pairup :: "('a \<Rightarrow> 'a \<Rightarrow> 'a) \<Rightarrow> 'a list \<Rightarrow> 'a list" where
  "pairup node (a # b # xs) = node a b # pairup node xs"
| "pairup node xs = []"

fun mtree :: "('a \<Rightarrow> 'a \<Rightarrow> 'a) \<Rightarrow> nat \<Rightarrow> 'a list \<Rightarrow> 'a" where
  "mtree node 0 xs = hd xs"
| "mtree node (Suc d) xs = node (mtree node d (take (2 ^ d) xs)) (mtree node d (drop (2 ^ d) xs))"

definition sib_index :: "nat \<Rightarrow> nat" where
  "sib_index i = (if even i then i + 1 else i - 1)"

fun mpath :: "('a \<Rightarrow> 'a \<Rightarrow> 'a) \<Rightarrow> nat \<Rightarrow> 'a list \<Rightarrow> nat \<Rightarrow> 'a list" where
  "mpath node 0 xs i = []"
| "mpath node (Suc d) xs i = xs ! sib_index i # mpath node d (pairup node xs) (i div 2)"

fun mbits :: "nat \<Rightarrow> nat \<Rightarrow> int list" where
  "mbits 0 i = []"
| "mbits (Suc d) i = int (i mod 2) # mbits d (i div 2)"

fun mfold :: "('a \<Rightarrow> 'a \<Rightarrow> 'a) \<Rightarrow> 'a \<Rightarrow> nat \<Rightarrow> 'a list \<Rightarrow> 'a" where
  "mfold node cur i [] = cur"
| "mfold node cur i (s # ss) =
     mfold node (if even i then node cur s else node s cur) (i div 2) ss"

fun mpairs :: "('a \<Rightarrow> 'a \<Rightarrow> 'a) \<Rightarrow> 'a \<Rightarrow> nat \<Rightarrow> 'a list \<Rightarrow> ('a \<times> 'a) list" where
  "mpairs node cur i [] = []"
| "mpairs node cur i (s # ss) =
     (if even i then (cur, s) # mpairs node (node cur s) (i div 2) ss
      else (s, cur) # mpairs node (node s cur) (i div 2) ss)"

lemma length_pairup [simp]: "length (pairup node xs) = length xs div 2"
  by (induction node xs rule: pairup.induct) simp_all

lemma pairup_append: "even (length xs) \<Longrightarrow> pairup node (xs @ ys) = pairup node xs @ pairup node ys"
  by (induction node xs rule: pairup.induct) simp_all

lemma nth_pairup: "2 * j + 1 < length xs \<Longrightarrow> pairup node xs ! j = node (xs ! (2 * j)) (xs ! (2 * j + 1))"
proof (induction node xs arbitrary: j rule: pairup.induct)
  case (1 node a b xs)
  then show ?case by (cases j) simp_all
qed simp_all

lemma mtree_pairup: "length xs = 2 ^ Suc d \<Longrightarrow> mtree node (Suc d) xs = mtree node d (pairup node xs)"
proof (induction d arbitrary: xs)
  case 0
  then obtain a b where "xs = [a, b]"
    by (metis One_nat_def length_0_conv length_Suc_conv numeral_2_eq_2 power_Suc0_right)
  then show ?case by simp
next
  case (Suc d)
  let ?l = "take (2 ^ Suc d) xs" and ?r = "drop (2 ^ Suc d) xs"
  have len: "length ?l = 2 ^ Suc d" "length ?r = 2 ^ Suc d" using Suc.prems by simp_all
  have "pairup node xs = pairup node (?l @ ?r)" by simp
  also have "\<dots> = pairup node ?l @ pairup node ?r" using len by (subst pairup_append) simp_all
  finally have split: "pairup node xs = pairup node ?l @ pairup node ?r" .
  have "length (pairup node ?l) = 2 ^ d" using len by simp
  then have "take (2 ^ d) (pairup node xs) = pairup node ?l" "drop (2 ^ d) (pairup node xs) = pairup node ?r"
    by (simp_all only: split append_eq_conv_conj [symmetric] append_take_drop_id) simp_all
  then show ?case
    using Suc.IH [OF len(1)] Suc.IH [OF len(2)]
    by (simp only: mtree.simps(2) [of node "Suc d"] mtree.simps(2) [of node d "pairup node xs"])
qed

lemma length_mpath [simp]: "length (mpath node d xs i) = d"
  by (induction d arbitrary: xs i) simp_all

lemma length_mbits [simp]: "length (mbits d i) = d"
  by (induction d arbitrary: i) simp_all

lemma sib_index_less: "i < 2 * n \<Longrightarrow> sib_index i < 2 * n"
  by (auto simp: sib_index_def elim!: evenE)

text \<open>Completeness: folding a leaf with its siblings gives the root.\<close>

lemma mfold_mpath:
  "length xs = 2 ^ d \<Longrightarrow> i < 2 ^ d \<Longrightarrow> mfold node (xs ! i) i (mpath node d xs i) = mtree node d xs"
proof (induction d arbitrary: xs i)
  case 0
  then show ?case by (cases xs) simp_all
next
  case (Suc d)
  have up: "(if even i then node (xs ! i) (xs ! sib_index i) else node (xs ! sib_index i) (xs ! i))
      = pairup node xs ! (i div 2)"
  proof (cases "even i")
    case True
    then obtain j where "i = 2 * j" by (rule evenE)
    with Suc.prems show ?thesis by (simp add: nth_pairup sib_index_def)
  next
    case False
    then obtain j where "i = 2 * j + 1" by (rule oddE)
    with Suc.prems show ?thesis by (simp add: nth_pairup sib_index_def)
  qed
  have "mfold node (pairup node xs ! (i div 2)) (i div 2) (mpath node d (pairup node xs) (i div 2))
      = mtree node d (pairup node xs)"
    using Suc.prems by (intro Suc.IH) simp_all
  then show ?case using up Suc.prems by (simp only: mpath.simps mfold.simps mtree_pairup)
qed

text \<open>Soundness: two folds with the same index and length that agree used the same leaf and the
  same siblings, if the node function is injective on the pairs they hash.\<close>

lemma mfold_inject:
  assumes "mfold node a i ss = mfold node b i ts" and "length ss = length ts"
    and "inj_on (\<lambda>(x, y). node x y) (set (mpairs node a i ss) \<union> set (mpairs node b i ts))"
  shows "a = b \<and> ss = ts"
  using assms
proof (induction ss arbitrary: a b i ts)
  case Nil
  then show ?case by simp
next
  case (Cons s ss)
  from Cons.prems(2) obtain t ts' where ts: "ts = t # ts'" and len: "length ss = length ts'"
    by (cases ts) auto
  let ?f = "\<lambda>(x, y). node x y"
  show ?case
  proof (cases "even i")
    case True
    let ?R = "set (mpairs node (node a s) (i div 2) ss) \<union> set (mpairs node (node b t) (i div 2) ts')"
    from Cons.prems(3) True ts have inj: "inj_on ?f (insert (a, s) (insert (b, t) ?R))"
      by (simp del: inj_on_insert add: insert_commute)
    from Cons.prems(1) True ts have "mfold node (node a s) (i div 2) ss = mfold node (node b t) (i div 2) ts'"
      by simp
    then have up: "node a s = node b t \<and> ss = ts'"
      using len inj_on_subset [OF inj subset_insertI2 [OF subset_insertI]] by (rule Cons.IH)
    have "(a, s) = (b, t)" by (rule inj_onD [OF inj]) (use up in simp_all)
    with up ts show ?thesis by simp
  next
    case False
    let ?R = "set (mpairs node (node s a) (i div 2) ss) \<union> set (mpairs node (node t b) (i div 2) ts')"
    from Cons.prems(3) False ts have inj: "inj_on ?f (insert (s, a) (insert (t, b) ?R))"
      by (simp del: inj_on_insert add: insert_commute)
    from Cons.prems(1) False ts have "mfold node (node s a) (i div 2) ss = mfold node (node t b) (i div 2) ts'"
      by simp
    then have up: "node s a = node t b \<and> ss = ts'"
      using len inj_on_subset [OF inj subset_insertI2 [OF subset_insertI]] by (rule Cons.IH)
    have "(s, a) = (t, b)" by (rule inj_onD [OF inj]) (use up in simp_all)
    with up ts show ?thesis by simp
  qed
qed

section \<open>Trees with a zero leaf\<close>

primrec zroot :: "('a \<Rightarrow> 'a \<Rightarrow> 'a) \<Rightarrow> 'a \<Rightarrow> nat \<Rightarrow> 'a" where
  "zroot node z 0 = z"
| "zroot node z (Suc d) = node (zroot node z d) (zroot node z d)"

text \<open>\<open>zpad z d xs\<close> fills the leaves up to \<open>2 ^ d\<close>; \<open>sroot node z d xs\<close> is the root.\<close>

definition zpad :: "'a \<Rightarrow> nat \<Rightarrow> 'a list \<Rightarrow> 'a list" where
  "zpad z d xs = xs @ replicate (2 ^ d - length xs) z"

definition sroot :: "('a \<Rightarrow> 'a \<Rightarrow> 'a) \<Rightarrow> 'a \<Rightarrow> nat \<Rightarrow> 'a list \<Rightarrow> 'a" where
  "sroot node z d xs = mtree node d (zpad z d xs)"

text \<open>One level of a tree whose last node may lack a sibling.\<close>

fun pairz :: "('a \<Rightarrow> 'a \<Rightarrow> 'a) \<Rightarrow> 'a \<Rightarrow> 'a list \<Rightarrow> 'a list" where
  "pairz node z (a # b # xs) = node a b # pairz node z xs"
| "pairz node z [a] = [node a z]"
| "pairz node z [] = []"

lemma length_pairz: "length (pairz node z xs) = (length xs + 1) div 2"
  by (induction node z xs rule: pairz.induct) simp_all

lemma length_zpad: "length xs \<le> 2 ^ d \<Longrightarrow> length (zpad z d xs) = 2 ^ d"
  by (simp add: zpad_def)

lemma take_zpad: "take (length xs) (zpad z d xs) = xs"
  by (simp add: zpad_def)

lemma zroot_shift: "zroot node (node z z) d = zroot node z (Suc d)"
  by (induction d) simp_all

lemma pairup_replicate: "pairup node (replicate (2 * n) z) = replicate n (node z z)"
  by (induction n) simp_all

lemma mtree_replicate: "mtree node d (replicate (2 ^ d) z) = zroot node z d"
  by (induction d) simp_all

lemma pairup_zpad:
  "length xs \<le> 2 * n \<Longrightarrow> pairup node (xs @ replicate (2 * n - length xs) z)
     = pairz node z xs @ replicate (n - (length xs + 1) div 2) (node z z)"
proof (induction node z xs arbitrary: n rule: pairz.induct)
  case (1 node z a b xs)
  then obtain m where m: "n = Suc m" by (cases n) auto
  show ?case using 1 by (simp add: m)
next
  case (2 node z a)
  then obtain m where m: "n = Suc m" by (cases n) auto
  then show ?case using pairup_replicate [of node m z] by simp
next
  case (3 node z)
  then show ?case by (simp add: pairup_replicate)
qed

lemma sroot_step:
  assumes "length xs \<le> 2 ^ Suc d"
  shows "sroot node z (Suc d) xs = sroot node (node z z) d (pairz node z xs)"
proof -
  have "pairup node (zpad z (Suc d) xs) = zpad (node z z) d (pairz node z xs)"
    using assms pairup_zpad [of xs "2 ^ d" node z] by (simp add: zpad_def length_pairz)
  then show ?thesis
    using mtree_pairup [OF length_zpad [OF assms], of node z] by (simp add: sroot_def)
qed

lemma sroot_Nil: "sroot node z d [] = zroot node z d"
  by (simp add: sroot_def zpad_def mtree_replicate)

lemma sroot_0: "xs \<noteq> [] \<Longrightarrow> sroot node z 0 xs = hd xs"
  by (simp add: sroot_def zpad_def)

text \<open>A tree over leaves that fit its left half.\<close>

lemma zpad_Suc:
  assumes "length xs \<le> 2 ^ d"
  shows "zpad z (Suc d) xs = zpad z d xs @ replicate (2 ^ d) z"
proof -
  have "2 ^ Suc d - length xs = (2 ^ d - length xs) + 2 ^ d" using assms by simp
  then show ?thesis by (simp add: zpad_def replicate_add)
qed

lemma sroot_Suc: "length xs \<le> 2 ^ d \<Longrightarrow> sroot node z (Suc d) xs = node (sroot node z d xs) (zroot node z d)"
  by (simp add: sroot_def zpad_Suc length_zpad mtree_replicate)

lemma mpath_top:
  "length xs = 2 ^ Suc d \<Longrightarrow> i < 2 ^ d \<Longrightarrow>
     mpath node (Suc d) xs i = mpath node d (take (2 ^ d) xs) i @ [mtree node d (drop (2 ^ d) xs)]"
proof (induction d arbitrary: xs i)
  case 0
  then obtain a b where "xs = [a, b]"
    by (metis One_nat_def length_0_conv length_Suc_conv numeral_2_eq_2 power_Suc0_right)
  with 0 show ?case by (simp add: sib_index_def)
next
  case (Suc d)
  let ?l = "take (2 ^ Suc d) xs" and ?r = "drop (2 ^ Suc d) xs"
  have len: "length ?l = 2 ^ Suc d" "length ?r = 2 ^ Suc d" using Suc.prems by simp_all
  have "pairup node (?l @ ?r) = pairup node ?l @ pairup node ?r" using len by (subst pairup_append) simp_all
  then have split: "pairup node xs = pairup node ?l @ pairup node ?r" by simp
  have half: "length (pairup node ?l) = 2 ^ d" using len by simp
  have "sib_index i < 2 ^ Suc d" using Suc.prems sib_index_less [of i "2 ^ d"] by simp
  then have nth: "xs ! sib_index i = ?l ! sib_index i" by simp
  have "mpath node (Suc d) (pairup node xs) (i div 2)
      = mpath node d (pairup node ?l) (i div 2) @ [mtree node d (pairup node ?r)]"
    using Suc.IH [of "pairup node xs" "i div 2"] Suc.prems half by (simp add: split less_mult_imp_div_less)
  then show ?case using nth mtree_pairup [OF len(2), of node] by (simp only: mpath.simps append_Cons)
qed

lemma mpath_zpad_Suc:
  assumes "length xs \<le> 2 ^ d" and "i < 2 ^ d"
  shows "mpath node (Suc d) (zpad z (Suc d) xs) i = mpath node d (zpad z d xs) i @ [zroot node z d]"
proof -
  have "length (zpad z (Suc d) xs) = 2 ^ Suc d" using assms by (intro length_zpad) simp
  from mpath_top [OF this assms(2), of node]
  show ?thesis using assms(1) by (simp add: zpad_Suc length_zpad mtree_replicate)
qed

lemma mbits_Suc: "i < 2 ^ d \<Longrightarrow> mbits (Suc d) i = mbits d i @ [0]"
proof (induction d arbitrary: i)
  case (Suc d)
  then have "mbits (Suc d) (i div 2) = mbits d (i div 2) @ [0]" by (intro Suc.IH) simp
  then show ?case by simp
qed simp

section \<open>Incremental trees\<close>

text \<open>\<open>fr_ok node rs xs\<close>: at every level where the number of nodes is odd, the state holds the last
  complete node.\<close>

fun fr_ok :: "('a \<Rightarrow> 'a \<Rightarrow> 'a) \<Rightarrow> 'a list \<Rightarrow> 'a list \<Rightarrow> bool" where
  "fr_ok node [] xs = True"
| "fr_ok node (r # rs) xs = ((odd (length xs) \<longrightarrow> r = last xs) \<and> fr_ok node rs (pairup node xs))"

fun fr_sibs :: "('a \<Rightarrow> 'a \<Rightarrow> 'a) \<Rightarrow> 'a \<Rightarrow> nat \<Rightarrow> 'a list \<Rightarrow> 'a list" where
  "fr_sibs node z i [] = []"
| "fr_sibs node z i (r # rs) = (if even i then z else r) # fr_sibs node (node z z) (i div 2) rs"

fun fr_walk :: "('a \<Rightarrow> 'a \<Rightarrow> 'a) \<Rightarrow> 'a \<Rightarrow> nat \<Rightarrow> 'a \<Rightarrow> 'a list \<Rightarrow> 'a list" where
  "fr_walk node z i cur [] = []"
| "fr_walk node z i cur (r # rs) =
     (if even i then cur # fr_walk node (node z z) (i div 2) (node cur z) rs
      else r # fr_walk node (node z z) (i div 2) (node r cur) rs)"

lemma length_fr_sibs [simp]: "length (fr_sibs node z i rs) = length rs"
  by (induction node z i rs rule: fr_sibs.induct) simp_all

lemma length_fr_walk [simp]: "length (fr_walk node z i cur rs) = length rs"
  by (induction node z i cur rs rule: fr_walk.induct) simp_all

lemma pairup_snoc_even: "even (length xs) \<Longrightarrow> pairup node (xs @ [a]) = pairup node xs"
  by (induction node xs rule: pairup.induct) simp_all

lemma pairup_snoc_odd: "odd (length xs) \<Longrightarrow> pairup node (xs @ [a]) = pairup node xs @ [node (last xs) a]"
  by (induction node xs rule: pairup.induct) auto

lemma pairz_snoc:
  "pairz node z (xs @ [a]) = pairup node xs @ [if even (length xs) then node a z else node (last xs) a]"
  by (induction node xs rule: pairup.induct) auto

text \<open>Folding a new leaf with those siblings gives the root of the extended tree.\<close>

lemma mfold_fr_sibs:
  "fr_ok node rs xs \<Longrightarrow> length xs < 2 ^ length rs \<Longrightarrow>
     mfold node a (length xs) (fr_sibs node z (length xs) rs) = sroot node z (length rs) (xs @ [a])"
proof (induction rs arbitrary: xs a z)
  case Nil
  then show ?case by (simp add: sroot_0)
next
  case (Cons r rs)
  let ?up = "if even (length xs) then node a z else node (last xs) a"
  have "mfold node ?up (length (pairup node xs)) (fr_sibs node (node z z) (length (pairup node xs)) rs)
      = sroot node (node z z) (length rs) (pairup node xs @ [?up])"
    using Cons.prems by (intro Cons.IH) auto
  moreover have "sroot node z (Suc (length rs)) (xs @ [a])
      = sroot node (node z z) (length rs) (pairup node xs @ [?up])"
    using Cons.prems(2) by (subst sroot_step) (simp_all add: pairz_snoc)
  ultimately show ?case using Cons.prems(1) by (auto split: if_splits)
qed

text \<open>The state after the append remembers the extended leaves.\<close>

lemma fr_ok_walk_same: "fr_ok node rs xs \<Longrightarrow> fr_ok node (fr_walk node z (length xs) a rs) xs"
proof (induction rs arbitrary: xs a z)
  case (Cons r rs)
  have "fr_ok node (fr_walk node (node z z) (length (pairup node xs)) b rs) (pairup node xs)" for b
    using Cons.prems by (intro Cons.IH) simp
  then show ?case using Cons.prems by simp
qed simp

lemma fr_ok_walk: "fr_ok node rs xs \<Longrightarrow> fr_ok node (fr_walk node z (length xs) a rs) (xs @ [a])"
proof (induction rs arbitrary: xs a z)
  case (Cons r rs)
  show ?case
  proof (cases "even (length xs)")
    case True
    then show ?thesis
      using Cons.prems fr_ok_walk_same [of node rs "pairup node xs" "node z z"]
      by (simp add: pairup_snoc_even)
  next
    case False
    then show ?thesis
      using Cons.prems Cons.IH [of "pairup node xs" "node z z" "node (last xs) a"]
      by (simp add: pairup_snoc_odd)
  qed
qed simp

lemma fr_ok_Nil: "fr_ok node rs []"
  by (induction rs) simp_all

section \<open>The contract of an inclusion tree\<close>

locale merkle_scheme =
  fixes node :: "'a \<Rightarrow> 'a \<Rightarrow> 'a"
    and depth :: "'a list \<Rightarrow> nat"
    and padded :: "'a list \<Rightarrow> 'a list"
    and root :: "'a list \<Rightarrow> 'e + 'a"
    and path :: "'a list \<Rightarrow> nat \<Rightarrow> 'e + 'a list \<times> int list"
    and valid :: "'a list \<Rightarrow> bool"
  assumes padded_length: "valid xs \<Longrightarrow> length (padded xs) = 2 ^ depth xs"
    and padded_prefix: "valid xs \<Longrightarrow> take (length xs) (padded xs) = xs"
    and root_law: "valid xs \<Longrightarrow> root xs = Inr (mtree node (depth xs) (padded xs))"
    and path_law: "valid xs \<Longrightarrow> i < length xs \<Longrightarrow>
          path xs i = Inr (mpath node (depth xs) (padded xs) i, mbits (depth xs) i)"
begin

lemma padded_nth:
  assumes "valid xs" and "i < length xs"
  shows "i < 2 ^ depth xs" and "padded xs ! i = xs ! i"
proof -
  have "length xs \<le> length (padded xs)"
    using padded_prefix [OF assms(1)] by (metis length_take min.cobounded1)
  with assms padded_length show "i < 2 ^ depth xs" by fastforce
  show "padded xs ! i = xs ! i"
    using padded_prefix [OF assms(1)] assms(2) by (metis nth_take)
qed

lemma path_verifies:
  assumes "valid xs" and "i < length xs"
  obtains r ss where "root xs = Inr r" and "path xs i = Inr (ss, mbits (depth xs) i)"
    and "length ss = depth xs" and "mfold node (xs ! i) i ss = r"
proof
  show "root xs = Inr (mtree node (depth xs) (padded xs))" using assms(1) by (rule root_law)
  show "path xs i = Inr (mpath node (depth xs) (padded xs) i, mbits (depth xs) i)"
    using assms by (rule path_law)
  show "mfold node (xs ! i) i (mpath node (depth xs) (padded xs) i) = mtree node (depth xs) (padded xs)"
    using mfold_mpath [OF padded_length [OF assms(1)] padded_nth(1) [OF assms], of node]
      padded_nth(2) [OF assms] by simp
qed simp

lemma path_unique:
  assumes "valid xs" and "i < length xs" and "path xs i = Inr (ss, bs)"
    and "root xs = Inr (mfold node a i ts)" and "length ts = depth xs"
    and "inj_on (\<lambda>(x, y). node x y) (set (mpairs node a i ts) \<union> set (mpairs node (xs ! i) i ss))"
  shows "a = xs ! i \<and> ts = ss"
proof (rule path_verifies [OF assms(1,2)])
  fix r ss' assume "root xs = Inr r" and "path xs i = Inr (ss', mbits (depth xs) i)"
    and "length ss' = depth xs" and "mfold node (xs ! i) i ss' = r"
  with assms show ?thesis by (intro mfold_inject [of node a i ts]) simp_all
qed

end

end
