(* ===== verification/Nyx_Inclusion.thy ===== *)
theory Nyx_Inclusion
  imports Nyx_Keys Nyx_Tree
begin

text \<open>
  \<open>packages/sdk/src/batch/inclusion-proof.ts\<close>, first half: the SHA-256 inclusion tree over the
  order commitments of a batch. The leaves are padded to the next power of two by repeating the
  last one, the levels are hashed pairwise, and a path is checked by folding.

  Proved here: the loops end and never throw on a non-empty list, the root is the perfect tree
  \<open>mtree\<close> over the padded leaves, every path the code produces is accepted by the code's
  verifier, and no other leaf with a path of the same length is, as long as SHA-256 does not
  collide on the messages hashed. The module is an instance of the locale \<open>merkle_scheme\<close>.
\<close>

section \<open>Definitions\<close>

definition sha256Hash :: "lib \<Rightarrow> bytes \<Rightarrow> bytes \<Rightarrow> bytes" where
  "sha256Hash L a b = sha256 L (a @ b)"

text \<open>\<open>while (target < level.length) target *= 2\<close>, entered with \<open>target = 1\<close>. (From 0 the source
  loop would not end; no caller starts there.)\<close>

function target_loop :: "nat \<Rightarrow> nat \<Rightarrow> nat" where
  "target_loop target n =
     (if 0 < target \<and> target < n then target_loop (target * 2) n else target)"
  by pat_completeness auto
termination
  by (relation "measure (\<lambda>(t, n). n - t)") auto

declare target_loop.simps [simp del]

text \<open>\<open>while (level.length < target) level.push(level[level.length - 1])\<close>; the level is not
  empty there.\<close>

function pad_last :: "bytes list \<Rightarrow> nat \<Rightarrow> bytes list" where
  "pad_last level target =
     (if length level < target then pad_last (level @ [last level]) target else level)"
  by pat_completeness auto
termination
  by (relation "measure (\<lambda>(level, t). t - length level)") auto

declare pad_last.simps [simp del]

text \<open>One round of pairwise hashing. With an odd number of nodes the last \<open>level[i + 1]\<close> is
  \<open>undefined\<close> and \<open>update\<close> throws.\<close>

fun hash_level :: "lib \<Rightarrow> bytes list \<Rightarrow> js_error + bytes list" where
  "hash_level L [] = Inr []"
| "hash_level L [a] = Inl (JsError ''TypeError'' ''The data argument must be of type string or an instance of Buffer'')"
| "hash_level L (a # b # rest) =
     rbind (hash_level L rest) (\<lambda>next. Inr (sha256Hash L a b # next))"

lemma hash_level_length: "hash_level L xs = Inr ys \<Longrightarrow> length xs = 2 * length ys"
  by (induction L xs arbitrary: ys rule: hash_level.induct) (auto simp: rbind_eq_Inr)

function root_loop :: "lib \<Rightarrow> bytes list \<Rightarrow> js_error + bytes" where
  "root_loop L level =
     (if length level > 1 then rbind (hash_level L level) (\<lambda>next. root_loop L next)
      else Inr (level ! 0))"
  by pat_completeness auto
termination
  by (relation "measure (\<lambda>(L, level). length level)") (auto dest!: hash_level_length)

declare root_loop.simps [simp del]

definition computeInclusionRoot :: "lib \<Rightarrow> bytes list \<Rightarrow> js_error + bytes" where
  "computeInclusionRoot L leaves =
     (if length leaves = 0 then Inr (zeros 32)
      else let target = target_loop 1 (length leaves);
               level = pad_last leaves target
           in root_loop L level)"

text \<open>The loop of \<open>computeInclusionPath\<close>: the index is below the length of the level, which is
  even, so that the sibling exists.\<close>

function path_loop :: "lib \<Rightarrow> bytes list \<Rightarrow> nat \<Rightarrow> bytes list \<Rightarrow> int list
    \<Rightarrow> js_error + bytes list \<times> int list" where
  "path_loop L level idx siblings pathIndices =
     (if length level > 1 then
        let sib = (if idx mod 2 = 0 then level ! (idx + 1) else level ! (idx - 1))
        in rbind (hash_level L level) (\<lambda>next.
             path_loop L next (idx div 2) (siblings @ [sib]) (pathIndices @ [int (idx mod 2)]))
      else Inr (siblings, pathIndices))"
  by pat_completeness auto
termination
  by (relation "measure (\<lambda>(L, level, idx, ss, ps). length level)") (auto dest!: hash_level_length)

declare path_loop.simps [simp del]

definition computeInclusionPath :: "lib \<Rightarrow> bytes list \<Rightarrow> int \<Rightarrow> js_error + bytes list \<times> int list" where
  "computeInclusionPath L leaves index =
     (if length leaves = 0 \<or> index < 0 \<or> index \<ge> int (length leaves)
      then Inl (newError ''index out of range for inclusion path'')
      else let target = target_loop 1 (length leaves);
               level = pad_last leaves target
           in path_loop L level (nat index) [] [])"

fun equalBytes_from :: "bytes \<Rightarrow> bytes \<Rightarrow> bool" where
  "equalBytes_from (x # xs) (y # ys) = (if x \<noteq> y then False else equalBytes_from xs ys)"
| "equalBytes_from xs ys = True"

definition equalBytes :: "bytes \<Rightarrow> bytes \<Rightarrow> bool" where
  "equalBytes a b = (if length a \<noteq> length b then False else equalBytes_from a b)"

fun verify_loop :: "lib \<Rightarrow> bytes \<Rightarrow> int \<Rightarrow> bytes list \<Rightarrow> bytes" where
  "verify_loop L cur idx [] = cur"
| "verify_loop L cur idx (sib # rest) =
     verify_loop L (if idx mod 2 = 0 then sha256Hash L cur sib else sha256Hash L sib cur)
       (idx div 2) rest"

definition verifyInclusionPath :: "lib \<Rightarrow> bytes \<Rightarrow> int \<Rightarrow> bytes list \<Rightarrow> bytes \<Rightarrow> bool" where
  "verifyInclusionPath L leaf index siblings root =
     equalBytes (verify_loop L leaf index siblings) root"

text \<open>The sentinel for "no re-lock" in match results and settlement payloads.\<close>

definition RELOCK_ORDER_ID_NONE :: bytes where
  "RELOCK_ORDER_ID_NONE = zeros 16"

section \<open>The loops\<close>

definition incl_depth :: "nat \<Rightarrow> nat" where
  "incl_depth n = (LEAST k. n \<le> 2 ^ k)"

lemma incl_depth_bound: "n \<le> 2 ^ incl_depth n"
  unfolding incl_depth_def by (rule LeastI [of _ n]) (simp add: less_imp_le)

lemma target_loop_eq: "j \<le> incl_depth n \<Longrightarrow> target_loop (2 ^ j) n = 2 ^ incl_depth n"
proof (induction "incl_depth n - j" arbitrary: j)
  case 0
  then have "j = incl_depth n" by simp
  then show ?case using incl_depth_bound [of n] by (subst target_loop.simps) simp
next
  case (Suc k)
  show ?case
  proof (cases "2 ^ j < n")
    case True
    then have "target_loop (2 ^ j) n = target_loop (2 ^ Suc j) n"
      by (subst target_loop.simps) (simp add: mult.commute)
    with Suc.hyps(1) [of "Suc j"] Suc.hyps(2) show ?thesis by simp
  next
    case False
    then have "incl_depth n \<le> j" unfolding incl_depth_def by (intro Least_le) simp
    with Suc show ?thesis by simp
  qed
qed

lemma target_loop_1: "target_loop 1 n = 2 ^ incl_depth n"
  using target_loop_eq [of 0 n] by simp

lemma pad_last_eq:
  "level \<noteq> [] \<Longrightarrow> pad_last level t = level @ replicate (t - length level) (last level)"
proof (induction level t rule: pad_last.induct)
  case (1 level t)
  show ?case
  proof (cases "length level < t")
    case True
    with 1 have "pad_last (level @ [last level]) t
        = (level @ [last level]) @ replicate (t - Suc (length level)) (last level)" by simp
    moreover have "t - length level = Suc (t - Suc (length level))" using True by simp
    ultimately show ?thesis using True by (simp add: pad_last.simps [of level])
  next
    case False
    then show ?thesis by (simp add: pad_last.simps [of level])
  qed
qed

lemma hash_level_even: "even (length xs) \<Longrightarrow> hash_level L xs = Inr (pairup (sha256Hash L) xs)"
  by (induction L xs rule: hash_level.induct) simp_all

lemma one_less_double_pow [simp]: "Suc 0 < 2 * 2 ^ d"
  using one_less_power [of "2 :: nat" "Suc d"] by simp

lemma root_loop_eq: "length xs = 2 ^ d \<Longrightarrow> root_loop L xs = Inr (mtree (sha256Hash L) d xs)"
proof (induction d arbitrary: xs)
  case 0
  then obtain a where "xs = [a]" by (cases xs) simp_all
  then show ?case by (subst root_loop.simps) simp
next
  case (Suc d)
  then have "root_loop L xs = root_loop L (pairup (sha256Hash L) xs)"
    by (subst root_loop.simps) (simp add: hash_level_even)
  moreover have "length (pairup (sha256Hash L) xs) = 2 ^ d" using Suc.prems by simp
  ultimately show ?case using Suc.IH Suc.prems by (simp only: mtree_pairup)
qed

lemma path_loop_eq:
  "length xs = 2 ^ d \<Longrightarrow> path_loop L xs i ss ps
     = Inr (ss @ mpath (sha256Hash L) d xs i, ps @ mbits d i)"
proof (induction d arbitrary: xs i ss ps)
  case 0
  then show ?case by (simp add: path_loop.simps [of L xs])
next
  case (Suc d)
  have "length (pairup (sha256Hash L) xs) = 2 ^ d" using Suc.prems by simp
  from Suc.IH [OF this] have IH: "path_loop L (pairup (sha256Hash L) xs) (i div 2)
      (ss @ [xs ! sib_index i]) (ps @ [int (i mod 2)])
      = Inr ((ss @ [xs ! sib_index i]) @ mpath (sha256Hash L) d (pairup (sha256Hash L) xs) (i div 2),
             (ps @ [int (i mod 2)]) @ mbits d (i div 2))" .
  have "path_loop L xs i ss ps = path_loop L (pairup (sha256Hash L) xs) (i div 2)
      (ss @ [xs ! sib_index i]) (ps @ [int (i mod 2)])"
    using Suc.prems
    by (subst path_loop.simps) (simp add: hash_level_even sib_index_def Let_def flip: even_iff_mod_2_eq_zero)
  with IH show ?case by simp
qed

lemma equalBytes_iff: "equalBytes a b \<longleftrightarrow> a = b"
proof -
  have "length a = length b \<Longrightarrow> equalBytes_from a b \<longleftrightarrow> a = b"
    by (induction a b rule: list_induct2) auto
  then show ?thesis by (auto simp: equalBytes_def)
qed

lemma verify_loop_eq: "verify_loop L cur (int i) ss = mfold (sha256Hash L) cur i ss"
proof (induction ss arbitrary: cur i)
  case (Cons s ss)
  have "int i mod 2 = 0 \<longleftrightarrow> even i" by presburger
  moreover have "int i div 2 = int (i div 2)" by simp
  ultimately show ?case using Cons by simp
qed simp

lemma verifyInclusionPath_iff:
  "verifyInclusionPath L leaf (int i) ss root \<longleftrightarrow> mfold (sha256Hash L) leaf i ss = root"
  by (simp add: verifyInclusionPath_def equalBytes_iff verify_loop_eq)

section \<open>The tree as an inclusion scheme\<close>

definition incl_padded :: "bytes list \<Rightarrow> bytes list" where
  "incl_padded xs = xs @ replicate (2 ^ incl_depth (length xs) - length xs) (last xs)"

lemma length_incl_padded [simp]: "length (incl_padded xs) = 2 ^ incl_depth (length xs)"
  using incl_depth_bound [of "length xs"] by (simp add: incl_padded_def)

lemma take_incl_padded: "take (length xs) (incl_padded xs) = xs"
  by (simp add: incl_padded_def)

lemma computeInclusionRoot_eq:
  "xs \<noteq> [] \<Longrightarrow> computeInclusionRoot L xs
     = Inr (mtree (sha256Hash L) (incl_depth (length xs)) (incl_padded xs))"
  by (simp add: computeInclusionRoot_def Let_def target_loop_1 [unfolded One_nat_def] pad_last_eq root_loop_eq
      flip: incl_padded_def)

lemma computeInclusionPath_eq:
  "i < length xs \<Longrightarrow> computeInclusionPath L xs (int i)
     = Inr (mpath (sha256Hash L) (incl_depth (length xs)) (incl_padded xs) i,
            mbits (incl_depth (length xs)) i)"
  by (auto simp: computeInclusionPath_def Let_def target_loop_1 [unfolded One_nat_def] pad_last_eq path_loop_eq
      simp flip: incl_padded_def)

interpretation incl: merkle_scheme "sha256Hash L" "\<lambda>xs. incl_depth (length xs)" incl_padded
    "computeInclusionRoot L" "\<lambda>xs i. computeInclusionPath L xs (int i)" "\<lambda>xs. xs \<noteq> []"
  for L
  by unfold_locales
    (simp_all add: computeInclusionRoot_eq computeInclusionPath_eq take_incl_padded)

section \<open>Properties\<close>

lemma mpairs_lengths:
  assumes "(x, y) \<in> set (mpairs (sha256Hash L) a i ss)"
    and "length a = 32" and "list_all (\<lambda>s. length s = 32) ss"
  shows "length x = 32 \<and> length y = 32"
  using assms
proof (induction ss arbitrary: a i)
  case (Cons s ss)
  then show ?case by (auto simp: sha256Hash_def split: if_splits)
qed simp

text \<open>The messages hashed by the verifier.\<close>

definition incl_messages :: "lib \<Rightarrow> bytes \<Rightarrow> nat \<Rightarrow> bytes list \<Rightarrow> bytes set" where
  "incl_messages L a i ss = (\<lambda>(x, y). x @ y) ` set (mpairs (sha256Hash L) a i ss)"

lemma sha_node_inj:
  assumes "inj_on (sha256 L) (incl_messages L a i ss \<union> incl_messages L b i ts)"
    and "length a = 32" "list_all (\<lambda>s. length s = 32) ss"
    and "length b = 32" "list_all (\<lambda>s. length s = 32) ts"
  shows "inj_on (\<lambda>(x, y). sha256Hash L x y)
     (set (mpairs (sha256Hash L) a i ss) \<union> set (mpairs (sha256Hash L) b i ts))" (is "inj_on _ ?P")
proof -
  have len: "length x = 32 \<and> length y = 32" if "(x, y) \<in> ?P" for x y
    using that mpairs_lengths assms(2-) by blast
  then have "inj_on (\<lambda>(x, y). x @ y) ?P" by (fastforce simp: inj_on_def)
  moreover have "inj_on (sha256 L) ((\<lambda>(x, y). x @ y) ` ?P)"
    using assms(1) by (simp add: incl_messages_def image_Un)
  ultimately have "inj_on (sha256 L \<circ> (\<lambda>(x, y). x @ y)) ?P" by (rule comp_inj_on)
  then show ?thesis by (simp add: comp_def sha256Hash_def case_prod_unfold)
qed

lemma pairup_32: "list_all (\<lambda>s. length s = 32) (pairup (sha256Hash L) xs)"
  by (induction "sha256Hash L" xs rule: pairup.induct) (simp_all add: sha256Hash_def)

lemma mpath_32:
  assumes "list_all (\<lambda>s. length s = 32) xs" and "length xs = 2 ^ d" and "i < 2 ^ d"
  shows "list_all (\<lambda>s. length s = 32) (mpath (sha256Hash L) d xs i)"
  using assms
proof (induction d arbitrary: xs i)
  case (Suc d)
  have "sib_index i < length xs" using sib_index_less [of i "2 ^ d"] Suc.prems by simp
  then have "length (xs ! sib_index i) = 32" using Suc.prems(1) by (simp add: list_all_length)
  moreover have "list_all (\<lambda>s. length s = 32)
      (mpath (sha256Hash L) d (pairup (sha256Hash L) xs) (i div 2))"
    using Suc.prems by (intro Suc.IH pairup_32) simp_all
  ultimately show ?case by simp
qed simp

text \<open>The inclusion root: for every list of leaves the computation returns, with no throw;
  the empty list has the all-zero root, and a non-empty one the root of the perfect binary
  tree, left half against right half, over the leaves padded to the next power of two with copies
  of the last leaf. Appending explicit copies of the last leaf within that power does not change
  the root, so the root does not determine the number of leaves.\<close>

theorem computeInclusionRoot_correct:
  "computeInclusionRoot L [] = Inr (zeros 32) \<and>
   (let xs = leaves @ [x]; n = length xs; d = incl_depth n in
      n \<le> 2 ^ d \<and> (\<forall>k. n \<le> 2 ^ k \<longrightarrow> d \<le> k) \<and>
      computeInclusionRoot L xs = Inr (mtree (sha256Hash L) d (xs @ replicate (2 ^ d - n) x)) \<and>
      (\<forall>m. n + m \<le> 2 ^ d \<longrightarrow>
         computeInclusionRoot L (xs @ replicate m x) = computeInclusionRoot L xs))"
proof -
  let ?xs = "leaves @ [x]"
  let ?n = "length ?xs"
  let ?d = "incl_depth ?n"
  have least: "?d \<le> k" if "?n \<le> 2 ^ k" for k
    using that unfolding incl_depth_def by (rule Least_le)
  have dup: "computeInclusionRoot L (?xs @ replicate m x) = computeInclusionRoot L ?xs"
    if m: "?n + m \<le> 2 ^ ?d" for m
  proof -
    have "incl_depth (?n + m) = ?d"
      unfolding incl_depth_def [of "?n + m"]
    proof (rule Least_equality)
      show "?n + m \<le> 2 ^ ?d" by (rule m)
      show "?d \<le> k" if "?n + m \<le> 2 ^ k" for k using that by (intro least) simp
    qed
    moreover have "last (?xs @ replicate m x) = x" by (cases m) simp_all
    moreover have "replicate m x @ replicate (2 ^ ?d - (?n + m)) x = replicate (2 ^ ?d - ?n) x"
      using m by (simp flip: replicate_add)
    ultimately have "incl_padded (?xs @ replicate m x) = incl_padded ?xs"
      by (simp add: incl_padded_def)
    with \<open>incl_depth (?n + m) = ?d\<close> show ?thesis by (simp add: computeInclusionRoot_eq)
  qed
  have "computeInclusionRoot L [] = Inr (zeros 32)" by (simp add: computeInclusionRoot_def)
  then show ?thesis
    using least dup incl_depth_bound [of ?n] computeInclusionRoot_eq [of ?xs L]
    by (simp add: Let_def incl_padded_def)
qed

theorem computeInclusionRoot_correct_witness:
  "3 \<le> (2::nat) ^ incl_depth 3 \<and> incl_depth 3 \<le> 2
   \<and> computeInclusionRoot ref_lib [[1], [2], [3], [3]] = computeInclusionRoot ref_lib [[1], [2], [3]]"
proof -
  note root = computeInclusionRoot_correct [of ref_lib "[[1], [2]]" "[3]"]
  have n: "length ([[1], [2]] @ [[3::byte]]) = 3" by simp
  have b: "3 \<le> (2::nat) ^ incl_depth 3" and least: "\<And>k. 3 \<le> (2::nat) ^ k \<Longrightarrow> incl_depth 3 \<le> k"
    and dup: "\<And>m. 3 + m \<le> (2::nat) ^ incl_depth 3 \<Longrightarrow>
       computeInclusionRoot ref_lib ([[1], [2]] @ [[3]] @ replicate m [3])
         = computeInclusionRoot ref_lib ([[1], [2]] @ [[3]])"
    using root unfolding Let_def n by (blast, blast, simp)
  have d2: "incl_depth 3 \<le> 2" by (rule least) simp
  have "\<not> incl_depth 3 \<le> 1"
  proof
    assume "incl_depth 3 \<le> 1"
    then have "(2::nat) ^ incl_depth 3 \<le> 2 ^ 1" by (intro power_increasing) simp_all
    with b show False by simp
  qed
  with d2 have "incl_depth 3 = 2" by simp
  then show ?thesis using dup [of 1] b by simp
qed

text \<open>(C27) Completeness of inclusion proofs: for every index of the list, \<open>computeInclusionPath\<close>
  returns a path, its bits are the binary digits of the index, and \<open>verifyInclusionPath\<close> accepts
  the leaf with it against \<open>computeInclusionRoot\<close>; every other index is an error.\<close>

theorem inclusion_path_verifies:
  "if 0 \<le> index \<and> index < int (length leaves)
   then \<exists>root siblings. computeInclusionRoot L leaves = Inr root
     \<and> computeInclusionPath L leaves index
         = Inr (siblings, mbits (incl_depth (length leaves)) (nat index))
     \<and> length siblings = incl_depth (length leaves)
     \<and> verifyInclusionPath L (leaves ! nat index) index siblings root
   else computeInclusionPath L leaves index
     = Inl (newError ''index out of range for inclusion path'')"
proof (cases "0 \<le> index \<and> index < int (length leaves)")
  case True
  then obtain i where i: "index = int i" "i < length leaves" by (metis nonneg_int_cases of_nat_less_iff)
  then have ne: "leaves \<noteq> []" by auto
  obtain r ss where "computeInclusionRoot L leaves = Inr r"
      "computeInclusionPath L leaves index = Inr (ss, mbits (incl_depth (length leaves)) i)"
      "length ss = incl_depth (length leaves)" "mfold (sha256Hash L) (leaves ! i) i ss = r"
    using incl.path_verifies [OF ne i(2), where L = L] i(1) by blast
  with True i show ?thesis by (auto simp: verifyInclusionPath_iff)
next
  case False
  then show ?thesis by (auto simp: computeInclusionPath_def)
qed

text \<open>(C28) Soundness of inclusion proofs: if 32-byte leaves have a root against which the
  verifier accepts some 32-byte leaf at an index of the list with as many 32-byte siblings as the
  tree has levels, then that leaf is the leaf of the list at that index and the siblings are
  those of \<open>computeInclusionPath\<close>, as long as SHA-256 does not collide on the messages hashed by
  the two verifications.\<close>

theorem inclusion_path_binding:
  assumes "list_all (\<lambda>s. length s = 32) leaves" and "i < length leaves"
    and "computeInclusionRoot L leaves = Inr root"
    and "computeInclusionPath L leaves (int i) = Inr (path, bits)"
    and "length leaf = 32" and "list_all (\<lambda>s. length s = 32) siblings"
    and "length siblings = length path"
    and "verifyInclusionPath L leaf (int i) siblings root"
    and "inj_on (sha256 L) (incl_messages L leaf i siblings \<union> incl_messages L (leaves ! i) i path)"
  shows "leaf = leaves ! i \<and> siblings = path"
proof -
  have ne: "leaves \<noteq> []" using assms(2) by auto
  have path: "path = mpath (sha256Hash L) (incl_depth (length leaves)) (incl_padded leaves) i"
    using assms(2,4) by (simp add: computeInclusionPath_eq)
  have "list_all (\<lambda>s. length s = 32) (incl_padded leaves)"
    using assms(1) ne by (auto simp: incl_padded_def list_all_iff)
  moreover have "i < 2 ^ incl_depth (length leaves)"
    using assms(2) incl_depth_bound [of "length leaves"] by simp
  ultimately have "list_all (\<lambda>s. length s = 32) path"
    unfolding path by (intro mpath_32) simp_all
  moreover have "length (leaves ! i) = 32" using assms(1,2) by (simp add: list_all_length)
  ultimately have "inj_on (\<lambda>(x, y). sha256Hash L x y)
      (set (mpairs (sha256Hash L) leaf i siblings) \<union> set (mpairs (sha256Hash L) (leaves ! i) i path))"
    using assms(5,6,9) by (intro sha_node_inj)
  moreover have "length siblings = incl_depth (length leaves)" using assms(7) path by simp
  moreover have "computeInclusionRoot L leaves = Inr (mfold (sha256Hash L) leaf i siblings)"
    using assms(3,8) by (simp add: verifyInclusionPath_iff)
  ultimately show ?thesis using incl.path_unique [OF ne assms(2,4)] by blast
qed

theorem inclusion_path_binding_witness:
  "computeInclusionRoot ref_lib [zeros 32, zeros 31 @ [1]] = Inr (zeros 31 @ [1])
   \<and> verifyInclusionPath ref_lib (zeros 32) 0 [zeros 31 @ [1]] (zeros 31 @ [1])
   \<and> zeros 32 = [zeros 32, zeros 31 @ [1]] ! 0"
proof -
  let ?a = "zeros 32" and ?b = "zeros 31 @ [1] :: bytes"
  have h: "sha256Hash ref_lib ?a ?b = ?b"
    using toBytes_bytes_to_word [of ?b]
    by (simp add: sha256Hash_def sha256_def ref_lib_def bytes_to_word_def be_to_int_append [of ?a])
  have ch: "root_loop ref_lib [x] = Inr x" for x by (subst root_loop.simps) simp
  have tl: "target_loop 1 2 = 2" by (simp add: target_loop.simps)
  have pl: "pad_last [?a, ?b] 2 = [?a, ?b]" by (simp add: pad_last.simps)
  have root: "computeInclusionRoot ref_lib [?a, ?b] = Inr ?b"
    using tl pl by (simp add: computeInclusionRoot_def numeral_2_eq_2)
      (subst root_loop.simps, simp add: h ch)
  have pth: "computeInclusionPath ref_lib [?a, ?b] (int 0) = Inr ([?b], [0])"
    using tl pl by (simp add: computeInclusionPath_def numeral_2_eq_2)
      (subst path_loop.simps, simp, subst path_loop.simps, simp)
  have ver: "verifyInclusionPath ref_lib ?a (int 0) [?b] ?b"
    by (simp add: verifyInclusionPath_def h equalBytes_iff)
  have inj: "inj_on (sha256 ref_lib)
      (incl_messages ref_lib ?a 0 [?b] \<union> incl_messages ref_lib ([?a, ?b] ! 0) 0 [?b])"
    by (simp add: incl_messages_def)
  have "?a = [?a, ?b] ! 0 \<and> [?b] = [?b]"
    using inclusion_path_binding [OF _ _ root pth _ _ _ ver inj] by simp
  then show ?thesis using root ver by simp
qed

end
