(* ===== verification/Nyx_Batch_Results.thy ===== *)
theory Nyx_Batch_Results
  imports Nyx_Inclusion
begin

text \<open>
  \<open>packages/sdk/src/batch/inclusion-proof.ts\<close>, second half: the decoder of the per-market
  \<open>BatchResults\<close> account (16 match results, 2 fee accumulators, fixed offsets).

  The account layout is the C layout of \<open>programs/matching_engine/src/state/batch_results.rs\<close>
  (fields in order, little-endian integers, explicit padding); \<open>encodeBatchResults\<close> writes it.
  Proved here: decoding an encoded account gives back every field, and an account of any other
  length is refused with the length error, so no read of the decoder is out of range.
\<close>

section \<open>Definitions\<close>

definition BATCH_RESULTS_CAPACITY :: nat where "BATCH_RESULTS_CAPACITY = 16"
definition FEE_ACCUMULATOR_COUNT :: nat where "FEE_ACCUMULATOR_COUNT = 2"
definition FEE_ACCUMULATOR_SIZE :: nat where "FEE_ACCUMULATOR_SIZE = 80"
definition MATCH_RESULT_SIZE :: nat where "MATCH_RESULT_SIZE = 408"

record MatchResultRecord =
  mr_noteBuyer :: bytes
  mr_noteSeller :: bytes
  mr_noteEcommitment :: bytes
  mr_noteFcommitment :: bytes
  mr_ownerBuyer :: bytes
  mr_ownerSeller :: bytes
  mr_userCommitmentBuyer :: bytes
  mr_userCommitmentSeller :: bytes
  mr_buyerNoteValue :: int
  mr_sellerNoteValue :: int
  mr_baseAmt :: int
  mr_quoteAmt :: int
  mr_buyerChangeAmt :: int
  mr_sellerChangeAmt :: int
  mr_buyerFeeAmt :: int
  mr_sellerFeeAmt :: int
  mr_buyerRelockOrderId :: bytes
  mr_buyerRelockExpiry :: int
  mr_sellerRelockOrderId :: bytes
  mr_sellerRelockExpiry :: int
  mr_price :: int
  mr_pythAtMatch :: int
  mr_batchSlot :: int
  mr_matchId :: int
  mr_status :: int

record FeeAccumulatorRecord =
  fa_tokenMint :: bytes
  fa_accumulatedFees :: int
  fa_batchSlot :: int
  fa_flushedCommitment :: bytes

record BatchResultsView =
  br_market :: bytes
  br_lastInclusionRoot :: bytes
  br_lastBatchSlot :: int
  br_lastMatchCount :: int
  br_lastClearingPrice :: int
  br_lastPythTwap :: int
  br_lastCircuitBreakerTripped :: bool
  br_writeCursor :: int
  br_nextMatchId :: int
  br_results :: "MatchResultRecord list"
  br_feeAccumulators :: "FeeAccumulatorRecord list"
  br_bump :: int

text \<open>\<open>readU64\<close>: a \<open>DataView\<close> of eight bytes at the offset.\<close>

definition readU64 :: "bytes \<Rightarrow> nat \<Rightarrow> js_error + int" where
  "readU64 buf off = getBigUint64 buf off"

text \<open>\<open>copyBytes\<close> returns a detached copy, the same value; \<open>readBytes\<close> copies a subarray.\<close>

definition copyBytes :: "bytes \<Rightarrow> bytes" where
  "copyBytes src = src"

definition readBytes :: "bytes \<Rightarrow> nat \<Rightarrow> nat \<Rightarrow> bytes" where
  "readBytes buf off len = copyBytes (slice buf off len)"

text \<open>\<open>buf[off]\<close>, read inside the array only.\<close>

definition byteAt :: "bytes \<Rightarrow> nat \<Rightarrow> int" where
  "byteAt buf off = uint (buf ! off)"

definition decodeMatchResult :: "bytes \<Rightarrow> nat \<Rightarrow> js_error + MatchResultRecord" where
  "decodeMatchResult buf off =
     (let noteBuyer = readBytes buf off 32 in
     (let noteSeller = readBytes buf (off + 32) 32 in
     (let noteEcommitment = readBytes buf (off + 64) 32 in
     (let noteFcommitment = readBytes buf (off + 96) 32 in
     (let ownerBuyer = readBytes buf (off + 128) 32 in
     (let ownerSeller = readBytes buf (off + 160) 32 in
     (let userCommitmentBuyer = readBytes buf (off + 192) 32 in
     (let userCommitmentSeller = readBytes buf (off + 224) 32 in
     (rbind (readU64 buf (off + 256)) (\<lambda>buyerNoteValue.
     (rbind (readU64 buf (off + 264)) (\<lambda>sellerNoteValue.
     (rbind (readU64 buf (off + 272)) (\<lambda>baseAmt.
     (rbind (readU64 buf (off + 280)) (\<lambda>quoteAmt.
     (rbind (readU64 buf (off + 288)) (\<lambda>buyerChangeAmt.
     (rbind (readU64 buf (off + 296)) (\<lambda>sellerChangeAmt.
     (rbind (readU64 buf (off + 304)) (\<lambda>buyerFeeAmt.
     (rbind (readU64 buf (off + 312)) (\<lambda>sellerFeeAmt.
     (let buyerRelockOrderId = readBytes buf (off + 320) 16 in
     (rbind (readU64 buf (off + 336)) (\<lambda>buyerRelockExpiry.
     (let sellerRelockOrderId = readBytes buf (off + 344) 16 in
     (rbind (readU64 buf (off + 360)) (\<lambda>sellerRelockExpiry.
     (rbind (readU64 buf (off + 368)) (\<lambda>price.
     (rbind (readU64 buf (off + 376)) (\<lambda>pythAtMatch.
     (rbind (readU64 buf (off + 384)) (\<lambda>batchSlot.
     (rbind (readU64 buf (off + 392)) (\<lambda>matchId.
     (let status = byteAt buf (off + 400) in
       Inr \<lparr>mr_noteBuyer = noteBuyer, mr_noteSeller = noteSeller, mr_noteEcommitment =
         noteEcommitment, mr_noteFcommitment = noteFcommitment, mr_ownerBuyer = ownerBuyer,
         mr_ownerSeller = ownerSeller, mr_userCommitmentBuyer = userCommitmentBuyer,
         mr_userCommitmentSeller = userCommitmentSeller, mr_buyerNoteValue = buyerNoteValue,
         mr_sellerNoteValue = sellerNoteValue, mr_baseAmt = baseAmt, mr_quoteAmt = quoteAmt,
         mr_buyerChangeAmt = buyerChangeAmt, mr_sellerChangeAmt = sellerChangeAmt, mr_buyerFeeAmt =
         buyerFeeAmt, mr_sellerFeeAmt = sellerFeeAmt, mr_buyerRelockOrderId = buyerRelockOrderId,
         mr_buyerRelockExpiry = buyerRelockExpiry, mr_sellerRelockOrderId = sellerRelockOrderId,
         mr_sellerRelockExpiry = sellerRelockExpiry, mr_price = price, mr_pythAtMatch = pythAtMatch,
         mr_batchSlot = batchSlot, mr_matchId = matchId, mr_status =
         status\<rparr>)))))))))))))))))))))))))))))))))))))))"

definition decodeFeeAccumulator :: "bytes \<Rightarrow> nat \<Rightarrow> js_error + FeeAccumulatorRecord" where
  "decodeFeeAccumulator buf off =
     (let tokenMint = readBytes buf off 32 in
      rbind (readU64 buf (off + 32)) (\<lambda>accumulatedFees.
      rbind (readU64 buf (off + 40)) (\<lambda>batchSlot.
      (let flushedCommitment = readBytes buf (off + 48) 32 in
       Inr \<lparr>fa_tokenMint = tokenMint, fa_accumulatedFees = accumulatedFees,
            fa_batchSlot = batchSlot, fa_flushedCommitment = flushedCommitment\<rparr>))))"

text \<open>The two \<open>for\<close> loops: \<open>n\<close> records of \<open>sz\<close> bytes from \<open>off\<close> on.\<close>

fun decode_loop :: "(bytes \<Rightarrow> nat \<Rightarrow> js_error + 'a) \<Rightarrow> nat \<Rightarrow> bytes \<Rightarrow> nat \<Rightarrow> nat \<Rightarrow> js_error + 'a list" where
  "decode_loop dec sz buf off 0 = Inr []"
| "decode_loop dec sz buf off (Suc n) =
     rbind (dec buf off) (\<lambda>r. rbind (decode_loop dec sz buf (off + sz) n) (\<lambda>rs. Inr (r # rs)))"

definition batch_results_expected :: nat where
  "batch_results_expected =
     8 + 32 + 32 + 8 + 8 + 8 + 8 + 1 + 7 + 8 + 8
     + MATCH_RESULT_SIZE * BATCH_RESULTS_CAPACITY
     + FEE_ACCUMULATOR_SIZE * FEE_ACCUMULATOR_COUNT + 1 + 7"

definition decodeBatchResults :: "bytes \<Rightarrow> js_error + BatchResultsView" where
  "decodeBatchResults accountData =
     (if length accountData \<noteq> batch_results_expected
      then Inl (newError (''batch_results length mismatch: got '' @ nat_toString (length accountData)
             @ '', expected '' @ nat_toString batch_results_expected))
      else
        let market = readBytes accountData 8 32;
            lastInclusionRoot = readBytes accountData 40 32 in
        rbind (readU64 accountData 72) (\<lambda>lastBatchSlot.
        rbind (readU64 accountData 80) (\<lambda>lastMatchCount.
        rbind (readU64 accountData 88) (\<lambda>lastClearingPrice.
        rbind (readU64 accountData 96) (\<lambda>lastPythTwap.
        let lastCircuitBreakerTripped = (byteAt accountData 104 = 1) in
        rbind (readU64 accountData 112) (\<lambda>writeCursor.
        rbind (readU64 accountData 120) (\<lambda>nextMatchId.
        let off = 128 in
        rbind (decode_loop decodeMatchResult MATCH_RESULT_SIZE accountData off
                 BATCH_RESULTS_CAPACITY) (\<lambda>results.
        let off = off + MATCH_RESULT_SIZE * BATCH_RESULTS_CAPACITY in
        rbind (decode_loop decodeFeeAccumulator FEE_ACCUMULATOR_SIZE accountData off
                 FEE_ACCUMULATOR_COUNT) (\<lambda>feeAccumulators.
        let off = off + FEE_ACCUMULATOR_SIZE * FEE_ACCUMULATOR_COUNT;
            bump = byteAt accountData off in
        Inr \<lparr>br_market = market, br_lastInclusionRoot = lastInclusionRoot,
             br_lastBatchSlot = lastBatchSlot, br_lastMatchCount = lastMatchCount,
             br_lastClearingPrice = lastClearingPrice, br_lastPythTwap = lastPythTwap,
             br_lastCircuitBreakerTripped = lastCircuitBreakerTripped,
             br_writeCursor = writeCursor, br_nextMatchId = nextMatchId,
             br_results = results, br_feeAccumulators = feeAccumulators, br_bump = bump\<rparr>)))))))))"

section \<open>The account layout\<close>

definition encodeMatchResult :: "bytes \<Rightarrow> MatchResultRecord \<Rightarrow> bytes" where
  "encodeMatchResult pad m =
     mr_noteBuyer m @ mr_noteSeller m @ mr_noteEcommitment m
     @ mr_noteFcommitment m @ mr_ownerBuyer m @ mr_ownerSeller m
     @ mr_userCommitmentBuyer m @ mr_userCommitmentSeller m @ u64LE (mr_buyerNoteValue m)
     @ u64LE (mr_sellerNoteValue m) @ u64LE (mr_baseAmt m) @ u64LE (mr_quoteAmt m)
     @ u64LE (mr_buyerChangeAmt m) @ u64LE (mr_sellerChangeAmt m) @ u64LE (mr_buyerFeeAmt m)
     @ u64LE (mr_sellerFeeAmt m) @ mr_buyerRelockOrderId m @ u64LE (mr_buyerRelockExpiry m)
     @ mr_sellerRelockOrderId m @ u64LE (mr_sellerRelockExpiry m) @ u64LE (mr_price m)
     @ u64LE (mr_pythAtMatch m) @ u64LE (mr_batchSlot m) @ u64LE (mr_matchId m)
     @ u8 (mr_status m) @ pad"

definition encodeFeeAccumulator :: "FeeAccumulatorRecord \<Rightarrow> bytes" where
  "encodeFeeAccumulator f =
     fa_tokenMint f @ u64LE (fa_accumulatedFees f) @ u64LE (fa_batchSlot f) @ fa_flushedCommitment f"

text \<open>\<open>disc\<close> is the account discriminator, \<open>pa\<close> and \<open>pb\<close> the paddings, \<open>ps\<close> the paddings of the
  match results; the circuit-breaker byte is 1 when tripped and \<open>cb \<noteq> 1\<close> otherwise.\<close>

definition encodeBatchResults ::
    "bytes \<Rightarrow> bytes \<Rightarrow> bytes \<Rightarrow> bytes list \<Rightarrow> int \<Rightarrow> BatchResultsView \<Rightarrow> bytes" where
  "encodeBatchResults disc pa pb ps cb v =
     disc @ br_market v @ br_lastInclusionRoot v @ u64LE (br_lastBatchSlot v)
     @ u64LE (br_lastMatchCount v) @ u64LE (br_lastClearingPrice v) @ u64LE (br_lastPythTwap v)
     @ u8 (if br_lastCircuitBreakerTripped v then 1 else cb) @ pa
     @ u64LE (br_writeCursor v) @ u64LE (br_nextMatchId v)
     @ concat (map2 encodeMatchResult ps (br_results v))
     @ concat (map encodeFeeAccumulator (br_feeAccumulators v))
     @ u8 (br_bump v) @ pb"

definition byte_range :: "int \<Rightarrow> bool" where
  "byte_range v \<longleftrightarrow> 0 \<le> v \<and> v < 256"

definition wf_match_result :: "MatchResultRecord \<Rightarrow> bool" where
  "wf_match_result m \<longleftrightarrow>
     list_all (\<lambda>b. length b = 32) [mr_noteBuyer m, mr_noteSeller m, mr_noteEcommitment m,
          mr_noteFcommitment m, mr_ownerBuyer m, mr_ownerSeller m, mr_userCommitmentBuyer m,
          mr_userCommitmentSeller m]
     \<and> list_all (\<lambda>b. length b = 16) [mr_buyerRelockOrderId m, mr_sellerRelockOrderId m]
     \<and> list_all u64_range [mr_buyerNoteValue m, mr_sellerNoteValue m, mr_baseAmt m, mr_quoteAmt
          m, mr_buyerChangeAmt m, mr_sellerChangeAmt m, mr_buyerFeeAmt m, mr_sellerFeeAmt m,
          mr_buyerRelockExpiry m, mr_sellerRelockExpiry m, mr_price m, mr_pythAtMatch m,
          mr_batchSlot m, mr_matchId m]
     \<and> byte_range (mr_status m)"

definition wf_fee_accumulator :: "FeeAccumulatorRecord \<Rightarrow> bool" where
  "wf_fee_accumulator f \<longleftrightarrow> length (fa_tokenMint f) = 32 \<and> length (fa_flushedCommitment f) = 32
     \<and> u64_range (fa_accumulatedFees f) \<and> u64_range (fa_batchSlot f)"

definition wf_batch_results :: "BatchResultsView \<Rightarrow> bool" where
  "wf_batch_results v \<longleftrightarrow>
     length (br_market v) = 32 \<and> length (br_lastInclusionRoot v) = 32
     \<and> list_all u64_range [br_lastBatchSlot v, br_lastMatchCount v, br_lastClearingPrice v,
          br_lastPythTwap v, br_writeCursor v, br_nextMatchId v]
     \<and> length (br_results v) = 16 \<and> list_all wf_match_result (br_results v)
     \<and> length (br_feeAccumulators v) = 2 \<and> list_all wf_fee_accumulator (br_feeAccumulators v)
     \<and> byte_range (br_bump v)"

section \<open>Decoding an encoded account\<close>

lemma readU64_shift [wire_simps]: "readU64 (pre @ rest) (length pre + k) = readU64 rest k"
  by (simp add: readU64_def wire_simps)

lemma readBytes_shift [wire_simps]: "readBytes (pre @ rest) (length pre + k) n = readBytes rest k n"
  by (simp add: readBytes_def copyBytes_def wire_simps)

lemma byteAt_shift [wire_simps]: "byteAt (pre @ rest) (length pre + k) = byteAt rest k"
  by (simp add: byteAt_def)

lemma readU64_skip [wire_simps]:
  "length a \<le> off \<Longrightarrow> readU64 (a @ b) off = readU64 b (off - length a)"
  using readU64_shift [of a b "off - length a"] by simp

lemma readBytes_skip [wire_simps]:
  "length a \<le> off \<Longrightarrow> readBytes (a @ b) off n = readBytes b (off - length a) n"
  using readBytes_shift [of a b "off - length a"] by simp

lemma byteAt_skip [wire_simps]: "length a \<le> off \<Longrightarrow> byteAt (a @ b) off = byteAt b (off - length a)"
  using byteAt_shift [of a b "off - length a"] by simp

lemma readU64_hit [wire_simps]: "u64_range v \<Longrightarrow> readU64 (u64LE v @ b) 0 = Inr v"
  by (simp add: readU64_def wire_simps)

lemma readBytes_hit [wire_simps]: "length a = n \<Longrightarrow> readBytes (a @ b) 0 n = a"
  by (simp add: readBytes_def copyBytes_def slice_def)

lemma byteAt_hit [wire_simps]: "byte_range v \<Longrightarrow> byteAt (u8 v @ b) 0 = v"
  by (simp add: byteAt_def u8_def uint_word_of_int_byte byte_range_def)

lemma decodeMatchResult_encode0:
  assumes "wf_match_result m" and "length pad = 7"
  shows "decodeMatchResult (encodeMatchResult pad m @ post) 0 = Inr m"
  using assms unfolding decodeMatchResult_def encodeMatchResult_def wf_match_result_def
  by (simp add: wire_simps)

lemma decodeMatchResult_shift:
  "decodeMatchResult (pre @ rest) (length pre) = decodeMatchResult rest 0"
  using readBytes_shift [of pre rest 0]
  unfolding decodeMatchResult_def by (simp add: wire_simps del: readBytes_skip readU64_skip byteAt_skip)

lemma decodeFeeAccumulator_encode0:
  assumes "wf_fee_accumulator f"
  shows "decodeFeeAccumulator (encodeFeeAccumulator f @ post) 0 = Inr f"
  using assms unfolding decodeFeeAccumulator_def encodeFeeAccumulator_def wf_fee_accumulator_def
  by (simp add: wire_simps)

lemma decodeFeeAccumulator_shift:
  "decodeFeeAccumulator (pre @ rest) (length pre) = decodeFeeAccumulator rest 0"
  using readBytes_shift [of pre rest 0]
  unfolding decodeFeeAccumulator_def
  by (simp add: wire_simps del: readBytes_skip readU64_skip byteAt_skip)

lemma length_encodeMatchResult:
  "wf_match_result m \<Longrightarrow> length pad = 7 \<Longrightarrow> length (encodeMatchResult pad m) = 408"
  by (simp add: encodeMatchResult_def wf_match_result_def)

lemma length_encodeFeeAccumulator:
  "wf_fee_accumulator f \<Longrightarrow> length (encodeFeeAccumulator f) = 80"
  by (simp add: encodeFeeAccumulator_def wf_fee_accumulator_def)

text \<open>A record decoder that only looks from its offset on and reads back one encoded record
  reads back a sequence of them.\<close>

lemma decode_loop_encode:
  assumes shift: "\<And>pre rest. dec (pre @ rest) (length pre) = dec rest 0"
    and "list_all2 (\<lambda>e x. length e = sz \<and> (\<forall>post. dec (e @ post) 0 = Inr x)) es xs"
  shows "decode_loop dec sz (pre @ concat es @ post) (length pre) (length xs) = Inr xs"
  using assms(2)
proof (induction es xs arbitrary: pre rule: list_all2_induct)
  case Nil
  then show ?case by simp
next
  case (Cons e es x xs)
  then have e: "length e = sz" and dec: "\<And>post. dec (e @ post) 0 = Inr x" by auto
  have "decode_loop dec sz ((pre @ e) @ concat es @ post) (length (pre @ e)) (length xs) = Inr xs"
    by (rule Cons.IH)
  with e have "decode_loop dec sz (pre @ e @ concat es @ post) (length pre + sz) (length xs) = Inr xs"
    by simp
  moreover have "dec (pre @ e @ concat es @ post) (length pre) = Inr x" using shift dec by simp
  ultimately show ?case by simp
qed

lemma encoded_match_results:
  assumes "list_all wf_match_result ms" and "list_all (\<lambda>p. length p = 7) ps" and "length ps = length ms"
  shows "list_all2 (\<lambda>e x. length e = 408 \<and> (\<forall>post. decodeMatchResult (e @ post) 0 = Inr x))
     (map2 encodeMatchResult ps ms) ms"
  using assms(3,1,2)
  by (induction ps ms rule: list_induct2)
    (simp_all add: length_encodeMatchResult decodeMatchResult_encode0)

lemma encoded_fee_accumulators:
  "list_all wf_fee_accumulator fs \<Longrightarrow>
   list_all2 (\<lambda>e x. length e = 80 \<and> (\<forall>post. decodeFeeAccumulator (e @ post) 0 = Inr x))
     (map encodeFeeAccumulator fs) fs"
  by (induction fs) (simp_all add: length_encodeFeeAccumulator decodeFeeAccumulator_encode0)

lemma length_concat_encoded:
  "list_all2 (\<lambda>e x. length e = n \<and> P e x) es xs \<Longrightarrow> length (concat es) = n * length xs"
  by (induction es xs rule: list_all2_induct) simp_all

lemma decode_two_sections:
  assumes "list_all2 (\<lambda>e x. length e = 408 \<and> (\<forall>post. decodeMatchResult (e @ post) 0 = Inr x)) es ms"
    and "list_all2 (\<lambda>e x. length e = 80 \<and> (\<forall>post. decodeFeeAccumulator (e @ post) 0 = Inr x)) gs fs"
    and "length ms = 16" and "length fs = 2" and "length pre = 128"
  shows "decode_loop decodeMatchResult 408 (pre @ concat es @ concat gs @ post) 128 16 = Inr ms"
    and "decode_loop decodeFeeAccumulator 80 (pre @ concat es @ concat gs @ post) 6656 2 = Inr fs"
proof -
  show "decode_loop decodeMatchResult 408 (pre @ concat es @ concat gs @ post) 128 16 = Inr ms"
    using decode_loop_encode [OF decodeMatchResult_shift assms(1), of pre "concat gs @ post"] assms(3,5)
    by simp
  have "length (pre @ concat es) = 6656"
    using length_concat_encoded [OF assms(1)] assms(3,5) by simp
  then show "decode_loop decodeFeeAccumulator 80 (pre @ concat es @ concat gs @ post) 6656 2 = Inr fs"
    using decode_loop_encode [OF decodeFeeAccumulator_shift assms(2), of "pre @ concat es" post] assms(4)
    by simp
qed

lemma decode_loop_total:
  assumes "\<And>k. k + sz \<le> len \<Longrightarrow> \<exists>x. dec data k = Inr x" and "off + sz * n \<le> len"
  shows "\<exists>xs. decode_loop dec sz data off n = Inr xs \<and> length xs = n"
  using assms(2)
proof (induction n arbitrary: off)
  case (Suc n)
  then obtain x where "dec data off = Inr x" using assms(1) [of off] by auto
  moreover obtain xs where "decode_loop dec sz data (off + sz) n = Inr xs \<and> length xs = n"
    using Suc.IH [of "off + sz"] Suc.prems by auto
  ultimately show ?case by simp
qed simp

lemmas br_sizes = MATCH_RESULT_SIZE_def BATCH_RESULTS_CAPACITY_def FEE_ACCUMULATOR_SIZE_def
  FEE_ACCUMULATOR_COUNT_def batch_results_expected_def

lemma decodeBatchResults_sections:
  assumes "length hd8 = 8" and "length m = 32" and "length r = 32" and "length pa = 7" and "length pb = 7"
    and "list_all u64_range [a, b, c, d, e, f]" and "byte_range cb" and "byte_range bump"
    and "length rs = 6528" and "length fs = 160"
  defines "data \<equiv> hd8 @ m @ r @ u64LE a @ u64LE b @ u64LE c @ u64LE d @ u8 cb @ pa @ u64LE e
     @ u64LE f @ rs @ fs @ u8 bump @ pb"
  assumes "decode_loop decodeMatchResult 408 data 128 16 = Inr res"
    and "decode_loop decodeFeeAccumulator 80 data 6656 2 = Inr accs"
  shows "decodeBatchResults data = Inr \<lparr>br_market = m, br_lastInclusionRoot = r,
     br_lastBatchSlot = a, br_lastMatchCount = b, br_lastClearingPrice = c, br_lastPythTwap = d,
     br_lastCircuitBreakerTripped = (cb = 1), br_writeCursor = e, br_nextMatchId = f,
     br_results = res, br_feeAccumulators = accs, br_bump = bump\<rparr>"
proof -
  have len: "length data = 6824" unfolding data_def using assms(1-10) by simp
  have "readBytes data 8 32 = m" "readBytes data 40 32 = r" "readU64 data 72 = Inr a"
      "readU64 data 80 = Inr b" "readU64 data 88 = Inr c" "readU64 data 96 = Inr d"
      "byteAt data 104 = cb" "readU64 data 112 = Inr e" "readU64 data 120 = Inr f"
      "byteAt data 6816 = bump"
    unfolding data_def using assms(1-10) by (simp_all add: wire_simps)
  with len assms(12,13) show ?thesis unfolding decodeBatchResults_def by (simp add: br_sizes)
qed

lemma encoded_batch_results_decode:
  assumes "wf_batch_results v" and "length disc = 8" and "length pa = 7" and "length pb = 7"
    and "length ps = 16" and "list_all (\<lambda>p. length p = 7) ps" and "byte_range cb" and "cb \<noteq> 1"
  shows "decodeBatchResults (encodeBatchResults disc pa pb ps cb v) = Inr v"
proof -
  let ?es = "map2 encodeMatchResult ps (br_results v)" and ?gs = "map encodeFeeAccumulator (br_feeAccumulators v)"
  let ?cb = "if br_lastCircuitBreakerTripped v then 1 else cb"
  let ?pre = "disc @ br_market v @ br_lastInclusionRoot v @ u64LE (br_lastBatchSlot v)
     @ u64LE (br_lastMatchCount v) @ u64LE (br_lastClearingPrice v) @ u64LE (br_lastPythTwap v)
     @ u8 ?cb @ pa @ u64LE (br_writeCursor v) @ u64LE (br_nextMatchId v)"
  let ?post = "u8 (br_bump v) @ pb"
  note wf = assms(1) [unfolded wf_batch_results_def]
  have es: "list_all2 (\<lambda>e x. length e = 408 \<and> (\<forall>post. decodeMatchResult (e @ post) 0 = Inr x)) ?es (br_results v)"
    using wf assms(5,6) by (intro encoded_match_results) simp_all
  have gs: "list_all2 (\<lambda>e x. length e = 80 \<and> (\<forall>post. decodeFeeAccumulator (e @ post) 0 = Inr x))
      ?gs (br_feeAccumulators v)"
    using wf by (intro encoded_fee_accumulators) simp
  have data: "encodeBatchResults disc pa pb ps cb v = ?pre @ concat ?es @ concat ?gs @ ?post"
    unfolding encodeBatchResults_def by (simp only: append_assoc)
  have pre: "length ?pre = 128" using wf assms(2,3) by simp
  have secs: "decode_loop decodeMatchResult 408 (encodeBatchResults disc pa pb ps cb v) 128 16 = Inr (br_results v)"
      "decode_loop decodeFeeAccumulator 80 (encodeBatchResults disc pa pb ps cb v) 6656 2 = Inr (br_feeAccumulators v)"
    unfolding data using decode_two_sections [OF es gs _ _ pre, of ?post] wf by blast+
  have "length (concat ?es) = 6528" "length (concat ?gs) = 160"
    using length_concat_encoded [OF es] length_concat_encoded [OF gs] wf by simp_all
  moreover have "byte_range ?cb" and "(?cb = 1) = br_lastCircuitBreakerTripped v"
    using assms(7,8) by (simp_all add: byte_range_def)
  ultimately show ?thesis
    using decodeBatchResults_sections [of disc "br_market v" "br_lastInclusionRoot v" pa pb
        "br_lastBatchSlot v" "br_lastMatchCount v" "br_lastClearingPrice v" "br_lastPythTwap v"
        "br_writeCursor v" "br_nextMatchId v" ?cb "br_bump v" "concat ?es" "concat ?gs"]
      secs wf assms(2-4) unfolding encodeBatchResults_def by simp
qed

section \<open>Properties\<close>

text \<open>(C29) Round trip of the \<open>BatchResults\<close> account: for every well-formed view (field lengths and
  ranges of the on-chain struct, 16 results, 2 accumulators), whatever the discriminator and the
  padding bytes, decoding the account layout returns exactly the view.\<close>

theorem decodeBatchResults_encode:
  assumes "wf_batch_results v" and "length disc = 8" and "length pa = 7" and "length pb = 7"
    and "length ps = 16" and "list_all (\<lambda>p. length p = 7) ps" and "byte_range cb" and "cb \<noteq> 1"
  shows "decodeBatchResults (encodeBatchResults disc pa pb ps cb v) = Inr v"
  using assms by (rule encoded_batch_results_decode)

definition sample_match_result :: MatchResultRecord where
  "sample_match_result = \<lparr>mr_noteBuyer = zeros 32, mr_noteSeller = zeros 32, mr_noteEcommitment = zeros 32,
     mr_noteFcommitment = zeros 32, mr_ownerBuyer = zeros 32, mr_ownerSeller = zeros 32,
     mr_userCommitmentBuyer = zeros 32, mr_userCommitmentSeller = zeros 32, mr_buyerNoteValue =
     15, mr_sellerNoteValue = 16, mr_baseAmt = 17, mr_quoteAmt = 18, mr_buyerChangeAmt = 19,
     mr_sellerChangeAmt = 20, mr_buyerFeeAmt = 21, mr_sellerFeeAmt = 22, mr_buyerRelockOrderId
     = zeros 16, mr_buyerRelockExpiry = 24, mr_sellerRelockOrderId = zeros 16,
     mr_sellerRelockExpiry = 26, mr_price = 27, mr_pythAtMatch = 28, mr_batchSlot = 29,
     mr_matchId = 30, mr_status = 1\<rparr>"

definition sample_batch_results :: BatchResultsView where
  "sample_batch_results = \<lparr>br_market = zeros 32, br_lastInclusionRoot = zeros 32,
     br_lastBatchSlot = 1, br_lastMatchCount = 2, br_lastClearingPrice = 3, br_lastPythTwap = 4,
     br_lastCircuitBreakerTripped = True, br_writeCursor = 5, br_nextMatchId = 6,
     br_results = replicate 16 sample_match_result,
     br_feeAccumulators = replicate 2 \<lparr>fa_tokenMint = zeros 32, fa_accumulatedFees = 9,
        fa_batchSlot = 8, fa_flushedCommitment = zeros 32\<rparr>,
     br_bump = 254\<rparr>"

lemma sample_batch_results_wf: "wf_batch_results sample_batch_results"
proof -
  have "wf_match_result sample_match_result"
    by (simp add: wf_match_result_def sample_match_result_def u64_range_def byte_range_def)
  then show ?thesis
    by (simp add: wf_batch_results_def sample_batch_results_def u64_range_def byte_range_def
        wf_fee_accumulator_def list_all_iff)
qed

theorem decodeBatchResults_encode_witness:
  "wf_batch_results sample_batch_results \<and>
   decodeBatchResults (encodeBatchResults (zeros 8) (zeros 7) (zeros 7) (replicate 16 (zeros 7)) 0
     sample_batch_results) = Inr sample_batch_results"
  using decodeBatchResults_encode [OF sample_batch_results_wf, of "zeros 8" "zeros 7" "zeros 7"
      "replicate 16 (zeros 7)" 0] sample_batch_results_wf
  by (simp add: byte_range_def list_all_iff)

text \<open>The decoder is total: it returns a view exactly on accounts of 6824 bytes (no read is
  out of range there), with 16 results and 2 accumulators, and every other length is the length
  error.\<close>

theorem decodeBatchResults_total:
  "if length data = 6824
   then \<exists>v. decodeBatchResults data = Inr v \<and> length (br_results v) = 16
          \<and> length (br_feeAccumulators v) = 2 \<and> br_market v = slice data 8 32
   else decodeBatchResults data = Inl (newError (''batch_results length mismatch: got ''
          @ nat_toString (length data) @ '', expected '' @ nat_toString 6824))"
proof (cases "length data = 6824")
  case True
  have r: "readU64 data k = Inr (le_to_int (slice data k 8))" if "k + 8 \<le> 6824" for k
    using that True by (simp add: readU64_def getBigUint64_ok)
  have "\<exists>x. decodeMatchResult data k = Inr x" if "k + 408 \<le> 6824" for k
    using that by (simp add: decodeMatchResult_def r Let_def)
  then obtain res where res: "decode_loop decodeMatchResult 408 data 128 16 = Inr res" "length res = 16"
    using decode_loop_total [of 408 6824 decodeMatchResult data 128 16] by auto
  have "\<exists>x. decodeFeeAccumulator data k = Inr x" if "k + 80 \<le> 6824" for k
    using that by (simp add: decodeFeeAccumulator_def r Let_def)
  then obtain accs where accs: "decode_loop decodeFeeAccumulator 80 data 6656 2 = Inr accs" "length accs = 2"
    using decode_loop_total [of 80 6824 decodeFeeAccumulator data 6656 2] by auto
  show ?thesis
    using True res accs
    by (simp add: decodeBatchResults_def br_sizes r Let_def readBytes_def copyBytes_def)
next
  case False
  then show ?thesis by (simp add: decodeBatchResults_def br_sizes)
qed

end
