(* ===== verification/Nyx_Settle.thy ===== *)
theory Nyx_Settle
  imports Nyx_Vault_Client Nyx_Inclusion
begin

text \<open>
  \<open>packages/sdk/src/settlement/settle-builder.ts\<close>: the settlement payload, its Borsh bytes, the
  canonical hash signed by the TEE, the Ed25519 precompile instruction and the settle
  instruction. Proved here: the payload round-trips through its 448 bytes, the hash binds every
  field, the precompile instruction passes the check of the vault program
  (\<open>programs/vault/src/instructions/tee_forced_settle.rs\<close>) for exactly the signed key and hash, and
  the settle instruction names the locks, markers and nullifier entries of the two notes.
\<close>

section \<open>Definitions\<close>

definition ED25519_PROGRAM_ID :: "lib \<Rightarrow> pubkey" where
  "ED25519_PROGRAM_ID L = pubkeyOfBase58 L ''Ed25519SigVerify111111111111111111111111111''"

definition ZERO_COMMITMENT :: bytes where
  "ZERO_COMMITMENT = zeros 32"

record MatchResultPayload =
  mp_matchId :: bytes
  mp_noteAcommitment :: bytes
  mp_noteBcommitment :: bytes
  mp_noteCcommitment :: bytes
  mp_noteDcommitment :: bytes
  mp_noteEcommitment :: bytes
  mp_noteFcommitment :: bytes
  mp_nullifierA :: bytes
  mp_nullifierB :: bytes
  mp_orderIdA :: bytes
  mp_orderIdB :: bytes
  mp_baseAmount :: int
  mp_quoteAmount :: int
  mp_buyerChangeAmt :: int
  mp_sellerChangeAmt :: int
  mp_buyerFeeAmt :: int
  mp_sellerFeeAmt :: int
  mp_noteFeeCommitment :: bytes
  mp_buyerRelockOrderId :: bytes
  mp_buyerRelockExpiry :: int
  mp_sellerRelockOrderId :: bytes
  mp_sellerRelockExpiry :: int
  mp_clearingPrice :: int
  mp_batchSlot :: int

definition fixed :: "bytes \<Rightarrow> nat \<Rightarrow> js_error + bytes" where
  "fixed x len =
     (if length x \<noteq> len
      then Inl (newError (''expected '' @ nat_toString len @ '' bytes, got '' @ nat_toString (length x)))
      else Inr x)"

definition serializePayload :: "MatchResultPayload \<Rightarrow> js_error + bytes" where
  "serializePayload p = rcat
     [fixed (mp_matchId p) 16,
      fixed (mp_noteAcommitment p) 32,
      fixed (mp_noteBcommitment p) 32,
      fixed (mp_noteCcommitment p) 32,
      fixed (mp_noteDcommitment p) 32,
      fixed (mp_noteEcommitment p) 32,
      fixed (mp_noteFcommitment p) 32,
      fixed (mp_nullifierA p) 32,
      fixed (mp_nullifierB p) 32,
      fixed (mp_orderIdA p) 16,
      fixed (mp_orderIdB p) 16,
      Inr (u64LE (mp_baseAmount p)),
      Inr (u64LE (mp_quoteAmount p)),
      Inr (u64LE (mp_buyerChangeAmt p)),
      Inr (u64LE (mp_sellerChangeAmt p)),
      Inr (u64LE (mp_buyerFeeAmt p)),
      Inr (u64LE (mp_sellerFeeAmt p)),
      fixed (mp_noteFeeCommitment p) 32,
      fixed (mp_buyerRelockOrderId p) 16,
      Inr (u64LE (mp_buyerRelockExpiry p)),
      fixed (mp_sellerRelockOrderId p) 16,
      Inr (u64LE (mp_sellerRelockExpiry p)),
      Inr (u64LE (mp_clearingPrice p)),
      Inr (u64LE (mp_batchSlot p))]"

text \<open>The bytes fed to SHA-256 by the \<open>update\<close> calls of \<open>canonicalPayloadHash\<close>, in their order: the
  fee note comes before the nullifiers here.\<close>

definition canonical_message :: "MatchResultPayload \<Rightarrow> js_error + bytes" where
  "canonical_message p = rcat
     [Inr (utf8 ''nyx-match-v5''),
      fixed (mp_matchId p) 16,
      fixed (mp_noteAcommitment p) 32,
      fixed (mp_noteBcommitment p) 32,
      fixed (mp_noteCcommitment p) 32,
      fixed (mp_noteDcommitment p) 32,
      fixed (mp_noteEcommitment p) 32,
      fixed (mp_noteFcommitment p) 32,
      fixed (mp_noteFeeCommitment p) 32,
      fixed (mp_nullifierA p) 32,
      fixed (mp_nullifierB p) 32,
      fixed (mp_orderIdA p) 16,
      fixed (mp_orderIdB p) 16,
      Inr (u64LE (mp_baseAmount p)),
      Inr (u64LE (mp_quoteAmount p)),
      Inr (u64LE (mp_buyerChangeAmt p)),
      Inr (u64LE (mp_sellerChangeAmt p)),
      Inr (u64LE (mp_buyerFeeAmt p)),
      Inr (u64LE (mp_sellerFeeAmt p)),
      fixed (mp_buyerRelockOrderId p) 16,
      Inr (u64LE (mp_buyerRelockExpiry p)),
      fixed (mp_sellerRelockOrderId p) 16,
      Inr (u64LE (mp_sellerRelockExpiry p)),
      Inr (u64LE (mp_clearingPrice p)),
      Inr (u64LE (mp_batchSlot p))]"

definition canonicalPayloadHash :: "lib \<Rightarrow> MatchResultPayload \<Rightarrow> js_error + bytes" where
  "canonicalPayloadHash L p = rbind (canonical_message p) (\<lambda>m. Inr (sha256 L m))"

record Ed25519VerifyParams =
  ed_teePubkey :: bytes
  ed_signature :: bytes
  ed_message :: bytes

definition buildEd25519VerifyIx :: "lib \<Rightarrow> Ed25519VerifyParams \<Rightarrow> js_error + instruction" where
  "buildEd25519VerifyIx L params =
     rbind (fixed (ed_teePubkey params) 32) (\<lambda>pk.
     rbind (fixed (ed_signature params) 64) (\<lambda>sig.
     let msg = ed_message params;
         headerLen = 16;
         pkOff = headerLen;
         sigOff = pkOff + 32;
         msgOff = sigOff + 64;
         header = u8 1 @ u8 0 @ u16LE sigOff @ u16LE 0xffff @ u16LE pkOff @ u16LE 0xffff
           @ u16LE msgOff @ u16LE (int (length msg)) @ u16LE 0xffff
     in Inr (mkIx (ED25519_PROGRAM_ID L) [] (header @ pk @ sig @ msg))))"

record BuildSettleIxParams =
  bs_programId :: pubkey
  bs_teeAuthority :: pubkey
  bs_payload :: MatchResultPayload

definition buildSettleIx :: "lib \<Rightarrow> BuildSettleIxParams \<Rightarrow> js_error + instruction" where
  "buildSettleIx L p =
     rbind (vaultConfigPda L (bs_programId p)) (\<lambda>(vaultConfig, _).
     rbind (noteLockPda L (bs_programId p) (mp_noteAcommitment (bs_payload p))) (\<lambda>(lockA, _).
     rbind (noteLockPda L (bs_programId p) (mp_noteBcommitment (bs_payload p))) (\<lambda>(lockB, _).
     rbind (consumedNotePda L (bs_programId p) (mp_noteAcommitment (bs_payload p))) (\<lambda>(consumedA, _).
     rbind (consumedNotePda L (bs_programId p) (mp_noteBcommitment (bs_payload p))) (\<lambda>(consumedB, _).
     rbind (nullifierEntryPda L (bs_programId p) (mp_nullifierA (bs_payload p))) (\<lambda>(nullA, _).
     rbind (nullifierEntryPda L (bs_programId p) (mp_nullifierB (bs_payload p))) (\<lambda>(nullB, _).
     rbind (noteLockPda L (bs_programId p) (mp_noteEcommitment (bs_payload p))) (\<lambda>(lockE, _).
     rbind (noteLockPda L (bs_programId p) (mp_noteFcommitment (bs_payload p))) (\<lambda>(lockF, _).
     rbind (rcat [Inr (anchorDiscriminator L ''tee_forced_settle''),
                  serializePayload (bs_payload p)]) (\<lambda>data.
     Inr (mkIx (bs_programId p)
       [meta (bs_teeAuthority p) True True,
        meta vaultConfig False True,
        meta lockA False True,
        meta lockB False True,
        meta consumedA False True,
        meta consumedB False True,
        meta nullA False True,
        meta nullB False True,
        meta lockE False True,
        meta lockF False True,
        meta (SYSVAR_INSTRUCTIONS_PUBKEY L) False False,
        meta (SystemProgram_programId L) False False] data)))))))))))"

record ExactFillArgs =
  ef_matchId :: bytes
  ef_noteAcommitment :: bytes
  ef_noteBcommitment :: bytes
  ef_noteCcommitment :: bytes
  ef_noteDcommitment :: bytes
  ef_nullifierA :: bytes
  ef_nullifierB :: bytes
  ef_orderIdA :: bytes
  ef_orderIdB :: bytes
  ef_baseAmount :: int
  ef_quoteAmount :: int
  ef_clearingPrice :: "int option"
  ef_batchSlot :: "int option"

definition exactFillPayload :: "ExactFillArgs \<Rightarrow> MatchResultPayload" where
  "exactFillPayload args = \<lparr>
     mp_matchId = ef_matchId args,
     mp_noteAcommitment = ef_noteAcommitment args,
     mp_noteBcommitment = ef_noteBcommitment args,
     mp_noteCcommitment = ef_noteCcommitment args,
     mp_noteDcommitment = ef_noteDcommitment args,
     mp_noteEcommitment = ZERO_COMMITMENT,
     mp_noteFcommitment = ZERO_COMMITMENT,
     mp_nullifierA = ef_nullifierA args,
     mp_nullifierB = ef_nullifierB args,
     mp_orderIdA = ef_orderIdA args,
     mp_orderIdB = ef_orderIdB args,
     mp_baseAmount = ef_baseAmount args,
     mp_quoteAmount = ef_quoteAmount args,
     mp_buyerChangeAmt = 0,
     mp_sellerChangeAmt = 0,
     mp_buyerFeeAmt = 0,
     mp_sellerFeeAmt = 0,
     mp_noteFeeCommitment = ZERO_COMMITMENT,
     mp_buyerRelockOrderId = RELOCK_ORDER_ID_NONE,
     mp_buyerRelockExpiry = 0,
     mp_sellerRelockOrderId = RELOCK_ORDER_ID_NONE,
     mp_sellerRelockExpiry = 0,
     mp_clearingPrice = (case ef_clearingPrice args of Some c \<Rightarrow> c | None \<Rightarrow> 0),
     mp_batchSlot = (case ef_batchSlot args of Some b \<Rightarrow> b | None \<Rightarrow> 0)\<rparr>"

section \<open>Lemmas\<close>

definition payload_lengths :: "MatchResultPayload \<Rightarrow> bool" where
  "payload_lengths p \<longleftrightarrow>
     list_all (\<lambda>b. length b = 32) [mp_noteAcommitment p, mp_noteBcommitment p, mp_noteCcommitment p, mp_noteDcommitment
          p, mp_noteEcommitment p, mp_noteFcommitment p, mp_nullifierA p, mp_nullifierB p,
          mp_noteFeeCommitment p]
     \<and> list_all (\<lambda>b. length b = 16) [mp_matchId p, mp_orderIdA p, mp_orderIdB p, mp_buyerRelockOrderId p,
          mp_sellerRelockOrderId p]"

definition payload_ranges :: "MatchResultPayload \<Rightarrow> bool" where
  "payload_ranges p \<longleftrightarrow>
     list_all u64_range [mp_baseAmount p, mp_quoteAmount p, mp_buyerChangeAmt p, mp_sellerChangeAmt p,
          mp_buyerFeeAmt p, mp_sellerFeeAmt p, mp_buyerRelockExpiry p, mp_sellerRelockExpiry p,
          mp_clearingPrice p, mp_batchSlot p]"

lemma fixed_eq [wire_simps]: "length x = n \<Longrightarrow> fixed x n = Inr x"
  by (simp add: fixed_def)

lemma fixed_Inr_iff [simp]: "fixed x n = Inr y \<longleftrightarrow> length x = n \<and> y = x"
  by (auto simp: fixed_def)

text \<open>The payload bytes as one list.\<close>

definition payload_bytes :: "MatchResultPayload \<Rightarrow> bytes" where
  "payload_bytes p =
     mp_matchId p
     @ mp_noteAcommitment p
     @ mp_noteBcommitment p
     @ mp_noteCcommitment p
     @ mp_noteDcommitment p
     @ mp_noteEcommitment p
     @ mp_noteFcommitment p
     @ mp_nullifierA p
     @ mp_nullifierB p
     @ mp_orderIdA p
     @ mp_orderIdB p
     @ u64LE (mp_baseAmount p)
     @ u64LE (mp_quoteAmount p)
     @ u64LE (mp_buyerChangeAmt p)
     @ u64LE (mp_sellerChangeAmt p)
     @ u64LE (mp_buyerFeeAmt p)
     @ u64LE (mp_sellerFeeAmt p)
     @ mp_noteFeeCommitment p
     @ mp_buyerRelockOrderId p
     @ u64LE (mp_buyerRelockExpiry p)
     @ mp_sellerRelockOrderId p
     @ u64LE (mp_sellerRelockExpiry p)
     @ u64LE (mp_clearingPrice p)
     @ u64LE (mp_batchSlot p)"

definition message_bytes :: "MatchResultPayload \<Rightarrow> bytes" where
  "message_bytes p = utf8 ''nyx-match-v5''
     @ mp_matchId p
     @ mp_noteAcommitment p
     @ mp_noteBcommitment p
     @ mp_noteCcommitment p
     @ mp_noteDcommitment p
     @ mp_noteEcommitment p
     @ mp_noteFcommitment p
     @ mp_noteFeeCommitment p
     @ mp_nullifierA p
     @ mp_nullifierB p
     @ mp_orderIdA p
     @ mp_orderIdB p
     @ u64LE (mp_baseAmount p)
     @ u64LE (mp_quoteAmount p)
     @ u64LE (mp_buyerChangeAmt p)
     @ u64LE (mp_sellerChangeAmt p)
     @ u64LE (mp_buyerFeeAmt p)
     @ u64LE (mp_sellerFeeAmt p)
     @ mp_buyerRelockOrderId p
     @ u64LE (mp_buyerRelockExpiry p)
     @ mp_sellerRelockOrderId p
     @ u64LE (mp_sellerRelockExpiry p)
     @ u64LE (mp_clearingPrice p)
     @ u64LE (mp_batchSlot p)"

lemma serializePayload_eq: "payload_lengths p \<Longrightarrow> serializePayload p = Inr (payload_bytes p)"
  by (simp add: serializePayload_def payload_lengths_def payload_bytes_def fixed_eq)

lemma serializePayload_Inr: "serializePayload p = Inr bs \<Longrightarrow> payload_lengths p"
  by (auto simp: serializePayload_def payload_lengths_def rbind_eq_Inr)

lemma canonical_message_eq: "payload_lengths p \<Longrightarrow> canonical_message p = Inr (message_bytes p)"
  by (simp add: canonical_message_def payload_lengths_def message_bytes_def fixed_eq)

lemma canonical_message_Inr: "canonical_message p = Inr bs \<Longrightarrow> payload_lengths p"
  by (auto simp: canonical_message_def payload_lengths_def rbind_eq_Inr)

lemma length_payload_bytes: "payload_lengths p \<Longrightarrow> length (payload_bytes p) = 448"
  by (simp add: payload_bytes_def payload_lengths_def)

text \<open>The fields cut out of the payload bytes.\<close>

definition borshPayload :: "bytes \<Rightarrow> MatchResultPayload" where
  "borshPayload bs = \<lparr>
     mp_matchId = slice bs 0 16,
     mp_noteAcommitment = slice bs 16 32,
     mp_noteBcommitment = slice bs 48 32,
     mp_noteCcommitment = slice bs 80 32,
     mp_noteDcommitment = slice bs 112 32,
     mp_noteEcommitment = slice bs 144 32,
     mp_noteFcommitment = slice bs 176 32,
     mp_nullifierA = slice bs 208 32,
     mp_nullifierB = slice bs 240 32,
     mp_orderIdA = slice bs 272 16,
     mp_orderIdB = slice bs 288 16,
     mp_baseAmount = le_to_int (slice bs 304 8),
     mp_quoteAmount = le_to_int (slice bs 312 8),
     mp_buyerChangeAmt = le_to_int (slice bs 320 8),
     mp_sellerChangeAmt = le_to_int (slice bs 328 8),
     mp_buyerFeeAmt = le_to_int (slice bs 336 8),
     mp_sellerFeeAmt = le_to_int (slice bs 344 8),
     mp_noteFeeCommitment = slice bs 352 32,
     mp_buyerRelockOrderId = slice bs 384 16,
     mp_buyerRelockExpiry = le_to_int (slice bs 400 8),
     mp_sellerRelockOrderId = slice bs 408 16,
     mp_sellerRelockExpiry = le_to_int (slice bs 424 8),
     mp_clearingPrice = le_to_int (slice bs 432 8),
     mp_batchSlot = le_to_int (slice bs 440 8)\<rparr>"

lemma borshPayload_payload_bytes:
  "payload_lengths p \<Longrightarrow> payload_ranges p \<Longrightarrow> borshPayload (payload_bytes p) = p"
  by (simp add: borshPayload_def payload_bytes_def payload_lengths_def payload_ranges_def wire_simps)

lemma message_bytes_inject:
  assumes "message_bytes p = message_bytes q"
    and "payload_lengths p" "payload_ranges p" "payload_lengths q" "payload_ranges q"
  shows "p = q"
  using assms
  by (simp add: message_bytes_def payload_lengths_def payload_ranges_def u64LE_inj_range)

section \<open>The check of the vault program\<close>

text \<open>What \<open>verify_tee_signature\<close> asks of one precompile instruction: a single signature, inlined
  key and message within the data, the expected key and the expected 32-byte message.\<close>

definition tee_signature_accepts :: "bytes \<Rightarrow> bytes \<Rightarrow> bytes \<Rightarrow> bool" where
  "tee_signature_accepts data expected_pubkey expected_msg =
     (let u16 = (\<lambda>off. nat (le_to_int (slice data off 2)));
          pk_off = u16 6; pk_ix_idx = u16 8; msg_off = u16 10; msg_len = u16 12; msg_ix_idx = u16 14
      in \<not> length data < 16 \<and> data ! 0 = 1
         \<and> \<not> (pk_ix_idx \<noteq> 65535 \<or> msg_ix_idx \<noteq> 65535)
         \<and> \<not> (pk_off + 32 > length data \<or> msg_off + msg_len > length data)
         \<and> slice data pk_off 32 = expected_pubkey
         \<and> \<not> (msg_len \<noteq> 32 \<or> slice data msg_off msg_len \<noteq> expected_msg))"

lemma buildEd25519VerifyIx_data:
  assumes "length (ed_teePubkey e) = 32" and "length (ed_signature e) = 64"
  shows "buildEd25519VerifyIx L e = Inr (mkIx (ED25519_PROGRAM_ID L) []
     ((u8 1 @ u8 0 @ u16LE 48 @ u16LE 65535 @ u16LE 16 @ u16LE 65535 @ u16LE 112
       @ u16LE (int (length (ed_message e))) @ u16LE 65535)
      @ ed_teePubkey e @ ed_signature e @ ed_message e))"
  using assms by (simp add: buildEd25519VerifyIx_def fixed_eq Let_def)

lemma buildEd25519VerifyIx_accepts:
  assumes "length pk = 32" and "length sig = 64" and "length h = 32"
  obtains ix where "buildEd25519VerifyIx L \<lparr>ed_teePubkey = pk, ed_signature = sig, ed_message = h\<rparr> = Inr ix"
    and "ix_programId ix = ED25519_PROGRAM_ID L" and "slice (ix_data ix) 48 64 = sig"
    and "\<forall>k m. tee_signature_accepts (ix_data ix) k m \<longleftrightarrow> k = pk \<and> m = h"
proof -
  let ?data = "u8 1 @ u8 0 @ u16LE 48 @ u16LE 65535 @ u16LE 16 @ u16LE 65535 @ u16LE 112
      @ u16LE 32 @ u16LE 65535 @ pk @ sig @ h"
  have fields: "le_to_int (slice ?data 6 2) = 16" "le_to_int (slice ?data 8 2) = 65535"
      "le_to_int (slice ?data 10 2) = 112" "le_to_int (slice ?data 12 2) = 32"
      "le_to_int (slice ?data 14 2) = 65535" "slice ?data 16 32 = pk" "slice ?data 48 64 = sig"
      "slice ?data 112 32 = h" "length ?data = 144" "?data ! 0 = 1"
    using assms by (simp_all add: wire_simps) (simp add: u8_def)
  have "tee_signature_accepts ?data k m \<longleftrightarrow> k = pk \<and> m = h" for k m
    unfolding tee_signature_accepts_def Let_def fields using fields(6,8) by auto
  moreover have "buildEd25519VerifyIx L \<lparr>ed_teePubkey = pk, ed_signature = sig, ed_message = h\<rparr>
      = Inr (mkIx (ED25519_PROGRAM_ID L) [] ?data)"
    using buildEd25519VerifyIx_data [of "\<lparr>ed_teePubkey = pk, ed_signature = sig, ed_message = h\<rparr>" L] assms
    by simp
  ultimately show ?thesis using that [of "mkIx (ED25519_PROGRAM_ID L) [] ?data"] fields(7) by simp
qed

lemma buildSettleIx_data:
  assumes "buildSettleIx L p = Inr ix"
  shows "payload_lengths (bs_payload p)" "ix_data ix = anchorDiscriminator L ''tee_forced_settle'' @ payload_bytes (bs_payload p)"
    "ix_programId ix = bs_programId p" "signers_of ix = [bs_teeAuthority p]"
proof -
  show pl: "payload_lengths (bs_payload p)"
    using assms by (auto simp: buildSettleIx_def rbind_eq_Inr split: prod.splits dest: serializePayload_Inr)
  show "ix_data ix = anchorDiscriminator L ''tee_forced_settle'' @ payload_bytes (bs_payload p)"
    "ix_programId ix = bs_programId p" "signers_of ix = [bs_teeAuthority p]"
    using assms by (auto simp: buildSettleIx_def rbind_eq_Inr serializePayload_eq [OF pl] signers_of_def split: prod.splits)
qed

section \<open>Properties\<close>

text \<open>Round trip of the settlement payload: serialisation succeeds exactly when the byte
  fields have their lengths (16 or 32); it then has 448 bytes, and reading the fields back in the
  program's Borsh order gives the payload, for integer fields in the range of a \<open>u64\<close>.\<close>

theorem serializePayload_roundtrip:
  assumes "payload_ranges p"
  shows "if payload_lengths p
     then \<exists>bs. serializePayload p = Inr bs \<and> length bs = 448 \<and> borshPayload bs = p
     else \<exists>e. serializePayload p = Inl e"
proof (cases "payload_lengths p")
  case True
  then show ?thesis
    using assms by (simp add: serializePayload_eq length_payload_bytes borshPayload_payload_bytes)
next
  case False
  then have "serializePayload p \<noteq> Inr bs" for bs using serializePayload_Inr by blast
  then have "\<exists>e. serializePayload p = Inl e" by (metis sum.exhaust)
  with False show ?thesis by (simp only: if_False)
qed

definition sample_fill :: ExactFillArgs where
  "sample_fill = \<lparr>ef_matchId = zeros 16, ef_noteAcommitment = zeros 32, ef_noteBcommitment = zeros 32,
     ef_noteCcommitment = zeros 32, ef_noteDcommitment = zeros 32, ef_nullifierA = zeros 32,
     ef_nullifierB = zeros 32, ef_orderIdA = zeros 16, ef_orderIdB = zeros 16, ef_baseAmount = 100,
     ef_quoteAmount = 5000, ef_clearingPrice = Some 50, ef_batchSlot = None\<rparr>"

definition sample_payload :: MatchResultPayload where
  "sample_payload = exactFillPayload sample_fill"

lemma sample_payload_wf: "payload_lengths sample_payload" "payload_ranges sample_payload"
  by (simp_all add: sample_payload_def sample_fill_def exactFillPayload_def payload_lengths_def
      payload_ranges_def u64_range_def ZERO_COMMITMENT_def RELOCK_ORDER_ID_NONE_def)

theorem serializePayload_roundtrip_witness:
  "\<exists>bs. serializePayload sample_payload = Inr bs \<and> length bs = 448 \<and> borshPayload bs = sample_payload"
  using serializePayload_roundtrip [OF sample_payload_wf(2)] sample_payload_wf(1) by simp

text \<open>(C26) The canonical hash binds the payload: hashing succeeds whenever serialisation does, and
  two payloads with integer fields in range have the same hash exactly when they are equal in
  all 24 fields, as long as SHA-256 does not collide on the two messages. A signature of the TEE
  over the hash therefore authorises one settlement only.\<close>

theorem canonicalPayloadHash_binding:
  assumes "payload_lengths p" "payload_ranges p" "payload_lengths q" "payload_ranges q"
    and "inj_on (sha256 L) {message_bytes p, message_bytes q}"
  shows "(\<exists>h. canonicalPayloadHash L p = Inr h \<and> length h = 32)
     \<and> (canonicalPayloadHash L p = canonicalPayloadHash L q \<longleftrightarrow> p = q)"
proof (intro conjI iffI)
  show "\<exists>h. canonicalPayloadHash L p = Inr h \<and> length h = 32"
    using assms(1) by (simp add: canonicalPayloadHash_def canonical_message_eq)
  assume "canonicalPayloadHash L p = canonicalPayloadHash L q"
  then have "sha256 L (message_bytes p) = sha256 L (message_bytes q)"
    using assms(1,3) by (simp add: canonicalPayloadHash_def canonical_message_eq)
  with assms(5) have "message_bytes p = message_bytes q" by (simp only: inj_on_pair)
  then show "p = q" using assms(1-4) by (rule message_bytes_inject)
qed simp

text \<open>A hash that keeps the bytes of the clearing price.\<close>

definition price_lib :: lib where
  "price_lib = ref_lib \<lparr>sha256_digest := (\<lambda>m. bytes_to_word (drop 444 m))\<rparr>"

theorem canonicalPayloadHash_binding_witness:
  "canonicalPayloadHash price_lib sample_payload
     \<noteq> canonicalPayloadHash price_lib (sample_payload \<lparr>mp_clearingPrice := 51\<rparr>)"
proof -
  let ?q = "sample_payload \<lparr>mp_clearingPrice := 51\<rparr>"
  have q: "payload_lengths ?q" "payload_ranges ?q"
    using sample_payload_wf by (simp_all add: payload_lengths_def payload_ranges_def u64_range_def)
  have sha: "sha256 price_lib (message_bytes p) = toBytes (bytes_to_word (u64LE (mp_clearingPrice p) @ u64LE (mp_batchSlot p)))"
    if "payload_lengths p" for p
    using that by (simp add: sha256_def price_lib_def message_bytes_def payload_lengths_def)
  have "bytes_to_word (u64LE 50 @ u64LE 0) \<noteq> bytes_to_word (u64LE 51 @ u64LE 0)"
    by (simp add: bytes_to_word_def u64LE_def be_to_int_rev int_to_le_numeral)
  then have "sha256 price_lib (message_bytes sample_payload) \<noteq> sha256 price_lib (message_bytes ?q)"
    unfolding sha [OF sample_payload_wf(1)] sha [OF q(1)] toBytes_inject
    by (simp add: sample_payload_def sample_fill_def exactFillPayload_def)
  then have inj: "inj_on (sha256 price_lib) {message_bytes sample_payload, message_bytes ?q}"
    by (simp only: inj_on_pair simp_thms)
  have "sample_payload \<noteq> ?q"
    by (rule notI, drule arg_cong [where f = mp_clearingPrice])
      (simp add: sample_payload_def sample_fill_def exactFillPayload_def)
  then show ?thesis using canonicalPayloadHash_binding [OF sample_payload_wf q inj] by blast
qed

text \<open>The Ed25519 instruction is accepted for what was signed and nothing else: built from a
  32-byte key, a 64-byte signature and the canonical hash of a payload, it passes the check of the
  vault program for a key and a message exactly when they are that key and that hash; a key or a
  signature of another length is an error.\<close>

theorem buildEd25519VerifyIx_accepted:
  assumes "canonicalPayloadHash L p = Inr h"
  shows "if length pk = 32 \<and> length sig = 64
     then \<exists>ix. buildEd25519VerifyIx L \<lparr>ed_teePubkey = pk, ed_signature = sig, ed_message = h\<rparr> = Inr ix
       \<and> ix_programId ix = ED25519_PROGRAM_ID L \<and> slice (ix_data ix) 48 64 = sig
       \<and> (\<forall>k m. tee_signature_accepts (ix_data ix) k m \<longleftrightarrow> k = pk \<and> m = h)
     else \<exists>e. buildEd25519VerifyIx L \<lparr>ed_teePubkey = pk, ed_signature = sig, ed_message = h\<rparr> = Inl e"
proof (cases "length pk = 32 \<and> length sig = 64")
  case True
  have "length h = 32" using assms by (auto simp: canonicalPayloadHash_def rbind_eq_Inr)
  then show ?thesis using True buildEd25519VerifyIx_accepts [of pk sig h L] by (simp only: simp_thms if_True) blast
next
  case False
  then show ?thesis by (auto simp: buildEd25519VerifyIx_def fixed_def)
qed

theorem buildEd25519VerifyIx_accepted_witness:
  "\<exists>h ix. canonicalPayloadHash ref_lib sample_payload = Inr h
     \<and> buildEd25519VerifyIx ref_lib \<lparr>ed_teePubkey = zeros 32, ed_signature = zeros 64, ed_message = h\<rparr> = Inr ix
     \<and> tee_signature_accepts (ix_data ix) (zeros 32) h"
proof -
  obtain h where h: "canonicalPayloadHash ref_lib sample_payload = Inr h"
    using sample_payload_wf by (simp add: canonicalPayloadHash_def canonical_message_eq)
  then show ?thesis using buildEd25519VerifyIx_accepted [OF h, of "zeros 32" "zeros 64"] by auto
qed

text \<open>The settle instruction: when addresses can be derived it is built exactly for payloads
  with the right lengths; its data is the discriminator followed by the payload's 448 bytes, the
  TEE authority is the only signer, and the twelve accounts are, in order, the authority, the
  vault, the locks of notes A and B, the consumed markers of A and B, the two nullifier entries,
  the locks of the change notes E and F, the instructions sysvar and the system program.\<close>

theorem buildSettleIx_wire:
  assumes "pda_total L"
  shows "if payload_lengths (bs_payload p)
     then \<exists>ix. buildSettleIx L p = Inr ix
       \<and> ix_data ix = anchorDiscriminator L ''tee_forced_settle'' @ payload_bytes (bs_payload p)
       \<and> length (ix_data ix) = 456 \<and> signers_of ix = [bs_teeAuthority p] \<and> length (ix_keys ix) = 12
       \<and> list_all2 (\<lambda>m r. \<exists>b. r = Inr (am_pubkey m, b)) (take 9 (drop 1 (ix_keys ix)))
           (map (vault_pda_key L (bs_programId p))
             [PVaultConfig, PNoteLock (mp_noteAcommitment (bs_payload p)),
              PNoteLock (mp_noteBcommitment (bs_payload p)),
              PConsumedNote (mp_noteAcommitment (bs_payload p)),
              PConsumedNote (mp_noteBcommitment (bs_payload p)),
              PNullifierEntry (mp_nullifierA (bs_payload p)),
              PNullifierEntry (mp_nullifierB (bs_payload p)),
              PNoteLock (mp_noteEcommitment (bs_payload p)),
              PNoteLock (mp_noteFcommitment (bs_payload p))])
     else \<exists>e. buildSettleIx L p = Inl e"
proof (cases "payload_lengths (bs_payload p)")
  case True
  let ?pid = "bs_programId p" and ?P = "bs_payload p"
  have len: "length (mp_noteAcommitment ?P) = 32" "length (mp_noteBcommitment ?P) = 32"
      "length (mp_nullifierA ?P) = 32" "length (mp_nullifierB ?P) = 32"
      "length (mp_noteEcommitment ?P) = 32" "length (mp_noteFcommitment ?P) = 32"
    using True by (simp_all add: payload_lengths_def)
  obtain v vb where v: "vaultConfigPda L ?pid = Inr (v, vb)"
    unfolding vaultConfigPda_def using pda_totalE [OF assms] by blast
  have lock: "\<exists>k b. noteLockPda L ?pid c = Inr (k, b)" if "length c = 32" for c
    using that pda_totalE [OF assms] by (metis noteLockPda_def fixed_ok(2) rbind.simps(2))
  have cons: "\<exists>k b. consumedNotePda L ?pid c = Inr (k, b)" if "length c = 32" for c
    using that pda_totalE [OF assms] by (metis consumedNotePda_def fixed_ok(2) rbind.simps(2))
  have nul: "\<exists>k b. nullifierEntryPda L ?pid c = Inr (k, b)" if "length c = 32" for c
    using that pda_totalE [OF assms] by (metis nullifierEntryPda_def fixed_ok(2) rbind.simps(2))
  obtain la lb ba bb where l1: "noteLockPda L ?pid (mp_noteAcommitment ?P) = Inr (la, ba)"
      "noteLockPda L ?pid (mp_noteBcommitment ?P) = Inr (lb, bb)" using lock len by blast
  obtain le lf be bf where l2: "noteLockPda L ?pid (mp_noteEcommitment ?P) = Inr (le, be)"
      "noteLockPda L ?pid (mp_noteFcommitment ?P) = Inr (lf, bf)" using lock len by blast
  obtain ca cb da db where c: "consumedNotePda L ?pid (mp_noteAcommitment ?P) = Inr (ca, da)"
      "consumedNotePda L ?pid (mp_noteBcommitment ?P) = Inr (cb, db)" using cons len by blast
  obtain na nb ea eb where n: "nullifierEntryPda L ?pid (mp_nullifierA ?P) = Inr (na, ea)"
      "nullifierEntryPda L ?pid (mp_nullifierB ?P) = Inr (nb, eb)" using nul len by blast
  show ?thesis using True
    by (simp add: buildSettleIx_def v l1 l2 c n serializePayload_eq length_payload_bytes signers_of_def)
next
  case False
  then have "buildSettleIx L p \<noteq> Inr ix" for ix
    using serializePayload_Inr by (auto simp: buildSettleIx_def rbind_eq_Inr)
  then have "\<exists>e. buildSettleIx L p = Inl e" by (metis sum.exhaust)
  with False show ?thesis by (simp only: if_False)
qed

theorem buildSettleIx_wire_witness:
  "\<exists>ix. buildSettleIx ref_lib \<lparr>bs_programId = 9, bs_teeAuthority = 4, bs_payload = sample_payload\<rparr> = Inr ix
     \<and> length (ix_data ix) = 456 \<and> signers_of ix = [4]"
  using buildSettleIx_wire [OF ref_lib_pda_total,
      of "\<lparr>bs_programId = 9, bs_teeAuthority = 4, bs_payload = sample_payload\<rparr>"] sample_payload_wf(1)
  by auto

end
