(* ===== verification/Nyx_Shadow.thy ===== *)
theory Nyx_Shadow
  imports Nyx_Note Nyx_Tree
begin

unbundle bit_operations_syntax

text \<open>
  \<open>apps/demo/src/lib/dapp/merkle-shadow.ts\<close> and \<open>merkle-witness.ts\<close>, the two ways the
  application computes the Merkle witness of a note, and the on-chain tree they follow,
  \<open>append_leaf\<close> of \<open>programs/vault/src/merkle.rs\<close>.

  The shadow tree keeps all leaves; \<open>computeRoot\<close> hashes them level by level against the roots of
  empty subtrees and \<open>witness\<close> pads to the next power of two first. The vault keeps the leaf count
  and one node per level. All of them are shown to compute \<open>sroot\<close>, the root of the tree of
  depth 20 filled up with zero leaves, over the same leaves.
\<close>

section \<open>The shadow tree\<close>

definition TREE_DEPTH :: nat where
  "TREE_DEPTH = 20"

record MerkleWitness =
  mw_root :: bytes
  mw_siblings :: "bytes list"
  mw_indices :: "int list"

record MerkleShadow =
  ms_leafCount :: nat
  ms_leaves :: "bytes list"
  ms_zeroSubtreeRoots :: "bytes list"

text \<open>\<open>BigInt("0x" + hex)\<close>: no digits at all are a syntax error.\<close>

definition bytesToBigInt :: "bytes \<Rightarrow> js_error + int" where
  "bytesToBigInt x =
     (if x = [] then Inl (JsError ''SyntaxError'' ''Cannot convert 0x to a BigInt'')
      else Inr (be_to_int x))"

definition shadow_poseidon2 :: "lib \<Rightarrow> bytes \<Rightarrow> bytes \<Rightarrow> js_error + bytes" where
  "shadow_poseidon2 L a b =
     rbind (bytesToBigInt a) (\<lambda>x. rbind (bytesToBigInt b) (\<lambda>y. poseidonHashBytesBE L [x, y]))"

text \<open>\<open>initZero\<close>: \<open>k\<close> more levels from \<open>cur\<close> on.\<close>

fun initZero :: "lib \<Rightarrow> nat \<Rightarrow> bytes \<Rightarrow> js_error + bytes list" where
  "initZero L 0 cur = Inr []"
| "initZero L (Suc k) cur =
     rbind (shadow_poseidon2 L cur cur) (\<lambda>nxt. rbind (initZero L k nxt) (\<lambda>z. Inr (cur # z)))"

definition shadow_create :: "lib \<Rightarrow> js_error + MerkleShadow" where
  "shadow_create L =
     rbind (initZero L TREE_DEPTH (zeros 32)) (\<lambda>z.
       Inr \<lparr>ms_leafCount = 0, ms_leaves = [], ms_zeroSubtreeRoots = z\<rparr>)"

text \<open>One level of \<open>computeRoot\<close>; \<open>zero\<close> is \<open>zeroSubtreeRoots[d]\<close>.\<close>

fun shadow_level :: "lib \<Rightarrow> bytes \<Rightarrow> bytes list \<Rightarrow> js_error + bytes list" where
  "shadow_level L zero (l # r # rest) =
     rbind (shadow_poseidon2 L l r) (\<lambda>h. rbind (shadow_level L zero rest) (\<lambda>next. Inr (h # next)))"
| "shadow_level L zero [l] = rbind (shadow_poseidon2 L l zero) (\<lambda>h. Inr [h])"
| "shadow_level L zero [] = Inr []"

fun empty_up :: "lib \<Rightarrow> nat \<Rightarrow> bytes \<Rightarrow> js_error + bytes" where
  "empty_up L 0 z = Inr z"
| "empty_up L (Suc k) z = rbind (shadow_poseidon2 L z z) (empty_up L k)"

text \<open>The loop over \<open>d\<close> with \<open>k\<close> rounds left.\<close>

fun root_levels :: "lib \<Rightarrow> bytes list \<Rightarrow> nat \<Rightarrow> nat \<Rightarrow> bytes list \<Rightarrow> js_error + bytes" where
  "root_levels L zs d 0 level = Inr (level ! 0)"
| "root_levels L zs d (Suc k) level =
     rbind (shadow_level L (zs ! d) level) (\<lambda>next.
       if length next = 0 then empty_up L (Suc k) (zs ! d)
       else root_levels L zs (Suc d) k next)"

definition computeRoot :: "lib \<Rightarrow> MerkleShadow \<Rightarrow> js_error + bytes" where
  "computeRoot L t = root_levels L (ms_zeroSubtreeRoots t) 0 TREE_DEPTH (ms_leaves t)"

definition shadow_append :: "lib \<Rightarrow> bytes \<Rightarrow> MerkleShadow \<Rightarrow> (js_error + bytes) \<times> MerkleShadow" where
  "shadow_append L leaf t =
     (let t' = t \<lparr>ms_leaves := ms_leaves t @ [leaf], ms_leafCount := ms_leafCount t + 1\<rparr>
      in (computeRoot L t', t'))"

text \<open>\<open>while (small < n) { small <<= 1; smallDepth += 1 }\<close>, for lists of less than \<open>2 ^ 30\<close> leaves,
  where the shift of a 32-bit number does not overflow.\<close>

function small_loop :: "nat \<Rightarrow> nat \<Rightarrow> nat \<Rightarrow> nat" where
  "small_loop small smallDepth n =
     (if 0 < small \<and> small < n then small_loop (small * 2) (smallDepth + 1) n else smallDepth)"
  by pat_completeness auto
termination
  by (relation "measure (\<lambda>(s, d, n). n - s)") auto

declare small_loop.simps [simp del]

text \<open>One level of \<open>witness\<close>: an odd level would hand \<open>undefined\<close> to the hash.\<close>

fun pair_level :: "lib \<Rightarrow> bytes list \<Rightarrow> js_error + bytes list" where
  "pair_level L (a # b # rest) =
     rbind (shadow_poseidon2 L a b) (\<lambda>h. rbind (pair_level L rest) (\<lambda>next. Inr (h # next)))"
| "pair_level L [a] = Inl (JsError ''TypeError'' ''x is not iterable'')"
| "pair_level L [] = Inr []"

fun small_levels :: "lib \<Rightarrow> nat \<Rightarrow> nat \<Rightarrow> bytes list \<Rightarrow> js_error + bytes list \<times> int list \<times> bytes list" where
  "small_levels L 0 idx level = Inr ([], [], level)"
| "small_levels L (Suc k) idx level =
     (let sib = level ! (idx XOR 1); bit = int (idx AND 1)
      in rbind (pair_level L level) (\<lambda>next.
         rbind (small_levels L k (drop_bit 1 idx) next) (\<lambda>(ss, bs, top). Inr (sib # ss, bit # bs, top))))"

fun top_levels :: "lib \<Rightarrow> bytes list \<Rightarrow> nat \<Rightarrow> nat \<Rightarrow> bytes \<Rightarrow> js_error + bytes list \<times> int list \<times> bytes" where
  "top_levels L zs d 0 current = Inr ([], [], current)"
| "top_levels L zs d (Suc k) current =
     rbind (shadow_poseidon2 L current (zs ! d)) (\<lambda>cur.
     rbind (top_levels L zs (Suc d) k cur) (\<lambda>(ss, bs, r). Inr (zs ! d # ss, 0 # bs, r)))"

definition small_depth :: "nat \<Rightarrow> nat" where
  "small_depth n = (let s = small_loop 1 0 n in if s = 0 then 1 else s)"

definition shadow_witness :: "lib \<Rightarrow> MerkleShadow \<Rightarrow> int \<Rightarrow> js_error + MerkleWitness" where
  "shadow_witness L t targetIndex =
     (if targetIndex < 0 \<or> targetIndex \<ge> int (length (ms_leaves t))
      then Inl (newError (''leaf '' @ bigint_toString targetIndex @ '' out of range (have ''
             @ nat_toString (length (ms_leaves t)) @ '')''))
      else
        let smallDepth = small_depth (length (ms_leaves t));
            padded = 2 ^ smallDepth;
            level = ms_leaves t @ replicate (padded - length (ms_leaves t)) (zeros 32)
        in rbind (small_levels L smallDepth (nat targetIndex) level) (\<lambda>(ss, bs, top).
           rbind (top_levels L (ms_zeroSubtreeRoots t) smallDepth (TREE_DEPTH - smallDepth) (top ! 0)) (\<lambda>(ss', bs', r).
             Inr \<lparr>mw_root = r, mw_siblings = ss @ ss', mw_indices = bs @ bs'\<rparr>)))"

section \<open>The witness from the right path\<close>

definition MERKLE_DEPTH :: nat where
  "MERKLE_DEPTH = 20"

definition poseidonPair :: "lib \<Rightarrow> bytes \<Rightarrow> bytes \<Rightarrow> js_error + bytes" where
  "poseidonPair L a b = poseidonHashBytesBE L [be_to_int a, be_to_int b]"

fun zero_roots_loop :: "lib \<Rightarrow> nat \<Rightarrow> bytes \<Rightarrow> js_error + bytes list" where
  "zero_roots_loop L 0 cur = Inr []"
| "zero_roots_loop L (Suc k) cur =
     rbind (poseidonPair L cur cur) (\<lambda>nxt. rbind (zero_roots_loop L k nxt) (\<lambda>z. Inr (cur # z)))"

text \<open>The cache of \<open>computeZeroSubtreeRoots\<close> holds its result, which depends on nothing.\<close>

definition computeZeroSubtreeRoots :: "lib \<Rightarrow> js_error + bytes list" where
  "computeZeroSubtreeRoots L = zero_roots_loop L MERKLE_DEPTH (zeros 32)"

text \<open>Level \<open>d\<close> of \<open>witnessFromPriorRightPath\<close>, with \<open>k\<close> levels left.\<close>

fun right_path_levels ::
    "lib \<Rightarrow> bytes list \<Rightarrow> bytes list \<Rightarrow> int \<Rightarrow> nat \<Rightarrow> nat \<Rightarrow> bytes \<Rightarrow> js_error + bytes list \<times> int list \<times> bytes" where
  "right_path_levels L zs rp leafIndex d 0 cur = Inr ([], [], cur)"
| "right_path_levels L zs rp leafIndex d (Suc k) cur =
     (let bit = drop_bit d leafIndex AND 1; sib = (if bit = 0 then zs ! d else rp ! d)
      in rbind (if bit = 0 then poseidonPair L cur (zs ! d) else poseidonPair L (rp ! d) cur) (\<lambda>nxt.
         rbind (right_path_levels L zs rp leafIndex (Suc d) k nxt) (\<lambda>(ss, bs, r).
           Inr (sib # ss, bit # bs, r))))"

definition witnessFromPriorRightPath :: "lib \<Rightarrow> bytes \<Rightarrow> int \<Rightarrow> bytes list \<Rightarrow> js_error + MerkleWitness" where
  "witnessFromPriorRightPath L leaf leafIndex priorRightPath =
     (if length leaf \<noteq> 32 then Inl (newError ''leaf must be 32 bytes'')
      else if length priorRightPath \<noteq> MERKLE_DEPTH
      then Inl (newError (''priorRightPath must have '' @ nat_toString MERKLE_DEPTH @ '' entries''))
      else
        rbind (computeZeroSubtreeRoots L) (\<lambda>zs.
        rbind (right_path_levels L zs priorRightPath leafIndex 0 MERKLE_DEPTH leaf) (\<lambda>(ss, bs, r).
          Inr \<lparr>mw_root = r, mw_siblings = ss, mw_indices = bs\<rparr>)))"

section \<open>The shadow tree computes the sparse root\<close>

text \<open>The node function of the tree, and the roots of its empty subtrees.\<close>

definition pnode :: "lib \<Rightarrow> bytes \<Rightarrow> bytes \<Rightarrow> bytes" where
  "pnode L a b = int_to_be 32 (poseidon L [be_to_int a, be_to_int b])"

abbreviation vault_zero :: "lib \<Rightarrow> nat \<Rightarrow> bytes" where
  "vault_zero L \<equiv> zroot (pnode L) (zeros 32)"

abbreviation vault_root :: "lib \<Rightarrow> bytes list \<Rightarrow> bytes" where
  "vault_root L \<equiv> sroot (pnode L) (zeros 32) 20"

lemma length_pnode [simp]: "length (pnode L a b) = 32"
  by (simp add: pnode_def)

lemma pnode_nonempty [simp]: "pnode L a b \<noteq> []"
  using length_pnode [of L a b] by fastforce

lemma length_vault_zero [simp]: "length (vault_zero L d) = 32"
  by (cases d) simp_all

lemma vault_zero_nonempty [simp]: "vault_zero L d \<noteq> []"
  using length_vault_zero [of L d] by fastforce

lemma length_vault_root [simp]: "length (vault_root L xs) = 32"
proof -
  have "length (mtree (pnode L) (Suc 19) ys) = 32" for ys by (simp only: mtree.simps length_pnode)
  then show ?thesis by (simp add: sroot_def del: mtree.simps)
qed

lemma poseidonPair_eq:
  assumes "poseidon_canonical L"
  shows "poseidonPair L a b = Inr (pnode L a b)"
proof -
  obtain bs where "poseidonHashBytesBE L [be_to_int a, be_to_int b] = Inr bs" "length bs = 32"
    "be_to_int bs = poseidon L [be_to_int a, be_to_int b]"
    using assms by (rule poseidonHashBytesBE_ok)
  moreover from this have "pnode L a b = bs"
    unfolding pnode_def by (metis int_to_be_to_int)
  ultimately show ?thesis by (simp add: poseidonPair_def)
qed

lemma shadow_poseidon2_eq:
  "poseidon_canonical L \<Longrightarrow> a \<noteq> [] \<Longrightarrow> b \<noteq> [] \<Longrightarrow> shadow_poseidon2 L a b = Inr (pnode L a b)"
  using poseidonPair_eq [of L a b] by (simp add: shadow_poseidon2_def bytesToBigInt_def poseidonPair_def)

lemma initZero_eq:
  "poseidon_canonical L \<Longrightarrow> cur \<noteq> [] \<Longrightarrow> initZero L k cur = Inr (map (zroot (pnode L) cur) [0..<k])"
proof (induction k arbitrary: cur)
  case (Suc k)
  then have "initZero L k (pnode L cur cur) = Inr (map (zroot (pnode L) (pnode L cur cur)) [0..<k])" by simp
  then show ?case using Suc.prems
    by (simp add: shadow_poseidon2_eq zroot_shift map_upt_Suc del: upt_Suc)
qed simp

lemma zero_roots_loop_eq:
  "poseidon_canonical L \<Longrightarrow> zero_roots_loop L k cur = Inr (map (zroot (pnode L) cur) [0..<k])"
proof (induction k arbitrary: cur)
  case (Suc k)
  then have "zero_roots_loop L k (pnode L cur cur) = Inr (map (zroot (pnode L) (pnode L cur cur)) [0..<k])" by simp
  then show ?case using Suc.prems by (simp add: poseidonPair_eq zroot_shift map_upt_Suc del: upt_Suc)
qed simp

lemma shadow_level_eq:
  "poseidon_canonical L \<Longrightarrow> [] \<notin> set xs \<Longrightarrow> z \<noteq> [] \<Longrightarrow> shadow_level L z xs = Inr (pairz (pnode L) z xs)"
  by (induction L z xs rule: shadow_level.induct) (simp_all add: shadow_poseidon2_eq not_sym)

lemma pair_level_eq:
  "poseidon_canonical L \<Longrightarrow> [] \<notin> set xs \<Longrightarrow> even (length xs) \<Longrightarrow> pair_level L xs = Inr (pairup (pnode L) xs)"
  by (induction L xs rule: pair_level.induct) (simp_all add: shadow_poseidon2_eq not_sym)

lemma pairz_nonempty: "[] \<notin> set (pairz (pnode L) z xs)"
  by (induction "pnode L" z xs rule: pairz.induct) (auto simp: eq_commute [of "[]"])

lemma pairup_nonempty: "[] \<notin> set (pairup (pnode L) xs)"
  by (induction "pnode L" xs rule: pairup.induct) (auto simp: eq_commute [of "[]"])

lemma empty_up_eq: "poseidon_canonical L \<Longrightarrow> z \<noteq> [] \<Longrightarrow> empty_up L k z = Inr (zroot (pnode L) z k)"
proof (induction k arbitrary: z)
  case (Suc k)
  then have "empty_up L k (pnode L z z) = Inr (zroot (pnode L) (pnode L z z) k)" by simp
  then show ?case using Suc.prems by (simp add: shadow_poseidon2_eq zroot_shift)
qed simp

lemma pairz_Nil_iff: "pairz node z xs = [] \<longleftrightarrow> xs = []"
  by (induction node z xs rule: pairz.induct) simp_all

lemma root_levels_eq:
  assumes "poseidon_canonical L" and "d + k = 20" and "[] \<notin> set level"
    and "length level \<le> 2 ^ k" and "level \<noteq> [] \<or> 0 < k"
  shows "root_levels L (map (vault_zero L) [0..<20]) d k level = Inr (sroot (pnode L) (vault_zero L d) k level)"
  using assms
proof (induction k arbitrary: d level)
  case 0
  then show ?case by (cases level) (simp_all add: sroot_0)
next
  case (Suc k)
  let ?zs = "map (vault_zero L) [0..<20]"
  have zd: "?zs ! d = vault_zero L d" using Suc.prems(2) by simp
  have nx: "shadow_level L (?zs ! d) level = Inr (pairz (pnode L) (vault_zero L d) level)"
    using Suc.prems by (simp only: zd) (simp add: shadow_level_eq)
  show ?case
  proof (cases "level = []")
    case True
    then show ?thesis using Suc.prems(1) zd
      by (simp add: sroot_Nil empty_up_eq del: empty_up.simps zroot.simps)
  next
    case False
    have "root_levels L ?zs (Suc d) k (pairz (pnode L) (vault_zero L d) level)
        = Inr (sroot (pnode L) (vault_zero L (Suc d)) k (pairz (pnode L) (vault_zero L d) level))"
      using Suc.prems False by (intro Suc.IH) (simp_all add: pairz_nonempty length_pairz pairz_Nil_iff)
    then show ?thesis using nx False Suc.prems(4)
      by (simp add: pairz_Nil_iff sroot_step del: map_upt_Suc upt_Suc)
  qed
qed

text \<open>Shadows in use: built by \<open>create\<close> and extended by \<open>append\<close>.\<close>

definition shadow_of :: "lib \<Rightarrow> bytes list \<Rightarrow> MerkleShadow" where
  "shadow_of L xs = \<lparr>ms_leafCount = length xs, ms_leaves = xs, ms_zeroSubtreeRoots = map (vault_zero L) [0..<20]\<rparr>"

definition leaves_ok :: "bytes list \<Rightarrow> bool" where
  "leaves_ok xs \<longleftrightarrow> [] \<notin> set xs \<and> length xs \<le> 2 ^ 20"

lemma shadow_create_eq: "poseidon_canonical L \<Longrightarrow> shadow_create L = Inr (shadow_of L [])"
  using initZero_eq [of L "zeros 32" 20] by (simp add: shadow_create_def shadow_of_def TREE_DEPTH_def zeros_def)

lemma computeRoot_eq:
  "poseidon_canonical L \<Longrightarrow> leaves_ok xs \<Longrightarrow> computeRoot L (shadow_of L xs) = Inr (vault_root L xs)"
  using root_levels_eq [of L 0 20 xs]
  by (simp add: computeRoot_def shadow_of_def TREE_DEPTH_def leaves_ok_def del: upt_Suc)

lemma shadow_append_eq:
  "poseidon_canonical L \<Longrightarrow> leaves_ok (xs @ [x]) \<Longrightarrow>
     shadow_append L x (shadow_of L xs) = (Inr (vault_root L (xs @ [x])), shadow_of L (xs @ [x]))"
  using computeRoot_eq [of L "xs @ [x]"] by (simp add: shadow_append_def shadow_of_def)

section \<open>Witnesses\<close>

lemma xor_1_sib_index: "i XOR Suc 0 = sib_index i"
  unfolding sib_index_def using xor_one_eq [of i] by auto

lemma small_levels_eq:
  "poseidon_canonical L \<Longrightarrow> length level = 2 ^ k \<Longrightarrow> idx < 2 ^ k \<Longrightarrow> [] \<notin> set level \<Longrightarrow>
     small_levels L k idx level = Inr (mpath (pnode L) k level idx, mbits k idx, [mtree (pnode L) k level])"
proof (induction k arbitrary: idx level)
  case 0
  then show ?case by (cases level) simp_all
next
  case (Suc k)
  then have "small_levels L k (idx div 2) (pairup (pnode L) level)
      = Inr (mpath (pnode L) k (pairup (pnode L) level) (idx div 2), mbits k (idx div 2),
             [mtree (pnode L) k (pairup (pnode L) level)])"
    by (intro Suc.IH) (simp_all add: pairup_nonempty)
  then show ?case using Suc.prems
    by (simp add: pair_level_eq xor_1_sib_index mtree_pairup and_one_eq drop_bit_eq_div Let_def del: mtree.simps)
qed

lemma top_levels_eq:
  assumes ne: "xs \<noteq> []" "[] \<notin> set xs"
    and "poseidon_canonical L" and "length xs \<le> 2 ^ d" and "d + k \<le> 20"
  shows "top_levels L (map (vault_zero L) [0..<20]) d k (sroot (pnode L) (zeros 32) d xs)
     = Inr (map (vault_zero L) [d..<d + k], replicate k 0, sroot (pnode L) (zeros 32) (d + k) xs)"
  using assms(3-)
proof (induction k arbitrary: d)
  case (Suc k)
  have sne: "sroot (pnode L) (zeros 32) d xs \<noteq> []"
  proof (cases d)
    case 0
    then show ?thesis using ne by (cases xs) (auto simp: sroot_0)
  next
    case (Suc e)
    then show ?thesis by (simp add: sroot_def)
  qed
  have "top_levels L (map (vault_zero L) [0..<20]) (Suc d) k (sroot (pnode L) (zeros 32) (Suc d) xs)
     = Inr (map (vault_zero L) [Suc d..<Suc d + k], replicate k 0, sroot (pnode L) (zeros 32) (Suc d + k) xs)"
    using Suc.prems by (intro Suc.IH) simp_all
  moreover have "map (vault_zero L) [0..<20] ! d = vault_zero L d" using Suc.prems by simp
  moreover have "map (vault_zero L) [d..<d + Suc k] = vault_zero L d # map (vault_zero L) [Suc d..<Suc d + k]"
    by (subst upt_conv_Cons) simp_all
  ultimately show ?case using Suc.prems sne
    by (simp add: shadow_poseidon2_eq sroot_Suc del: upt_Suc)
qed simp

lemma mpath_zpad_add:
  "length xs \<le> 2 ^ d \<Longrightarrow> i < 2 ^ d \<Longrightarrow>
     mpath node (d + k) (zpad z (d + k) xs) i = mpath node d (zpad z d xs) i @ map (zroot node z) [d..<d + k]"
proof (induction k)
  case (Suc k)
  have "length xs \<le> 2 ^ (d + k)" "i < 2 ^ (d + k)"
    using Suc.prems power_increasing [of d "d + k" "2 :: nat"] by linarith+
  from mpath_zpad_Suc [OF this, of node z] show ?case using Suc by simp
qed simp

lemma mbits_add: "i < 2 ^ d \<Longrightarrow> mbits (d + k) i = mbits d i @ replicate k 0"
proof (induction k)
  case (Suc k)
  have "i < 2 ^ (d + k)" using Suc.prems power_increasing [of d "d + k" "2 :: nat"] by linarith
  from mbits_Suc [OF this] show ?case using Suc by (simp add: replicate_append_same)
qed simp

lemma small_loop_bound:
  "small = 2 ^ j \<Longrightarrow> j \<le> small_loop small j n \<and> n \<le> 2 ^ small_loop small j n
     \<and> (small_loop small j n = j \<or> 2 ^ (small_loop small j n - 1) < n)"
proof (induction small j n rule: small_loop.induct)
  case (1 small j n)
  show ?case
  proof (cases "small < n")
    case True
    then have "Suc j \<le> small_loop (small * 2) (Suc j) n \<and> n \<le> 2 ^ small_loop (small * 2) (Suc j) n
     \<and> (small_loop (small * 2) (Suc j) n = Suc j \<or> 2 ^ (small_loop (small * 2) (Suc j) n - 1) < n)"
      using 1 by simp
    moreover have "small_loop small j n = small_loop (small * 2) (Suc j) n"
      using True 1(2) by (subst small_loop.simps) simp
    ultimately show ?thesis using True 1(2) by auto
  next
    case False
    then show ?thesis using 1(2) by (subst (1 2 3 4) small_loop.simps) simp
  qed
qed

lemma small_depth_bound:
  assumes "n \<le> 2 ^ 20"
  shows "n \<le> 2 ^ small_depth n" and "small_depth n \<le> 20"
proof -
  let ?s = "small_loop 1 0 n"
  have s: "n \<le> 2 ^ ?s" "?s = 0 \<or> 2 ^ (?s - 1) < n" using small_loop_bound [of 1 0 n] by simp_all
  show "n \<le> 2 ^ small_depth n" using s(1) by (auto simp: small_depth_def Let_def)
  have "?s \<le> 20"
  proof (rule ccontr)
    assume "\<not> ?s \<le> 20"
    then have "(2 :: nat) ^ 20 \<le> 2 ^ (?s - 1)" by (intro power_increasing) simp_all
    with \<open>\<not> ?s \<le> 20\<close> s(2) assms show False by linarith
  qed
  then show "small_depth n \<le> 20" by (simp add: small_depth_def Let_def)
qed

lemma shadow_witness_eq:
  assumes "poseidon_canonical L" and "leaves_ok xs" and "i < length xs"
  shows "shadow_witness L (shadow_of L xs) (int i)
     = Inr \<lparr>mw_root = vault_root L xs, mw_siblings = mpath (pnode L) 20 (zpad (zeros 32) 20 xs) i,
            mw_indices = mbits 20 i\<rparr>"
proof -
  let ?d = "small_depth (length xs)" and ?z = "zeros 32 :: bytes"
  have d: "length xs \<le> 2 ^ ?d" "?d \<le> 20"
    using assms(2) small_depth_bound by (simp_all add: leaves_ok_def)
  have i: "i < 2 ^ ?d" using d(1) assms(3) by simp
  have ne: "xs \<noteq> []" "[] \<notin> set xs" using assms by (auto simp: leaves_ok_def)
  have "[] \<notin> set (zpad ?z ?d xs)" using ne(2) by (auto simp: zpad_def zeros_def)
  with d i assms(1)
  have small: "small_levels L ?d i (zpad ?z ?d xs)
      = Inr (mpath (pnode L) ?d (zpad ?z ?d xs) i, mbits ?d i, [sroot (pnode L) ?z ?d xs])"
    by (simp add: small_levels_eq length_zpad sroot_def)
  have top: "top_levels L (map (vault_zero L) [0..<20]) ?d (20 - ?d) (sroot (pnode L) ?z ?d xs)
      = Inr (map (vault_zero L) [?d..<20], replicate (20 - ?d) 0, vault_root L xs)"
    using top_levels_eq [OF ne assms(1) d(1), of "20 - ?d"] d(2) by simp
  have sib: "mpath (pnode L) 20 (zpad ?z 20 xs) i
      = mpath (pnode L) ?d (zpad ?z ?d xs) i @ map (vault_zero L) [?d..<20]"
    using mpath_zpad_add [OF d(1) i, of "pnode L" "20 - ?d" ?z] d(2) by simp
  have bits: "mbits 20 i = mbits ?d i @ replicate (20 - ?d) 0"
    using mbits_add [OF i, of "20 - ?d"] d(2) by simp
  show ?thesis
    using assms(3) small top unfolding sib bits
    by (simp add: shadow_witness_def shadow_of_def TREE_DEPTH_def zpad_def Let_def del: upt_Suc)
qed

lemma right_path_levels_eq:
  assumes "poseidon_canonical L" and "length rp = 20" and "d + k = 20"
  shows "right_path_levels L (map (vault_zero L) [0..<20]) rp (int n) d k cur
     = (let sibs = fr_sibs (pnode L) (vault_zero L d) (n div 2 ^ d) (drop d rp)
        in Inr (sibs, mbits k (n div 2 ^ d), mfold (pnode L) cur (n div 2 ^ d) sibs))"
  using assms
proof (induction k arbitrary: d cur)
  case (Suc k)
  have zd: "map (vault_zero L) [0..<20] ! d = vault_zero L d" using Suc.prems by simp
  have bit: "drop_bit d (int n) AND 1 = int (n div 2 ^ d mod 2)"
    by (simp add: drop_bit_eq_div and_one_eq zdiv_int zmod_int)
  have up: "n div 2 ^ Suc d = n div 2 ^ d div 2" by (metis div_mult2_eq power_Suc2)
  have rp: "drop d rp = rp ! d # drop (Suc d) rp" using Suc.prems by (intro Cons_nth_drop_Suc [symmetric]) simp
  note IH = Suc.IH [of "Suc d", OF Suc.prems(1,2), unfolded up Let_def]
  have k: "Suc d + k = 20" using Suc.prems by simp
  show ?case
    using Suc.prems(1) IH [OF k] unfolding rp
    by (simp add: bit zd poseidonPair_eq Let_def even_iff_mod_2_eq_zero del: upt_Suc)
qed simp

lemma witnessFromPriorRightPath_eq:
  assumes "poseidon_canonical L" and "length leaf = 32" and "length rp = 20"
  shows "witnessFromPriorRightPath L leaf (int n) rp
     = (let sibs = fr_sibs (pnode L) (zeros 32) n rp
        in Inr \<lparr>mw_root = mfold (pnode L) leaf n sibs, mw_siblings = sibs, mw_indices = mbits 20 n\<rparr>)"
  using assms right_path_levels_eq [OF assms(1,3), of 0 20 n leaf]
  by (simp add: witnessFromPriorRightPath_def MERKLE_DEPTH_def computeZeroSubtreeRoots_def
      zero_roots_loop_eq Let_def del: upt_Suc)

interpretation shadow: merkle_scheme "pnode L" "\<lambda>xs. 20" "zpad (zeros 32) 20"
    "\<lambda>xs. computeRoot L (shadow_of L xs)"
    "\<lambda>xs i. map_sum id (\<lambda>w. (mw_siblings w, mw_indices w)) (shadow_witness L (shadow_of L xs) (int i))"
    "\<lambda>xs. poseidon_canonical L \<and> leaves_ok xs"
  for L
  by unfold_locales (auto simp: leaves_ok_def length_zpad take_zpad computeRoot_eq sroot_def shadow_witness_eq)

end
