(* ===== verification/Nyx_Vault_Tree.thy ===== *)
theory Nyx_Vault_Tree
  imports Nyx_Shadow
begin

unbundle bit_operations_syntax

text \<open>
  The Merkle tree of the vault account (\<open>programs/vault/src/merkle.rs\<close>, the ring of roots in
  \<open>state.rs\<close>, \<open>initialize\<close> and \<open>reset_merkle_tree\<close>) and its step relation. The program hashes with
  \<open>light-poseidon\<close> or the Solana syscall, a parameter \<open>p2\<close>: on two 32-byte encodings of field
  elements it agrees with the Poseidon of the client, and it refuses values that are not below the
  modulus (\<open>chain_poseidon\<close>).

  \<open>vault_rep\<close> is the abstraction: which list of leaves a vault account stands for. Every step keeps
  it, every reachable account has one, and \<open>append_leaf\<close> refines the \<open>append\<close> of the shadow tree.
\<close>

section \<open>The vault account\<close>

datatype vault_error = InvalidProof | MerkleTreeFull | Unauthorized | ProtocolOwnerUnset | MalformedPublicInputs

definition ROOT_HISTORY_SIZE :: nat where
  "ROOT_HISTORY_SIZE = 32"

record VaultConfig =
  vc_admin :: pubkey
  vc_leaf_count :: nat
  vc_current_root :: bytes
  vc_roots :: "bytes list"
  vc_zero_subtree_roots :: "bytes list"
  vc_right_path :: "bytes list"
  vc_roots_head :: nat
  vc_protocol_owner_commitment :: bytes

type_synonym chain_hash = "bytes \<Rightarrow> bytes \<Rightarrow> vault_error + bytes"

definition push_root :: "bytes \<Rightarrow> VaultConfig \<Rightarrow> VaultConfig" where
  "push_root root v =
     (let idx = vc_roots_head v
      in v \<lparr>vc_roots := (vc_roots v)[idx := vc_current_root v],
            vc_roots_head := (idx + 1) mod ROOT_HISTORY_SIZE, vc_current_root := root\<rparr>)"

definition contains_root :: "VaultConfig \<Rightarrow> bytes \<Rightarrow> bool" where
  "contains_root v root \<longleftrightarrow> vc_current_root v = root \<or> root \<in> set (vc_roots v)"

fun compute_zero_subtree_roots :: "chain_hash \<Rightarrow> nat \<Rightarrow> bytes \<Rightarrow> vault_error + bytes list" where
  "compute_zero_subtree_roots p2 0 cur = Inr []"
| "compute_zero_subtree_roots p2 (Suc k) cur =
     rbind (p2 cur cur) (\<lambda>nxt. rbind (compute_zero_subtree_roots p2 k nxt) (\<lambda>rest. Inr (cur # rest)))"

definition empty_root :: "chain_hash \<Rightarrow> bytes list \<Rightarrow> vault_error + bytes" where
  "empty_root p2 zs = (let z = zs ! (MERKLE_DEPTH - 1) in p2 z z)"

text \<open>The loop of \<open>append_leaf\<close> over the levels: the new node and the new right path.\<close>

fun append_levels :: "chain_hash \<Rightarrow> bytes list \<Rightarrow> nat \<Rightarrow> bytes \<Rightarrow> bytes list \<Rightarrow> vault_error + bytes \<times> bytes list" where
  "append_levels p2 (z # zs) idx current (r # rs) =
     (if idx AND 1 = 1
      then rbind (p2 r current) (\<lambda>cur.
           rbind (append_levels p2 zs (drop_bit 1 idx) cur rs) (\<lambda>(root, rs'). Inr (root, r # rs')))
      else rbind (p2 current z) (\<lambda>cur.
           rbind (append_levels p2 zs (drop_bit 1 idx) cur rs) (\<lambda>(root, rs'). Inr (root, current # rs'))))"
| "append_levels p2 zs idx current rs = Inr (current, rs)"

definition append_leaf :: "chain_hash \<Rightarrow> bytes \<Rightarrow> VaultConfig \<Rightarrow> vault_error + bytes \<times> VaultConfig" where
  "append_leaf p2 leaf v =
     (let leaf_index = vc_leaf_count v
      in if \<not> leaf_index < 2 ^ MERKLE_DEPTH then Inl MerkleTreeFull
         else rbind (append_levels p2 (vc_zero_subtree_roots v) leaf_index leaf (vc_right_path v)) (\<lambda>(root, rp).
           Inr (root, push_root root (v \<lparr>vc_right_path := rp, vc_leaf_count := leaf_index + 1\<rparr>))))"

definition vault_initialize :: "chain_hash \<Rightarrow> pubkey \<Rightarrow> vault_error + VaultConfig" where
  "vault_initialize p2 admin =
     rbind (compute_zero_subtree_roots p2 MERKLE_DEPTH (zeros 32)) (\<lambda>zs.
     rbind (empty_root p2 zs) (\<lambda>r.
       Inr \<lparr>vc_admin = admin, vc_leaf_count = 0, vc_current_root = r,
            vc_roots = replicate ROOT_HISTORY_SIZE (zeros 32), vc_zero_subtree_roots = zs,
            vc_right_path = replicate MERKLE_DEPTH (zeros 32), vc_roots_head = 0,
            vc_protocol_owner_commitment = zeros 32\<rparr>))"

definition reset_merkle_tree :: "chain_hash \<Rightarrow> pubkey \<Rightarrow> VaultConfig \<Rightarrow> vault_error + VaultConfig" where
  "reset_merkle_tree p2 signer v =
     (if signer \<noteq> vc_admin v then Inl Unauthorized
      else rbind (empty_root p2 (vc_zero_subtree_roots v)) (\<lambda>r.
        Inr (v \<lparr>vc_leaf_count := 0, vc_right_path := replicate MERKLE_DEPTH (zeros 32),
               vc_roots := replicate ROOT_HISTORY_SIZE (zeros 32), vc_roots_head := 0,
               vc_current_root := r\<rparr>)))"

section \<open>Refinement\<close>

definition field_bytes :: "bytes \<Rightarrow> bool" where
  "field_bytes b \<longleftrightarrow> length b = 32 \<and> be_to_int b < BN254_R"

definition chain_poseidon :: "lib \<Rightarrow> chain_hash \<Rightarrow> bool" where
  "chain_poseidon L p2 \<longleftrightarrow>
     (\<forall>a b. p2 a b = (if field_bytes a \<and> field_bytes b then Inr (pnode L a b) else Inl InvalidProof))"

lemma field_bytes_zeros [simp]: "field_bytes (zeros 32)"
  by (simp add: field_bytes_def BN254_R_def)

lemma field_bytes_pnode [simp]:
  assumes "poseidon_canonical L"
  shows "field_bytes (pnode L a b)"
proof -
  have h: "0 \<le> poseidon L [be_to_int a, be_to_int b]" "poseidon L [be_to_int a, be_to_int b] < BN254_R"
    using assms by (simp_all add: poseidon_canonical_def)
  then have "poseidon L [be_to_int a, be_to_int b] mod 256 ^ 32 = poseidon L [be_to_int a, be_to_int b]"
    by (intro mod_pos_pos_trivial) (simp_all add: BN254_R_def)
  with h show ?thesis by (simp add: field_bytes_def pnode_def be_to_int_to_be)
qed

lemma field_bytes_zroot: "poseidon_canonical L \<Longrightarrow> field_bytes z \<Longrightarrow> field_bytes (zroot (pnode L) z d)"
  by (cases d) simp_all

lemma chain_poseidon_ok:
  "chain_poseidon L p2 \<Longrightarrow> field_bytes a \<Longrightarrow> field_bytes b \<Longrightarrow> p2 a b = Inr (pnode L a b)"
  by (simp add: chain_poseidon_def)

definition vault_rep :: "lib \<Rightarrow> VaultConfig \<Rightarrow> bytes list \<Rightarrow> bool" where
  "vault_rep L v xs \<longleftrightarrow>
     vc_leaf_count v = length xs \<and> length xs \<le> 2 ^ 20 \<and> list_all field_bytes xs
     \<and> vc_zero_subtree_roots v = map (vault_zero L) [0..<20]
     \<and> length (vc_right_path v) = 20 \<and> list_all field_bytes (vc_right_path v)
     \<and> fr_ok (pnode L) (vc_right_path v) xs \<and> vc_current_root v = vault_root L xs
     \<and> length (vc_roots v) = ROOT_HISTORY_SIZE \<and> vc_roots_head v < ROOT_HISTORY_SIZE"

lemma compute_zero_subtree_roots_eq:
  "poseidon_canonical L \<Longrightarrow> chain_poseidon L p2 \<Longrightarrow> field_bytes cur \<Longrightarrow>
     compute_zero_subtree_roots p2 k cur = Inr (map (zroot (pnode L) cur) [0..<k])"
proof (induction k arbitrary: cur)
  case (Suc k)
  then have "compute_zero_subtree_roots p2 k (pnode L cur cur)
      = Inr (map (zroot (pnode L) (pnode L cur cur)) [0..<k])" by simp
  then show ?case using Suc.prems
    by (simp add: chain_poseidon_ok zroot_shift map_upt_Suc del: upt_Suc)
qed simp

lemma empty_root_eq:
  assumes "poseidon_canonical L" and "chain_poseidon L p2"
  shows "empty_root p2 (map (vault_zero L) [0..<20]) = Inr (vault_root L [])"
proof -
  have "vault_zero L 20 = pnode L (vault_zero L 19) (vault_zero L 19)"
    using zroot.simps(2) [of "pnode L" "zeros 32" 19] by (simp del: zroot.simps)
  then have "p2 (vault_zero L 19) (vault_zero L 19) = Inr (vault_zero L 20)"
    using assms by (simp add: chain_poseidon_ok field_bytes_zroot del: zroot.simps)
  then show ?thesis by (simp add: empty_root_def MERKLE_DEPTH_def sroot_Nil del: upt_Suc zroot.simps)
qed

lemma append_levels_eq:
  assumes "poseidon_canonical L" and "chain_poseidon L p2"
    and "list_all field_bytes rs" and "field_bytes cur" and "field_bytes z"
  shows "append_levels p2 (map (zroot (pnode L) z) [0..<length rs]) idx cur rs
     = Inr (mfold (pnode L) cur idx (fr_sibs (pnode L) z idx rs), fr_walk (pnode L) z idx cur rs)"
  using assms(3-)
proof (induction rs arbitrary: idx cur z)
  case (Cons r rs)
  have zs: "map (zroot (pnode L) z) [0..<length (r # rs)]
      = z # map (zroot (pnode L) (pnode L z z)) [0..<length rs]"
    by (simp add: zroot_shift map_upt_Suc del: upt_Suc)
  have up: "append_levels p2 (map (zroot (pnode L) (pnode L z z)) [0..<length rs]) (idx div 2) c rs
     = Inr (mfold (pnode L) c (idx div 2) (fr_sibs (pnode L) (pnode L z z) (idx div 2) rs),
            fr_walk (pnode L) (pnode L z z) (idx div 2) c rs)" if "field_bytes c" for c
    using Cons.prems that assms(1) by (intro Cons.IH) simp_all
  show ?case unfolding zs
    using Cons.prems assms(1,2) up
    by (auto simp: and_one_eq drop_bit_eq_div chain_poseidon_ok odd_iff_mod_2_eq_one simp del: upt_Suc)
qed simp

lemma fr_walk_field:
  "poseidon_canonical L \<Longrightarrow> list_all field_bytes rs \<Longrightarrow> field_bytes cur \<Longrightarrow>
     list_all field_bytes (fr_walk (pnode L) z idx cur rs)"
  by (induction "pnode L" z idx cur rs rule: fr_walk.induct) simp_all

lemma vault_initialize_rep:
  assumes "poseidon_canonical L" and "chain_poseidon L p2"
  obtains v where "vault_initialize p2 admin = Inr v" and "vault_rep L v []"
proof -
  have "compute_zero_subtree_roots p2 MERKLE_DEPTH (zeros 32) = Inr (map (vault_zero L) [0..<20])"
    using compute_zero_subtree_roots_eq [OF assms, of "zeros 32" 20] by (simp add: MERKLE_DEPTH_def)
  then show ?thesis
    using that empty_root_eq [OF assms]
    by (simp add: vault_initialize_def vault_rep_def MERKLE_DEPTH_def ROOT_HISTORY_SIZE_def fr_ok_Nil
        list_all_iff del: upt_Suc)
qed

lemma reset_merkle_tree_rep:
  assumes "poseidon_canonical L" and "chain_poseidon L p2" and "vault_rep L v xs"
  shows "reset_merkle_tree p2 signer v = Inl Unauthorized \<and> signer \<noteq> vc_admin v
       \<or> (\<exists>v'. reset_merkle_tree p2 signer v = Inr v' \<and> vault_rep L v' [])"
  using assms(3) empty_root_eq [OF assms(1,2)]
  by (simp add: reset_merkle_tree_def vault_rep_def MERKLE_DEPTH_def ROOT_HISTORY_SIZE_def fr_ok_Nil
      list_all_iff del: upt_Suc)

lemma append_leaf_rep:
  assumes "poseidon_canonical L" and "chain_poseidon L p2" and "vault_rep L v xs"
    and "field_bytes leaf" and "length xs < 2 ^ 20"
  obtains v' where "append_leaf p2 leaf v = Inr (vault_root L (xs @ [leaf]), v')"
    and "vault_rep L v' (xs @ [leaf])"
proof -
  let ?rp = "fr_walk (pnode L) (zeros 32) (length xs) leaf (vc_right_path v)"
  have rep: "vc_leaf_count v = length xs" "list_all field_bytes xs" "length (vc_right_path v) = 20"
      "vc_zero_subtree_roots v = map (vault_zero L) [0..<20]" "list_all field_bytes (vc_right_path v)"
      "fr_ok (pnode L) (vc_right_path v) xs" "length (vc_roots v) = ROOT_HISTORY_SIZE"
      "vc_roots_head v < ROOT_HISTORY_SIZE"
    using assms(3) by (simp_all add: vault_rep_def)
  have root: "mfold (pnode L) leaf (length xs) (fr_sibs (pnode L) (zeros 32) (length xs) (vc_right_path v))
      = vault_root L (xs @ [leaf])"
    using mfold_fr_sibs [OF rep(6), of leaf "zeros 32"] assms(5) rep(3) by simp
  have walk: "append_levels p2 (vc_zero_subtree_roots v) (length xs) leaf (vc_right_path v)
      = Inr (vault_root L (xs @ [leaf]), ?rp)"
    using append_levels_eq [OF assms(1,2) rep(5) assms(4) field_bytes_zeros, of "length xs"] root rep(3,4)
    by simp
  let ?v = "push_root (vault_root L (xs @ [leaf])) (v \<lparr>vc_right_path := ?rp, vc_leaf_count := length xs + 1\<rparr>)"
  have "append_leaf p2 leaf v = Inr (vault_root L (xs @ [leaf]), ?v)"
    using assms(5) walk rep(1) by (simp add: append_leaf_def MERKLE_DEPTH_def Let_def)
  moreover have "vault_rep L ?v (xs @ [leaf])"
    using rep assms(1,4,5) fr_ok_walk [OF rep(6), of "zeros 32" leaf]
    by (simp add: vault_rep_def push_root_def Let_def fr_walk_field ROOT_HISTORY_SIZE_def del: upt_Suc)
  ultimately show ?thesis by (rule that)
qed

section \<open>Reachable accounts\<close>

text \<open>The operations that touch the tree: any number of leaves is appended by deposits and
  settlements, and the administrator may reset it. An append that fails leaves the account as it
  was.\<close>

datatype tree_op = AppendLeaf bytes | ResetTree pubkey

inductive tree_step :: "chain_hash \<Rightarrow> VaultConfig \<Rightarrow> tree_op \<Rightarrow> VaultConfig \<Rightarrow> bool" for p2 where
  append: "append_leaf p2 leaf v = Inr (root, v') \<Longrightarrow> tree_step p2 v (AppendLeaf leaf) v'"
| append_fails: "append_leaf p2 leaf v = Inl e \<Longrightarrow> tree_step p2 v (AppendLeaf leaf) v"
| reset: "reset_merkle_tree p2 signer v = Inr v' \<Longrightarrow> tree_step p2 v (ResetTree signer) v'"
| reset_fails: "reset_merkle_tree p2 signer v = Inl e \<Longrightarrow> tree_step p2 v (ResetTree signer) v"

inductive_cases tree_stepE: "tree_step p2 v op v'"

inductive tree_reachable :: "chain_hash \<Rightarrow> VaultConfig \<Rightarrow> bool" for p2 where
  init: "vault_initialize p2 admin = Inr v \<Longrightarrow> tree_reachable p2 v"
| step: "tree_reachable p2 v \<Longrightarrow> tree_step p2 v op v' \<Longrightarrow> tree_reachable p2 v'"

lemma append_levels_bad:
  "chain_poseidon L p2 \<Longrightarrow> \<not> field_bytes leaf \<Longrightarrow> zs \<noteq> [] \<Longrightarrow> rs \<noteq> [] \<Longrightarrow>
     append_levels p2 zs idx leaf rs = Inl InvalidProof"
  by (cases zs; cases rs) (simp_all add: chain_poseidon_def)

lemma append_leaf_cases:
  assumes "poseidon_canonical L" and "chain_poseidon L p2" and "vault_rep L v xs"
  shows "if length xs = 2 ^ 20 then append_leaf p2 leaf v = Inl MerkleTreeFull
     else if \<not> field_bytes leaf then append_leaf p2 leaf v = Inl InvalidProof
     else \<exists>v'. append_leaf p2 leaf v = Inr (vault_root L (xs @ [leaf]), v') \<and> vault_rep L v' (xs @ [leaf])"
proof -
  have n: "vc_leaf_count v = length xs" "length xs \<le> 2 ^ 20" using assms(3) by (simp_all add: vault_rep_def)
  have zs: "vc_zero_subtree_roots v \<noteq> []" "vc_right_path v \<noteq> []"
    using assms(3) by (auto simp: vault_rep_def simp del: upt_Suc)
  consider "length xs = 2 ^ 20" | "length xs < 2 ^ 20" "\<not> field_bytes leaf" | "length xs < 2 ^ 20" "field_bytes leaf"
    using n(2) by linarith
  then show ?thesis
  proof cases
    case 1
    then show ?thesis using n(1) by (simp add: append_leaf_def MERKLE_DEPTH_def)
  next
    case 2
    then show ?thesis using n(1) append_levels_bad [OF assms(2) 2(2) zs]
      by (simp add: append_leaf_def MERKLE_DEPTH_def)
  next
    case 3
    obtain v' where "append_leaf p2 leaf v = Inr (vault_root L (xs @ [leaf]), v')" "vault_rep L v' (xs @ [leaf])"
      using append_leaf_rep [OF assms 3(2,1)] .
    then show ?thesis using 3 by auto
  qed
qed

lemma tree_step_rep:
  assumes "poseidon_canonical L" and "chain_poseidon L p2" and "vault_rep L v xs" and "tree_step p2 v op v'"
  shows "\<exists>ys. vault_rep L v' ys"
  using assms(4)
proof cases
  case (append leaf root)
  then show ?thesis using append_leaf_cases [OF assms(1-3), of leaf] by (auto split: if_splits)
next
  case (reset signer)
  then show ?thesis using reset_merkle_tree_rep [OF assms(1-3), of signer] by auto
qed (use assms(3) in auto)

lemma tree_reachable_rep:
  assumes "poseidon_canonical L" and "chain_poseidon L p2" and "tree_reachable p2 v"
  shows "\<exists>xs. vault_rep L v xs"
  using assms(3)
proof induction
  case (init admin v)
  then show ?case using vault_initialize_rep [OF assms(1,2), of admin] by auto
next
  case (step v op v')
  then show ?case using tree_step_rep [OF assms(1,2)] by blast
qed

section \<open>The window of roots\<close>

primrec append_all :: "chain_hash \<Rightarrow> bytes list \<Rightarrow> VaultConfig \<Rightarrow> vault_error + VaultConfig" where
  "append_all p2 [] v = Inr v"
| "append_all p2 (l # ls) v = rbind (append_leaf p2 l v) (\<lambda>(_, v'). append_all p2 ls v')"

text \<open>\<open>j\<close> roots were pushed since \<open>r\<close> was current and went to slot \<open>h\<close>.\<close>

definition root_held :: "bytes \<Rightarrow> nat \<Rightarrow> nat \<Rightarrow> VaultConfig \<Rightarrow> bool" where
  "root_held r h j v \<longleftrightarrow> length (vc_roots v) = ROOT_HISTORY_SIZE \<and> h < ROOT_HISTORY_SIZE
     \<and> vc_roots_head v = (h + j) mod ROOT_HISTORY_SIZE
     \<and> (if j = 0 then vc_current_root v = r else vc_roots v ! h = r)"

lemma append_leaf_held:
  assumes "append_leaf p2 l v = Inr (x, v')" and "root_held r h j v" and "j < ROOT_HISTORY_SIZE"
  shows "root_held r h (Suc j) v'"
proof -
  let ?n = "ROOT_HISTORY_SIZE"
  have s: "vc_roots v' = (vc_roots v)[vc_roots_head v := vc_current_root v]"
      "vc_roots_head v' = (vc_roots_head v + 1) mod ?n"
    using assms(1) by (auto simp: append_leaf_def push_root_def Let_def rbind_eq_Inr split: if_splits)
  have h: "h < ?n" "vc_roots_head v = (h + j) mod ?n" "length (vc_roots v) = ?n"
    using assms(2) by (simp_all add: root_held_def)
  have "vc_roots v' ! h = r"
  proof (cases "j = 0")
    case True
    then show ?thesis using assms(2) s h by (simp add: root_held_def)
  next
    case False
    have "(h + j) mod ?n \<noteq> h"
      using False assms(3) h(1) by (auto simp: mod_if)
    then show ?thesis using False assms(2) s h by (simp add: root_held_def)
  qed
  moreover have "vc_roots_head v' = (h + Suc j) mod ?n" using s(2) h(2) by (simp add: mod_Suc_eq)
  ultimately show ?thesis using s h by (simp add: root_held_def)
qed

lemma append_all_held:
  "append_all p2 ls v = Inr v' \<Longrightarrow> root_held r h j v \<Longrightarrow> j + length ls \<le> ROOT_HISTORY_SIZE \<Longrightarrow>
     root_held r h (j + length ls) v'"
proof (induction ls arbitrary: v j)
  case (Cons l ls)
  then obtain x v1 where v1: "append_leaf p2 l v = Inr (x, v1)" "append_all p2 ls v1 = Inr v'"
    by (auto simp: rbind_eq_Inr)
  then show ?case using Cons.IH [OF v1(2) append_leaf_held [OF v1(1) Cons.prems(2)]] Cons.prems(3) by simp
qed simp

text \<open>(C32) The window of roots: a root that is current in a reachable account is still accepted by
  \<open>contains_root\<close> after up to 32 further appends, so that a witness computed before a racing deposit
  or settlement stays valid.\<close>

theorem root_history_window:
  assumes "poseidon_canonical L" and "chain_poseidon L p2" and "tree_reachable p2 v"
    and "append_all p2 leaves v = Inr v'" and "length leaves \<le> 32"
  shows "contains_root v' (vc_current_root v)"
proof -
  obtain xs where "vault_rep L v xs" using tree_reachable_rep [OF assms(1-3)] by blast
  then have "root_held (vc_current_root v) (vc_roots_head v) 0 v" by (simp add: vault_rep_def root_held_def)
  from append_all_held [OF assms(4) this] assms(5)
  have "root_held (vc_current_root v) (vc_roots_head v) (length leaves) v'" by (simp add: ROOT_HISTORY_SIZE_def)
  then show ?thesis by (auto simp: root_held_def contains_root_def split: if_splits) (metis nth_mem)
qed

text \<open>A concrete chain hash and vault.\<close>

definition ref_chain_hash :: chain_hash where
  "ref_chain_hash a b = (if field_bytes a \<and> field_bytes b then Inr (pnode ref_lib a b) else Inl InvalidProof)"

lemma ref_chain_poseidon: "chain_poseidon ref_lib ref_chain_hash"
  by (simp add: chain_poseidon_def ref_chain_hash_def)

lemma ref_vault_append:
  obtains v r v' where "tree_reachable ref_chain_hash v" and "vault_rep ref_lib v []"
    and "append_leaf ref_chain_hash (zeros 32) v = Inr (r, v')"
proof -
  obtain v where v: "vault_initialize ref_chain_hash 0 = Inr v" "vault_rep ref_lib v []"
    by (rule vault_initialize_rep [OF ref_lib_canonical ref_chain_poseidon])
  obtain v' where "append_leaf ref_chain_hash (zeros 32) v = Inr (vault_root ref_lib ([] @ [zeros 32]), v')"
    by (rule append_leaf_rep [OF ref_lib_canonical ref_chain_poseidon v(2) field_bytes_zeros]) simp_all
  then show ?thesis using that tree_reachable.init [OF v(1)] v(2) by blast
qed

theorem root_history_window_witness:
  "\<exists>v v'. append_all ref_chain_hash [zeros 32] v = Inr v' \<and> contains_root v' (vc_current_root v)"
proof -
  obtain v r v' where v: "tree_reachable ref_chain_hash v" "append_leaf ref_chain_hash (zeros 32) v = Inr (r, v')"
    by (rule ref_vault_append)
  then have "append_all ref_chain_hash [zeros 32] v = Inr v'" by simp
  with root_history_window [OF ref_lib_canonical ref_chain_poseidon v(1) this] show ?thesis by auto
qed

end
