(* ===== verification/Nyx_Spend.thy ===== *)
theory Nyx_Spend
  imports Nyx_Client Nyx_Vault_Tree
begin

text \<open>
  The two circuits (\<open>circuits/valid_spend/circuit.circom\<close>, \<open>circuits/valid_wallet_create/circuit.circom\<close>)
  as predicates on the inputs the client hands to its provers, and the properties of the vault
  tree and of a withdrawal stated against them: the witnesses of the application satisfy the Merkle
  part of the circuit, and a note that was deposited and is in the tree can be withdrawn.

  Signals are integers modulo the field order; \<open>Poseidon\<close> of circomlib is the parameter
  \<open>poseidon\<close>, and \<open>Switcher\<close> of circomlib swaps its two inputs when \<open>sel\<close> is one.
\<close>

section \<open>The circuits\<close>

fun MerkleTreeChecker :: "lib \<Rightarrow> int \<Rightarrow> int \<Rightarrow> int list \<Rightarrow> int list \<Rightarrow> bool" where
  "MerkleTreeChecker L leaf root (e # pathElements) (b # pathIndices) =
     ((b * (1 - b)) mod BN254_R = 0 \<and>
      MerkleTreeChecker L (poseidon L (if b = 1 then [e, leaf] else [leaf, e])) root pathElements pathIndices)"
| "MerkleTreeChecker L leaf root [] [] = ((root - leaf) mod BN254_R = 0)"
| "MerkleTreeChecker L leaf root _ _ = False"

definition ValidSpend :: "lib \<Rightarrow> SpendInputs \<Rightarrow> bool" where
  "ValidSpend L i \<longleftrightarrow>
     (let ownerComm = poseidon L [si_spendingKey i, si_ownerCommitmentBlinding i];
          noteComm = poseidon L [fst (si_tokenMint i), snd (si_tokenMint i), si_amount i, ownerComm,
                                 si_nonce i, si_blindingR i]
      in length (si_merklePath i) = 20 \<and> length (si_merkleIndices i) = 20
         \<and> MerkleTreeChecker L noteComm (si_merkleRoot i) (si_merklePath i) (si_merkleIndices i)
         \<and> (si_nullifier i - poseidon L [si_spendingKey i, noteComm]) mod BN254_R = 0)"

definition ValidWalletCreate :: "lib \<Rightarrow> WalletCreateInputs \<Rightarrow> bool" where
  "ValidWalletCreate L i \<longleftrightarrow>
     (let rootHash = poseidon L [fst (wc_rootKey i), snd (wc_rootKey i), wc_r0 i];
          spendHash = poseidon L [wc_spendingKey i, wc_r1 i];
          viewHash = poseidon L [wc_viewingKey i, wc_r2 i];
          leafPair = poseidon L [rootHash, spendHash];
          top = poseidon L [leafPair, viewHash]
      in (wc_userCommitment i - top) mod BN254_R = 0)"

section \<open>Witnesses and the circuit\<close>

lemma be_to_int_pnode: "poseidon_canonical L \<Longrightarrow> be_to_int (pnode L a b) = poseidon L [be_to_int a, be_to_int b]"
  using poseidonPair_eq [of L a b] by (simp add: poseidonPair_def poseidonHashBytesBE_def bn254ToBE32_Inr_iff)

lemma checker_mfold:
  "poseidon_canonical L \<Longrightarrow>
     MerkleTreeChecker L (be_to_int a) (be_to_int (mfold (pnode L) a i ss)) (map be_to_int ss) (mbits (length ss) i)"
proof (induction ss arbitrary: a i)
  case (Cons s ss)
  show ?case
    using Cons.IH [OF Cons.prems, of "pnode L a s" "i div 2"] Cons.IH [OF Cons.prems, of "pnode L s a" "i div 2"] Cons.prems
    by (cases "even i") (simp_all add: be_to_int_pnode even_iff_mod_2_eq_zero odd_iff_mod_2_eq_one)
qed simp

lemma field_bytes_leaves_ok: "list_all field_bytes xs \<Longrightarrow> length xs \<le> 2 ^ 20 \<Longrightarrow> leaves_ok xs"
  by (auto simp: leaves_ok_def list_all_iff field_bytes_def)

text \<open>An append of a vault that stands for a list of leaves, seen from its right path.\<close>

lemma right_path_checked:
  assumes "poseidon_canonical L" and "chain_poseidon L p2" and "vault_rep L v xs"
    and "append_leaf p2 leaf v = Inr (r, v')"
  shows "vault_rep L v' (xs @ [leaf])"
    and "\<exists>w. witnessFromPriorRightPath L leaf (int (vc_leaf_count v)) (vc_right_path v) = Inr w
     \<and> mw_root w = r \<and> vc_current_root v' = r
     \<and> length (mw_siblings w) = 20 \<and> mw_indices w = mbits 20 (vc_leaf_count v)
     \<and> MerkleTreeChecker L (be_to_int leaf) (be_to_int r) (map be_to_int (mw_siblings w)) (mw_indices w)"
proof -
  have lf: "field_bytes leaf" "length xs < 2 ^ 20" and r: "r = vault_root L (xs @ [leaf])"
      and rep': "vault_rep L v' (xs @ [leaf])"
    using append_leaf_cases [OF assms(1-3), of leaf] assms(3,4)
    by (auto simp: vault_rep_def split: if_splits)
  show "vault_rep L v' (xs @ [leaf])" by (rule rep')
  let ?rp = "vc_right_path v" and ?n = "vc_leaf_count v"
  let ?sibs = "fr_sibs (pnode L) (zeros 32) ?n ?rp"
  have v: "length ?rp = 20" "fr_ok (pnode L) ?rp xs" "?n = length xs" using assms(3) by (simp_all add: vault_rep_def)
  have "mfold (pnode L) leaf ?n ?sibs = r"
    using mfold_fr_sibs [OF v(2), of leaf "zeros 32"] lf(2) v r by simp
  moreover have "MerkleTreeChecker L (be_to_int leaf) (be_to_int (mfold (pnode L) leaf ?n ?sibs)) (map be_to_int ?sibs) (mbits 20 ?n)"
    using checker_mfold [OF assms(1), of leaf ?n ?sibs] v(1) by simp
  moreover have "vc_current_root v' = r" using rep' r by (simp add: vault_rep_def)
  ultimately show "\<exists>w. witnessFromPriorRightPath L leaf (int (vc_leaf_count v)) (vc_right_path v) = Inr w
     \<and> mw_root w = r \<and> vc_current_root v' = r
     \<and> length (mw_siblings w) = 20 \<and> mw_indices w = mbits 20 (vc_leaf_count v)
     \<and> MerkleTreeChecker L (be_to_int leaf) (be_to_int r) (map be_to_int (mw_siblings w)) (mw_indices w)"
    using witnessFromPriorRightPath_eq [OF assms(1) _ v(1), of leaf ?n] lf(1) v(1)
    by (simp add: Let_def field_bytes_def)
qed

section \<open>Properties\<close>

text \<open>The witnesses of the shadow tree: for every index of the tree, \<open>witness\<close> returns the root of
  \<open>computeRoot\<close> with 20 siblings and the binary digits of the index, and they satisfy the Merkle
  constraints of the VALID_SPEND circuit for the leaf at that index; every other index is an error.\<close>

theorem shadow_witness_accepted:
  assumes "poseidon_canonical L" and "leaves_ok xs"
  shows "if 0 \<le> i \<and> i < int (length xs)
     then \<exists>w. shadow_witness L (shadow_of L xs) i = Inr w \<and> computeRoot L (shadow_of L xs) = Inr (mw_root w)
        \<and> length (mw_siblings w) = 20 \<and> mw_indices w = mbits 20 (nat i)
        \<and> MerkleTreeChecker L (be_to_int (xs ! nat i)) (be_to_int (mw_root w))
             (map be_to_int (mw_siblings w)) (mw_indices w)
     else \<exists>msg. shadow_witness L (shadow_of L xs) i = Inl (newError msg)"
proof (cases "0 \<le> i \<and> i < int (length xs)")
  case True
  then obtain k where k: "i = int k" "k < length xs" by (metis nonneg_int_cases of_nat_less_iff)
  have v: "poseidon_canonical L \<and> leaves_ok xs" using assms by simp
  obtain r ss where r: "computeRoot L (shadow_of L xs) = Inr r"
      "map_sum id (\<lambda>w. (mw_siblings w, mw_indices w)) (shadow_witness L (shadow_of L xs) (int k)) = Inr (ss, mbits 20 k)"
      "length ss = 20" "mfold (pnode L) (xs ! k) k ss = r"
    using shadow.path_verifies [OF v k(2)] .
  have "MerkleTreeChecker L (be_to_int (xs ! k)) (be_to_int r) (map be_to_int ss) (mbits 20 k)"
    using checker_mfold [OF assms(1), of "xs ! k" k ss] r(3,4) by simp
  moreover obtain w where w: "shadow_witness L (shadow_of L xs) (int k) = Inr w" "mw_root w = vault_root L xs"
    using shadow_witness_eq [OF assms k(2)] by simp
  ultimately show ?thesis using r k computeRoot_eq [OF assms] by auto
next
  case False
  then have "i < 0 \<or> i \<ge> int (length (ms_leaves (shadow_of L xs)))" by (auto simp: shadow_of_def)
  then have "\<exists>msg. shadow_witness L (shadow_of L xs) i = Inl (newError msg)"
    unfolding shadow_witness_def by (simp only: if_True) blast
  then show ?thesis using False by (simp only: if_False)
qed

theorem shadow_witness_accepted_witness:
  "\<exists>w. shadow_witness ref_lib (shadow_of ref_lib [zeros 32, zeros 32, zeros 32]) 2 = Inr w
     \<and> length (mw_siblings w) = 20
     \<and> MerkleTreeChecker ref_lib 0 (be_to_int (mw_root w)) (map be_to_int (mw_siblings w)) (mw_indices w)"
proof -
  have "leaves_ok [zeros 32, zeros 32, zeros 32]" by (simp add: leaves_ok_def zeros_def)
  from shadow_witness_accepted [OF ref_lib_canonical this, of 2] show ?thesis
    by (auto simp: numeral_2_eq_2)
qed

text \<open>(C4) The vault account and the shadow tree agree (refinement): every reachable account stands for
  a list of leaves whose shadow tree has the account's leaf count and current root, and an append
  on chain succeeds exactly when the tree is not full and the leaf is a field element; then the
  shadow's append returns the same root and the new account stands for the extended list.\<close>

theorem vault_tree_refines_shadow:
  assumes "poseidon_canonical L" and "chain_poseidon L p2" and "tree_reachable p2 v"
  shows "\<exists>xs. vault_rep L v xs \<and> ms_leafCount (shadow_of L xs) = vc_leaf_count v
     \<and> computeRoot L (shadow_of L xs) = Inr (vc_current_root v)
     \<and> (case append_leaf p2 leaf v of
          Inr (r, v') \<Rightarrow> shadow_append L leaf (shadow_of L xs) = (Inr r, shadow_of L (xs @ [leaf]))
             \<and> vault_rep L v' (xs @ [leaf])
        | Inl e \<Rightarrow> e = MerkleTreeFull \<and> length xs = 2 ^ 20 \<or> e = InvalidProof \<and> \<not> field_bytes leaf)"
proof -
  obtain xs where rep: "vault_rep L v xs" using tree_reachable_rep [OF assms] by blast
  then have xs: "list_all field_bytes xs" "length xs \<le> 2 ^ 20" by (simp_all add: vault_rep_def)
  have "computeRoot L (shadow_of L xs) = Inr (vc_current_root v)"
    using rep computeRoot_eq [OF assms(1) field_bytes_leaves_ok [OF xs]] by (simp add: vault_rep_def)
  moreover have "ms_leafCount (shadow_of L xs) = vc_leaf_count v" using rep by (simp add: shadow_of_def vault_rep_def)
  moreover have "leaves_ok (xs @ [leaf])" if "length xs \<noteq> 2 ^ 20" "field_bytes leaf"
    using xs that by (intro field_bytes_leaves_ok) (simp_all add: le_neq_implies_less Suc_le_eq)
  ultimately show ?thesis
    using rep append_leaf_cases [OF assms(1,2) rep, of leaf] shadow_append_eq [OF assms(1), of xs leaf]
    by (intro exI [of _ xs]) (auto split: if_splits)
qed

theorem vault_tree_refines_shadow_witness:
  "\<exists>v xs. tree_reachable ref_chain_hash v \<and> ms_leafCount (shadow_of ref_lib xs) = vc_leaf_count v
     \<and> computeRoot ref_lib (shadow_of ref_lib xs) = Inr (vc_current_root v)"
proof -
  obtain v where "tree_reachable ref_chain_hash v" by (rule ref_vault_append)
  with vault_tree_refines_shadow [OF ref_lib_canonical ref_chain_poseidon this, of "zeros 32"] show ?thesis by blast
qed

text \<open>(C31) The witness from the right path: if the right path is read before a leaf is appended, the
  witness computed from it has the root the append produced, which is the account's new current
  root, and satisfies the Merkle constraints of the circuit for the new leaf.\<close>

theorem right_path_witness_accepted:
  assumes "poseidon_canonical L" and "chain_poseidon L p2" and "tree_reachable p2 v"
    and "append_leaf p2 leaf v = Inr (r, v')"
  shows "\<exists>w. witnessFromPriorRightPath L leaf (int (vc_leaf_count v)) (vc_right_path v) = Inr w
     \<and> mw_root w = r \<and> vc_current_root v' = r
     \<and> length (mw_siblings w) = 20 \<and> mw_indices w = mbits 20 (vc_leaf_count v)
     \<and> MerkleTreeChecker L (be_to_int leaf) (be_to_int r) (map be_to_int (mw_siblings w)) (mw_indices w)"
proof -
  obtain xs where "vault_rep L v xs" using tree_reachable_rep [OF assms(1-3)] by blast
  from right_path_checked [OF assms(1,2) this assms(4)] show ?thesis by blast
qed

theorem right_path_witness_accepted_witness:
  "\<exists>v v' r w. append_leaf ref_chain_hash (zeros 32) v = Inr (r, v')
     \<and> witnessFromPriorRightPath ref_lib (zeros 32) (int (vc_leaf_count v)) (vc_right_path v) = Inr w
     \<and> mw_root w = r \<and> vc_current_root v' = r"
proof -
  obtain v r v' where v: "tree_reachable ref_chain_hash v" "append_leaf ref_chain_hash (zeros 32) v = Inr (r, v')"
    by (rule ref_vault_append)
  from right_path_witness_accepted [OF ref_lib_canonical ref_chain_poseidon v] v(2) show ?thesis by blast
qed

section \<open>Withdrawing what was deposited\<close>

text \<open>What the services of a client do: the proof provider answers with the witness of a shadow tree
  over the vault's leaves, the prover proves every statement that satisfies the circuit, the
  forwarder sends.\<close>

definition serves_tree :: "lib \<Rightarrow> 'w DarkPoolClient \<Rightarrow> bytes list \<Rightarrow> bool" where
  "serves_tree L c xs \<longleftrightarrow>
     (\<forall>i w. i < length xs \<longrightarrow> (\<exists>wt w'. shadow_witness L (shadow_of L xs) (int i) = Inr wt
        \<and> pv_getInclusionProof (dc_providers c) (int i) w
            = (Inr \<lparr>mi_root = mw_root wt, mi_siblings = mw_siblings wt, mi_pathIndices = mw_indices wt\<rparr>, w')))"

definition prover_complete :: "lib \<Rightarrow> 'w DarkPoolClient \<Rightarrow> bool" where
  "prover_complete L c \<longleftrightarrow>
     (\<forall>inp w. ValidSpend L inp \<longrightarrow> (\<exists>pf w'. zk_spend_prove (dc_zkProver c) inp w = (Inr pf, w')
        \<and> length (gp_piA pf) = 64 \<and> length (gp_piB pf) = 128 \<and> length (gp_piC pf) = 64))"

lemma prover_completeE:
  assumes "prover_complete L c" and "ValidSpend L inp"
  obtains pf w' where "zk_spend_prove (dc_zkProver c) inp w = (Inr pf, w')"
    and "length (gp_piA pf) = 64" and "length (gp_piB pf) = 128" and "length (gp_piC pf) = 64"
  using assms unfolding prover_complete_def by meson

definition forwards :: "'w DarkPoolClient \<Rightarrow> bool" where
  "forwards c \<longleftrightarrow> (\<forall>ixs w. \<exists>sg w'. pv_sendAndConfirm (dc_providers c) ixs w = (Inr sg, w'))"

text \<open>The withdrawal of a note: all of it, from its leaf.\<close>

definition withdraws :: "'w WithdrawParams \<Rightarrow> Note \<Rightarrow> nat \<Rightarrow> bool" where
  "withdraws q note i \<longleftrightarrow> wp_notePlaintext q = note \<and> wp_amount q = nt_amount note
     \<and> wp_tokenMint q = nt_tokenMint note \<and> wp_leafIndex q = int i \<and> wp_callbacks q = None"

lemma uint8ArrayToBigIntBE_eq: "uint8ArrayToBigIntBE = be_to_int"
  by (rule ext) (simp add: uint8ArrayToBigIntBE_def)

lemma spend_inputs_valid:
  assumes "poseidon_canonical L" and "leaves_ok xs" and "i < length xs"
    and "shadow_witness L (shadow_of L xs) (int i) = Inr wt"
    and "length (nt_tokenMint note) = 32" and "noteCommitment L note = Inr (xs ! i)"
    and "nt_ownerCommitment note = ownerCommitment L (rk_spendingKey keys) (rk_ownerBlinding keys)"
    and "nullifier L (rk_spendingKey keys) (xs ! i) = Inr nl" and "withdraws q note i"
    and "pubkeyPairBE (nt_tokenMint note) = Inr mint"
  shows "ValidSpend L (spend_inputs q keys keys
     \<lparr>mi_root = mw_root wt, mi_siblings = mw_siblings wt, mi_pathIndices = mw_indices wt\<rparr> nl mint)"
proof -
  have w: "length (mw_siblings wt) = 20" "length (mw_indices wt) = 20"
      "MerkleTreeChecker L (be_to_int (xs ! i)) (be_to_int (mw_root wt)) (map be_to_int (mw_siblings wt)) (mw_indices wt)"
    using shadow_witness_eq [OF assms(1-3)] checker_mfold [OF assms(1), of "xs ! i" i "mw_siblings wt"]
      mfold_mpath [of "zpad (zeros 32) 20 xs" 20 i "pnode L"] assms(2-4)
    by (simp_all add: leaves_ok_def length_zpad sroot_def) (simp add: zpad_def nth_append)
  obtain lo hi where pr: "pubkeyToFrPair (nt_tokenMint note) = Inr (lo, hi)" and m: "mint = (lo, hi)"
    using assms(5,10) by (auto simp: pubkeyToFrPair_def pubkeyPairBE_def Let_def)
  have "be_to_int (xs ! i) = poseidon L [lo, hi, nt_amount note, nt_ownerCommitment note, nt_nonce note, nt_blindingR note]"
    using assms(6) pr by (simp add: noteCommitment_def poseidonHashBytesBE_def bn254ToBE32_Inr_iff)
  moreover have "be_to_int nl = poseidon L [rk_spendingKey keys, be_to_int (xs ! i)]"
    using assms(8) by (auto simp: nullifier_def bn254ToBE32_Inr_iff Let_def split: if_splits)
  ultimately show ?thesis
    using w m assms(7,9)
    by (simp add: ValidSpend_def spend_inputs_def uint8ArrayToBigIntBE_eq ownerCommitment_def withdraws_def Let_def)
qed

lemma withdraw_runs:
  assumes "0 < nt_amount note" and "withdraws q note i" and "cs_resolvedSeed s = Some sd"
    and "pv_getInclusionProof (dc_providers c) (int i) (cs_world s) = (Inr mp, u1)"
    and "length (mi_siblings mp) = 20" and "length (mi_pathIndices mp) = 20"
    and "noteCommitment L note = Inr cm" and "nullifier L (deriveSpendingKey L sd) cm = Inr nl"
    and "pubkeyPairBE (nt_tokenMint note) = Inr mt"
    and "zk_spend_prove (dc_zkProver c) (spend_inputs q (keys_of_seed L c sd) (keys_of_seed L c sd) mp nl mt) u1 = (Inr pf, u2)"
    and "newPublicKey (nt_tokenMint note) = Inr mk"
    and "buildWithdrawInstruction L (withdraw_ix_params L c q mk cm nl (mi_root mp) pf) = Inr ix"
    and "pv_sendAndConfirm (dc_providers c) [ix] u2 = (Inr sg, u3)"
  shows "getWithdrawFunction L rng c q s
     = (Inr \<lparr>wr_signature = sg, wr_nullifier = nl, wr_merkleRoot = mi_root mp\<rparr>, s \<lparr>cs_world := u3\<rparr>)"
proof -
  have q: "wp_amount q = nt_amount note" "wp_notePlaintext q = note" "wp_tokenMint q = nt_tokenMint note"
      "wp_leafIndex q = int i" "wp_callbacks q = None"
    using assms(2) by (simp_all add: withdraws_def)
  have k: "getResolvedKeys L rng c s = (Inr (keys_of_seed L c sd), s)"
      "getResolvedKeys L rng c (s \<lparr>cs_world := u1\<rparr>) = (Inr (keys_of_seed L c sd), s \<lparr>cs_world := u1\<rparr>)"
    using assms(3) by (simp_all add: getResolvedKeys_cached)
  have sk: "rk_spendingKey (keys_of_seed L c sd) = deriveSpendingKey L sd" by (simp add: keys_of_seed_def)
  show ?thesis
    using assms(1,4-)
    by (simp add: getWithdrawFunction_def q k sk io_bind_def call_pre_def call_post_def rethrow_as_def
        io_catch_def in_world_def)
qed

text \<open>(C1) What was deposited can be withdrawn. A client that deposited a note, and whose seed is still
  the same, withdraws it from any later tree that holds the receipt's commitment at its leaf
  index: the statement handed to the prover satisfies the VALID_SPEND circuit, so that with a
  complete prover and a working forwarder the withdrawal returns a receipt; its root is the root of
  the tree and its nullifier that of the receipt's commitment under the key that owns the note.\<close>

theorem deposited_note_withdrawable:
  assumes lib: "poseidon_canonical L" "pda_total L"
    and dep: "getDepositFunction L rng c p s = (Inr rec, s1)"
    and tree: "leaves_ok xs" "i < length xs" "xs ! i = dr_noteCommitment rec" "serves_tree L c xs"
    and services: "prover_complete L c" "forwards c"
    and q: "withdraws q (dr_notePlaintext rec) i"
    and seed: "cs_resolvedSeed s2 = cs_resolvedSeed s1"
  shows "\<exists>wr s3 sk. getWithdrawFunction L rng' c q s2 = (Inr wr, s3)
     \<and> wr_merkleRoot wr = vault_root L xs
     \<and> nullifier L sk (dr_noteCommitment rec) = Inr (wr_nullifier wr)
     \<and> ownerCommitment L sk (dc_ownerBlinding c) = nt_ownerCommitment (dr_notePlaintext rec)"
proof -
  obtain sd where sd: "cs_resolvedSeed s1 = Some sd"
    and nt: "dr_notePlaintext rec = deposit_note L p (keys_of_seed L c sd) (dr_leafIndex rec)"
    using dep by (rule deposit_seed)
  let ?keys = "keys_of_seed L c sd" and ?note = "dr_notePlaintext rec" and ?cm = "dr_noteCommitment rec"
  have pos: "0 < nt_amount ?note" and mint: "length (nt_tokenMint ?note) = 32" and cm: "noteCommitment L ?note = Inr ?cm"
    by (rule deposit_success [OF dep], simp add: nt deposit_note_def)+
  have owner: "nt_ownerCommitment ?note = ownerCommitment L (rk_spendingKey ?keys) (rk_ownerBlinding ?keys)"
    by (simp add: nt deposit_note_def)
  have len: "length ?cm = 32"
    using cm mint by (auto simp: noteCommitment_def rbind_eq_Inr poseidonHashBytesBE_def bn254ToBE32_Inr_iff)
  obtain nl where nl: "nullifier L (rk_spendingKey ?keys) ?cm = Inr nl" "length nl = 32"
    using len poseidonHashBytesBE_ok [OF lib(1), of "[rk_spendingKey ?keys, be_to_int ?cm]"]
    by (auto simp: nullifier_def poseidonHashBytesBE_def Let_def)
  obtain mt where mt: "pubkeyPairBE (nt_tokenMint ?note) = Inr mt" using mint by (simp add: pubkeyPairBE_def Let_def)
  obtain mk where mk: "newPublicKey (nt_tokenMint ?note) = Inr mk" using mint by (simp add: newPublicKey_def)
  obtain wt u1 where wt: "shadow_witness L (shadow_of L xs) (int i) = Inr wt"
    and inc: "pv_getInclusionProof (dc_providers c) (int i) (cs_world s2)
       = (Inr \<lparr>mi_root = mw_root wt, mi_siblings = mw_siblings wt, mi_pathIndices = mw_indices wt\<rparr>, u1)"
    using tree(2,4) unfolding serves_tree_def by blast
  let ?mp = "\<lparr>mi_root = mw_root wt, mi_siblings = mw_siblings wt, mi_pathIndices = mw_indices wt\<rparr>"
  have root: "mw_root wt = vault_root L xs" "length (mw_siblings wt) = 20" "length (mw_indices wt) = 20"
    using wt shadow_witness_eq [OF lib(1) tree(1,2)] by auto
  have "ValidSpend L (spend_inputs q ?keys ?keys ?mp nl mt)"
    by (rule spend_inputs_valid [OF lib(1) tree(1,2) wt mint _ owner _ q mt]) (simp_all add: tree(3) cm nl(1))
  from services(1) this obtain pf u2 where pf: "zk_spend_prove (dc_zkProver c) (spend_inputs q ?keys ?keys ?mp nl mt) u1 = (Inr pf, u2)"
      "length (gp_piA pf) = 64" "length (gp_piB pf) = 128" "length (gp_piC pf) = 64"
    by (rule prover_completeE)
  obtain ix where ix: "buildWithdrawInstruction L (withdraw_ix_params L c q mk ?cm nl (mw_root wt) pf) = Inr ix"
    using buildWithdrawInstruction_ok [OF lib(2), of "withdraw_ix_params L c q mk ?cm nl (mw_root wt) pf"]
      len nl(2) pf(2-) root(1) by (auto simp: withdraw_ix_params_def wf_proof_def)
  obtain sg u3 where sg: "pv_sendAndConfirm (dc_providers c) [ix] u2 = (Inr sg, u3)"
    using services(2) unfolding forwards_def by blast
  have "getWithdrawFunction L rng' c q s2
      = (Inr \<lparr>wr_signature = sg, wr_nullifier = nl, wr_merkleRoot = mi_root ?mp\<rparr>, s2 \<lparr>cs_world := u3\<rparr>)"
    by (rule withdraw_runs [OF pos q _ inc _ _ cm _ mt pf(1) mk _ sg]) (use sd seed root nl(1) ix in \<open>simp_all add: keys_of_seed_def\<close>)
  moreover have "ownerCommitment L (rk_spendingKey ?keys) (dc_ownerBlinding c) = nt_ownerCommitment ?note"
    using owner by (simp add: keys_of_seed_def)
  ultimately show ?thesis using nl(1) root(1) by auto
qed

definition shadow_provider :: "bytes list \<Rightarrow> int \<Rightarrow> (bytes option, js_error, merkle_inclusion) io" where
  "shadow_provider xs i w =
     (map_sum id (\<lambda>wt. \<lparr>mi_root = mw_root wt, mi_siblings = mw_siblings wt, mi_pathIndices = mw_indices wt\<rparr>)
        (shadow_witness ref_lib (shadow_of ref_lib xs) i), w)"

definition sample_withdraw :: "Note \<Rightarrow> bytes option WithdrawParams" where
  "sample_withdraw note = \<lparr>wp_payer = 5, wp_tokenMint = nt_tokenMint note, wp_amount = nt_amount note,
     wp_destinationTokenAccount = 6, wp_notePlaintext = note, wp_leafIndex = 0,
     wp_tokenProgramId = None, wp_callbacks = None\<rparr>"

lemma sample_client_with_services:
  "prover_complete ref_lib (sample_client_with g)" "forwards (sample_client_with g)"
  by (simp_all add: prover_complete_def forwards_def sample_client_with_def getDarkPoolClient_def zeros_def)

lemma shadow_provider_serves:
  assumes "leaves_ok xs"
  shows "serves_tree ref_lib (sample_client_with (shadow_provider xs)) xs"
  using shadow_witness_eq [OF ref_lib_canonical assms]
  by (auto simp: serves_tree_def sample_client_with_def getDarkPoolClient_def shadow_provider_def)

theorem deposited_note_withdrawable_witness:
  "\<exists>rec wr s3. let c = sample_client_with (shadow_provider [dr_noteCommitment rec]) in
     getDepositFunction ref_lib zero_rng c sample_deposit seeded_state = (Inr rec, seeded_state)
     \<and> getWithdrawFunction ref_lib zero_rng c (sample_withdraw (dr_notePlaintext rec)) seeded_state = (Inr wr, s3)"
proof -
  let ?note = "deposit_note ref_lib sample_deposit (keys_of_seed ref_lib sample_client (zeros 64)) 0"
  have keys: "keys_of_seed ref_lib (sample_client_with g) (zeros 64) = keys_of_seed ref_lib sample_client (zeros 64)" for g
    by (simp add: keys_of_seed_def sample_client_def sample_client_with_def getDarkPoolClient_def)
  have "length (nt_tokenMint ?note) = 32" by (simp add: deposit_note_def sample_deposit_def)
  with ref_lib_canonical obtain cm where cm: "noteCommitment ref_lib ?note = Inr cm"
    by (rule noteCommitment_total)
  then have len: "length cm = 32"
    by (auto simp: noteCommitment_def rbind_eq_Inr poseidonHashBytesBE_def bn254ToBE32_Inr_iff)
  let ?c = "sample_client_with (shadow_provider [cm])"
  obtain rec where rec: "getDepositFunction ref_lib zero_rng ?c sample_deposit seeded_state = (Inr rec, seeded_state)"
      "dr_notePlaintext rec = ?note"
    using sample_deposit_runs [of "shadow_provider [cm]"] unfolding keys by blast
  have "noteCommitment ref_lib (dr_notePlaintext rec) = Inr (dr_noteCommitment rec)"
    by (rule deposit_success [OF rec(1)]) assumption
  then have cr: "dr_noteCommitment rec = cm" using cm rec(2) by simp
  have ok: "leaves_ok [cm]" using len by (auto simp: leaves_ok_def)
  have "withdraws (sample_withdraw (dr_notePlaintext rec)) (dr_notePlaintext rec) 0"
    by (simp add: withdraws_def sample_withdraw_def)
  from deposited_note_withdrawable [OF ref_lib_canonical ref_lib_pda_total rec(1) ok _ _
      shadow_provider_serves [OF ok] sample_client_with_services this refl, of zero_rng]
  show ?thesis using rec(1) cr by (auto simp: Let_def)
qed

end
