(* ===== verification/Nyx_Watcher.thy ===== *)
theory Nyx_Watcher
  imports Nyx_Settle
begin

text \<open>
  \<open>packages/sdk/src/settlement/settlement-watcher.ts\<close>: decoding of the \<open>TradeSettled\<close> event and its
  projection to a buyer's or a seller's notification. The event layout is that of
  \<open>programs/vault/src/instructions/tee_forced_settle.rs\<close>; \<open>settled_event\<close> is the event that program
  emits for a payload, from its leaf counter. Proved here: decoding inverts the event layout and
  refuses every other length, and the notifications of a settlement carry the right leaves.
\<close>

section \<open>Definitions\<close>

record TradeSettledEvent =
  ts_matchId :: bytes
  ts_clearingPrice :: int
  ts_baseAmount :: int
  ts_quoteAmount :: int
  ts_buyerChangeAmt :: int
  ts_sellerChangeAmt :: int
  ts_buyerFeeAmt :: int
  ts_sellerFeeAmt :: int
  ts_noteCleaf :: int
  ts_noteDleaf :: int
  ts_noteEleaf :: int
  ts_noteFleaf :: int
  ts_noteFeeLeaf :: int
  ts_buyerRelockActive :: bool
  ts_sellerRelockActive :: bool
  ts_newRoot :: bytes

definition U64_MAX :: int where
  "U64_MAX = 0xffffffffffffffff"

datatype side = Buyer | Seller

record MatchNotification =
  mn_matchId :: bytes
  mn_side :: side
  mn_isPartialFill :: bool
  mn_tradeLeaf :: int
  mn_changeLeaf :: "int option"
  mn_feeLeaf :: "int option"
  mn_feePaid :: int
  mn_relockActive :: bool
  mn_baseAmount :: int
  mn_quoteAmount :: int
  mn_clearingPrice :: int
  mn_newRoot :: bytes

definition buyerNotification :: "TradeSettledEvent \<Rightarrow> MatchNotification" where
  "buyerNotification ev =
     (let isPartial = ts_buyerChangeAmt ev > 0
      in \<lparr>mn_matchId = ts_matchId ev, mn_side = Buyer, mn_isPartialFill = isPartial,
          mn_tradeLeaf = ts_noteCleaf ev,
          mn_changeLeaf = (if ts_noteEleaf ev = U64_MAX then None else Some (ts_noteEleaf ev)),
          mn_feeLeaf = (if ts_noteFeeLeaf ev = U64_MAX then None else Some (ts_noteFeeLeaf ev)),
          mn_feePaid = ts_buyerFeeAmt ev, mn_relockActive = ts_buyerRelockActive ev,
          mn_baseAmount = ts_baseAmount ev, mn_quoteAmount = ts_quoteAmount ev,
          mn_clearingPrice = ts_clearingPrice ev, mn_newRoot = ts_newRoot ev\<rparr>)"

definition sellerNotification :: "TradeSettledEvent \<Rightarrow> MatchNotification" where
  "sellerNotification ev =
     (let isPartial = ts_sellerChangeAmt ev > 0
      in \<lparr>mn_matchId = ts_matchId ev, mn_side = Seller, mn_isPartialFill = isPartial,
          mn_tradeLeaf = ts_noteDleaf ev,
          mn_changeLeaf = (if ts_noteFleaf ev = U64_MAX then None else Some (ts_noteFleaf ev)),
          mn_feeLeaf = (if ts_noteFeeLeaf ev = U64_MAX then None else Some (ts_noteFeeLeaf ev)),
          mn_feePaid = ts_sellerFeeAmt ev, mn_relockActive = ts_sellerRelockActive ev,
          mn_baseAmount = ts_baseAmount ev, mn_quoteAmount = ts_quoteAmount ev,
          mn_clearingPrice = ts_clearingPrice ev, mn_newRoot = ts_newRoot ev\<rparr>)"

definition trade_settled_expected :: nat where
  "trade_settled_expected = 16 + 8 * 12 + 1 + 1 + 32"

definition decodeTradeSettled :: "bytes \<Rightarrow> js_error + TradeSettledEvent" where
  "decodeTradeSettled eventData =
     (if length eventData \<noteq> trade_settled_expected
      then Inl (newError (''TradeSettled event length mismatch: got '' @ nat_toString (length eventData)
             @ '', expected '' @ nat_toString trade_settled_expected))
      else
        let matchId = slice eventData 0 16 in
        rbind (getBigUint64 eventData 16) (\<lambda>clearingPrice.
        rbind (getBigUint64 eventData 24) (\<lambda>baseAmount.
        rbind (getBigUint64 eventData 32) (\<lambda>quoteAmount.
        rbind (getBigUint64 eventData 40) (\<lambda>buyerChangeAmt.
        rbind (getBigUint64 eventData 48) (\<lambda>sellerChangeAmt.
        rbind (getBigUint64 eventData 56) (\<lambda>buyerFeeAmt.
        rbind (getBigUint64 eventData 64) (\<lambda>sellerFeeAmt.
        rbind (getBigUint64 eventData 72) (\<lambda>noteCleaf.
        rbind (getBigUint64 eventData 80) (\<lambda>noteDleaf.
        rbind (getBigUint64 eventData 88) (\<lambda>noteEleaf.
        rbind (getBigUint64 eventData 96) (\<lambda>noteFleaf.
        rbind (getBigUint64 eventData 104) (\<lambda>noteFeeLeaf.
        let buyerRelockActive = (eventData ! 112 = 1);
            sellerRelockActive = (eventData ! 113 = 1);
            newRoot = slice eventData 114 32 in
        Inr \<lparr>ts_matchId = matchId, ts_clearingPrice = clearingPrice, ts_baseAmount = baseAmount,
             ts_quoteAmount = quoteAmount, ts_buyerChangeAmt = buyerChangeAmt, ts_sellerChangeAmt
             = sellerChangeAmt, ts_buyerFeeAmt = buyerFeeAmt, ts_sellerFeeAmt = sellerFeeAmt,
             ts_noteCleaf = noteCleaf, ts_noteDleaf = noteDleaf, ts_noteEleaf = noteEleaf,
             ts_noteFleaf = noteFleaf, ts_noteFeeLeaf = noteFeeLeaf, ts_buyerRelockActive =
             buyerRelockActive, ts_sellerRelockActive = sellerRelockActive, ts_newRoot = newRoot\<rparr>)))))))))))))"

section \<open>The event of the vault program\<close>

definition bool_byte :: "bool \<Rightarrow> bytes" where
  "bool_byte b = u8 (if b then 1 else 0)"

definition encodeTradeSettled :: "TradeSettledEvent \<Rightarrow> bytes" where
  "encodeTradeSettled ev = ts_matchId ev
     @ u64LE (ts_clearingPrice ev)
     @ u64LE (ts_baseAmount ev)
     @ u64LE (ts_quoteAmount ev)
     @ u64LE (ts_buyerChangeAmt ev)
     @ u64LE (ts_sellerChangeAmt ev)
     @ u64LE (ts_buyerFeeAmt ev)
     @ u64LE (ts_sellerFeeAmt ev)
     @ u64LE (ts_noteCleaf ev)
     @ u64LE (ts_noteDleaf ev)
     @ u64LE (ts_noteEleaf ev)
     @ u64LE (ts_noteFleaf ev)
     @ u64LE (ts_noteFeeLeaf ev)
     @ bool_byte (ts_buyerRelockActive ev) @ bool_byte (ts_sellerRelockActive ev) @ ts_newRoot ev"

definition wf_trade_settled :: "TradeSettledEvent \<Rightarrow> bool" where
  "wf_trade_settled ev \<longleftrightarrow> length (ts_matchId ev) = 16 \<and> length (ts_newRoot ev) = 32
     \<and> list_all u64_range [ts_clearingPrice ev, ts_baseAmount ev, ts_quoteAmount ev, ts_buyerChangeAmt ev,
          ts_sellerChangeAmt ev, ts_buyerFeeAmt ev, ts_sellerFeeAmt ev, ts_noteCleaf ev,
          ts_noteDleaf ev, ts_noteEleaf ev, ts_noteFleaf ev, ts_noteFeeLeaf ev]"

text \<open>The leaves a settlement appends, in the program's order: C and D always, then E, F and the fee
  note when their commitments are not all zero; a missing one is reported as \<open>u64::MAX\<close>.\<close>

definition settle_leaves :: "MatchResultPayload \<Rightarrow> bytes list" where
  "settle_leaves p = [mp_noteCcommitment p, mp_noteDcommitment p]
     @ filter (\<lambda>c. c \<noteq> zeros 32) [mp_noteEcommitment p, mp_noteFcommitment p, mp_noteFeeCommitment p]"

definition settled_event :: "int \<Rightarrow> bytes \<Rightarrow> MatchResultPayload \<Rightarrow> TradeSettledEvent" where
  "settled_event leafCount newRoot p =
     (let hasE = mp_noteEcommitment p \<noteq> zeros 32; hasF = mp_noteFcommitment p \<noteq> zeros 32;
          hasFee = mp_noteFeeCommitment p \<noteq> zeros 32;
          c = leafCount; d = c + 1; nE = d + 1; nF = nE + (if hasE then 1 else 0);
          nFee = nF + (if hasF then 1 else 0)
      in \<lparr>ts_matchId = mp_matchId p, ts_clearingPrice = mp_clearingPrice p,
          ts_baseAmount = mp_baseAmount p, ts_quoteAmount = mp_quoteAmount p,
          ts_buyerChangeAmt = mp_buyerChangeAmt p, ts_sellerChangeAmt = mp_sellerChangeAmt p,
          ts_buyerFeeAmt = mp_buyerFeeAmt p, ts_sellerFeeAmt = mp_sellerFeeAmt p,
          ts_noteCleaf = c, ts_noteDleaf = d,
          ts_noteEleaf = (if hasE then nE else U64_MAX),
          ts_noteFleaf = (if hasF then nF else U64_MAX),
          ts_noteFeeLeaf = (if hasFee then nFee else U64_MAX),
          ts_buyerRelockActive = (mp_buyerRelockOrderId p \<noteq> RELOCK_ORDER_ID_NONE),
          ts_sellerRelockActive = (mp_sellerRelockOrderId p \<noteq> RELOCK_ORDER_ID_NONE),
          ts_newRoot = newRoot\<rparr>)"

text \<open>The consistency the program enforces before it settles: a change amount comes with a change
  note and the other way round.\<close>

definition change_consistent :: "MatchResultPayload \<Rightarrow> bool" where
  "change_consistent p \<longleftrightarrow>
     (mp_noteEcommitment p \<noteq> zeros 32 \<longleftrightarrow> mp_buyerChangeAmt p > 0)
     \<and> (mp_noteFcommitment p \<noteq> zeros 32 \<longleftrightarrow> mp_sellerChangeAmt p > 0)"

lemma bool_byte_hit [wire_simps]: "(bool_byte b @ rest) ! 0 = (if b then 1 else 0)"
  by (simp add: bool_byte_def u8_def)

lemma length_bool_byte [simp, wire_simps]: "length (bool_byte b) = 1"
  by (simp add: bool_byte_def)

lemma nth_append_skip: "length a \<le> i \<Longrightarrow> (a @ b) ! i = b ! (i - length a)"
  by (simp add: nth_append)

lemma decodeTradeSettled_encode:
  assumes wf: "wf_trade_settled ev"
  shows "decodeTradeSettled (encodeTradeSettled ev) = Inr ev"
proof -
  from wf have "encodeTradeSettled ev ! 112 = (if ts_buyerRelockActive ev then 1 else 0)"
      "encodeTradeSettled ev ! 113 = (if ts_sellerRelockActive ev then 1 else 0)"
    unfolding encodeTradeSettled_def wf_trade_settled_def
    by (simp_all add: nth_append_skip bool_byte_hit)
  with wf show ?thesis
    unfolding decodeTradeSettled_def
    by (simp add: encodeTradeSettled_def wf_trade_settled_def trade_settled_expected_def wire_simps)
qed

section \<open>Properties\<close>

text \<open>Decoding of the \<open>TradeSettled\<close> event: an event in the program's layout decodes to its
  fields, and any data whose length is not 146 is the length error.\<close>

theorem decodeTradeSettled_roundtrip:
  "(wf_trade_settled ev \<longrightarrow> decodeTradeSettled (encodeTradeSettled ev) = Inr ev)
   \<and> (length data \<noteq> 146 \<longrightarrow> decodeTradeSettled data
        = Inl (newError (''TradeSettled event length mismatch: got '' @ nat_toString (length data)
             @ '', expected '' @ nat_toString 146)))"
  using decodeTradeSettled_encode by (simp add: decodeTradeSettled_def trade_settled_expected_def)

theorem decodeTradeSettled_roundtrip_witness:
  "decodeTradeSettled (encodeTradeSettled (settled_event 3 (zeros 32) sample_payload))
     = Inr (settled_event 3 (zeros 32) sample_payload)
   \<and> decodeTradeSettled [] = Inl (newError (''TradeSettled event length mismatch: got ''
        @ nat_toString 0 @ '', expected '' @ nat_toString 146))"
proof -
  have "wf_trade_settled (settled_event 3 (zeros 32) sample_payload)"
    by (simp add: settled_event_def wf_trade_settled_def sample_payload_def sample_fill_def
        exactFillPayload_def u64_range_def U64_MAX_def ZERO_COMMITMENT_def)
  then show ?thesis using decodeTradeSettled_roundtrip [of _ "[]"] by simp
qed

lemma settled_event_wf:
  assumes "payload_lengths p" and "payload_ranges p" and "length root = 32" and "n < 2 ^ 63"
  shows "wf_trade_settled (settled_event (int n) root p)"
proof -
  have "int n < 9223372036854775808" using assms(4) by simp
  then show ?thesis
    using assms(1-3)
    by (simp add: settled_event_def wf_trade_settled_def payload_lengths_def payload_ranges_def
        u64_range_def U64_MAX_def Let_def)
qed

text \<open>(C9) The notifications of a settlement lead to the right leaves: if the vault held the
  leaves \<open>xs\<close>, settles a payload whose change amounts and change notes agree and emits its event,
  then the watcher decodes it, the buyer's trade leaf is note C and the seller's is note D, each
  side's change leaf is present exactly when its fill is partial and is then its change note, the
  fee leaf is present exactly when a fee note was flushed and is that note, all at their indices in
  the new leaf list.\<close>

theorem notifications_point_to_leaves:
  assumes "payload_lengths p" and "payload_ranges p" and "change_consistent p"
    and "length root = 32" and "length xs < 2 ^ 63"
  shows "\<exists>ev. decodeTradeSettled (encodeTradeSettled (settled_event (int (length xs)) root p)) = Inr ev
     \<and> (let leaves = xs @ settle_leaves p; b = buyerNotification ev; s = sellerNotification ev;
             at = (\<lambda>i c. 0 \<le> i \<and> nat i < length leaves \<and> leaves ! nat i = c) in
          at (mn_tradeLeaf b) (mp_noteCcommitment p) \<and> at (mn_tradeLeaf s) (mp_noteDcommitment p)
          \<and> (case mn_changeLeaf b of None \<Rightarrow> \<not> mn_isPartialFill b
               | Some i \<Rightarrow> mn_isPartialFill b \<and> at i (mp_noteEcommitment p))
          \<and> (case mn_changeLeaf s of None \<Rightarrow> \<not> mn_isPartialFill s
               | Some i \<Rightarrow> mn_isPartialFill s \<and> at i (mp_noteFcommitment p))
          \<and> mn_feeLeaf b = mn_feeLeaf s
          \<and> (case mn_feeLeaf b of None \<Rightarrow> mp_noteFeeCommitment p = zeros 32
               | Some i \<Rightarrow> at i (mp_noteFeeCommitment p)))"
proof (intro exI conjI)
  show "decodeTradeSettled (encodeTradeSettled (settled_event (int (length xs)) root p))
      = Inr (settled_event (int (length xs)) root p)"
    using settled_event_wf [OF assms(1,2,4,5)] decodeTradeSettled_encode by blast
  have n: "int (length xs) < 9223372036854775808" using assms(5) by simp
  show "let leaves = xs @ settle_leaves p; b = buyerNotification (settled_event (int (length xs)) root p);
             s = sellerNotification (settled_event (int (length xs)) root p);
             at = (\<lambda>i c. 0 \<le> i \<and> nat i < length leaves \<and> leaves ! nat i = c) in
          at (mn_tradeLeaf b) (mp_noteCcommitment p) \<and> at (mn_tradeLeaf s) (mp_noteDcommitment p)
          \<and> (case mn_changeLeaf b of None \<Rightarrow> \<not> mn_isPartialFill b
               | Some i \<Rightarrow> mn_isPartialFill b \<and> at i (mp_noteEcommitment p))
          \<and> (case mn_changeLeaf s of None \<Rightarrow> \<not> mn_isPartialFill s
               | Some i \<Rightarrow> mn_isPartialFill s \<and> at i (mp_noteFcommitment p))
          \<and> mn_feeLeaf b = mn_feeLeaf s
          \<and> (case mn_feeLeaf b of None \<Rightarrow> mp_noteFeeCommitment p = zeros 32
               | Some i \<Rightarrow> at i (mp_noteFeeCommitment p))"
    using n assms(3)
    by (auto simp: Let_def settled_event_def buyerNotification_def sellerNotification_def
        settle_leaves_def change_consistent_def U64_MAX_def nth_append nat_add_distrib)
qed

theorem notifications_point_to_leaves_witness:
  "\<exists>ev. decodeTradeSettled (encodeTradeSettled (settled_event (int (length [zeros 32])) (zeros 32) sample_payload)) = Inr ev
     \<and> mn_changeLeaf (buyerNotification ev) = None"
proof -
  have c: "change_consistent sample_payload"
    by (simp add: change_consistent_def sample_payload_def sample_fill_def exactFillPayload_def ZERO_COMMITMENT_def)
  have z: "length (zeros 32) = 32" "length [zeros 32] < 2 ^ 63" by simp_all
  have r: "\<not> mn_isPartialFill (buyerNotification (settled_event (int (length [zeros 32])) (zeros 32) sample_payload))"
    by (simp add: buyerNotification_def settled_event_def sample_payload_def sample_fill_def exactFillPayload_def Let_def)
  have "decodeTradeSettled (encodeTradeSettled (settled_event (int (length [zeros 32])) (zeros 32) sample_payload))
      = Inr (settled_event (int (length [zeros 32])) (zeros 32) sample_payload)"
    using settled_event_wf [OF sample_payload_wf z] decodeTradeSettled_encode by blast
  with r show ?thesis using notifications_point_to_leaves [OF sample_payload_wf c z]
    by (auto simp: Let_def split: option.splits)
qed

end
