(* ===== verification/Nyx_History.thy ===== *)
theory Nyx_History
  imports Nyx_Watcher Nyx_Client
begin

text \<open>
  \<open>apps/demo/src/lib/dapp/vault-leaf-history.ts\<close>: the leaves of the vault tree recovered from the
  transactions of the vault program. The RPC connection is a parameter with a world
  (\<open>connection\<close>); \<open>bs58.decode\<close> and \<open>new PublicKey(string)\<close> are parameters that may throw. An entry
  of a JavaScript array outside its bounds is \<open>undefined\<close>, here \<open>None\<close>.

  The specification is what the program appended: \<open>part_leaves\<close> for one executed instruction,
  \<open>history_leaves\<close> for a history. Proved: paging through the signatures ends and returns the newest
  ones, the walk over a transaction visits its instructions in execution order, and a replay of a
  history without a reset of the tree returns exactly the leaves of the vault.
\<close>

section \<open>Leaves of one instruction\<close>

definition DEPOSIT_DISC :: "lib \<Rightarrow> bytes" where
  "DEPOSIT_DISC L = anchorDiscriminator L ''deposit''"

definition SETTLE_DISC :: "lib \<Rightarrow> bytes" where
  "SETTLE_DISC L = anchorDiscriminator L ''tee_forced_settle''"

definition isZero32 :: "bytes \<Rightarrow> bool" where
  "isZero32 b = isZero b"

definition pushSettleLeaves :: "bytes list \<Rightarrow> bytes \<Rightarrow> js_error + bytes list" where
  "pushSettleLeaves leaves p =
     (if length p < 448 then Inl (newError (''settle payload too short: '' @ nat_toString (length p)))
      else
        let noteC = slice p 80 32; noteD = slice p 112 32; noteE = slice p 144 32;
            noteF = slice p 176 32; noteFee = slice p 352 32;
            l1 = leaves @ [noteC, noteD];
            l2 = (if \<not> isZero32 noteE then l1 @ [noteE] else l1);
            l3 = (if \<not> isZero32 noteF then l2 @ [noteF] else l2)
        in Inr (if \<not> isZero32 noteFee then l3 @ [noteFee] else l3))"

text \<open>The check made when the module is loaded.\<close>

definition assertPayloadLayout :: "js_error + unit" where
  "assertPayloadLayout =
     (let z16 = zeros 16; z32 = zeros 32 in
      rbind (serializePayload
        \<lparr>mp_matchId = z16, mp_noteAcommitment = z32, mp_noteBcommitment = z32, mp_noteCcommitment = z32,
         mp_noteDcommitment = z32, mp_noteEcommitment = z32, mp_noteFcommitment = z32,
         mp_nullifierA = z32, mp_nullifierB = z32, mp_orderIdA = z16, mp_orderIdB = z16,
         mp_baseAmount = 1, mp_quoteAmount = 1, mp_buyerChangeAmt = 0, mp_sellerChangeAmt = 0,
         mp_buyerFeeAmt = 0, mp_sellerFeeAmt = 0, mp_noteFeeCommitment = z32,
         mp_buyerRelockOrderId = z16, mp_buyerRelockExpiry = 0, mp_sellerRelockOrderId = z16,
         mp_sellerRelockExpiry = 0, mp_clearingPrice = 0, mp_batchSlot = 0\<rparr>) (\<lambda>bs.
      if length bs \<noteq> 448 then Inl (newError ''serializePayload length drift'') else Inr ()))"

lemma assertPayloadLayout_ok: "assertPayloadLayout = Inr ()"
  by (simp add: assertPayloadLayout_def serializePayload_eq payload_lengths_def length_payload_bytes Let_def)

text \<open>\<open>data.subarray(0, 8).every((b, i) => b === disc[i])\<close>.\<close>

definition has_disc :: "bytes \<Rightarrow> bytes \<Rightarrow> bool" where
  "has_disc data disc \<longleftrightarrow> (\<forall>i < length (take 8 data). i < length disc \<and> data ! i = disc ! i)"

definition DEPOSIT_TOKEN_MINT_IX_INDEX :: nat where
  "DEPOSIT_TOKEN_MINT_IX_INDEX = 2"

definition undefined_error :: "string \<Rightarrow> js_error" where
  "undefined_error member = JsError ''TypeError'' (''Cannot read properties of undefined (reading '' @ member @ '')'')"

definition pushDepositLeafAsync :: "lib \<Rightarrow> bytes list \<Rightarrow> bytes \<Rightarrow> pubkey option list \<Rightarrow> js_error + bytes list" where
  "pushDepositLeafAsync L leaves data ixAccountKeys =
     (if length data < 8 + 8 + 32 + 32 + 32 then Inr leaves
      else if \<not> has_disc data (DEPOSIT_DISC L) then Inr leaves
      else
        rbind (getBigUint64 data 8) (\<lambda>amount.
        let owner = slice data 16 32; nonce = slice data 48 32; blindingR = slice data 80 32 in
        if DEPOSIT_TOKEN_MINT_IX_INDEX \<ge> length ixAccountKeys then Inr leaves
        else
          case ixAccountKeys ! DEPOSIT_TOKEN_MINT_IX_INDEX of
            None \<Rightarrow> Inl (undefined_error ''toBytes'')
          | Some k \<Rightarrow>
              rbind (noteCommitment L \<lparr>nt_tokenMint = toBytes k, nt_amount = amount,
                nt_ownerCommitment = be_to_int owner, nt_nonce = be_to_int nonce,
                nt_blindingR = be_to_int blindingR\<rparr>) (\<lambda>c. Inr (leaves @ [c]))))"

definition processIxDataAsync :: "lib \<Rightarrow> bytes list \<Rightarrow> bytes \<Rightarrow> pubkey option list \<Rightarrow> js_error + bytes list" where
  "processIxDataAsync L leaves data ixAccountKeys =
     (if length data \<ge> 8 \<and> has_disc data (DEPOSIT_DISC L)
      then pushDepositLeafAsync L leaves data ixAccountKeys
      else if length data \<ge> 8 \<and> has_disc data (SETTLE_DISC L)
      then pushSettleLeaves leaves (drop 8 data)
      else Inr leaves)"

section \<open>Transactions\<close>

record compiled_ix =
  ci_programIdIndex :: nat
  ci_accountKeyIndexes :: "nat list"
  ci_data :: bytes

text \<open>Inner instructions: compiled, with base58 text or bytes as data, or in the parsed shape.\<close>

datatype inner_ix =
    CompiledInner nat "string + bytes" "nat list option"
  | ParsedInner "string option" "string option" "string list option"

record tx_meta =
  tm_err :: bool
  tm_loadedAddresses :: "(pubkey list \<times> pubkey list) option"
  tm_innerInstructions :: "(nat \<times> inner_ix list) list option"

record tx_response =
  tx_staticAccountKeys :: "pubkey list"
  tx_compiledInstructions :: "compiled_ix list"
  tx_metadata :: "tx_meta option"

record decoders =
  bs58_decode :: "string \<Rightarrow> js_error + bytes"
  publicKeyOf :: "string option \<Rightarrow> js_error + pubkey"

record 'w connection =
  cn_getTransaction :: "string \<Rightarrow> ('w, js_error, tx_response option) io"
  cn_getSignaturesForAddress :: "pubkey \<Rightarrow> nat \<Rightarrow> string option \<Rightarrow> ('w, js_error, string list) io"

definition resolveAccountKeys :: "tx_response \<Rightarrow> pubkey list" where
  "resolveAccountKeys tx =
     (case tx_metadata tx of
        None \<Rightarrow> tx_staticAccountKeys tx
      | Some m \<Rightarrow> (case tm_loadedAddresses m of
          None \<Rightarrow> tx_staticAccountKeys tx
        | Some (wr, ro) \<Rightarrow> tx_staticAccountKeys tx @ wr @ ro))"

definition key_at :: "pubkey list \<Rightarrow> nat \<Rightarrow> pubkey option" where
  "key_at keys i = (if i < length keys then Some (keys ! i) else None)"

text \<open>Data, program and account keys of an inner instruction.\<close>

type_synonym ix_part = "bytes \<times> pubkey option \<times> pubkey option list"

definition inner_part :: "decoders \<Rightarrow> pubkey list \<Rightarrow> inner_ix \<Rightarrow> js_error + ix_part" where
  "inner_part D keys ixi =
     (case ixi of
        CompiledInner pidIdx d accts \<Rightarrow>
          rbind (case d of Inl s \<Rightarrow> bs58_decode D s | Inr bs \<Rightarrow> Inr bs) (\<lambda>raw.
          Inr (raw, key_at keys pidIdx,
               map (key_at keys) (case accts of None \<Rightarrow> [] | Some is \<Rightarrow> is)))
      | ParsedInner pidStr d accts \<Rightarrow>
          rbind (publicKeyOf D pidStr) (\<lambda>pid.
          rbind (case d of None \<Rightarrow> Inr [] | Some s \<Rightarrow> if s = [] then Inr [] else bs58_decode D s) (\<lambda>raw.
          rbind (rmapM (\<lambda>s. publicKeyOf D (Some s)) (case accts of None \<Rightarrow> [] | Some ss \<Rightarrow> ss)) (\<lambda>ks.
          Inr (raw, Some pid, map Some ks)))))"

definition walkIx :: "lib \<Rightarrow> pubkey \<Rightarrow> nat \<Rightarrow> bytes list \<Rightarrow> ix_part \<Rightarrow> js_error + bytes list" where
  "walkIx L vaultProgramId cap leaves part =
     (case part of (data, programId, ixAccountKeys) \<Rightarrow>
        if length leaves \<ge> cap then Inr leaves
        else case programId of
            None \<Rightarrow> Inl (undefined_error ''equals'')
          | Some p \<Rightarrow> if p \<noteq> vaultProgramId then Inr leaves
              else processIxDataAsync L leaves data ixAccountKeys)"

fun walk_inners :: "lib \<Rightarrow> decoders \<Rightarrow> pubkey \<Rightarrow> nat \<Rightarrow> pubkey list \<Rightarrow> inner_ix list \<Rightarrow> bytes list \<Rightarrow> js_error + bytes list" where
  "walk_inners L D vp cap keys [] leaves = Inr leaves"
| "walk_inners L D vp cap keys (ixi # rest) leaves =
     (if length leaves \<ge> cap then Inr leaves
      else rbind (inner_part D keys ixi) (\<lambda>part.
           rbind (walkIx L vp cap leaves part) (walk_inners L D vp cap keys rest)))"

definition top_part :: "pubkey list \<Rightarrow> compiled_ix \<Rightarrow> ix_part" where
  "top_part keys ix = (ci_data ix, key_at keys (ci_programIdIndex ix), map (key_at keys) (ci_accountKeyIndexes ix))"

fun walk_tops :: "lib \<Rightarrow> decoders \<Rightarrow> pubkey \<Rightarrow> nat \<Rightarrow> pubkey list \<Rightarrow> (nat \<Rightarrow> inner_ix list option)
    \<Rightarrow> nat \<Rightarrow> compiled_ix list \<Rightarrow> bytes list \<Rightarrow> js_error + bytes list" where
  "walk_tops L D vp cap keys innerByTop ti [] leaves = Inr leaves"
| "walk_tops L D vp cap keys innerByTop ti (ix # rest) leaves =
     (if length leaves \<ge> cap then Inr leaves
      else rbind (walkIx L vp cap leaves (top_part keys ix)) (\<lambda>l.
           rbind (case innerByTop ti of None \<Rightarrow> Inr l | Some ins \<Rightarrow> walk_inners L D vp cap keys ins l)
             (walk_tops L D vp cap keys innerByTop (Suc ti) rest)))"

text \<open>The map of inner instructions: a later group for the same index replaces an earlier one.\<close>

definition inner_by_top :: "tx_response \<Rightarrow> nat \<Rightarrow> inner_ix list option" where
  "inner_by_top tx = map_of (rev (case tx_metadata tx of None \<Rightarrow> []
      | Some m \<Rightarrow> (case tm_innerInstructions m of None \<Rightarrow> [] | Some gs \<Rightarrow> gs)))"

definition tx_failed :: "tx_response \<Rightarrow> bool" where
  "tx_failed tx = (case tx_metadata tx of None \<Rightarrow> False | Some m \<Rightarrow> tm_err m)"

definition walkTransactionOrdered :: "lib \<Rightarrow> decoders \<Rightarrow> 'w connection \<Rightarrow> string \<Rightarrow> pubkey \<Rightarrow> bytes list \<Rightarrow> nat
    \<Rightarrow> ('w, js_error, bytes list) io" where
  "walkTransactionOrdered L D conn sig vp leaves cap =
     io_bind (cn_getTransaction conn sig) (\<lambda>r.
       case r of None \<Rightarrow> io_return leaves
       | Some tx \<Rightarrow>
           if tx_failed tx then io_return leaves
           else io_of (walk_tops L D vp cap (resolveAccountKeys tx) (inner_by_top tx) 0
                  (tx_compiledInstructions tx) leaves))"

section \<open>The replay\<close>

definition RPC_SIG_PAGE_LIMIT :: nat where
  "RPC_SIG_PAGE_LIMIT = 1000"

text \<open>The paging loop. Every page that does not end it is not empty, so it ends.\<close>

function signatures_loop :: "'w connection \<Rightarrow> pubkey \<Rightarrow> nat \<Rightarrow> string list \<Rightarrow> string option \<Rightarrow> 'w
    \<Rightarrow> (js_error + string list) \<times> 'w" where
  "signatures_loop conn vp hardCap out before w =
     (if length out < hardCap then
        let remaining = min RPC_SIG_PAGE_LIMIT (hardCap - length out)
        in case cn_getSignaturesForAddress conn vp remaining before w of
             (Inl e, w') \<Rightarrow> (Inl e, w')
           | (Inr page, w') \<Rightarrow>
               if page = [] then (Inr out, w')
               else if length page < remaining then (Inr (out @ page), w')
               else signatures_loop conn vp hardCap (out @ page) (Some (last page)) w'
      else (Inr out, w))"
  by pat_completeness auto
termination
  by (relation "measure (\<lambda>(conn, vp, cap, out, before, w). cap - length out)")
    (auto simp: neq_Nil_conv)

declare signatures_loop.simps [simp del]

definition fetchSignaturesPaginated :: "'w connection \<Rightarrow> pubkey \<Rightarrow> nat \<Rightarrow> ('w, js_error, string list) io" where
  "fetchSignaturesPaginated conn vp hardCap = signatures_loop conn vp hardCap [] None"

fun replay_loop :: "lib \<Rightarrow> decoders \<Rightarrow> 'w connection \<Rightarrow> pubkey \<Rightarrow> nat \<Rightarrow> string list \<Rightarrow> bytes list
    \<Rightarrow> ('w, js_error, bytes list) io" where
  "replay_loop L D conn vp target [] leaves = io_return leaves"
| "replay_loop L D conn vp target (sig # rest) leaves =
     (if length leaves \<ge> target then io_return leaves
      else io_bind (walkTransactionOrdered L D conn sig vp leaves target)
             (replay_loop L D conn vp target rest))"

definition collectVaultLeavesOrdered :: "lib \<Rightarrow> decoders \<Rightarrow> 'w connection \<Rightarrow> pubkey \<Rightarrow> nat \<Rightarrow> nat option
    \<Rightarrow> ('w, js_error, bytes list) io" where
  "collectVaultLeavesOrdered L D conn vp targetCount maxSignatures =
     (let maxSig = (case maxSignatures of Some m \<Rightarrow> m | None \<Rightarrow> 10000) in
      io_bind (fetchSignaturesPaginated conn vp maxSig) (\<lambda>sigs.
      if length sigs = 0
      then io_throw (newError (''no vault program signatures '' @ [char_of (226 :: nat), char_of (128 :: nat), char_of (148 :: nat)]
             @ '' cannot replay Merkle history''))
      else
        io_bind (replay_loop L D conn vp targetCount (rev sigs) []) (\<lambda>leaves.
        if length leaves \<noteq> targetCount
        then io_throw (newError (''Merkle replay incomplete: parsed '' @ nat_toString (length leaves)
               @ '' leaves, vault expects '' @ nat_toString targetCount @ ''. Scanned ''
               @ nat_toString (length sigs) @ '' vault signatures. Try raising maxSignatures (default 10000) or reset devnet vault.''))
        else io_return leaves)))"

section \<open>What the program did\<close>

text \<open>The effect of an executed instruction on the leaves of the vault: another program has none;
  \<open>deposit\<close> appends the commitment of the note in its data and accounts, \<open>tee_forced_settle\<close> the
  leaves of its payload, \<open>reset_merkle_tree\<close> drops all leaves, the other instructions of the vault
  leave them alone.\<close>

datatype effect = Appended "bytes list" | ResetLeaves

definition RESET_DISC :: "lib \<Rightarrow> bytes" where
  "RESET_DISC L = anchorDiscriminator L ''reset_merkle_tree''"

inductive executed :: "lib \<Rightarrow> pubkey \<Rightarrow> ix_part \<Rightarrow> effect \<Rightarrow> bool" for L vp where
  other_program: "p \<noteq> vp \<Longrightarrow> executed L vp (data, Some p, keys) (Appended [])"
| deposit: "length args = 104 \<Longrightarrow> 2 < length keys \<Longrightarrow> keys ! 2 = Some mint \<Longrightarrow>
     noteCommitment L \<lparr>nt_tokenMint = toBytes mint, nt_amount = le_to_int (slice args 0 8),
       nt_ownerCommitment = be_to_int (slice args 8 32), nt_nonce = be_to_int (slice args 40 32),
       nt_blindingR = be_to_int (slice args 72 32)\<rparr> = Inr c \<Longrightarrow>
     executed L vp (DEPOSIT_DISC L @ args, Some vp, keys) (Appended [c])"
| settle: "serializePayload p = Inr args \<Longrightarrow>
     executed L vp (SETTLE_DISC L @ args, Some vp, keys) (Appended (settle_leaves p))"
| reset: "executed L vp (RESET_DISC L @ args, Some vp, keys) ResetLeaves"
| other: "length disc = 8 \<Longrightarrow> disc \<notin> {DEPOSIT_DISC L, SETTLE_DISC L, RESET_DISC L} \<Longrightarrow>
     executed L vp (disc @ args, Some vp, keys) (Appended [])"

primrec appended :: "effect \<Rightarrow> bytes list" where
  "appended (Appended ls) = ls"
| "appended ResetLeaves = []"

definition ever_appended :: "effect list \<Rightarrow> bytes list" where
  "ever_appended effs = concat (map appended effs)"

fun vault_leaves :: "effect list \<Rightarrow> bytes list \<Rightarrow> bytes list" where
  "vault_leaves [] xs = xs"
| "vault_leaves (Appended ls # es) xs = vault_leaves es (xs @ ls)"
| "vault_leaves (ResetLeaves # es) xs = vault_leaves es []"

lemma vault_leaves_no_reset: "ResetLeaves \<notin> set effs \<Longrightarrow> vault_leaves effs xs = xs @ ever_appended effs"
  by (induction effs xs rule: vault_leaves.induct) (auto simp: ever_appended_def)

lemma vault_leaves_append: "vault_leaves (es @ fs) xs = vault_leaves fs (vault_leaves es xs)"
  by (induction es xs rule: vault_leaves.induct) simp_all

definition discs_distinct :: "lib \<Rightarrow> bool" where
  "discs_distinct L \<longleftrightarrow> DEPOSIT_DISC L \<noteq> SETTLE_DISC L \<and> DEPOSIT_DISC L \<noteq> RESET_DISC L \<and> SETTLE_DISC L \<noteq> RESET_DISC L"

lemma length_discs [simp]: "length (DEPOSIT_DISC L) = 8" "length (SETTLE_DISC L) = 8" "length (RESET_DISC L) = 8"
  by (simp_all add: DEPOSIT_DISC_def SETTLE_DISC_def RESET_DISC_def anchorDiscriminator_def)

lemma has_disc_append: "length d = 8 \<Longrightarrow> length e = 8 \<Longrightarrow> has_disc (d @ args) e \<longleftrightarrow> d = e"
  by (auto simp: has_disc_def nth_append list_eq_iff_nth_eq)

lemma push_settle:
  assumes "serializePayload p = Inr args"
  shows "pushSettleLeaves leaves args = Inr (leaves @ settle_leaves p)"
proof -
  have len: "payload_lengths p" using assms by (rule serializePayload_Inr)
  then have a: "args = payload_bytes p" using assms serializePayload_eq by auto
  have n: "length (mp_noteEcommitment p) = 32" "length (mp_noteFcommitment p) = 32" "length (mp_noteFeeCommitment p) = 32"
    using len by (simp_all add: payload_lengths_def)
  have "slice args 80 32 = mp_noteCcommitment p" "slice args 112 32 = mp_noteDcommitment p"
      "slice args 144 32 = mp_noteEcommitment p" "slice args 176 32 = mp_noteFcommitment p"
      "slice args 352 32 = mp_noteFeeCommitment p"
    using len by (simp_all add: a payload_bytes_def payload_lengths_def wire_simps)
  then show ?thesis
    using length_payload_bytes [OF len] n
    by (simp add: pushSettleLeaves_def a settle_leaves_def isZero32_def isZero_iff Let_def)
qed

text \<open>The walker reads every effect but a reset, which it does not know.\<close>

lemma walkIx_executed:
  assumes "executed L vp part eff" and "discs_distinct L" and "length leaves < cap"
  shows "walkIx L vp cap leaves part = Inr (leaves @ appended eff)"
  using assms(1)
proof cases
  case (deposit args keys mint c)
  have s: "slice (DEPOSIT_DISC L @ args) 16 32 = slice args 8 32" "slice (DEPOSIT_DISC L @ args) 48 32 = slice args 40 32"
      "slice (DEPOSIT_DISC L @ args) 80 32 = slice args 72 32"
    by (simp_all add: slice_append_skip)
  have "getBigUint64 (DEPOSIT_DISC L @ args) 8 = Inr (le_to_int (slice args 0 8))"
    using deposit(3) getBigUint64_skip [of "DEPOSIT_DISC L" 8 args] by (simp add: getBigUint64_ok)
  then show ?thesis
    using deposit assms(3) s
    by (simp add: walkIx_def processIxDataAsync_def has_disc_append pushDepositLeafAsync_def
        DEPOSIT_TOKEN_MINT_IX_INDEX_def)
next
  case (settle p args keys)
  then show ?thesis
    using assms(2,3) by (simp add: walkIx_def processIxDataAsync_def has_disc_append discs_distinct_def push_settle not_sym)
next
  case (reset args keys)
  then show ?thesis
    using assms(2,3) by (simp add: walkIx_def processIxDataAsync_def has_disc_append discs_distinct_def not_sym)
next
  case (other disc args keys)
  then show ?thesis using assms(3) by (simp add: walkIx_def processIxDataAsync_def has_disc_append)
qed (use assms(3) in \<open>simp add: walkIx_def\<close>)

section \<open>The walk over a transaction\<close>

text \<open>The instructions of a transaction in execution order, each top-level one before its inner ones.\<close>

fun tx_parts_from :: "decoders \<Rightarrow> pubkey list \<Rightarrow> (nat \<Rightarrow> inner_ix list option) \<Rightarrow> nat \<Rightarrow> compiled_ix list
    \<Rightarrow> js_error + ix_part list" where
  "tx_parts_from D keys innerByTop ti [] = Inr []"
| "tx_parts_from D keys innerByTop ti (ix # rest) =
     rbind (rmapM (inner_part D keys) (case innerByTop ti of None \<Rightarrow> [] | Some ins \<Rightarrow> ins)) (\<lambda>ps.
     rbind (tx_parts_from D keys innerByTop (Suc ti) rest) (\<lambda>qs. Inr (top_part keys ix # ps @ qs)))"

definition tx_parts :: "decoders \<Rightarrow> tx_response \<Rightarrow> js_error + ix_part list" where
  "tx_parts D tx = tx_parts_from D (resolveAccountKeys tx) (inner_by_top tx) 0 (tx_compiledInstructions tx)"

text \<open>The walk over instructions already decoded.\<close>

primrec walk_parts :: "lib \<Rightarrow> pubkey \<Rightarrow> nat \<Rightarrow> ix_part list \<Rightarrow> bytes list \<Rightarrow> js_error + bytes list" where
  "walk_parts L vp cap [] leaves = Inr leaves"
| "walk_parts L vp cap (x # xs) leaves =
     (if length leaves \<ge> cap then Inr leaves else rbind (walkIx L vp cap leaves x) (walk_parts L vp cap xs))"

lemma walk_parts_full: "length leaves \<ge> cap \<Longrightarrow> walk_parts L vp cap xs leaves = Inr leaves"
  by (cases xs) simp_all

lemma walk_parts_append:
  "walk_parts L vp cap (xs @ ys) leaves = rbind (walk_parts L vp cap xs leaves) (walk_parts L vp cap ys)"
proof (induction xs arbitrary: leaves)
  case (Cons x xs)
  then show ?case
    by (cases "walkIx L vp cap leaves x") (simp_all add: walk_parts_full)
qed simp

lemma walk_inners_parts:
  "rmapM (inner_part D keys) ins = Inr ps \<Longrightarrow>
     walk_inners L D vp cap keys ins leaves = walk_parts L vp cap ps leaves"
proof (induction ins arbitrary: ps leaves)
  case (Cons i ins)
  then obtain p qs where p: "inner_part D keys i = Inr p" "rmapM (inner_part D keys) ins = Inr qs" "ps = p # qs"
    by (auto simp: rbind_eq_Inr)
  then have "walk_inners L D vp cap keys ins = walk_parts L vp cap qs" using Cons.IH by blast
  then show ?case using p by simp
qed simp

lemma walk_tops_parts:
  "tx_parts_from D keys inner ti ixs = Inr parts \<Longrightarrow>
     walk_tops L D vp cap keys inner ti ixs leaves = walk_parts L vp cap parts leaves"
proof (induction ixs arbitrary: ti parts leaves)
  case (Cons ix ixs)
  then obtain ps qs where ps: "rmapM (inner_part D keys) (case inner ti of None \<Rightarrow> [] | Some ins \<Rightarrow> ins) = Inr ps"
      and qs: "tx_parts_from D keys inner (Suc ti) ixs = Inr qs" and parts: "parts = top_part keys ix # ps @ qs"
    by (auto simp: rbind_eq_Inr)
  have "(case inner ti of None \<Rightarrow> Inr l | Some ins \<Rightarrow> walk_inners L D vp cap keys ins l) = walk_parts L vp cap ps l" for l
    using ps walk_inners_parts by (cases "inner ti") auto
  moreover have "walk_tops L D vp cap keys inner (Suc ti) ixs = walk_parts L vp cap qs" using Cons.IH [OF qs] by blast
  moreover have "walk_parts L vp cap (ps @ qs) = (\<lambda>l. rbind (walk_parts L vp cap ps l) (walk_parts L vp cap qs))"
    by (rule ext) (rule walk_parts_append)
  ultimately show ?case by (simp add: parts)
qed simp

lemma ever_appended_simps [simp]:
  "ever_appended [] = []" "ever_appended (e # es) = appended e @ ever_appended es"
  "ever_appended (es @ fs) = ever_appended es @ ever_appended fs"
  by (simp_all add: ever_appended_def)

text \<open>The leaves read after the effects \<open>effs\<close>: those of the shortest prefix of the effects that
  reaches the cap, or of all of them.\<close>

definition read_upto :: "nat \<Rightarrow> effect list \<Rightarrow> bytes list \<Rightarrow> bool" where
  "read_upto cap effs l \<longleftrightarrow> (\<exists>es fs. effs = es @ fs \<and> l = ever_appended es \<and> (fs = [] \<or> cap \<le> length l)
     \<and> (es = [] \<or> length (ever_appended (butlast es)) < cap))"

lemma read_upto_Nil: "read_upto cap [] []"
  by (simp add: read_upto_def)

lemma read_upto_full: "read_upto cap effs l \<Longrightarrow> cap \<le> length l \<Longrightarrow> read_upto cap (effs @ fs) l"
  unfolding read_upto_def by (metis append.assoc)

lemma read_upto_step:
  assumes "read_upto cap effs l" and "length l < cap"
  shows "read_upto cap (effs @ [e]) (l @ appended e)"
proof -
  have "l = ever_appended effs" using assms by (auto simp: read_upto_def)
  then show ?thesis using assms(2) unfolding read_upto_def by (intro exI [of _ "effs @ [e]"] exI [of _ "[]"]) simp
qed

lemma read_upto_boundary:
  assumes "read_upto (length (ever_appended before)) (before @ rest) l"
  shows "l = ever_appended before"
proof -
  let ?n = "length (ever_appended before)"
  obtain es fs where e: "before @ rest = es @ fs" "l = ever_appended es" "fs = [] \<or> ?n \<le> length l"
      "es = [] \<or> length (ever_appended (butlast es)) < ?n"
    using assms by (auto simp: read_upto_def)
  from e(1) obtain g where "before = es @ g \<or> es = before @ g"
    by (auto simp: append_eq_append_conv2)
  then show ?thesis
  proof
    assume "before = es @ g"
    then show ?thesis using e by auto
  next
    assume g: "es = before @ g"
    then have "g = []"
    proof (rule contrapos_pp)
      assume "g \<noteq> []"
      then have "length (ever_appended (butlast (before @ g))) \<ge> ?n" by (simp add: butlast_append)
      with e(4) \<open>g \<noteq> []\<close> show "es \<noteq> before @ g" by auto
    qed
    with g e(2) show ?thesis by simp
  qed
qed

lemma walk_parts_executed:
  assumes "discs_distinct L"
  shows "list_all2 (executed L vp) parts effs \<Longrightarrow> read_upto cap prev leaves \<Longrightarrow>
     \<exists>l. walk_parts L vp cap parts leaves = Inr l \<and> read_upto cap (prev @ effs) l"
proof (induction parts effs arbitrary: prev leaves rule: list_all2_induct)
  case (Cons x xs e es)
  show ?case
  proof (cases "length leaves < cap")
    case True
    from Cons.IH [OF read_upto_step [OF Cons.prems True, of e]]
    show ?thesis using True walkIx_executed [OF Cons.hyps(1) assms True] by simp
  next
    case False
    then show ?thesis using Cons.prems by (auto intro: read_upto_full)
  qed
qed simp

section \<open>The replay of a history\<close>

text \<open>A history is the list of the vault's transactions, oldest first, with their signatures. A
  transaction that failed had no effect.\<close>

type_synonym history = "(string \<times> tx_response) list"

definition tx_executed :: "lib \<Rightarrow> decoders \<Rightarrow> pubkey \<Rightarrow> tx_response \<Rightarrow> effect list \<Rightarrow> bool" where
  "tx_executed L D vp tx effs \<longleftrightarrow>
     (if tx_failed tx then effs = []
      else \<exists>parts. tx_parts D tx = Inr parts \<and> list_all2 (executed L vp) parts effs)"

text \<open>The RPC serves a history: transactions by signature, signatures newest first, starting after
  the one given as \<open>before\<close>.\<close>

definition older_than :: "string option \<Rightarrow> string list \<Rightarrow> string list" where
  "older_than before sigs = (case before of None \<Rightarrow> sigs | Some b \<Rightarrow> tl (dropWhile (\<lambda>s. s \<noteq> b) sigs))"

definition serves_history :: "'w connection \<Rightarrow> pubkey \<Rightarrow> history \<Rightarrow> bool" where
  "serves_history conn vp chain \<longleftrightarrow> distinct (map fst chain)
     \<and> (\<forall>sig w. cn_getTransaction conn sig w = (Inr (map_of chain sig), w))
     \<and> (\<forall>limit before w. cn_getSignaturesForAddress conn vp limit before w
          = (Inr (take limit (older_than before (rev (map fst chain)))), w))"

lemma dropWhile_neq_nth:
  "distinct xs \<Longrightarrow> j < length xs \<Longrightarrow> dropWhile (\<lambda>s. s \<noteq> xs ! j) xs = drop j xs"
proof (induction xs arbitrary: j)
  case (Cons x xs)
  then show ?case by (cases j) auto
qed simp

lemma older_than_take:
  assumes "distinct xs" and "0 < k" and "k \<le> length xs"
  shows "older_than (Some (last (take k xs))) xs = drop k xs"
proof -
  obtain j where j: "k = Suc j" "j < length xs" using assms by (cases k) auto
  have "last (take k xs) = xs ! j" using j by (simp add: take_Suc_conv_app_nth)
  moreover have "dropWhile (\<lambda>s. s \<noteq> xs ! j) xs = drop j xs"
    using assms(1) j(2) by (rule dropWhile_neq_nth)
  ultimately show ?thesis using j by (simp add: older_than_def drop_Suc tl_drop)
qed

lemma serves_signatures:
  "serves_history conn vp chain \<Longrightarrow> cn_getSignaturesForAddress conn vp limit before w
     = (Inr (take limit (older_than before (rev (map fst chain)))), w)"
  by (simp add: serves_history_def)

lemma signatures_loop_step:
  "length out < cap \<Longrightarrow>
     cn_getSignaturesForAddress conn vp (min RPC_SIG_PAGE_LIMIT (cap - length out)) before w = (Inr page, w') \<Longrightarrow>
     signatures_loop conn vp cap out before w =
       (if page = [] then (Inr out, w')
        else if length page < min RPC_SIG_PAGE_LIMIT (cap - length out) then (Inr (out @ page), w')
        else signatures_loop conn vp cap (out @ page) (Some (last page)) w')"
  by (subst signatures_loop.simps) (simp add: Let_def)

lemma signatures_loop_eq:
  assumes "serves_history conn vp chain"
  defines "newest \<equiv> rev (map fst chain)"
  shows "k \<le> length newest \<Longrightarrow> k \<le> cap \<Longrightarrow> before = (if k = 0 then None else Some (last (take k newest))) \<Longrightarrow>
     signatures_loop conn vp cap (take k newest) before w = (Inr (take cap newest), w)"
proof (induction "cap - k" arbitrary: k before w rule: less_induct)
  case less
  have d: "distinct newest" using assms(1) by (simp add: newest_def serves_history_def)
  have old: "older_than before newest = drop k newest"
    using less.prems older_than_take [OF d] by (simp add: older_than_def)
  show ?case
  proof (cases "k < cap")
    case False
    then show ?thesis using less.prems by (subst signatures_loop.simps) simp
  next
    case True
    let ?r = "min RPC_SIG_PAGE_LIMIT (cap - k)"
    let ?page = "take ?r (drop k newest)"
    have r: "0 < ?r" using True by (simp add: RPC_SIG_PAGE_LIMIT_def)
    have more: "take k newest @ ?page = take (k + ?r) newest" by (simp add: take_add)
    have step: "signatures_loop conn vp cap (take k newest) before w =
        (if ?page = [] then (Inr (take k newest), w)
         else if length ?page < ?r then (Inr (take (k + ?r) newest), w)
         else signatures_loop conn vp cap (take (k + ?r) newest) (Some (last ?page)) w)"
      using signatures_loop_step [of "take k newest" cap conn vp before w ?page w] True less.prems(1) old
        serves_signatures [OF assms(1), of ?r before w] more
      by (simp only: newest_def [symmetric] length_take min_absorb2)
    show ?thesis
    proof (cases "k + ?r \<le> length newest")
      case True
      then have ne: "?page \<noteq> []" "length ?page = ?r" using r by auto
      have lst: "last ?page = last (take (k + ?r) newest)" using ne(1) by (simp flip: more)
      have "signatures_loop conn vp cap (take (k + ?r) newest) (Some (last ?page)) w = (Inr (take cap newest), w)"
        using True r \<open>k < cap\<close> by (intro less.hyps) (auto simp: lst)
      moreover have "\<not> length ?page < ?r" using ne(2) by (simp only: less_irrefl not_False_eq_True)
      ultimately show ?thesis using step by (simp only: ne(1) if_False)
    next
      case False
      then have short: "take (k + ?r) newest = take cap newest" using \<open>k < cap\<close> by simp
      show ?thesis
      proof (cases "?page = []")
        case True
        then have "take k newest = take cap newest" using r \<open>k < cap\<close> by simp
        with True step show ?thesis by simp
      next
        case False
        have "length newest - k < ?r" using \<open>\<not> k + ?r \<le> length newest\<close> r by linarith
        then have "length ?page < ?r" by (simp only: length_take length_drop min_less_iff_disj simp_thms)
        then show ?thesis using step False short by (simp only: if_False if_True)
      qed
    qed
  qed
qed

lemma fetchSignatures_eq:
  "serves_history conn vp chain \<Longrightarrow>
     fetchSignaturesPaginated conn vp cap w = (Inr (take cap (rev (map fst chain))), w)"
  using signatures_loop_eq [of conn vp chain 0 cap None w] by (simp add: fetchSignaturesPaginated_def)

lemma replay_loop_executed:
  assumes "discs_distinct L" and "serves_history conn vp chain"
  shows "list_all2 (\<lambda>(sig, tx). tx_executed L D vp tx) txs effss \<Longrightarrow> set txs \<subseteq> set chain \<Longrightarrow>
     read_upto target prev leaves \<Longrightarrow>
     \<exists>l. replay_loop L D conn vp target (map fst txs) leaves w = (Inr l, w)
        \<and> read_upto target (prev @ concat effss) l"
proof (induction txs effss arbitrary: prev leaves rule: list_all2_induct)
  case Nil
  then show ?case by (simp add: io_return_def)
next
  case (Cons x xs effs effss)
  obtain sig tx where x: "x = (sig, tx)" by fastforce
  have d: "distinct (map fst chain)" using assms(2) by (simp add: serves_history_def)
  have "map_of chain sig = Some tx" using Cons.prems(1) x d by simp
  then have get: "cn_getTransaction conn sig w = (Inr (Some tx), w)" using assms(2) by (simp add: serves_history_def)
  show ?case
  proof (cases "length leaves < target")
    case False
    then show ?thesis using Cons.prems(2) by (auto simp: io_return_def intro: read_upto_full)
  next
    case True
    have "\<exists>l. walkTransactionOrdered L D conn sig vp leaves target w = (Inr l, w)
        \<and> read_upto target (prev @ effs) l"
      using Cons.hyps(1) Cons.prems(2) walk_parts_executed [OF assms(1)]
      by (auto simp: walkTransactionOrdered_def io_bind_Inr [of "cn_getTransaction conn sig", OF get] tx_executed_def x tx_parts_def
          walk_tops_parts io_return_def io_of_def split: if_splits)
    then obtain l where l: "walkTransactionOrdered L D conn sig vp leaves target w = (Inr l, w)"
        "read_upto target (prev @ effs) l" by blast
    from Cons.IH [OF _ l(2)] Cons.prems(1) show ?thesis using True by (simp add: x io_bind_Inr [of "walkTransactionOrdered L D conn sig vp leaves target", OF l(1)])
  qed
qed

text \<open>The replay of an executed history reads a part of it.\<close>

lemma replay_executed:
  assumes "discs_distinct L" and "serves_history conn vp chain" and "chain \<noteq> []"
    and "length chain \<le> (case maxSig of Some m \<Rightarrow> m | None \<Rightarrow> 10000)"
    and "list_all2 (\<lambda>(sig, tx). tx_executed L D vp tx) chain effss"
  obtains r l where "collectVaultLeavesOrdered L D conn vp target maxSig w = (r, w)" and "read_upto target (concat effss) l"
    and "length l = target \<Longrightarrow> r = Inr l" and "length l \<noteq> target \<Longrightarrow> \<exists>e. r = Inl e"
proof -
  let ?cap = "case maxSig of Some m \<Rightarrow> m | None \<Rightarrow> 10000"
  have sigs: "fetchSignaturesPaginated conn vp ?cap w = (Inr (rev (map fst chain)), w)"
    using fetchSignatures_eq [OF assms(2)] assms(4) by simp
  obtain l where l: "replay_loop L D conn vp target (map fst chain) [] w = (Inr l, w)" "read_upto target (concat effss) l"
    using replay_loop_executed [OF assms(1,2,5) subset_refl read_upto_Nil, of target w] by auto
  define r where "r = fst (collectVaultLeavesOrdered L D conn vp target maxSig w)"
  have "collectVaultLeavesOrdered L D conn vp target maxSig w = (r, w)"
    and "length l = target \<Longrightarrow> r = Inr l" and "length l \<noteq> target \<Longrightarrow> \<exists>e. r = Inl e"
    using assms(3) l(1)
    by (auto simp: r_def collectVaultLeavesOrdered_def Let_def io_bind_Inr [of "fetchSignaturesPaginated conn vp ?cap", OF sigs]
        io_bind_Inr rev_map io_return_def io_throw_def)
  with l(2) show ?thesis using that by blast
qed

lemma replay_vault_leaves:
  assumes "discs_distinct L" and "serves_history conn vp chain" and "chain \<noteq> []"
    and "length chain \<le> (case maxSig of Some m \<Rightarrow> m | None \<Rightarrow> 10000)"
    and "list_all2 (\<lambda>(sig, tx). tx_executed L D vp tx) chain effss"
    and "ResetLeaves \<notin> set (concat effss)" and "target = length (vault_leaves (concat effss) [])"
  shows "collectVaultLeavesOrdered L D conn vp target maxSig w = (Inr (vault_leaves (concat effss) []), w)"
proof (rule replay_executed [OF assms(1-5), of target w])
  fix r l
  assume run: "collectVaultLeavesOrdered L D conn vp target maxSig w = (r, w)" "read_upto target (concat effss) l"
    and ok: "length l = target \<Longrightarrow> r = Inr l"
  have n: "vault_leaves (concat effss) [] = ever_appended (concat effss)" using assms(6) by (simp add: vault_leaves_no_reset)
  then have "l = ever_appended (concat effss)"
    using read_upto_boundary [of "concat effss" "[]" l] run(2) assms(7) by simp
  then show ?thesis using run(1) ok assms(7) n by simp
qed

text \<open>(C6) The replay of the vault's history. When the RPC serves a history whose transactions were
  executed with the effects \<open>effss\<close>, all of it within the limit on signatures, the replay ends, and
  whatever it returns has the requested length. If the requested count is that of the leaves
  appended by some initial part of the history, it returns those. So without a reset of the tree
  the replay gives exactly the leaves of the vault. But a reset is not seen: the leaves appended
  before it count, and are returned in place of the vault's.\<close>

theorem replay_recovers_leaves:
  assumes "discs_distinct L" and "serves_history conn vp chain" and "chain \<noteq> []"
    and "length chain \<le> (case maxSig of Some m \<Rightarrow> m | None \<Rightarrow> 10000)"
    and "list_all2 (\<lambda>(sig, tx). tx_executed L D vp tx) chain effss"
  shows "\<exists>r. collectVaultLeavesOrdered L D conn vp target maxSig w = (r, w)
     \<and> (\<forall>xs. r = Inr xs \<longrightarrow> length xs = target)
     \<and> (\<forall>before after. concat effss = before @ after \<and> target = length (ever_appended before)
          \<longrightarrow> r = Inr (ever_appended before))
     \<and> (ResetLeaves \<notin> set (concat effss) \<and> target = length (vault_leaves (concat effss) [])
          \<longrightarrow> r = Inr (vault_leaves (concat effss) []))"
proof (rule replay_executed [OF assms, of target w])
  fix r l
  assume run: "collectVaultLeavesOrdered L D conn vp target maxSig w = (r, w)" and l: "read_upto target (concat effss) l"
    and ok: "length l = target \<Longrightarrow> r = Inr l" and no: "length l \<noteq> target \<Longrightarrow> \<exists>e. r = Inl e"
  have bd: "r = Inr (ever_appended before)" if "concat effss = before @ after" "target = length (ever_appended before)" for before after
    using read_upto_boundary [of before after l] l ok that by simp
  moreover have "r = Inr (vault_leaves (concat effss) [])"
    if "ResetLeaves \<notin> set (concat effss)" "target = length (vault_leaves (concat effss) [])"
    using bd [of "concat effss" "[]"] that by (simp add: vault_leaves_no_reset)
  moreover have "length xs = target" if "r = Inr xs" for xs using that ok no by (cases "length l = target") auto
  ultimately show ?thesis using run by blast
qed

text \<open>A history of three transactions: a deposit, a reset of the tree, another deposit. The
  discriminators of \<open>disc_lib\<close> are the first eight letters of the instruction names.\<close>

definition disc_lib :: lib where
  "disc_lib = ref_lib \<lparr>sha256_digest := (\<lambda>m. bytes_to_word (slice (m @ zeros 64) 7 32))\<rparr>"

definition one_ix_tx :: "bytes \<Rightarrow> tx_response" where
  "one_ix_tx data = \<lparr>tx_staticAccountKeys = [9, 1, 2],
     tx_compiledInstructions = [\<lparr>ci_programIdIndex = 0, ci_accountKeyIndexes = [1, 0, 2], ci_data = data\<rparr>],
     tx_metadata = None\<rparr>"

definition no_decoders :: decoders where
  "no_decoders = \<lparr>bs58_decode = (\<lambda>s. Inr []), publicKeyOf = (\<lambda>s. Inr 0)\<rparr>"

definition reset_history :: "bytes \<Rightarrow> bytes \<Rightarrow> history" where
  "reset_history a b = [(''s1'', one_ix_tx (DEPOSIT_DISC disc_lib @ a)), (''s2'', one_ix_tx (RESET_DISC disc_lib)),
     (''s3'', one_ix_tx (DEPOSIT_DISC disc_lib @ b))]"

definition history_connection :: "history \<Rightarrow> unit connection" where
  "history_connection chain = \<lparr>
     cn_getTransaction = (\<lambda>sig w. (Inr (map_of chain sig), w)),
     cn_getSignaturesForAddress = (\<lambda>vp limit before w. (Inr (take limit (older_than before (rev (map fst chain)))), w))\<rparr>"

lemma disc_lib_discs: "discs_distinct disc_lib"
proof -
  have d: "anchorDiscriminator disc_lib n = take 8 (slice (utf8 (''global:'' @ n) @ zeros 64) 7 32)" for n
    by (simp add: anchorDiscriminator_def sha256_def disc_lib_def slice_def)
  show ?thesis by (simp add: discs_distinct_def DEPOSIT_DISC_def SETTLE_DISC_def RESET_DISC_def d utf8_def slice_def zeros_def)
qed

lemma one_ix_tx_executed:
  "executed L 9 (data, Some 9, [Some 1, Some 9, Some 2]) eff \<Longrightarrow> tx_executed L D 9 (one_ix_tx data) [eff]"
  by (simp add: tx_executed_def tx_failed_def one_ix_tx_def tx_parts_def inner_by_top_def top_part_def
      key_at_def resolveAccountKeys_def numeral_2_eq_2)

lemma deposit_executed:
  assumes "length args = 104"
  obtains c where "executed disc_lib 9 (DEPOSIT_DISC disc_lib @ args, Some 9, [Some 1, Some 9, Some 2]) (Appended [c])"
proof -
  let ?n = "\<lparr>nt_tokenMint = toBytes 2, nt_amount = le_to_int (slice args 0 8),
       nt_ownerCommitment = be_to_int (slice args 8 32), nt_nonce = be_to_int (slice args 40 32),
       nt_blindingR = be_to_int (slice args 72 32)\<rparr>"
  have "poseidon_canonical disc_lib" using ref_lib_canonical by (simp add: poseidon_canonical_def disc_lib_def)
  then obtain c where "noteCommitment disc_lib ?n = Inr c" by (rule noteCommitment_total [of disc_lib ?n]) simp_all
  then show ?thesis using assms that executed.deposit [of args "[Some 1, Some 9, Some 2]" 2 disc_lib c 9] by simp
qed

theorem replay_recovers_leaves_witness:
  "\<exists>a b x y. collectVaultLeavesOrdered disc_lib no_decoders (history_connection (reset_history a b)) 9 1 None ()
       = (Inr [x], ())
     \<and> vault_leaves [Appended [x], ResetLeaves, Appended [y]] [] = [y]"
proof -
  obtain x where x: "executed disc_lib 9 (DEPOSIT_DISC disc_lib @ zeros 104, Some 9, [Some 1, Some 9, Some 2]) (Appended [x])"
    by (rule deposit_executed [of "zeros 104"]) simp_all
  obtain y where y: "executed disc_lib 9 (DEPOSIT_DISC disc_lib @ (zeros 103 @ [1]), Some 9, [Some 1, Some 9, Some 2]) (Appended [y])"
    by (rule deposit_executed [of "zeros 103 @ [1]"]) simp_all
  have r: "executed disc_lib 9 (RESET_DISC disc_lib, Some 9, [Some 1, Some 9, Some 2]) ResetLeaves"
    using executed.reset [of disc_lib 9 "[]"] by simp
  let ?chain = "reset_history (zeros 104) (zeros 103 @ [1])" and ?effss = "[[Appended [x]], [ResetLeaves], [Appended [y]]]"
  have run: "list_all2 (\<lambda>(sig, tx). tx_executed disc_lib no_decoders 9 tx) ?chain ?effss"
    using x y r by (simp add: reset_history_def one_ix_tx_executed)
  have srv: "serves_history (history_connection ?chain) 9 ?chain"
    by (simp add: serves_history_def history_connection_def reset_history_def)
  have ne: "?chain \<noteq> []" "length ?chain \<le> (case None of Some m \<Rightarrow> m | None \<Rightarrow> 10000)"
    by (simp_all add: reset_history_def)
  from replay_recovers_leaves [OF disc_lib_discs srv ne run, of 1 "()"]
  obtain res where res: "collectVaultLeavesOrdered disc_lib no_decoders (history_connection ?chain) 9 1 None () = (res, ())"
      "\<forall>before after. concat ?effss = before @ after \<and> 1 = length (ever_appended before) \<longrightarrow> res = Inr (ever_appended before)"
    by (elim exE conjE) (rule that)
  have "res = Inr [x]" using res(2) [rule_format, of "[Appended [x]]" "[ResetLeaves, Appended [y]]"] by simp
  with res(1) show ?thesis by (intro exI [of _ "zeros 104"] exI [of _ "zeros 103 @ [1]"] exI [of _ x] exI [of _ y]) simp
qed

end
