(* ===== verification/Nyx_Decimals.thy ===== *)
theory Nyx_Decimals
  imports Nyx_Errors
begin

text \<open>
  \<open>apps/demo/src/lib/dapp/decimals.ts\<close>: conversion between human decimal amounts and atoms. An
  amount is a string, a number, given by its \<open>toString()\<close>, or a \<open>bigint\<close>. Characters are code
  points below 256; \<open>trim\<close> removes the white space among them. Proved: \<open>fromAtoms\<close> prints a text that
  \<open>toAtoms\<close> reads back as the same amount, and what \<open>formatAtoms\<close> prints.
\<close>

section \<open>Definitions\<close>

datatype amount = AmountString string | AmountNumber string | AmountBig int

definition is_space :: "char \<Rightarrow> bool" where
  "is_space c \<longleftrightarrow> (of_char c :: nat) \<in> {9, 10, 11, 12, 13, 32, 160}"

definition trim :: "string \<Rightarrow> string" where
  "trim s = rev (dropWhile is_space (rev (dropWhile is_space s)))"

text \<open>The regular expression \<open>^(-)?(\d+)(?:\.(\d+))?$\<close>: sign, integer digits, fraction digits.\<close>

definition amount_match :: "string \<Rightarrow> (bool \<times> string \<times> string option) option" where
  "amount_match raw =
     (let neg = (case raw of c # _ \<Rightarrow> c = CHR ''-'' | [] \<Rightarrow> False);
          rest = (if neg then tl raw else raw);
          intPart = takeWhile is_digit rest;
          after = dropWhile is_digit rest
      in if intPart = [] then None
         else case after of
             [] \<Rightarrow> Some (neg, intPart, None)
           | c # frac \<Rightarrow>
               if c = CHR ''.'' \<and> frac \<noteq> [] \<and> list_all is_digit frac then Some (neg, intPart, Some frac)
               else None)"

definition padEnd0 :: "nat \<Rightarrow> string \<Rightarrow> string" where
  "padEnd0 n s = s @ replicate (n - length s) (CHR ''0'')"

definition padStart0 :: "nat \<Rightarrow> string \<Rightarrow> string" where
  "padStart0 n s = replicate (n - length s) (CHR ''0'') @ s"

definition toAtoms :: "amount \<Rightarrow> nat \<Rightarrow> js_error + int" where
  "toAtoms human decimals =
     (case human of AmountBig v \<Rightarrow> Inr v
      | _ \<Rightarrow>
        let raw = (case human of AmountNumber s \<Rightarrow> s | AmountString s \<Rightarrow> trim s | AmountBig v \<Rightarrow> []);
            shown = (case human of AmountNumber s \<Rightarrow> s | AmountString s \<Rightarrow> s | AmountBig v \<Rightarrow> [])
        in if raw = [] then Inr 0
           else case amount_match raw of
               None \<Rightarrow> Inl (newError (''invalid amount: '' @ shown))
             | Some (neg, intPart, frac) \<Rightarrow>
                 let sign = (if neg then -1 else 1);
                     fracPart = (case frac of None \<Rightarrow> [] | Some f \<Rightarrow> f)
                 in if length fracPart > decimals
                    then Inl (newError (''amount '' @ [CHR 0x22] @ raw @ [CHR 0x22] @ '' has '' @ nat_toString (length fracPart)
                           @ '' fractional digits, but the mint only supports '' @ nat_toString decimals))
                    else Inr (sign * int (dec_val (intPart @ padEnd0 decimals fracPart))))"

definition strip_zeros :: "string \<Rightarrow> string" where
  "strip_zeros s = rev (dropWhile (\<lambda>c. c = CHR ''0'') (rev s))"

text \<open>\<open>fromAtoms\<close> on a \<open>bigint\<close>.\<close>

definition fromAtoms :: "int \<Rightarrow> nat \<Rightarrow> string" where
  "fromAtoms v decimals =
     (let neg = v < 0; a = nat \<bar>v\<bar>; sgn_txt = (if neg then ''-'' else [])
      in if decimals = 0 then sgn_txt @ nat_toString a
         else
           let s = padStart0 (decimals + 1) (nat_toString a);
               cut = length s - decimals;
               intPart = (if take cut s = [] then ''0'' else take cut s);
               fracPart = strip_zeros (drop cut s)
           in sgn_txt @ (if fracPart \<noteq> [] then intPart @ ''.'' @ fracPart else intPart))"

text \<open>\<open>BigInt(text).toLocaleString("en-US")\<close>: the digits in groups of three.\<close>

fun group3_rev :: "string \<Rightarrow> string" where
  "group3_rev (a # b # c # d # rest) = a # b # c # CHR '','' # group3_rev (d # rest)"
| "group3_rev s = s"

definition toLocaleString :: "int \<Rightarrow> string" where
  "toLocaleString v = (if v < 0 then ''-'' else []) @ rev (group3_rev (rev (nat_toString (nat \<bar>v\<bar>))))"

text \<open>\<open>BigInt(text)\<close> on an optional sign and digits.\<close>

definition BigInt_of :: "string \<Rightarrow> int" where
  "BigInt_of s = (if s \<noteq> [] \<and> hd s = CHR ''-'' then - int (dec_val (tl s)) else int (dec_val s))"

definition formatAtoms :: "int \<Rightarrow> nat \<Rightarrow> string" where
  "formatAtoms v decimals =
     (let raw = fromAtoms v decimals;
          intPart = takeWhile (\<lambda>c. c \<noteq> CHR ''.'') raw;
          fracPart = drop (length intPart + 1) raw;
          withCommas = toLocaleString (BigInt_of intPart)
      in if fracPart \<noteq> [] then withCommas @ ''.'' @ fracPart else withCommas)"

section \<open>Lemmas\<close>

lemma is_digit_simps [simp]:
  "is_digit (CHR ''0'')" "\<not> is_digit (CHR ''-'')" "\<not> is_digit (CHR ''.'')" "digit_val (CHR ''0'') = 0"
  by (simp_all add: is_digit_def digit_val_def)

lemma digit_not_space: "is_digit c \<Longrightarrow> \<not> is_space c"
  by (auto simp: is_digit_def is_space_def)

lemma dec_val_replicate0 [simp]: "dec_val (replicate n (CHR ''0'')) = 0"
proof (induction n)
  case (Suc n)
  have "dec_val (replicate (Suc n) (CHR ''0'')) = dec_val (replicate n (CHR ''0'') @ [CHR ''0''])"
    by (simp add: replicate_append_same)
  then show ?case using Suc by (simp add: dec_val_snoc)
qed simp

lemma dec_val_padStart0 [simp]: "dec_val (padStart0 n s) = dec_val s"
  by (simp add: padStart0_def dec_val_append)

lemma padStart0_digits: "list_all is_digit s \<Longrightarrow> list_all is_digit (padStart0 n s)"
  by (auto simp: padStart0_def list_all_iff)

lemma strip_zeros_ex: "\<exists>k. s = strip_zeros s @ replicate k (CHR ''0'')"
proof -
  let ?z = "takeWhile (\<lambda>c. c = CHR ''0'') (rev s)"
  have "?z = replicate (length ?z) (CHR ''0'')"
    by (rule replicate_eqI) (auto dest: set_takeWhileD)
  moreover have "s = strip_zeros s @ rev ?z"
    unfolding strip_zeros_def by (metis rev_append rev_rev_ident takeWhile_dropWhile_id)
  ultimately show ?thesis by (metis rev_replicate)
qed

lemma strip_zeros_pad: "length s = n \<Longrightarrow> padEnd0 n (strip_zeros s) = s"
proof -
  assume n: "length s = n"
  obtain k where k: "s = strip_zeros s @ replicate k (CHR ''0'')" using strip_zeros_ex by blast
  have "k = n - length (strip_zeros s)"
    using n arg_cong [OF k, of length] by simp
  then show ?thesis using k by (simp add: padEnd0_def)
qed

lemma strip_zeros_digits: "list_all is_digit s \<Longrightarrow> list_all is_digit (strip_zeros s)"
  unfolding strip_zeros_def list_all_iff by (auto dest: set_dropWhileD)

lemma length_strip_zeros: "length (strip_zeros s) \<le> length s"
  using length_dropWhile_le [of "\<lambda>c. c = CHR ''0''" "rev s"] by (simp add: strip_zeros_def)

text \<open>What the regular expression makes of a well-formed text.\<close>

lemma takeWhile_digits:
  assumes "list_all is_digit i" and "rest = [] \<or> \<not> is_digit (hd rest)"
  shows "takeWhile is_digit (i @ rest) = i" "dropWhile is_digit (i @ rest) = rest"
proof -
  have "takeWhile is_digit rest = []" "dropWhile is_digit rest = rest"
    using assms(2) by (cases rest; simp)+
  then show "takeWhile is_digit (i @ rest) = i" "dropWhile is_digit (i @ rest) = rest"
    using assms(1) by (simp_all add: list_all_iff takeWhile_append dropWhile_append)
qed

lemma amount_match_text:
  assumes "i \<noteq> []" and "list_all is_digit i" and "list_all is_digit f"
  shows "amount_match ((if neg then ''-'' else []) @ i @ (if f = [] then [] else ''.'' @ f))
     = Some (neg, i, if f = [] then None else Some f)"
proof -
  obtain a i' where i: "i = a # i'" using assms(1) by (cases i) auto
  have a: "a \<noteq> CHR ''-''"
  proof
    assume "a = CHR ''-''"
    with assms(2) i have "is_digit (CHR ''-'')" by simp
    then show False by simp
  qed
  have first: "(case i @ r of c # _ \<Rightarrow> c = CHR ''-'' | [] \<Rightarrow> False) = False" for r using i a by simp
  show ?thesis
  proof (cases "f = []")
    case True
    note w = takeWhile_digits [OF assms(2), of "[]", simplified append_Nil2]
    show ?thesis using True assms(1) first [of "[]"] by (cases neg) (simp_all add: amount_match_def Let_def w)
  next
    case False
    have "takeWhile is_digit (i @ CHR ''.'' # f) = i" "dropWhile is_digit (i @ CHR ''.'' # f) = CHR ''.'' # f"
      using takeWhile_digits [OF assms(2), of "CHR ''.'' # f"] by simp_all
    then show ?thesis using False assms(1,3) first [of "CHR ''.'' # f"] by (cases neg) (simp_all add: amount_match_def Let_def)
  qed
qed

lemma trim_id: "s = [] \<or> \<not> is_space (hd s) \<and> \<not> is_space (last s) \<Longrightarrow> trim s = s"
proof -
  assume s: "s = [] \<or> \<not> is_space (hd s) \<and> \<not> is_space (last s)"
  have "dropWhile is_space s = s" using s by (cases s) simp_all
  moreover have "dropWhile is_space (rev s) = rev s" using s by (cases s rule: rev_cases) simp_all
  ultimately show ?thesis by (simp add: trim_def)
qed

text \<open>The parts of the text \<open>fromAtoms\<close> prints.\<close>

definition atom_frac :: "nat \<Rightarrow> nat \<Rightarrow> string" where
  "atom_frac a d =
     (if d = 0 then [] else let s = padStart0 (d + 1) (nat_toString a) in strip_zeros (drop (length s - d) s))"

lemma take_nat_toString:
  "d < length (nat_toString a) \<Longrightarrow> take (length (nat_toString a) - d) (nat_toString a) = nat_toString (a div 10 ^ d)"
proof (induction d arbitrary: a)
  case (Suc d)
  have a: "\<not> a < 10"
  proof
    assume "a < 10"
    then have "length (nat_toString a) = 1" by (subst nat_toString.simps) simp
    with Suc.prems show False by simp
  qed
  then have s: "nat_toString a = nat_toString (a div 10) @ [digit_char (a mod 10)]" by (subst nat_toString.simps) simp
  have "take (length (nat_toString (a div 10)) - d) (nat_toString (a div 10)) = nat_toString (a div 10 div 10 ^ d)"
    using Suc.prems by (intro Suc.IH) (simp add: s)
  then show ?case by (simp add: s div_mult2_eq)
qed simp

lemma nat_toString_less: "length (nat_toString a) \<le> d \<Longrightarrow> a < 10 ^ d"
  using dec_val_bound [OF nat_toString_digits, of a] power_increasing [of "length (nat_toString a)" d "10 :: nat"]
  by (simp del: power_increasing_iff)

lemma nat_toString_0: "nat_toString 0 = ''0''"
  by code_simp

lemma int_digits:
  assumes "d \<noteq> 0"
  defines "s \<equiv> \<lambda>a. padStart0 (d + 1) (nat_toString a)"
  shows "take (length (s a) - d) (s a) = nat_toString (a div 10 ^ d)"
proof (cases "d < length (nat_toString a)")
  case True
  then have "s a = nat_toString a" by (simp add: s_def padStart0_def)
  then show ?thesis using take_nat_toString [OF True] by simp
next
  case False
  then have "a < 10 ^ d" by (intro nat_toString_less) simp
  moreover have "take (length (s a) - d) (s a) = ''0''"
    using False by (simp add: s_def padStart0_def Suc_diff_le)
  ultimately show ?thesis by (simp add: nat_toString_0)
qed

lemma fromAtoms_eq:
  "fromAtoms v d = (if v < 0 then ''-'' else []) @ nat_toString (nat \<bar>v\<bar> div 10 ^ d)
     @ (if atom_frac (nat \<bar>v\<bar>) d = [] then [] else ''.'' @ atom_frac (nat \<bar>v\<bar>) d)"
proof (cases "d = 0")
  case True
  then show ?thesis by (simp add: fromAtoms_def atom_frac_def Let_def)
next
  case False
  define s where "s = padStart0 (d + 1) (nat_toString (nat \<bar>v\<bar>))"
  have i: "take (length s - d) s = nat_toString (nat \<bar>v\<bar> div 10 ^ d)"
    using int_digits [OF False, of "nat \<bar>v\<bar>"] by (simp only: s_def)
  show ?thesis
    using False unfolding fromAtoms_def atom_frac_def Let_def s_def [symmetric] i by simp
qed

lemma atom_frac_props:
  "list_all is_digit (atom_frac a d)" "length (atom_frac a d) \<le> d"
  "dec_val (nat_toString (a div 10 ^ d) @ padEnd0 d (atom_frac a d)) = a"
proof -
  define s where "s = padStart0 (d + 1) (nat_toString a)"
  define r where "r = drop (length s - d) s"
  have len: "length s \<ge> d + 1" by (simp add: s_def padStart0_def)
  then have r: "length r = d" by (simp add: r_def)
  have "list_all is_digit s" unfolding s_def by (rule padStart0_digits) (rule nat_toString_digits)
  then have dr: "list_all is_digit r" by (auto simp: r_def list_all_iff dest: in_set_dropD)
  have f: "atom_frac a d = (if d = 0 then [] else strip_zeros r)" by (simp add: atom_frac_def s_def r_def Let_def)
  show "list_all is_digit (atom_frac a d)" using strip_zeros_digits [OF dr] by (simp add: f)
  show "length (atom_frac a d) \<le> d" using length_strip_zeros [of r] r by (simp add: f)
  show "dec_val (nat_toString (a div 10 ^ d) @ padEnd0 d (atom_frac a d)) = a"
  proof (cases "d = 0")
    case True
    then show ?thesis by (simp add: atom_frac_def padEnd0_def)
  next
    case False
    have "nat_toString (a div 10 ^ d) @ r = s"
      using int_digits [OF False, of a] unfolding r_def s_def [symmetric] by (metis append_take_drop_id)
    then have "dec_val (nat_toString (a div 10 ^ d) @ r) = dec_val s" by simp
    also have "\<dots> = a" by (simp add: s_def)
    finally show ?thesis using False strip_zeros_pad [OF r] by (simp add: f)
  qed
qed

lemma fromAtoms_no_space: "list_all (\<lambda>c. \<not> is_space c) (fromAtoms v d)" "fromAtoms v d \<noteq> []"
proof -
  have dg: "list_all (\<lambda>c. \<not> is_space c) t" if "list_all is_digit t" for t
    using that by (auto simp: list_all_iff digit_not_space)
  show "list_all (\<lambda>c. \<not> is_space c) (fromAtoms v d)"
    using dg [OF atom_frac_props(1)] dg [OF nat_toString_digits] by (simp add: fromAtoms_eq is_space_def [of "CHR ''-''"] is_space_def [of "CHR ''.''"])
qed (simp add: fromAtoms_eq)

lemma trim_around:
  assumes "list_all is_space pre" and "list_all is_space post" and "list_all (\<lambda>c. \<not> is_space c) t" and "t \<noteq> []"
  shows "trim (pre @ t @ post) = t"
proof -
  have "dropWhile is_space (pre @ t @ post) = t @ post"
    using assms(1,3,4) by (cases t) (simp_all add: list_all_iff dropWhile_append)
  moreover have "dropWhile is_space (rev (t @ post)) = rev t"
    using assms(2-4) by (cases t rule: rev_cases) (simp_all add: list_all_iff dropWhile_append)
  ultimately show ?thesis by (simp add: trim_def)
qed

section \<open>Properties\<close>

text \<open>Round trip of amounts: for every amount of atoms, negative ones included, and every number
  of decimals, \<open>toAtoms\<close> reads the text of \<open>fromAtoms\<close> back as that amount, with or without white space
  around it.\<close>

theorem amounts_roundtrip:
  assumes "list_all is_space pre" and "list_all is_space post"
  shows "toAtoms (AmountString (pre @ fromAtoms v d @ post)) d = Inr v"
proof -
  let ?f = "atom_frac (nat \<bar>v\<bar>) d"
  have tr: "trim (pre @ fromAtoms v d @ post) = fromAtoms v d"
    by (rule trim_around [OF assms fromAtoms_no_space])
  have m: "amount_match (fromAtoms v d)
      = Some (v < 0, nat_toString (nat \<bar>v\<bar> div 10 ^ d), if ?f = [] then None else Some ?f)"
    unfolding fromAtoms_eq by (rule amount_match_text) (simp_all add: nat_toString_digits atom_frac_props(1))
  show ?thesis
    using fromAtoms_no_space(2) [of v d] atom_frac_props(2,3) [of "nat \<bar>v\<bar>" d]
    by (auto simp: toAtoms_def tr m Let_def)
qed

theorem amounts_roundtrip_witness:
  "toAtoms (AmountString ('' '' @ fromAtoms (- 1250) 3 @ [])) 3 = Inr (- 1250)"
  by (rule amounts_roundtrip) (simp_all add: is_space_def)

lemma filter_group3: "list_all is_digit s \<Longrightarrow> filter (\<lambda>c. c \<noteq> CHR '','') (group3_rev s) = s"
  by (induction s rule: group3_rev.induct) (auto simp: is_digit_def)

lemma filter_digits: "list_all is_digit s \<Longrightarrow> filter (\<lambda>c. c \<noteq> CHR '','') s = s"
  by (auto simp: list_all_iff is_digit_def filter_id_conv)

lemma filter_toLocaleString:
  "filter (\<lambda>c. c \<noteq> CHR '','') (toLocaleString v) = (if v < 0 then ''-'' else []) @ nat_toString (nat \<bar>v\<bar>)"
proof -
  have "list_all is_digit (rev (nat_toString (nat \<bar>v\<bar>)))" using nat_toString_digits [of "nat \<bar>v\<bar>"] by (simp add: list_all_iff)
  from filter_group3 [OF this] show ?thesis by (simp add: toLocaleString_def flip: rev_filter)
qed

text \<open>What \<open>formatAtoms\<close> shows: without its separators the text is that of \<open>fromAtoms\<close>, except for
  amounts between minus one token and zero, which lose their sign.\<close>

theorem formatAtoms_shows:
  "filter (\<lambda>c. c \<noteq> CHR '','') (formatAtoms v d)
     = fromAtoms (if v < 0 \<and> - (10 ^ d) < v then - v else v) d"
proof -
  let ?a = "nat \<bar>v\<bar>" and ?f = "atom_frac (nat \<bar>v\<bar>) d" and ?sg = "if v < 0 then ''-'' else []"
  let ?i = "nat_toString (?a div 10 ^ d)"
  have no_dot: "takeWhile (\<lambda>c. c \<noteq> CHR ''.'') (?sg @ ?i @ rest) = ?sg @ ?i @ takeWhile (\<lambda>c. c \<noteq> CHR ''.'') rest" for rest
  proof -
    have "x \<noteq> CHR ''.''" if "x \<in> set ?i" for x
      using that nat_toString_digits [of "?a div 10 ^ d"] by (auto simp: list_all_iff)
    then show ?thesis by (simp add: takeWhile_append)
  qed
  have ip: "takeWhile (\<lambda>c. c \<noteq> CHR ''.'') (fromAtoms v d) = ?sg @ ?i" unfolding fromAtoms_eq by (subst no_dot) simp
  have fp: "drop (length (?sg @ ?i) + 1) (fromAtoms v d) = ?f" unfolding fromAtoms_eq by simp
  have ih: "?i \<noteq> []" "hd ?i \<noteq> CHR ''-''"
    using nat_toString_digits [of "?a div 10 ^ d"] hd_in_set [OF nat_toString_nonempty, of "?a div 10 ^ d"] is_digit_simps(2)
    unfolding list_all_iff by (simp, metis)
  have bi: "BigInt_of (?sg @ ?i) = (if v < 0 then -1 else 1) * int (?a div 10 ^ d)"
  proof (cases "v < 0")
    case False
    have "BigInt_of ?i = int (dec_val ?i)" unfolding BigInt_of_def using ih(2) by (simp only: if_False simp_thms)
    with False show ?thesis by simp
  qed (simp add: BigInt_of_def)
  have small: "int (?a div 10 ^ d) = 0 \<longleftrightarrow> \<bar>v\<bar> < 10 ^ d" by (simp add: div_eq_0_iff nat_less_iff)
  have fmt: "formatAtoms v d = toLocaleString ((if v < 0 then -1 else 1) * int (?a div 10 ^ d))
      @ (if ?f = [] then [] else ''.'' @ ?f)"
    unfolding formatAtoms_def Let_def ip fp bi by simp
  show ?thesis
  proof (cases "v < 0 \<and> - (10 ^ d) < v")
    case True
    then have "?a div 10 ^ d = 0" using small by simp
    with True show ?thesis
      unfolding fmt fromAtoms_eq by (simp add: filter_toLocaleString filter_digits atom_frac_props(1))
  next
    case False
    then have "\<not> v < 0 \<or> 0 < int (?a div 10 ^ d)" using small by linarith
    with False show ?thesis
      unfolding fmt fromAtoms_eq by (auto simp: filter_toLocaleString filter_digits atom_frac_props(1))
  qed
qed

end
