(* ===== verification/Nyx_Text.thy ===== *)
theory Nyx_Text
  imports Nyx_Decimals
begin

text \<open>
  Text the demo application exchanges with its browser: \<open>BigInt(string)\<close>, \<open>Buffer.from(s, "hex")\<close>,
  the \<open>0x\<close> prefix and lower case. Characters are code points below 256. Proved: each reader
  returns what the corresponding printer was given.
\<close>

section \<open>Hexadecimal digits\<close>

definition hex_val :: "char \<Rightarrow> nat option" where
  "hex_val c =
     (let n = (of_char c :: nat)
      in if 48 \<le> n \<and> n \<le> 57 then Some (n - 48)
         else if 97 \<le> n \<and> n \<le> 102 then Some (n - 87)
         else if 65 \<le> n \<and> n \<le> 70 then Some (n - 55)
         else None)"

text \<open>\<open>Buffer.from(s, "hex")\<close>: pairs of digits up to the first that is none; a last single digit is
  dropped.\<close>

fun hex_decode :: "string \<Rightarrow> bytes" where
  "hex_decode (a # b # s) =
     (case (hex_val a, hex_val b) of
        (Some h, Some l) \<Rightarrow> word_of_int (int (16 * h + l)) # hex_decode s
      | _ \<Rightarrow> [])"
| "hex_decode _ = []"

definition hex_number :: "string \<Rightarrow> nat option" where
  "hex_number s =
     (if s = [] then None
      else foldl (\<lambda>acc c. case (acc, hex_val c) of (Some n, Some d) \<Rightarrow> Some (16 * n + d) | _ \<Rightarrow> None) (Some 0) s)"

text \<open>Digits of base two and eight, for the \<open>0b\<close> and \<open>0o\<close> literals.\<close>

definition small_number :: "nat \<Rightarrow> string \<Rightarrow> nat option" where
  "small_number base s =
     (if s \<noteq> [] \<and> list_all (\<lambda>c. is_digit c \<and> digit_val c < base) s
      then Some (foldl (\<lambda>n c. base * n + digit_val c) 0 s) else None)"

section \<open>BigInt of a string\<close>

text \<open>White space around the text is ignored and the empty text is zero; then a literal with
  \<open>0x\<close>, \<open>0o\<close> or \<open>0b\<close>, or decimal digits with an optional sign.\<close>

definition bigint_syntax_error :: "string \<Rightarrow> js_error" where
  "bigint_syntax_error s = JsError ''SyntaxError'' (''Cannot convert '' @ s @ '' to a BigInt'')"

definition decimal_number :: "string \<Rightarrow> nat option" where
  "decimal_number s = (if s \<noteq> [] \<and> list_all is_digit s then Some (dec_val s) else None)"

definition bigint_literal :: "string \<Rightarrow> int option" where
  "bigint_literal t =
     (if t = [] then Some 0
      else if take 1 t = ''0'' \<and> take 1 (drop 1 t) \<in> {''x'', ''X''} then map_option int (hex_number (drop 2 t))
      else if take 1 t = ''0'' \<and> take 1 (drop 1 t) \<in> {''o'', ''O''} then map_option int (small_number 8 (drop 2 t))
      else if take 1 t = ''0'' \<and> take 1 (drop 1 t) \<in> {''b'', ''B''} then map_option int (small_number 2 (drop 2 t))
      else if take 1 t = ''-'' then map_option (\<lambda>n. - int n) (decimal_number (drop 1 t))
      else if take 1 t = ''+'' then map_option int (decimal_number (drop 1 t))
      else map_option int (decimal_number t))"

definition js_BigInt :: "string \<Rightarrow> js_error + int" where
  "js_BigInt s = (case bigint_literal (trim s) of Some v \<Rightarrow> Inr v | None \<Rightarrow> Inl (bigint_syntax_error s))"

text \<open>\<open>s.replace(/^0x/, "")\<close> and \<open>toLowerCase()\<close>.\<close>

definition strip_0x :: "string \<Rightarrow> string" where
  "strip_0x s = (if take 2 s = ''0x'' then drop 2 s else s)"

definition lower_char :: "char \<Rightarrow> char" where
  "lower_char c =
     (let n = (of_char c :: nat)
      in if 65 \<le> n \<and> n \<le> 90 \<or> 192 \<le> n \<and> n \<le> 222 \<and> n \<noteq> 215 then char_of (n + 32) else c)"

definition toLowerCase :: "string \<Rightarrow> string" where
  "toLowerCase = map lower_char"

section \<open>Round trips\<close>

lemma of_hex_char [simp]: "d < 16 \<Longrightarrow> (of_char (hex_char d) :: nat) = (if d < 10 then 48 + d else 87 + d)"
  by (simp add: hex_char_def of_char_of)

lemma hex_val_char [simp]: "d < 16 \<Longrightarrow> hex_val (hex_char d) = Some d"
  by (auto simp: hex_val_def Let_def)

lemma byte_nibbles:
  fixes b :: "8 word"
  shows "unat b div 16 < 16" "unat b mod 16 < 16"
  using unsigned_less [of b, where ?'a = nat] by simp_all

lemma bytes_hex_simps [simp]:
  "bytes_hex [] = []"
  "bytes_hex (b # bs) = hex_char (unat b div 16) # hex_char (unat b mod 16) # bytes_hex bs"
  by (simp_all add: bytes_hex_def)

lemma hex_decode_bytes_hex [simp]: "hex_decode (bytes_hex bs) = bs"
proof (induction bs)
  case (Cons b bs)
  have "16 * (unat b div 16) + unat b mod 16 = unat b" by simp
  then have "(word_of_int (int (16 * (unat b div 16) + unat b mod 16)) :: 8 word) = b"
    by simp
  then show ?case using Cons byte_nibbles [of b] by (simp del: of_nat_add of_nat_mult)
qed simp

lemma length_bytes_hex [simp]: "length (bytes_hex bs) = 2 * length bs"
  by (induction bs) simp_all

lemma bytes_hex_inject [simp]: "bytes_hex a = bytes_hex b \<longleftrightarrow> a = b"
  by (metis hex_decode_bytes_hex)

lemma lower_hex_char: "d < 16 \<Longrightarrow> lower_char (hex_char d) = hex_char d"
  by (auto simp: lower_char_def Let_def)

lemma toLowerCase_bytes_hex [simp]: "toLowerCase (bytes_hex bs) = bytes_hex bs"
  by (induction bs) (simp_all add: toLowerCase_def lower_hex_char byte_nibbles)

lemma hex_char_not_x: "d < 16 \<Longrightarrow> hex_char d \<noteq> CHR ''x''"
proof
  assume "d < 16" "hex_char d = CHR ''x''"
  then have "(of_char (CHR ''x'') :: nat) = (if d < 10 then 48 + d else 87 + d)" using of_hex_char by metis
  then show False using \<open>d < 16\<close> by (simp split: if_splits)
qed

lemma strip_0x_bytes_hex [simp]: "strip_0x (bytes_hex bs) = bytes_hex bs"
  by (cases bs) (simp_all add: strip_0x_def hex_char_not_x byte_nibbles)

lemma strip_0x_prefixed [simp]: "strip_0x (CHR ''0'' # CHR ''x'' # s) = s"
  by (simp add: strip_0x_def)

definition hex_step :: "nat option \<Rightarrow> char \<Rightarrow> nat option" where
  "hex_step acc c = (case (acc, hex_val c) of (Some n, Some d) \<Rightarrow> Some (16 * n + d) | _ \<Rightarrow> None)"

lemma hex_step_byte:
  "hex_step (hex_step (Some n) (hex_char (unat b div 16))) (hex_char (unat (b :: 8 word) mod 16)) = Some (256 * n + unat b)"
  using byte_nibbles [of b] div_mult_mod_eq [of "unat b" 16] by (simp add: hex_step_def)

lemma hex_fold_bytes_hex: "foldl hex_step (Some n) (bytes_hex bs) = Some (n * 256 ^ length bs + nat (be_to_int bs))"
proof (induction bs rule: rev_induct)
  case (snoc b bs)
  have app: "bytes_hex (bs @ [b]) = bytes_hex bs @ [hex_char (unat b div 16), hex_char (unat b mod 16)]"
    by (simp add: bytes_hex_def)
  have "nat (be_to_int (bs @ [b])) = 256 * nat (be_to_int bs) + unat b"
    using be_to_int_nonneg [of bs] uint_ge_0 [of b]
    by (simp only: be_to_int_snoc unat_eq_nat_uint nat_add_distrib nat_mult_distrib mult_nonneg_nonneg) simp
  then show ?case by (simp add: app snoc hex_step_byte algebra_simps)
qed simp

lemma hex_number_bytes_hex:
  assumes "bs \<noteq> []"
  shows "hex_number (bytes_hex bs) = Some (nat (be_to_int bs))"
proof -
  have "hex_number s = foldl hex_step (Some 0) s" if "s \<noteq> []" for s
    using that by (simp add: hex_number_def hex_step_def [abs_def])
  moreover have "bytes_hex bs \<noteq> []" using assms by (cases bs) simp_all
  ultimately show ?thesis using hex_fold_bytes_hex [of 0 bs] by simp
qed

lemma digit_char_cases:
  assumes "is_digit c"
  shows "c \<noteq> CHR ''x''" "c \<noteq> CHR ''X''" "c \<noteq> CHR ''o''" "c \<noteq> CHR ''O''" "c \<noteq> CHR ''b''" "c \<noteq> CHR ''B''"
    "c \<noteq> CHR ''-''" "c \<noteq> CHR ''+''" "\<not> is_space c"
  using assms by (simp_all add: digit_not_space) (rule notI, simp add: is_digit_def)+

lemma trim_digits:
  assumes "list_all is_digit s"
  shows "trim s = s"
proof (rule trim_id)
  show "s = [] \<or> \<not> is_space (hd s) \<and> \<not> is_space (last s)"
    using assms last_in_set [of s] hd_in_set [of s] digit_not_space by (auto simp: list_all_iff)
qed

lemma bigint_literal_digits:
  assumes "list_all is_digit s" and "s \<noteq> []"
  shows "bigint_literal s = Some (int (dec_val s))"
proof -
  obtain c cs where s: "s = c # cs" using assms(2) by (cases s) auto
  have "take 1 s \<notin> {''-'', ''+''}" using assms(1) by (simp add: s digit_char_cases)
  moreover have "take 1 (drop 1 s) \<notin> {''x'', ''X'', ''o'', ''O'', ''b'', ''B''}"
    using assms(1) by (cases cs) (simp_all add: s digit_char_cases)
  ultimately show ?thesis using assms by (simp add: bigint_literal_def decimal_number_def)
qed

lemma js_BigInt_toString [simp]: "js_BigInt (bigint_toString v) = Inr v"
proof -
  have d: "list_all is_digit (nat_toString n)" "nat_toString n \<noteq> []" for n by (simp_all add: nat_toString_digits)
  have sp: "\<not> is_space (last (nat_toString n))" for n
    using d [of n] last_in_set [of "nat_toString n"] digit_not_space by (auto simp: list_all_iff)
  have "trim (''-'' @ nat_toString n) = ''-'' @ nat_toString n" for n
    by (rule trim_id) (use sp d in \<open>simp add: is_space_def\<close>)
  then show ?thesis
    using d by (simp add: js_BigInt_def bigint_toString_def bigint_literal_digits trim_digits)
      (simp add: bigint_literal_def decimal_number_def d)
qed

lemma js_BigInt_nat_toString [simp]: "js_BigInt (nat_toString n) = Inr (int n)"
  using js_BigInt_toString [of "int n"] by (simp add: bigint_toString_def)

lemma js_BigInt_hex [simp]:
  assumes "bs \<noteq> []"
  shows "js_BigInt (CHR ''0'' # CHR ''x'' # bytes_hex bs) = Inr (be_to_int bs)"
proof -
  have "\<not> is_space (hex_char d)" if "d < 16" for d using that by (auto simp: is_space_def)
  then have "bytes_hex bs \<noteq> [] \<longrightarrow> \<not> is_space (last (bytes_hex bs))"
    using byte_nibbles by (induction bs) auto
  then have "trim (CHR ''0'' # CHR ''x'' # bytes_hex bs) = CHR ''0'' # CHR ''x'' # bytes_hex bs"
    by (intro trim_id) (simp add: is_space_def)
  then show ?thesis
    using hex_number_bytes_hex [OF assms] be_to_int_nonneg [of bs]
    by (simp add: js_BigInt_def bigint_literal_def)
qed

end
