(* ===== verification/Nyx_Demo_Lib.thy ===== *)
theory Nyx_Demo_Lib
  imports Nyx_History Nyx_Json Nyx_Text
begin

unbundle bit_operations_syntax

text \<open>
  What the routes of the demo application share: \<open>ix-json.ts\<close> (instructions as JSON),
  \<open>phantom-verify.ts\<close> (the seed of a wallet signature), \<open>change-note-derive.ts\<close> (nonce and blinding of
  trade notes) and the persona seeds of \<open>persona-client.ts\<close>, all under \<open>apps/demo/src/lib/dapp\<close>.
  \<open>tweetnacl\<close>, the key pairs of \<open>@solana/web3.js\<close> and \<open>@solana/spl-token\<close> are parameters
  (\<open>wallet_lib\<close>), the RPC connection is \<open>rpc\<close>. A route answers with a value or with a status, an
  error text and optional diagnostics.
\<close>

section \<open>Parameters\<close>

record keypair =
  kp_publicKey :: pubkey
  kp_secretKey :: bytes

record wallet_lib =
  nacl_verify :: "bytes \<Rightarrow> bytes \<Rightarrow> bytes \<Rightarrow> bool"
  nacl_sign :: "bytes \<Rightarrow> bytes \<Rightarrow> js_error + bytes"
  nacl_fromSeed :: "bytes \<Rightarrow> js_error + bytes \<times> bytes"
  Keypair_fromSecretKey :: "bytes \<Rightarrow> js_error + keypair"
  getAssociatedTokenAddress :: "pubkey \<Rightarrow> pubkey \<Rightarrow> js_error + pubkey"
  createAtaIdempotent :: "pubkey \<Rightarrow> pubkey \<Rightarrow> pubkey \<Rightarrow> pubkey \<Rightarrow> instruction"
  createMintTo :: "pubkey \<Rightarrow> pubkey \<Rightarrow> pubkey \<Rightarrow> int \<Rightarrow> instruction"
  system_transfer :: "pubkey \<Rightarrow> pubkey \<Rightarrow> int \<Rightarrow> instruction"
  setComputeUnitLimit :: "int \<Rightarrow> instruction"

record 'w rpc = "'w connection" +
  rpc_getAccountInfo :: "pubkey \<Rightarrow> ('w, js_error, account_info option) io"
  rpc_getBalance :: "pubkey \<Rightarrow> ('w, js_error, int) io"
  rpc_getSlot :: "('w, js_error, int) io"
  rpc_sendAndConfirm :: "instruction list \<Rightarrow> keypair list \<Rightarrow> ('w, js_error, string) io"

datatype 'a reply = ReplyOk 'a | ReplyError nat string "json option"

text \<open>The \<open>catch\<close> of a route: a thrown error is a reply with status 500 and its message.\<close>

definition route :: "('w, js_error, 'a reply) io \<Rightarrow> 'w \<Rightarrow> 'a reply \<times> 'w" where
  "route m w = (case m w of (Inl e, w') \<Rightarrow> (ReplyError 500 (err_message e) None, w') | (Inr r, w') \<Rightarrow> (r, w'))"

definition bad_request :: "string \<Rightarrow> ('w, js_error, 'a reply) io" where
  "bad_request msg = io_return (ReplyError 400 msg None)"

text \<open>\<open>!s\<close> for an optional string.\<close>

definition absent :: "string option \<Rightarrow> bool" where
  "absent s \<longleftrightarrow> s = None \<or> s = Some []"

section \<open>Instructions as JSON\<close>

record account_meta_json =
  amj_pubkey :: string
  amj_isSigner :: bool
  amj_isWritable :: bool

record InstructionJson =
  ij_programId :: string
  ij_keys :: "account_meta_json list"
  ij_data :: string

definition instructionToJson :: "lib \<Rightarrow> instruction \<Rightarrow> InstructionJson" where
  "instructionToJson L ix =
     \<lparr>ij_programId = pubkey_toBase58 L (ix_programId ix),
      ij_keys = map (\<lambda>m. \<lparr>amj_pubkey = pubkey_toBase58 L (am_pubkey m), amj_isSigner = am_isSigner m,
                          amj_isWritable = am_isWritable m\<rparr>) (ix_keys ix),
      ij_data = bytes_hex (ix_data ix)\<rparr>"

definition instructionFromJson :: "decoders \<Rightarrow> InstructionJson \<Rightarrow> js_error + instruction" where
  "instructionFromJson D j =
     rbind (publicKeyOf D (Some (ij_programId j))) (\<lambda>pid.
     rbind (rmapM (\<lambda>k. rbind (publicKeyOf D (Some (amj_pubkey k))) (\<lambda>pk.
              Inr (meta pk (amj_isSigner k) (amj_isWritable k)))) (ij_keys j)) (\<lambda>ks.
     Inr \<lparr>ix_programId = pid, ix_keys = ks, ix_data = hex_decode (ij_data j)\<rparr>))"

section \<open>The wallet signature\<close>

definition SEED_MESSAGE :: bytes where
  "SEED_MESSAGE = utf8 ''NYX_DARKPOOL_SEED_V1''"

record verified_owner =
  vo_ownerPubkey :: bytes
  vo_signature :: bytes
  vo_seed :: bytes

definition verifyPhantomSeedSignature ::
    "lib \<Rightarrow> decoders \<Rightarrow> wallet_lib \<Rightarrow> string \<Rightarrow> string \<Rightarrow> js_error + verified_owner" where
  "verifyPhantomSeedSignature L D W phantomSignatureBase58 ownerPubkeyBase58 =
     rbind (bs58_decode D phantomSignatureBase58) (\<lambda>signature.
     rbind (bs58_decode D ownerPubkeyBase58) (\<lambda>ownerPubkey.
     if length signature \<noteq> 64 \<or> length ownerPubkey \<noteq> 32
     then Inl (newError (''expected 64B sig + 32B pubkey, got '' @ nat_toString (length signature) @ ''B + ''
            @ nat_toString (length ownerPubkey) @ ''B''))
     else if \<not> nacl_verify W SEED_MESSAGE signature ownerPubkey
     then Inl (newError ''Phantom signature does not verify against owner pubkey'')
     else Inr \<lparr>vo_ownerPubkey = ownerPubkey, vo_signature = signature,
               vo_seed = take 64 (sha512 L signature)\<rparr>))"

section \<open>Nonce and blinding of trade notes\<close>

definition TRADE_ROLE_BUYER :: int where "TRADE_ROLE_BUYER = 0xc1"
definition TRADE_ROLE_SELLER :: int where "TRADE_ROLE_SELLER = 0xd1"
definition FEE_ROLE_QUOTE :: int where "FEE_ROLE_QUOTE = 0xfc"

text \<open>\<open>d[0] = 0; d[1] &= 0x0f\<close> on a digest.\<close>

fun mask_digest :: "bytes \<Rightarrow> bytes" where
  "mask_digest (a # b # rest) = 0 # (b AND 0x0f) # rest"
| "mask_digest d = d"

definition derive_message :: "string \<Rightarrow> int \<Rightarrow> int \<Rightarrow> bytes" where
  "derive_message tag matchId role = utf8 tag @ u64LE matchId @ [word_of_int role]"

definition deriveNonce :: "lib \<Rightarrow> int \<Rightarrow> int \<Rightarrow> bytes" where
  "deriveNonce L matchId role = mask_digest (sha256 L (derive_message ''nyx-change-nonce'' matchId role))"

definition deriveBlinding :: "lib \<Rightarrow> int \<Rightarrow> int \<Rightarrow> bytes" where
  "deriveBlinding L matchId role = mask_digest (sha256 L (derive_message ''nyx-change-blind'' matchId role))"

definition be32ToBigInt :: "bytes \<Rightarrow> js_error + int" where
  "be32ToBigInt x = js_BigInt (''0x'' @ bytes_hex x)"

definition matchIdToPayloadBytes :: "int \<Rightarrow> bytes" where
  "matchIdToPayloadBytes matchId = zeros 8 @ u64LE matchId"

section \<open>Persona seeds\<close>

datatype persona = Taker | Maker

fun persona_name :: "persona \<Rightarrow> string" where
  "persona_name Taker = ''taker''"
| "persona_name Maker = ''maker''"

definition actorSeed :: "lib \<Rightarrow> persona \<Rightarrow> keypair \<Rightarrow> bytes" where
  "actorSeed L role kp =
     sha256 L (utf8 (''demo-'' @ persona_name role @ ''-seed-v1'') @ toBytes (kp_publicKey kp))
     @ sha256 L (utf8 (''demo-'' @ persona_name role @ ''-seed-v2'') @ toBytes (kp_publicKey kp))"

section \<open>Lemmas\<close>

lemma length_actorSeed [simp]: "length (actorSeed L role kp) = MASTER_SEED_BYTES"
  by (simp add: actorSeed_def MASTER_SEED_BYTES_def)

lemma length_mask_digest [simp]: "length (mask_digest d) = length d"
  by (cases d rule: mask_digest.cases) simp_all

lemma length_derived [simp]: "length (deriveNonce L m r) = 32" "length (deriveBlinding L m r) = 32"
  by (simp_all add: deriveNonce_def deriveBlinding_def)

lemma length_matchIdToPayloadBytes [simp]: "length (matchIdToPayloadBytes m) = 16"
  by (simp add: matchIdToPayloadBytes_def)

lemma be32ToBigInt_eq: "x \<noteq> [] \<Longrightarrow> be32ToBigInt x = Inr (be_to_int x)"
  by (simp add: be32ToBigInt_def)

lemma nonempty_of_length: "length x = 32 \<Longrightarrow> x \<noteq> []"
  by auto

lemma masked_bound:
  assumes "length d = 32"
  shows "be_to_int (mask_digest d) < 2 ^ 244"
proof -
  obtain a b rest where d: "d = a # b # rest" "length rest = 30"
    using assms by (cases d rule: mask_digest.cases) auto
  have "uint (b AND 15) \<le> 15" by (simp add: uint_and AND_upper2)
  moreover have "be_to_int (mask_digest d) = uint (b AND 15) * 256 ^ 30 + be_to_int rest"
    using be_to_int_append [of "[0, b AND 15]" rest] be_to_int_snoc [of "[0]" "b AND 15"] be_to_int_snoc [of "[]" 0]
    by (simp add: d)
  moreover have "be_to_int rest < 256 ^ 30" using be_to_int_bound [of rest] d(2) by simp
  ultimately show ?thesis by simp
qed

lemma derive_message_iff:
  assumes "length tag = length tag'"
  shows "derive_message tag m r = derive_message tag' m' r' \<longleftrightarrow>
     utf8 tag = utf8 tag' \<and> m mod 2 ^ 64 = m' mod 2 ^ 64 \<and> r mod 256 = r' mod 256"
proof -
  have "derive_message tag m r = derive_message tag' m' r' \<longleftrightarrow>
      utf8 tag = utf8 tag' \<and> u64LE m @ [word_of_int r] = u64LE m' @ [word_of_int r' :: byte]"
    unfolding derive_message_def using assms by (subst append_eq_append_conv) simp_all
  then show ?thesis by (auto simp: u64LE_inject word_of_int_eq_iff take_bit_eq_mod)
qed

text \<open>The nonce and blinding tags differ.\<close>

lemma derive_tags: "utf8 ''nyx-change-nonce'' \<noteq> utf8 ''nyx-change-blind''"
    "length (utf8 ''nyx-change-nonce'') = length (utf8 ''nyx-change-blind'')"
  by (simp_all add: utf8_def)

section \<open>Properties\<close>

text \<open>Documented behaviour of base58: the text of a key is not empty and is read back by
  \<open>new PublicKey\<close>.\<close>

definition base58_inverse :: "lib \<Rightarrow> decoders \<Rightarrow> bool" where
  "base58_inverse L D \<longleftrightarrow>
     (\<forall>k. pubkey_toBase58 L k \<noteq> [] \<and> publicKeyOf D (Some (pubkey_toBase58 L k)) = Inr k)"

lemma instruction_json_inverse:
  assumes "base58_inverse L D"
  shows "instructionFromJson D (instructionToJson L ix) = Inr ix"
proof -
  have "rmapM (\<lambda>k. rbind (publicKeyOf D (Some (amj_pubkey k))) (\<lambda>pk. Inr (meta pk (amj_isSigner k) (amj_isWritable k))))
      (ij_keys (instructionToJson L ix)) = Inr (ix_keys ix)" (is "rmapM ?f _ = _")
  proof -
    have "rmapM ?f (map (\<lambda>m. \<lparr>amj_pubkey = pubkey_toBase58 L (am_pubkey m), amj_isSigner = am_isSigner m,
        amj_isWritable = am_isWritable m\<rparr>) ms) = Inr ms" for ms
      using assms by (induction ms) (simp_all add: base58_inverse_def meta_def)
    then show ?thesis by (simp add: instructionToJson_def)
  qed
  with assms show ?thesis
    by (simp add: instructionFromJson_def base58_inverse_def) (simp add: instructionToJson_def)
qed

text \<open>(C33) An instruction sent to the browser as JSON is rebuilt there as the same instruction:
  program, every account with its flags, and the data.\<close>

theorem ix_json_roundtrip:
  assumes "base58_inverse L D"
  shows "instructionFromJson D (instructionToJson L ix) = Inr ix"
  by (rule instruction_json_inverse [OF assms])

definition ref_decoders :: decoders where
  "ref_decoders = \<lparr>bs58_decode = (\<lambda>s. Inr (hex_decode s)),
     publicKeyOf = (\<lambda>s. case s of Some t \<Rightarrow> Inr (of_nat (dec_val t)) | None \<Rightarrow> Inl (newError ''Invalid public key input''))\<rparr>"

lemma ref_base58_inverse: "base58_inverse ref_lib ref_decoders"
  by (simp add: base58_inverse_def ref_decoders_def ref_lib_def)

theorem ix_json_roundtrip_witness:
  "base58_inverse ref_lib ref_decoders \<and>
   (let ix = \<lparr>ix_programId = 7, ix_keys = [meta 5 True True, meta 6 False True], ix_data = [1, 255]\<rparr>
    in instructionFromJson ref_decoders (instructionToJson ref_lib ix) = Inr ix)"
  using ix_json_roundtrip [OF ref_base58_inverse] ref_base58_inverse by (simp add: Let_def)

text \<open>(C35) The secrets of trade notes: nonce and blinding of a match and a role are read back as integers
  below \<open>2 ^ 244\<close>, hence canonical field elements; and as long as the masked digests of the messages
  do not collide, two of them are equal only for the same match (modulo \<open>2 ^ 64\<close>) and role (one
  byte), and a nonce is never a blinding.\<close>

theorem trade_secrets_separate:
  assumes "inj_on (\<lambda>msg. mask_digest (sha256 L msg))
     {derive_message ''nyx-change-nonce'' m r, derive_message ''nyx-change-nonce'' m' r',
      derive_message ''nyx-change-blind'' m r, derive_message ''nyx-change-blind'' m' r'}"
  shows "\<exists>n b. be32ToBigInt (deriveNonce L m r) = Inr n \<and> be32ToBigInt (deriveBlinding L m r) = Inr b
     \<and> 0 \<le> n \<and> n < 2 ^ 244 \<and> 0 \<le> b \<and> b < 2 ^ 244 \<and> n < BN254_R \<and> b < BN254_R \<and> n \<noteq> b
     \<and> (be32ToBigInt (deriveNonce L m' r') = Inr n \<longleftrightarrow> m mod 2 ^ 64 = m' mod 2 ^ 64 \<and> r mod 256 = r' mod 256)
     \<and> (be32ToBigInt (deriveBlinding L m' r') = Inr b \<longleftrightarrow> m mod 2 ^ 64 = m' mod 2 ^ 64 \<and> r mod 256 = r' mod 256)
     \<and> be32ToBigInt (deriveBlinding L m' r') \<noteq> Inr n"
proof -
  have rd: "be32ToBigInt (deriveNonce L i k) = Inr (be_to_int (deriveNonce L i k))"
      "be32ToBigInt (deriveBlinding L i k) = Inr (be_to_int (deriveBlinding L i k))" for i k
    by (simp_all add: be32ToBigInt_eq nonempty_of_length)
  have bound: "be_to_int (deriveNonce L i k) < 2 ^ 244" "be_to_int (deriveBlinding L i k) < 2 ^ 244" for i k
    by (simp_all add: deriveNonce_def deriveBlinding_def masked_bound del: power_numeral)
  have r: "(2 :: int) ^ 244 < BN254_R" by (simp add: BN254_R_def)
  have eq: "be_to_int a = be_to_int b \<longleftrightarrow> a = b" if "length a = 32" "length b = 32" for a b
    using that be_to_int_inject by auto
  let ?n = "derive_message ''nyx-change-nonce''" and ?b = "derive_message ''nyx-change-blind''"
  have nonce: "deriveNonce L m' r' = deriveNonce L m r \<longleftrightarrow> m mod 2 ^ 64 = m' mod 2 ^ 64 \<and> r mod 256 = r' mod 256"
    using inj_on_eq_iff [OF assms, of "?n m' r'" "?n m r"] by (auto simp: deriveNonce_def derive_message_iff)
  have blind: "deriveBlinding L m' r' = deriveBlinding L m r \<longleftrightarrow> m mod 2 ^ 64 = m' mod 2 ^ 64 \<and> r mod 256 = r' mod 256"
    using inj_on_eq_iff [OF assms, of "?b m' r'" "?b m r"] by (auto simp: deriveBlinding_def derive_message_iff)
  have cross: "deriveNonce L m r \<noteq> deriveBlinding L m r" "deriveNonce L m r \<noteq> deriveBlinding L m' r'"
    using inj_on_eq_iff [OF assms, of "?n m r" "?b m r"] inj_on_eq_iff [OF assms, of "?n m r" "?b m' r'"] derive_tags
    by (simp_all add: deriveNonce_def deriveBlinding_def derive_message_iff)
  have field: "be_to_int (deriveNonce L i k) < BN254_R" "be_to_int (deriveBlinding L i k) < BN254_R" for i k
    using bound r less_trans by blast+
  show ?thesis
    using bound [of m r] field [of m r] nonce blind cross eq
    by (intro exI [of _ "be_to_int (deriveNonce L m r)"] exI [of _ "be_to_int (deriveBlinding L m r)"])
      (simp add: rd be_to_int_nonneg del: power_numeral)
qed

lemma ref_sha256_short:
  assumes "length msg = 25"
  shows "mask_digest (sha256 ref_lib msg) = zeros 7 @ msg"
proof -
  have "be_to_int (zeros 7 @ msg) = be_to_int msg" by (simp add: be_to_int_append)
  then have "sha256 ref_lib msg = toBytes (bytes_to_word (zeros 7 @ msg))"
    by (simp add: sha256_def ref_lib_def bytes_to_word_def)
  also have "\<dots> = zeros 7 @ msg" using assms by (intro toBytes_bytes_to_word) simp
  finally show ?thesis by (simp add: zeros_def numeral_eq_Suc)
qed

theorem trade_secrets_separate_witness:
  "\<exists>n b. be32ToBigInt (deriveNonce ref_lib 1 TRADE_ROLE_BUYER) = Inr n
     \<and> be32ToBigInt (deriveBlinding ref_lib 1 TRADE_ROLE_BUYER) = Inr b
     \<and> n \<noteq> b \<and> be32ToBigInt (deriveNonce ref_lib 2 TRADE_ROLE_SELLER) \<noteq> Inr n"
proof -
  have "length (derive_message t m r) = 25" if "t \<in> {''nyx-change-nonce'', ''nyx-change-blind''}" for t m r
    using that by (auto simp: derive_message_def)
  then have "inj_on (\<lambda>msg. mask_digest (sha256 ref_lib msg))
     {derive_message ''nyx-change-nonce'' 1 TRADE_ROLE_BUYER, derive_message ''nyx-change-nonce'' 2 TRADE_ROLE_SELLER,
      derive_message ''nyx-change-blind'' 1 TRADE_ROLE_BUYER, derive_message ''nyx-change-blind'' 2 TRADE_ROLE_SELLER}"
    by (intro inj_onI) (auto simp: ref_sha256_short)
  from trade_secrets_separate [OF this] show ?thesis by auto
qed

end
