(* ===== verification/Nyx_Demo_Env.thy ===== *)
theory Nyx_Demo_Env
  imports Nyx_Demo_Lib
begin

text \<open>
  \<open>apps/demo/src/lib/dapp/demo-devnet.ts\<close>: where the demo finds its configuration and its keys. The
  process environment and the file system are a record \<open>host\<close> that the code only reads;
  \<open>JSON.parse\<close> is its member \<open>host_json_parse\<close>, so that a text stands for the value it parses to.
  \<open>path.resolve\<close> is modelled for POSIX paths. A configuration is the parsed JSON value; a member
  that is no string counts as missing. Proved: variables win over the disk, and a keyring given
  by variables does not depend on the file system.
\<close>

record host =
  host_env :: "string \<Rightarrow> string option"
  host_exists :: "string \<Rightarrow> bool"
  host_read :: "string \<Rightarrow> js_error + string"
  host_json_parse :: "string \<Rightarrow> js_error + json"
  host_cwd :: string
  host_homedir :: string

section \<open>Paths\<close>

fun split_slash :: "string \<Rightarrow> string \<Rightarrow> string list" where
  "split_slash acc [] = [rev acc]"
| "split_slash acc (c # s) = (if c = CHR ''/'' then rev acc # split_slash [] s else split_slash (c # acc) s)"

definition path_step :: "string list \<Rightarrow> string \<Rightarrow> string list" where
  "path_step stack seg =
     (if seg = [] \<or> seg = ''.'' then stack
      else if seg = ''..'' then butlast stack
      else stack @ [seg])"

text \<open>\<open>resolve(base, seg, ...)\<close> for an absolute \<open>base\<close>: an absolute segment replaces what is left of it.\<close>

definition path_resolve :: "string \<Rightarrow> string list \<Rightarrow> string" where
  "path_resolve base segs =
     (let joined = foldl (\<lambda>acc seg. if take 1 seg = ''/'' then seg else acc @ ''/'' @ seg) base segs
      in ''/'' @ join_with ''/'' (foldl path_step [] (split_slash [] joined)))"

definition resolveRepoRoot :: "host \<Rightarrow> js_error + string" where
  "resolveRepoRoot H =
     (let cwd = host_cwd H; upTwo = path_resolve cwd [''..'', ''..'']
      in if host_exists H (path_resolve cwd [''packages'', ''sdk'']) then Inr cwd
         else if host_exists H (path_resolve upTwo [''packages'', ''sdk'']) then Inr upTwo
         else Inl (newError ''Unable to resolve monorepo root from cwd.''))"

definition expandUserPath :: "host \<Rightarrow> string \<Rightarrow> string" where
  "expandUserPath H inputPath =
     (if take 2 inputPath = ''~/'' then path_resolve (host_homedir H) [drop 2 inputPath] else inputPath)"

section \<open>Key pairs\<close>

definition loadKeypairFromPath :: "host \<Rightarrow> wallet_lib \<Rightarrow> string \<Rightarrow> string \<Rightarrow> js_error + keypair" where
  "loadKeypairFromPath H W repoRoot maybeRelative =
     (let expanded = expandUserPath H maybeRelative;
          absolute = (if take 1 expanded = ''/'' then expanded else path_resolve repoRoot [expanded])
      in rbind (host_read H absolute) (\<lambda>txt.
         rbind (host_json_parse H txt) (\<lambda>raw.
           Keypair_fromSecretKey W (json_to_bytes (Some raw)))))"

definition keypairFromSeed :: "wallet_lib \<Rightarrow> bytes \<Rightarrow> js_error + keypair" where
  "keypairFromSeed W seed = rbind (nacl_fromSeed W seed) (\<lambda>(pk, sk). Keypair_fromSecretKey W sk)"

definition keypairFromBase58 :: "decoders \<Rightarrow> wallet_lib \<Rightarrow> string \<Rightarrow> js_error + keypair" where
  "keypairFromBase58 D W secret =
     rbind (bs58_decode D (trim secret)) (\<lambda>bs.
     if length bs = 64 then Keypair_fromSecretKey W bs
     else if length bs = 32 then keypairFromSeed W bs
     else Inl (newError ''Base58 key must decode to 32-byte seed or 64-byte secret key.''))"

text \<open>\<open>v && v.trim().length > 0\<close>.\<close>

definition env_set :: "host \<Rightarrow> string \<Rightarrow> string option" where
  "env_set H name = (case host_env H name of Some v \<Rightarrow> if trim v \<noteq> [] then Some v else None | None \<Rightarrow> None)"

fun json_number :: "json \<Rightarrow> bool" where
  "json_number (JNum n) = True"
| "json_number _ = False"

definition keypair_of_json :: "wallet_lib \<Rightarrow> string \<Rightarrow> json \<Rightarrow> js_error + keypair" where
  "keypair_of_json W envBase parsed =
     (case parsed of
        JList xs \<Rightarrow>
          if \<not> list_all json_number xs
          then Inl (newError (envBase @ ''_JSON must be a JSON byte-array (e.g. [1,2,3,...])''))
          else if length xs \<noteq> 64 \<and> length xs \<noteq> 32
          then Inl (newError (envBase @ ''_JSON must be 32 or 64 bytes long, got '' @ nat_toString (length xs)))
          else let bs = json_to_bytes (Some parsed)
               in if length bs = 32 then keypairFromSeed W bs else Keypair_fromSecretKey W bs
      | _ \<Rightarrow> Inl (newError (envBase @ ''_JSON must be a JSON byte-array (e.g. [1,2,3,...])'')))"

definition loadKeypairFromEnv :: "host \<Rightarrow> decoders \<Rightarrow> wallet_lib \<Rightarrow> string \<Rightarrow> js_error + keypair option" where
  "loadKeypairFromEnv H D W envBase =
     (case env_set H (envBase @ ''_JSON'') of
        Some jsonRaw \<Rightarrow>
          (case host_json_parse H jsonRaw of
             Inl err \<Rightarrow> Inl (newError (envBase @ ''_JSON is not valid JSON: '' @ err_message err))
           | Inr parsed \<Rightarrow> rbind (keypair_of_json W envBase parsed) (\<lambda>kp. Inr (Some kp)))
      | None \<Rightarrow>
          (case env_set H (envBase @ ''_BASE58'') of
             Some base58Raw \<Rightarrow> rbind (keypairFromBase58 D W base58Raw) (\<lambda>kp. Inr (Some kp))
           | None \<Rightarrow> Inr None))"

definition loadKeypairFromEnvOrPath ::
    "host \<Rightarrow> decoders \<Rightarrow> wallet_lib \<Rightarrow> string \<Rightarrow> string \<Rightarrow> string \<Rightarrow> string \<Rightarrow> js_error + keypair" where
  "loadKeypairFromEnvOrPath H D W envBase repoRoot pathEnvName defaultPath =
     rbind (loadKeypairFromEnv H D W envBase) (\<lambda>fromEnv.
       case fromEnv of Some kp \<Rightarrow> Inr kp
       | None \<Rightarrow>
           let diskPath = (case host_env H pathEnvName of Some p \<Rightarrow> p | None \<Rightarrow> defaultPath)
           in case loadKeypairFromPath H W repoRoot diskPath of
                Inr kp \<Rightarrow> Inr kp
              | Inl err \<Rightarrow> Inl (newError (''Failed to load '' @ envBase @ '': env vars '' @ envBase @ ''_JSON / '' @ envBase
                  @ ''_BASE58 are unset, and disk fallback '' @ [quote_char] @ diskPath @ [quote_char]
                  @ '' could not be read ('' @ err_message err @ ''). On serverless deploys, set '' @ envBase
                  @ ''_JSON to the keypair byte-array.'')))"

definition loadDemoMakerKeypair :: "host \<Rightarrow> decoders \<Rightarrow> wallet_lib \<Rightarrow> js_error + keypair" where
  "loadDemoMakerKeypair H D W =
     rbind (loadKeypairFromEnv H D W ''DEMO_MAKER_KEYPAIR'') (\<lambda>fromNew.
       case fromNew of Some kp \<Rightarrow> Inr kp
       | None \<Rightarrow>
           (case env_set H ''DEMO_MAKER_SECRET_BASE58'' of
              Some legacy \<Rightarrow> keypairFromBase58 D W legacy
            | None \<Rightarrow> Inl (newError (''Missing maker keypair. Set one of: DEMO_MAKER_KEYPAIR_JSON, ''
                @ ''DEMO_MAKER_KEYPAIR_BASE58, or (legacy) DEMO_MAKER_SECRET_BASE58.''))))"

definition loadDemoAdminKeypair :: "host \<Rightarrow> decoders \<Rightarrow> wallet_lib \<Rightarrow> string \<Rightarrow> js_error + keypair" where
  "loadDemoAdminKeypair H D W repoRoot =
     loadKeypairFromEnvOrPath H D W ''DEMO_ADMIN_KEYPAIR'' repoRoot ''DEMO_ADMIN_KEYPAIR_PATH'' ''.devnet/keypairs/admin.json''"

record DemoKeyring =
  kr_admin :: keypair
  kr_funder :: keypair
  kr_tee :: keypair
  kr_maker :: keypair

definition loadDemoKeyring :: "host \<Rightarrow> decoders \<Rightarrow> wallet_lib \<Rightarrow> string \<Rightarrow> js_error + DemoKeyring" where
  "loadDemoKeyring H D W repoRoot =
     rbind (loadDemoAdminKeypair H D W repoRoot) (\<lambda>admin.
     rbind (loadKeypairFromEnvOrPath H D W ''DEMO_FUNDER_KEYPAIR'' repoRoot ''DEMO_FUNDER_KEYPAIR_PATH'' ''~/.config/solana/id.json'') (\<lambda>funder.
     rbind (loadKeypairFromEnvOrPath H D W ''DEMO_TEE_KEYPAIR'' repoRoot ''DEMO_TEE_KEYPAIR_PATH'' ''.devnet/keypairs/tee_authority.json'') (\<lambda>tee.
     rbind (loadDemoMakerKeypair H D W) (\<lambda>maker.
       Inr \<lparr>kr_admin = admin, kr_funder = funder, kr_tee = tee, kr_maker = maker\<rparr>))))"

definition requireEnv :: "host \<Rightarrow> string \<Rightarrow> js_error + string" where
  "requireEnv H name =
     (case host_env H name of
        Some v \<Rightarrow> if v \<noteq> [] then Inr v else Inl (newError (''Missing required env: '' @ name))
      | None \<Rightarrow> Inl (newError (''Missing required env: '' @ name)))"

section \<open>The configuration\<close>

definition parseE2eConfig :: "host \<Rightarrow> string \<Rightarrow> string \<Rightarrow> js_error + json" where
  "parseE2eConfig H raw source =
     (case host_json_parse H raw of
        Inl err \<Rightarrow> Inl (newError (''Failed to parse e2e config from '' @ source @ '': '' @ err_message err))
      | Inr parsed \<Rightarrow>
          (case parsed of
             JObj ps \<Rightarrow> Inr parsed
           | JList xs \<Rightarrow> Inr parsed
           | _ \<Rightarrow> Inl (newError (''E2e config from '' @ source @ '' must be a JSON object''))))"

definition loadDemoE2eConfig :: "host \<Rightarrow> string \<Rightarrow> js_error + json" where
  "loadDemoE2eConfig H repoRoot =
     (case env_set H ''DEMO_E2E_CONFIG_JSON'' of
        Some inline \<Rightarrow> parseE2eConfig H inline ''DEMO_E2E_CONFIG_JSON env''
      | None \<Rightarrow>
          let p = (case host_env H ''DEMO_E2E_CONFIG_PATH'' of
                     Some customPath \<Rightarrow>
                       if customPath = [] then path_resolve repoRoot [''.devnet'', ''e2e-config.json'']
                       else if take 1 customPath = ''/'' then customPath else path_resolve repoRoot [customPath]
                   | None \<Rightarrow> path_resolve repoRoot [''.devnet'', ''e2e-config.json''])
          in if \<not> host_exists H p
             then Inl (newError (''Missing e2e config: tried env DEMO_E2E_CONFIG_JSON / DEMO_E2E_CONFIG_PATH, and disk fallback ''
                    @ [quote_char] @ p @ [quote_char] @ '' does not exist. Generate devnet fixtures ''
                    @ ''(see packages/sdk tests / demo docs) or set DEMO_E2E_CONFIG_JSON on serverless deploys.''))
             else rbind (host_read H p) (\<lambda>txt. parseE2eConfig H txt p))"

text \<open>A string member, and a string member of an object member, which throws when that is missing.\<close>

definition json_string :: "json option \<Rightarrow> string option" where
  "json_string v = (case v of Some (JStr s) \<Rightarrow> Some s | _ \<Rightarrow> None)"

definition cfg_string :: "json \<Rightarrow> string \<Rightarrow> js_error + string option" where
  "cfg_string cfg k = rbind (jget cfg k) (\<lambda>v. Inr (json_string v))"

definition cfg_pubkey_of :: "json \<Rightarrow> string \<Rightarrow> js_error + string option" where
  "cfg_pubkey_of cfg k =
     rbind (jget cfg k) (\<lambda>v. case v of None \<Rightarrow> Inl (undefined_error ''pubkey'') | Some j \<Rightarrow> cfg_string j ''pubkey'')"

text \<open>The parameters of a route: \<open>new Connection\<close>, the clock and \<open>randomBytes\<close> among them.\<close>

record 'w demo =
  dm_decoders :: decoders
  dm_wallet :: wallet_lib
  dm_host :: host
  dm_newConnection :: "string option \<Rightarrow> js_error + 'w rpc"
  dm_now :: "'w \<Rightarrow> int"
  dm_randomBytes :: "nat \<Rightarrow> ('w, js_error, bytes) io"

record 'w demo_connections =
  dcn_l1 :: "'w rpc"
  dcn_er :: "'w rpc"
  dcn_erRpcUrl :: string

definition getDemoConnections :: "'w demo \<Rightarrow> json \<Rightarrow> js_error + 'w demo_connections" where
  "getDemoConnections M cfg =
     rbind (case host_env (dm_host M) ''DEMO_L1_RPC_URL'' of Some u \<Rightarrow> Inr (Some u)
            | None \<Rightarrow> cfg_string cfg ''l1RpcUrl'') (\<lambda>l1RpcUrl.
     let erRpcUrl = (case host_env (dm_host M) ''DEMO_ER_RPC_URL'' of Some u \<Rightarrow> u
                     | None \<Rightarrow> ''https://devnet.magicblock.app'') in
     rbind (dm_newConnection M l1RpcUrl) (\<lambda>l1.
     rbind (dm_newConnection M (Some erRpcUrl)) (\<lambda>er.
       Inr \<lparr>dcn_l1 = l1, dcn_er = er, dcn_erRpcUrl = erRpcUrl\<rparr>)))"

record DemoPrograms =
  pr_vaultProgramId :: pubkey
  pr_meProgramId :: pubkey
  pr_market :: pubkey
  pr_pythAccount :: pubkey
  pr_baseMint :: pubkey
  pr_quoteMint :: pubkey

definition parseDemoPrograms :: "decoders \<Rightarrow> json \<Rightarrow> js_error + DemoPrograms" where
  "parseDemoPrograms D cfg =
     rbind (rbind (cfg_string cfg ''vaultProgramId'') (publicKeyOf D)) (\<lambda>vaultProgramId.
     rbind (rbind (cfg_string cfg ''matchingEngineProgramId'') (publicKeyOf D)) (\<lambda>meProgramId.
     rbind (rbind (cfg_pubkey_of cfg ''market'') (publicKeyOf D)) (\<lambda>market.
     rbind (rbind (cfg_string cfg ''pythAccount'') (publicKeyOf D)) (\<lambda>pythAccount.
     rbind (rbind (cfg_pubkey_of cfg ''baseMint'') (publicKeyOf D)) (\<lambda>baseMint.
     rbind (rbind (cfg_pubkey_of cfg ''quoteMint'') (publicKeyOf D)) (\<lambda>quoteMint.
       Inr \<lparr>pr_vaultProgramId = vaultProgramId, pr_meProgramId = meProgramId, pr_market = market,
            pr_pythAccount = pythAccount, pr_baseMint = baseMint, pr_quoteMint = quoteMint\<rparr>))))))"

text \<open>What every route does first: the repository root, the configuration, the connections and the
  programs.\<close>

definition demo_setup :: "'w demo \<Rightarrow> js_error + 'w demo_connections \<times> DemoPrograms" where
  "demo_setup M =
     rbind (resolveRepoRoot (dm_host M)) (\<lambda>repoRoot.
     rbind (loadDemoE2eConfig (dm_host M) repoRoot) (\<lambda>cfg.
     rbind (getDemoConnections M cfg) (\<lambda>conns.
     rbind (parseDemoPrograms (dm_decoders M) cfg) (\<lambda>programs.
       Inr (conns, programs)))))"

section \<open>Properties\<close>

text \<open>The same process environment with another file system.\<close>

definition same_env :: "host \<Rightarrow> host \<Rightarrow> bool" where
  "same_env H H' \<longleftrightarrow> host_env H' = host_env H \<and> host_json_parse H' = host_json_parse H"

definition key_in_env :: "host \<Rightarrow> string \<Rightarrow> bool" where
  "key_in_env H b \<longleftrightarrow> env_set H (b @ ''_JSON'') \<noteq> None \<or> env_set H (b @ ''_BASE58'') \<noteq> None"

lemma same_env_simps:
  assumes "same_env H H'"
  shows "env_set H' n = env_set H n" "host_json_parse H' = host_json_parse H" "host_env H' = host_env H"
    "loadKeypairFromEnv H' D W b = loadKeypairFromEnv H D W b" "loadDemoMakerKeypair H' D W = loadDemoMakerKeypair H D W"
proof -
  have e: "env_set H' = env_set H" using assms by (intro ext) (simp add: same_env_def env_set_def)
  then show "env_set H' n = env_set H n" by simp
  show j: "host_json_parse H' = host_json_parse H" "host_env H' = host_env H" using assms by (simp_all add: same_env_def)
  have l: "loadKeypairFromEnv H' = loadKeypairFromEnv H" by (intro ext) (simp only: loadKeypairFromEnv_def e j)
  then show "loadKeypairFromEnv H' D W b = loadKeypairFromEnv H D W b" by simp
  show "loadDemoMakerKeypair H' D W = loadDemoMakerKeypair H D W" by (simp only: loadDemoMakerKeypair_def e l)
qed

lemma key_in_env_not_None: "key_in_env H b \<Longrightarrow> loadKeypairFromEnv H D W b \<noteq> Inr None"
  by (auto simp: key_in_env_def loadKeypairFromEnv_def rbind_eq_Inr split: option.splits sum.splits)

lemma loadKeypairFromEnvOrPath_env:
  assumes "same_env H H'" and "key_in_env H b"
  shows "loadKeypairFromEnvOrPath H' D W b root' p dflt = loadKeypairFromEnvOrPath H D W b root p dflt"
  using key_in_env_not_None [OF assms(2), of D W]
  by (cases "loadKeypairFromEnv H D W b") (auto simp: loadKeypairFromEnvOrPath_def same_env_simps [OF assms(1)])

text \<open>Deployment without a file system: when the environment gives the admin, funder and TEE keys, the
  keyring is the same, errors included, whatever the files and the repository root are (the maker's
  key is never read from disk); and with an inline configuration so is the configuration.\<close>

theorem keyring_from_env:
  assumes "same_env H H'" and "key_in_env H ''DEMO_ADMIN_KEYPAIR''" and "key_in_env H ''DEMO_FUNDER_KEYPAIR''"
    and "key_in_env H ''DEMO_TEE_KEYPAIR''" and "env_set H ''DEMO_E2E_CONFIG_JSON'' \<noteq> None"
  shows "loadDemoKeyring H' D W root' = loadDemoKeyring H D W root
     \<and> loadDemoE2eConfig H' root' = loadDemoE2eConfig H root"
proof
  show "loadDemoKeyring H' D W root' = loadDemoKeyring H D W root"
    by (simp only: loadDemoKeyring_def loadDemoAdminKeypair_def same_env_simps(5) [OF assms(1)]
        loadKeypairFromEnvOrPath_env [OF assms(1,2), where root = root] loadKeypairFromEnvOrPath_env [OF assms(1,3), where root = root]
        loadKeypairFromEnvOrPath_env [OF assms(1,4), where root = root])
  show "loadDemoE2eConfig H' root' = loadDemoE2eConfig H root"
    using assms(5) by (auto simp: loadDemoE2eConfig_def parseE2eConfig_def same_env_simps [OF assms(1)])
qed

definition sample_wallet :: wallet_lib where
  "sample_wallet = \<lparr>nacl_verify = (\<lambda>m s p. True), nacl_sign = (\<lambda>m sk. Inr (zeros 64)),
     nacl_fromSeed = (\<lambda>s. Inr (s, s @ s)),
     Keypair_fromSecretKey = (\<lambda>sk. Inr \<lparr>kp_publicKey = bytes_to_word (drop 32 sk), kp_secretKey = sk\<rparr>),
     getAssociatedTokenAddress = (\<lambda>m k. Inr (m + k)),
     createAtaIdempotent = (\<lambda>p a ow m. \<lparr>ix_programId = 3, ix_keys = [], ix_data = []\<rparr>),
     createMintTo = (\<lambda>m d a n. \<lparr>ix_programId = 4, ix_keys = [], ix_data = []\<rparr>),
     system_transfer = (\<lambda>a b n. \<lparr>ix_programId = 5, ix_keys = [], ix_data = []\<rparr>),
     setComputeUnitLimit = (\<lambda>n. \<lparr>ix_programId = 6, ix_keys = [], ix_data = []\<rparr>)\<rparr>"

text \<open>A host with every key and the configuration in the environment.\<close>

definition sample_config :: json where
  "sample_config = JObj [(''l1RpcUrl'', JStr ''http://l1''), (''vaultProgramId'', JStr ''9''), (''matchingEngineProgramId'', JStr ''8''),
     (''pythAccount'', JStr ''7''), (''market'', JObj [(''pubkey'', JStr ''6'')]),
     (''baseMint'', JObj [(''pubkey'', JStr ''1'')]), (''quoteMint'', JObj [(''pubkey'', JStr ''2'')])]"

definition sample_host :: host where
  "sample_host = \<lparr>host_env = (\<lambda>n. if n = ''DEMO_E2E_CONFIG_JSON'' then Some ''cfg''
       else if drop (length n - 5) n = ''_JSON'' then Some ''key'' else None),
     host_exists = (\<lambda>p. p = ''/repo/packages/sdk''), host_read = (\<lambda>p. Inl (newError ''ENOENT'')),
     host_json_parse = (\<lambda>s. Inr (if s = ''cfg'' then sample_config else json_bytes (zeros 64))),
     host_cwd = ''/repo'', host_homedir = ''/root''\<rparr>"

theorem keyring_from_env_witness:
  "\<exists>kr. loadDemoKeyring sample_host ref_decoders sample_wallet ''/repo'' = Inr kr
     \<and> loadDemoKeyring (sample_host \<lparr>host_read := (\<lambda>p. Inr ''other'')\<rparr>) ref_decoders sample_wallet ''/elsewhere'' = Inr kr"
proof -
  let ?H' = "sample_host \<lparr>host_read := (\<lambda>p. Inr ''other'')\<rparr>"
  have env: "same_env sample_host ?H'" by (simp add: same_env_def sample_host_def)
  have tr: "trim ''key'' = ''key''" "trim ''cfg'' = ''cfg''" by (simp_all add: trim_def is_space_def)
  have k: "key_in_env sample_host ''DEMO_ADMIN_KEYPAIR''" "key_in_env sample_host ''DEMO_FUNDER_KEYPAIR''"
      "key_in_env sample_host ''DEMO_TEE_KEYPAIR''" "env_set sample_host ''DEMO_E2E_CONFIG_JSON'' \<noteq> None"
    by (simp_all add: key_in_env_def env_set_def sample_host_def tr)
  have "loadKeypairFromEnv sample_host ref_decoders sample_wallet b
      = Inr (Some \<lparr>kp_publicKey = bytes_to_word (drop 32 (zeros 64)), kp_secretKey = zeros 64\<rparr>)"
    if "b \<in> {''DEMO_ADMIN_KEYPAIR'', ''DEMO_FUNDER_KEYPAIR'', ''DEMO_TEE_KEYPAIR'', ''DEMO_MAKER_KEYPAIR''}" for b
    using that by (auto simp: loadKeypairFromEnv_def env_set_def sample_host_def tr keypair_of_json_def json_bytes_def
        list_all_iff sample_wallet_def zeros_def)
  then have "\<exists>kr. loadDemoKeyring sample_host ref_decoders sample_wallet ''/repo'' = Inr kr"
    by (simp add: loadDemoKeyring_def loadDemoAdminKeypair_def loadKeypairFromEnvOrPath_def loadDemoMakerKeypair_def)
  then show ?thesis
    using keyring_from_env [OF env k, of ref_decoders sample_wallet "''/elsewhere''" "''/repo''"] by auto
qed

end
