(* ===== verification/Nyx_Demo_Withdraw.thy ===== *)
theory Nyx_Demo_Withdraw
  imports Nyx_Demo_Env Nyx_Spend
begin

unbundle bit_operations_syntax

text \<open>
  The deposit and withdrawal routes of the demo (\<open>apps/demo/src/app/api/dapp\<close>: \<open>private-deposit\<close>,
  \<open>withdraw-prepare\<close>, \<open>trade-withdraw-prepare\<close>, \<open>withdraw-finalize\<close>) and the part of their panels that
  hands the answer to the prover. A request body is the record of the route's type cast, with
  \<open>None\<close> for a missing member; numbers that come from a 64-bit leaf count are kept exact.

  The proofs are in \<open>Nyx_Demo_Spend\<close> (what the routes read and answer), \<open>Nyx_Demo_Panel\<close> (private deposits) and
  \<open>Nyx_Demo_Trade\<close> (trade notes).
\<close>

section \<open>The vault account as bytes\<close>

definition VAULT_LEAF_COUNT_OFFSET :: nat where "VAULT_LEAF_COUNT_OFFSET = 8 + 32 + 32 + 32"
definition VAULT_CURRENT_ROOT_OFFSET :: nat where "VAULT_CURRENT_ROOT_OFFSET = VAULT_LEAF_COUNT_OFFSET + 8"
definition VAULT_ROOTS_OFFSET :: nat where "VAULT_ROOTS_OFFSET = VAULT_CURRENT_ROOT_OFFSET + 32"
definition VAULT_ROOT_HISTORY_SIZE :: nat where "VAULT_ROOT_HISTORY_SIZE = 32"
definition RIGHT_PATH_OFFSET :: nat where "RIGHT_PATH_OFFSET = 1808"

definition readVaultRoots :: "bytes \<Rightarrow> bytes \<times> bytes list" where
  "readVaultRoots data =
     (slice data VAULT_CURRENT_ROOT_OFFSET 32,
      filter (\<lambda>r. \<not> isZero32 r) (map (\<lambda>i. slice data (VAULT_ROOTS_OFFSET + i * 32) 32) [0..<VAULT_ROOT_HISTORY_SIZE]))"

definition rootMatches :: "bytes \<Rightarrow> bytes \<Rightarrow> bool" where
  "rootMatches witnessRoot target \<longleftrightarrow>
     length witnessRoot = length target \<and> list_all (\<lambda>i. witnessRoot ! i = target ! i) [0..<length witnessRoot]"

datatype root_match = MatchCurrent | MatchRing nat

fun ring_index :: "bytes \<Rightarrow> bytes list \<Rightarrow> nat \<Rightarrow> nat option" where
  "ring_index r [] i = None"
| "ring_index r (t # ring) i = (if rootMatches r t then Some i else ring_index r ring (Suc i))"

definition findMatchingRoot :: "bytes \<Rightarrow> bytes \<Rightarrow> bytes list \<Rightarrow> root_match option" where
  "findMatchingRoot witnessRoot current ring =
     (if rootMatches witnessRoot current then Some MatchCurrent
      else map_option MatchRing (ring_index witnessRoot ring 0))"

definition beBytesToBigInt :: "bytes \<Rightarrow> int" where
  "beBytesToBigInt x = foldl (\<lambda>acc b. push_bit 8 acc OR uint b) 0 x"

definition route_hexToBytes :: "string \<Rightarrow> bytes" where
  "route_hexToBytes hex = hex_decode (strip_0x hex)"

section \<open>Private deposit\<close>

record private_deposit_body =
  pdb_phantomSignatureBase58 :: "string option"
  pdb_ownerPubkeyBase58 :: "string option"
  pdb_side :: "string option"
  pdb_amount :: "string option"
  pdb_nonce :: "string option"

record deposit_tracking =
  trk_leafIndex :: string
  trk_priorLeafCount :: string
  trk_priorRightPathHex :: "string list"
  trk_commitmentHex :: string
  trk_nonce :: string
  trk_blindingR :: string
  trk_amount :: string
  trk_side :: string
  trk_tokenMintBase58 :: string

record private_deposit_reply =
  pdr_instructions :: "InstructionJson list"
  pdr_tracking :: deposit_tracking

definition vault_info :: "lib \<Rightarrow> 'w rpc \<Rightarrow> pubkey \<Rightarrow> ('w, js_error, bytes) io" where
  "vault_info L l1 vaultProgramId =
     io_bind (io_of (vaultConfigPda L vaultProgramId)) (\<lambda>(vaultPda, _).
     io_bind (rpc_getAccountInfo l1 vaultPda) (\<lambda>info.
       case info of None \<Rightarrow> io_throw (newError ''vault_config missing on L1'')
       | Some i \<Rightarrow> io_return (ai_data i)))"

definition private_deposit_note :: "lib \<Rightarrow> bytes \<Rightarrow> pubkey \<Rightarrow> int \<Rightarrow> int \<Rightarrow> int \<Rightarrow> Note" where
  "private_deposit_note L seed tokenMint amount nonce leafCount =
     \<lparr>nt_tokenMint = toBytes tokenMint, nt_amount = amount,
      nt_ownerCommitment = ownerCommitment L (deriveSpendingKey L seed) (deriveBlindingFactor L seed 0),
      nt_nonce = nonce, nt_blindingR = deriveBlindingFactor L seed leafCount\<rparr>"

definition private_deposit_POST ::
    "lib \<Rightarrow> 'w demo \<Rightarrow> private_deposit_body \<Rightarrow> 'w \<Rightarrow> private_deposit_reply reply \<times> 'w" where
  "private_deposit_POST L M body = route (
     if absent (pdb_phantomSignatureBase58 body) \<or> absent (pdb_ownerPubkeyBase58 body)
        \<or> absent (pdb_side body) \<or> absent (pdb_amount body)
     then bad_request ''missing phantomSignatureBase58, ownerPubkeyBase58, side, or amount''
     else
     let D = dm_decoders M; W = dm_wallet M; ownerText = the (pdb_ownerPubkeyBase58 body); side = the (pdb_side body) in
     io_bind (io_of (verifyPhantomSeedSignature L D W (the (pdb_phantomSignatureBase58 body)) ownerText)) (\<lambda>vo.
     let seed = vo_seed vo in
     io_bind (io_of (js_BigInt (the (pdb_amount body)))) (\<lambda>amount.
     if amount \<le> 0 then bad_request ''amount must be > 0''
     else
     io_bind (\<lambda>w. (case pdb_nonce body of Some n \<Rightarrow> js_BigInt n | None \<Rightarrow> Inr (dm_now M w), w)) (\<lambda>nonce.
     io_bind (io_of (demo_setup M)) (\<lambda>(conns, programs).
     let tokenMint = (if side = ''base'' then pr_baseMint programs else pr_quoteMint programs) in
     io_bind (vault_info L (dcn_l1 conns) (pr_vaultProgramId programs)) (\<lambda>data.
     io_bind (io_of (getBigUint64 data 104)) (\<lambda>leafCount.
     let priorRightPath = map (\<lambda>i. bytes_hex (slice data (RIGHT_PATH_OFFSET + i * 32) 32)) [0..<MERKLE_DEPTH];
         note = private_deposit_note L seed tokenMint amount nonce leafCount in
     io_bind (io_of (noteCommitment L note)) (\<lambda>commitment.
     io_bind (io_of (bn254ToBE32 (nt_ownerCommitment note))) (\<lambda>ownerBytes.
     io_bind (io_of (bn254ToBE32 nonce)) (\<lambda>nonceBytes.
     io_bind (io_of (bn254ToBE32 (nt_blindingR note))) (\<lambda>blindingBytes.
     io_bind (io_of (publicKeyOf D (Some ownerText))) (\<lambda>depositor.
     io_bind (io_of (getAssociatedTokenAddress W tokenMint depositor)) (\<lambda>ata.
     let createAtaIx = createAtaIdempotent W depositor ata depositor tokenMint in
     io_bind (io_of (buildDepositInstruction L
       \<lparr>dp_programId = pr_vaultProgramId programs, dp_depositor = depositor, dp_tokenMint = tokenMint,
        dp_depositorTokenAccount = ata, dp_tokenProgramId = TOKEN_PROGRAM_ID L, dp_amount = amount,
        dp_ownerCommitment = ownerBytes, dp_nonce = nonceBytes, dp_blindingR = blindingBytes\<rparr>)) (\<lambda>ix.
     io_return (ReplyOk
       \<lparr>pdr_instructions = [instructionToJson L createAtaIx, instructionToJson L ix],
        pdr_tracking = \<lparr>trk_leafIndex = bigint_toString leafCount, trk_priorLeafCount = bigint_toString leafCount,
          trk_priorRightPathHex = priorRightPath, trk_commitmentHex = bytes_hex commitment,
          trk_nonce = bigint_toString nonce, trk_blindingR = bigint_toString (nt_blindingR note),
          trk_amount = bigint_toString amount, trk_side = side,
          trk_tokenMintBase58 = pubkey_toBase58 L tokenMint\<rparr>\<rparr>)))))))))))))))"

section \<open>Prover inputs\<close>

record ProverInputsJson =
  pij_merkleRoot :: string
  pij_nullifier :: string
  pij_tokenMint :: "string \<times> string"
  pij_amount :: string
  pij_spendingKey :: string
  pij_ownerCommitmentBlinding :: string
  pij_nonce :: string
  pij_blindingR :: string
  pij_merklePath :: "string list"
  pij_merkleIndices :: "string list"

record IxContext =
  ic_commitmentHex :: string
  ic_nullifierHex :: string
  ic_merkleRootHex :: string
  ic_ownerCommitmentHex :: string

definition prover_inputs_json ::
    "MerkleWitness \<Rightarrow> bytes \<Rightarrow> int \<times> int \<Rightarrow> int \<Rightarrow> int \<Rightarrow> int \<Rightarrow> int \<Rightarrow> int \<Rightarrow> ProverInputsJson" where
  "prover_inputs_json w nullifierBytes mint amount spendingKey ownerBlinding nonce blindingR =
     \<lparr>pij_merkleRoot = bigint_toString (beBytesToBigInt (mw_root w)),
      pij_nullifier = bigint_toString (beBytesToBigInt nullifierBytes),
      pij_tokenMint = (bigint_toString (fst mint), bigint_toString (snd mint)),
      pij_amount = bigint_toString amount, pij_spendingKey = bigint_toString spendingKey,
      pij_ownerCommitmentBlinding = bigint_toString ownerBlinding, pij_nonce = bigint_toString nonce,
      pij_blindingR = bigint_toString blindingR,
      pij_merklePath = map (\<lambda>s. bigint_toString (beBytesToBigInt s)) (mw_siblings w),
      pij_merkleIndices = map bigint_toString (mw_indices w)\<rparr>"

text \<open>What the panels make of it: \<open>BigInt\<close> of every field (\<open>Number\<close> for the indices, which are
  decimal digits).\<close>

definition panel_spend_inputs :: "ProverInputsJson \<Rightarrow> js_error + SpendInputs" where
  "panel_spend_inputs j =
     rbind (js_BigInt (pij_merkleRoot j)) (\<lambda>merkleRoot.
     rbind (js_BigInt (pij_nullifier j)) (\<lambda>nullifierInt.
     rbind (js_BigInt (fst (pij_tokenMint j))) (\<lambda>m0.
     rbind (js_BigInt (snd (pij_tokenMint j))) (\<lambda>m1.
     rbind (js_BigInt (pij_amount j)) (\<lambda>amount.
     rbind (js_BigInt (pij_spendingKey j)) (\<lambda>spendingKey.
     rbind (js_BigInt (pij_ownerCommitmentBlinding j)) (\<lambda>ocb.
     rbind (js_BigInt (pij_nonce j)) (\<lambda>nonce.
     rbind (js_BigInt (pij_blindingR j)) (\<lambda>blindingR.
     rbind (rmapM js_BigInt (pij_merklePath j)) (\<lambda>path.
     rbind (rmapM js_BigInt (pij_merkleIndices j)) (\<lambda>indices.
       Inr \<lparr>si_merkleRoot = merkleRoot, si_nullifier = nullifierInt, si_tokenMint = (m0, m1), si_amount = amount,
            si_spendingKey = spendingKey, si_ownerCommitmentBlinding = ocb, si_nonce = nonce,
            si_blindingR = blindingR, si_merklePath = path, si_merkleIndices = indices\<rparr>)))))))))))"

section \<open>Withdrawal of the last deposit\<close>

record withdraw_prepare_body =
  wpb_phantomSignatureBase58 :: "string option"
  wpb_ownerPubkeyBase58 :: "string option"
  wpb_tokenMintBase58 :: "string option"
  wpb_amount :: "string option"
  wpb_nonce :: "string option"
  wpb_blindingR :: "string option"
  wpb_leafIndex :: "string option"
  wpb_priorRightPathHex :: "string list option"

record withdraw_prepare_reply =
  wpr_proverInputs :: ProverInputsJson
  wpr_ixContext :: IxContext

definition withdraw_prepare_POST ::
    "lib \<Rightarrow> 'w demo \<Rightarrow> withdraw_prepare_body \<Rightarrow> 'w \<Rightarrow> withdraw_prepare_reply reply \<times> 'w" where
  "withdraw_prepare_POST L M body = route (
     if absent (wpb_phantomSignatureBase58 body) \<or> absent (wpb_ownerPubkeyBase58 body)
        \<or> absent (wpb_tokenMintBase58 body) \<or> absent (wpb_amount body) \<or> absent (wpb_nonce body)
        \<or> absent (wpb_blindingR body) \<or> wpb_leafIndex body = None \<or> wpb_priorRightPathHex body = None
        \<or> length (the (wpb_priorRightPathHex body)) \<noteq> MERKLE_DEPTH
     then bad_request ''missing or malformed withdraw-prepare fields''
     else
     let D = dm_decoders M; W = dm_wallet M in
     io_bind (io_of (verifyPhantomSeedSignature L D W (the (wpb_phantomSignatureBase58 body)) (the (wpb_ownerPubkeyBase58 body)))) (\<lambda>vo.
     let seed = vo_seed vo in
     io_bind (io_of (demo_setup M)) (\<lambda>(conns, programs).
     io_bind (io_of (publicKeyOf D (wpb_tokenMintBase58 body))) (\<lambda>tokenMint.
     io_bind (io_of (js_BigInt (the (wpb_amount body)))) (\<lambda>amount.
     io_bind (io_of (js_BigInt (the (wpb_nonce body)))) (\<lambda>nonce.
     io_bind (io_of (js_BigInt (the (wpb_blindingR body)))) (\<lambda>blindingR.
     io_bind (io_of (js_BigInt (the (wpb_leafIndex body)))) (\<lambda>leafIndex.
     let spendingKey = deriveSpendingKey L seed; ownerBlinding = deriveBlindingFactor L seed 0;
         owner = ownerCommitment L spendingKey ownerBlinding in
     io_bind (io_of (noteCommitment L \<lparr>nt_tokenMint = toBytes tokenMint, nt_amount = amount,
         nt_ownerCommitment = owner, nt_nonce = nonce, nt_blindingR = blindingR\<rparr>)) (\<lambda>commitment.
     io_bind (vault_info L (dcn_l1 conns) (pr_vaultProgramId programs)) (\<lambda>data.
     io_bind (io_of (getBigUint64 data 104)) (\<lambda>liveLeafCount.
     if liveLeafCount \<noteq> leafIndex + 1
     then io_return (ReplyError 409 (''vault leaf_count moved since deposit (live='' @ bigint_toString liveLeafCount
            @ '', expected='' @ bigint_toString (leafIndex + 1)
            @ ''). Demo withdraw needs your deposit to be the most-recent leaf.'') None)
     else
     let priorRightPath = map route_hexToBytes (the (wpb_priorRightPathHex body)) in
     io_bind (io_of (witnessFromPriorRightPath L commitment leafIndex priorRightPath)) (\<lambda>witness.
     if slice data 112 32 \<noteq> mw_root witness
     then io_return (ReplyError 409 (''computed Merkle root does not match on-chain current_root '' @ em_dash
            @ '' your deposit may not have landed yet, or another append slipped in.'') None)
     else
     io_bind (io_of (nullifier L spendingKey commitment)) (\<lambda>nullifierBytes.
     io_bind (io_of (pubkeyToFrPair (toBytes tokenMint))) (\<lambda>mint.
     io_bind (io_of (bn254ToBE32 owner)) (\<lambda>ownerBytes.
     io_return (ReplyOk
       \<lparr>wpr_proverInputs = prover_inputs_json witness nullifierBytes mint amount spendingKey ownerBlinding nonce blindingR,
        wpr_ixContext = \<lparr>ic_commitmentHex = bytes_hex commitment, ic_nullifierHex = bytes_hex nullifierBytes,
          ic_merkleRootHex = bytes_hex (mw_root witness), ic_ownerCommitmentHex = bytes_hex ownerBytes\<rparr>\<rparr>))))))))))))))))"

section \<open>Withdrawal of a settled trade note\<close>

fun shadow_append_all :: "lib \<Rightarrow> bytes list \<Rightarrow> MerkleShadow \<Rightarrow> js_error + MerkleShadow" where
  "shadow_append_all L [] t = Inr t"
| "shadow_append_all L (leaf # rest) t =
     (case shadow_append L leaf t of (Inl e, _) \<Rightarrow> Inl e | (Inr _, t') \<Rightarrow> shadow_append_all L rest t')"

definition buildWitnessForPrefix :: "lib \<Rightarrow> bytes list \<Rightarrow> int \<Rightarrow> js_error + MerkleWitness" where
  "buildWitnessForPrefix L leaves leafIndex =
     rbind (shadow_create L) (\<lambda>shadow.
     rbind (shadow_append_all L leaves shadow) (\<lambda>shadow'.
       shadow_witness L shadow' leafIndex))"

record chosen_witness =
  cw_witness :: MerkleWitness
  cw_matchedAs :: string
  cw_prefixUsed :: int

definition matched_as :: "root_match \<Rightarrow> nat \<Rightarrow> string" where
  "matched_as m ringLength =
     (case m of MatchCurrent \<Rightarrow> ''current_root''
      | MatchRing i \<Rightarrow> ''roots['' @ nat_toString i @ ''] (historical, '' @ bigint_toString (int ringLength - int i) @ '' back)'')"

text \<open>The loop over the prefixes, from the live leaf count down to the note's own leaf.\<close>

function prefix_loop :: "lib \<Rightarrow> bytes list \<Rightarrow> int \<Rightarrow> bytes \<Rightarrow> bytes list \<Rightarrow> int \<Rightarrow> int \<Rightarrow> int list
    \<Rightarrow> js_error + chosen_witness option \<times> int list" where
  "prefix_loop L leaves leafIndex current ring targetCount prefix tried =
     (if prefix < leafIndex + 1 then Inr (None, tried)
      else
        rbind (buildWitnessForPrefix L (take (nat prefix) leaves) leafIndex) (\<lambda>witness.
        case findMatchingRoot (mw_root witness) current ring of
          Some m \<Rightarrow> Inr (Some \<lparr>cw_witness = witness, cw_matchedAs = matched_as m (length ring), cw_prefixUsed = prefix\<rparr>,
                       tried @ [prefix])
        | None \<Rightarrow>
            if targetCount - prefix > int VAULT_ROOT_HISTORY_SIZE + 1 then Inr (None, tried @ [prefix])
            else prefix_loop L leaves leafIndex current ring targetCount (prefix - 1) (tried @ [prefix])))"
  by pat_completeness auto
termination
  by (relation "measure (\<lambda>(L, leaves, leafIndex, current, ring, target, prefix, tried). nat (prefix - leafIndex))") auto

declare prefix_loop.simps [simp del]

record trade_withdraw_body =
  twb_phantomSignatureBase58 :: "string option"
  twb_ownerPubkeyBase58 :: "string option"
  twb_ownerCommitmentHex :: "string option"
  twb_matchId :: "string option"
  twb_tokenMintBase58 :: "string option"
  twb_amount :: "string option"
  twb_nonce :: "string option"
  twb_blindingR :: "string option"
  twb_leafIndex :: "string option"
  twb_commitmentHex :: "string option"
  twb_maxSignatures :: "nat option"

record replay_info =
  ri_liveLeafCount :: string
  ri_replayedLeafCount :: nat
  ri_prefixUsed :: int
  ri_matchedAs :: string

record trade_withdraw_reply =
  twr_proverInputs :: ProverInputsJson
  twr_ixContext :: IxContext
  twr_replayInfo :: replay_info

definition twb_incomplete :: "trade_withdraw_body \<Rightarrow> bool" where
  "twb_incomplete body \<longleftrightarrow>
     absent (twb_phantomSignatureBase58 body) \<or> absent (twb_ownerPubkeyBase58 body)
     \<or> absent (twb_ownerCommitmentHex body) \<or> twb_matchId body = None \<or> absent (twb_tokenMintBase58 body)
     \<or> absent (twb_amount body) \<or> absent (twb_nonce body) \<or> absent (twb_blindingR body)
     \<or> twb_leafIndex body = None \<or> absent (twb_commitmentHex body)"

text \<open>The two refusals with diagnostics. \<open>sampleReplayedHex\<close> slices from \<open>max(0, leafIndex - 2)\<close> and
  numbers its entries from \<open>leafIndex - 2\<close>.\<close>

definition leaf_mismatch_reply :: "int \<Rightarrow> bytes \<Rightarrow> bytes \<Rightarrow> int \<Rightarrow> 'a reply" where
  "leaf_mismatch_reply leafIndex replayed recomputed liveLeafCount =
     ReplyError 409 (''Replayed leaf at note_c index does not match the recomputed note_c commitment. ''
       @ ''Either the on-chain leaf at this index is a different note or the RPC replay parsed it incorrectly.'')
       (Some (JObj [(''leafIndex'', JStr (bigint_toString leafIndex)), (''replayedHex'', JStr (bytes_hex replayed)),
          (''recomputedHex'', JStr (bytes_hex recomputed)), (''liveLeafCount'', JStr (bigint_toString liveLeafCount))]))"

definition no_root_reply :: "int \<Rightarrow> int \<Rightarrow> bytes list \<Rightarrow> int list \<Rightarrow> bytes \<Rightarrow> bytes list \<Rightarrow> 'a reply" where
  "no_root_reply liveLeafCount leafIndex leaves tried current ring =
     ReplyError 409 (''Witness root not found in vault root history (current_root '' @ [char_of (226 :: nat), char_of (136 :: nat), char_of (170 :: nat)]
       @ '' roots[]). RPC replay likely missed or mis-ordered a leaf, OR more than 32 leaves were added ''
       @ ''after your trade settled and your note has aged out of the on-chain ring.'')
       (Some (JObj [(''liveLeafCount'', JStr (bigint_toString liveLeafCount)), (''leafIndex'', JStr (bigint_toString leafIndex)),
          (''replayedLeafCount'', JNum (int (length leaves))), (''triedPrefixes'', JList (map JNum tried)),
          (''ringSize'', JNum (int (length ring))), (''currentRootHex'', JStr (bytes_hex current)),
          (''recentRingHex'', JList (map (\<lambda>r. JStr (bytes_hex r)) (take 8 ring))),
          (''sampleReplayedHex'', JList (map (\<lambda>(i, l). JObj [(''idx'', JNum (leafIndex - 2 + int i)), (''hex'', JStr (bytes_hex l))])
             (enumerate 0 (drop (nat (leafIndex - 2)) (take (nat (leafIndex + 4)) leaves)))))]))"

definition trade_withdraw_POST ::
    "lib \<Rightarrow> 'w demo \<Rightarrow> trade_withdraw_body \<Rightarrow> 'w \<Rightarrow> trade_withdraw_reply reply \<times> 'w" where
  "trade_withdraw_POST L M body = route (
     if twb_incomplete body then bad_request ''missing trade-withdraw-prepare fields''
     else
     let D = dm_decoders M; W = dm_wallet M in
     io_bind (io_of (verifyPhantomSeedSignature L D W (the (twb_phantomSignatureBase58 body)) (the (twb_ownerPubkeyBase58 body)))) (\<lambda>vo.
     let seed = vo_seed vo in
     io_bind (io_of (demo_setup M)) (\<lambda>(conns, programs).
     io_bind (io_of (publicKeyOf D (twb_tokenMintBase58 body))) (\<lambda>tokenMint.
     if tokenMint \<noteq> pr_baseMint programs then bad_request ''only BASE mint (buyer trade leg) is supported''
     else
     let spendingKey = deriveSpendingKey L seed; ownerBlinding = deriveBlindingFactor L seed 0;
         owner = ownerCommitment L spendingKey ownerBlinding in
     io_bind (io_of (bn254ToBE32 owner)) (\<lambda>ownerBytes.
     if toLowerCase (bytes_hex ownerBytes) \<noteq> toLowerCase (strip_0x (the (twb_ownerCommitmentHex body)))
     then bad_request ''ownerCommitmentHex does not match derived identity''
     else
     io_bind (io_of (js_BigInt (the (twb_matchId body)))) (\<lambda>matchId.
     io_bind (io_of (js_BigInt (the (twb_amount body)))) (\<lambda>amount.
     io_bind (io_of (js_BigInt (the (twb_nonce body)))) (\<lambda>nonce.
     io_bind (io_of (js_BigInt (the (twb_blindingR body)))) (\<lambda>blindingR.
     io_bind (io_of (js_BigInt (the (twb_leafIndex body)))) (\<lambda>leafIndex.
     if be32ToBigInt (deriveNonce L matchId TRADE_ROLE_BUYER) \<noteq> Inr nonce
        \<or> be32ToBigInt (deriveBlinding L matchId TRADE_ROLE_BUYER) \<noteq> Inr blindingR
     then bad_request ''nonce/blindingR do not match deterministic trade-note derivation for matchId''
     else
     io_bind (io_of (noteCommitment L \<lparr>nt_tokenMint = toBytes tokenMint, nt_amount = amount,
         nt_ownerCommitment = owner, nt_nonce = nonce, nt_blindingR = blindingR\<rparr>)) (\<lambda>recomputed.
     if toLowerCase (bytes_hex recomputed) \<noteq> toLowerCase (strip_0x (the (twb_commitmentHex body)))
     then bad_request ''commitmentHex does not match recomputed note_c for this match''
     else
     io_bind (vault_info L (dcn_l1 conns) (pr_vaultProgramId programs)) (\<lambda>data.
     io_bind (io_of (getBigUint64 data VAULT_LEAF_COUNT_OFFSET)) (\<lambda>liveLeafCount.
     if leafIndex \<ge> liveLeafCount
     then bad_request (''leafIndex '' @ bigint_toString leafIndex @ '' out of range (leaf_count='' @ bigint_toString liveLeafCount @ '')'')
     else
     let (liveCurrentRoot, liveRoots) = readVaultRoots data; targetCount = nat liveLeafCount in
     io_bind (collectVaultLeavesOrdered L D (connection.truncate (dcn_l1 conns)) (pr_vaultProgramId programs) targetCount
         (Some (case twb_maxSignatures body of Some m \<Rightarrow> m | None \<Rightarrow> 10000))) (\<lambda>leaves.
     if 0 \<le> leafIndex \<and> nat leafIndex < length leaves \<and> leaves ! nat leafIndex \<noteq> recomputed
     then io_return (leaf_mismatch_reply leafIndex (leaves ! nat leafIndex) recomputed liveLeafCount)
     else
     io_bind (io_of (prefix_loop L leaves leafIndex liveCurrentRoot liveRoots (int targetCount) (int targetCount) [])) (\<lambda>(chosen, tried).
     case chosen of
       None \<Rightarrow> io_return (no_root_reply liveLeafCount leafIndex leaves tried liveCurrentRoot liveRoots)
     | Some ch \<Rightarrow>
         let witness = cw_witness ch in
         io_bind (io_of (nullifier L spendingKey recomputed)) (\<lambda>nullifierBytes.
         io_bind (io_of (pubkeyToFrPair (toBytes tokenMint))) (\<lambda>mint.
         io_return (ReplyOk
           \<lparr>twr_proverInputs = prover_inputs_json witness nullifierBytes mint amount spendingKey ownerBlinding nonce blindingR,
            twr_ixContext = \<lparr>ic_commitmentHex = bytes_hex recomputed, ic_nullifierHex = bytes_hex nullifierBytes,
              ic_merkleRootHex = bytes_hex (mw_root witness), ic_ownerCommitmentHex = bytes_hex ownerBytes\<rparr>,
            twr_replayInfo = \<lparr>ri_liveLeafCount = bigint_toString liveLeafCount, ri_replayedLeafCount = length leaves,
              ri_prefixUsed = cw_prefixUsed ch, ri_matchedAs = cw_matchedAs ch\<rparr>\<rparr>))))))))))))))))))"

section \<open>The withdrawal instruction\<close>

record withdraw_finalize_body =
  wfb_phantomSignatureBase58 :: "string option"
  wfb_ownerPubkeyBase58 :: "string option"
  wfb_tokenMintBase58 :: "string option"
  wfb_amount :: "string option"
  wfb_commitmentHex :: "string option"
  wfb_nullifierHex :: "string option"
  wfb_merkleRootHex :: "string option"
  wfb_piA :: "string option"
  wfb_piB :: "string option"
  wfb_piC :: "string option"

record withdraw_finalize_reply =
  wfr_instruction :: InstructionJson
  wfr_destAtaBase58 :: string

definition withdraw_finalize_POST ::
    "lib \<Rightarrow> 'w demo \<Rightarrow> withdraw_finalize_body \<Rightarrow> 'w \<Rightarrow> withdraw_finalize_reply reply \<times> 'w" where
  "withdraw_finalize_POST L M body = route (
     if absent (wfb_phantomSignatureBase58 body) \<or> absent (wfb_ownerPubkeyBase58 body) \<or> absent (wfb_tokenMintBase58 body)
        \<or> absent (wfb_amount body) \<or> absent (wfb_commitmentHex body) \<or> absent (wfb_nullifierHex body)
        \<or> absent (wfb_merkleRootHex body) \<or> absent (wfb_piA body) \<or> absent (wfb_piB body) \<or> absent (wfb_piC body)
     then bad_request ''missing or malformed withdraw-finalize fields''
     else
     let D = dm_decoders M; W = dm_wallet M in
     io_bind (io_of (verifyPhantomSeedSignature L D W (the (wfb_phantomSignatureBase58 body)) (the (wfb_ownerPubkeyBase58 body)))) (\<lambda>vo.
     io_bind (io_of (resolveRepoRoot (dm_host M))) (\<lambda>repoRoot.
     io_bind (io_of (loadDemoE2eConfig (dm_host M) repoRoot)) (\<lambda>cfg.
     io_bind (io_of (parseDemoPrograms D cfg)) (\<lambda>programs.
     io_bind (io_of (publicKeyOf D (wfb_ownerPubkeyBase58 body))) (\<lambda>owner.
     io_bind (io_of (publicKeyOf D (wfb_tokenMintBase58 body))) (\<lambda>tokenMint.
     io_bind (io_of (getAssociatedTokenAddress W tokenMint owner)) (\<lambda>destAta.
     io_bind (io_of (js_BigInt (the (wfb_amount body)))) (\<lambda>amount.
     io_bind (io_of (buildWithdrawInstruction L
       \<lparr>wd_programId = pr_vaultProgramId programs, wd_payer = owner, wd_tokenMint = tokenMint,
        wd_destinationTokenAccount = destAta, wd_tokenProgramId = TOKEN_PROGRAM_ID L,
        wd_noteCommitment = route_hexToBytes (the (wfb_commitmentHex body)),
        wd_nullifier = route_hexToBytes (the (wfb_nullifierHex body)),
        wd_merkleRoot = route_hexToBytes (the (wfb_merkleRootHex body)), wd_amount = amount,
        wd_proof = \<lparr>piA = route_hexToBytes (the (wfb_piA body)), piB = route_hexToBytes (the (wfb_piB body)),
                    piC = route_hexToBytes (the (wfb_piC body))\<rparr>\<rparr>)) (\<lambda>ix.
     io_return (ReplyOk \<lparr>wfr_instruction = instructionToJson L ix, wfr_destAtaBase58 = pubkey_toBase58 L destAta\<rparr>)))))))))))"

end
