(* ===== verification/Nyx_Demo_Spend.thy ===== *)
theory Nyx_Demo_Spend
  imports Nyx_Demo_Withdraw
begin

text \<open>
  Correctness of the deposit and withdrawal routes of \<open>Nyx_Demo_Withdraw\<close> against the vault account
  (\<open>Nyx_Vault_Tree\<close>), the circuit (\<open>Nyx_Spend\<close>) and the replay (\<open>Nyx_History\<close>).
\<close>

section \<open>Reading the account\<close>

text \<open>The bytes of a vault account: the discriminator and three keys (104 bytes), then the fields in
  the order of \<open>VaultConfig\<close> in \<open>programs/vault/src/state.rs\<close>.\<close>

definition vault_data :: "VaultConfig \<Rightarrow> bytes \<Rightarrow> bool" where
  "vault_data v data \<longleftrightarrow>
     (\<exists>pre post. length pre = 104 \<and>
        data = pre @ u64LE (int (vc_leaf_count v)) @ vc_current_root v @ concat (vc_roots v)
             @ concat (vc_zero_subtree_roots v) @ concat (vc_right_path v) @ post)
     \<and> vc_leaf_count v < 2 ^ 64 \<and> length (vc_current_root v) = 32
     \<and> length (vc_roots v) = 32 \<and> list_all (\<lambda>r. length r = 32) (vc_roots v)
     \<and> length (vc_zero_subtree_roots v) = 20 \<and> list_all (\<lambda>r. length r = 32) (vc_zero_subtree_roots v)
     \<and> length (vc_right_path v) = 20 \<and> list_all (\<lambda>r. length r = 32) (vc_right_path v)"

lemma beBytesToBigInt_eq: "beBytesToBigInt = be_to_int"
  by (rule ext) (simp add: beBytesToBigInt_def be_to_int_def)

lemma rootMatches_iff [simp]: "rootMatches a b \<longleftrightarrow> a = b"
  by (auto simp: rootMatches_def list_all_iff intro: nth_equalityI)

lemma ring_index_eq: "ring_index r ring i = (if r \<in> set ring then ring_index r ring i else None)"
  by (induction ring arbitrary: i) auto

lemma findMatchingRoot_Some: "findMatchingRoot r current ring = Some m \<Longrightarrow> r = current \<or> r \<in> set ring"
  using ring_index_eq [of r ring 0] by (auto simp: findMatchingRoot_def split: if_splits)

lemma length_concat_32: "list_all (\<lambda>r. length r = 32) rs \<Longrightarrow> length (concat rs) = length rs * 32"
  by (induction rs) simp_all

lemma slice_concat_32:
  "list_all (\<lambda>r. length r = 32) rs \<Longrightarrow> i < length rs \<Longrightarrow> slice (concat rs @ post) (i * 32) 32 = rs ! i"
proof (induction rs arbitrary: i)
  case (Cons r rs)
  then show ?case by (cases i) (simp_all add: wire_simps)
qed simp

lemma map_slice_concat_32:
  assumes "list_all (\<lambda>r. length r = 32) rs" and "length rs = n" and "length pre = off"
  shows "map (\<lambda>i. slice (pre @ concat rs @ post) (off + i * 32) 32) [0..<n] = rs"
proof -
  have "slice (pre @ concat rs @ post) (off + i * 32) 32 = rs ! i" if "i < n" for i
    using slice_concat_32 [OF assms(1), of i post] that assms(2,3) by (simp add: wire_simps)
  then show ?thesis using assms(2) by (intro nth_equalityI) simp_all
qed

lemma vault_data_reads:
  assumes "vault_data v data"
  shows "getBigUint64 data 104 = Inr (int (vc_leaf_count v))" and "slice data 112 32 = vc_current_root v"
    and "readVaultRoots data = (vc_current_root v, filter (\<lambda>r. \<not> isZero32 r) (vc_roots v))"
    and "map (\<lambda>i. slice data (RIGHT_PATH_OFFSET + i * 32) 32) [0..<MERKLE_DEPTH] = vc_right_path v"
proof -
  obtain pre post where d: "length pre = 104" "data = pre @ u64LE (int (vc_leaf_count v)) @ vc_current_root v
      @ concat (vc_roots v) @ concat (vc_zero_subtree_roots v) @ concat (vc_right_path v) @ post"
    using assms unfolding vault_data_def by blast
  have l: "vc_leaf_count v < 2 ^ 64" "length (vc_current_root v) = 32" "length (vc_roots v) = 32"
      "list_all (\<lambda>r. length r = 32) (vc_roots v)" "length (vc_zero_subtree_roots v) = 20"
      "list_all (\<lambda>r. length r = 32) (vc_zero_subtree_roots v)"
      "length (vc_right_path v) = 20" "list_all (\<lambda>r. length r = 32) (vc_right_path v)"
    using assms unfolding vault_data_def by blast+
  have u: "u64_range (int (vc_leaf_count v))" using l(1) by (simp add: u64_range_def)
  show "getBigUint64 data 104 = Inr (int (vc_leaf_count v))" using d u by (simp add: wire_simps)
  show c: "slice data 112 32 = vc_current_root v" using d l(2) by (simp add: wire_simps)
  have "map (\<lambda>i. slice data (144 + i * 32) 32) [0..<32] = vc_roots v"
    using map_slice_concat_32 [OF l(4,3), of "pre @ u64LE (int (vc_leaf_count v)) @ vc_current_root v" 144] d l(2)
    by (simp del: upt_Suc)
  with c show "readVaultRoots data = (vc_current_root v, filter (\<lambda>r. \<not> isZero32 r) (vc_roots v))"
    by (simp add: readVaultRoots_def VAULT_CURRENT_ROOT_OFFSET_def VAULT_ROOTS_OFFSET_def VAULT_LEAF_COUNT_OFFSET_def
        VAULT_ROOT_HISTORY_SIZE_def del: upt_Suc)
  have "length (pre @ u64LE (int (vc_leaf_count v)) @ vc_current_root v @ concat (vc_roots v) @ concat (vc_zero_subtree_roots v)) = 1808"
    using d(1) l by (simp add: length_concat_32)
  from map_slice_concat_32 [OF l(8,7) this, of post]
  show "map (\<lambda>i. slice data (RIGHT_PATH_OFFSET + i * 32) 32) [0..<MERKLE_DEPTH] = vc_right_path v"
    using d by (simp add: RIGHT_PATH_OFFSET_def MERKLE_DEPTH_def del: upt_Suc)
qed

section \<open>Prover inputs\<close>

lemma rmapM_BigInt [simp]: "rmapM js_BigInt (map (\<lambda>x. bigint_toString (f x)) xs) = Inr (map f xs)"
  by (induction xs) simp_all

lemma rmapM_BigInt_id [simp]: "rmapM js_BigInt (map bigint_toString xs) = Inr xs"
  using rmapM_BigInt [of "\<lambda>x. x" xs] by simp

lemma panel_reads_inputs:
  "panel_spend_inputs (prover_inputs_json w nl mint amount sk ob nonce r) =
     Inr \<lparr>si_merkleRoot = be_to_int (mw_root w), si_nullifier = be_to_int nl, si_tokenMint = mint, si_amount = amount,
          si_spendingKey = sk, si_ownerCommitmentBlinding = ob, si_nonce = nonce, si_blindingR = r,
          si_merklePath = map be_to_int (mw_siblings w), si_merkleIndices = mw_indices w\<rparr>"
  by (simp add: panel_spend_inputs_def prover_inputs_json_def beBytesToBigInt_eq)

text \<open>A witness for the commitment of a note gives inputs that satisfy the circuit.\<close>

lemma witness_valid:
  assumes "noteCommitment L note = Inr cm" and "nullifier L sk cm = Inr nl"
    and "pubkeyToFrPair (nt_tokenMint note) = Inr mint" and "nt_ownerCommitment note = ownerCommitment L sk ob"
    and "length (mw_siblings w) = 20" and "length (mw_indices w) = 20"
    and "MerkleTreeChecker L (be_to_int cm) (be_to_int (mw_root w)) (map be_to_int (mw_siblings w)) (mw_indices w)"
  shows "ValidSpend L \<lparr>si_merkleRoot = be_to_int (mw_root w), si_nullifier = be_to_int nl, si_tokenMint = mint,
     si_amount = nt_amount note, si_spendingKey = sk, si_ownerCommitmentBlinding = ob, si_nonce = nt_nonce note,
     si_blindingR = nt_blindingR note, si_merklePath = map be_to_int (mw_siblings w), si_merkleIndices = mw_indices w\<rparr>"
proof -
  have "be_to_int cm = poseidon L [fst mint, snd mint, nt_amount note, nt_ownerCommitment note, nt_nonce note, nt_blindingR note]"
    using assms(1,3) by (cases mint) (simp add: noteCommitment_def poseidonHashBytesBE_def bn254ToBE32_Inr_iff)
  moreover have "be_to_int nl = poseidon L [sk, be_to_int cm]"
    using assms(2) by (auto simp: nullifier_def bn254ToBE32_Inr_iff Let_def split: if_splits)
  ultimately show ?thesis using assms(4-) by (simp add: ValidSpend_def ownerCommitment_def Let_def)
qed

section \<open>Witnesses over a prefix\<close>

lemma shadow_append_all_eq:
  "poseidon_canonical L \<Longrightarrow> leaves_ok (ys @ xs) \<Longrightarrow> shadow_append_all L xs (shadow_of L ys) = Inr (shadow_of L (ys @ xs))"
proof (induction xs arbitrary: ys)
  case (Cons x xs)
  then have "leaves_ok (ys @ [x])" "leaves_ok ((ys @ [x]) @ xs)" by (auto simp: leaves_ok_def)
  then show ?case using Cons shadow_append_eq [of L ys x] by simp
qed simp

lemma buildWitnessForPrefix_eq:
  "poseidon_canonical L \<Longrightarrow> leaves_ok xs \<Longrightarrow> buildWitnessForPrefix L xs i = shadow_witness L (shadow_of L xs) i"
  using shadow_append_all_eq [of L "[]" xs] by (simp add: buildWitnessForPrefix_def shadow_create_eq)

lemma leaves_ok_take: "leaves_ok xs \<Longrightarrow> leaves_ok (take n xs)"
  by (auto simp: leaves_ok_def dest: in_set_takeD)

lemma prefix_loop_chosen:
  "prefix_loop L leaves i current ring target prefix tried = Inr (Some ch, tried') \<Longrightarrow>
     \<exists>p m. i < p \<and> p \<le> prefix \<and> buildWitnessForPrefix L (take (nat p) leaves) i = Inr (cw_witness ch)
        \<and> findMatchingRoot (mw_root (cw_witness ch)) current ring = Some m"
proof (induction L leaves i current ring target prefix tried arbitrary: tried' rule: prefix_loop.induct)
  case (1 L leaves i current ring target prefix tried)
  show ?case
  proof (cases "prefix < i + 1")
    case True
    with 1(2) show ?thesis by (subst (asm) prefix_loop.simps) simp
  next
    case False
    with 1(2) obtain w where w: "buildWitnessForPrefix L (take (nat prefix) leaves) i = Inr w"
      by (subst (asm) prefix_loop.simps) (auto simp: rbind_eq_Inr)
    show ?thesis
    proof (cases "findMatchingRoot (mw_root w) current ring")
      case (Some m)
      with 1(2) w False have "cw_witness ch = w" by (subst (asm) prefix_loop.simps) auto
      then show ?thesis using w Some False by (intro exI [of _ prefix] exI [of _ m]) simp
    next
      case None
      with 1(2) w False have far: "\<not> target - prefix > int VAULT_ROOT_HISTORY_SIZE + 1"
        and rec: "prefix_loop L leaves i current ring target (prefix - 1) (tried @ [prefix]) = Inr (Some ch, tried')"
        by (subst (asm) prefix_loop.simps, simp split: if_splits)+
      from 1(1) [OF False w None far rec] show ?thesis by (metis zle_diff1_eq order_less_imp_le)
    qed
  qed
qed

lemma prefix_loop_current:
  assumes "i + 1 \<le> target" and "buildWitnessForPrefix L (take (nat target) leaves) i = Inr w" and "mw_root w = current"
  shows "prefix_loop L leaves i current ring target target [] =
     Inr (Some \<lparr>cw_witness = w, cw_matchedAs = ''current_root'', cw_prefixUsed = target\<rparr>, [target])"
  using assms by (subst prefix_loop.simps) (simp add: findMatchingRoot_def matched_as_def)

lemma shadow_witness_checked:
  assumes "poseidon_canonical L" and "leaves_ok xs" and "shadow_witness L (shadow_of L xs) i = Inr w"
  shows "0 \<le> i \<and> i < int (length xs) \<and> length (mw_siblings w) = 20 \<and> length (mw_indices w) = 20
     \<and> MerkleTreeChecker L (be_to_int (xs ! nat i)) (be_to_int (mw_root w)) (map be_to_int (mw_siblings w)) (mw_indices w)"
proof -
  have r: "0 \<le> i" "i < int (length xs)" using assms(3) by (auto simp: shadow_witness_def shadow_of_def split: if_splits)
  then obtain k where k: "i = int k" "k < length xs" by (metis nonneg_int_cases of_nat_less_iff)
  have "w = \<lparr>mw_root = vault_root L xs, mw_siblings = mpath (pnode L) 20 (zpad (zeros 32) 20 xs) k, mw_indices = mbits 20 k\<rparr>"
    using shadow_witness_eq [OF assms(1,2) k(2)] assms(3) k(1) by simp
  then show ?thesis
    using r k checker_mfold [OF assms(1), of "xs ! k" k "mw_siblings w"]
      mfold_mpath [of "zpad (zeros 32) 20 xs" 20 k "pnode L"] assms(2)
    by (simp add: leaves_ok_def length_zpad sroot_def) (simp add: zpad_def nth_append)
qed

section \<open>What a replay returns\<close>

text \<open>Whatever the RPC serves, a replayed leaf has 32 bytes.\<close>

abbreviation whole_leaves :: "bytes list \<Rightarrow> bool" where
  "whole_leaves \<equiv> list_all (\<lambda>l. length l = 32)"

lemma processIx_whole:
  assumes "processIxDataAsync L leaves data keys = Inr ls" and "whole_leaves leaves"
  shows "whole_leaves ls"
proof -
  have dep: "whole_leaves ls" if "pushDepositLeafAsync L leaves data keys = Inr ls"
    using that assms(2) noteCommitment_length
    by (auto simp: pushDepositLeafAsync_def rbind_eq_Inr Let_def split: if_splits option.splits)
  have set: "whole_leaves ls" if "pushSettleLeaves leaves (drop 8 data) = Inr ls"
    using that assms(2) by (auto simp: pushSettleLeaves_def Let_def length_slice split: if_splits)
  show ?thesis using assms dep set by (auto simp: processIxDataAsync_def split: if_splits)
qed

lemma walkIx_whole: "walkIx L vp cap leaves part = Inr ls \<Longrightarrow> whole_leaves leaves \<Longrightarrow> whole_leaves ls"
  by (auto simp: walkIx_def split: prod.splits if_splits option.splits dest: processIx_whole)

lemma walk_inners_whole: "walk_inners L D vp cap keys ixs leaves = Inr ls \<Longrightarrow> whole_leaves leaves \<Longrightarrow> whole_leaves ls"
  by (induction ixs arbitrary: leaves) (auto simp: rbind_eq_Inr split: if_splits dest: walkIx_whole)

lemma walk_tops_whole: "walk_tops L D vp cap keys inner ti ixs leaves = Inr ls \<Longrightarrow> whole_leaves leaves \<Longrightarrow> whole_leaves ls"
proof (induction ixs arbitrary: leaves ti)
  case (Cons ix ixs)
  show ?case
  proof (cases "length leaves \<ge> cap")
    case False
    with Cons.prems(1) obtain l l' where l: "walkIx L vp cap leaves (top_part keys ix) = Inr l"
        "(case inner ti of None \<Rightarrow> Inr l | Some ins \<Rightarrow> walk_inners L D vp cap keys ins l) = Inr l'"
        "walk_tops L D vp cap keys inner (Suc ti) ixs l' = Inr ls"
      by (auto simp: rbind_eq_Inr)
    have "whole_leaves l'"
      using l(2) walkIx_whole [OF l(1) Cons.prems(2)] by (auto split: option.splits dest: walk_inners_whole)
    with Cons.IH l(3) show ?thesis by blast
  qed (use Cons.prems in simp)
qed simp

lemma replay_loop_whole:
  "replay_loop L D conn vp target sigs leaves w = (Inr ls, w') \<Longrightarrow> whole_leaves leaves \<Longrightarrow> whole_leaves ls"
proof (induction sigs arbitrary: leaves w)
  case (Cons sig sigs)
  show ?case
  proof (cases "length leaves \<ge> target")
    case False
    with Cons.prems(1) obtain l w1 where l: "walkTransactionOrdered L D conn sig vp leaves target w = (Inr l, w1)"
        "replay_loop L D conn vp target sigs l w1 = (Inr ls, w')"
      by (auto simp: io_bind_eq_Inr)
    have "whole_leaves l"
      using l(1) Cons.prems(2)
      by (auto simp: walkTransactionOrdered_def io_bind_eq_Inr split: option.splits if_splits dest: walk_tops_whole)
    with Cons.IH l(2) show ?thesis by blast
  qed (use Cons.prems in simp)
qed simp

lemma replay_whole:
  assumes "collectVaultLeavesOrdered L D conn vp target ms w = (Inr leaves, w')"
  shows "length leaves = target" "whole_leaves leaves"
  using assms by (auto simp: collectVaultLeavesOrdered_def Let_def io_bind_eq_Inr split: if_splits dest: replay_loop_whole)

section \<open>The trade withdrawal\<close>

text \<open>The account of the vault, as the L1 connection of the demo reads it.\<close>

definition account_holds :: "lib \<Rightarrow> 'w rpc \<Rightarrow> pubkey \<Rightarrow> 'w \<Rightarrow> VaultConfig \<Rightarrow> bool" where
  "account_holds L l1 programId w v \<longleftrightarrow>
     (\<exists>pda bump i. vaultConfigPda L programId = Inr (pda, bump) \<and> rpc_getAccountInfo l1 pda w = (Inr (Some i), w)
        \<and> vault_data v (ai_data i))"

lemma vault_info_holds:
  assumes "account_holds L l1 programId w v"
  obtains data where "vault_info L l1 programId w = (Inr data, w)" and "vault_data v data"
  using assms by (auto simp: account_holds_def vault_info_def io_bind_def)

lemma route_ok: "route m w = (ReplyOk r, w') \<longleftrightarrow> m w = (Inr (ReplyOk r), w')"
  by (auto simp: route_def split: prod.splits sum.splits)

text \<open>Peeling a route that answered: every step before the answer returned a value and no guard
  fired.\<close>

lemma io_bind_okE: "io_bind m f s = (Inr y, u) \<Longrightarrow> (\<And>x t. m s = (Inr x, t) \<Longrightarrow> f x t = (Inr y, u) \<Longrightarrow> P) \<Longrightarrow> P"
  by (auto simp: io_bind_eq_Inr)

lemma io_of_okE: "io_of x s = (Inr y, u) \<Longrightarrow> (x = Inr y \<Longrightarrow> s = u \<Longrightarrow> P) \<Longrightarrow> P"
  by simp

lemma pair_okE: "(case p of (a, b) \<Rightarrow> f a b) s = (Inr y, u) \<Longrightarrow> (\<And>a b. p = (a, b) \<Longrightarrow> f a b s = (Inr y, u) \<Longrightarrow> P) \<Longrightarrow> P"
  by (cases p) simp

lemma guard_okE:
  "(if b then bad_request msg else k) s = (Inr (ReplyOk y), u) \<Longrightarrow> (\<not> b \<Longrightarrow> k s = (Inr (ReplyOk y), u) \<Longrightarrow> P) \<Longrightarrow> P"
  by (auto simp: bad_request_def split: if_splits)

lemma refuse_okE:
  "(if b then io_return (ReplyError st msg d) else k) s = (Inr (ReplyOk y), u) \<Longrightarrow> (\<not> b \<Longrightarrow> k s = (Inr (ReplyOk y), u) \<Longrightarrow> P) \<Longrightarrow> P"
  by (auto split: if_splits)

lemma answer_okE: "io_return (ReplyOk x) s = (Inr (ReplyOk y), u) \<Longrightarrow> (y = x \<Longrightarrow> s = u \<Longrightarrow> P) \<Longrightarrow> P"
  by simp

lemma option_okE:
  "(case x of None \<Rightarrow> io_return (ReplyError st msg d) | Some a \<Rightarrow> f a) s = (Inr (ReplyOk y), u) \<Longrightarrow>
     (\<And>a. x = Some a \<Longrightarrow> f a s = (Inr (ReplyOk y), u) \<Longrightarrow> P) \<Longrightarrow> P"
  by (cases x) auto

lemmas reply_elims = guard_okE refuse_okE io_bind_okE io_of_okE pair_okE option_okE answer_okE

lemma throw_guard_okE:
  "(if b then io_throw e else k) s = (Inr y, u) \<Longrightarrow> (\<not> b \<Longrightarrow> k s = (Inr y, u) \<Longrightarrow> P) \<Longrightarrow> P"
  by (auto split: if_splits)

lemma option_throw_okE:
  "(case x of None \<Rightarrow> io_throw e | Some a \<Rightarrow> f a) s = (Inr y, u) \<Longrightarrow> (\<And>a. x = Some a \<Longrightarrow> f a s = (Inr y, u) \<Longrightarrow> P) \<Longrightarrow> P"
  by (cases x) auto

lemma io_return_okE: "io_return x s = (Inr y, u) \<Longrightarrow> (y = x \<Longrightarrow> s = u \<Longrightarrow> P) \<Longrightarrow> P"
  by simp

lemmas run_elims = throw_guard_okE option_throw_okE io_bind_okE io_of_okE pair_okE io_return_okE

lemma trade_withdraw_okE:
  assumes "trade_withdraw_POST L M body w = (ReplyOk r, w')" and "demo_setup M = Inr (conns, programs)"
  obtains vo matchId amount nonce blindingR leafIndex cm data leaves w1 w2 ch tried nl mint ob live where
    "verifyPhantomSeedSignature L (dm_decoders M) (dm_wallet M) (the (twb_phantomSignatureBase58 body)) (the (twb_ownerPubkeyBase58 body)) = Inr vo"
    "js_BigInt (the (twb_matchId body)) = Inr matchId" "js_BigInt (the (twb_amount body)) = Inr amount"
    "js_BigInt (the (twb_leafIndex body)) = Inr leafIndex"
    "be32ToBigInt (deriveNonce L matchId TRADE_ROLE_BUYER) = Inr nonce"
    "be32ToBigInt (deriveBlinding L matchId TRADE_ROLE_BUYER) = Inr blindingR"
    "noteCommitment L \<lparr>nt_tokenMint = toBytes (pr_baseMint programs), nt_amount = amount,
       nt_ownerCommitment = ownerCommitment L (deriveSpendingKey L (vo_seed vo)) (deriveBlindingFactor L (vo_seed vo) 0),
       nt_nonce = nonce, nt_blindingR = blindingR\<rparr> = Inr cm"
    "vault_info L (dcn_l1 conns) (pr_vaultProgramId programs) w = (Inr data, w1)"
    "getBigUint64 data VAULT_LEAF_COUNT_OFFSET = Inr live" "leafIndex < live"
    "collectVaultLeavesOrdered L (dm_decoders M) (connection.truncate (dcn_l1 conns)) (pr_vaultProgramId programs) (nat live)
       (Some (case twb_maxSignatures body of Some m \<Rightarrow> m | None \<Rightarrow> 10000)) w1 = (Inr leaves, w2)"
    "\<not> (0 \<le> leafIndex \<and> nat leafIndex < length leaves \<and> leaves ! nat leafIndex \<noteq> cm)"
    "prefix_loop L leaves leafIndex (fst (readVaultRoots data)) (snd (readVaultRoots data)) (int (nat live)) (int (nat live)) []
       = Inr (Some ch, tried)"
    "nullifier L (deriveSpendingKey L (vo_seed vo)) cm = Inr nl"
    "pubkeyToFrPair (toBytes (pr_baseMint programs)) = Inr mint"
    "twr_proverInputs r = prover_inputs_json (cw_witness ch) nl mint amount (deriveSpendingKey L (vo_seed vo))
       (deriveBlindingFactor L (vo_seed vo) 0) nonce blindingR"
    "twr_ixContext r = \<lparr>ic_commitmentHex = bytes_hex cm, ic_nullifierHex = bytes_hex nl,
       ic_merkleRootHex = bytes_hex (mw_root (cw_witness ch)), ic_ownerCommitmentHex = bytes_hex ob\<rparr>"
  using assms(1) unfolding trade_withdraw_POST_def route_ok Let_def leaf_mismatch_reply_def no_root_reply_def
  by (elim reply_elims) (clarsimp simp: assms(2))

lemma trade_withdraw_answer_valid:
  assumes "poseidon_canonical L" and env: "demo_setup M = Inr (conns, programs)"
    and acct: "account_holds L (dcn_l1 conns) (pr_vaultProgramId programs) w v" and rep: "vault_rep L v xs"
    and ok: "trade_withdraw_POST L M body w = (ReplyOk r, w')"
  shows "\<exists>inp root nl. panel_spend_inputs (twr_proverInputs r) = Inr inp \<and> ValidSpend L inp
     \<and> contains_root v root \<and> si_merkleRoot inp = be_to_int root \<and> ic_merkleRootHex (twr_ixContext r) = bytes_hex root
     \<and> si_nullifier inp = be_to_int nl \<and> ic_nullifierHex (twr_ixContext r) = bytes_hex nl
     \<and> js_BigInt (the (twb_amount body)) = Inr (si_amount inp)
     \<and> pubkeyToFrPair (toBytes (pr_baseMint programs)) = Inr (si_tokenMint inp)"
proof (rule trade_withdraw_okE [OF ok env])
  fix vo matchId amount nonce blindingR leafIndex cm data leaves w1 w2 ch tried nl mint ob live
  let ?sk = "deriveSpendingKey L (vo_seed vo)" and ?ob = "deriveBlindingFactor L (vo_seed vo) 0"
  let ?note = "\<lparr>nt_tokenMint = toBytes (pr_baseMint programs), nt_amount = amount,
       nt_ownerCommitment = ownerCommitment L ?sk ?ob, nt_nonce = nonce, nt_blindingR = blindingR\<rparr>"
  assume am: "js_BigInt (the (twb_amount body)) = Inr amount" and cm: "noteCommitment L ?note = Inr cm"
    and info: "vault_info L (dcn_l1 conns) (pr_vaultProgramId programs) w = (Inr data, w1)"
    and live: "getBigUint64 data VAULT_LEAF_COUNT_OFFSET = Inr live" "leafIndex < live"
    and leaves: "collectVaultLeavesOrdered L (dm_decoders M) (connection.truncate (dcn_l1 conns)) (pr_vaultProgramId programs) (nat live)
       (Some (case twb_maxSignatures body of Some m \<Rightarrow> m | None \<Rightarrow> 10000)) w1 = (Inr leaves, w2)"
    and same: "\<not> (0 \<le> leafIndex \<and> nat leafIndex < length leaves \<and> leaves ! nat leafIndex \<noteq> cm)"
    and loop: "prefix_loop L leaves leafIndex (fst (readVaultRoots data)) (snd (readVaultRoots data)) (int (nat live)) (int (nat live)) []
       = Inr (Some ch, tried)"
    and nl: "nullifier L ?sk cm = Inr nl" and mint: "pubkeyToFrPair (toBytes (pr_baseMint programs)) = Inr mint"
    and out: "twr_proverInputs r = prover_inputs_json (cw_witness ch) nl mint amount ?sk ?ob nonce blindingR"
      "twr_ixContext r = \<lparr>ic_commitmentHex = bytes_hex cm, ic_nullifierHex = bytes_hex nl,
       ic_merkleRootHex = bytes_hex (mw_root (cw_witness ch)), ic_ownerCommitmentHex = bytes_hex ob\<rparr>"
  let ?w = "cw_witness ch"
  have data: "vault_data v data" using vault_info_holds [OF acct] info by auto
  then have lv: "live = int (vc_leaf_count v)" using vault_data_reads(1) live(1) by (simp add: VAULT_LEAF_COUNT_OFFSET_def)
  have n: "vc_leaf_count v \<le> 2 ^ 20" using rep by (simp add: vault_rep_def)
  have lok: "leaves_ok leaves" using replay_whole [OF leaves] lv n by (auto simp: leaves_ok_def list_all_iff)
  obtain p m where p: "leafIndex < p" "p \<le> int (nat live)" "buildWitnessForPrefix L (take (nat p) leaves) leafIndex = Inr ?w"
      "findMatchingRoot (mw_root ?w) (fst (readVaultRoots data)) (snd (readVaultRoots data)) = Some m"
    using prefix_loop_chosen [OF loop] by blast
  let ?ls = "take (nat p) leaves"
  have wit: "shadow_witness L (shadow_of L ?ls) leafIndex = Inr ?w"
    using p(3) buildWitnessForPrefix_eq [OF assms(1) leaves_ok_take [OF lok]] by simp
  have acc: "0 \<le> leafIndex \<and> leafIndex < int (length ?ls) \<and> length (mw_siblings ?w) = 20 \<and> length (mw_indices ?w) = 20
      \<and> MerkleTreeChecker L (be_to_int (?ls ! nat leafIndex)) (be_to_int (mw_root ?w)) (map be_to_int (mw_siblings ?w)) (mw_indices ?w)"
    using shadow_witness_checked [OF assms(1) leaves_ok_take [OF lok] wit] .
  then have "nat leafIndex < nat p" "nat leafIndex < length leaves" by (auto simp: min_def split: if_splits)
  then have "?ls ! nat leafIndex = cm" using same acc by simp
  with acc have "ValidSpend L \<lparr>si_merkleRoot = be_to_int (mw_root ?w), si_nullifier = be_to_int nl, si_tokenMint = mint,
     si_amount = amount, si_spendingKey = ?sk, si_ownerCommitmentBlinding = ?ob, si_nonce = nonce,
     si_blindingR = blindingR, si_merklePath = map be_to_int (mw_siblings ?w), si_merkleIndices = mw_indices ?w\<rparr>"
    using witness_valid [OF cm nl, of mint ?ob ?w] mint by simp
  moreover have "contains_root v (mw_root ?w)"
    using findMatchingRoot_Some [OF p(4)] vault_data_reads(3) [OF data] by (auto simp: contains_root_def)
  ultimately show ?thesis using am mint by (simp add: out panel_reads_inputs)
qed

section \<open>Properties\<close>

text \<open>(C5) A trade withdrawal that is answered can be proved and is accepted, whatever history the RPC serves:
  if the account read is that of a vault, the inputs the panel hands to the prover satisfy the
  VALID_SPEND circuit for a root the vault accepts, for the requested amount of the base mint and
  with the nullifier and the root of the instruction context.\<close>

theorem trade_withdraw_sound:
  assumes "poseidon_canonical L" and "demo_setup M = Inr (conns, programs)"
    and "account_holds L (dcn_l1 conns) (pr_vaultProgramId programs) w v" and "vault_rep L v xs"
    and "trade_withdraw_POST L M body w = (ReplyOk r, w')"
  shows "\<exists>inp root nl. panel_spend_inputs (twr_proverInputs r) = Inr inp \<and> ValidSpend L inp
     \<and> contains_root v root \<and> si_merkleRoot inp = be_to_int root \<and> ic_merkleRootHex (twr_ixContext r) = bytes_hex root
     \<and> si_nullifier inp = be_to_int nl \<and> ic_nullifierHex (twr_ixContext r) = bytes_hex nl
     \<and> js_BigInt (the (twb_amount body)) = Inr (si_amount inp)
     \<and> pubkeyToFrPair (toBytes (pr_baseMint programs)) = Inr (si_tokenMint inp)"
  using trade_withdraw_answer_valid [OF assms] .

end
