(* ===== verification/Nyx_Observe.thy ===== *)
theory Nyx_Observe
  imports Nyx_Demo_Lib Nyx_Er_Client
begin

text \<open>
  What an observer sees of a run: a function of the world, such as the content of a store or the transactions
  sent so far. \<open>keeps obs m\<close> says that a step does not change the observation. The locale \<open>recorded\<close> is the
  contract of a connection whose world has a log of what was sent through it: sending appends one entry,
  reading none. Any connection has such a log when its world is extended by one (\<open>logged\<close>), which is an
  instance of the contract; the log is a means to state which transactions a route sends, in which order,
  and that it sends no other.
\<close>

section \<open>Steps that do not change an observation\<close>

definition keeps :: "('w \<Rightarrow> 'o) \<Rightarrow> ('w, 'e, 'a) io \<Rightarrow> bool" where
  "keeps obs m \<longleftrightarrow> (\<forall>w. obs (snd (m w)) = obs w)"

lemma keepsD: "keeps obs m \<Longrightarrow> m w = (r, w') \<Longrightarrow> obs w' = obs w"
  unfolding keeps_def by (metis snd_conv)

lemma keeps_basic: "keeps obs (io_return x)" "keeps obs (io_throw e)" "keeps obs (io_of r)"
  by (simp_all add: keeps_def)

lemma keeps_bind: "keeps obs m \<Longrightarrow> (\<And>x. keeps obs (f x)) \<Longrightarrow> keeps obs (io_bind m f)"
  by (simp add: keeps_def io_bind_def split: prod.splits sum.splits) (metis snd_conv)

lemma keeps_catch: "keeps obs m \<Longrightarrow> (\<And>e. keeps obs (h e)) \<Longrightarrow> keeps obs (io_catch m h)"
  by (simp add: keeps_def io_catch_def split: prod.splits sum.splits) (metis snd_conv)

lemma keeps_if: "keeps obs m \<Longrightarrow> keeps obs m' \<Longrightarrow> keeps obs (if b then m else m')"
  by simp

lemma keeps_option: "keeps obs m \<Longrightarrow> (\<And>x. keeps obs (f x)) \<Longrightarrow> keeps obs (case y of None \<Rightarrow> m | Some x \<Rightarrow> f x)"
  by (cases y) simp_all

lemma keeps_pair: "(\<And>a b. keeps obs (f a b)) \<Longrightarrow> keeps obs (case p of (a, b) \<Rightarrow> f a b)"
  by (cases p) simp

lemmas keeps_intros = keeps_basic keeps_bind keeps_catch keeps_if keeps_option keeps_pair

section \<open>The replay of the history only reads\<close>

definition connection_keeps :: "('w \<Rightarrow> 'o) \<Rightarrow> 'w connection \<Rightarrow> bool" where
  "connection_keeps obs c \<longleftrightarrow> (\<forall>sig. keeps obs (cn_getTransaction c sig)) \<and> (\<forall>vp n b. keeps obs (cn_getSignaturesForAddress c vp n b))"

lemma keeps_signatures_loop:
  assumes "connection_keeps obs c"
  shows "keeps obs (signatures_loop c vp cap out before)"
proof -
  have "obs (snd (signatures_loop c vp cap out before w)) = obs w" for w
    using assms
  proof (induction c vp cap out before w rule: signatures_loop.induct)
    case (1 c vp cap out before w)
    obtain res u where page: "cn_getSignaturesForAddress c vp (min RPC_SIG_PAGE_LIMIT (cap - length out)) before w = (res, u)" by fastforce
    moreover have "keeps obs (cn_getSignaturesForAddress c vp (min RPC_SIG_PAGE_LIMIT (cap - length out)) before)"
      using 1(2) by (simp add: connection_keeps_def)
    ultimately have "obs u = obs w" by (rule keepsD [rotated])
    then show ?case using 1 page by (subst signatures_loop.simps) (auto simp: Let_def split: sum.splits)
  qed
  then show ?thesis by (simp add: keeps_def)
qed

lemma keeps_replay_loop:
  assumes "connection_keeps obs c"
  shows "keeps obs (replay_loop L D c vp n sigs leaves)"
proof (induction sigs arbitrary: leaves)
  case (Cons sig rest)
  have "keeps obs (walkTransactionOrdered L D c sig vp leaves n)"
    unfolding walkTransactionOrdered_def using assms by (intro keeps_intros) (simp add: connection_keeps_def)
  then show ?case using Cons by (auto intro: keeps_intros)
qed (simp add: keeps_basic)

lemma keeps_replay: "connection_keeps obs c \<Longrightarrow> keeps obs (collectVaultLeavesOrdered L D c vp n cap)"
  unfolding collectVaultLeavesOrdered_def fetchSignaturesPaginated_def Let_def
  by (intro keeps_intros keeps_signatures_loop keeps_replay_loop)

section \<open>The log of a connection\<close>

record sent_tx =
  st_cluster :: string
  st_ixs :: "instruction list"
  st_signers :: "keypair list"
  st_result :: "js_error + string"

definition rpc_reads_keep :: "('w \<Rightarrow> 'o) \<Rightarrow> 'w rpc \<Rightarrow> bool" where
  "rpc_reads_keep obs c \<longleftrightarrow> connection_keeps obs (connection.truncate c) \<and> (\<forall>k. keeps obs (rpc_getAccountInfo c k))
     \<and> (\<forall>k. keeps obs (rpc_getBalance c k)) \<and> keeps obs (rpc_getSlot c)"

locale recorded =
  fixes cluster :: string and c :: "'w rpc" and sent :: "'w \<Rightarrow> sent_tx list"
  assumes reads: "rpc_reads_keep sent c"
    and sends: "rpc_sendAndConfirm c ixs ks w = (r, w') \<Longrightarrow>
      sent w' = sent w @ [\<lparr>st_cluster = cluster, st_ixs = ixs, st_signers = ks, st_result = r\<rparr>]"
begin

lemma keeps_reads:
  "keeps sent (rpc_getAccountInfo c k)" "keeps sent (rpc_getBalance c k)" "keeps sent (rpc_getSlot c)"
  "keeps sent (collectVaultLeavesOrdered L D (connection.truncate c) vp n cap)"
  using reads by (simp_all add: rpc_reads_keep_def keeps_replay)

end

text \<open>A connection with a log beside its world.\<close>

definition beside :: "('w, 'e, 'a) io \<Rightarrow> ('w \<times> 'l, 'e, 'a) io" where
  "beside m wl = (case m (fst wl) of (r, w') \<Rightarrow> (r, (w', snd wl)))"

definition logged :: "string \<Rightarrow> 'w rpc \<Rightarrow> ('w \<times> sent_tx list) rpc" where
  "logged cluster c = \<lparr>
     cn_getTransaction = (\<lambda>sig. beside (cn_getTransaction c sig)),
     cn_getSignaturesForAddress = (\<lambda>vp n b. beside (cn_getSignaturesForAddress c vp n b)),
     rpc_getAccountInfo = (\<lambda>k. beside (rpc_getAccountInfo c k)), rpc_getBalance = (\<lambda>k. beside (rpc_getBalance c k)),
     rpc_getSlot = beside (rpc_getSlot c),
     rpc_sendAndConfirm = (\<lambda>ixs ks wl. case rpc_sendAndConfirm c ixs ks (fst wl) of
        (r, w') \<Rightarrow> (r, (w', snd wl @ [\<lparr>st_cluster = cluster, st_ixs = ixs, st_signers = ks, st_result = r\<rparr>])))\<rparr>"

lemma keeps_beside: "keeps snd (beside m)"
  by (simp add: keeps_def beside_def split: prod.splits)

interpretation logged: recorded cluster "logged cluster c" snd for cluster c
  by unfold_locales
    (auto simp: logged_def rpc_reads_keep_def connection_keeps_def connection.truncate_def keeps_beside split: prod.splits)

text \<open>The transactions of a log that were confirmed: their clusters and signatures.\<close>

definition confirmed :: "sent_tx list \<Rightarrow> (string \<times> string) list" where
  "confirmed ts = concat (map (\<lambda>t. case st_result t of Inl e \<Rightarrow> [] | Inr sig \<Rightarrow> [(st_cluster t, sig)]) ts)"

lemma confirmed_simps [simp]:
  "confirmed [] = []" "confirmed (ts @ us) = confirmed ts @ confirmed us"
  "confirmed (t # ts) = (case st_result t of Inl e \<Rightarrow> [] | Inr sig \<Rightarrow> [(st_cluster t, sig)]) @ confirmed ts"
  by (simp_all add: confirmed_def)

section \<open>Steps that only add certain transactions to the log\<close>

definition sends_only :: "('w \<Rightarrow> 'x list) \<Rightarrow> ('x \<Rightarrow> bool) \<Rightarrow> ('w, 'e, 'a) io \<Rightarrow> bool" where
  "sends_only sent P m \<longleftrightarrow> (\<forall>w. \<exists>ts. sent (snd (m w)) = sent w @ ts \<and> (\<forall>t \<in> set ts. P t))"

lemma sends_onlyE:
  assumes "sends_only sent P m" and "m w = (r, w')"
  obtains ts where "sent w' = sent w @ ts" "\<forall>t \<in> set ts. P t"
  using assms unfolding sends_only_def by (metis snd_conv)

lemma keeps_sends_only: "keeps sent m \<Longrightarrow> sends_only sent P m"
  by (simp add: keeps_def sends_only_def)

lemma sends_only_bind:
  assumes "sends_only sent P m" and "\<And>x. sends_only sent P (f x)"
  shows "sends_only sent P (io_bind m f)"
  unfolding sends_only_def
proof
  fix w
  obtain r u where m: "m w = (r, u)" by fastforce
  obtain ts where ts: "sent u = sent w @ ts" "\<forall>t \<in> set ts. P t" using assms(1) m by (rule sends_onlyE)
  show "\<exists>ts. sent (snd (io_bind m f w)) = sent w @ ts \<and> (\<forall>t \<in> set ts. P t)"
  proof (cases r)
    case (Inr x)
    obtain us where "sent (snd (f x u)) = sent u @ us" "\<forall>t \<in> set us. P t" using assms(2) unfolding sends_only_def by blast
    then show ?thesis using ts m Inr by (intro exI [of _ "ts @ us"]) (auto simp: io_bind_def)
  qed (use ts m in \<open>auto simp: io_bind_def\<close>)
qed

lemma sends_only_if: "sends_only sent P m \<Longrightarrow> sends_only sent P m' \<Longrightarrow> sends_only sent P (if b then m else m')"
  by simp

lemma sends_only_option:
  "sends_only sent P m \<Longrightarrow> (\<And>x. sends_only sent P (f x)) \<Longrightarrow> sends_only sent P (case y of None \<Rightarrow> m | Some x \<Rightarrow> f x)"
  by (cases y) simp_all

lemma sends_only_pair: "(\<And>a b. sends_only sent P (f a b)) \<Longrightarrow> sends_only sent P (case p of (a, b) \<Rightarrow> f a b)"
  by (cases p) simp

lemmas sends_only_basic = keeps_basic [THEN keeps_sends_only]

lemmas sends_only_intros = sends_only_basic sends_only_bind sends_only_if sends_only_option sends_only_pair

context recorded
begin

lemma sends_only_send:
  assumes "\<And>r. P \<lparr>st_cluster = cluster, st_ixs = ixs, st_signers = ks, st_result = r\<rparr>"
  shows "sends_only sent P (rpc_sendAndConfirm c ixs ks)"
  unfolding sends_only_def
proof
  fix w
  obtain r u where "rpc_sendAndConfirm c ixs ks w = (r, u)" by fastforce
  then show "\<exists>ts. sent (snd (rpc_sendAndConfirm c ixs ks w)) = sent w @ ts \<and> (\<forall>t \<in> set ts. P t)"
    using sends assms by simp
qed

lemmas sends_only_reads = keeps_reads [THEN keeps_sends_only]

end

section \<open>Waiting only reads\<close>

lemma wait_loop_keeps:
  fixes obs :: "'w \<Rightarrow> 'o"
  assumes "wait_loop env k ini i d te w = Some y"
    and "\<forall>k. keeps obs (env_getAccountInfo env k)" and "\<forall>i w. obs (env_sleep env i w) = obs w"
  shows "obs (snd y) = obs w"
proof -
  have "(\<forall>k. keeps obs (env_getAccountInfo env k)) \<longrightarrow> (\<forall>i w. obs (env_sleep env i w) = obs w) \<longrightarrow> obs (snd y) = obs w"
  proof (rule wait_loop.raw_induct [where P = "\<lambda>env k ini i d te w y.
        (\<forall>k. keeps obs (env_getAccountInfo env k)) \<longrightarrow> (\<forall>i w. obs (env_sleep env i w) = obs w) \<longrightarrow> obs (snd y) = obs w", OF _ assms(1)], intro impI)
    fix loop and env :: "'w polling_env" and k ini i d te w y
    assume IH: "\<And>env k ini i d te w y. loop env k ini i d te w = Some y \<Longrightarrow>
          (\<forall>k. keeps obs (env_getAccountInfo env k)) \<longrightarrow> (\<forall>i w. obs (env_sleep env i w) = obs w) \<longrightarrow> obs (snd y) = obs w"
      and run: "(if env_now env w < d then case env_getAccountInfo env k w of (r, w1) \<Rightarrow> (case r of Inl e \<Rightarrow> Some (Inl e, w1)
          | Inr acct \<Rightarrow> (case acct of Some data \<Rightarrow> if Some (bytes_hex data) \<noteq> ini then Some (Inr data, w1) else loop env k ini i d te (env_sleep env i w1)
            | None \<Rightarrow> loop env k ini i d te (env_sleep env i w1))) else Some (Inl te, w)) = Some y"
      and env: "\<forall>k. keeps obs (env_getAccountInfo env k)" "\<forall>i w. obs (env_sleep env i w) = obs w"
    obtain r u where get: "env_getAccountInfo env k w = (r, u)" by fastforce
    have u: "obs u = obs w" using keepsD [OF env(1) [rule_format] get] .
    have again: "obs (snd y) = obs w" if "loop env k ini i d te (env_sleep env i u) = Some y"
      using IH [OF that] env u by simp
    show "obs (snd y) = obs w"
      using run again u unfolding get by (auto split: if_splits sum.splits option.splits)
  qed
  then show ?thesis using assms by blast
qed

end
