(* ===== verification/Nyx_Demo_Trade.thy ===== *)
theory Nyx_Demo_Trade
  imports Nyx_Demo_Spend Nyx_Batch_Results Nyx_Observe
begin

text \<open>
  The settlement of a trade of the demo application on L1 (\<open>apps/demo/src/lib/dapp/run-trade-l1-settle.ts\<close>) and
  the request with which its note is withdrawn afterwards. Warnings on the console are left out; the calls that lead to them are kept, because
  they reach the RPC.

  Proved: exactly which transactions a settlement sends and which note it reports; and that the reported
  note can be withdrawn.
\<close>

section \<open>Settlement\<close>

definition isRelockNone :: "bytes \<Rightarrow> bool" where
  "isRelockNone i \<longleftrightarrow> length i = 16 \<and> isZero i"

record 'w TradeL1SettleContext =
  tc_l1 :: "'w rpc"
  tc_vaultProgramId :: pubkey
  tc_baseMint :: pubkey
  tc_quoteMint :: pubkey
  tc_batchPda :: pubkey
  tc_tee :: keypair
  tc_maker :: keypair
  tc_userMasterSeed :: bytes
  tc_userQuoteNoteCommitment :: bytes
  tc_userOrderId :: bytes
  tc_userExpirySlot :: int
  tc_makerNoteCommitment :: bytes
  tc_makerOrderId :: bytes
  tc_makerExpirySlot :: int

record buyer_base_note =
  bb_matchId :: string
  bb_leafIndex :: string
  bb_amount :: string
  bb_nonce :: string
  bb_blindingR :: string
  bb_commitmentHex :: string
  bb_tokenMintBase58 :: string
  bb_vaultLeafCountAfter :: string

record tx_signature =
  txs_label :: string
  txs_signature :: string
  txs_cluster :: string

record TradeL1SettleResult =
  sr_lockSettleSignatures :: "tx_signature list"
  sr_buyerBaseNote :: buyer_base_note

definition is_this_match :: "'w TradeL1SettleContext \<Rightarrow> MatchResultRecord \<Rightarrow> bool" where
  "is_this_match ctx r \<longleftrightarrow> mr_status r = 1 \<and> mr_noteBuyer r = tc_userQuoteNoteCommitment ctx
     \<and> mr_noteSeller r = tc_makerNoteCommitment ctx"

definition no_match_error :: "BatchResultsView \<Rightarrow> js_error" where
  "no_match_error v =
     (let hint =
        (if br_lastCircuitBreakerTripped v
         then ''Circuit breaker tripped (last clearing price '' @ bigint_toString (br_lastClearingPrice v)
            @ '' deviated > circuit_breaker_bps from oracle TWAP '' @ bigint_toString (br_lastPythTwap v) @ ''). ''
            @ ''Set NEXT_PUBLIC_DEMO_EXCHANGE_QUOTE_PER_BASE close to the mock-oracle TWAP (default 100) so the clearing price stays within the 5% band.''
         else ''last_match_count='' @ bigint_toString (br_lastMatchCount v) @ '', last_clearing_price='' @ bigint_toString (br_lastClearingPrice v)
            @ '', twap='' @ bigint_toString (br_lastPythTwap v) @ '', write_cursor='' @ bigint_toString (br_writeCursor v) @ ''. ''
            @ ''run_batch may not have crossed any orders for this market '' @ em_dash @ '' check that maker submit_order succeeded and prices crossed.'')
      in newError (''No FILLED MatchResult for this run. '' @ hint))"

definition fee_error :: "MatchResultRecord \<Rightarrow> js_error" where
  "fee_error mr = newError (''Demo L1 settle + BASE withdraw currently requires zero protocol fees on the match (buyer_fee=''
     @ bigint_toString (mr_buyerFeeAmt mr) @ '', seller_fee='' @ bigint_toString (mr_sellerFeeAmt mr)
     @ ''). The dapp's pre-flight should have auto-zeroed vault.fee_rate_bps before run_batch ''
     @ em_dash @ '' try the trade flow again from step 4.'')"

definition account_data :: "'w rpc \<Rightarrow> pubkey \<Rightarrow> string \<Rightarrow> ('w, js_error, bytes) io" where
  "account_data l1 k msg =
     io_bind (rpc_getAccountInfo l1 k) (\<lambda>info.
       case info of None \<Rightarrow> io_throw (newError msg) | Some i \<Rightarrow> io_return (ai_data i))"

text \<open>The note of one side of a match: note C for the buyer, note D for the seller.\<close>

definition trade_note :: "lib \<Rightarrow> pubkey \<Rightarrow> int \<Rightarrow> bytes \<Rightarrow> int \<Rightarrow> int \<Rightarrow> js_error + Note" where
  "trade_note L mint amount userCommitment matchId role =
     rbind (be32ToBigInt userCommitment) (\<lambda>uc.
     rbind (be32ToBigInt (deriveNonce L matchId role)) (\<lambda>nonce.
     rbind (be32ToBigInt (deriveBlinding L matchId role)) (\<lambda>blind.
       Inr \<lparr>nt_tokenMint = toBytes mint, nt_amount = amount, nt_ownerCommitment = uc, nt_nonce = nonce, nt_blindingR = blind\<rparr>)))"

definition settle_payload ::
    "'w TradeL1SettleContext \<Rightarrow> MatchResultRecord \<Rightarrow> bytes \<Rightarrow> bytes \<Rightarrow> bytes \<Rightarrow> bytes \<Rightarrow> MatchResultPayload" where
  "settle_payload ctx mr noteC noteD nullA nullB =
     \<lparr>mp_matchId = matchIdToPayloadBytes (mr_matchId mr), mp_noteAcommitment = mr_noteBuyer mr,
      mp_noteBcommitment = mr_noteSeller mr, mp_noteCcommitment = noteC, mp_noteDcommitment = noteD,
      mp_noteEcommitment = (if isZero32 (mr_noteEcommitment mr) then ZERO_COMMITMENT else mr_noteEcommitment mr),
      mp_noteFcommitment = (if isZero32 (mr_noteFcommitment mr) then ZERO_COMMITMENT else mr_noteFcommitment mr),
      mp_nullifierA = nullA, mp_nullifierB = nullB, mp_orderIdA = tc_userOrderId ctx, mp_orderIdB = tc_makerOrderId ctx,
      mp_baseAmount = mr_baseAmt mr, mp_quoteAmount = mr_quoteAmt mr, mp_buyerChangeAmt = mr_buyerChangeAmt mr,
      mp_sellerChangeAmt = mr_sellerChangeAmt mr, mp_buyerFeeAmt = mr_buyerFeeAmt mr, mp_sellerFeeAmt = mr_sellerFeeAmt mr,
      mp_noteFeeCommitment = ZERO_COMMITMENT,
      mp_buyerRelockOrderId = (if isRelockNone (mr_buyerRelockOrderId mr) then RELOCK_ORDER_ID_NONE else mr_buyerRelockOrderId mr),
      mp_buyerRelockExpiry = mr_buyerRelockExpiry mr,
      mp_sellerRelockOrderId = (if isRelockNone (mr_sellerRelockOrderId mr) then RELOCK_ORDER_ID_NONE else mr_sellerRelockOrderId mr),
      mp_sellerRelockExpiry = mr_sellerRelockExpiry mr, mp_clearingPrice = mr_price mr, mp_batchSlot = mr_batchSlot mr\<rparr>"

definition lock_params :: "'w TradeL1SettleContext \<Rightarrow> bytes \<Rightarrow> bytes \<Rightarrow> int \<Rightarrow> int \<Rightarrow> BuildLockNoteParams" where
  "lock_params ctx cm orderId expiry amount =
     \<lparr>ln_programId = tc_vaultProgramId ctx, ln_teeAuthority = kp_publicKey (tc_tee ctx), ln_noteCommitment = cm,
      ln_orderId = orderId, ln_expirySlot = expiry, ln_amount = amount\<rparr>"

text \<open>The replay after settling, whose outcome is only logged.\<close>

definition post_settle_replay :: "lib \<Rightarrow> decoders \<Rightarrow> 'w TradeL1SettleContext \<Rightarrow> int \<Rightarrow> int \<Rightarrow> ('w, js_error, unit) io" where
  "post_settle_replay L D ctx leafBefore leafAfter =
     io_catch
       (io_bind (collectVaultLeavesOrdered L D (connection.truncate (tc_l1 ctx)) (tc_vaultProgramId ctx) (nat leafAfter) (Some 2000)) (\<lambda>leaves.
        io_bind (io_of (buildWitnessForPrefix L leaves leafBefore)) (\<lambda>w. io_return ())))
       (\<lambda>e. io_return ())"

definition runTradeL1Settle :: "lib \<Rightarrow> decoders \<Rightarrow> wallet_lib \<Rightarrow> 'w TradeL1SettleContext \<Rightarrow> ('w, js_error, TradeL1SettleResult) io" where
  "runTradeL1Settle L D W ctx =
     (let l1 = tc_l1 ctx; tee = tc_tee ctx in
     io_bind (account_data l1 (tc_batchPda ctx) ''BatchResults account missing on L1'') (\<lambda>brData.
     io_bind (io_of (decodeBatchResults brData)) (\<lambda>brView.
     case List.find (is_this_match ctx) (br_results brView) of
       None \<Rightarrow> io_throw (no_match_error brView)
     | Some mr \<Rightarrow>
         if mr_buyerFeeAmt mr \<noteq> 0 \<or> mr_sellerFeeAmt mr \<noteq> 0 then io_throw (fee_error mr)
         else
         io_bind (io_of (vaultConfigPda L (tc_vaultProgramId ctx))) (\<lambda>(vaultPda, _).
         io_bind (account_data l1 vaultPda ''vault_config missing'') (\<lambda>vcPre.
         io_bind (io_of (getBigUint64 vcPre 104)) (\<lambda>leafBeforeSettle.
         let userSpending = deriveSpendingKey L (tc_userMasterSeed ctx);
             makerSpending = deriveSpendingKey L (actorSeed L Maker (tc_maker ctx)) in
         io_bind (io_of (nullifier L userSpending (mr_noteBuyer mr))) (\<lambda>nullA.
         io_bind (io_of (nullifier L makerSpending (mr_noteSeller mr))) (\<lambda>nullB.
         io_bind (io_of (trade_note L (tc_baseMint ctx) (mr_baseAmt mr) (mr_userCommitmentBuyer mr) (mr_matchId mr) TRADE_ROLE_BUYER)) (\<lambda>noteC.
         io_bind (io_of (noteCommitment L noteC)) (\<lambda>noteCcommitment.
         io_bind (io_of (trade_note L (tc_quoteMint ctx) (mr_quoteAmt mr) (mr_userCommitmentSeller mr) (mr_matchId mr) TRADE_ROLE_SELLER)) (\<lambda>noteD.
         io_bind (io_of (noteCommitment L noteD)) (\<lambda>noteDcommitment.
         let payload = settle_payload ctx mr noteCcommitment noteDcommitment nullA nullB in
         io_bind (io_of (canonicalPayloadHash L payload)) (\<lambda>msg.
         io_bind (io_of (nacl_sign W msg (kp_secretKey tee))) (\<lambda>sigTee.
         io_bind (io_of (buildLockNoteInstruction L (lock_params ctx (mr_noteBuyer mr) (tc_userOrderId ctx) (tc_userExpirySlot ctx) (mr_buyerNoteValue mr)))) (\<lambda>lockA.
         io_bind (io_of (buildLockNoteInstruction L (lock_params ctx (mr_noteSeller mr) (tc_makerOrderId ctx) (tc_makerExpirySlot ctx) (mr_sellerNoteValue mr)))) (\<lambda>lockB.
         io_bind (rpc_sendAndConfirm l1 [setComputeUnitLimit W 400000, lockA, lockB] [tee]) (\<lambda>lockSig.
         io_bind (io_of (buildEd25519VerifyIx L \<lparr>ed_teePubkey = toBytes (kp_publicKey tee), ed_signature = sigTee, ed_message = msg\<rparr>)) (\<lambda>edIx.
         io_bind (io_of (buildSettleIx L \<lparr>bs_programId = tc_vaultProgramId ctx, bs_teeAuthority = kp_publicKey tee, bs_payload = payload\<rparr>)) (\<lambda>settleIx.
         io_bind (rpc_sendAndConfirm l1 [setComputeUnitLimit W 1400000, edIx, settleIx] [tee]) (\<lambda>settleSig.
         io_bind (account_data l1 vaultPda ''vault_config missing after settle'') (\<lambda>vcPost.
         io_bind (io_of (getBigUint64 vcPost 104)) (\<lambda>leafAfter.
         io_bind (post_settle_replay L D ctx leafBeforeSettle leafAfter) (\<lambda>_.
         io_return
           \<lparr>sr_lockSettleSignatures =
              [\<lparr>txs_label = ''lock_note '' @ [char_of (195 :: nat), char_of (151 :: nat)] @ ''2 (L1)'', txs_signature = lockSig, txs_cluster = ''l1''\<rparr>,
               \<lparr>txs_label = ''Ed25519 + tee_forced_settle (L1)'', txs_signature = settleSig, txs_cluster = ''l1''\<rparr>],
            sr_buyerBaseNote =
              \<lparr>bb_matchId = bigint_toString (mr_matchId mr), bb_leafIndex = bigint_toString leafBeforeSettle,
               bb_amount = bigint_toString (mr_baseAmt mr), bb_nonce = bigint_toString (nt_nonce noteC),
               bb_blindingR = bigint_toString (nt_blindingR noteC), bb_commitmentHex = bytes_hex noteCcommitment,
               bb_tokenMintBase58 = pubkey_toBase58 L (tc_baseMint ctx),
               bb_vaultLeafCountAfter = bigint_toString leafAfter\<rparr>\<rparr>)))))))))))))))))))))))"

text \<open>The request of \<open>runWithdraw\<close> in \<open>trade-base-withdraw-panel.tsx\<close>.\<close>

definition trade_withdraw_request :: "string \<Rightarrow> string \<Rightarrow> string \<Rightarrow> buyer_base_note \<Rightarrow> trade_withdraw_body" where
  "trade_withdraw_request phantomSignature ownerPubkey ownerCommitmentHex b =
     \<lparr>twb_phantomSignatureBase58 = Some phantomSignature, twb_ownerPubkeyBase58 = Some ownerPubkey,
      twb_ownerCommitmentHex = Some ownerCommitmentHex, twb_matchId = Some (bb_matchId b),
      twb_tokenMintBase58 = Some (bb_tokenMintBase58 b), twb_amount = Some (bb_amount b), twb_nonce = Some (bb_nonce b),
      twb_blindingR = Some (bb_blindingR b), twb_leafIndex = Some (bb_leafIndex b),
      twb_commitmentHex = Some (bb_commitmentHex b), twb_maxSignatures = None\<rparr>"

section \<open>What a settlement does\<close>

lemma runTradeL1Settle_okE:
  assumes "runTradeL1Settle L D W ctx w = (Inr res, w')"
  obtains brData brView mr leafBefore leafAfter noteC cC noteD cD nullA nullB msg sigTee lockA lockB lockSig edIx settleIx settleSig
      pda bump vcPre w1 w2 w3 w4 vcPost w5 where
    "account_data (tc_l1 ctx) (tc_batchPda ctx) ''BatchResults account missing on L1'' w = (Inr brData, w1)"
    "decodeBatchResults brData = Inr brView"
    "List.find (is_this_match ctx) (br_results brView) = Some mr" "mr_buyerFeeAmt mr = 0" "mr_sellerFeeAmt mr = 0"
    "vaultConfigPda L (tc_vaultProgramId ctx) = Inr (pda, bump)"
    "account_data (tc_l1 ctx) pda ''vault_config missing'' w1 = (Inr vcPre, w2)" "getBigUint64 vcPre 104 = Inr leafBefore"
    "nullifier L (deriveSpendingKey L (tc_userMasterSeed ctx)) (mr_noteBuyer mr) = Inr nullA"
    "nullifier L (deriveSpendingKey L (actorSeed L Maker (tc_maker ctx))) (mr_noteSeller mr) = Inr nullB"
    "trade_note L (tc_baseMint ctx) (mr_baseAmt mr) (mr_userCommitmentBuyer mr) (mr_matchId mr) TRADE_ROLE_BUYER = Inr noteC"
    "noteCommitment L noteC = Inr cC"
    "trade_note L (tc_quoteMint ctx) (mr_quoteAmt mr) (mr_userCommitmentSeller mr) (mr_matchId mr) TRADE_ROLE_SELLER = Inr noteD"
    "noteCommitment L noteD = Inr cD"
    "canonicalPayloadHash L (settle_payload ctx mr cC cD nullA nullB) = Inr msg"
    "nacl_sign W msg (kp_secretKey (tc_tee ctx)) = Inr sigTee"
    "buildLockNoteInstruction L (lock_params ctx (mr_noteBuyer mr) (tc_userOrderId ctx) (tc_userExpirySlot ctx) (mr_buyerNoteValue mr)) = Inr lockA"
    "buildLockNoteInstruction L (lock_params ctx (mr_noteSeller mr) (tc_makerOrderId ctx) (tc_makerExpirySlot ctx) (mr_sellerNoteValue mr)) = Inr lockB"
    "rpc_sendAndConfirm (tc_l1 ctx) [setComputeUnitLimit W 400000, lockA, lockB] [tc_tee ctx] w2 = (Inr lockSig, w3)"
    "buildEd25519VerifyIx L \<lparr>ed_teePubkey = toBytes (kp_publicKey (tc_tee ctx)), ed_signature = sigTee, ed_message = msg\<rparr> = Inr edIx"
    "buildSettleIx L \<lparr>bs_programId = tc_vaultProgramId ctx, bs_teeAuthority = kp_publicKey (tc_tee ctx),
       bs_payload = settle_payload ctx mr cC cD nullA nullB\<rparr> = Inr settleIx"
    "rpc_sendAndConfirm (tc_l1 ctx) [setComputeUnitLimit W 1400000, edIx, settleIx] [tc_tee ctx] w3 = (Inr settleSig, w4)"
    "sr_buyerBaseNote res = \<lparr>bb_matchId = bigint_toString (mr_matchId mr), bb_leafIndex = bigint_toString leafBefore,
       bb_amount = bigint_toString (mr_baseAmt mr), bb_nonce = bigint_toString (nt_nonce noteC),
       bb_blindingR = bigint_toString (nt_blindingR noteC), bb_commitmentHex = bytes_hex cC,
       bb_tokenMintBase58 = pubkey_toBase58 L (tc_baseMint ctx), bb_vaultLeafCountAfter = bigint_toString leafAfter\<rparr>"
    "map txs_signature (sr_lockSettleSignatures res) = [lockSig, settleSig]"
    "account_data (tc_l1 ctx) pda ''vault_config missing after settle'' w4 = (Inr vcPost, w5)"
    "post_settle_replay L D ctx leafBefore leafAfter w5 = (Inr (), w')"
  using assms unfolding runTradeL1Settle_def Let_def
  by (elim run_elims) clarsimp

lemma trade_note_fields:
  assumes "trade_note L mint amount uc matchId role = Inr note"
  shows "nt_tokenMint note = toBytes mint" "nt_amount note = amount" "be32ToBigInt uc = Inr (nt_ownerCommitment note)"
    "be32ToBigInt (deriveNonce L matchId role) = Inr (nt_nonce note)"
    "be32ToBigInt (deriveBlinding L matchId role) = Inr (nt_blindingR note)"
  using assms by (auto simp: trade_note_def rbind_eq_Inr)

lemma post_settle_replay_returns: "\<exists>u. post_settle_replay L D ctx a b w = (Inr (), u)"
proof -
  obtain r u where "io_bind (collectVaultLeavesOrdered L D (connection.truncate (tc_l1 ctx)) (tc_vaultProgramId ctx) (nat b) (Some 2000))
      (\<lambda>leaves. io_bind (io_of (buildWitnessForPrefix L leaves a)) (\<lambda>w. io_return ())) w = (r, u)" by fastforce
  then show ?thesis by (cases r) (auto simp: post_settle_replay_def io_catch_def)
qed

text \<open>A run in which nothing throws.\<close>

lemma runTradeL1Settle_runs:
  assumes here: "P w" and batch: "\<And>w. P w \<Longrightarrow> account_data (tc_l1 ctx) (tc_batchPda ctx) ''BatchResults account missing on L1'' w = (Inr brData, w)"
    and vault: "\<And>msg w. P w \<Longrightarrow> account_data (tc_l1 ctx) pda msg w = (Inr vcPre, w)"
    and send: "\<And>ixs w. P w \<Longrightarrow> \<exists>w'. rpc_sendAndConfirm (tc_l1 ctx) ixs [tc_tee ctx] w = (Inr sg, w') \<and> P w'"
    and "decodeBatchResults brData = Inr brView" and "List.find (is_this_match ctx) (br_results brView) = Some mr"
    and "mr_buyerFeeAmt mr = 0" "mr_sellerFeeAmt mr = 0"
    and "vaultConfigPda L (tc_vaultProgramId ctx) = Inr (pda, bump)"
    and "getBigUint64 vcPre 104 = Inr leafBefore"
    and "nullifier L (deriveSpendingKey L (tc_userMasterSeed ctx)) (mr_noteBuyer mr) = Inr nullA"
    and "nullifier L (deriveSpendingKey L (actorSeed L Maker (tc_maker ctx))) (mr_noteSeller mr) = Inr nullB"
    and "trade_note L (tc_baseMint ctx) (mr_baseAmt mr) (mr_userCommitmentBuyer mr) (mr_matchId mr) TRADE_ROLE_BUYER = Inr noteC"
    and "noteCommitment L noteC = Inr cC"
    and "trade_note L (tc_quoteMint ctx) (mr_quoteAmt mr) (mr_userCommitmentSeller mr) (mr_matchId mr) TRADE_ROLE_SELLER = Inr noteD"
    and "noteCommitment L noteD = Inr cD"
    and "canonicalPayloadHash L (settle_payload ctx mr cC cD nullA nullB) = Inr msg"
    and "nacl_sign W msg (kp_secretKey (tc_tee ctx)) = Inr sigTee"
    and "buildLockNoteInstruction L (lock_params ctx (mr_noteBuyer mr) (tc_userOrderId ctx) (tc_userExpirySlot ctx) (mr_buyerNoteValue mr)) = Inr lockA"
    and "buildLockNoteInstruction L (lock_params ctx (mr_noteSeller mr) (tc_makerOrderId ctx) (tc_makerExpirySlot ctx) (mr_sellerNoteValue mr)) = Inr lockB"
    and "buildEd25519VerifyIx L \<lparr>ed_teePubkey = toBytes (kp_publicKey (tc_tee ctx)), ed_signature = sigTee, ed_message = msg\<rparr> = Inr edIx"
    and "buildSettleIx L \<lparr>bs_programId = tc_vaultProgramId ctx, bs_teeAuthority = kp_publicKey (tc_tee ctx),
       bs_payload = settle_payload ctx mr cC cD nullA nullB\<rparr> = Inr settleIx"
  shows "\<exists>res u. runTradeL1Settle L D W ctx w = (Inr res, u)
     \<and> bb_leafIndex (sr_buyerBaseNote res) = bigint_toString leafBefore \<and> bb_commitmentHex (sr_buyerBaseNote res) = bytes_hex cC"
proof -
  obtain w3 where lock: "rpc_sendAndConfirm (tc_l1 ctx) [setComputeUnitLimit W 400000, lockA, lockB] [tc_tee ctx] w = (Inr sg, w3)" "P w3"
    using send [OF here] by blast
  obtain w4 where settle: "rpc_sendAndConfirm (tc_l1 ctx) [setComputeUnitLimit W 1400000, edIx, settleIx] [tc_tee ctx] w3 = (Inr sg, w4)" "P w4"
    using send [OF lock(2)] by blast
  obtain u where "post_settle_replay L D ctx leafBefore leafBefore w4 = (Inr (), u)"
    by (rule exE [OF post_settle_replay_returns])
  then show ?thesis
    unfolding runTradeL1Settle_def Let_def io_bind_def
    by (simp add: assms(5-) batch [OF here] vault [OF here] vault [OF settle(2)] lock(1) settle(1))
qed

text \<open>The lock instruction: who signs, which account it opens, and its arguments.\<close>

lemma buildLockNote_wire:
  assumes "buildLockNoteInstruction L p = Inr ix"
  shows "signers_of ix = [ln_teeAuthority p]" and "ix_programId ix = ln_programId p"
    and "ix_data ix = anchorDiscriminator L ''lock_note'' @ ln_noteCommitment p @ ln_orderId p @ u64LE (ln_expirySlot p) @ u64LE (ln_amount p)"
    and "\<exists>lock bump. noteLockPda L (ln_programId p) (ln_noteCommitment p) = Inr (lock, bump) \<and> lock \<in> set (map am_pubkey (ix_keys ix))"
  using assms by (auto simp: buildLockNoteInstruction_def rbind_eq_Inr signers_of_def meta_def mkIx_def fixed_def split: if_splits)

definition locks_note :: "lib \<Rightarrow> 'w TradeL1SettleContext \<Rightarrow> bytes \<Rightarrow> bytes \<Rightarrow> int \<Rightarrow> int \<Rightarrow> instruction \<Rightarrow> bool" where
  "locks_note L ctx cm orderId expiry amount ix \<longleftrightarrow>
     ix_programId ix = tc_vaultProgramId ctx \<and> signers_of ix = [kp_publicKey (tc_tee ctx)]
     \<and> ix_data ix = anchorDiscriminator L ''lock_note'' @ cm @ orderId @ u64LE expiry @ u64LE amount
     \<and> (\<exists>lock bump. noteLockPda L (tc_vaultProgramId ctx) cm = Inr (lock, bump) \<and> lock \<in> set (map am_pubkey (ix_keys ix)))"

lemma lock_params_lock: "buildLockNoteInstruction L (lock_params ctx cm orderId expiry amount) = Inr ix \<Longrightarrow> locks_note L ctx cm orderId expiry amount ix"
  using buildLockNote_wire [of L "lock_params ctx cm orderId expiry amount" ix] by (simp add: locks_note_def lock_params_def)

context recorded
begin

lemma keeps_account_data: "keeps sent (account_data c k msg)"
  unfolding account_data_def by (intro keeps_intros keeps_reads)

lemma keeps_post_settle_replay: "tc_l1 ctx = c \<Longrightarrow> keeps sent (post_settle_replay L D ctx a b)"
  unfolding post_settle_replay_def by (intro keeps_intros) (simp_all add: keeps_reads)

end

text \<open>(C25) A settlement that returns sent exactly two transactions, both signed by the TEE key. The first locks the two input
  notes of a match of the batch account for their orders, with the values the batch has for them. The
  second has the signature check and the settle instruction. The settle instruction carries a payload for the notes of this trade without
  fees; the signature instruction before it is accepted for that payload's canonical hash under
  the TEE key and for nothing else; and the note reported to the buyer, with its amount, nonce and
  blinding, is the one whose commitment the payload inserts first. \<open>sent\<close> is the log of the connection
  (\<open>recorded\<close>).\<close>

theorem run_trade_settles:
  assumes log: "recorded ''l1'' (tc_l1 ctx) sent" and run: "runTradeL1Settle L D W ctx w = (Inr res, w')"
  shows "\<exists>data w0 view mr p note lockA lockB edIx settleIx lockSig settleSig.
     account_data (tc_l1 ctx) (tc_batchPda ctx) ''BatchResults account missing on L1'' w = (Inr data, w0)
     \<and> decodeBatchResults data = Inr view \<and> mr \<in> set (br_results view) \<and> is_this_match ctx mr
     \<and> sent w' = sent w
         @ [\<lparr>st_cluster = ''l1'', st_ixs = [setComputeUnitLimit W 400000, lockA, lockB], st_signers = [tc_tee ctx], st_result = Inr lockSig\<rparr>,
            \<lparr>st_cluster = ''l1'', st_ixs = [setComputeUnitLimit W 1400000, edIx, settleIx], st_signers = [tc_tee ctx], st_result = Inr settleSig\<rparr>]
     \<and> map txs_signature (sr_lockSettleSignatures res) = [lockSig, settleSig]
     \<and> locks_note L ctx (tc_userQuoteNoteCommitment ctx) (tc_userOrderId ctx) (tc_userExpirySlot ctx) (mr_buyerNoteValue mr) lockA
     \<and> locks_note L ctx (tc_makerNoteCommitment ctx) (tc_makerOrderId ctx) (tc_makerExpirySlot ctx) (mr_sellerNoteValue mr) lockB
     \<and> ix_programId settleIx = tc_vaultProgramId ctx \<and> payload_lengths p
     \<and> ix_data settleIx = anchorDiscriminator L ''tee_forced_settle'' @ payload_bytes p
     \<and> (\<forall>k m. tee_signature_accepts (ix_data edIx) k m \<longleftrightarrow>
            k = toBytes (kp_publicKey (tc_tee ctx)) \<and> canonicalPayloadHash L p = Inr m)
     \<and> mp_noteAcommitment p = tc_userQuoteNoteCommitment ctx \<and> mp_noteBcommitment p = tc_makerNoteCommitment ctx
     \<and> mp_buyerFeeAmt p = 0 \<and> mp_sellerFeeAmt p = 0 \<and> mp_noteFeeCommitment p = zeros 32
     \<and> hd (settle_leaves p) = hex_decode (bb_commitmentHex (sr_buyerBaseNote res))
     \<and> noteCommitment L note = Inr (hex_decode (bb_commitmentHex (sr_buyerBaseNote res)))
     \<and> nt_tokenMint note = toBytes (tc_baseMint ctx) \<and> js_BigInt (bb_amount (sr_buyerBaseNote res)) = Inr (nt_amount note)
     \<and> mp_baseAmount p = nt_amount note
     \<and> js_BigInt (bb_nonce (sr_buyerBaseNote res)) = Inr (nt_nonce note)
     \<and> js_BigInt (bb_blindingR (sr_buyerBaseNote res)) = Inr (nt_blindingR note)"
proof (rule runTradeL1Settle_okE [OF run])
  fix brData brView mr leafBefore leafAfter noteC cC noteD cD nullA nullB msg sigTee lockA lockB lockSig edIx settleIx settleSig
    pda bump vcPre w1 w2 w3 w4 vcPost w5
  let ?p = "settle_payload ctx mr cC cD nullA nullB"
  assume batch: "account_data (tc_l1 ctx) (tc_batchPda ctx) ''BatchResults account missing on L1'' w = (Inr brData, w1)" "decodeBatchResults brData = Inr brView"
    and vault: "account_data (tc_l1 ctx) pda ''vault_config missing'' w1 = (Inr vcPre, w2)"
      "account_data (tc_l1 ctx) pda ''vault_config missing after settle'' w4 = (Inr vcPost, w5)"
      "post_settle_replay L D ctx leafBefore leafAfter w5 = (Inr (), w')"
    and lock: "buildLockNoteInstruction L (lock_params ctx (mr_noteBuyer mr) (tc_userOrderId ctx) (tc_userExpirySlot ctx) (mr_buyerNoteValue mr)) = Inr lockA"
      "buildLockNoteInstruction L (lock_params ctx (mr_noteSeller mr) (tc_makerOrderId ctx) (tc_makerExpirySlot ctx) (mr_sellerNoteValue mr)) = Inr lockB"
    and f: "List.find (is_this_match ctx) (br_results brView) = Some mr" "mr_buyerFeeAmt mr = 0" "mr_sellerFeeAmt mr = 0"
    and nC: "trade_note L (tc_baseMint ctx) (mr_baseAmt mr) (mr_userCommitmentBuyer mr) (mr_matchId mr) TRADE_ROLE_BUYER = Inr noteC"
      "noteCommitment L noteC = Inr cC"
    and msg: "canonicalPayloadHash L ?p = Inr msg"
    and ed: "buildEd25519VerifyIx L \<lparr>ed_teePubkey = toBytes (kp_publicKey (tc_tee ctx)), ed_signature = sigTee, ed_message = msg\<rparr> = Inr edIx"
    and st: "buildSettleIx L \<lparr>bs_programId = tc_vaultProgramId ctx, bs_teeAuthority = kp_publicKey (tc_tee ctx), bs_payload = ?p\<rparr> = Inr settleIx"
    and tx: "rpc_sendAndConfirm (tc_l1 ctx) [setComputeUnitLimit W 400000, lockA, lockB] [tc_tee ctx] w2 = (Inr lockSig, w3)"
      "rpc_sendAndConfirm (tc_l1 ctx) [setComputeUnitLimit W 1400000, edIx, settleIx] [tc_tee ctx] w3 = (Inr settleSig, w4)"
      "map txs_signature (sr_lockSettleSignatures res) = [lockSig, settleSig]"
    and bb: "sr_buyerBaseNote res = \<lparr>bb_matchId = bigint_toString (mr_matchId mr), bb_leafIndex = bigint_toString leafBefore,
       bb_amount = bigint_toString (mr_baseAmt mr), bb_nonce = bigint_toString (nt_nonce noteC),
       bb_blindingR = bigint_toString (nt_blindingR noteC), bb_commitmentHex = bytes_hex cC,
       bb_tokenMintBase58 = pubkey_toBase58 L (tc_baseMint ctx), bb_vaultLeafCountAfter = bigint_toString leafAfter\<rparr>"
  have this_match: "is_this_match ctx mr" "mr \<in> set (br_results brView)" using f(1) by (auto simp: find_Some_iff)
  note keeps_data = recorded.keeps_account_data [OF log, THEN keepsD]
  have log': "sent w' = sent w
         @ [\<lparr>st_cluster = ''l1'', st_ixs = [setComputeUnitLimit W 400000, lockA, lockB], st_signers = [tc_tee ctx], st_result = Inr lockSig\<rparr>,
            \<lparr>st_cluster = ''l1'', st_ixs = [setComputeUnitLimit W 1400000, edIx, settleIx], st_signers = [tc_tee ctx], st_result = Inr settleSig\<rparr>]"
    using recorded.sends [OF log tx(1)] recorded.sends [OF log tx(2)] keeps_data [OF batch(1)] keeps_data [OF vault(1)] keeps_data [OF vault(2)]
      keepsD [OF recorded.keeps_post_settle_replay [OF log refl] vault(3)] by simp
  note locks = lock_params_lock [OF lock(1)] lock_params_lock [OF lock(2)]
  have both: "mr_noteBuyer mr = tc_userQuoteNoteCommitment ctx" "mr_noteSeller mr = tc_makerNoteCommitment ctx"
    using this_match(1) by (simp_all add: is_this_match_def)
  have len: "length msg = 32" using msg by (auto simp: canonicalPayloadHash_def rbind_eq_Inr)
  have sl: "length sigTee = 64" using ed by (auto simp: buildEd25519VerifyIx_def fixed_def rbind_eq_Inr split: if_splits)
  have acc: "\<forall>k m. tee_signature_accepts (ix_data edIx) k m \<longleftrightarrow> k = toBytes (kp_publicKey (tc_tee ctx)) \<and> m = msg"
    using buildEd25519VerifyIx_accepts [OF _ sl len, of "toBytes (kp_publicKey (tc_tee ctx))" L] ed by auto
  have pay: "mp_noteAcommitment ?p = tc_userQuoteNoteCommitment ctx" "mp_noteBcommitment ?p = tc_makerNoteCommitment ctx"
      "mp_buyerFeeAmt ?p = 0" "mp_sellerFeeAmt ?p = 0" "mp_noteFeeCommitment ?p = zeros 32" "hd (settle_leaves ?p) = cC"
      "mp_baseAmount ?p = nt_amount noteC"
    using this_match(1) f trade_note_fields(2) [OF nC(1)]
    by (simp_all add: settle_payload_def is_this_match_def settle_leaves_def ZERO_COMMITMENT_def)
  have sgn: "\<forall>k m. tee_signature_accepts (ix_data edIx) k m \<longleftrightarrow>
      k = toBytes (kp_publicKey (tc_tee ctx)) \<and> canonicalPayloadHash L ?p = Inr m"
    using acc msg by auto
  have am: "Inr (mr_baseAmt mr) = Inr (nt_amount noteC)" using trade_note_fields(2) [OF nC(1)] by simp
  note sx = buildSettleIx_data [OF st, unfolded BuildSettleIxParams.simps]
  show ?thesis
    unfolding bb buyer_base_note.simps hex_decode_bytes_hex js_BigInt_toString
    by (intro exI conjI, rule batch(1), rule batch(2), rule this_match(2), rule this_match(1), rule log', rule tx(3),
        rule locks(1) [unfolded both], rule locks(2) [unfolded both], rule sx(3), rule sx(1), rule sx(2), rule sgn, rule pay(1), rule pay(2),
        rule pay(3), rule pay(4), rule pay(5), rule pay(6), rule nC(2), rule trade_note_fields(1) [OF nC(1)], rule am,
        rule pay(7), rule refl, rule refl)
qed

section \<open>Withdrawing what was settled\<close>

lemma trade_withdraw_runs:
  fixes body :: trade_withdraw_body and M :: "'w demo"
  defines "D \<equiv> dm_decoders M"
  assumes fields: "\<not> twb_incomplete body"
    and vo: "verifyPhantomSeedSignature L D (dm_wallet M) (the (twb_phantomSignatureBase58 body)) (the (twb_ownerPubkeyBase58 body)) = Inr vo"
    and env: "demo_setup M = Inr (conns, programs)" and mint: "publicKeyOf D (twb_tokenMintBase58 body) = Inr (pr_baseMint programs)"
    and owner: "owner = ownerCommitment L (deriveSpendingKey L (vo_seed vo)) (deriveBlindingFactor L (vo_seed vo) 0)"
      "bn254ToBE32 owner = Inr ob" "twb_ownerCommitmentHex body = Some (bytes_hex ob)"
    and nums: "js_BigInt (the (twb_matchId body)) = Inr matchId" "js_BigInt (the (twb_amount body)) = Inr amount"
      "js_BigInt (the (twb_nonce body)) = Inr nonce" "js_BigInt (the (twb_blindingR body)) = Inr blindingR"
      "js_BigInt (the (twb_leafIndex body)) = Inr (int i)"
    and secrets: "be32ToBigInt (deriveNonce L matchId TRADE_ROLE_BUYER) = Inr nonce"
      "be32ToBigInt (deriveBlinding L matchId TRADE_ROLE_BUYER) = Inr blindingR"
    and cm: "noteCommitment L \<lparr>nt_tokenMint = toBytes (pr_baseMint programs), nt_amount = amount, nt_ownerCommitment = owner,
       nt_nonce = nonce, nt_blindingR = blindingR\<rparr> = Inr cm" "twb_commitmentHex body = Some (bytes_hex cm)"
    and info: "vault_info L (dcn_l1 conns) (pr_vaultProgramId programs) w = (Inr data, w)"
      "getBigUint64 data 104 = Inr (int n)" "readVaultRoots data = (current, ring)" "i < n"
    and replay: "collectVaultLeavesOrdered L D (connection.truncate (dcn_l1 conns)) (pr_vaultProgramId programs) n
       (Some (case twb_maxSignatures body of Some m \<Rightarrow> m | None \<Rightarrow> 10000)) w = (Inr leaves, w)" "leaves ! i = cm"
    and wit: "prefix_loop L leaves (int i) current ring (int n) (int n) [] = Inr (Some ch, tried)"
    and nl: "nullifier L (deriveSpendingKey L (vo_seed vo)) cm = Inr nl" "pubkeyToFrPair (toBytes (pr_baseMint programs)) = Inr mt"
  shows "\<exists>r. trade_withdraw_POST L M body w = (ReplyOk r, w)"
proof -
  have r: "vault_info L (dcn_l1 conns) (pr_vaultProgramId programs) w = (Inr data, w)"
      "getBigUint64 data VAULT_LEAF_COUNT_OFFSET = Inr (int n)" "\<not> n \<le> i"
    using info by (simp_all add: VAULT_LEAF_COUNT_OFFSET_def)
  have o: "bn254ToBE32 (ownerCommitment L (deriveSpendingKey L (vo_seed vo)) (deriveBlindingFactor L (vo_seed vo) 0)) = Inr ob"
    using owner by simp
  show ?thesis
    unfolding trade_withdraw_POST_def route_def io_bind_def D_def [symmetric]
    using fields
    by (simp add: vo env mint o owner(3) nums secrets cm(1) [unfolded owner(1)] cm(2) r info(3) replay wit nl Let_def)
qed

text \<open>The buyer's order was submitted under the owner commitment of the seed: the match of this trade, as
  the batch account shows it, carries that commitment.\<close>

definition match_owned :: "lib \<Rightarrow> 'w TradeL1SettleContext \<Rightarrow> 'w \<Rightarrow> bytes \<Rightarrow> bool" where
  "match_owned L ctx w seed \<longleftrightarrow>
     (\<forall>data w' view mr. account_data (tc_l1 ctx) (tc_batchPda ctx) ''BatchResults account missing on L1'' w = (Inr data, w')
        \<and> decodeBatchResults data = Inr view \<and> List.find (is_this_match ctx) (br_results view) = Some mr
        \<longrightarrow> be32ToBigInt (mr_userCommitmentBuyer mr)
            = Inr (ownerCommitment L (deriveSpendingKey L seed) (deriveBlindingFactor L seed 0)))"

text \<open>The history of the vault served by an RPC connection: executed transactions, without a reset of the
  tree, that leave the leaves \<open>xs\<close>.\<close>

definition honest_history :: "lib \<Rightarrow> decoders \<Rightarrow> 'w connection \<Rightarrow> pubkey \<Rightarrow> bytes list \<Rightarrow> bool" where
  "honest_history L D conn vp xs \<longleftrightarrow> discs_distinct L \<and>
     (\<exists>chain effss. serves_history conn vp chain \<and> chain \<noteq> [] \<and> length chain \<le> 10000
        \<and> list_all2 (\<lambda>(sig, tx). tx_executed L D vp tx) chain effss
        \<and> ResetLeaves \<notin> set (concat effss) \<and> vault_leaves (concat effss) [] = xs)"

lemma honest_replay:
  assumes "honest_history L D conn vp xs"
  shows "collectVaultLeavesOrdered L D conn vp (length xs) (Some 10000) w = (Inr xs, w)"
proof -
  obtain chain effss where h: "serves_history conn vp chain" "chain \<noteq> []" "length chain \<le> 10000"
      "list_all2 (\<lambda>(sig, tx). tx_executed L D vp tx) chain effss"
      "ResetLeaves \<notin> set (concat effss)" "vault_leaves (concat effss) [] = xs" and d: "discs_distinct L"
    using assms unfolding honest_history_def by blast
  show ?thesis using replay_vault_leaves [OF d h(1,2) _ h(4,5), of "Some 10000" "length xs" w] h(3,6) by simp
qed

lemma settled_trade_answered:
  assumes lib: "poseidon_canonical L" "base58_inverse L (dm_decoders M)"
    and run: "runTradeL1Settle L (dm_decoders M) (dm_wallet M) ctx w0 = (Inr res, w1)"
    and env: "demo_setup M = Inr (conns, programs)" "tc_baseMint ctx = pr_baseMint programs"
    and user: "verifyPhantomSeedSignature L (dm_decoders M) (dm_wallet M) sg ow = Inr vo" "sg \<noteq> []" "ow \<noteq> []"
      "match_owned L ctx w0 (vo_seed vo)"
      "bn254ToBE32 (ownerCommitment L (deriveSpendingKey L (vo_seed vo)) (deriveBlindingFactor L (vo_seed vo) 0)) = Inr ob"
    and vault: "account_holds L (dcn_l1 conns) (pr_vaultProgramId programs) w2 v" "vault_rep L v xs"
      "honest_history L (dm_decoders M) (connection.truncate (dcn_l1 conns)) (pr_vaultProgramId programs) xs"
    and leaf: "js_BigInt (bb_leafIndex (sr_buyerBaseNote res)) = Inr (int i)" "i < length xs"
      "xs ! i = hex_decode (bb_commitmentHex (sr_buyerBaseNote res))"
  shows "\<exists>r. trade_withdraw_POST L M (trade_withdraw_request sg ow (bytes_hex ob) (sr_buyerBaseNote res)) w2 = (ReplyOk r, w2)"
proof (rule runTradeL1Settle_okE [OF run])
  fix brData brView mr leafBefore leafAfter noteC cC noteD cD nullA nullB msg sigTee lockA lockB lockSig edIx settleIx settleSig
    pda bump vcPre u1 u2 u3 u4
  assume br: "account_data (tc_l1 ctx) (tc_batchPda ctx) ''BatchResults account missing on L1'' w0 = (Inr brData, u1)"
      "decodeBatchResults brData = Inr brView" "List.find (is_this_match ctx) (br_results brView) = Some mr"
    and nC: "trade_note L (tc_baseMint ctx) (mr_baseAmt mr) (mr_userCommitmentBuyer mr) (mr_matchId mr) TRADE_ROLE_BUYER = Inr noteC"
      "noteCommitment L noteC = Inr cC"
    and bb: "sr_buyerBaseNote res = \<lparr>bb_matchId = bigint_toString (mr_matchId mr), bb_leafIndex = bigint_toString leafBefore,
       bb_amount = bigint_toString (mr_baseAmt mr), bb_nonce = bigint_toString (nt_nonce noteC),
       bb_blindingR = bigint_toString (nt_blindingR noteC), bb_commitmentHex = bytes_hex cC,
       bb_tokenMintBase58 = pubkey_toBase58 L (tc_baseMint ctx), bb_vaultLeafCountAfter = bigint_toString leafAfter\<rparr>"
  let ?sk = "deriveSpendingKey L (vo_seed vo)" and ?ob = "deriveBlindingFactor L (vo_seed vo) 0"
  let ?body = "trade_withdraw_request sg ow (bytes_hex ob) (sr_buyerBaseNote res)"
  note nf = trade_note_fields [OF nC(1)]
  have own: "nt_ownerCommitment noteC = ownerCommitment L ?sk ?ob"
    using user(4) br nf(3) unfolding match_owned_def by (metis sum.inject(2))
  have noteC: "noteC = \<lparr>nt_tokenMint = toBytes (pr_baseMint programs), nt_amount = mr_baseAmt mr,
      nt_ownerCommitment = ownerCommitment L ?sk ?ob, nt_nonce = nt_nonce noteC, nt_blindingR = nt_blindingR noteC\<rparr>"
    using nf(1,2) own env(2) by (cases noteC) simp
  have len: "length cC = 32" "length ob = 32" using nC(2) user(5) by (simp_all add: noteCommitment_length bn254ToBE32_Inr_iff)
  obtain data where data: "vault_info L (dcn_l1 conns) (pr_vaultProgramId programs) w2 = (Inr data, w2)" "vault_data v data"
    using vault(1) by (rule vault_info_holds)
  have n: "vc_leaf_count v = length xs" and root: "vc_current_root v = vault_root L xs" and ok: "leaves_ok xs"
    using vault(2) by (auto simp: vault_rep_def intro: field_bytes_leaves_ok)
  obtain wt where wt: "shadow_witness L (shadow_of L xs) (int i) = Inr wt" "mw_root wt = vault_root L xs"
    using shadow_witness_eq [OF lib(1) ok leaf(2)] by simp
  have loop: "\<exists>ch tried. prefix_loop L xs (int i) (vc_current_root v) (filter (\<lambda>r. \<not> isZero32 r) (vc_roots v)) (int (length xs)) (int (length xs)) []
      = Inr (Some ch, tried)"
    using prefix_loop_current [of "int i" "int (length xs)" L xs wt] wt buildWitnessForPrefix_eq [OF lib(1) ok] leaf(2) root by auto
  obtain nl where nl: "nullifier L ?sk cC = Inr nl"
    using len(1) poseidonHashBytesBE_ok [OF lib(1), of "[?sk, be_to_int cC]"] by (auto simp: nullifier_def poseidonHashBytesBE_def Let_def)
  obtain mt where mt: "pubkeyToFrPair (toBytes (pr_baseMint programs)) = Inr mt" using pubkeyToFrPair_Inr_iff length_wire by metis
  have "bytes_hex cC \<noteq> []" "bytes_hex ob \<noteq> []" using len by (auto simp flip: length_greater_0_conv simp del: length_greater_0_conv)
  then have fields: "\<not> twb_incomplete ?body"
    using user(2,3) lib(2) by (simp add: trade_withdraw_request_def twb_incomplete_def absent_def bb base58_inverse_def)
  obtain ch tried where ch: "prefix_loop L xs (int i) (vc_current_root v) (filter (\<lambda>r. \<not> isZero32 r) (vc_roots v)) (int (length xs)) (int (length xs)) []
      = Inr (Some ch, tried)" using loop by blast
  show ?thesis
    by (rule trade_withdraw_runs [OF fields _ env(1) _ refl user(5), where matchId = "mr_matchId mr" and amount = "mr_baseAmt mr"
          and nonce = "nt_nonce noteC" and blindingR = "nt_blindingR noteC" and i = i and cm = cC and data = data and n = "length xs"
          and current = "vc_current_root v" and ring = "filter (\<lambda>r. \<not> isZero32 r) (vc_roots v)" and leaves = xs and ch = ch
          and tried = tried and nl = nl and mt = mt])
      (use user(1) lib(2) leaf nf(4,5) nC(2) noteC data vault_data_reads [OF data(2)] n honest_replay [OF vault(3)] ch nl mt bb env(2)
       in \<open>simp_all add: trade_withdraw_request_def base58_inverse_def\<close>)
qed

text \<open>A settled trade can be withdrawn. The buyer whose seed owns the match asks for the withdrawal of the
  note a settlement reported, when the vault holds that note's commitment at the reported index and
  the RPC serves its history: the route answers, and the panel's inputs for the prover satisfy the
  VALID_SPEND circuit for a root the vault accepts, for the whole base amount of the match.\<close>

theorem settled_trade_withdrawable:
  assumes lib: "poseidon_canonical L" "base58_inverse L (dm_decoders M)"
    and run: "runTradeL1Settle L (dm_decoders M) (dm_wallet M) ctx w0 = (Inr res, w1)"
    and env: "demo_setup M = Inr (conns, programs)" "tc_baseMint ctx = pr_baseMint programs"
    and user: "verifyPhantomSeedSignature L (dm_decoders M) (dm_wallet M) sg ow = Inr vo" "sg \<noteq> []" "ow \<noteq> []"
      "match_owned L ctx w0 (vo_seed vo)"
      "bn254ToBE32 (ownerCommitment L (deriveSpendingKey L (vo_seed vo)) (deriveBlindingFactor L (vo_seed vo) 0)) = Inr ob"
    and vault: "account_holds L (dcn_l1 conns) (pr_vaultProgramId programs) w2 v" "vault_rep L v xs"
      "honest_history L (dm_decoders M) (connection.truncate (dcn_l1 conns)) (pr_vaultProgramId programs) xs"
    and leaf: "js_BigInt (bb_leafIndex (sr_buyerBaseNote res)) = Inr (int i)" "i < length xs"
      "xs ! i = hex_decode (bb_commitmentHex (sr_buyerBaseNote res))"
  shows "\<exists>r inp root. trade_withdraw_POST L M (trade_withdraw_request sg ow (bytes_hex ob) (sr_buyerBaseNote res)) w2 = (ReplyOk r, w2)
     \<and> panel_spend_inputs (twr_proverInputs r) = Inr inp \<and> ValidSpend L inp
     \<and> contains_root v root \<and> si_merkleRoot inp = be_to_int root
     \<and> js_BigInt (bb_amount (sr_buyerBaseNote res)) = Inr (si_amount inp)"
proof -
  obtain r where r: "trade_withdraw_POST L M (trade_withdraw_request sg ow (bytes_hex ob) (sr_buyerBaseNote res)) w2 = (ReplyOk r, w2)"
    using settled_trade_answered [OF assms] by blast
  from trade_withdraw_answer_valid [OF lib(1) env(1) vault(1,2) r]
  show ?thesis using r by (auto simp: trade_withdraw_request_def)
qed

end
