(* ===== verification/Nyx_Demo_Scenario.thy ===== *)
theory Nyx_Demo_Scenario
  imports Nyx_Demo_Trade
begin

text \<open>
  A concrete trade of the demo, from the batch account to the withdrawal, on which the properties of
  the settlement and withdrawal routes are applied. The world of the RPC is one bit: whether
  the settlement has landed.
\<close>

section \<open>Vault accounts\<close>

definition vault_bytes :: "VaultConfig \<Rightarrow> bytes" where
  "vault_bytes v = zeros 104 @ u64LE (int (vc_leaf_count v)) @ vc_current_root v @ concat (vc_roots v)
     @ concat (vc_zero_subtree_roots v) @ concat (vc_right_path v) @ zeros 40"

lemma vault_of_leaves:
  assumes "poseidon_canonical L" and "list_all field_bytes xs" and "length xs \<le> 2 ^ 20"
  shows "\<exists>v. vault_rep L v xs"
proof -
  define p2 where "p2 a b = (if field_bytes a \<and> field_bytes b then Inr (pnode L a b) else Inl InvalidProof)" for a b
  have ch: "chain_poseidon L p2" by (simp add: chain_poseidon_def p2_def)
  show ?thesis using assms(2,3)
  proof (induction xs rule: rev_induct)
    case Nil
    then show ?case using vault_initialize_rep [OF assms(1) ch] by blast
  next
    case (snoc x xs)
    then obtain v where "vault_rep L v xs" by auto
    then show ?case using append_leaf_rep [OF assms(1) ch _, of v xs x] snoc.prems by auto
  qed
qed

lemma vault_bytes_data:
  assumes "vault_rep L v xs" and "list_all (\<lambda>r. length r = 32) (vc_roots v)"
  shows "vault_data v (vault_bytes v)"
proof -
  have "list_all (\<lambda>r. length r = 32) (vc_right_path v)" using assms(1) by (auto simp: vault_rep_def list_all_iff field_bytes_def)
  moreover have "list_all (\<lambda>r. length r = 32) (map (vault_zero L) [0..<20])"
    by (simp only: list_all_iff set_map) (auto simp: length_vault_zero simp del: upt_Suc)
  moreover have "length (vault_root L xs) = 32" using length_vault_root assms(1) by (auto simp: vault_rep_def list_all_iff field_bytes_def)
  ultimately show ?thesis
    using assms unfolding vault_data_def vault_bytes_def
    by (intro conjI exI [of _ "zeros 104"] exI [of _ "zeros 40"]) (simp_all add: vault_rep_def ROOT_HISTORY_SIZE_def del: upt_Suc)
qed

lemma vault_image:
  assumes "poseidon_canonical L" and "list_all field_bytes xs" and "length xs \<le> 2 ^ 20"
  obtains v where "vault_rep L v xs" and "vault_data v (vault_bytes v)" and "list_all (\<lambda>r. length r = 32) (vc_roots v)"
proof -
  obtain v where v: "vault_rep L v xs" using vault_of_leaves [OF assms] by blast
  let ?v = "v \<lparr>vc_roots := replicate 32 (zeros 32)\<rparr>"
  have "vault_rep L ?v xs" using v by (simp add: vault_rep_def ROOT_HISTORY_SIZE_def)
  moreover have "list_all (\<lambda>r. length r = 32) (vc_roots ?v)" by (simp add: list_all_iff)
  ultimately show ?thesis using that [of ?v] vault_bytes_data by blast
qed

section \<open>The trade\<close>

definition demo_seed :: bytes where "demo_seed = take 64 (sha512 disc_lib (zeros 64))"

definition demo_owner :: int where
  "demo_owner = ownerCommitment disc_lib (deriveSpendingKey disc_lib demo_seed) (deriveBlindingFactor disc_lib demo_seed 0)"

definition demo_match :: MatchResultRecord where
  "demo_match = sample_match_result \<lparr>mr_userCommitmentBuyer := int_to_be 32 demo_owner, mr_buyerFeeAmt := 0, mr_sellerFeeAmt := 0\<rparr>"

definition demo_batch :: BatchResultsView where
  "demo_batch = sample_batch_results \<lparr>br_results := replicate 16 demo_match\<rparr>"

definition demo_batch_bytes :: bytes where
  "demo_batch_bytes = encodeBatchResults (zeros 8) (zeros 7) (zeros 7) (replicate 16 (zeros 7)) 0 demo_batch"

definition demo_vault_key :: pubkey where
  "demo_vault_key = bytes_to_word (take 32 VAULT_CONFIG_SEED)"

definition demo_rpc :: "history \<Rightarrow> VaultConfig \<Rightarrow> VaultConfig \<Rightarrow> bool rpc" where
  "demo_rpc chain v v' = \<lparr>
     cn_getTransaction = (\<lambda>sig w. (Inr (map_of chain sig), w)),
     cn_getSignaturesForAddress = (\<lambda>vp limit before w. (Inr (take limit (older_than before (rev (map fst chain)))), w)),
     rpc_getAccountInfo = (\<lambda>k w. (Inr (Some \<lparr>ai_data = (if k = demo_vault_key then vault_bytes (if w then v' else v)
        else demo_batch_bytes), ai_owner = 9\<rparr>), w)),
     rpc_getBalance = (\<lambda>k w. (Inr 0, w)), rpc_getSlot = (\<lambda>w. (Inr 100, w)),
     rpc_sendAndConfirm = (\<lambda>ixs ks w. (Inr ''sig'', w))\<rparr>"

definition demo_ctx :: "'w rpc \<Rightarrow> 'w TradeL1SettleContext" where
  "demo_ctx rpc = \<lparr>tc_l1 = rpc, tc_vaultProgramId = 9, tc_baseMint = 1, tc_quoteMint = 2,
     tc_batchPda = demo_vault_key + 1, tc_tee = \<lparr>kp_publicKey = 11, kp_secretKey = zeros 64\<rparr>,
     tc_maker = \<lparr>kp_publicKey = 12, kp_secretKey = zeros 64\<rparr>, tc_userMasterSeed = demo_seed,
     tc_userQuoteNoteCommitment = zeros 32, tc_userOrderId = zeros 16, tc_userExpirySlot = 200,
     tc_makerNoteCommitment = zeros 32, tc_makerOrderId = zeros 16, tc_makerExpirySlot = 200\<rparr>"

definition demo_app :: "'w rpc \<Rightarrow> 'w demo" where
  "demo_app rpc = \<lparr>dm_decoders = ref_decoders, dm_wallet = sample_wallet, dm_host = sample_host,
     dm_newConnection = (\<lambda>url. Inr rpc), dm_now = (\<lambda>w. 0), dm_randomBytes = (\<lambda>n w. (Inr (replicate n 1), w))\<rparr>"

definition demo_programs :: DemoPrograms where
  "demo_programs = \<lparr>pr_vaultProgramId = 9, pr_meProgramId = 8, pr_market = 6, pr_pythAccount = 7, pr_baseMint = 1, pr_quoteMint = 2\<rparr>"

lemma disc_lib_canonical: "poseidon_canonical disc_lib"
  using ref_lib_canonical by (simp add: poseidon_canonical_def disc_lib_def)

lemma disc_lib_base58: "base58_inverse disc_lib ref_decoders"
  using ref_base58_inverse by (simp add: base58_inverse_def disc_lib_def)

lemma disc_lib_pda: "findProgramAddressSync disc_lib ss pid = Inr (bytes_to_word (take 32 (concat ss)), 255)"
  by (simp add: disc_lib_def ref_lib_def)

lemma demo_setup_app:
  "demo_setup (demo_app rpc) = Inr (\<lparr>dcn_l1 = rpc, dcn_er = rpc, dcn_erRpcUrl = ''https://devnet.magicblock.app''\<rparr>, demo_programs)"
proof -
  have tr: "trim ''cfg'' = ''cfg''" by (simp add: trim_def is_space_def)
  have pk: "publicKeyOf ref_decoders (Some [digit_char d]) = Inr (of_nat d)" if "d < 10" for d
    using that by (simp add: ref_decoders_def dec_val_def)
  have digits: "''1'' = [digit_char 1]" "''2'' = [digit_char 2]" "''6'' = [digit_char 6]" "''7'' = [digit_char 7]"
      "''8'' = [digit_char 8]" "''9'' = [digit_char 9]" by (simp_all add: digit_char_def char_of_def bit_0)
  have root: "resolveRepoRoot sample_host = Inr ''/repo''"
    by (simp add: resolveRepoRoot_def sample_host_def path_resolve_def path_step_def Let_def)
  have cfg: "loadDemoE2eConfig sample_host ''/repo'' = Inr sample_config"
    by (simp add: loadDemoE2eConfig_def env_set_def sample_host_def tr parseE2eConfig_def sample_config_def)
  have "parseDemoPrograms ref_decoders sample_config = Inr demo_programs"
    unfolding parseDemoPrograms_def sample_config_def digits
    by (simp add: cfg_string_def cfg_pubkey_of_def json_string_def pk demo_programs_def)
  then show ?thesis
    by (simp add: demo_setup_def demo_app_def root cfg getDemoConnections_def) (simp add: sample_host_def sample_config_def cfg_string_def json_string_def)
qed

lemma demo_owner_bytes: "bn254ToBE32 demo_owner = Inr (int_to_be 32 demo_owner)" "be_to_int (int_to_be 32 demo_owner) = demo_owner"
proof -
  have r: "0 \<le> demo_owner" "demo_owner < BN254_R"
    using disc_lib_canonical by (simp_all add: demo_owner_def ownerCommitment_def poseidon_canonical_def)
  then show "bn254ToBE32 demo_owner = Inr (int_to_be 32 demo_owner)" by (simp add: bn254ToBE32_eq)
  show "be_to_int (int_to_be 32 demo_owner) = demo_owner"
    using r by (simp add: be_to_int_to_be BN254_R_def mod_pos_pos_trivial)
qed

lemma demo_batch_decodes: "decodeBatchResults demo_batch_bytes = Inr demo_batch"
proof -
  have "wf_batch_results demo_batch"
    by (simp add: wf_batch_results_def demo_batch_def sample_batch_results_def demo_match_def wf_match_result_def
        sample_match_result_def wf_fee_accumulator_def u64_range_def byte_range_def list_all_iff)
  then show ?thesis
    unfolding demo_batch_bytes_def by (rule encoded_batch_results_decode) (simp_all add: byte_range_def list_all_iff)
qed

lemma noteCommitment_field: "noteCommitment L n = Inr c \<Longrightarrow> field_bytes c"
  by (auto simp: noteCommitment_Inr bn254ToBE32_Inr_iff field_bytes_def)

text \<open>The notes and nullifiers of the trade.\<close>

lemma demo_notes:
  obtains noteC cC noteD cD nullA nullB where
    "trade_note disc_lib 1 (mr_baseAmt demo_match) (mr_userCommitmentBuyer demo_match) (mr_matchId demo_match) TRADE_ROLE_BUYER = Inr noteC"
    "noteCommitment disc_lib noteC = Inr cC"
    "trade_note disc_lib 2 (mr_quoteAmt demo_match) (mr_userCommitmentSeller demo_match) (mr_matchId demo_match) TRADE_ROLE_SELLER = Inr noteD"
    "noteCommitment disc_lib noteD = Inr cD"
    "nullifier disc_lib (deriveSpendingKey disc_lib demo_seed) (zeros 32) = Inr nullA" "length nullA = 32"
    "nullifier disc_lib (deriveSpendingKey disc_lib (actorSeed disc_lib Maker \<lparr>kp_publicKey = 12, kp_secretKey = zeros 64\<rparr>)) (zeros 32) = Inr nullB"
    "length nullB = 32"
proof -
  have tn: "\<exists>n. trade_note disc_lib m a uc i r = Inr n \<and> nt_tokenMint n = toBytes m" if "length uc = 32" for m a uc i r
    using that by (simp add: trade_note_def be32ToBigInt_eq nonempty_of_length)
  have u: "length (mr_userCommitmentBuyer demo_match) = 32" "length (mr_userCommitmentSeller demo_match) = 32"
    by (simp_all add: demo_match_def sample_match_result_def)
  obtain noteC noteD where
      C: "trade_note disc_lib 1 (mr_baseAmt demo_match) (mr_userCommitmentBuyer demo_match) (mr_matchId demo_match) TRADE_ROLE_BUYER = Inr noteC"
        "nt_tokenMint noteC = toBytes 1"
      and D: "trade_note disc_lib 2 (mr_quoteAmt demo_match) (mr_userCommitmentSeller demo_match) (mr_matchId demo_match) TRADE_ROLE_SELLER = Inr noteD"
        "nt_tokenMint noteD = toBytes 2"
    using tn [OF u(1)] tn [OF u(2)] by metis
  obtain cC where cC: "noteCommitment disc_lib noteC = Inr cC" using noteCommitment_total [OF disc_lib_canonical, of noteC] C(2) by auto
  obtain cD where cD: "noteCommitment disc_lib noteD = Inr cD" using noteCommitment_total [OF disc_lib_canonical, of noteD] D(2) by auto
  have nul: "\<exists>n. nullifier disc_lib k (zeros 32) = Inr n \<and> length n = 32" for k
    using poseidonHashBytesBE_ok [OF disc_lib_canonical, of "[k, 0]"] by (auto simp: nullifier_def poseidonHashBytesBE_def)
  show ?thesis using nul that [OF C(1) cC D(1) cD] by blast
qed

abbreviation demo_payload :: "bytes \<Rightarrow> bytes \<Rightarrow> bytes \<Rightarrow> bytes \<Rightarrow> MatchResultPayload" where
  "demo_payload cC cD nullA nullB \<equiv> settle_payload (demo_ctx (undefined :: bool rpc)) demo_match cC cD nullA nullB"

lemma demo_payload_ctx: "settle_payload (demo_ctx rpc) demo_match cC cD nullA nullB = demo_payload cC cD nullA nullB"
  by (simp add: settle_payload_def demo_ctx_def)

lemma demo_payload_props:
  assumes "length cC = 32" "length cD = 32" "length nullA = 32" "length nullB = 32"
  shows "payload_lengths (demo_payload cC cD nullA nullB)" "settle_leaves (demo_payload cC cD nullA nullB) = [cC, cD]"
  using assms
  by (simp_all add: settle_payload_def payload_lengths_def demo_ctx_def demo_match_def sample_match_result_def settle_leaves_def
      ZERO_COMMITMENT_def RELOCK_ORDER_ID_NONE_def isZero32_def isZero_iff)

section \<open>The scenario\<close>

lemma demo_ctx_simps [simp]:
  "tc_l1 (demo_ctx rpc) = rpc" "tc_vaultProgramId (demo_ctx rpc) = 9" "tc_baseMint (demo_ctx rpc) = 1" "tc_quoteMint (demo_ctx rpc) = 2"
  "tc_batchPda (demo_ctx rpc) = demo_vault_key + 1" "tc_tee (demo_ctx rpc) = \<lparr>kp_publicKey = 11, kp_secretKey = zeros 64\<rparr>"
  "tc_maker (demo_ctx rpc) = \<lparr>kp_publicKey = 12, kp_secretKey = zeros 64\<rparr>" "tc_userMasterSeed (demo_ctx rpc) = demo_seed"
  "tc_userOrderId (demo_ctx rpc) = zeros 16" "tc_userExpirySlot (demo_ctx rpc) = 200"
  "tc_makerOrderId (demo_ctx rpc) = zeros 16" "tc_makerExpirySlot (demo_ctx rpc) = 200"
  by (simp_all add: demo_ctx_def)

lemma demo_sends: "rpc_sendAndConfirm (demo_rpc chain v v') ixs ks w = (Inr ''sig'', w)"
  by (simp add: demo_rpc_def)

lemma demo_match_found: "List.find (is_this_match (demo_ctx rpc)) (br_results demo_batch) = Some demo_match"
proof -
  have "is_this_match (demo_ctx rpc) demo_match"
    by (simp add: is_this_match_def demo_ctx_def demo_match_def sample_match_result_def)
  then show ?thesis by (simp add: demo_batch_def numeral_eq_Suc)
qed

lemma demo_reads:
  "account_data (demo_rpc chain v v') (demo_vault_key + 1) msg w = (Inr demo_batch_bytes, w)"
  "account_data (demo_rpc chain v v') demo_vault_key msg w = (Inr (vault_bytes (if w then v' else v)), w)"
  by (simp_all add: account_data_def demo_rpc_def io_bind_def)

lemma demo_vault_pda: "vaultConfigPda disc_lib 9 = Inr (demo_vault_key, 255)"
  by (simp add: vaultConfigPda_def disc_lib_pda demo_vault_key_def)

lemma demo_settle_runs:
  fixes rpc :: "'w rpc"
  assumes here: "P w" and v: "vault_data v (vault_bytes v)"
    and reads: "\<And>msg w. P w \<Longrightarrow> account_data rpc (demo_vault_key + 1) msg w = (Inr demo_batch_bytes, w)"
      "\<And>msg w. P w \<Longrightarrow> account_data rpc demo_vault_key msg w = (Inr (vault_bytes v), w)"
    and sends: "\<And>ixs ks w. P w \<Longrightarrow> \<exists>w'. rpc_sendAndConfirm rpc ixs ks w = (Inr ''sig'', w') \<and> P w'"
    and n: "trade_note disc_lib 1 (mr_baseAmt demo_match) (mr_userCommitmentBuyer demo_match) (mr_matchId demo_match) TRADE_ROLE_BUYER = Inr noteC"
      "noteCommitment disc_lib noteC = Inr cC"
      "trade_note disc_lib 2 (mr_quoteAmt demo_match) (mr_userCommitmentSeller demo_match) (mr_matchId demo_match) TRADE_ROLE_SELLER = Inr noteD"
      "noteCommitment disc_lib noteD = Inr cD"
      "nullifier disc_lib (deriveSpendingKey disc_lib demo_seed) (zeros 32) = Inr nullA" "length nullA = 32"
      "nullifier disc_lib (deriveSpendingKey disc_lib (actorSeed disc_lib Maker \<lparr>kp_publicKey = 12, kp_secretKey = zeros 64\<rparr>)) (zeros 32) = Inr nullB"
      "length nullB = 32"
  shows "\<exists>res u. runTradeL1Settle disc_lib ref_decoders sample_wallet (demo_ctx rpc) w = (Inr res, u)
     \<and> bb_leafIndex (sr_buyerBaseNote res) = bigint_toString (int (vc_leaf_count v)) \<and> bb_commitmentHex (sr_buyerBaseNote res) = bytes_hex cC"
proof -
  let ?p = "demo_payload cC cD nullA nullB"
  have len: "length cC = 32" "length cD = 32" using n(2,4) by (simp_all add: noteCommitment_length)
  note pl = demo_payload_props(1) [OF len n(6,8)]
  have mr: "mr_noteBuyer demo_match = zeros 32" "mr_noteSeller demo_match = zeros 32" "mr_buyerFeeAmt demo_match = 0" "mr_sellerFeeAmt demo_match = 0"
    by (simp_all add: demo_match_def sample_match_result_def)
  have lk: "\<exists>ix. buildLockNoteInstruction disc_lib (lock_params (demo_ctx rpc) (zeros 32) (zeros 16) e a) = Inr ix" for e a
    by (simp add: buildLockNoteInstruction_def lock_params_def demo_vault_pda noteLockPda_def disc_lib_pda fixed_ok)
  obtain lockA lockB where l: "buildLockNoteInstruction disc_lib (lock_params (demo_ctx rpc) (zeros 32) (zeros 16) 200 (mr_buyerNoteValue demo_match)) = Inr lockA"
      "buildLockNoteInstruction disc_lib (lock_params (demo_ctx rpc) (zeros 32) (zeros 16) 200 (mr_sellerNoteValue demo_match)) = Inr lockB"
    using lk by metis
  obtain msg where msg: "canonicalPayloadHash disc_lib ?p = Inr msg" "length msg = 32"
    using pl by (simp add: canonicalPayloadHash_def canonical_message_eq)
  obtain edIx where ed: "buildEd25519VerifyIx disc_lib \<lparr>ed_teePubkey = toBytes 11, ed_signature = zeros 64, ed_message = msg\<rparr> = Inr edIx"
    by (rule buildEd25519VerifyIx_accepts [of "toBytes 11" "zeros 64" msg disc_lib]) (use msg(2) in simp_all)
  have q: "length (mp_noteAcommitment ?p) = 32" "length (mp_noteBcommitment ?p) = 32" "length (mp_nullifierA ?p) = 32"
      "length (mp_nullifierB ?p) = 32" "length (mp_noteEcommitment ?p) = 32" "length (mp_noteFcommitment ?p) = 32"
    using pl by (simp_all add: payload_lengths_def)
  obtain settleIx where st: "buildSettleIx disc_lib \<lparr>bs_programId = 9, bs_teeAuthority = 11, bs_payload = ?p\<rparr> = Inr settleIx"
    using q pl by (simp add: buildSettleIx_def demo_vault_pda noteLockPda_def consumedNotePda_def nullifierEntryPda_def disc_lib_pda
        fixed_ok serializePayload_eq)
  let ?ctx = "demo_ctx rpc"
  have f: "\<And>w. P w \<Longrightarrow> account_data (tc_l1 ?ctx) (tc_batchPda ?ctx) ''BatchResults account missing on L1'' w = (Inr demo_batch_bytes, w)"
      "vaultConfigPda disc_lib (tc_vaultProgramId ?ctx) = Inr (demo_vault_key, 255)"
      "\<And>msg w. P w \<Longrightarrow> account_data (tc_l1 ?ctx) demo_vault_key msg w = (Inr (vault_bytes v), w)"
      "\<And>ixs w. P w \<Longrightarrow> \<exists>w'. rpc_sendAndConfirm (tc_l1 ?ctx) ixs [tc_tee ?ctx] w = (Inr ''sig'', w') \<and> P w'"
    by (simp_all add: reads demo_vault_pda sends)
  have c: "nullifier disc_lib (deriveSpendingKey disc_lib (tc_userMasterSeed ?ctx)) (mr_noteBuyer demo_match) = Inr nullA"
      "nullifier disc_lib (deriveSpendingKey disc_lib (actorSeed disc_lib Maker (tc_maker ?ctx))) (mr_noteSeller demo_match) = Inr nullB"
      "trade_note disc_lib (tc_baseMint ?ctx) (mr_baseAmt demo_match) (mr_userCommitmentBuyer demo_match) (mr_matchId demo_match) TRADE_ROLE_BUYER = Inr noteC"
      "trade_note disc_lib (tc_quoteMint ?ctx) (mr_quoteAmt demo_match) (mr_userCommitmentSeller demo_match) (mr_matchId demo_match) TRADE_ROLE_SELLER = Inr noteD"
    by (simp_all only: demo_ctx_simps mr n)
  have g: "canonicalPayloadHash disc_lib (settle_payload ?ctx demo_match cC cD nullA nullB) = Inr msg"
      "nacl_sign sample_wallet msg (kp_secretKey (tc_tee ?ctx)) = Inr (zeros 64)"
      "buildLockNoteInstruction disc_lib (lock_params ?ctx (mr_noteBuyer demo_match) (tc_userOrderId ?ctx) (tc_userExpirySlot ?ctx) (mr_buyerNoteValue demo_match)) = Inr lockA"
      "buildLockNoteInstruction disc_lib (lock_params ?ctx (mr_noteSeller demo_match) (tc_makerOrderId ?ctx) (tc_makerExpirySlot ?ctx) (mr_sellerNoteValue demo_match)) = Inr lockB"
      "buildEd25519VerifyIx disc_lib \<lparr>ed_teePubkey = toBytes (kp_publicKey (tc_tee ?ctx)), ed_signature = zeros 64, ed_message = msg\<rparr> = Inr edIx"
      "buildSettleIx disc_lib \<lparr>bs_programId = tc_vaultProgramId ?ctx, bs_teeAuthority = kp_publicKey (tc_tee ?ctx),
         bs_payload = settle_payload ?ctx demo_match cC cD nullA nullB\<rparr> = Inr settleIx"
    by (simp_all only: demo_payload_ctx [of rpc] demo_ctx_simps mr keypair.simps msg(1) l ed st) (simp add: sample_wallet_def)
  show ?thesis
    by (rule runTradeL1Settle_runs [where P = P and w = w, OF here f(1,3,4) demo_batch_decodes demo_match_found mr(3,4) f(2) vault_data_reads(1) [OF v]
          c(1-3) n(2) c(4) n(4) g])
qed

text \<open>The user's wallet signature, as text.\<close>

definition demo_sig :: string where "demo_sig = bytes_hex (zeros 64)"
definition demo_pubkey :: string where "demo_pubkey = bytes_hex (zeros 32)"

lemma demo_verifies:
  "verifyPhantomSeedSignature disc_lib ref_decoders sample_wallet demo_sig demo_pubkey
     = Inr \<lparr>vo_ownerPubkey = zeros 32, vo_signature = zeros 64, vo_seed = demo_seed\<rparr>"
  "demo_sig \<noteq> []" "demo_pubkey \<noteq> []"
proof -
  show "verifyPhantomSeedSignature disc_lib ref_decoders sample_wallet demo_sig demo_pubkey
     = Inr \<lparr>vo_ownerPubkey = zeros 32, vo_signature = zeros 64, vo_seed = demo_seed\<rparr>"
    by (simp add: verifyPhantomSeedSignature_def ref_decoders_def demo_sig_def demo_pubkey_def sample_wallet_def demo_seed_def)
  have "length demo_sig = 128" "length demo_pubkey = 64" by (simp_all add: demo_sig_def demo_pubkey_def)
  then show "demo_sig \<noteq> []" "demo_pubkey \<noteq> []" by auto
qed

lemma demo_history:
  assumes "payload_lengths p"
  shows "honest_history disc_lib ref_decoders
     (connection.truncate (demo_rpc [(''s1'', one_ix_tx (SETTLE_DISC disc_lib @ payload_bytes p))] v v')) 9 (settle_leaves p)"
proof -
  let ?chain = "[(''s1'', one_ix_tx (SETTLE_DISC disc_lib @ payload_bytes p))]"
  have "serves_history (connection.truncate (demo_rpc ?chain v v')) 9 ?chain"
    by (simp add: serves_history_def demo_rpc_def connection.truncate_def)
  moreover have "executed disc_lib 9 (SETTLE_DISC disc_lib @ payload_bytes p, Some 9, [Some 1, Some 9, Some 2]) (Appended (settle_leaves p))"
    by (rule executed.settle) (rule serializePayload_eq [OF assms])
  then have "list_all2 (\<lambda>(sig, tx). tx_executed disc_lib ref_decoders 9 tx) ?chain [[Appended (settle_leaves p)]]"
    by (simp add: one_ix_tx_executed)
  ultimately show ?thesis
    unfolding honest_history_def using disc_lib_discs
    by (intro conjI exI [of _ ?chain] exI [of _ "[[Appended (settle_leaves p)]]"]) simp_all
qed

text \<open>The settlement returned; afterwards the vault holds its two notes and the RPC serves the transaction.\<close>

lemma demo_trade:
  obtains rpc res u v xs where
    "runTradeL1Settle disc_lib ref_decoders sample_wallet (demo_ctx rpc) False = (Inr res, u)"
    "match_owned disc_lib (demo_ctx rpc) False demo_seed"
    "account_holds disc_lib rpc 9 True v" "vault_rep disc_lib v xs"
    "honest_history disc_lib ref_decoders (connection.truncate rpc) 9 xs"
    "js_BigInt (bb_leafIndex (sr_buyerBaseNote res)) = Inr (int 0)" "0 < length xs"
    "xs ! 0 = hex_decode (bb_commitmentHex (sr_buyerBaseNote res))"
proof (rule demo_notes)
  fix noteC cC noteD cD nullA nullB
  assume n: "trade_note disc_lib 1 (mr_baseAmt demo_match) (mr_userCommitmentBuyer demo_match) (mr_matchId demo_match) TRADE_ROLE_BUYER = Inr noteC"
      "noteCommitment disc_lib noteC = Inr cC"
      "trade_note disc_lib 2 (mr_quoteAmt demo_match) (mr_userCommitmentSeller demo_match) (mr_matchId demo_match) TRADE_ROLE_SELLER = Inr noteD"
      "noteCommitment disc_lib noteD = Inr cD"
      "nullifier disc_lib (deriveSpendingKey disc_lib demo_seed) (zeros 32) = Inr nullA" "length nullA = 32"
      "nullifier disc_lib (deriveSpendingKey disc_lib (actorSeed disc_lib Maker \<lparr>kp_publicKey = 12, kp_secretKey = zeros 64\<rparr>)) (zeros 32) = Inr nullB"
      "length nullB = 32"
  let ?p = "demo_payload cC cD nullA nullB"
  have len: "length cC = 32" "length cD = 32" using n(2,4) by (simp_all add: noteCommitment_length)
  note p = demo_payload_props [OF len n(6,8)]
  obtain v0 where v0: "vault_rep disc_lib v0 []" "vault_data v0 (vault_bytes v0)"
    by (rule vault_image [OF disc_lib_canonical, of "[]"]) simp_all
  obtain v where v: "vault_rep disc_lib v [cC, cD]" "vault_data v (vault_bytes v)"
    by (rule vault_image [OF disc_lib_canonical, of "[cC, cD]"]) (use n(2,4) in \<open>simp_all add: noteCommitment_field\<close>)
  let ?rpc = "demo_rpc [(''s1'', one_ix_tx (SETTLE_DISC disc_lib @ payload_bytes ?p))] v0 v"
  obtain res u where res: "runTradeL1Settle disc_lib ref_decoders sample_wallet (demo_ctx ?rpc) False = (Inr res, u)"
      "bb_leafIndex (sr_buyerBaseNote res) = bigint_toString (int (vc_leaf_count v0))" "bb_commitmentHex (sr_buyerBaseNote res) = bytes_hex cC"
    using demo_settle_runs [of "\<lambda>b. \<not> b" False, OF _ v0(2) _ _ _ n, of ?rpc] by (auto simp: demo_reads demo_sends)
  have lc: "vc_leaf_count v0 = 0" using v0(1) by (simp add: vault_rep_def)
  have own: "be32ToBigInt (mr_userCommitmentBuyer demo_match)
      = Inr (ownerCommitment disc_lib (deriveSpendingKey disc_lib demo_seed) (deriveBlindingFactor disc_lib demo_seed 0))"
    using demo_owner_bytes(2) be32ToBigInt_eq [OF nonempty_of_length, of "int_to_be 32 demo_owner"]
    by (simp add: demo_match_def demo_owner_def)
  have "match_owned disc_lib (demo_ctx ?rpc) False demo_seed"
    unfolding match_owned_def using own by (auto simp: demo_reads demo_batch_decodes demo_match_found)
  moreover have "account_holds disc_lib ?rpc 9 True v"
    unfolding account_holds_def using v(2) demo_vault_pda by (simp add: demo_rpc_def)
  moreover have "honest_history disc_lib ref_decoders (connection.truncate ?rpc) 9 [cC, cD]"
    using demo_history [OF p(1), of v0 v] p(2) by simp
  ultimately show ?thesis using that [OF res(1) _ _ v(1)] res(2,3) lc by (simp del: bigint_toString_nonempty)
qed

lemma demo_facts:
  fixes rpc :: "bool rpc"
  defines "conns \<equiv> \<lparr>dcn_l1 = rpc, dcn_er = rpc, dcn_erRpcUrl = ''https://devnet.magicblock.app''\<rparr>"
    and "vo \<equiv> \<lparr>vo_ownerPubkey = zeros 32, vo_signature = zeros 64, vo_seed = demo_seed\<rparr>"
  assumes "match_owned disc_lib (demo_ctx rpc) False demo_seed" and "account_holds disc_lib rpc 9 True v"
    and "honest_history disc_lib ref_decoders (connection.truncate rpc) 9 xs"
  shows "dm_decoders (demo_app rpc) = ref_decoders" "dm_wallet (demo_app rpc) = sample_wallet"
    "tc_baseMint (demo_ctx rpc) = pr_baseMint demo_programs" "account_holds disc_lib (dcn_l1 conns) (pr_vaultProgramId demo_programs) True v"
    "honest_history disc_lib ref_decoders (connection.truncate (dcn_l1 conns)) (pr_vaultProgramId demo_programs) xs"
    "match_owned disc_lib (demo_ctx rpc) False (vo_seed vo)"
    "bn254ToBE32 (ownerCommitment disc_lib (deriveSpendingKey disc_lib (vo_seed vo)) (deriveBlindingFactor disc_lib (vo_seed vo) 0))
       = Inr (int_to_be 32 demo_owner)"
  using assms demo_owner_bytes(1) by (simp_all add: demo_programs_def demo_owner_def demo_app_def)

lemma demo_trade_answered:
  assumes "runTradeL1Settle disc_lib ref_decoders sample_wallet (demo_ctx rpc) False = (Inr res, u)"
    and "match_owned disc_lib (demo_ctx rpc) False demo_seed"
    and "account_holds disc_lib rpc 9 True v" and "vault_rep disc_lib v xs"
    and "honest_history disc_lib ref_decoders (connection.truncate rpc) 9 xs"
    and "js_BigInt (bb_leafIndex (sr_buyerBaseNote res)) = Inr (int 0)" "0 < length xs"
      "xs ! 0 = hex_decode (bb_commitmentHex (sr_buyerBaseNote res))"
  shows "\<exists>body r. trade_withdraw_POST disc_lib (demo_app rpc) body True = (ReplyOk r, True)"
proof -
  note f = demo_facts [OF assms(2,3,5)]
  from settled_trade_answered [of disc_lib "demo_app rpc", unfolded f(1,2), OF disc_lib_canonical disc_lib_base58
      assms(1) demo_setup_app f(3) demo_verifies f(6,7,4) assms(4) f(5) assms(6-8)]
  show ?thesis by blast
qed

theorem run_trade_settles_witness:
  "\<exists>rpc res u lockA lockB edIx settleIx (p :: MatchResultPayload) lockSig settleSig.
     runTradeL1Settle disc_lib ref_decoders sample_wallet (demo_ctx (logged ''l1'' rpc)) (False, []) = (Inr res, u)
     \<and> snd u = [\<lparr>st_cluster = ''l1'', st_ixs = [setComputeUnitLimit sample_wallet 400000, lockA, lockB],
                  st_signers = [\<lparr>kp_publicKey = 11, kp_secretKey = zeros 64\<rparr>], st_result = Inr lockSig\<rparr>,
                \<lparr>st_cluster = ''l1'', st_ixs = [setComputeUnitLimit sample_wallet 1400000, edIx, settleIx],
                  st_signers = [\<lparr>kp_publicKey = 11, kp_secretKey = zeros 64\<rparr>], st_result = Inr settleSig\<rparr>]
     \<and> ix_data settleIx = anchorDiscriminator disc_lib ''tee_forced_settle'' @ payload_bytes p"
proof (rule demo_notes)
  fix noteC cC noteD cD nullA nullB
  assume n: "trade_note disc_lib 1 (mr_baseAmt demo_match) (mr_userCommitmentBuyer demo_match) (mr_matchId demo_match) TRADE_ROLE_BUYER = Inr noteC"
      "noteCommitment disc_lib noteC = Inr cC"
      "trade_note disc_lib 2 (mr_quoteAmt demo_match) (mr_userCommitmentSeller demo_match) (mr_matchId demo_match) TRADE_ROLE_SELLER = Inr noteD"
      "noteCommitment disc_lib noteD = Inr cD"
      "nullifier disc_lib (deriveSpendingKey disc_lib demo_seed) (zeros 32) = Inr nullA" "length nullA = 32"
      "nullifier disc_lib (deriveSpendingKey disc_lib (actorSeed disc_lib Maker \<lparr>kp_publicKey = 12, kp_secretKey = zeros 64\<rparr>)) (zeros 32) = Inr nullB"
      "length nullB = 32"
  obtain v where v: "vault_rep disc_lib v []" "vault_data v (vault_bytes v)"
    by (rule vault_image [OF disc_lib_canonical, of "[]"]) simp_all
  let ?rpc = "demo_rpc [] v v"
  have steps: "account_data (logged ''l1'' ?rpc) (demo_vault_key + 1) msg w = (Inr demo_batch_bytes, w)"
      "account_data (logged ''l1'' ?rpc) demo_vault_key msg w = (Inr (vault_bytes v), w)"
      "\<exists>w'. rpc_sendAndConfirm (logged ''l1'' ?rpc) ixs ks w = (Inr ''sig'', w')" for msg ixs ks and w :: "bool \<times> sent_tx list"
    by (simp_all add: account_data_def logged_def beside_def demo_rpc_def io_bind_def)
  obtain res u where run: "runTradeL1Settle disc_lib ref_decoders sample_wallet (demo_ctx (logged ''l1'' ?rpc)) (False, []) = (Inr res, u)"
    using demo_settle_runs [of "\<lambda>_. True" "(False, [])", OF _ v(2) _ _ _ n, of "logged ''l1'' ?rpc"] steps by auto
  have log: "recorded ''l1'' (tc_l1 (demo_ctx (logged ''l1'' ?rpc))) snd" unfolding demo_ctx_simps by (rule logged.recorded_axioms)
  from run_trade_settles [OF log run] show ?thesis
    unfolding demo_ctx_simps snd_conv append_Nil
    by (elim exE conjE) (intro exI conjI, rule run, assumption, assumption)
qed

theorem settled_trade_withdrawable_witness:
  "\<exists>rpc (v :: VaultConfig) (res :: TradeL1SettleResult) (r :: trade_withdraw_reply) (inp :: SpendInputs) root.
     trade_withdraw_POST disc_lib (demo_app rpc) (trade_withdraw_request demo_sig demo_pubkey (bytes_hex (int_to_be 32 demo_owner)) (sr_buyerBaseNote res)) True
       = (ReplyOk r, True)
     \<and> panel_spend_inputs (twr_proverInputs r) = Inr inp \<and> ValidSpend disc_lib inp \<and> contains_root v root"
proof (rule demo_trade)
  fix rpc res u v xs
  assume run: "runTradeL1Settle disc_lib ref_decoders sample_wallet (demo_ctx rpc) False = (Inr res, u)"
    and own: "match_owned disc_lib (demo_ctx rpc) False demo_seed"
    and acct: "account_holds disc_lib rpc 9 True v" and rep: "vault_rep disc_lib v xs"
    and hist: "honest_history disc_lib ref_decoders (connection.truncate rpc) 9 xs"
    and leaf: "js_BigInt (bb_leafIndex (sr_buyerBaseNote res)) = Inr (int 0)" "0 < length xs"
      "xs ! 0 = hex_decode (bb_commitmentHex (sr_buyerBaseNote res))"
  note f = demo_facts [OF own acct hist]
  from settled_trade_withdrawable [of disc_lib "demo_app rpc", unfolded f(1,2), OF disc_lib_canonical disc_lib_base58
      run demo_setup_app f(3) demo_verifies f(6,7,4) rep f(5) leaf]
  show ?thesis by (elim exE conjE) (intro exI conjI, assumption+)
qed

theorem trade_withdraw_sound_witness:
  "\<exists>rpc v xs body r inp root. vault_rep disc_lib v xs \<and> trade_withdraw_POST disc_lib (demo_app rpc) body True = (ReplyOk r, True)
     \<and> panel_spend_inputs (twr_proverInputs r) = Inr inp \<and> ValidSpend disc_lib inp
     \<and> contains_root v root \<and> ic_merkleRootHex (twr_ixContext r) = bytes_hex root"
proof (rule demo_trade)
  fix rpc res u v xs
  assume run: "runTradeL1Settle disc_lib ref_decoders sample_wallet (demo_ctx rpc) False = (Inr res, u)"
    and own: "match_owned disc_lib (demo_ctx rpc) False demo_seed"
    and acct: "account_holds disc_lib rpc 9 True v" and rep: "vault_rep disc_lib v xs"
    and hist: "honest_history disc_lib ref_decoders (connection.truncate rpc) 9 xs"
    and leaf: "js_BigInt (bb_leafIndex (sr_buyerBaseNote res)) = Inr (int 0)" "0 < length xs"
      "xs ! 0 = hex_decode (bb_commitmentHex (sr_buyerBaseNote res))"
  obtain body r where r: "trade_withdraw_POST disc_lib (demo_app rpc) body True = (ReplyOk r, True)"
    using demo_trade_answered [OF run own acct rep hist leaf] by blast
  have "account_holds disc_lib (dcn_l1 \<lparr>dcn_l1 = rpc, dcn_er = rpc, dcn_erRpcUrl = ''https://devnet.magicblock.app''\<rparr>)
      (pr_vaultProgramId demo_programs) True v"
    using acct by (simp add: demo_programs_def)
  from trade_withdraw_sound [OF disc_lib_canonical demo_setup_app this rep r] rep r show ?thesis by blast
qed

end
