(* ===== verification/Nyx_Demo_Panel.thy ===== *)
theory Nyx_Demo_Panel
  imports Nyx_Demo_Spend
begin

text \<open>
  The private deposit panel of the browser (\<open>apps/demo/src/components/dapp/private-deposit-withdraw-panel.tsx\<close>)
  with the session it reads (\<open>lib/dapp/dapp-session.ts\<close>) and the balances it checks against
  (\<open>app/api/dapp/balances/route.ts\<close>). The state of the panel is the record of its \<open>useState\<close> hooks,
  an event handler is an effect on that state and the world, and \<open>fetch\<close> delivers the reply of the
  route, unless the network fails. \<open>session\<close> is read from the storage whenever it is used; the timing
  of the prover (\<open>proverMs\<close>), the unawaited refresh of the balances and the rendering are left out.

  Proved: a deposit made with the panel that landed can be withdrawn with it; what state a click
  leaves; and that a withdrawal that fails after it started proving leaves the panel in a state in
  which no click does anything.
\<close>

section \<open>The browser\<close>

record 'w browser =
  br_window :: bool
  br_getItem :: "string \<Rightarrow> 'w \<Rightarrow> js_error + string option"
  br_json_parse :: "string \<Rightarrow> js_error + json"
  br_connectedOwner :: "string option"
  br_network :: "('w, js_error, unit) io"
  br_sendAndConfirm :: "instruction list \<Rightarrow> ('w, js_error, string) io"
  br_prove :: "SpendInputs \<Rightarrow> ('w, js_error, Groth16ProofBytes) io"
  br_now :: "'w \<Rightarrow> int"

definition NYX_DAPP_SESSION_KEY :: string where
  "NYX_DAPP_SESSION_KEY = ''nyx_dapp_session_v1''"

definition readDappSession :: "'w browser \<Rightarrow> 'w \<Rightarrow> json option" where
  "readDappSession B w =
     (if \<not> br_window B then None
      else case br_getItem B NYX_DAPP_SESSION_KEY w of
        Inl _ \<Rightarrow> None
      | Inr raw \<Rightarrow>
          if absent raw then None
          else (case br_json_parse B (the raw) of Inl _ \<Rightarrow> None | Inr j \<Rightarrow> Some j))"

definition readDappSessionForOwner :: "'w browser \<Rightarrow> string option \<Rightarrow> 'w \<Rightarrow> json option" where
  "readDappSessionForOwner B ownerPubkeyBase58 w =
     (if absent ownerPubkeyBase58 then None
      else case readDappSession B w of
        None \<Rightarrow> None
      | Some session \<Rightarrow>
          if \<not> truthy (Some session) then None
          else if jget session ''ownerPubkeyBase58'' = Inr (Some (JStr (the ownerPubkeyBase58))) then Some session
          else None)"

text \<open>A string member of the session; a member that is missing or not a string is left out of a
  request.\<close>

definition session_string :: "json \<Rightarrow> string \<Rightarrow> string option" where
  "session_string s k = (case jget s k of Inl _ \<Rightarrow> None | Inr v \<Rightarrow> json_string v)"

definition fetch_route :: "'w browser \<Rightarrow> ('w \<Rightarrow> 'a reply \<times> 'w) \<Rightarrow> ('w, js_error, 'a) io" where
  "fetch_route B m =
     io_bind (br_network B) (\<lambda>_ w.
       case m w of (ReplyOk r, w') \<Rightarrow> (Inr r, w') | (ReplyError st msg d, w') \<Rightarrow> (Inl (newError msg), w'))"

section \<open>Balances\<close>

record MintBalance =
  mb_ata :: string
  mb_exists :: bool
  mb_amount :: string
  mb_mintBase58 :: string
  mb_decimals :: "nat option"

record BalancesResponse =
  bl_base :: MintBalance
  bl_quote :: MintBalance

definition readAtaBalance :: "lib \<Rightarrow> wallet_lib \<Rightarrow> 'w rpc \<Rightarrow> pubkey \<Rightarrow> pubkey \<Rightarrow> ('w, js_error, string \<times> bool \<times> string) io" where
  "readAtaBalance L W conn mint owner =
     io_bind (io_of (getAssociatedTokenAddress W mint owner)) (\<lambda>ata.
     io_bind (rpc_getAccountInfo conn ata) (\<lambda>info.
       case info of
         None \<Rightarrow> io_return (pubkey_toBase58 L ata, False, ''0'')
       | Some i \<Rightarrow>
           io_bind (io_of (getBigUint64 (ai_data i) 64)) (\<lambda>amount.
             io_return (pubkey_toBase58 L ata, True, bigint_toString amount))))"

definition cfg_decimals :: "json \<Rightarrow> string \<Rightarrow> js_error + nat option" where
  "cfg_decimals cfg k =
     rbind (jget cfg k) (\<lambda>v.
       case v of None \<Rightarrow> Inl (undefined_error ''decimals'')
       | Some j \<Rightarrow> rbind (jget j ''decimals'') (\<lambda>d. Inr (case d of Some (JNum n) \<Rightarrow> Some (nat n) | _ \<Rightarrow> None)))"

definition mint_balance :: "lib \<Rightarrow> string \<times> bool \<times> string \<Rightarrow> pubkey \<Rightarrow> nat option \<Rightarrow> MintBalance" where
  "mint_balance L b mint decimals =
     \<lparr>mb_ata = fst b, mb_exists = fst (snd b), mb_amount = snd (snd b),
      mb_mintBase58 = pubkey_toBase58 L mint, mb_decimals = decimals\<rparr>"

text \<open>\<open>Promise.all\<close> reads both accounts; they are read one after the other here.\<close>

definition balances_POST :: "lib \<Rightarrow> 'w demo \<Rightarrow> string option \<Rightarrow> 'w \<Rightarrow> BalancesResponse reply \<times> 'w" where
  "balances_POST L M ownerPubkeyBase58 = route (
     if absent ownerPubkeyBase58 then bad_request ''missing ownerPubkeyBase58''
     else
     let D = dm_decoders M; W = dm_wallet M in
     io_bind (io_of (publicKeyOf D ownerPubkeyBase58)) (\<lambda>owner.
     io_bind (io_of (resolveRepoRoot (dm_host M))) (\<lambda>repoRoot.
     io_bind (io_of (loadDemoE2eConfig (dm_host M) repoRoot)) (\<lambda>cfg.
     io_bind (io_of (getDemoConnections M cfg)) (\<lambda>conns.
     io_bind (io_of (parseDemoPrograms D cfg)) (\<lambda>programs.
     io_bind (readAtaBalance L W (dcn_l1 conns) (pr_baseMint programs) owner) (\<lambda>base.
     io_bind (readAtaBalance L W (dcn_l1 conns) (pr_quoteMint programs) owner) (\<lambda>quote.
     io_bind (io_of (cfg_decimals cfg ''baseMint'')) (\<lambda>baseDecimals.
     io_bind (io_of (cfg_decimals cfg ''quoteMint'')) (\<lambda>quoteDecimals.
     io_return (ReplyOk \<lparr>bl_base = mint_balance L base (pr_baseMint programs) baseDecimals,
       bl_quote = mint_balance L quote (pr_quoteMint programs) quoteDecimals\<rparr>)))))))))))"

section \<open>The panel\<close>

datatype PanelStep = StepIdle | StepDeposited | StepProving | StepWithdrawn

datatype panel_side = SideBase | SideQuote

fun side_name :: "panel_side \<Rightarrow> string" where
  "side_name SideBase = ''base''"
| "side_name SideQuote = ''quote''"

fun side_upper :: "panel_side \<Rightarrow> string" where
  "side_upper SideBase = ''BASE''"
| "side_upper SideQuote = ''QUOTE''"

record ReceiptLine =
  rl_label :: string
  rl_signature :: string

record panel =
  pn_step :: PanelStep
  pn_busy :: bool
  pn_error :: "string option"
  pn_side :: panel_side
  pn_amount :: string
  pn_tracking :: "deposit_tracking option"
  pn_receipt :: "ReceiptLine list"
  pn_balances :: "BalancesResponse option"

definition initial_panel :: "string \<Rightarrow> panel" where
  "initial_panel default_amount =
     \<lparr>pn_step = StepIdle, pn_busy = False, pn_error = None, pn_side = SideQuote, pn_amount = default_amount,
      pn_tracking = None, pn_receipt = [], pn_balances = None\<rparr>"

text \<open>Setting state and acting on the world.\<close>

definition set_panel :: "(panel \<Rightarrow> panel) \<Rightarrow> (panel \<times> 'w, js_error, unit) io" where
  "set_panel f pw = (Inr (), (f (fst pw), snd pw))"

definition on_world :: "('w, js_error, 'a) io \<Rightarrow> (panel \<times> 'w, js_error, 'a) io" where
  "on_world m pw = (case m (snd pw) of (r, w') \<Rightarrow> (r, (fst pw, w')))"

definition side_balance :: "panel \<Rightarrow> panel_side \<Rightarrow> MintBalance option" where
  "side_balance p s = map_option (case s of SideBase \<Rightarrow> bl_base | SideQuote \<Rightarrow> bl_quote) (pn_balances p)"

definition balanceForSide :: "panel \<Rightarrow> panel_side \<Rightarrow> int option" where
  "balanceForSide p s =
     (case side_balance p s of None \<Rightarrow> None
      | Some b \<Rightarrow> (case js_BigInt (mb_amount b) of Inl _ \<Rightarrow> None | Inr a \<Rightarrow> Some a))"

definition decimalsForSide :: "panel \<Rightarrow> panel_side \<Rightarrow> nat option" where
  "decimalsForSide p s = (case side_balance p s of None \<Rightarrow> None | Some b \<Rightarrow> mb_decimals b)"

definition panel_atoms :: "panel \<Rightarrow> js_error + int" where
  "panel_atoms p =
     (case decimalsForSide p (pn_side p) of
        None \<Rightarrow> Inl (newError (''Token decimals not loaded yet '' @ em_dash @ '' hit Refresh and try again.''))
      | Some dec \<Rightarrow>
          (case toAtoms (AmountString (pn_amount p)) dec of
             Inl e \<Rightarrow> Inl (newError (err_message e))
           | Inr wantAtoms \<Rightarrow>
               if wantAtoms \<le> 0 then Inl (newError ''Amount must be > 0.'')
               else (case balanceForSide p (pn_side p) of
                  None \<Rightarrow> Inr wantAtoms
                | Some have_atoms \<Rightarrow>
                    if wantAtoms > have_atoms
                    then Inl (newError (''Amount '' @ pn_amount p @ '' '' @ side_upper (pn_side p) @ '' (''
                           @ bigint_toString wantAtoms @ '' atoms) exceeds your balance '' @ formatAtoms have_atoms dec
                           @ '' ('' @ bigint_toString have_atoms @ '' atoms). ''
                           @ ''Lower the amount, or hit Refresh to retry the auto-airdrop.''))
                    else Inr wantAtoms)))"

definition private_deposit_request :: "json \<Rightarrow> panel_side \<Rightarrow> int \<Rightarrow> int \<Rightarrow> private_deposit_body" where
  "private_deposit_request s side wantAtoms now =
     \<lparr>pdb_phantomSignatureBase58 = session_string s ''phantomSignatureBase58'',
      pdb_ownerPubkeyBase58 = session_string s ''ownerPubkeyBase58'', pdb_side = Some (side_name side),
      pdb_amount = Some (bigint_toString wantAtoms), pdb_nonce = Some (bigint_toString (now + 7777))\<rparr>"

definition runDeposit :: "lib \<Rightarrow> 'w demo \<Rightarrow> 'w browser \<Rightarrow> (panel \<times> 'w, js_error, unit) io" where
  "runDeposit L M B pw =
     (let p = fst pw in
      case readDappSessionForOwner B (br_connectedOwner B) (snd pw) of
        None \<Rightarrow> (Inl (newError ''Complete the identity step above first.''), pw)
      | Some s \<Rightarrow>
          io_bind (io_of (panel_atoms p)) (\<lambda>wantAtoms.
          io_bind (set_panel (\<lambda>q. q \<lparr>pn_busy := True, pn_error := None\<rparr>)) (\<lambda>_.
          io_bind (on_world (\<lambda>w. fetch_route B (private_deposit_POST L M (private_deposit_request s (pn_side p) wantAtoms (br_now B w))) w)) (\<lambda>r.
          io_bind (io_of (if pdr_instructions r = [] then Inl (newError ''HTTP 200'')
              else rmapM (instructionFromJson (dm_decoders M)) (pdr_instructions r))) (\<lambda>ixs.
          io_bind (on_world (br_sendAndConfirm B ixs)) (\<lambda>sig.
          set_panel (\<lambda>q. q \<lparr>pn_receipt := pn_receipt q @ [\<lparr>rl_label = ''private deposit ('' @ side_name (pn_side p) @ '')'', rl_signature = sig\<rparr>],
            pn_tracking := Some (pdr_tracking r), pn_step := StepDeposited, pn_busy := False\<rparr>)))))) pw)"

definition withdraw_prepare_request :: "json \<Rightarrow> deposit_tracking \<Rightarrow> withdraw_prepare_body" where
  "withdraw_prepare_request s t =
     \<lparr>wpb_phantomSignatureBase58 = session_string s ''phantomSignatureBase58'',
      wpb_ownerPubkeyBase58 = session_string s ''ownerPubkeyBase58'', wpb_tokenMintBase58 = Some (trk_tokenMintBase58 t),
      wpb_amount = Some (trk_amount t), wpb_nonce = Some (trk_nonce t), wpb_blindingR = Some (trk_blindingR t),
      wpb_leafIndex = Some (trk_leafIndex t), wpb_priorRightPathHex = Some (trk_priorRightPathHex t)\<rparr>"

definition withdraw_finalize_request ::
    "json \<Rightarrow> string \<Rightarrow> string \<Rightarrow> IxContext \<Rightarrow> Groth16ProofBytes \<Rightarrow> withdraw_finalize_body" where
  "withdraw_finalize_request s tokenMintBase58 amount c pf =
     \<lparr>wfb_phantomSignatureBase58 = session_string s ''phantomSignatureBase58'',
      wfb_ownerPubkeyBase58 = session_string s ''ownerPubkeyBase58'', wfb_tokenMintBase58 = Some tokenMintBase58,
      wfb_amount = Some amount, wfb_commitmentHex = Some (ic_commitmentHex c), wfb_nullifierHex = Some (ic_nullifierHex c),
      wfb_merkleRootHex = Some (ic_merkleRootHex c), wfb_piA = Some (bytes_hex (gp_piA pf)),
      wfb_piB = Some (bytes_hex (gp_piB pf)), wfb_piC = Some (bytes_hex (gp_piC pf))\<rparr>"

text \<open>What both panels do with a prepared withdrawal: prove, let the server build the instruction,
  send it.\<close>

definition prove_and_send ::
    "lib \<Rightarrow> 'w demo \<Rightarrow> 'w browser \<Rightarrow> json \<Rightarrow> string \<Rightarrow> string \<Rightarrow> ProverInputsJson \<Rightarrow> IxContext \<Rightarrow> ('w, js_error, string) io" where
  "prove_and_send L M B s tokenMintBase58 amount inputs c =
     io_bind (io_of (panel_spend_inputs inputs)) (\<lambda>inp.
     io_bind (br_prove B inp) (\<lambda>pf.
     io_bind (fetch_route B (withdraw_finalize_POST L M (withdraw_finalize_request s tokenMintBase58 amount c pf))) (\<lambda>r.
     io_bind (io_of (instructionFromJson (dm_decoders M) (wfr_instruction r))) (\<lambda>ix.
     br_sendAndConfirm B [ix]))))"

definition runWithdraw :: "lib \<Rightarrow> 'w demo \<Rightarrow> 'w browser \<Rightarrow> (panel \<times> 'w, js_error, unit) io" where
  "runWithdraw L M B pw =
     (let p = fst pw in
      case readDappSessionForOwner B (br_connectedOwner B) (snd pw) of
        None \<Rightarrow> (Inl (newError (''Session expired '' @ em_dash @ '' re-derive your identity above.'')), pw)
      | Some s \<Rightarrow>
          (case pn_tracking p of
             None \<Rightarrow> (Inl (newError ''Run the deposit step first.''), pw)
           | Some t \<Rightarrow>
               io_bind (set_panel (\<lambda>q. q \<lparr>pn_busy := True, pn_error := None\<rparr>)) (\<lambda>_.
               io_bind (on_world (fetch_route B (withdraw_prepare_POST L M (withdraw_prepare_request s t)))) (\<lambda>prep.
               io_bind (set_panel (\<lambda>q. q \<lparr>pn_step := StepProving\<rparr>)) (\<lambda>_.
               io_bind (on_world (prove_and_send L M B s (trk_tokenMintBase58 t) (trk_amount t) (wpr_proverInputs prep) (wpr_ixContext prep))) (\<lambda>sig.
               set_panel (\<lambda>q. q \<lparr>pn_receipt := pn_receipt q @ [\<lparr>rl_label = ''withdraw via VALID_SPEND ('' @ side_name (pn_side p) @ '')'', rl_signature = sig\<rparr>],
                 pn_step := StepWithdrawn, pn_busy := False\<rparr>))))) pw))"

text \<open>The text the handler adds to a wallet error about funds, on separate lines.\<close>

definition funds_hint :: string where
  "funds_hint = [char_of (10 :: nat)] @ ''This is your wallet's plain SPL balance '' @ em_dash @ '' not your shielded pool balance.''
     @ [char_of (10 :: nat)] @ ''Lower the amount, or hit Re-derive in the identity panel to top up demo BASE/QUOTE.''"

fun contains_text :: "string \<Rightarrow> string \<Rightarrow> bool" where
  "contains_text pat s = (take (length pat) s = pat \<or> (case s of [] \<Rightarrow> False | _ # t \<Rightarrow> contains_text pat t))"

declare contains_text.simps [simp del]

definition click_error :: "js_error \<Rightarrow> string" where
  "click_error e =
     err_message e @ (if contains_text ''insufficient funds'' (toLowerCase (err_message e)) then funds_hint else [])"

text \<open>The handler of the button. An error is shown and the panel is no longer busy; the step is not
  touched.\<close>

definition onClick :: "lib \<Rightarrow> 'w demo \<Rightarrow> 'w browser \<Rightarrow> panel \<times> 'w \<Rightarrow> panel \<times> 'w" where
  "onClick L M B pw =
     (if readDappSessionForOwner B (br_connectedOwner B) (snd pw) = None then pw
      else
        case (case pn_step (fst pw) of StepIdle \<Rightarrow> runDeposit L M B pw | StepDeposited \<Rightarrow> runWithdraw L M B pw | _ \<Rightarrow> (Inr (), pw)) of
          (Inr _, qw) \<Rightarrow> qw
        | (Inl e, qw) \<Rightarrow> (fst qw \<lparr>pn_error := Some (click_error e), pn_busy := False\<rparr>, snd qw))"

definition panel_reset :: "panel \<Rightarrow> panel" where
  "panel_reset p = p \<lparr>pn_tracking := None, pn_step := StepIdle, pn_receipt := [], pn_error := None\<rparr>"

section \<open>The routes behind the panel\<close>

abbreviation side_mint :: "DemoPrograms \<Rightarrow> string \<Rightarrow> pubkey" where
  "side_mint programs side \<equiv> (if side = ''base'' then pr_baseMint programs else pr_quoteMint programs)"

lemma private_deposit_okE:
  assumes "private_deposit_POST L M body w = (ReplyOk r, w')" and env: "demo_setup M = Inr (conns, programs)"
    and info: "vault_info L (dcn_l1 conns) (pr_vaultProgramId programs) w = (Inr data, w)"
    and live: "getBigUint64 data 104 = Inr n"
  obtains vo amount nonce cm ownerB nonceB blindB depositor ata ix where
    "pdb_phantomSignatureBase58 body \<noteq> None" "pdb_ownerPubkeyBase58 body \<noteq> None"
    "the (pdb_phantomSignatureBase58 body) \<noteq> []" "the (pdb_ownerPubkeyBase58 body) \<noteq> []"
    "verifyPhantomSeedSignature L (dm_decoders M) (dm_wallet M) (the (pdb_phantomSignatureBase58 body)) (the (pdb_ownerPubkeyBase58 body)) = Inr vo"
    "js_BigInt (the (pdb_amount body)) = Inr amount" "0 < amount"
    "noteCommitment L (private_deposit_note L (vo_seed vo) (side_mint programs (the (pdb_side body))) amount nonce n) = Inr cm"
    "bn254ToBE32 (ownerCommitment L (deriveSpendingKey L (vo_seed vo)) (deriveBlindingFactor L (vo_seed vo) 0)) = Inr ownerB"
    "bn254ToBE32 nonce = Inr nonceB" "bn254ToBE32 (deriveBlindingFactor L (vo_seed vo) n) = Inr blindB"
    "publicKeyOf (dm_decoders M) (pdb_ownerPubkeyBase58 body) = Inr depositor"
    "getAssociatedTokenAddress (dm_wallet M) (side_mint programs (the (pdb_side body))) depositor = Inr ata"
    "buildDepositInstruction L \<lparr>dp_programId = pr_vaultProgramId programs, dp_depositor = depositor,
       dp_tokenMint = side_mint programs (the (pdb_side body)), dp_depositorTokenAccount = ata, dp_tokenProgramId = TOKEN_PROGRAM_ID L,
       dp_amount = amount, dp_ownerCommitment = ownerB, dp_nonce = nonceB, dp_blindingR = blindB\<rparr> = Inr ix"
    "pdr_instructions r ! 1 = instructionToJson L ix" "length (pdr_instructions r) = 2"
    "trk_leafIndex (pdr_tracking r) = bigint_toString n" "trk_amount (pdr_tracking r) = bigint_toString amount"
    "trk_nonce (pdr_tracking r) = bigint_toString nonce"
    "trk_blindingR (pdr_tracking r) = bigint_toString (deriveBlindingFactor L (vo_seed vo) n)"
    "trk_commitmentHex (pdr_tracking r) = bytes_hex cm"
    "trk_priorRightPathHex (pdr_tracking r) = map bytes_hex (map (\<lambda>i. slice data (RIGHT_PATH_OFFSET + i * 32) 32) [0..<MERKLE_DEPTH])"
    "trk_tokenMintBase58 (pdr_tracking r) = pubkey_toBase58 L (side_mint programs (the (pdb_side body)))"
  using assms(1) unfolding private_deposit_POST_def route_ok Let_def
  by (elim reply_elims)
    (clarsimp simp: env info live absent_def private_deposit_note_def comp_def cong: if_cong split del: if_split)

lemma withdraw_prepare_runs:
  fixes M :: "'w demo"
  defines "D \<equiv> dm_decoders M"
  assumes fields: "\<not> absent (wpb_phantomSignatureBase58 body)" "\<not> absent (wpb_ownerPubkeyBase58 body)"
      "\<not> absent (wpb_tokenMintBase58 body)" "\<not> absent (wpb_amount body)" "\<not> absent (wpb_nonce body)" "\<not> absent (wpb_blindingR body)"
      "wpb_leafIndex body = Some leafText" "wpb_priorRightPathHex body = Some (map bytes_hex rp)" "length rp = MERKLE_DEPTH"
    and vo: "verifyPhantomSeedSignature L D (dm_wallet M) (the (wpb_phantomSignatureBase58 body)) (the (wpb_ownerPubkeyBase58 body)) = Inr vo"
    and env: "demo_setup M = Inr (conns, programs)" and mint: "publicKeyOf D (wpb_tokenMintBase58 body) = Inr tokenMint"
    and nums: "js_BigInt (the (wpb_amount body)) = Inr amount" "js_BigInt (the (wpb_nonce body)) = Inr nonce"
      "js_BigInt (the (wpb_blindingR body)) = Inr blindingR" "js_BigInt leafText = Inr leafIndex"
    and cm: "noteCommitment L \<lparr>nt_tokenMint = toBytes tokenMint, nt_amount = amount,
       nt_ownerCommitment = ownerCommitment L (deriveSpendingKey L (vo_seed vo)) (deriveBlindingFactor L (vo_seed vo) 0),
       nt_nonce = nonce, nt_blindingR = blindingR\<rparr> = Inr cm"
    and info: "vault_info L (dcn_l1 conns) (pr_vaultProgramId programs) w = (Inr data, w)"
      "getBigUint64 data 104 = Inr (leafIndex + 1)" "slice data 112 32 = mw_root wt"
    and wit: "witnessFromPriorRightPath L cm leafIndex rp = Inr wt"
    and nl: "nullifier L (deriveSpendingKey L (vo_seed vo)) cm = Inr nl" "pubkeyToFrPair (toBytes tokenMint) = Inr mt"
    and ob: "bn254ToBE32 (ownerCommitment L (deriveSpendingKey L (vo_seed vo)) (deriveBlindingFactor L (vo_seed vo) 0)) = Inr ob"
  shows "withdraw_prepare_POST L M body w = (ReplyOk
     \<lparr>wpr_proverInputs = prover_inputs_json wt nl mt amount (deriveSpendingKey L (vo_seed vo))
        (deriveBlindingFactor L (vo_seed vo) 0) nonce blindingR,
      wpr_ixContext = \<lparr>ic_commitmentHex = bytes_hex cm, ic_nullifierHex = bytes_hex nl,
        ic_merkleRootHex = bytes_hex (mw_root wt), ic_ownerCommitmentHex = bytes_hex ob\<rparr>\<rparr>, w)"
proof -
  have rp: "map route_hexToBytes (map bytes_hex rp) = rp" by (simp add: route_hexToBytes_def comp_def)
  show ?thesis
    unfolding withdraw_prepare_POST_def route_def io_bind_def D_def [symmetric]
    using fields(9) by (simp only: fields option.sel length_map rp) (simp add: vo env mint nums cm info wit nl ob Let_def)
qed

lemma withdraw_finalize_runs:
  fixes M :: "'w demo"
  defines "D \<equiv> dm_decoders M"
  assumes fields: "\<not> absent (wfb_phantomSignatureBase58 body)" "\<not> absent (wfb_ownerPubkeyBase58 body)" "\<not> absent (wfb_tokenMintBase58 body)"
      "\<not> absent (wfb_amount body)" "wfb_commitmentHex body = Some (bytes_hex cm)" "wfb_nullifierHex body = Some (bytes_hex nl)"
      "wfb_merkleRootHex body = Some (bytes_hex root)" "wfb_piA body = Some (bytes_hex a)" "wfb_piB body = Some (bytes_hex b)"
      "wfb_piC body = Some (bytes_hex c)"
    and len: "length cm = 32" "length nl = 32" "length root = 32" "length a = 64" "length b = 128" "length c = 64"
    and vo: "verifyPhantomSeedSignature L D (dm_wallet M) (the (wfb_phantomSignatureBase58 body)) (the (wfb_ownerPubkeyBase58 body)) = Inr vo"
    and env: "demo_setup M = Inr (conns, programs)" and keys: "publicKeyOf D (wfb_ownerPubkeyBase58 body) = Inr owner"
      "publicKeyOf D (wfb_tokenMintBase58 body) = Inr tokenMint" "getAssociatedTokenAddress (dm_wallet M) tokenMint owner = Inr ata"
    and amount: "js_BigInt (the (wfb_amount body)) = Inr amount"
    and ix: "buildWithdrawInstruction L \<lparr>wd_programId = pr_vaultProgramId programs, wd_payer = owner, wd_tokenMint = tokenMint,
       wd_destinationTokenAccount = ata, wd_tokenProgramId = TOKEN_PROGRAM_ID L, wd_noteCommitment = cm, wd_nullifier = nl,
       wd_merkleRoot = root, wd_amount = amount, wd_proof = \<lparr>piA = a, piB = b, piC = c\<rparr>\<rparr> = Inr ix"
  shows "\<exists>r. withdraw_finalize_POST L M body w = (ReplyOk r, w) \<and> wfr_instruction r = instructionToJson L ix"
proof -
  obtain root' cfg where s: "resolveRepoRoot (dm_host M) = Inr root'" "loadDemoE2eConfig (dm_host M) root' = Inr cfg"
      "parseDemoPrograms D cfg = Inr programs"
    using env by (auto simp: demo_setup_def rbind_eq_Inr D_def)
  have ne: "\<not> absent (Some (bytes_hex x))" if "0 < length x" for x
    using that by (cases x) (simp_all add: absent_def)
  have p: "\<not> absent (wfb_commitmentHex body)" "\<not> absent (wfb_nullifierHex body)" "\<not> absent (wfb_merkleRootHex body)"
      "\<not> absent (wfb_piA body)" "\<not> absent (wfb_piB body)" "\<not> absent (wfb_piC body)"
    using len by (simp_all add: fields ne)
  show ?thesis
    unfolding withdraw_finalize_POST_def route_def io_bind_def D_def [symmetric]
    by (simp add: fields(1-4) p) (simp add: fields(5-) vo s keys amount ix route_hexToBytes_def Let_def)
qed

section \<open>A deposit that landed\<close>

text \<open>What a private deposit that was answered and executed leaves behind: the leaf the program computes
  from the instruction is the tracked commitment, and the tracked right path gives the witness for
  it.\<close>

lemma private_deposit_landed:
  assumes lib: "poseidon_canonical L" "chain_poseidon L p2" "base58_inverse L (dm_decoders M)"
    and env: "demo_setup M = Inr (conns, programs)"
    and before: "account_holds L (dcn_l1 conns) (pr_vaultProgramId programs) w v" "vault_rep L v xs"
    and dep: "private_deposit_POST L M body w = (ReplyOk r, w1)" "js_BigInt (the (pdb_amount body)) = Inr a" "a < 2 ^ 64"
    and ix: "instructionFromJson (dm_decoders M) (pdr_instructions r ! 1) = Inr ix" "noteCommitment L (deposit_ix_note ix) = Inr leaf"
      "append_leaf p2 leaf v = Inr (root, v')"
    and after: "account_holds L (dcn_l1 conns) (pr_vaultProgramId programs) w' v'"
    and body: "wpb_phantomSignatureBase58 body' = pdb_phantomSignatureBase58 body" "wpb_ownerPubkeyBase58 body' = pdb_ownerPubkeyBase58 body"
      "wpb_tokenMintBase58 body' = Some (trk_tokenMintBase58 (pdr_tracking r))" "wpb_amount body' = Some (trk_amount (pdr_tracking r))"
      "wpb_nonce body' = Some (trk_nonce (pdr_tracking r))" "wpb_blindingR body' = Some (trk_blindingR (pdr_tracking r))"
      "wpb_leafIndex body' = Some (trk_leafIndex (pdr_tracking r))"
      "wpb_priorRightPathHex body' = Some (trk_priorRightPathHex (pdr_tracking r))"
  obtains vo mint depositor ata prep inp nl where
    "withdraw_prepare_POST L M body' w' = (ReplyOk prep, w')" "panel_spend_inputs (wpr_proverInputs prep) = Inr inp" "ValidSpend L inp"
    "ic_commitmentHex (wpr_ixContext prep) = bytes_hex leaf" "ic_nullifierHex (wpr_ixContext prep) = bytes_hex nl"
    "ic_merkleRootHex (wpr_ixContext prep) = bytes_hex root" "si_merkleRoot inp = be_to_int root" "si_nullifier inp = be_to_int nl"
    "si_amount inp = a" "contains_root v' root" "length leaf = 32" "length nl = 32" "length root = 32"
    "trk_amount (pdr_tracking r) = bigint_toString a" "trk_tokenMintBase58 (pdr_tracking r) = pubkey_toBase58 L mint"
    "verifyPhantomSeedSignature L (dm_decoders M) (dm_wallet M) (the (pdb_phantomSignatureBase58 body)) (the (pdb_ownerPubkeyBase58 body)) = Inr vo"
    "\<not> absent (pdb_phantomSignatureBase58 body)" "\<not> absent (pdb_ownerPubkeyBase58 body)"
    "publicKeyOf (dm_decoders M) (pdb_ownerPubkeyBase58 body) = Inr depositor" "getAssociatedTokenAddress (dm_wallet M) mint depositor = Inr ata"
proof -
  let ?n = "vc_leaf_count v"
  obtain data where data: "vault_info L (dcn_l1 conns) (pr_vaultProgramId programs) w = (Inr data, w)" "vault_data v data"
    using before(1) by (rule vault_info_holds)
  obtain data' where data': "vault_info L (dcn_l1 conns) (pr_vaultProgramId programs) w' = (Inr data', w')" "vault_data v' data'"
    using after by (rule vault_info_holds)
  show thesis
  proof (rule private_deposit_okE [OF dep(1) env data(1) vault_data_reads(1) [OF data(2)]])
    fix vo :: verified_owner and amount nonce cm ownerB nonceB blindB depositor ata dix
    let ?mint = "side_mint programs (the (pdb_side body))"
    let ?sk = "deriveSpendingKey L (vo_seed vo)" and ?ob = "deriveBlindingFactor L (vo_seed vo) 0"
    let ?note = "private_deposit_note L (vo_seed vo) ?mint amount nonce (int ?n)"
    assume some: "pdb_phantomSignatureBase58 body \<noteq> None" "pdb_ownerPubkeyBase58 body \<noteq> None"
        "the (pdb_phantomSignatureBase58 body) \<noteq> []" "the (pdb_ownerPubkeyBase58 body) \<noteq> []"
      and vo: "verifyPhantomSeedSignature L (dm_decoders M) (dm_wallet M) (the (pdb_phantomSignatureBase58 body)) (the (pdb_ownerPubkeyBase58 body)) = Inr vo"
      and am: "js_BigInt (the (pdb_amount body)) = Inr amount" "0 < amount" and cm: "noteCommitment L ?note = Inr cm"
      and enc: "bn254ToBE32 (ownerCommitment L ?sk ?ob) = Inr ownerB" "bn254ToBE32 nonce = Inr nonceB"
        "bn254ToBE32 (deriveBlindingFactor L (vo_seed vo) (int ?n)) = Inr blindB"
      and dp: "publicKeyOf (dm_decoders M) (pdb_ownerPubkeyBase58 body) = Inr depositor"
        "getAssociatedTokenAddress (dm_wallet M) ?mint depositor = Inr ata"
      and dix: "buildDepositInstruction L \<lparr>dp_programId = pr_vaultProgramId programs, dp_depositor = depositor, dp_tokenMint = ?mint,
         dp_depositorTokenAccount = ata, dp_tokenProgramId = TOKEN_PROGRAM_ID L, dp_amount = amount, dp_ownerCommitment = ownerB,
         dp_nonce = nonceB, dp_blindingR = blindB\<rparr> = Inr dix" "pdr_instructions r ! 1 = instructionToJson L dix"
      and trk: "trk_leafIndex (pdr_tracking r) = bigint_toString (int ?n)" "trk_amount (pdr_tracking r) = bigint_toString amount"
        "trk_nonce (pdr_tracking r) = bigint_toString nonce"
        "trk_blindingR (pdr_tracking r) = bigint_toString (deriveBlindingFactor L (vo_seed vo) (int ?n))"
        "trk_priorRightPathHex (pdr_tracking r) = map bytes_hex (map (\<lambda>i. slice data (RIGHT_PATH_OFFSET + i * 32) 32) [0..<MERKLE_DEPTH])"
        "trk_tokenMintBase58 (pdr_tracking r) = pubkey_toBase58 L ?mint"
    have a: "amount = a" using am(1) dep(2) by simp
    have "dix = ix" using ix(1) dix(2) instruction_json_inverse [OF lib(3)] by simp
    then have "deposit_ix_note ix = ?note"
      using buildDepositInstruction_note(1) [OF dix(1)] enc am(2) dep(3) a
      by (simp add: private_deposit_note_def bn254ToBE32_Inr_iff)
    then have leaf: "leaf = cm" using ix(2) cm by simp
    have rp: "wpb_priorRightPathHex body' = Some (map bytes_hex (vc_right_path v))"
      using body(8) trk(5) vault_data_reads(4) [OF data(2)] by (simp del: map_map)
    obtain wt where wt: "witnessFromPriorRightPath L leaf (int ?n) (vc_right_path v) = Inr wt" "mw_root wt = root" "vc_current_root v' = root"
        "length (mw_siblings wt) = 20" "mw_indices wt = mbits 20 ?n"
        "MerkleTreeChecker L (be_to_int leaf) (be_to_int root) (map be_to_int (mw_siblings wt)) (mw_indices wt)"
      using right_path_checked(2) [OF lib(1,2) before(2) ix(3)] by blast
    have n': "vc_leaf_count v' = ?n + 1"
      using right_path_checked(1) [OF lib(1,2) before(2) ix(3)] before(2) by (simp add: vault_rep_def)
    have len: "length leaf = 32" using ix(2) by (rule noteCommitment_length)
    obtain nl where nl: "nullifier L ?sk leaf = Inr nl"
      using len poseidonHashBytesBE_ok [OF lib(1), of "[?sk, be_to_int leaf]"] by (auto simp: nullifier_def poseidonHashBytesBE_def Let_def)
    obtain mt where mt: "pubkeyToFrPair (toBytes ?mint) = Inr mt" using pubkeyToFrPair_Inr_iff length_wire by metis
    have rl: "length root = 32" using data'(2) wt(3) by (auto simp: vault_data_def)
    have bd: "\<not> absent (pdb_phantomSignatureBase58 body)" "\<not> absent (pdb_ownerPubkeyBase58 body)" using some by (auto simp: absent_def)
    have cm': "noteCommitment L \<lparr>nt_tokenMint = toBytes ?mint, nt_amount = a, nt_ownerCommitment = ownerCommitment L ?sk ?ob,
        nt_nonce = nonce, nt_blindingR = deriveBlindingFactor L (vo_seed vo) (int ?n)\<rparr> = Inr leaf"
      using cm leaf a by (simp add: private_deposit_note_def)
    have b58: "pubkey_toBase58 L k \<noteq> []" "publicKeyOf (dm_decoders M) (Some (pubkey_toBase58 L k)) = Inr k" for k
      using lib(3) by (simp_all add: base58_inverse_def)
    let ?prep = "\<lparr>wpr_proverInputs = prover_inputs_json wt nl mt a ?sk ?ob nonce (deriveBlindingFactor L (vo_seed vo) (int ?n)),
      wpr_ixContext = \<lparr>ic_commitmentHex = bytes_hex leaf, ic_nullifierHex = bytes_hex nl,
        ic_merkleRootHex = bytes_hex (mw_root wt), ic_ownerCommitmentHex = bytes_hex ownerB\<rparr>\<rparr>"
    have prep: "withdraw_prepare_POST L M body' w' = (ReplyOk ?prep, w')"
      by (rule withdraw_prepare_runs [where rp = "vc_right_path v" and leafIndex = "int ?n", OF _ _ _ _ _ _ body(7) rp _ _ env _ _ _ _ _ cm' data'(1) _ _ wt(1) nl mt enc(1)])
        (use bd vo wt(2,3) n' vault_data_reads [OF data'(2)] before(2) in
          \<open>simp_all add: body(1-7) trk a b58 absent_def vault_rep_def MERKLE_DEPTH_def\<close>)
    have "ValidSpend L \<lparr>si_merkleRoot = be_to_int (mw_root wt), si_nullifier = be_to_int nl, si_tokenMint = mt, si_amount = a,
        si_spendingKey = ?sk, si_ownerCommitmentBlinding = ?ob, si_nonce = nonce,
        si_blindingR = deriveBlindingFactor L (vo_seed vo) (int ?n), si_merklePath = map be_to_int (mw_siblings wt), si_merkleIndices = mw_indices wt\<rparr>"
      using witness_valid [OF cm' nl, of mt ?ob wt] mt wt by simp
    then show thesis
      using that [OF prep, of _ nl ?mint vo depositor ata] wt(2,3) len nl rl trk a vo bd dp
      by (simp add: panel_reads_inputs contains_root_def nullifier_length)
  qed
qed

section \<open>Events of the panel\<close>

text \<open>The button is disabled while the panel is busy, when it is proving and when it has withdrawn; side
  and amount can be edited in the idle step only. \<open>Elsewhere\<close> is a change of the world that is not
  due to the panel.\<close>

datatype panel_event = Click | Reset | EditSide panel_side | EditAmount string | BalancesArrive "BalancesResponse option" | Elsewhere

inductive panel_moves :: "lib \<Rightarrow> 'w demo \<Rightarrow> 'w browser \<Rightarrow> panel \<times> 'w \<Rightarrow> panel_event \<Rightarrow> panel \<times> 'w \<Rightarrow> bool" for L M B where
  click: "\<not> pn_busy p \<Longrightarrow> pn_step p \<notin> {StepWithdrawn, StepProving} \<Longrightarrow> panel_moves L M B (p, w) Click (onClick L M B (p, w))"
| reset: "panel_moves L M B (p, w) Reset (panel_reset p, w)"
| edit_side: "pn_step p = StepIdle \<Longrightarrow> panel_moves L M B (p, w) (EditSide s) (p \<lparr>pn_side := s\<rparr>, w)"
| edit_amount: "pn_step p = StepIdle \<Longrightarrow> panel_moves L M B (p, w) (EditAmount a) (p \<lparr>pn_amount := a\<rparr>, w)"
| balances: "panel_moves L M B (p, w) (BalancesArrive b) (p \<lparr>pn_balances := b\<rparr>, w)"
| elsewhere: "panel_moves L M B (p, w) Elsewhere (p, w')"

inductive_cases panel_movesE: "panel_moves L M B pw ev qw"

inductive panel_run :: "lib \<Rightarrow> 'w demo \<Rightarrow> 'w browser \<Rightarrow> panel \<times> 'w \<Rightarrow> panel_event list \<Rightarrow> panel \<times> 'w \<Rightarrow> bool" for L M B where
  stop: "panel_run L M B pw [] pw"
| move: "panel_run L M B pw evs qw \<Longrightarrow> panel_moves L M B qw ev rw \<Longrightarrow> panel_run L M B pw (evs @ [ev]) rw"

text \<open>Between events the panel is not busy, and it tracks a deposit exactly when it is past the idle
  step.\<close>

definition panel_ok :: "panel \<Rightarrow> bool" where
  "panel_ok p \<longleftrightarrow> \<not> pn_busy p \<and> (pn_step p = StepIdle \<longleftrightarrow> pn_tracking p = None)"

lemma set_panel_run [simp]: "set_panel f pw = (Inr (), (f (fst pw), snd pw))"
  by (simp add: set_panel_def)

lemma on_world_eq: "on_world m pw = (fst (m (snd pw)), (fst pw, snd (m (snd pw))))"
  by (simp add: on_world_def split: prod.splits)

lemma runDeposit_panel:
  assumes "runDeposit L M B (p, w) = (x, (q, w'))"
  shows "case x of Inr _ \<Rightarrow> pn_step q = StepDeposited \<and> pn_tracking q \<noteq> None \<and> \<not> pn_busy q
     | Inl _ \<Rightarrow> pn_step q = pn_step p \<and> pn_tracking q = pn_tracking p"
  using assms
  by (auto simp: runDeposit_def Let_def io_bind_def on_world_eq split: option.splits prod.splits sum.splits if_splits)

lemma runWithdraw_panel:
  assumes "runWithdraw L M B (p, w) = (x, (q, w'))"
  shows "pn_tracking q = pn_tracking p \<and> (case x of Inr _ \<Rightarrow> pn_step q = StepWithdrawn \<and> \<not> pn_busy q \<and> pn_tracking p \<noteq> None
     | Inl _ \<Rightarrow> pn_step q = pn_step p \<or> pn_step q = StepProving \<and> pn_tracking p \<noteq> None)"
  using assms
  by (auto simp: runWithdraw_def Let_def io_bind_def on_world_eq split: option.splits prod.splits sum.splits)

lemma onClick_ok:
  assumes "panel_ok p"
  shows "panel_ok (fst (onClick L M B (p, w)))"
proof -
  have d: "panel_ok (fst (case runDeposit L M B (p, w) of (Inr _, qw) \<Rightarrow> qw
      | (Inl e, qw) \<Rightarrow> (fst qw \<lparr>pn_error := Some (click_error e), pn_busy := False\<rparr>, snd qw)))" if "pn_step p = StepIdle"
    using assms that runDeposit_panel [of L M B p w] by (auto simp: panel_ok_def split: prod.splits sum.splits)
  have wd: "panel_ok (fst (case runWithdraw L M B (p, w) of (Inr _, qw) \<Rightarrow> qw
      | (Inl e, qw) \<Rightarrow> (fst qw \<lparr>pn_error := Some (click_error e), pn_busy := False\<rparr>, snd qw)))" if "pn_step p = StepDeposited"
    using assms that runWithdraw_panel [of L M B p w] by (auto simp: panel_ok_def split: prod.splits sum.splits)
  show ?thesis using assms d wd by (auto simp: onClick_def split: PanelStep.splits)
qed

lemma panel_moves_ok: "panel_moves L M B pw ev qw \<Longrightarrow> panel_ok (fst pw) \<Longrightarrow> panel_ok (fst qw)"
proof (induction rule: panel_moves.induct)
  case (click p w)
  then show ?case by (simp add: onClick_ok)
qed (simp_all add: panel_ok_def panel_reset_def)

lemma panel_run_ok: "panel_run L M B pw evs qw \<Longrightarrow> panel_ok (fst pw) \<Longrightarrow> panel_ok (fst qw)"
  by (induction rule: panel_run.induct) (auto dest: panel_moves_ok)

text \<open>In the proving step nothing but a reset changes the step or the tracked deposit.\<close>

lemma panel_run_proving:
  assumes "panel_run L M B pw evs qw" and "Reset \<notin> set evs" and "pn_step (fst pw) = StepProving"
  shows "pn_step (fst qw) = StepProving \<and> pn_tracking (fst qw) = pn_tracking (fst pw) \<and> pn_receipt (fst qw) = pn_receipt (fst pw)"
  using assms
  by (induction rule: panel_run.induct) (auto elim: panel_movesE)

section \<open>Properties\<close>

text \<open>A browser that works: the network delivers, the prover proves every statement that satisfies
  the circuit, the wallet sends.\<close>

definition browser_works :: "lib \<Rightarrow> 'w browser \<Rightarrow> bool" where
  "browser_works L B \<longleftrightarrow>
     (\<forall>w. br_network B w = (Inr (), w))
     \<and> (\<forall>inp w. ValidSpend L inp \<longrightarrow> (\<exists>pf w'. br_prove B inp w = (Inr pf, w')
          \<and> length (gp_piA pf) = 64 \<and> length (gp_piB pf) = 128 \<and> length (gp_piC pf) = 64))
     \<and> (\<forall>ixs w. \<exists>sg w'. br_sendAndConfirm B ixs w = (Inr sg, w'))"

lemma fetch_route_ok: "browser_works L B \<Longrightarrow> m w = (ReplyOk r, w') \<Longrightarrow> fetch_route B m w = (Inr r, w')"
  by (simp add: fetch_route_def io_bind_def browser_works_def)

lemma prove_and_send_ok:
  assumes works: "browser_works L B" and lib: "pda_total L" "base58_inverse L (dm_decoders M)" and env: "demo_setup M = Inr (conns, programs)"
    and inp: "panel_spend_inputs inputs = Inr inp" "ValidSpend L inp"
    and c: "ic_commitmentHex c = bytes_hex cm" "ic_nullifierHex c = bytes_hex nl" "ic_merkleRootHex c = bytes_hex root"
    and len: "length cm = 32" "length nl = 32" "length root = 32"
    and user: "\<not> absent (session_string s ''phantomSignatureBase58'')" "\<not> absent (session_string s ''ownerPubkeyBase58'')"
      "verifyPhantomSeedSignature L (dm_decoders M) (dm_wallet M) (the (session_string s ''phantomSignatureBase58''))
         (the (session_string s ''ownerPubkeyBase58'')) = Inr vo"
      "publicKeyOf (dm_decoders M) (session_string s ''ownerPubkeyBase58'') = Inr owner"
      "getAssociatedTokenAddress (dm_wallet M) mint owner = Inr ata"
  obtains pf ix w1 w2 sig where "br_prove B inp w = (Inr pf, w1)" "br_sendAndConfirm B [ix] w1 = (Inr sig, w2)"
    "prove_and_send L M B s (pubkey_toBase58 L mint) (bigint_toString a) inputs c w = (Inr sig, w2)"
    "ix_data ix = anchorDiscriminator L ''withdraw'' @ cm @ nl @ root @ u64LE a @ gp_piA pf @ gp_piB pf @ gp_piC pf"
    "signers_of ix = [owner]"
proof -
  obtain pf w1 where pf: "br_prove B inp w = (Inr pf, w1)" "length (gp_piA pf) = 64" "length (gp_piB pf) = 128" "length (gp_piC pf) = 64"
    using works inp(2) unfolding browser_works_def by meson
  let ?q = "\<lparr>wd_programId = pr_vaultProgramId programs, wd_payer = owner, wd_tokenMint = mint, wd_destinationTokenAccount = ata,
    wd_tokenProgramId = TOKEN_PROGRAM_ID L, wd_noteCommitment = cm, wd_nullifier = nl, wd_merkleRoot = root, wd_amount = a,
    wd_proof = \<lparr>piA = gp_piA pf, piB = gp_piB pf, piC = gp_piC pf\<rparr>\<rparr>"
  obtain ix where ix: "buildWithdrawInstruction L ?q = Inr ix"
      "ix_data ix = anchorDiscriminator L ''withdraw'' @ cm @ nl @ root @ u64LE a @ gp_piA pf @ gp_piB pf @ gp_piC pf" "signers_of ix = [owner]"
    using buildWithdrawInstruction_ok [OF lib(1), of ?q] len pf by (auto simp: wf_proof_def)
  obtain sig w2 where sent: "br_sendAndConfirm B [ix] w1 = (Inr sig, w2)"
    using works unfolding browser_works_def by meson
  let ?body = "withdraw_finalize_request s (pubkey_toBase58 L mint) (bigint_toString a) c pf"
  have b58: "pubkey_toBase58 L mint \<noteq> []" "publicKeyOf (dm_decoders M) (Some (pubkey_toBase58 L mint)) = Inr mint"
    using lib(2) by (simp_all add: base58_inverse_def)
  have "\<exists>r. withdraw_finalize_POST L M ?body w1 = (ReplyOk r, w1) \<and> wfr_instruction r = instructionToJson L ix"
    by (rule withdraw_finalize_runs [OF _ _ _ _ _ _ _ _ _ _ len pf(2-4) _ env _ _ user(5) _ ix(1)])
      (use user c b58 in \<open>simp_all add: withdraw_finalize_request_def absent_def\<close>)
  then obtain r where fin: "withdraw_finalize_POST L M ?body w1 = (ReplyOk r, w1)" "wfr_instruction r = instructionToJson L ix"
    by blast
  have "prove_and_send L M B s (pubkey_toBase58 L mint) (bigint_toString a) inputs c w = (Inr sig, w2)"
    unfolding prove_and_send_def io_bind_def
    by (simp add: inp(1) pf(1) fetch_route_ok [where m = "withdraw_finalize_POST L M ?body", OF works fin(1)] fin(2) instruction_json_inverse [OF lib(2)] sent)
  then show ?thesis by (rule that [OF pf(1) sent _ ix(2,3)])
qed

text \<open>(C3) A private deposit that landed can be withdrawn with the panel. If the route answered the
  panel's deposit of \<open>a\<close> atoms, the chain executed the instruction it returned, appending the leaf
  the program computes from it, and no other leaf followed, then the next click proves and sends a
  withdrawal: the prover is handed inputs that satisfy the VALID_SPEND circuit for the vault's new
  root and the amount, the instruction carries the leaf, the nullifier and the root of the proof,
  and the panel has withdrawn.\<close>

theorem private_deposit_withdrawable:
  assumes "poseidon_canonical L" "chain_poseidon L p2" "pda_total L" "base58_inverse L (dm_decoders M)"
    and "demo_setup M = Inr (conns, programs)"
    and "account_holds L (dcn_l1 conns) (pr_vaultProgramId programs) w v" "vault_rep L v xs"
    and "private_deposit_POST L M (private_deposit_request s side a now) w = (ReplyOk r, w1)" "a < 2 ^ 64"
    and "instructionFromJson (dm_decoders M) (pdr_instructions r ! 1) = Inr ix"
    and "noteCommitment L (deposit_ix_note ix) = Inr leaf" "append_leaf p2 leaf v = Inr (root, v')"
    and "account_holds L (dcn_l1 conns) (pr_vaultProgramId programs) w' v'"
    and "pn_step p = StepDeposited" "pn_tracking p = Some (pdr_tracking r)"
    and "readDappSessionForOwner B (br_connectedOwner B) w' = Some s" and "browser_works L B"
  shows "\<exists>inp nl pf wix sig w2 w3. br_prove B inp w' = (Inr pf, w2) \<and> ValidSpend L inp \<and> contains_root v' root
     \<and> si_merkleRoot inp = be_to_int root \<and> si_nullifier inp = be_to_int nl \<and> si_amount inp = a
     \<and> br_sendAndConfirm B [wix] w2 = (Inr sig, w3)
     \<and> ix_data wix = anchorDiscriminator L ''withdraw'' @ leaf @ nl @ root @ u64LE a @ gp_piA pf @ gp_piB pf @ gp_piC pf
     \<and> (\<exists>q. onClick L M B (p, w') = (q, w3) \<and> pn_step q = StepWithdrawn \<and> \<not> pn_busy q
          \<and> pn_receipt q = pn_receipt p @ [\<lparr>rl_label = ''withdraw via VALID_SPEND ('' @ side_name (pn_side p) @ '')'', rl_signature = sig\<rparr>])"
proof -
  let ?body = "private_deposit_request s side a now"
  have am: "js_BigInt (the (pdb_amount ?body)) = Inr a" by (simp add: private_deposit_request_def)
  show ?thesis
  proof (rule private_deposit_landed [OF assms(1,2,4-8) am assms(9-13), of "withdraw_prepare_request s (pdr_tracking r)"])
    fix vo mint depositor ata prep inp nl
    assume prep: "withdraw_prepare_POST L M (withdraw_prepare_request s (pdr_tracking r)) w' = (ReplyOk prep, w')"
      and inp: "panel_spend_inputs (wpr_proverInputs prep) = Inr inp" "ValidSpend L inp"
      and c: "ic_commitmentHex (wpr_ixContext prep) = bytes_hex leaf" "ic_nullifierHex (wpr_ixContext prep) = bytes_hex nl"
        "ic_merkleRootHex (wpr_ixContext prep) = bytes_hex root"
      and si: "si_merkleRoot inp = be_to_int root" "si_nullifier inp = be_to_int nl" "si_amount inp = a" "contains_root v' root"
      and len: "length leaf = 32" "length nl = 32" "length root = 32"
      and trk: "trk_amount (pdr_tracking r) = bigint_toString a" "trk_tokenMintBase58 (pdr_tracking r) = pubkey_toBase58 L mint"
      and user: "verifyPhantomSeedSignature L (dm_decoders M) (dm_wallet M) (the (pdb_phantomSignatureBase58 ?body)) (the (pdb_ownerPubkeyBase58 ?body)) = Inr vo"
        "\<not> absent (pdb_phantomSignatureBase58 ?body)" "\<not> absent (pdb_ownerPubkeyBase58 ?body)"
        "publicKeyOf (dm_decoders M) (pdb_ownerPubkeyBase58 ?body) = Inr depositor" "getAssociatedTokenAddress (dm_wallet M) mint depositor = Inr ata"
    have u: "\<not> absent (session_string s ''phantomSignatureBase58'')" "\<not> absent (session_string s ''ownerPubkeyBase58'')"
        "verifyPhantomSeedSignature L (dm_decoders M) (dm_wallet M) (the (session_string s ''phantomSignatureBase58''))
           (the (session_string s ''ownerPubkeyBase58'')) = Inr vo"
        "publicKeyOf (dm_decoders M) (session_string s ''ownerPubkeyBase58'') = Inr depositor"
      using user by (simp_all add: private_deposit_request_def)
    obtain pf wix w2 w3 sig where sent: "br_prove B inp w' = (Inr pf, w2)" "br_sendAndConfirm B [wix] w2 = (Inr sig, w3)"
        "prove_and_send L M B s (pubkey_toBase58 L mint) (bigint_toString a) (wpr_proverInputs prep) (wpr_ixContext prep) w' = (Inr sig, w3)"
        "ix_data wix = anchorDiscriminator L ''withdraw'' @ leaf @ nl @ root @ u64LE a @ gp_piA pf @ gp_piB pf @ gp_piC pf"
      by (rule prove_and_send_ok [OF assms(17,3,4,5) inp c len u user(5)])
    let ?q = "p \<lparr>pn_busy := False, pn_error := None, pn_step := StepWithdrawn,
        pn_receipt := pn_receipt p @ [\<lparr>rl_label = ''withdraw via VALID_SPEND ('' @ side_name (pn_side p) @ '')'', rl_signature = sig\<rparr>]\<rparr>"
    have "onClick L M B (p, w') = (?q, w3)"
      by (simp add: onClick_def assms(14-16) runWithdraw_def Let_def io_bind_def on_world_eq fetch_route_ok [where m = "withdraw_prepare_POST L M (withdraw_prepare_request s (pdr_tracking r))", OF assms(17) prep] trk sent(3))
    then show ?thesis using sent(1,2,4) inp(2) si by (intro exI conjI) (assumption | simp)+
  qed (simp_all add: withdraw_prepare_request_def private_deposit_request_def)
qed

text \<open>The state of the panel: after any sequence of events from its first rendering it is not busy, it
  tracks a deposit exactly when it is past the idle step, and a click in the idle step either tracks
  the deposit the route answered or shows an error and stays idle.\<close>

theorem panel_invariant:
  assumes "panel_run L M B (initial_panel a, w) evs (p, w')"
  shows "\<not> pn_busy p \<and> (pn_step p = StepIdle \<longleftrightarrow> pn_tracking p = None)
     \<and> (pn_step p = StepIdle \<and> readDappSessionForOwner B (br_connectedOwner B) w' \<noteq> None \<longrightarrow>
          (case runDeposit L M B (p, w') of
             (Inr _, (q, u)) \<Rightarrow> onClick L M B (p, w') = (q, u) \<and> pn_step q = StepDeposited \<and> pn_tracking q \<noteq> None
           | (Inl e, (q, u)) \<Rightarrow> onClick L M B (p, w') = (q \<lparr>pn_error := Some (click_error e), pn_busy := False\<rparr>, u) \<and> pn_step q = StepIdle))"
proof -
  have ok: "panel_ok p" using panel_run_ok [OF assms] by (simp add: panel_ok_def initial_panel_def)
  have "case runDeposit L M B (p, w') of
      (Inr _, (q, u)) \<Rightarrow> onClick L M B (p, w') = (q, u) \<and> pn_step q = StepDeposited \<and> pn_tracking q \<noteq> None
    | (Inl e, (q, u)) \<Rightarrow> onClick L M B (p, w') = (q \<lparr>pn_error := Some (click_error e), pn_busy := False\<rparr>, u) \<and> pn_step q = StepIdle"
    if "pn_step p = StepIdle" "readDappSessionForOwner B (br_connectedOwner B) w' \<noteq> None"
    using that runDeposit_panel [of L M B p w'] by (auto simp: onClick_def split: prod.splits sum.splits)
  with ok show ?thesis by (auto simp: panel_ok_def)
qed

text \<open>(C22) A withdrawal that fails once it is proving strands the deposit: if the preparation was
  answered but proving, finalising or sending failed, the click shows the error and leaves the panel
  in the proving step, in which the button is disabled; no sequence of events without a reset leaves
  that step, and a reset forgets the tracked deposit, without which the withdrawal cannot be
  prepared.\<close>

theorem failed_withdrawal_strands:
  assumes "pn_step p = StepDeposited" and "pn_tracking p = Some t"
    and "readDappSessionForOwner B (br_connectedOwner B) w = Some s"
    and "fetch_route B (withdraw_prepare_POST L M (withdraw_prepare_request s t)) w = (Inr prep, w1)"
    and "prove_and_send L M B s (trk_tokenMintBase58 t) (trk_amount t) (wpr_proverInputs prep) (wpr_ixContext prep) w1 = (Inl e, w2)"
  shows "\<exists>q. onClick L M B (p, w) = (q, w2) \<and> pn_error q = Some (click_error e) \<and> pn_step q = StepProving \<and> pn_tracking q = Some t
     \<and> (\<forall>evs z. panel_run L M B (q, w2) evs z \<and> Reset \<notin> set evs \<longrightarrow>
          pn_step (fst z) = StepProving \<and> pn_receipt (fst z) = pn_receipt p \<and> Click \<notin> set evs)
     \<and> pn_tracking (panel_reset q) = None"
proof -
  let ?q = "p \<lparr>pn_busy := False, pn_error := Some (click_error e), pn_step := StepProving\<rparr>"
  have c: "onClick L M B (p, w) = (?q, w2)"
    using assms by (simp add: onClick_def runWithdraw_def Let_def io_bind_def on_world_eq)
  have stuck: "pn_step (fst z) = StepProving \<and> pn_receipt (fst z) = pn_receipt p \<and> Click \<notin> set evs"
    if run: "panel_run L M B (?q, w2) evs z" "Reset \<notin> set evs" for evs z
  proof -
    have "Click \<notin> set evs" using run
    proof (induction "(?q, w2)" evs z rule: panel_run.induct)
      case (move evs qw ev rw)
      have "pn_step (fst qw) = StepProving" using panel_run_proving [OF move(1)] move(4) by simp
      with move show ?case by (auto elim: panel_movesE)
    qed simp
    then show ?thesis using panel_run_proving [OF run] by simp
  qed
  show ?thesis
  proof (intro exI [of _ ?q] conjI allI impI)
    fix evs z
    assume "panel_run L M B (?q, w2) evs z \<and> Reset \<notin> set evs"
    then have "pn_step (fst z) = StepProving \<and> pn_receipt (fst z) = pn_receipt p \<and> Click \<notin> set evs"
      by (intro stuck) simp_all
    then show "pn_step (fst z) = StepProving" "pn_receipt (fst z) = pn_receipt p" "Click \<notin> set evs" by simp_all
  qed (use c assms(2) in \<open>simp_all add: panel_reset_def\<close>)
qed

end
