(* ===== verification/Nyx_Demo_Deposit_Scenario.thy ===== *)
theory Nyx_Demo_Deposit_Scenario
  imports Nyx_Demo_Scenario Nyx_Demo_Panel
begin

text \<open>
  A concrete private deposit of the demo and its withdrawal, on which the properties of the panel are
  applied. The world of the RPC is one bit: whether the deposit has landed.
\<close>

definition demo_chain_hash :: chain_hash where
  "demo_chain_hash a b = (if field_bytes a \<and> field_bytes b then Inr (pnode disc_lib a b) else Inl InvalidProof)"

lemma demo_chain_poseidon: "chain_poseidon disc_lib demo_chain_hash"
  by (simp add: chain_poseidon_def demo_chain_hash_def)

definition demo_session :: json where
  "demo_session = JObj [(''phantomSignatureBase58'', JStr demo_sig), (''ownerPubkeyBase58'', JStr demo_pubkey)]"

definition demo_proof :: Groth16ProofBytes where
  "demo_proof = \<lparr>gp_piA = zeros 64, gp_piB = zeros 128, gp_piC = zeros 64, gp_publicInputs = []\<rparr>"

definition demo_browser :: "js_error option \<Rightarrow> bool browser" where
  "demo_browser fails = \<lparr>br_window = True, br_getItem = (\<lambda>k w. Inr (Some ''s'')), br_json_parse = (\<lambda>t. Inr demo_session),
     br_connectedOwner = Some demo_pubkey, br_network = (\<lambda>w. (Inr (), w)), br_sendAndConfirm = (\<lambda>ixs w. (Inr ''sig'', w)),
     br_prove = (\<lambda>inp w. (case fails of None \<Rightarrow> Inr demo_proof | Some e \<Rightarrow> Inl e, w)), br_now = (\<lambda>w. 0)\<rparr>"

lemma demo_browser_works: "browser_works L (demo_browser None)"
  by (simp add: browser_works_def demo_browser_def demo_proof_def)

lemma demo_session_read: "readDappSessionForOwner (demo_browser f) (br_connectedOwner (demo_browser f)) w = Some demo_session"
  using demo_verifies(3)
  by (simp add: readDappSessionForOwner_def readDappSession_def demo_browser_def absent_def demo_session_def)

lemma demo_session_strings:
  "session_string demo_session ''phantomSignatureBase58'' = Some demo_sig" "session_string demo_session ''ownerPubkeyBase58'' = Some demo_pubkey"
  by (simp_all add: session_string_def demo_session_def json_string_def)

lemma disc_lib_pda_total: "pda_total disc_lib"
  by (simp add: pda_total_def disc_lib_pda)

text \<open>The route answers a deposit of five atoms.\<close>

lemma demo_deposit_answers:
  assumes "vault_data v (vault_bytes v)"
  shows "\<exists>r ix. private_deposit_POST disc_lib (demo_app (demo_rpc [] v v')) (private_deposit_request demo_session SideQuote 5 0) False = (ReplyOk r, False)
     \<and> pdr_instructions r ! 1 = instructionToJson disc_lib ix
     \<and> deposit_ix_note ix = private_deposit_note disc_lib demo_seed 2 5 7777 (int (vc_leaf_count v))"
proof -
  let ?rpc = "demo_rpc [] v v'" and ?n = "int (vc_leaf_count v)"
  let ?note = "private_deposit_note disc_lib demo_seed 2 5 7777 ?n"
  have info: "vault_info disc_lib ?rpc 9 False = (Inr (vault_bytes v), False)"
    by (simp add: vault_info_def demo_vault_pda io_bind_def demo_rpc_def)
  obtain cm where cm: "noteCommitment disc_lib ?note = Inr cm"
    using noteCommitment_total [OF disc_lib_canonical, of ?note] by (auto simp: private_deposit_note_def)
  have fld: "\<exists>bs. bn254ToBE32 x = Inr bs \<and> length bs = 32" if "0 \<le> x" "x < BN254_R" for x
    using that by (auto simp: bn254ToBE32_eq)
  obtain nb where nb: "bn254ToBE32 7777 = Inr nb" "length nb = 32" using fld [of 7777] by (auto simp: BN254_R_def)
  obtain bb where bb: "bn254ToBE32 (deriveBlindingFactor disc_lib demo_seed ?n) = Inr bb" "length bb = 32"
    using fld [of "deriveBlindingFactor disc_lib demo_seed ?n"] by (auto simp: deriveBlindingFactor_def Let_def)
  have ob: "bn254ToBE32 (ownerCommitment disc_lib (deriveSpendingKey disc_lib demo_seed) (deriveBlindingFactor disc_lib demo_seed 0))
      = Inr (int_to_be 32 demo_owner)" using demo_owner_bytes(1) by (simp add: demo_owner_def)
  obtain owner where ow: "publicKeyOf ref_decoders (Some demo_pubkey) = Inr owner" by (simp add: ref_decoders_def)
  have ata: "getAssociatedTokenAddress sample_wallet 2 owner = Inr (2 + owner)" by (simp add: sample_wallet_def)
  have "\<exists>ix. buildDepositInstruction disc_lib \<lparr>dp_programId = 9, dp_depositor = owner, dp_tokenMint = 2,
      dp_depositorTokenAccount = 2 + owner, dp_tokenProgramId = TOKEN_PROGRAM_ID disc_lib, dp_amount = 5,
      dp_ownerCommitment = int_to_be 32 demo_owner, dp_nonce = nb, dp_blindingR = bb\<rparr> = Inr ix"
    using nb bb by (simp add: buildDepositInstruction_def demo_vault_pda vaultTokenAccountPda_def disc_lib_pda fixed_ok)
  then obtain ix where ix: "buildDepositInstruction disc_lib \<lparr>dp_programId = 9, dp_depositor = owner, dp_tokenMint = 2,
      dp_depositorTokenAccount = 2 + owner, dp_tokenProgramId = TOKEN_PROGRAM_ID disc_lib, dp_amount = 5,
      dp_ownerCommitment = int_to_be 32 demo_owner, dp_nonce = nb, dp_blindingR = bb\<rparr> = Inr ix" by blast
  have c: "nt_ownerCommitment ?note = ownerCommitment disc_lib (deriveSpendingKey disc_lib demo_seed) (deriveBlindingFactor disc_lib demo_seed 0)"
      "nt_blindingR ?note = deriveBlindingFactor disc_lib demo_seed ?n" by (simp_all add: private_deposit_note_def)
  have app: "dm_decoders (demo_app ?rpc) = ref_decoders" "dm_wallet (demo_app ?rpc) = sample_wallet" by (simp_all add: demo_app_def)
  have nt: "deposit_ix_note ix = ?note"
    using buildDepositInstruction_note(1) [OF ix] ob nb(1) bb(1) by (simp add: private_deposit_note_def bn254ToBE32_Inr_iff)
  have "\<exists>r. private_deposit_POST disc_lib (demo_app ?rpc) (private_deposit_request demo_session SideQuote 5 0) False = (ReplyOk r, False)
      \<and> pdr_instructions r ! 1 = instructionToJson disc_lib ix"
    unfolding private_deposit_POST_def route_def io_bind_def
    by (simp add: private_deposit_request_def demo_session_strings absent_def demo_verifies app demo_setup_app demo_programs_def info
        vault_data_reads(1) [OF assms] cm ob nb(1) bb(1) c ow ata ix Let_def)
  then show ?thesis using nt by blast
qed

text \<open>The deposit is answered, executed and visible.\<close>

lemma demo_deposit:
  obtains v v' r ix leaf root where "account_holds disc_lib (demo_rpc [] v v') 9 False v" "vault_rep disc_lib v []"
    "private_deposit_POST disc_lib (demo_app (demo_rpc [] v v')) (private_deposit_request demo_session SideQuote 5 0) False = (ReplyOk r, False)"
    "instructionFromJson ref_decoders (pdr_instructions r ! 1) = Inr ix" "noteCommitment disc_lib (deposit_ix_note ix) = Inr leaf"
    "append_leaf demo_chain_hash leaf v = Inr (root, v')" "account_holds disc_lib (demo_rpc [] v v') 9 True v'"
proof -
  obtain v where v: "vault_rep disc_lib v []" "vault_data v (vault_bytes v)" "list_all (\<lambda>r. length r = 32) (vc_roots v)"
    by (rule vault_image [OF disc_lib_canonical, of "[]"]) simp_all
  have acct: "account_holds disc_lib (demo_rpc [] v u) 9 False v" for u
    unfolding account_holds_def using v(2) demo_vault_pda by (simp add: demo_rpc_def)
  let ?note = "private_deposit_note disc_lib demo_seed 2 5 7777 (int (vc_leaf_count v))"
  obtain leaf where leaf: "noteCommitment disc_lib ?note = Inr leaf"
    using noteCommitment_total [OF disc_lib_canonical, of ?note] by (auto simp: private_deposit_note_def)
  obtain v' where v': "append_leaf demo_chain_hash leaf v = Inr (vault_root disc_lib ([] @ [leaf]), v')" "vault_rep disc_lib v' ([] @ [leaf])"
    by (rule append_leaf_rep [OF disc_lib_canonical demo_chain_poseidon v(1) noteCommitment_field [OF leaf]]) simp_all
  have "list_all (\<lambda>r. length r = 32) (vc_roots v')"
  proof -
    have "vc_roots v' = (vc_roots v)[vc_roots_head v := vc_current_root v]"
      using v'(1) by (auto simp: append_leaf_def push_root_def Let_def rbind_eq_Inr split: if_splits)
    moreover have "length (vc_current_root v) = 32" using v(2) by (simp add: vault_data_def)
    ultimately show ?thesis using v(3) set_update_subset_insert [of "vc_roots v" "vc_roots_head v" "vc_current_root v"]
      by (auto simp: list_all_iff)
  qed
  then have data': "vault_data v' (vault_bytes v')" by (rule vault_bytes_data [OF v'(2)])
  obtain r ix where r: "private_deposit_POST disc_lib (demo_app (demo_rpc [] v v')) (private_deposit_request demo_session SideQuote 5 0) False = (ReplyOk r, False)"
      "pdr_instructions r ! 1 = instructionToJson disc_lib ix" "deposit_ix_note ix = ?note"
    using demo_deposit_answers [OF v(2), of v'] by blast
  have "account_holds disc_lib (demo_rpc [] v v') 9 True v'"
    unfolding account_holds_def using data' demo_vault_pda by (simp add: demo_rpc_def)
  moreover have "instructionFromJson ref_decoders (pdr_instructions r ! 1) = Inr ix"
    using instruction_json_inverse [OF disc_lib_base58] r(2) by simp
  moreover have "noteCommitment disc_lib (deposit_ix_note ix) = Inr leaf" using leaf r(3) by simp
  ultimately show ?thesis using that [OF acct v(1) r(1) _ _ v'(1)] by blast
qed

section \<open>Witnesses\<close>

definition demo_panel :: "deposit_tracking \<Rightarrow> panel" where
  "demo_panel t = (initial_panel ''5'') \<lparr>pn_step := StepDeposited, pn_tracking := Some t\<rparr>"

lemma demo_panel_simps [simp]: "pn_step (demo_panel t) = StepDeposited" "pn_tracking (demo_panel t) = Some t"
  by (simp_all add: demo_panel_def)

lemma demo_decoders: "dm_decoders (demo_app rpc) = ref_decoders" by (simp add: demo_app_def)

lemma demo_vault_program: "pr_vaultProgramId demo_programs = 9" by (simp add: demo_programs_def)

theorem private_deposit_withdrawable_witness:
  "\<exists>v v' t inp root q w. ValidSpend disc_lib inp \<and> contains_root v' root \<and> si_amount inp = 5
     \<and> onClick disc_lib (demo_app (demo_rpc [] v v')) (demo_browser None) (demo_panel t, True) = (q, w) \<and> pn_step q = StepWithdrawn"
proof (rule demo_deposit)
  fix v v' r ix leaf root
  let ?rpc = "demo_rpc [] v v'"
  assume before: "account_holds disc_lib ?rpc 9 False v" "vault_rep disc_lib v []"
    and dep: "private_deposit_POST disc_lib (demo_app ?rpc) (private_deposit_request demo_session SideQuote 5 0) False = (ReplyOk r, False)"
    and ix: "instructionFromJson ref_decoders (pdr_instructions r ! 1) = Inr ix" "noteCommitment disc_lib (deposit_ix_note ix) = Inr leaf"
      "append_leaf demo_chain_hash leaf v = Inr (root, v')"
    and after: "account_holds disc_lib ?rpc 9 True v'"
  let ?conns = "\<lparr>dcn_l1 = ?rpc, dcn_er = ?rpc, dcn_erRpcUrl = ''https://devnet.magicblock.app''\<rparr>"
  have b: "account_holds disc_lib (dcn_l1 ?conns) (pr_vaultProgramId demo_programs) False v"
      "account_holds disc_lib (dcn_l1 ?conns) (pr_vaultProgramId demo_programs) True v'"
    using before(1) after by (simp_all add: demo_vault_program)
  have five: "(5 :: int) < 2 ^ 64" by simp
  from private_deposit_withdrawable [of disc_lib demo_chain_hash "demo_app ?rpc", unfolded demo_decoders, OF disc_lib_canonical
      demo_chain_poseidon disc_lib_pda_total disc_lib_base58 demo_setup_app b(1) before(2) dep five ix b(2) demo_panel_simps
      demo_session_read demo_browser_works]
  show ?thesis by (elim exE conjE) (intro exI conjI, assumption+)
qed

text \<open>A click before the balances are there.\<close>

definition early_panel :: panel where
  "early_panel = (initial_panel ''10'')
     \<lparr>pn_error := Some (click_error (newError (''Token decimals not loaded yet '' @ em_dash @ '' hit Refresh and try again.'')))\<rparr>"

lemma early_click: "onClick disc_lib M (demo_browser None) (initial_panel ''10'', False) = (early_panel, False)"
  by (simp add: onClick_def demo_session_read runDeposit_def Let_def io_bind_def panel_atoms_def decimalsForSide_def
      side_balance_def initial_panel_def early_panel_def)

theorem panel_invariant_witness:
  "\<exists>M. panel_run disc_lib M (demo_browser None) (initial_panel ''10'', False) [Click] (early_panel, False)
     \<and> \<not> pn_busy early_panel \<and> (pn_step early_panel = StepIdle \<longleftrightarrow> pn_tracking early_panel = None)"
proof -
  let ?M = "demo_app undefined" and ?B = "demo_browser None"
  have "panel_moves disc_lib ?M ?B (initial_panel ''10'', False) Click (onClick disc_lib ?M ?B (initial_panel ''10'', False))"
    by (rule panel_moves.click) (simp_all add: initial_panel_def)
  then have run: "panel_run disc_lib ?M ?B (initial_panel ''10'', False) [Click] (early_panel, False)"
    using panel_run.move [OF panel_run.stop] by (simp add: early_click)
  from panel_invariant [OF run] run show ?thesis by (intro exI [of _ ?M]) simp
qed

theorem failed_withdrawal_strands_witness:
  "\<exists>M t q. onClick disc_lib M (demo_browser (Some (newError ''worker crashed''))) (demo_panel t, True) = (q, True)
     \<and> pn_step q = StepProving \<and> pn_error q = Some (click_error (newError ''worker crashed''))
     \<and> pn_tracking q = Some t \<and> pn_tracking (panel_reset q) = None"
proof (rule demo_deposit)
  fix v v' ix leaf root and r :: private_deposit_reply
  let ?rpc = "demo_rpc [] v v'" and ?B = "demo_browser (Some (newError ''worker crashed''))"
  let ?M = "demo_app ?rpc" and ?t = "pdr_tracking r"
  assume before: "account_holds disc_lib ?rpc 9 False v" "vault_rep disc_lib v []"
    and dep: "private_deposit_POST disc_lib ?M (private_deposit_request demo_session SideQuote 5 0) False = (ReplyOk r, False)"
    and ix: "instructionFromJson ref_decoders (pdr_instructions r ! 1) = Inr ix" "noteCommitment disc_lib (deposit_ix_note ix) = Inr leaf"
      "append_leaf demo_chain_hash leaf v = Inr (root, v')"
    and after: "account_holds disc_lib ?rpc 9 True v'"
  let ?conns = "\<lparr>dcn_l1 = ?rpc, dcn_er = ?rpc, dcn_erRpcUrl = ''https://devnet.magicblock.app''\<rparr>"
  have b: "account_holds disc_lib (dcn_l1 ?conns) (pr_vaultProgramId demo_programs) False v"
      "account_holds disc_lib (dcn_l1 ?conns) (pr_vaultProgramId demo_programs) True v'"
    using before(1) after by (simp_all add: demo_vault_program)
  have am: "js_BigInt (the (pdb_amount (private_deposit_request demo_session SideQuote 5 0))) = Inr 5" "(5 :: int) < 2 ^ 64"
    by (simp_all add: private_deposit_request_def)
  obtain prep inp where prep: "withdraw_prepare_POST disc_lib ?M (withdraw_prepare_request demo_session ?t) True = (ReplyOk prep, True)"
      "panel_spend_inputs (wpr_proverInputs prep) = Inr inp"
    by (rule private_deposit_landed [of disc_lib demo_chain_hash ?M, unfolded demo_decoders, OF disc_lib_canonical
          demo_chain_poseidon disc_lib_base58 demo_setup_app b(1) before(2) dep am ix b(2), of "withdraw_prepare_request demo_session ?t"])
      (simp_all add: withdraw_prepare_request_def private_deposit_request_def)
  have "fetch_route ?B (withdraw_prepare_POST disc_lib ?M (withdraw_prepare_request demo_session ?t)) True = (Inr prep, True)"
    by (simp add: fetch_route_def io_bind_def demo_browser_def prep(1))
  moreover have "prove_and_send disc_lib ?M ?B demo_session m a (wpr_proverInputs prep) (wpr_ixContext prep) True
      = (Inl (newError ''worker crashed''), True)" for m a
    by (simp add: prove_and_send_def io_bind_def prep(2) demo_browser_def)
  ultimately show ?thesis
    using failed_withdrawal_strands [OF demo_panel_simps [of ?t] demo_session_read [of "Some (newError ''worker crashed'')" True],
        of disc_lib ?M prep True "newError ''worker crashed''" True] by blast
qed

end
