(* ===== verification/Nyx_Demo_Slots.thy ===== *)
theory Nyx_Demo_Slots
  imports Nyx_Demo_Spend Nyx_Er_Client
begin

text \<open>
  What the trade flow of the demo sets up on chain before an order is submitted: the market is
  delegated (\<open>lib/dapp/ensure-market-delegated.ts\<close>), an account has SOL (\<open>lib/dapp/top-up-sol.ts\<close>), the
  protocol fee is zero (\<open>lib/dapp/ensure-zero-fee.ts\<close>) and a pending-order slot is chosen,
  initialised and delegated (\<open>app/api/dapp/init-slot/route.ts\<close>); and the route that builds the
  order (\<open>app/api/dapp/build-submit-order/route.ts\<close>). On the chain side, the program's test for a slot
  it accepts (\<open>programs/matching_engine/src/instructions/submit_order.rs\<close>) and the setter of the fee
  (\<open>programs/vault/src/instructions/set_protocol_config.rs\<close>).

  Proved: which slot is chosen, and that the program accepts an order in it; that the fee is zero
  afterwards with the fee owner kept; and that the program accepts the order the route builds.
\<close>

section \<open>Market and SOL\<close>

definition market_params :: "pubkey \<Rightarrow> keypair \<Rightarrow> pubkey \<Rightarrow> DelegateMarketPdaParams" where
  "market_params meProgramId funder market =
     \<lparr>dm_programId = meProgramId, dm_payer = kp_publicKey funder, dm_market = market\<rparr>"

definition ensureMarketDelegatedOnL1 ::
    "lib \<Rightarrow> 'w rpc \<Rightarrow> pubkey \<Rightarrow> pubkey \<Rightarrow> keypair \<Rightarrow> ('w, js_error, unit) io" where
  "ensureMarketDelegatedOnL1 L l1 meProgramId market funder =
     io_bind (io_of (darkClobPda L meProgramId market)) (\<lambda>(clobPda, _).
     io_bind (rpc_getAccountInfo l1 clobPda) (\<lambda>clob.
     case clob of
       None \<Rightarrow> io_throw (newError ''DarkCLOB account missing on L1.'')
     | Some c \<Rightarrow>
         if ai_owner c = DELEGATION_PROGRAM_ID L then io_return ()
         else
           io_bind (io_of (buildDelegateDarkClobInstruction L (market_params meProgramId funder market))) (\<lambda>ix1.
           io_bind (io_of (buildDelegateMatchingConfigInstruction L (market_params meProgramId funder market))) (\<lambda>ix2.
           io_bind (io_of (buildDelegateBatchResultsInstruction L (market_params meProgramId funder market))) (\<lambda>ix3.
           io_bind (rpc_sendAndConfirm l1 [ix1, ix2, ix3] [funder]) (\<lambda>_. io_return ()))))))"

text \<open>\<open>Math.floor(0.06 * LAMPORTS_PER_SOL)\<close>: the product rounds to sixty million exactly.\<close>

definition DEFAULT_MIN_LAMPORTS :: int where "DEFAULT_MIN_LAMPORTS = 60000000"

definition topUpSol :: "wallet_lib \<Rightarrow> 'w rpc \<Rightarrow> keypair \<Rightarrow> pubkey \<Rightarrow> int \<Rightarrow> ('w, js_error, unit) io" where
  "topUpSol W l1 funder recipient minLamports =
     io_bind (rpc_getBalance l1 recipient) (\<lambda>current.
     if current \<ge> minLamports then io_return ()
     else io_bind (rpc_sendAndConfirm l1 [system_transfer W (kp_publicKey funder) recipient (minLamports - current)] [funder]) (\<lambda>_.
       io_return ()))"

section \<open>The protocol fee\<close>

definition PROTOCOL_OWNER_COMMITMENT_OFFSET :: nat where
  "PROTOCOL_OWNER_COMMITMENT_OFFSET = 8 + 32 + 32 + 32 + 8 + 32 + 32 * 32 + 20 * 32 + 20 * 32 + 1 + 1"
definition FEE_RATE_BPS_OFFSET :: nat where
  "FEE_RATE_BPS_OFFSET = PROTOCOL_OWNER_COMMITMENT_OFFSET + 32"

record EnsureZeroFeeOutcome =
  zf_observedFeeBps :: int
  zf_zeroed :: bool
  zf_signature :: "string option"

definition greater_equal :: string where
  "greater_equal = [char_of (226 :: nat), char_of (137 :: nat), char_of (165 :: nat)]"

definition ensureZeroProtocolFee :: "lib \<Rightarrow> 'w rpc \<Rightarrow> pubkey \<Rightarrow> keypair \<Rightarrow> ('w, js_error, EnsureZeroFeeOutcome) io" where
  "ensureZeroProtocolFee L l1 vaultProgramId admin =
     io_bind (io_of (vaultConfigPda L vaultProgramId)) (\<lambda>(vaultPda, _).
     io_bind (rpc_getAccountInfo l1 vaultPda) (\<lambda>acct.
     case acct of
       None \<Rightarrow> io_throw (newError (''vault_config account not found at '' @ pubkey_toBase58 L vaultPda))
     | Some i \<Rightarrow>
         let data = ai_data i in
         if length data < FEE_RATE_BPS_OFFSET + 2
         then io_throw (newError (''vault_config account too small (got '' @ nat_toString (length data) @ '' bytes, need '' @ greater_equal
                @ '' '' @ nat_toString (FEE_RATE_BPS_OFFSET + 2)
                @ ''). VaultConfig zero-copy layout may have drifted from this helper's offsets.''))
         else
           let observedFeeBps = le_to_int (slice data FEE_RATE_BPS_OFFSET 2) in
           if observedFeeBps = 0 then io_return \<lparr>zf_observedFeeBps = 0, zf_zeroed = False, zf_signature = None\<rparr>
           else
             io_bind (io_of (buildSetProtocolConfigInstruction L
               \<lparr>spc_programId = vaultProgramId, spc_admin = kp_publicKey admin,
                spc_protocolOwnerCommitment = slice data PROTOCOL_OWNER_COMMITMENT_OFFSET 32, spc_feeRateBps = 0\<rparr>)) (\<lambda>ix.
             io_bind (rpc_sendAndConfirm l1 [ix] [admin]) (\<lambda>sig.
             io_return \<lparr>zf_observedFeeBps = observedFeeBps, zf_zeroed = True, zf_signature = Some sig\<rparr>))))"

section \<open>Pending-order slots\<close>

definition PENDING_ORDER_STATUS_OFFSET :: nat where "PENDING_ORDER_STATUS_OFFSET = 8 + 32 + 32"
definition PENDING_STATUS_EMPTY :: byte where "PENDING_STATUS_EMPTY = 0"
definition PENDING_STATUS_PENDING :: byte where "PENDING_STATUS_PENDING = 1"
definition PENDING_STATUS_MATCHED :: byte where "PENDING_STATUS_MATCHED = 2"
definition PENDING_STATUS_EXPIRED :: byte where "PENDING_STATUS_EXPIRED = 3"
definition PENDING_STATUS_CANCELLED :: byte where "PENDING_STATUS_CANCELLED = 4"

definition isReusablePendingOrderStatus :: "byte \<Rightarrow> bool" where
  "isReusablePendingOrderStatus status \<longleftrightarrow>
     status = PENDING_STATUS_EMPTY \<or> status = PENDING_STATUS_MATCHED
     \<or> status = PENDING_STATUS_EXPIRED \<or> status = PENDING_STATUS_CANCELLED"

record SlotPick =
  sp_slotIdx :: int
  sp_needsInit :: bool

text \<open>The test on the bytes of a slot; \<open>data\<close> is \<open>null\<close> when the rollup does not have the account.\<close>

definition slot_reusable :: "bytes option \<Rightarrow> bool" where
  "slot_reusable data =
     (case data of None \<Rightarrow> False
      | Some d \<Rightarrow> length d > PENDING_ORDER_STATUS_OFFSET \<and> isReusablePendingOrderStatus (d ! PENDING_ORDER_STATUS_OFFSET))"

fun slot_loop :: "lib \<Rightarrow> 'w rpc \<Rightarrow> 'w rpc \<Rightarrow> pubkey \<Rightarrow> pubkey \<Rightarrow> pubkey \<Rightarrow> string \<Rightarrow> int option \<Rightarrow> int list \<Rightarrow> ('w, js_error, SlotPick) io" where
  "slot_loop L l1 er me market key msg firstReusable [] =
     (case firstReusable of
        Some i \<Rightarrow> io_return \<lparr>sp_slotIdx = i, sp_needsInit = False\<rparr>
      | None \<Rightarrow> io_throw (newError msg))"
| "slot_loop L l1 er me market key msg firstReusable (idx # rest) =
     io_bind (io_of (pendingOrderPda L me market key idx)) (\<lambda>(pda, _).
     io_bind (rpc_getAccountInfo l1 pda) (\<lambda>l1info.
     case l1info of
       None \<Rightarrow> io_return \<lparr>sp_slotIdx = idx, sp_needsInit = True\<rparr>
     | Some i \<Rightarrow>
         if firstReusable \<noteq> None then slot_loop L l1 er me market key msg firstReusable rest
         else
           io_bind (if ai_owner i = DELEGATION_PROGRAM_ID L
                    then io_bind (rpc_getAccountInfo er pda) (\<lambda>erInfo. io_return (map_option ai_data erInfo))
                    else io_return (Some (ai_data i))) (\<lambda>data.
           slot_loop L l1 er me market key msg (if slot_reusable data then Some idx else None) rest)))"

definition slot_indices :: "int list" where
  "slot_indices = map int [0..<nat MAX_PENDING_SLOTS_PER_USER]"

definition chooseFreshSlot :: "lib \<Rightarrow> 'w rpc \<Rightarrow> 'w rpc \<Rightarrow> pubkey \<Rightarrow> pubkey \<Rightarrow> pubkey \<Rightarrow> ('w, js_error, SlotPick) io" where
  "chooseFreshSlot L l1 er meProgramId market tradingKey =
     slot_loop L l1 er meProgramId market tradingKey
       (''All '' @ bigint_toString MAX_PENDING_SLOTS_PER_USER @ '' pending-order slots for this trading key still have live Pending orders. ''
        @ ''Wait for an outstanding order to settle or use a fresh wallet for the demo.'') None slot_indices"

definition ensureSlotDelegated ::
    "lib \<Rightarrow> 'w rpc \<Rightarrow> pubkey \<Rightarrow> pubkey \<Rightarrow> keypair \<Rightarrow> keypair \<Rightarrow> int \<Rightarrow> bool \<Rightarrow> ('w, js_error, unit) io" where
  "ensureSlotDelegated L l1 meProgramId market funder trading slotIdx needsInit =
     io_bind (io_of (pendingOrderPda L meProgramId market (kp_publicKey trading) slotIdx)) (\<lambda>(slotPda, _).
     io_bind (rpc_getAccountInfo l1 slotPda) (\<lambda>info0.
     io_bind (if info0 = None \<and> needsInit
              then io_bind (io_of (buildInitPendingOrderSlotInstruction L \<lparr>ip_programId = meProgramId,
                     ip_tradingKey = kp_publicKey trading, ip_market = market, ip_slotIdx = slotIdx\<rparr>)) (\<lambda>ix.
                   io_bind (rpc_sendAndConfirm l1 [ix] [trading]) (\<lambda>_. rpc_getAccountInfo l1 slotPda))
              else io_return info0) (\<lambda>info.
     case info of
       None \<Rightarrow> io_throw (newError ''pending order slot missing after init'')
     | Some i \<Rightarrow>
         if ai_owner i = DELEGATION_PROGRAM_ID L then io_return ()
         else
           io_bind (io_of (buildDelegatePendingOrderInstruction L \<lparr>dpo_programId = meProgramId, dpo_payer = kp_publicKey funder,
             dpo_tradingKey = kp_publicKey trading, dpo_market = market, dpo_slotIdx = slotIdx\<rparr>)) (\<lambda>ix.
           io_bind (rpc_sendAndConfirm l1 [ix] [funder, trading]) (\<lambda>_. io_return ())))))"

section \<open>The routes\<close>

text \<open>The check of the session's trading key that three routes share: \<open>Some\<close> key pair when it is the one
  derived from the seed.\<close>

definition session_trading_key :: "lib \<Rightarrow> decoders \<Rightarrow> wallet_lib \<Rightarrow> bytes \<Rightarrow> string \<Rightarrow> js_error + keypair option" where
  "session_trading_key L D W seed tradingSecretKeyBase58 =
     rbind (rbind (bs58_decode D tradingSecretKeyBase58) (Keypair_fromSecretKey W)) (\<lambda>trading.
     rbind (keypairFromSeed W (secretKey (deriveTradingKeyAtOffset L seed 0))) (\<lambda>expected.
       Inr (if kp_publicKey expected = kp_publicKey trading then Some trading else None)))"

record init_slot_body =
  isb_phantomSignatureBase58 :: "string option"
  isb_ownerPubkeyBase58 :: "string option"
  isb_tradingSecretKeyBase58 :: "string option"

record init_slot_reply =
  isr_slotIdx :: int
  isr_reusedExisting :: bool
  isr_tradingPubkey :: string

definition init_slot_POST :: "lib \<Rightarrow> 'w demo \<Rightarrow> init_slot_body \<Rightarrow> 'w \<Rightarrow> init_slot_reply reply \<times> 'w" where
  "init_slot_POST L M body = route (
     if absent (isb_phantomSignatureBase58 body) \<or> absent (isb_ownerPubkeyBase58 body) \<or> absent (isb_tradingSecretKeyBase58 body)
     then bad_request ''missing session fields''
     else
     let D = dm_decoders M; W = dm_wallet M in
     io_bind (io_of (verifyPhantomSeedSignature L D W (the (isb_phantomSignatureBase58 body)) (the (isb_ownerPubkeyBase58 body)))) (\<lambda>vo.
     io_bind (io_of (session_trading_key L D W (vo_seed vo) (the (isb_tradingSecretKeyBase58 body)))) (\<lambda>tk.
     if tk = None then bad_request ''trading key does not match Phantom-derived session''
     else
     let trading = the tk in
     io_bind (io_of (resolveRepoRoot (dm_host M))) (\<lambda>repoRoot.
     io_bind (io_of (loadDemoE2eConfig (dm_host M) repoRoot)) (\<lambda>cfg.
     io_bind (io_of (getDemoConnections M cfg)) (\<lambda>conns.
     io_bind (io_of (parseDemoPrograms D cfg)) (\<lambda>programs.
     io_bind (io_of (loadDemoKeyring (dm_host M) D W repoRoot)) (\<lambda>keyring.
     let funder = kr_funder keyring; me = pr_meProgramId programs; market = pr_market programs in
     io_bind (ensureMarketDelegatedOnL1 L (dcn_l1 conns) me market funder) (\<lambda>_.
     io_bind (chooseFreshSlot L (dcn_l1 conns) (dcn_er conns) me market (kp_publicKey trading)) (\<lambda>pick.
     io_bind (topUpSol W (dcn_l1 conns) funder (kp_publicKey trading) DEFAULT_MIN_LAMPORTS) (\<lambda>_.
     io_bind (ensureSlotDelegated L (dcn_l1 conns) me market funder trading (sp_slotIdx pick) (sp_needsInit pick)) (\<lambda>_.
     io_return (ReplyOk \<lparr>isr_slotIdx = sp_slotIdx pick, isr_reusedExisting = (\<not> sp_needsInit pick),
       isr_tradingPubkey = pubkey_toBase58 L (kp_publicKey trading)\<rparr>)))))))))))))"

record build_order_body =
  bob_phantomSignatureBase58 :: "string option"
  bob_ownerPubkeyBase58 :: "string option"
  bob_tradingSecretKeyBase58 :: "string option"
  bob_slotIdx :: "int option"
  bob_side :: "int option"
  bob_amount :: "string option"
  bob_priceLimit :: "string option"
  bob_noteAmount :: "string option"
  bob_expirySlot :: "string option"
  bob_noteCommitmentHex :: "string option"
  bob_userOwnerCommitmentHex :: "string option"
  bob_orderIdHex :: "string option"

record build_order_reply =
  bor_instruction :: InstructionJson
  bor_pendingOrderPda :: string

definition build_submit_order_POST :: "lib \<Rightarrow> 'w demo \<Rightarrow> build_order_body \<Rightarrow> 'w \<Rightarrow> build_order_reply reply \<times> 'w" where
  "build_submit_order_POST L M body = route (
     if absent (bob_phantomSignatureBase58 body) \<or> absent (bob_ownerPubkeyBase58 body) \<or> absent (bob_tradingSecretKeyBase58 body)
        \<or> bob_slotIdx body = None \<or> bob_side body = None \<or> absent (bob_amount body) \<or> absent (bob_priceLimit body)
        \<or> absent (bob_noteAmount body) \<or> absent (bob_noteCommitmentHex body) \<or> absent (bob_userOwnerCommitmentHex body)
        \<or> absent (bob_orderIdHex body)
     then bad_request ''missing required fields''
     else
     let D = dm_decoders M; W = dm_wallet M in
     io_bind (io_of (verifyPhantomSeedSignature L D W (the (bob_phantomSignatureBase58 body)) (the (bob_ownerPubkeyBase58 body)))) (\<lambda>vo.
     io_bind (io_of (session_trading_key L D W (vo_seed vo) (the (bob_tradingSecretKeyBase58 body)))) (\<lambda>tk.
     if tk = None then bad_request ''trading key mismatch''
     else
     io_bind (io_of (demo_setup M)) (\<lambda>(conns, programs).
     let orderId = route_hexToBytes (the (bob_orderIdHex body)) in
     if length orderId \<noteq> 16 then bad_request ''orderIdHex must be 16 bytes (32 hex chars)''
     else
     io_bind (io_of (case bob_expirySlot body of Some e \<Rightarrow> js_BigInt e | None \<Rightarrow> Inr 0)) (\<lambda>expirySlot.
     if expirySlot = 0 then bad_request ''expirySlot required (use current slot + buffer)''
     else
     io_bind (io_of (js_BigInt (the (bob_amount body)))) (\<lambda>amount.
     io_bind (io_of (js_BigInt (the (bob_priceLimit body)))) (\<lambda>priceLimit.
     io_bind (io_of (js_BigInt (the (bob_noteAmount body)))) (\<lambda>noteAmount.
     io_bind (io_of (buildSubmitOrderInstruction L
       \<lparr>so_programId = pr_meProgramId programs, so_tradingKey = kp_publicKey (the tk), so_market = pr_market programs,
        so_slotIdx = the (bob_slotIdx body), so_side = the (bob_side body), so_amount = amount, so_priceLimit = priceLimit,
        so_noteAmount = noteAmount, so_expirySlot = expirySlot, so_orderId = orderId,
        so_noteCommitment = route_hexToBytes (the (bob_noteCommitmentHex body)),
        so_userCommitment = route_hexToBytes (the (bob_userOwnerCommitmentHex body)),
        so_orderType = None, so_minFillQty = None\<rparr>)) (\<lambda>keys.
     io_return (ReplyOk \<lparr>bor_instruction = instructionToJson L (sok_ix keys),
       bor_pendingOrderPda = pubkey_toBase58 L (sok_pendingOrderPda keys)\<rparr>))))))))))"

section \<open>The programs\<close>

text \<open>\<open>PendingOrder\<close> of the matching engine without its padding, and the handler of \<open>submit_order\<close>.
  Amounts and slots are \<open>u64\<close>, their product \<open>u128\<close>; \<open>h\<close> is SHA-256.\<close>

record PendingOrder =
  po_trading_key :: pubkey
  po_market :: pubkey
  po_status :: byte
  po_side :: int
  po_order_type :: int
  po_slot_idx :: int
  po_bump :: int
  po_arrival_slot :: int
  po_expiry_slot :: int
  po_price_limit :: int
  po_amount :: int
  po_total_quantity :: int
  po_filled_quantity :: int
  po_min_fill_qty :: int
  po_note_amount :: int
  po_collateral_note :: bytes
  po_user_commitment :: bytes
  po_order_id :: bytes
  po_order_inclusion_commitment :: bytes

datatype matching_error =
    InvalidSide | InvalidOrderType | ZeroAmount | ZeroPrice | InvalidOrderId | AmountBelowMinOrderSize
  | NotionalOverflow | NotionalExceedsNoteValue | ExpiryInPast | UnauthorizedTradingKey | MarketMismatch
  | InvalidPendingSlot | SlotAlreadyOccupied

definition compute_inclusion_commitment :: "lib \<Rightarrow> int \<Rightarrow> bytes \<Rightarrow> pubkey \<Rightarrow> bytes" where
  "compute_inclusion_commitment L arrival_slot note_commitment trading_key =
     sha256 L (u64LE arrival_slot @ note_commitment @ toBytes trading_key)"

definition submit_order_handler ::
    "lib \<Rightarrow> int \<Rightarrow> pubkey \<Rightarrow> SubmitOrderArgs \<Rightarrow> PendingOrder \<Rightarrow> matching_error + PendingOrder" where
  "submit_order_handler L now trading_key args slot =
     (let required = (if soa_side args = 0 then soa_amount args * soa_price_limit args else soa_amount args) in
      if soa_side args \<noteq> 0 \<and> soa_side args \<noteq> 1 then Inl InvalidSide
      else if soa_order_type args \<notin> {0, 1, 2} then Inl InvalidOrderType
      else if soa_amount args = 0 then Inl ZeroAmount
      else if soa_price_limit args = 0 then Inl ZeroPrice
      else if soa_order_id args = zeros 16 then Inl InvalidOrderId
      else if soa_min_fill_qty args > soa_amount args then Inl AmountBelowMinOrderSize
      else if required \<ge> 2 ^ 128 then Inl NotionalOverflow
      else if required > soa_note_amount args then Inl NotionalExceedsNoteValue
      else if soa_expiry_slot args \<le> now then Inl ExpiryInPast
      else if po_trading_key slot \<noteq> trading_key then Inl UnauthorizedTradingKey
      else if toBytes (po_market slot) \<noteq> soa_market args then Inl MarketMismatch
      else if po_slot_idx slot \<noteq> soa_slot_idx args then Inl InvalidPendingSlot
      else if po_status slot \<notin> {PENDING_STATUS_EMPTY, PENDING_STATUS_MATCHED, PENDING_STATUS_EXPIRED, PENDING_STATUS_CANCELLED}
      then Inl SlotAlreadyOccupied
      else Inr (slot \<lparr>po_status := PENDING_STATUS_PENDING, po_side := soa_side args, po_order_type := soa_order_type args,
         po_arrival_slot := now, po_expiry_slot := soa_expiry_slot args, po_price_limit := soa_price_limit args,
         po_amount := soa_amount args, po_total_quantity := soa_amount args, po_filled_quantity := 0,
         po_min_fill_qty := soa_min_fill_qty args, po_note_amount := soa_note_amount args,
         po_collateral_note := soa_note_commitment args, po_user_commitment := soa_user_commitment args, po_order_id := soa_order_id args,
         po_order_inclusion_commitment := compute_inclusion_commitment L now (soa_note_commitment args) trading_key\<rparr>))"

text \<open>The bytes of a slot account: discriminator, trading key, market, and the status byte.\<close>

definition pending_data :: "PendingOrder \<Rightarrow> bytes \<Rightarrow> bool" where
  "pending_data po d \<longleftrightarrow>
     (\<exists>disc rest. length disc = 8 \<and> d = disc @ toBytes (po_trading_key po) @ toBytes (po_market po) @ po_status po # rest)"

text \<open>The fee fields of the vault account and \<open>set_protocol_config_handler\<close>.\<close>

record protocol_config =
  pc_admin :: pubkey
  pc_protocol_owner_commitment :: bytes
  pc_fee_rate_bps :: int

datatype protocol_config_error = InvalidFeeRate | FeeUnauthorized

definition set_protocol_config_handler ::
    "pubkey \<Rightarrow> bytes \<Rightarrow> int \<Rightarrow> protocol_config \<Rightarrow> protocol_config_error + protocol_config" where
  "set_protocol_config_handler admin commitment fee cfg =
     (if fee > 10000 then Inl InvalidFeeRate
      else if admin \<noteq> pc_admin cfg then Inl FeeUnauthorized
      else Inr (cfg \<lparr>pc_protocol_owner_commitment := commitment, pc_fee_rate_bps := fee\<rparr>))"

definition fee_data :: "protocol_config \<Rightarrow> bytes \<Rightarrow> bool" where
  "fee_data cfg d \<longleftrightarrow>
     length (pc_protocol_owner_commitment cfg) = 32 \<and> 0 \<le> pc_fee_rate_bps cfg \<and> pc_fee_rate_bps cfg < 2 ^ 16
     \<and> (\<exists>pre post. length pre = 2450 \<and> d = pre @ pc_protocol_owner_commitment cfg @ u16LE (pc_fee_rate_bps cfg) @ post)"

text \<open>What a transaction with one such instruction does: the arguments are the 32 bytes after the
  discriminator and the two bytes after them, the signer is the first account.\<close>

definition execute_set_protocol_config :: "instruction \<Rightarrow> protocol_config \<Rightarrow> protocol_config_error + protocol_config" where
  "execute_set_protocol_config ix cfg =
     set_protocol_config_handler (am_pubkey (ix_keys ix ! 0)) (slice (ix_data ix) 8 32) (le_to_int (slice (ix_data ix) 40 2)) cfg"

section \<open>Choosing a slot\<close>

text \<open>An RPC that only reads.\<close>

definition reads :: "'w rpc \<Rightarrow> (pubkey \<Rightarrow> account_info option) \<Rightarrow> bool" where
  "reads c acc \<longleftrightarrow> (\<forall>k w. rpc_getAccountInfo c k w = (Inr (acc k), w))"

text \<open>The live bytes of an existing slot: those of the rollup once it is delegated.\<close>

definition live_slot :: "lib \<Rightarrow> (pubkey \<Rightarrow> account_info option) \<Rightarrow> (pubkey \<Rightarrow> account_info option) \<Rightarrow> pubkey \<Rightarrow> bytes option" where
  "live_slot L l1acc eracc k =
     (case l1acc k of None \<Rightarrow> None
      | Some i \<Rightarrow> if ai_owner i = DELEGATION_PROGRAM_ID L then map_option ai_data (eracc k) else Some (ai_data i))"

definition slot_key :: "lib \<Rightarrow> pubkey \<Rightarrow> pubkey \<Rightarrow> pubkey \<Rightarrow> int \<Rightarrow> pubkey" where
  "slot_key L me market key i = (case pendingOrderPda L me market key i of Inr (k, _) \<Rightarrow> k | Inl _ \<Rightarrow> 0)"

lemma slot_key_eq:
  assumes "pda_total L" and "0 \<le> i" and "i < 4"
  obtains b where "pendingOrderPda L me market key i = Inr (slot_key L me market key i, b)"
proof -
  obtain k b where "findProgramAddressSync L [PENDING_ORDER_SEED, toBytes market, toBytes key, u8 i] me = Inr (k, b)"
    using assms(1) by (rule pda_totalE)
  then show ?thesis using that assms by (simp add: slot_key_def pendingOrderPda_def)
qed

lemma slot_loop_eq:
  fixes L me market tk
  defines "key \<equiv> slot_key L me market tk"
  assumes "pda_total L" and "reads l1 l1acc" and "reads er eracc" and "set idxs \<subseteq> {0..<4}"
  shows "slot_loop L l1 er me market tk msg fr idxs w =
     (case List.find (\<lambda>i. l1acc (key i) = None) idxs of
        Some i \<Rightarrow> (Inr \<lparr>sp_slotIdx = i, sp_needsInit = True\<rparr>, w)
      | None \<Rightarrow> (case (if fr \<noteq> None then fr else List.find (\<lambda>i. slot_reusable (live_slot L l1acc eracc (key i))) idxs) of
          Some i \<Rightarrow> (Inr \<lparr>sp_slotIdx = i, sp_needsInit = False\<rparr>, w)
        | None \<Rightarrow> (Inl (newError msg), w)))"
  using assms(5)
proof (induction idxs arbitrary: fr)
  case Nil
  then show ?case by (cases fr) simp_all
next
  case (Cons idx rest)
  have i: "0 \<le> idx" "idx < 4" "set rest \<subseteq> {0..<4}" using Cons.prems by auto
  obtain b where pda: "pendingOrderPda L me market tk idx = Inr (key idx, b)"
    unfolding key_def using slot_key_eq [OF assms(2) i(1,2)] .
  have rd: "rpc_getAccountInfo l1 (key idx) w = (Inr (l1acc (key idx)), w)" "rpc_getAccountInfo er (key idx) w = (Inr (eracc (key idx)), w)"
    using assms(3,4) by (simp_all add: reads_def)
  show ?case
    by (cases "l1acc (key idx)") (auto simp: io_bind_def pda rd Cons.IH [OF i(3)] live_slot_def cong: option.case_cong)
qed

lemma find_in:
  assumes "List.find P xs = Some x"
  shows "P x" "x \<in> set xs"
  using assms by (auto simp: find_Some_iff)

lemma slot_indices_4: "slot_indices = [0, 1, 2, 3]"
  by (simp add: slot_indices_def MAX_PENDING_SLOTS_PER_USER_def eval_nat_numeral)

lemma find_slot:
  assumes "List.find P slot_indices = Some i"
  shows "P i" "0 \<le> i" "i < 4" "\<And>j. 0 \<le> j \<Longrightarrow> j < i \<Longrightarrow> \<not> P j"
proof -
  have "i \<in> {0, 1, 2, 3} \<and> P i \<and> (\<forall>j\<in>{0, 1, 2, 3}. j < i \<longrightarrow> \<not> P j)"
    using assms by (auto simp: slot_indices_4 split: if_splits)
  then have i: "i \<in> {0, 1, 2, 3}" and "P i" and before: "\<forall>j\<in>{0, 1, 2, 3}. j < i \<longrightarrow> \<not> P j" by simp_all
  show "P i" by fact
  show "0 \<le> i" "i < 4" using i by auto
  show "\<not> P j" if "0 \<le> j" "j < i" for j
  proof -
    have "j \<in> {0, 1, 2, 3}" using that \<open>i < 4\<close> by auto
    then show ?thesis using before that(2) by blast
  qed
qed

lemma no_slot:
  assumes "List.find P slot_indices = None" and "0 \<le> i" and "i < 4"
  shows "\<not> P i"
proof -
  have "i \<in> {0, 1, 2, 3}" using assms(2,3) by auto
  then show ?thesis using assms(1) unfolding find_None_iff by (auto simp: slot_indices_4)
qed

lemma pending_status:
  assumes "pending_data po d"
  shows "length d > PENDING_ORDER_STATUS_OFFSET" "d ! PENDING_ORDER_STATUS_OFFSET = po_status po"
  using assms by (auto simp: pending_data_def PENDING_ORDER_STATUS_OFFSET_def nth_append)

lemma reusable_accepted:
  assumes "slot_reusable (Some d)" and "pending_data po d"
  shows "submit_order_handler L now k args po \<noteq> Inl SlotAlreadyOccupied"
proof -
  have "isReusablePendingOrderStatus (po_status po)"
    using assms pending_status [OF assms(2)] by (simp add: slot_reusable_def)
  then have "po_status po \<in> {PENDING_STATUS_EMPTY, PENDING_STATUS_MATCHED, PENDING_STATUS_EXPIRED, PENDING_STATUS_CANCELLED}"
    by (simp add: isReusablePendingOrderStatus_def)
  then show ?thesis by (simp add: submit_order_handler_def Let_def)
qed

section \<open>Orders\<close>

lemma build_order_okE:
  assumes "build_submit_order_POST L M body w = (ReplyOk r, w')"
  obtains vo trading conns programs amount priceLimit noteAmount expirySlot keys where
    "verifyPhantomSeedSignature L (dm_decoders M) (dm_wallet M) (the (bob_phantomSignatureBase58 body)) (the (bob_ownerPubkeyBase58 body)) = Inr vo"
    "session_trading_key L (dm_decoders M) (dm_wallet M) (vo_seed vo) (the (bob_tradingSecretKeyBase58 body)) = Inr (Some trading)"
    "demo_setup M = Inr (conns, programs)"
    "js_BigInt (the (bob_amount body)) = Inr amount" "js_BigInt (the (bob_priceLimit body)) = Inr priceLimit"
    "js_BigInt (the (bob_noteAmount body)) = Inr noteAmount" "js_BigInt (the (bob_expirySlot body)) = Inr expirySlot"
    "buildSubmitOrderInstruction L
       \<lparr>so_programId = pr_meProgramId programs, so_tradingKey = kp_publicKey trading, so_market = pr_market programs,
        so_slotIdx = the (bob_slotIdx body), so_side = the (bob_side body), so_amount = amount, so_priceLimit = priceLimit,
        so_noteAmount = noteAmount, so_expirySlot = expirySlot, so_orderId = route_hexToBytes (the (bob_orderIdHex body)),
        so_noteCommitment = route_hexToBytes (the (bob_noteCommitmentHex body)),
        so_userCommitment = route_hexToBytes (the (bob_userOwnerCommitmentHex body)),
        so_orderType = None, so_minFillQty = None\<rparr> = Inr keys"
    "r = \<lparr>bor_instruction = instructionToJson L (sok_ix keys), bor_pendingOrderPda = pubkey_toBase58 L (sok_pendingOrderPda keys)\<rparr>"
    "w' = w" "bob_side body \<noteq> None"
  using assms unfolding build_submit_order_POST_def route_ok Let_def
  by (elim reply_elims) (clarsimp split: option.splits)

text \<open>How the program handles a limit order that was built for one of the key's own slots.\<close>

definition resting_order :: "lib \<Rightarrow> int \<Rightarrow> pubkey \<Rightarrow> BuildSubmitOrderParams \<Rightarrow> PendingOrder \<Rightarrow> PendingOrder" where
  "resting_order L now k p slot =
     slot \<lparr>po_status := PENDING_STATUS_PENDING, po_side := so_side p, po_order_type := 0,
       po_arrival_slot := now, po_expiry_slot := so_expirySlot p, po_price_limit := so_priceLimit p,
       po_amount := so_amount p, po_total_quantity := so_amount p, po_filled_quantity := 0,
       po_min_fill_qty := 0, po_note_amount := so_noteAmount p,
       po_collateral_note := so_noteCommitment p, po_user_commitment := so_userCommitment p, po_order_id := so_orderId p,
       po_order_inclusion_commitment := compute_inclusion_commitment L now (so_noteCommitment p) k\<rparr>"

lemma order_handled:
  assumes keys: "buildSubmitOrderInstruction L p = Inr keys" and plain: "so_orderType p = None" "so_minFillQty p = None"
    and slot: "po_trading_key slot = k" "po_market slot = so_market p" "po_slot_idx slot = so_slotIdx p"
    and range: "0 < so_amount p" "so_amount p < 2 ^ 64" "0 < so_priceLimit p" "so_priceLimit p < 2 ^ 64" "0 \<le> so_noteAmount p" "so_noteAmount p < 2 ^ 64"
    and time: "now < so_expirySlot p" "0 \<le> now" "so_expirySlot p < 2 ^ 64" and id: "so_orderId p \<noteq> zeros 16"
  shows "submit_order_handler L now k (borshSubmitOrderArgs (drop 8 (ix_data (sok_ix keys)))) slot =
     (if (if so_side p = 0 then so_amount p * so_priceLimit p else so_amount p) > so_noteAmount p then Inl NotionalExceedsNoteValue
      else if isReusablePendingOrderStatus (po_status slot) then Inr (resting_order L now k p slot) else Inl SlotAlreadyOccupied)"
proof -
  let ?r = "if so_side p = 0 then so_amount p * so_priceLimit p else so_amount p"
  have fits: "so_amount p mod 2 ^ 64 = so_amount p" "so_priceLimit p mod 2 ^ 64 = so_priceLimit p" "so_noteAmount p mod 2 ^ 64 = so_noteAmount p"
      "so_expirySlot p mod 2 ^ 64 = so_expirySlot p"
    using range time by (auto intro!: mod_pos_pos_trivial)
  have args: "borshSubmitOrderArgs (drop 8 (ix_data (sok_ix keys))) =
      \<lparr>soa_market = toBytes (so_market p), soa_slot_idx = so_slotIdx p, soa_side = so_side p,
       soa_order_type = 0, soa_amount = so_amount p, soa_min_fill_qty = 0, soa_price_limit = so_priceLimit p,
       soa_note_amount = so_noteAmount p, soa_expiry_slot = so_expirySlot p, soa_order_id = so_orderId p,
       soa_note_commitment = so_noteCommitment p, soa_user_commitment = so_userCommitment p\<rparr>"
    using buildSubmitOrder_wire(5) [OF keys] fits by (simp add: plain)
  have "so_amount p * so_priceLimit p < 2 ^ 64 * 2 ^ 64" using range(1-4) by (intro mult_strict_mono) simp_all
  then have small: "\<not> ?r \<ge> 2 ^ 128" using range(2) by (simp split: if_splits)
  have passes: "\<not> (so_side p \<noteq> 0 \<and> so_side p \<noteq> 1)" "\<not> 0 > so_amount p" "so_amount p \<noteq> 0" "so_priceLimit p \<noteq> 0" "\<not> so_expirySlot p \<le> now"
    using range time buildSubmitOrder_wire(1) [OF keys] by auto
  show ?thesis
    unfolding args submit_order_handler_def Let_def isReusablePendingOrderStatus_def SubmitOrderArgs.simps resting_order_def
    by (simp only: passes small slot id if_False) simp
qed

section \<open>Properties\<close>

text \<open>(C19) Which slot is chosen: the first of the four whose account does not exist; otherwise the first whose
  live status (that of the rollup once the slot is delegated) is reusable; otherwise the route's
  error. So a slot that is reused is never one with a resting order: the program does not answer an
  order in it with \<open>SlotAlreadyOccupied\<close>.\<close>

theorem chosen_slot:
  assumes "pda_total L" and "reads l1 l1acc" and "reads er eracc"
  shows "case chooseFreshSlot L l1 er me market key w of
       (Inr pick, w') \<Rightarrow> w' = w \<and> 0 \<le> sp_slotIdx pick \<and> sp_slotIdx pick < 4
         \<and> (sp_needsInit pick \<longleftrightarrow> l1acc (slot_key L me market key (sp_slotIdx pick)) = None)
         \<and> (\<forall>i. 0 \<le> i \<and> i < (if sp_needsInit pick then sp_slotIdx pick else 4) \<longrightarrow> l1acc (slot_key L me market key i) \<noteq> None)
         \<and> (\<not> sp_needsInit pick \<longrightarrow>
              (\<forall>i. 0 \<le> i \<and> i < sp_slotIdx pick \<longrightarrow> \<not> slot_reusable (live_slot L l1acc eracc (slot_key L me market key i)))
              \<and> (\<exists>d. live_slot L l1acc eracc (slot_key L me market key (sp_slotIdx pick)) = Some d \<and> slot_reusable (Some d)
                   \<and> (\<forall>po now k args. pending_data po d \<longrightarrow> submit_order_handler L now k args po \<noteq> Inl SlotAlreadyOccupied)))
     | (Inl e, w') \<Rightarrow> w' = w \<and> (\<forall>i. 0 \<le> i \<and> i < 4 \<longrightarrow> l1acc (slot_key L me market key i) \<noteq> None
         \<and> \<not> slot_reusable (live_slot L l1acc eracc (slot_key L me market key i)))"
proof -
  define key' where "key' = slot_key L me market key"
  have "set slot_indices \<subseteq> {0..<4}" by (auto simp: slot_indices_4)
  note eq = slot_loop_eq [OF assms this]
  show ?thesis
  proof (cases "List.find (\<lambda>i. l1acc (slot_key L me market key i) = None) slot_indices")
    case (Some i)
    show ?thesis using find_slot [OF Some] by (auto simp: chooseFreshSlot_def eq Some)
  next
    case none: None
    note here = no_slot [OF none]
    show ?thesis
    proof (cases "List.find (\<lambda>i. slot_reusable (live_slot L l1acc eracc (slot_key L me market key i))) slot_indices")
      case None
      show ?thesis using here no_slot [OF None] by (auto simp: chooseFreshSlot_def eq none None)
    next
      case (Some i)
      note found = find_slot [OF Some]
      obtain d where d: "live_slot L l1acc eracc (slot_key L me market key i) = Some d"
        using found(1) by (auto simp: slot_reusable_def split: option.splits)
      have "submit_order_handler L now k args po \<noteq> Inl SlotAlreadyOccupied" if "pending_data po d" for po now k args
        using found(1) that unfolding d by (rule reusable_accepted)
      then show ?thesis using here found d by (auto simp: chooseFreshSlot_def eq none Some)
    qed
  qed
qed

text \<open>The order of a successful \<open>build-submit-order\<close>: the panel reads the instruction back from its JSON, only
  the trading key derived from the wallet's seed signs it, and the program accepts it in a slot of
  that key and market that is empty or finished, before the expiry slot and when the note covers the
  order; the slot then holds exactly the requested side, amount, price, expiry and commitments as a
  resting limit order. A slot with a resting order is refused.\<close>

theorem built_order_accepted:
  assumes "build_submit_order_POST L M body w = (ReplyOk r, w')" and "base58_inverse L (dm_decoders M)"
  shows "w' = w \<and> (\<exists>vo trading conns programs amount priceLimit noteAmount expirySlot ix.
      verifyPhantomSeedSignature L (dm_decoders M) (dm_wallet M) (the (bob_phantomSignatureBase58 body)) (the (bob_ownerPubkeyBase58 body)) = Inr vo
    \<and> session_trading_key L (dm_decoders M) (dm_wallet M) (vo_seed vo) (the (bob_tradingSecretKeyBase58 body)) = Inr (Some trading)
    \<and> demo_setup M = Inr (conns, programs)
    \<and> js_BigInt (the (bob_amount body)) = Inr amount \<and> js_BigInt (the (bob_priceLimit body)) = Inr priceLimit
    \<and> js_BigInt (the (bob_noteAmount body)) = Inr noteAmount \<and> js_BigInt (the (bob_expirySlot body)) = Inr expirySlot
    \<and> instructionFromJson (dm_decoders M) (bor_instruction r) = Inr ix
    \<and> signers_of ix = [kp_publicKey trading]
    \<and> (\<forall>slot now. po_trading_key slot = kp_publicKey trading \<and> po_market slot = pr_market programs
         \<and> po_slot_idx slot = the (bob_slotIdx body)
         \<and> 0 < amount \<and> amount < 2 ^ 64 \<and> 0 < priceLimit \<and> priceLimit < 2 ^ 64 \<and> noteAmount < 2 ^ 64
         \<and> (if bob_side body = Some 0 then amount * priceLimit else amount) \<le> noteAmount
         \<and> now < expirySlot \<and> 0 \<le> now \<and> expirySlot < 2 ^ 64
         \<and> route_hexToBytes (the (bob_orderIdHex body)) \<noteq> zeros 16
       \<longrightarrow> submit_order_handler L now (kp_publicKey trading) (borshSubmitOrderArgs (drop 8 (ix_data ix))) slot
         = (if isReusablePendingOrderStatus (po_status slot)
            then Inr (slot \<lparr>po_status := PENDING_STATUS_PENDING, po_side := the (bob_side body), po_order_type := 0,
               po_arrival_slot := now, po_expiry_slot := expirySlot, po_price_limit := priceLimit,
               po_amount := amount, po_total_quantity := amount, po_filled_quantity := 0,
               po_min_fill_qty := 0, po_note_amount := noteAmount,
               po_collateral_note := route_hexToBytes (the (bob_noteCommitmentHex body)),
               po_user_commitment := route_hexToBytes (the (bob_userOwnerCommitmentHex body)),
               po_order_id := route_hexToBytes (the (bob_orderIdHex body)),
               po_order_inclusion_commitment := compute_inclusion_commitment L now (route_hexToBytes (the (bob_noteCommitmentHex body)))
                 (kp_publicKey trading)\<rparr>)
            else Inl SlotAlreadyOccupied)))"
proof -
  obtain vo trading conns programs amount priceLimit noteAmount expirySlot keys where
      vo: "verifyPhantomSeedSignature L (dm_decoders M) (dm_wallet M) (the (bob_phantomSignatureBase58 body)) (the (bob_ownerPubkeyBase58 body)) = Inr vo"
    and tk: "session_trading_key L (dm_decoders M) (dm_wallet M) (vo_seed vo) (the (bob_tradingSecretKeyBase58 body)) = Inr (Some trading)"
    and env: "demo_setup M = Inr (conns, programs)"
    and nums: "js_BigInt (the (bob_amount body)) = Inr amount" "js_BigInt (the (bob_priceLimit body)) = Inr priceLimit"
      "js_BigInt (the (bob_noteAmount body)) = Inr noteAmount" "js_BigInt (the (bob_expirySlot body)) = Inr expirySlot"
    and keys: "buildSubmitOrderInstruction L
       \<lparr>so_programId = pr_meProgramId programs, so_tradingKey = kp_publicKey trading, so_market = pr_market programs,
        so_slotIdx = the (bob_slotIdx body), so_side = the (bob_side body), so_amount = amount, so_priceLimit = priceLimit,
        so_noteAmount = noteAmount, so_expirySlot = expirySlot, so_orderId = route_hexToBytes (the (bob_orderIdHex body)),
        so_noteCommitment = route_hexToBytes (the (bob_noteCommitmentHex body)),
        so_userCommitment = route_hexToBytes (the (bob_userOwnerCommitmentHex body)),
        so_orderType = None, so_minFillQty = None\<rparr> = Inr keys"
    and r: "r = \<lparr>bor_instruction = instructionToJson L (sok_ix keys), bor_pendingOrderPda = pubkey_toBase58 L (sok_pendingOrderPda keys)\<rparr>"
    and w': "w' = w" and side: "bob_side body \<noteq> None"
    using assms(1) by (rule build_order_okE)
  note wire = buildSubmitOrder_wire [OF keys, simplified]
  have json: "instructionFromJson (dm_decoders M) (bor_instruction r) = Inr (sok_ix keys)"
    by (simp add: r instruction_json_inverse [OF assms(2)])
  have signs: "signers_of (sok_ix keys) = [kp_publicKey trading]"
    by (simp add: signers_of_def wire(6) meta_def)
  show ?thesis
  proof (intro conjI exI allI impI, rule w', rule vo, rule tk, rule env, rule nums(1), rule nums(2), rule nums(3), rule nums(4),
      rule json, rule signs, elim conjE, goal_cases)
    case (1 slot now)
    let ?p = "\<lparr>so_programId = pr_meProgramId programs, so_tradingKey = kp_publicKey trading, so_market = pr_market programs,
        so_slotIdx = the (bob_slotIdx body), so_side = the (bob_side body), so_amount = amount, so_priceLimit = priceLimit,
        so_noteAmount = noteAmount, so_expirySlot = expirySlot, so_orderId = route_hexToBytes (the (bob_orderIdHex body)),
        so_noteCommitment = route_hexToBytes (the (bob_noteCommitmentHex body)),
        so_userCommitment = route_hexToBytes (the (bob_userOwnerCommitmentHex body)),
        so_orderType = None, so_minFillQty = None\<rparr>"
    have covers: "\<not> (if the (bob_side body) = 0 then amount * priceLimit else amount) > noteAmount" (is "\<not> ?r > _")
      using 1 side by (auto split: if_splits)
    have "0 < ?r" using 1 by simp
    then have "0 \<le> noteAmount" using covers by linarith
    then show ?case
      using order_handled [OF keys, of slot "kp_publicKey trading" now] 1 covers
      by (simp only: BuildSubmitOrderParams.simps resting_order_def simp_thms if_False)
  qed
qed

text \<open>(C23) The fee reset reads the vault account once. A fee of zero is left alone. Any other fee is reported and one
  transaction is sent, signed by the admin alone; the program executes it for its admin by setting
  the fee to zero and keeping the fee owner.\<close>

theorem fee_reset:
  assumes "pda_total L" and "vaultConfigPda L vp = Inr (vault, bump)"
    and "rpc_getAccountInfo l1 vault w = (Inr (Some i), w1)" and "fee_data cfg (ai_data i)"
  shows "if pc_fee_rate_bps cfg = 0
     then ensureZeroProtocolFee L l1 vp admin w = (Inr \<lparr>zf_observedFeeBps = 0, zf_zeroed = False, zf_signature = None\<rparr>, w1)
     else \<exists>ix. signers_of ix = [kp_publicKey admin]
       \<and> execute_set_protocol_config ix cfg =
           (if kp_publicKey admin = pc_admin cfg then Inr (cfg \<lparr>pc_fee_rate_bps := 0\<rparr>) else Inl FeeUnauthorized)
       \<and> ensureZeroProtocolFee L l1 vp admin w =
           (case rpc_sendAndConfirm l1 [ix] [admin] w1 of
              (Inr sig, w2) \<Rightarrow> (Inr \<lparr>zf_observedFeeBps = pc_fee_rate_bps cfg, zf_zeroed = True, zf_signature = Some sig\<rparr>, w2)
            | (Inl e, w2) \<Rightarrow> (Inl e, w2))"
proof -
  obtain pre post where split: "length pre = 2450"
      "ai_data i = pre @ pc_protocol_owner_commitment cfg @ u16LE (pc_fee_rate_bps cfg) @ post"
    and len: "length (pc_protocol_owner_commitment cfg) = 32" and fee: "0 \<le> pc_fee_rate_bps cfg" "pc_fee_rate_bps cfg < 2 ^ 16"
    using assms(4) unfolding fee_data_def by blast
  have reads: "\<not> length (ai_data i) < FEE_RATE_BPS_OFFSET + 2"
      "slice (ai_data i) PROTOCOL_OWNER_COMMITMENT_OFFSET 32 = pc_protocol_owner_commitment cfg"
      "le_to_int (slice (ai_data i) FEE_RATE_BPS_OFFSET 2) = pc_fee_rate_bps cfg"
    using len fee by (simp_all add: split FEE_RATE_BPS_OFFSET_def PROTOCOL_OWNER_COMMITMENT_OFFSET_def wire_simps)
  let ?p = "\<lparr>spc_programId = vp, spc_admin = kp_publicKey admin, spc_protocolOwnerCommitment = pc_protocol_owner_commitment cfg, spc_feeRateBps = 0\<rparr>"
  obtain ix where ix: "buildSetProtocolConfigInstruction L ?p = Inr ix" "le_to_int (slice (ix_data ix) 40 2) = 0"
      "slice (ix_data ix) 8 32 = pc_protocol_owner_commitment cfg" "signers_of ix = [kp_publicKey admin]"
    using buildSetProtocolConfig_fee [OF assms(1), of ?p] len by auto
  have signer: "am_pubkey (ix_keys ix ! 0) = kp_publicKey admin"
    using ix(1) by (auto simp: buildSetProtocolConfigInstruction_def rbind_eq_Inr mkIx_def meta_def split: if_splits)
  show ?thesis
  proof (cases "pc_fee_rate_bps cfg = 0")
    case True
    then show ?thesis
      using reads by (simp add: ensureZeroProtocolFee_def io_bind_def assms(2,3) Let_def)
  next
    case False
    have "ensureZeroProtocolFee L l1 vp admin w =
           (case rpc_sendAndConfirm l1 [ix] [admin] w1 of
              (Inr sig, w2) \<Rightarrow> (Inr \<lparr>zf_observedFeeBps = pc_fee_rate_bps cfg, zf_zeroed = True, zf_signature = Some sig\<rparr>, w2)
            | (Inl e, w2) \<Rightarrow> (Inl e, w2))"
      using reads False by (simp add: ensureZeroProtocolFee_def io_bind_def assms(2,3) Let_def ix(1) split: prod.splits sum.splits)
    moreover have "execute_set_protocol_config ix cfg =
        (if kp_publicKey admin = pc_admin cfg then Inr (cfg \<lparr>pc_fee_rate_bps := 0\<rparr>) else Inl FeeUnauthorized)"
      by (simp add: execute_set_protocol_config_def set_protocol_config_handler_def signer ix(2,3))
    ultimately show ?thesis using False ix(4) by (simp only: if_False simp_thms) (rule exI [of _ ix], simp only: simp_thms)
  qed
qed

end
