(* ===== verification/Nyx_Demo_Order_Scenario.thy ===== *)
theory Nyx_Demo_Order_Scenario
  imports Nyx_Demo_Scenario Nyx_Demo_Slots
begin

text \<open>
  A concrete order of the demo's user, on which the properties of the slot and order routes are applied.
\<close>

definition demo_trading :: keypair where
  "demo_trading = (let sk = secretKey (deriveTradingKeyAtOffset disc_lib demo_seed 0)
     in \<lparr>kp_publicKey = bytes_to_word sk, kp_secretKey = sk @ sk\<rparr>)"

definition demo_trading_secret :: string where
  "demo_trading_secret = bytes_hex (kp_secretKey demo_trading)"

lemma demo_session_key:
  "session_trading_key disc_lib ref_decoders sample_wallet demo_seed demo_trading_secret = Inr (Some demo_trading)"
  "demo_trading_secret \<noteq> []"
proof -
  have l: "length (secretKey (deriveTradingKeyAtOffset disc_lib demo_seed 0)) = 32" by simp
  then show "session_trading_key disc_lib ref_decoders sample_wallet demo_seed demo_trading_secret = Inr (Some demo_trading)"
    by (simp add: session_trading_key_def ref_decoders_def sample_wallet_def demo_trading_secret_def demo_trading_def
        keypairFromSeed_def Let_def)
  have "length demo_trading_secret = 128" using l by (simp add: demo_trading_secret_def demo_trading_def Let_def)
  then show "demo_trading_secret \<noteq> []" by auto
qed

text \<open>The user bids five units at a price of seven, with a note of thirty-five.\<close>

definition demo_order :: build_order_body where
  "demo_order = \<lparr>bob_phantomSignatureBase58 = Some demo_sig, bob_ownerPubkeyBase58 = Some demo_pubkey,
     bob_tradingSecretKeyBase58 = Some demo_trading_secret, bob_slotIdx = Some 1, bob_side = Some 0,
     bob_amount = Some (bigint_toString 5), bob_priceLimit = Some (bigint_toString 7), bob_noteAmount = Some (bigint_toString 35),
     bob_expirySlot = Some (bigint_toString 200), bob_noteCommitmentHex = Some (bytes_hex (replicate 32 3)),
     bob_userOwnerCommitmentHex = Some (bytes_hex (replicate 32 4)), bob_orderIdHex = Some (bytes_hex (replicate 16 1))\<rparr>"

lemma demo_order_answered: "\<exists>r. build_submit_order_POST disc_lib (demo_app rpc) demo_order w = (ReplyOk r, w)"
proof -
  let ?p = "\<lparr>so_programId = 8, so_tradingKey = kp_publicKey demo_trading, so_market = 6, so_slotIdx = 1, so_side = 0, so_amount = 5,
     so_priceLimit = 7, so_noteAmount = 35, so_expirySlot = 200, so_orderId = replicate 16 1, so_noteCommitment = replicate 32 3,
     so_userCommitment = replicate 32 4, so_orderType = None, so_minFillQty = None\<rparr>"
  have ne: "\<not> absent (Some (bytes_hex (replicate n x)))" if "0 < n" for n x
    using that by (cases n) (simp_all add: absent_def)
  have num: "\<not> absent (Some (bigint_toString (numeral k)))" for k
    by (simp add: absent_def)
  have fields: "\<not> absent (Some demo_sig)" "\<not> absent (Some demo_pubkey)" "\<not> absent (Some demo_trading_secret)"
    using demo_verifies(2,3) demo_session_key(2) by (simp_all add: absent_def)
  obtain keys where keys: "buildSubmitOrderInstruction disc_lib ?p = Inr keys"
    by (simp add: buildSubmitOrderInstruction_def slot_guard_ok pendingOrderPda_def disc_lib_pda submit_order_args_def fixed_ok)
  have app: "dm_decoders (demo_app rpc) = ref_decoders" "dm_wallet (demo_app rpc) = sample_wallet" by (simp_all add: demo_app_def)
  show ?thesis
    unfolding build_submit_order_POST_def route_def io_bind_def demo_order_def
    by (simp add: fields ne num app demo_verifies(1) demo_session_key(1) demo_setup_app route_hexToBytes_def Let_def)
      (simp add: demo_programs_def keys)
qed

text \<open>The slot the user's earlier, matched order left behind.\<close>

definition demo_slot :: PendingOrder where
  "demo_slot = \<lparr>po_trading_key = kp_publicKey demo_trading, po_market = 6, po_status = PENDING_STATUS_MATCHED, po_side = 1, po_order_type = 0,
     po_slot_idx = 1, po_bump = 255, po_arrival_slot = 3, po_expiry_slot = 9, po_price_limit = 2, po_amount = 0, po_total_quantity = 4,
     po_filled_quantity = 4, po_min_fill_qty = 0, po_note_amount = 8, po_collateral_note = replicate 32 8,
     po_user_commitment = replicate 32 4, po_order_id = replicate 16 2, po_order_inclusion_commitment = zeros 32\<rparr>"

theorem built_order_accepted_witness:
  "\<forall>rpc. \<exists>r ix slot. build_submit_order_POST disc_lib (demo_app rpc) demo_order False = (ReplyOk r, False)
     \<and> instructionFromJson ref_decoders (bor_instruction r) = Inr ix \<and> signers_of ix = [kp_publicKey demo_trading]
     \<and> submit_order_handler disc_lib 100 (kp_publicKey demo_trading) (borshSubmitOrderArgs (drop 8 (ix_data ix))) demo_slot = Inr slot
     \<and> po_status slot = PENDING_STATUS_PENDING \<and> po_amount slot = 5 \<and> po_price_limit slot = 7 \<and> po_arrival_slot slot = 100"
proof
  fix rpc :: "bool rpc"
  let ?M = "demo_app rpc"
  have app: "dm_decoders ?M = ref_decoders" "dm_wallet ?M = sample_wallet" by (simp_all add: demo_app_def)
  obtain r where r: "build_submit_order_POST disc_lib ?M demo_order False = (ReplyOk r, False)"
    using demo_order_answered [of rpc False] by blast
  have "base58_inverse disc_lib (dm_decoders ?M)" by (simp add: app disc_lib_base58)
  from built_order_accepted [OF r this]
  show "\<exists>r ix slot. build_submit_order_POST disc_lib ?M demo_order False = (ReplyOk r, False)
     \<and> instructionFromJson ref_decoders (bor_instruction r) = Inr ix \<and> signers_of ix = [kp_publicKey demo_trading]
     \<and> submit_order_handler disc_lib 100 (kp_publicKey demo_trading) (borshSubmitOrderArgs (drop 8 (ix_data ix))) demo_slot = Inr slot
     \<and> po_status slot = PENDING_STATUS_PENDING \<and> po_amount slot = 5 \<and> po_price_limit slot = 7 \<and> po_arrival_slot slot = 100"
  proof (elim conjE exE, goal_cases)
    case (1 vo trading conns programs amount priceLimit noteAmount expirySlot ix)
    have vo: "vo_seed vo = demo_seed" using 1(2) by (auto simp: app demo_verifies(1) demo_order_def)
    have tk: "trading = demo_trading" using 1(3) by (simp add: app vo demo_session_key(1) demo_order_def)
    have nums: "amount = 5" "priceLimit = 7" "noteAmount = 35" "expirySlot = 200"
      using 1(5-8) by (simp_all add: demo_order_def)
    have market: "pr_market programs = 6" using 1(4) by (auto simp: demo_setup_app demo_programs_def)
    have id: "replicate 16 1 \<noteq> zeros 16" by (simp add: zeros_def)
    show ?case
      using r 1(9,10) 1(11) [THEN spec, THEN spec, of demo_slot 100]
      by (auto simp: app tk nums market demo_order_def demo_slot_def route_hexToBytes_def id isReusablePendingOrderStatus_def)
  qed
qed

text \<open>Slot 0 holds a resting order, slot 1 and the others a cancelled one: the first is skipped.\<close>

definition slot_info :: "byte \<Rightarrow> account_info" where
  "slot_info status = \<lparr>ai_data = zeros 72 @ [status], ai_owner = 9\<rparr>"

definition slot_rpc :: "(pubkey \<Rightarrow> account_info option) \<Rightarrow> unit rpc" where
  "slot_rpc acc = \<lparr>cn_getTransaction = (\<lambda>sig w. (Inr None, w)), cn_getSignaturesForAddress = (\<lambda>vp limit before w. (Inr [], w)),
     rpc_getAccountInfo = (\<lambda>k w. (Inr (acc k), w)), rpc_getBalance = (\<lambda>k w. (Inr 0, w)), rpc_getSlot = (\<lambda>w. (Inr 100, w)),
     rpc_sendAndConfirm = (\<lambda>ixs ks w. (Inr ''sig'', w))\<rparr>"

lemma slot_rpc_reads: "reads (slot_rpc acc) acc"
  by (simp add: reads_def slot_rpc_def)

text \<open>A library whose addresses are the last 32 bytes of the seeds: the last of them is the slot index.\<close>

definition last_lib :: lib where
  "last_lib = ref_lib \<lparr>findProgramAddressSync := (\<lambda>ss pid. Inr (bytes_to_word (drop (length (concat ss) - 32) (concat ss)), 255))\<rparr>"

definition slot_accounts :: "pubkey \<Rightarrow> account_info option" where
  "slot_accounts k = Some (slot_info (if k = slot_key last_lib 8 6 1 0 then PENDING_STATUS_PENDING else PENDING_STATUS_CANCELLED))"

lemma last_lib_slots: "slot_key last_lib 8 6 1 1 \<noteq> slot_key last_lib 8 6 1 0"
proof -
  have "slot_key last_lib 8 6 1 i = bytes_to_word (drop 1 (toBytes (1 :: pubkey)) @ u8 i)" if "0 \<le> i" "i < 4" for i
    using that by (simp add: slot_key_def pendingOrderPda_def last_lib_def)
  then have k: "slot_key last_lib 8 6 1 0 = bytes_to_word (drop 1 (toBytes (1 :: pubkey)) @ u8 0)"
      "slot_key last_lib 8 6 1 1 = bytes_to_word (drop 1 (toBytes (1 :: pubkey)) @ u8 1)" by simp_all
  have l: "length (drop 1 (toBytes (1 :: pubkey)) @ u8 i) = 32" for i by simp
  show ?thesis
  proof
    assume "slot_key last_lib 8 6 1 1 = slot_key last_lib 8 6 1 0"
    then have "drop 1 (toBytes (1 :: pubkey)) @ u8 1 = drop 1 (toBytes (1 :: pubkey)) @ u8 0"
      unfolding k by (metis toBytes_bytes_to_word l)
    then show False by (simp add: u8_def)
  qed
qed

theorem chosen_slot_witness:
  "\<exists>pick. chooseFreshSlot last_lib (slot_rpc slot_accounts) (slot_rpc slot_accounts) 8 6 1 () = (Inr pick, ())
     \<and> sp_slotIdx pick = 1 \<and> \<not> sp_needsInit pick"
proof -
  let ?acc = slot_accounts and ?key = "slot_key last_lib 8 6 1"
  have pda: "pda_total last_lib" by (simp add: pda_total_def last_lib_def)
  have live: "slot_reusable (live_slot last_lib ?acc ?acc k) \<longleftrightarrow> k \<noteq> ?key 0" for k
    by (simp add: live_slot_def slot_accounts_def slot_info_def slot_reusable_def isReusablePendingOrderStatus_def
        PENDING_ORDER_STATUS_OFFSET_def nth_append PENDING_STATUS_PENDING_def PENDING_STATUS_CANCELLED_def
        PENDING_STATUS_EMPTY_def PENDING_STATUS_MATCHED_def PENDING_STATUS_EXPIRED_def)
  have there: "?acc k \<noteq> None" for k by (simp add: slot_accounts_def)
  obtain res where run: "chooseFreshSlot last_lib (slot_rpc ?acc) (slot_rpc ?acc) 8 6 1 () = (res, ())" by (metis surj_pair unit_eq)
  note chosen = chosen_slot [OF pda slot_rpc_reads [of ?acc] slot_rpc_reads [of ?acc], where me = 8 and market = 6 and key = 1 and w = "()", unfolded run]
  show ?thesis
  proof (cases res)
    case (Inl e)
    have "\<not> slot_reusable (live_slot last_lib ?acc ?acc (?key 1))" using chosen by (simp add: Inl)
    then show ?thesis using last_lib_slots by (simp add: live)
  next
    case (Inr pick)
    have p: "0 \<le> sp_slotIdx pick" "\<not> sp_needsInit pick" using chosen there by (simp_all add: Inr)
    have before: "\<not> slot_reusable (live_slot last_lib ?acc ?acc (?key i))" if "0 \<le> i" "i < sp_slotIdx pick" for i
      using chosen that p(2) by (simp add: Inr)
    have "slot_reusable (live_slot last_lib ?acc ?acc (?key (sp_slotIdx pick)))" using chosen p(2) by (auto simp: Inr)
    then have "sp_slotIdx pick \<noteq> 0" by (auto simp: live)
    moreover have "\<not> 1 < sp_slotIdx pick" using before [of 1] last_lib_slots by (auto simp: live)
    ultimately have "sp_slotIdx pick = 1" using p(1) by linarith
    then show ?thesis using run p(2) by (simp add: Inr)
  qed
qed

text \<open>A fee of thirty basis points is reset.\<close>

definition demo_fee_config :: protocol_config where
  "demo_fee_config = \<lparr>pc_admin = 4, pc_protocol_owner_commitment = replicate 32 7, pc_fee_rate_bps = 30\<rparr>"

definition demo_fee_account :: account_info where
  "demo_fee_account = \<lparr>ai_data = zeros 2450 @ replicate 32 7 @ u16LE 30, ai_owner = 9\<rparr>"

theorem fee_reset_witness:
  "\<exists>ix. execute_set_protocol_config ix demo_fee_config = Inr (demo_fee_config \<lparr>pc_fee_rate_bps := 0\<rparr>)
     \<and> ensureZeroProtocolFee ref_lib (slot_rpc (\<lambda>_. Some demo_fee_account)) 9 \<lparr>kp_publicKey = 4, kp_secretKey = zeros 64\<rparr> ()
       = (Inr \<lparr>zf_observedFeeBps = 30, zf_zeroed = True, zf_signature = Some ''sig''\<rparr>, ())"
proof -
  obtain vault bump where v: "vaultConfigPda ref_lib 9 = Inr (vault, bump)"
    unfolding vaultConfigPda_def using pda_totalE [OF ref_lib_pda_total] by blast
  have d: "fee_data demo_fee_config (ai_data demo_fee_account)"
    unfolding fee_data_def demo_fee_config_def demo_fee_account_def
    by (intro conjI exI [of _ "zeros 2450"] exI [of _ "[]"]) simp_all
  show ?thesis
    using fee_reset [OF ref_lib_pda_total v _ d, of "slot_rpc (\<lambda>_. Some demo_fee_account)" "()" "()" "\<lparr>kp_publicKey = 4, kp_secretKey = zeros 64\<rparr>"]
    by (auto simp: slot_rpc_def demo_fee_config_def)
qed

end
