(* ===== verification/Nyx_Demo_Identity.thy ===== *)
theory Nyx_Demo_Identity
  imports Nyx_Demo_Panel Nyx_Demo_Slots Nyx_Observe "HOL-Library.Log_Nat"
begin

text \<open>
  How a user of the demo gets an identity: the routes \<open>derive-identity\<close>, \<open>register-wallet\<close> and \<open>airdrop\<close>
  (\<open>app/api/dapp/*/route.ts\<close>) and the panel that calls the first and the last of them
  (\<open>components/dapp/wallet-identity-panel.tsx\<close>): the wallet signs a fixed message, the server derives
  the keys, the browser proves \<open>VALID_WALLET_CREATE\<close> and keeps the session in its storage. \<open>bs58.encode\<close>
  is the parameter \<open>enc\<close>; the error page of the framework for an exception that a route does not
  catch, and the storage, are fields of the browser.

  Proved: what the identity route returns fits its consumers (the circuit, the key check of the order
  routes, the orders), and that a session the panel stored registers exactly the commitment its proof
  is about.
\<close>

section \<open>derive-identity\<close>

fun nat_hex :: "nat \<Rightarrow> string" where
  "nat_hex n = (if n < 16 then [hex_char n] else nat_hex (n div 16) @ [hex_char (n mod 16)])"

declare nat_hex.simps [simp del]

text \<open>The commitment inputs that both routes derive from the seed.\<close>

definition identity_inputs :: "lib \<Rightarrow> wallet_lib \<Rightarrow> bytes \<Rightarrow> js_error + UserCommitmentInputs" where
  "identity_inputs L W seed =
     rbind (nacl_fromSeed W (secretKey (deriveRootKey L seed))) (\<lambda>(rootKeyPubkey, _).
     Inr \<lparr>uc_rootKeyPubkey = rootKeyPubkey, uc_spendingKey = deriveSpendingKey L seed, uc_viewingKey = deriveMasterViewingKey L seed,
          uc_r0 = deriveBlindingFactor L seed 1, uc_r1 = deriveBlindingFactor L seed 2, uc_r2 = deriveBlindingFactor L seed 3\<rparr>)"

definition identity_owner :: "lib \<Rightarrow> bytes \<Rightarrow> int" where
  "identity_owner L seed = ownerCommitment L (deriveSpendingKey L seed) (deriveBlindingFactor L seed 0)"

record wallet_create_json =
  wcj_userCommitment :: string
  wcj_rootKey :: "string \<times> string"
  wcj_spendingKey :: string
  wcj_viewingKey :: string
  wcj_r0 :: string
  wcj_r1 :: string
  wcj_r2 :: string

record identity_public =
  idp_userCommitmentHex :: string
  idp_ownerCommitmentHex :: string
  idp_ownerCommitmentDecimal :: string
  idp_rootKeyPubkeyBase58 :: string

record identity_previews =
  idv_masterSeedFingerprint :: string
  idv_spendingKeyFingerprint :: string
  idv_viewingKeyFingerprint :: string

record DeriveResponse =
  idr_rootKeyPubkeyBase58 :: string
  idr_walletCreateInputs :: wallet_create_json
  idr_tradingPublicKeyBase58 :: string
  idr_tradingSecretKeyBase58 :: string
  idr_publicData :: identity_public
  idr_previews :: identity_previews

record DeriveIdentityRequest =
  dib_phantomSignatureBase58 :: "string option"
  dib_ownerPubkeyBase58 :: "string option"

text \<open>\<open>None\<close> is a body that is not JSON. An error is an exception the route does not catch.\<close>

definition derive_identity_POST ::
    "lib \<Rightarrow> decoders \<Rightarrow> wallet_lib \<Rightarrow> (bytes \<Rightarrow> string) \<Rightarrow> DeriveIdentityRequest option \<Rightarrow> js_error + DeriveResponse reply" where
  "derive_identity_POST L D W enc request =
     (case request of None \<Rightarrow> Inr (ReplyError 400 ''invalid JSON body'' None)
      | Some body \<Rightarrow>
        if absent (dib_phantomSignatureBase58 body) \<or> absent (dib_ownerPubkeyBase58 body)
        then Inr (ReplyError 400 ''missing phantomSignatureBase58 or ownerPubkeyBase58'' None)
        else
          case verifyPhantomSeedSignature L D W (the (dib_phantomSignatureBase58 body)) (the (dib_ownerPubkeyBase58 body)) of
            Inl err \<Rightarrow> Inr (ReplyError 400 (err_message err) None)
          | Inr vo \<Rightarrow>
              let seed = vo_seed vo; spendingKey = deriveSpendingKey L seed; viewingKey = deriveMasterViewingKey L seed in
              rbind (identity_inputs L W seed) (\<lambda>inputs.
              rbind (nacl_fromSeed W (secretKey (deriveTradingKeyAtOffset L seed 0))) (\<lambda>(tradingPublicKey, tradingSecretKey).
              rbind (userCommitmentFromKeys L inputs) (\<lambda>userCommitmentBE.
              rbind (pubkeyToFrPair (uc_rootKeyPubkey inputs)) (\<lambda>(rootLo, rootHi).
              rbind (bn254ToBE32 (identity_owner L seed)) (\<lambda>ownerBE.
              Inr (ReplyOk
                \<lparr>idr_rootKeyPubkeyBase58 = enc (uc_rootKeyPubkey inputs),
                 idr_walletCreateInputs =
                   \<lparr>wcj_userCommitment = bigint_toString (be_to_int userCommitmentBE),
                    wcj_rootKey = (bigint_toString rootLo, bigint_toString rootHi),
                    wcj_spendingKey = bigint_toString spendingKey, wcj_viewingKey = bigint_toString viewingKey,
                    wcj_r0 = bigint_toString (uc_r0 inputs), wcj_r1 = bigint_toString (uc_r1 inputs), wcj_r2 = bigint_toString (uc_r2 inputs)\<rparr>,
                 idr_tradingPublicKeyBase58 = enc tradingPublicKey, idr_tradingSecretKeyBase58 = enc tradingSecretKey,
                 idr_publicData =
                   \<lparr>idp_userCommitmentHex = bytes_hex userCommitmentBE, idp_ownerCommitmentHex = bytes_hex ownerBE,
                    idp_ownerCommitmentDecimal = bigint_toString (identity_owner L seed),
                    idp_rootKeyPubkeyBase58 = enc (uc_rootKeyPubkey inputs)\<rparr>,
                 idr_previews =
                   \<lparr>idv_masterSeedFingerprint = bytes_hex (take 6 seed),
                    idv_spendingKeyFingerprint = take 12 (nat_hex (nat spendingKey)),
                    idv_viewingKeyFingerprint = take 12 (nat_hex (nat viewingKey))\<rparr>\<rparr>)))))))"

section \<open>register-wallet\<close>

record wallet_proof_hex =
  wph_piAHex :: "string option"
  wph_piBHex :: "string option"
  wph_piCHex :: "string option"

record register_body =
  rgb_phantomSignatureBase58 :: "string option"
  rgb_ownerPubkeyBase58 :: "string option"
  rgb_proof :: "wallet_proof_hex option"

record register_reply =
  rgr_alreadyRegistered :: bool
  rgr_walletPdaBase58 :: string
  rgr_instruction :: "InstructionJson option"
  rgr_userCommitmentHex :: string
  rgr_ownerCommitmentHex :: string

definition register_hexToBytes :: "string option \<Rightarrow> js_error + bytes" where
  "register_hexToBytes hex =
     (case hex of None \<Rightarrow> Inl (undefined_error ''startsWith'')
      | Some s \<Rightarrow>
          let h = strip_0x s in
          if length h mod 2 \<noteq> 0 then Inl (newError ''invalid hex length'') else Inr (hex_decode h))"

definition bad_proof_sizes :: "bytes \<Rightarrow> bytes \<Rightarrow> bytes \<Rightarrow> string" where
  "bad_proof_sizes a b c =
     ''bad proof sizes: piA '' @ nat_toString (length a) @ '' piB '' @ nat_toString (length b) @ '' piC '' @ nat_toString (length c)"

text \<open>A wallet that exists is not created again.\<close>

definition register_instruction ::
    "lib \<Rightarrow> BuildCreateWalletParams \<Rightarrow> account_info option \<Rightarrow> js_error + InstructionJson option" where
  "register_instruction L params existing =
     (if existing \<noteq> None then Inr None
      else rbind (buildCreateWalletInstruction L params) (\<lambda>ix. Inr (Some (instructionToJson L ix))))"

definition register_wallet_POST :: "lib \<Rightarrow> 'w demo \<Rightarrow> register_body \<Rightarrow> 'w \<Rightarrow> register_reply reply \<times> 'w" where
  "register_wallet_POST L M body = route (
     if absent (rgb_phantomSignatureBase58 body) \<or> absent (rgb_ownerPubkeyBase58 body)
        \<or> (case rgb_proof body of None \<Rightarrow> True | Some p \<Rightarrow> absent (wph_piAHex p))
     then bad_request ''missing phantomSignatureBase58, ownerPubkeyBase58, or proof''
     else
     let D = dm_decoders M; W = dm_wallet M; p = the (rgb_proof body) in
     io_bind (io_of (verifyPhantomSeedSignature L D W (the (rgb_phantomSignatureBase58 body)) (the (rgb_ownerPubkeyBase58 body)))) (\<lambda>vo.
     let seed = vo_seed vo in
     io_bind (io_of (identity_inputs L W seed)) (\<lambda>inputs.
     io_bind (io_of (userCommitmentFromKeys L inputs)) (\<lambda>userCommitmentBE.
     io_bind (io_of (register_hexToBytes (wph_piAHex p))) (\<lambda>a.
     io_bind (io_of (register_hexToBytes (wph_piBHex p))) (\<lambda>b.
     io_bind (io_of (register_hexToBytes (wph_piCHex p))) (\<lambda>c.
     if length a \<noteq> 64 \<or> length b \<noteq> 128 \<or> length c \<noteq> 64 then bad_request (bad_proof_sizes a b c)
     else
     io_bind (io_of (resolveRepoRoot (dm_host M))) (\<lambda>repoRoot.
     io_bind (io_of (loadDemoE2eConfig (dm_host M) repoRoot)) (\<lambda>cfg.
     io_bind (io_of (parseDemoPrograms D cfg)) (\<lambda>programs.
     io_bind (io_of (getDemoConnections M cfg)) (\<lambda>conns.
     io_bind (io_of (publicKeyOf D (rgb_ownerPubkeyBase58 body))) (\<lambda>owner.
     io_bind (io_of (walletEntryPda L (pr_vaultProgramId programs) userCommitmentBE)) (\<lambda>(walletPda, _).
     io_bind (rpc_getAccountInfo (dcn_l1 conns) walletPda) (\<lambda>existing.
     io_bind (io_of (register_instruction L \<lparr>cw_programId = pr_vaultProgramId programs, cw_owner = owner,
       cw_commitment = userCommitmentBE, cw_proof = \<lparr>piA = a, piB = b, piC = c\<rparr>\<rparr> existing)) (\<lambda>ix.
     io_bind (io_of (bn254ToBE32 (identity_owner L seed))) (\<lambda>ownerBE.
     io_return (ReplyOk \<lparr>rgr_alreadyRegistered = (existing \<noteq> None), rgr_walletPdaBase58 = pubkey_toBase58 L walletPda,
       rgr_instruction = ix, rgr_userCommitmentHex = bytes_hex userCommitmentBE, rgr_ownerCommitmentHex = bytes_hex ownerBE\<rparr>)))))))))))))))))"

section \<open>airdrop\<close>

text \<open>\<open>Number(n)\<close> of a bigint: the nearest double, ties to the even significand; from \<open>2 ^ 1024 - 2 ^ 970\<close> on it is
  \<open>Infinity\<close>, which the instruction cannot encode.\<close>

definition bigint_toNumber :: "int \<Rightarrow> js_error + int" where
  "bigint_toNumber n =
     (let a = nat \<bar>n\<bar>; k = floorlog 2 a - 53; q = a div 2 ^ k; r = a mod 2 ^ k;
          q' = (if 2 * r > 2 ^ k \<or> 2 * r = 2 ^ k \<and> odd q then q + 1 else q)
      in if q' * 2 ^ k \<ge> 2 ^ 1024
         then Inl (newError ''The number Infinity cannot be converted to a BigInt because it is not an integer'')
         else Inr (sgn n * int (q' * 2 ^ k)))"

record airdrop_body =
  adb_phantomSignatureBase58 :: "string option"
  adb_ownerPubkeyBase58 :: "string option"
  adb_baseAmount :: "string option"
  adb_quoteAmount :: "string option"

record AirdropPreview =
  adr_signature :: string
  adr_baseAta :: string
  adr_quoteAta :: string
  adr_baseAmount :: string
  adr_quoteAmount :: string

text \<open>\<open>a ?? process.env.X ?? d\<close>.\<close>

definition env_default :: "host \<Rightarrow> string option \<Rightarrow> string \<Rightarrow> string \<Rightarrow> string" where
  "env_default H given name dflt =
     (case given of Some s \<Rightarrow> s | None \<Rightarrow> (case host_env H name of Some s \<Rightarrow> s | None \<Rightarrow> dflt))"

definition airdrop_POST :: "lib \<Rightarrow> 'w demo \<Rightarrow> airdrop_body \<Rightarrow> 'w \<Rightarrow> AirdropPreview reply \<times> 'w" where
  "airdrop_POST L M body = route (
     if absent (adb_phantomSignatureBase58 body) \<or> absent (adb_ownerPubkeyBase58 body) then bad_request ''missing session fields''
     else
     let D = dm_decoders M; W = dm_wallet M; H = dm_host M in
     io_bind (io_of (verifyPhantomSeedSignature L D W (the (adb_phantomSignatureBase58 body)) (the (adb_ownerPubkeyBase58 body)))) (\<lambda>_.
     io_bind (io_of (js_BigInt (env_default H (adb_baseAmount body) ''DEMO_USER_AIRDROP_BASE'' ''1000000000''))) (\<lambda>baseAmt.
     io_bind (io_of (js_BigInt (env_default H (adb_quoteAmount body) ''DEMO_USER_AIRDROP_QUOTE'' ''1000000000''))) (\<lambda>quoteAmt.
     io_bind (io_of (resolveRepoRoot H)) (\<lambda>repoRoot.
     io_bind (io_of (loadDemoE2eConfig H repoRoot)) (\<lambda>cfg.
     io_bind (io_of (getDemoConnections M cfg)) (\<lambda>conns.
     io_bind (io_of (parseDemoPrograms D cfg)) (\<lambda>programs.
     io_bind (io_of (loadDemoAdminKeypair H D W repoRoot)) (\<lambda>admin.
     io_bind (io_of (publicKeyOf D (adb_ownerPubkeyBase58 body))) (\<lambda>owner.
     io_bind (io_of (getAssociatedTokenAddress W (pr_baseMint programs) owner)) (\<lambda>baseAta.
     io_bind (io_of (getAssociatedTokenAddress W (pr_quoteMint programs) owner)) (\<lambda>quoteAta.
     io_bind (io_of (bigint_toNumber baseAmt)) (\<lambda>baseNumber.
     io_bind (io_of (bigint_toNumber quoteAmt)) (\<lambda>quoteNumber.
     io_bind (rpc_sendAndConfirm (dcn_l1 conns)
       [createAtaIdempotent W (kp_publicKey admin) baseAta owner (pr_baseMint programs),
        createAtaIdempotent W (kp_publicKey admin) quoteAta owner (pr_quoteMint programs),
        createMintTo W (pr_baseMint programs) baseAta (kp_publicKey admin) baseNumber,
        createMintTo W (pr_quoteMint programs) quoteAta (kp_publicKey admin) quoteNumber] [admin]) (\<lambda>sig.
     io_return (ReplyOk \<lparr>adr_signature = sig, adr_baseAta = pubkey_toBase58 L baseAta, adr_quoteAta = pubkey_toBase58 L quoteAta,
       adr_baseAmount = bigint_toString baseAmt, adr_quoteAmount = bigint_toString quoteAmt\<rparr>))))))))))))))))"

section \<open>The identity panel\<close>

datatype Phase = PhaseIdle | PhaseSigning | PhaseDeriving | PhaseProving | PhaseAirdropping | PhaseReady | PhaseError

record ProofPreview =
  pp_piAHex :: string
  pp_piBHex :: string
  pp_piCHex :: string
  pp_publicInputCount :: nat

record IdentityState =
  ids_ownerPubkey :: string
  ids_signatureBase58 :: string
  ids_derived :: DeriveResponse
  ids_proof :: ProofPreview
  ids_airdrop :: "AirdropPreview option"
  ids_airdropError :: "string option"

record identity_panel =
  ip_phase :: Phase
  ip_error :: "string option"
  ip_identity :: "IdentityState option"

record 'w identity_browser = "'w browser" +
  ib_signMessage :: "(bytes \<Rightarrow> ('w, js_error, bytes) io) option"
  ib_bs58_encode :: "bytes \<Rightarrow> string"
  ib_walletCreate_prove :: "WalletCreateInputs \<Rightarrow> ('w, js_error, Groth16ProofBytes) io"
  ib_stringify :: "json \<Rightarrow> string"
  ib_setItem :: "string \<Rightarrow> string \<Rightarrow> ('w, js_error, unit) io"
  ib_removeItem :: "string \<Rightarrow> ('w, js_error, unit) io"
  ib_error_page :: string

definition SEED_MESSAGE_TEXT :: string where "SEED_MESSAGE_TEXT = ''NYX_DARKPOOL_SEED_V1''"

definition panel_wallet_inputs :: "wallet_create_json \<Rightarrow> js_error + WalletCreateInputs" where
  "panel_wallet_inputs j =
     rbind (js_BigInt (wcj_userCommitment j)) (\<lambda>uc.
     rbind (js_BigInt (fst (wcj_rootKey j))) (\<lambda>lo.
     rbind (js_BigInt (snd (wcj_rootKey j))) (\<lambda>hi.
     rbind (js_BigInt (wcj_spendingKey j)) (\<lambda>sk.
     rbind (js_BigInt (wcj_viewingKey j)) (\<lambda>vk.
     rbind (js_BigInt (wcj_r0 j)) (\<lambda>r0.
     rbind (js_BigInt (wcj_r1 j)) (\<lambda>r1.
     rbind (js_BigInt (wcj_r2 j)) (\<lambda>r2.
     Inr \<lparr>wc_userCommitment = uc, wc_rootKey = (lo, hi), wc_spendingKey = sk, wc_viewingKey = vk, wc_r0 = r0, wc_r1 = r1, wc_r2 = r2\<rparr>))))))))"

text \<open>\<open>fetch\<close> of the identity route: a reply that is not ok is shown with its status and the first 200
  characters of its text.\<close>

definition fetch_identity ::
    "lib \<Rightarrow> 'w demo \<Rightarrow> 'w identity_browser \<Rightarrow> DeriveIdentityRequest \<Rightarrow> ('w, js_error, DeriveResponse) io" where
  "fetch_identity L M B body =
     io_bind (br_network B) (\<lambda>_.
       case derive_identity_POST L (dm_decoders M) (dm_wallet M) (ib_bs58_encode B) (Some body) of
         Inl _ \<Rightarrow> io_throw (newError (''derive-identity HTTP 500: '' @ take 200 (ib_error_page B)))
       | Inr (ReplyError st msg d) \<Rightarrow> io_throw (newError (''derive-identity HTTP '' @ nat_toString st @ '': ''
           @ take 200 (ib_stringify B (JObj [(''ok'', JBool False), (''error'', JStr msg)]))))
       | Inr (ReplyOk r) \<Rightarrow> io_return r)"

definition identity_session :: "string \<Rightarrow> string \<Rightarrow> DeriveResponse \<Rightarrow> Groth16ProofBytes \<Rightarrow> json" where
  "identity_session signatureBase58 owner derived pf =
     JObj [(''phantomSignatureBase58'', JStr signatureBase58), (''ownerPubkeyBase58'', JStr owner),
       (''tradingSecretKeyBase58'', JStr (idr_tradingSecretKeyBase58 derived)),
       (''publicData'', JObj [(''userCommitmentHex'', JStr (idp_userCommitmentHex (idr_publicData derived))),
          (''ownerCommitmentHex'', JStr (idp_ownerCommitmentHex (idr_publicData derived))),
          (''ownerCommitmentDecimal'', JStr (idp_ownerCommitmentDecimal (idr_publicData derived))),
          (''rootKeyPubkeyBase58'', JStr (idp_rootKeyPubkeyBase58 (idr_publicData derived)))]),
       (''proof'', JObj [(''piAHex'', JStr (bytes_hex (gp_piA pf))), (''piBHex'', JStr (bytes_hex (gp_piB pf))), (''piCHex'', JStr (bytes_hex (gp_piC pf)))])]"

definition drift_error :: "string \<Rightarrow> string \<Rightarrow> js_error" where
  "drift_error server circuit = newError (''userCommitment drift: server='' @ server @ '' circuit='' @ circuit)"

definition proof_input_hex :: "Groth16ProofBytes \<Rightarrow> js_error + string" where
  "proof_input_hex pf =
     (case gp_publicInputs pf of [] \<Rightarrow> Inl (newError ''undefined is not iterable (cannot read property Symbol(Symbol.iterator))'')
      | x # _ \<Rightarrow> Inr (bytes_hex x))"

definition set_phase :: "Phase \<Rightarrow> (identity_panel \<times> 'w, js_error, unit) io" where
  "set_phase ph pw = (Inr (), ((fst pw) \<lparr>ip_phase := ph\<rparr>, snd pw))"

definition at_world :: "('w, js_error, 'a) io \<Rightarrow> (identity_panel \<times> 'w, js_error, 'a) io" where
  "at_world m pw = (case m (snd pw) of (r, w') \<Rightarrow> (r, (fst pw, w')))"

text \<open>The \<open>try\<close> around the airdrop: its failure is only shown.\<close>

definition identity_airdrop ::
    "lib \<Rightarrow> 'w demo \<Rightarrow> 'w identity_browser \<Rightarrow> string \<Rightarrow> string \<Rightarrow> ('w, js_error, AirdropPreview option \<times> string option) io" where
  "identity_airdrop L M B signatureBase58 owner =
     io_catch
       (io_bind (br_network B) (\<lambda>_ w.
          case airdrop_POST L M \<lparr>adb_phantomSignatureBase58 = Some signatureBase58, adb_ownerPubkeyBase58 = Some owner,
              adb_baseAmount = None, adb_quoteAmount = None\<rparr> w of
            (ReplyError st msg d, w') \<Rightarrow> (Inr (None, Some msg), w')
          | (ReplyOk r, w') \<Rightarrow> (Inr (if adr_signature r = [] then (None, Some ''HTTP 200'') else (Some r, None)), w')))
       (\<lambda>e. io_return (None, Some (err_message e)))"

definition identity_steps ::
    "lib \<Rightarrow> 'w demo \<Rightarrow> 'w identity_browser \<Rightarrow> string \<Rightarrow> (bytes \<Rightarrow> ('w, js_error, bytes) io) \<Rightarrow> (identity_panel \<times> 'w, js_error, unit) io" where
  "identity_steps L M B owner signMessage =
     io_bind (set_phase PhaseSigning) (\<lambda>_.
     io_bind (at_world (signMessage (utf8 SEED_MESSAGE_TEXT))) (\<lambda>sig.
     let signatureBase58 = ib_bs58_encode B sig in
     io_bind (set_phase PhaseDeriving) (\<lambda>_.
     io_bind (at_world (fetch_identity L M B
       \<lparr>dib_phantomSignatureBase58 = Some signatureBase58, dib_ownerPubkeyBase58 = Some owner\<rparr>)) (\<lambda>derived.
     io_bind (set_phase PhaseProving) (\<lambda>_.
     io_bind (io_of (panel_wallet_inputs (idr_walletCreateInputs derived))) (\<lambda>inputs.
     io_bind (at_world (ib_walletCreate_prove B inputs)) (\<lambda>pf.
     io_bind (io_of (proof_input_hex pf)) (\<lambda>publicInputHex.
     if publicInputHex \<noteq> idp_userCommitmentHex (idr_publicData derived)
     then io_throw (drift_error (idp_userCommitmentHex (idr_publicData derived)) publicInputHex)
     else
     io_bind (at_world (io_catch (ib_setItem B NYX_DAPP_SESSION_KEY
       (ib_stringify B (identity_session signatureBase58 owner derived pf))) (\<lambda>_. io_return ()))) (\<lambda>_.
     io_bind (set_phase PhaseAirdropping) (\<lambda>_.
     io_bind (at_world (identity_airdrop L M B signatureBase58 owner)) (\<lambda>(airdrop, airdropError) pw.
     (Inr (), ((fst pw) \<lparr>ip_phase := PhaseReady,
       ip_identity := Some \<lparr>ids_ownerPubkey = owner, ids_signatureBase58 = signatureBase58, ids_derived = derived,
         ids_proof = \<lparr>pp_piAHex = bytes_hex (gp_piA pf), pp_piBHex = bytes_hex (gp_piB pf), pp_piCHex = bytes_hex (gp_piC pf),
           pp_publicInputCount = length (gp_publicInputs pf)\<rparr>,
         ids_airdrop = airdrop, ids_airdropError = airdropError\<rparr>\<rparr>, snd pw)))))))))))))"

definition identity_run :: "lib \<Rightarrow> 'w demo \<Rightarrow> 'w identity_browser \<Rightarrow> identity_panel \<times> 'w \<Rightarrow> identity_panel \<times> 'w" where
  "identity_run L M B pw =
     (case (br_connectedOwner B, ib_signMessage B) of
        (Some owner, Some signMessage) \<Rightarrow>
          (case identity_steps L M B owner signMessage ((fst pw) \<lparr>ip_error := None, ip_identity := None\<rparr>, snd pw) of
             (Inr _, qw) \<Rightarrow> qw
           | (Inl e, qw) \<Rightarrow> ((fst qw) \<lparr>ip_error := Some (err_message e), ip_phase := PhaseError\<rparr>, snd qw))
      | _ \<Rightarrow> ((fst pw) \<lparr>ip_error := Some ''Connected wallet does not support signMessage. Try Phantom on devnet.'',
                ip_phase := PhaseError\<rparr>, snd pw))"

definition identity_reset :: "'w identity_browser \<Rightarrow> identity_panel \<times> 'w \<Rightarrow> identity_panel \<times> 'w" where
  "identity_reset B pw =
     ((fst pw) \<lparr>ip_identity := None, ip_phase := PhaseIdle, ip_error := None\<rparr>, snd (ib_removeItem B NYX_DAPP_SESSION_KEY (snd pw)))"

text \<open>The request of \<open>runRegister\<close> in \<open>dapp-trade-flow-panel.tsx\<close>.\<close>

definition register_request :: "json \<Rightarrow> register_body" where
  "register_request s =
     \<lparr>rgb_phantomSignatureBase58 = session_string s ''phantomSignatureBase58'', rgb_ownerPubkeyBase58 = session_string s ''ownerPubkeyBase58'',
      rgb_proof = (case jget s ''proof'' of
         Inr (Some p) \<Rightarrow> Some \<lparr>wph_piAHex = session_string p ''piAHex'', wph_piBHex = session_string p ''piBHex'', wph_piCHex = session_string p ''piCHex''\<rparr>
       | _ \<Rightarrow> None)\<rparr>"

section \<open>Lemmas\<close>

text \<open>Documented behaviour of the libraries: \<open>bs58.decode\<close> reads back what \<open>bs58.encode\<close> wrote, and
  \<open>Keypair.fromSecretKey\<close> takes the secret key of tweetnacl's key pair and has its public key.\<close>

definition bs58_inverse :: "decoders \<Rightarrow> (bytes \<Rightarrow> string) \<Rightarrow> bool" where
  "bs58_inverse D enc \<longleftrightarrow> (\<forall>b. bs58_decode D (enc b) = Inr b)"

definition nacl_keypairs :: "wallet_lib \<Rightarrow> bool" where
  "nacl_keypairs W \<longleftrightarrow>
     (\<forall>s pk sk. nacl_fromSeed W s = Inr (pk, sk) \<longrightarrow> (\<exists>kp. Keypair_fromSecretKey W sk = Inr kp \<and> toBytes (kp_publicKey kp) = pk))"

lemma userCommitment_valid:
  assumes "poseidon_canonical L" and "userCommitmentFromKeys L u = Inr cm" and "pubkeyToFrPair (uc_rootKeyPubkey u) = Inr (lo, hi)"
  shows "ValidWalletCreate L \<lparr>wc_userCommitment = be_to_int cm, wc_rootKey = (lo, hi), wc_spendingKey = uc_spendingKey u,
       wc_viewingKey = uc_viewingKey u, wc_r0 = uc_r0 u, wc_r1 = uc_r1 u, wc_r2 = uc_r2 u\<rparr>"
    and "length cm = 32"
  using assms by (auto simp: userCommitmentFromKeys_def ValidWalletCreate_def Let_def bn254ToBE32_Inr_iff rbind_eq_Inr split: if_splits)

lemma session_trading_key_derived:
  assumes "bs58_inverse D enc" and "nacl_keypairs W" and "nacl_fromSeed W (secretKey (deriveTradingKeyAtOffset L seed 0)) = Inr (pk, sk)"
  obtains kp where "session_trading_key L D W seed (enc sk) = Inr (Some kp)" and "toBytes (kp_publicKey kp) = pk"
proof -
  obtain kp where kp: "Keypair_fromSecretKey W sk = Inr kp" "toBytes (kp_publicKey kp) = pk"
    using assms(2,3) unfolding nacl_keypairs_def by blast
  then have "session_trading_key L D W seed (enc sk) = Inr (Some kp)"
    using assms(1,3) by (simp add: session_trading_key_def keypairFromSeed_def bs58_inverse_def)
  then show ?thesis using kp(2) by (rule that)
qed

lemma derive_identity_okE:
  assumes "derive_identity_POST L D W enc (Some b) = Inr (ReplyOk r)"
  obtains vo u tpk tsk cm lo hi ob where
    "verifyPhantomSeedSignature L D W (the (dib_phantomSignatureBase58 b)) (the (dib_ownerPubkeyBase58 b)) = Inr vo"
    "identity_inputs L W (vo_seed vo) = Inr u"
    "nacl_fromSeed W (secretKey (deriveTradingKeyAtOffset L (vo_seed vo) 0)) = Inr (tpk, tsk)"
    "userCommitmentFromKeys L u = Inr cm" "pubkeyToFrPair (uc_rootKeyPubkey u) = Inr (lo, hi)"
    "bn254ToBE32 (identity_owner L (vo_seed vo)) = Inr ob"
    "panel_wallet_inputs (idr_walletCreateInputs r) = Inr \<lparr>wc_userCommitment = be_to_int cm, wc_rootKey = (lo, hi),
       wc_spendingKey = uc_spendingKey u, wc_viewingKey = uc_viewingKey u, wc_r0 = uc_r0 u, wc_r1 = uc_r1 u, wc_r2 = uc_r2 u\<rparr>"
    "idr_tradingPublicKeyBase58 r = enc tpk" "idr_tradingSecretKeyBase58 r = enc tsk"
    "idp_userCommitmentHex (idr_publicData r) = bytes_hex cm" "idp_ownerCommitmentHex (idr_publicData r) = bytes_hex ob"
    "idp_ownerCommitmentDecimal (idr_publicData r) = bigint_toString (identity_owner L (vo_seed vo))"
proof -
  obtain vo where vo: "verifyPhantomSeedSignature L D W (the (dib_phantomSignatureBase58 b)) (the (dib_ownerPubkeyBase58 b)) = Inr vo"
    using assms by (auto simp: derive_identity_POST_def split: if_splits sum.splits)
  have "\<exists>u tpk tsk cm lo hi ob. identity_inputs L W (vo_seed vo) = Inr u
      \<and> nacl_fromSeed W (secretKey (deriveTradingKeyAtOffset L (vo_seed vo) 0)) = Inr (tpk, tsk)
      \<and> userCommitmentFromKeys L u = Inr cm \<and> pubkeyToFrPair (uc_rootKeyPubkey u) = Inr (lo, hi)
      \<and> bn254ToBE32 (identity_owner L (vo_seed vo)) = Inr ob
      \<and> idr_walletCreateInputs r = \<lparr>wcj_userCommitment = bigint_toString (be_to_int cm), wcj_rootKey = (bigint_toString lo, bigint_toString hi),
          wcj_spendingKey = bigint_toString (uc_spendingKey u), wcj_viewingKey = bigint_toString (uc_viewingKey u),
          wcj_r0 = bigint_toString (uc_r0 u), wcj_r1 = bigint_toString (uc_r1 u), wcj_r2 = bigint_toString (uc_r2 u)\<rparr>
      \<and> idr_tradingPublicKeyBase58 r = enc tpk \<and> idr_tradingSecretKeyBase58 r = enc tsk
      \<and> idp_userCommitmentHex (idr_publicData r) = bytes_hex cm \<and> idp_ownerCommitmentHex (idr_publicData r) = bytes_hex ob
      \<and> idp_ownerCommitmentDecimal (idr_publicData r) = bigint_toString (identity_owner L (vo_seed vo))"
    using assms by (clarsimp simp: derive_identity_POST_def vo Let_def rbind_eq_Inr split: if_splits) (auto simp: identity_inputs_def rbind_eq_Inr)
  then show ?thesis
    by (elim exE conjE) (rule that [OF vo], assumption+, simp_all add: panel_wallet_inputs_def)
qed

text \<open>What a run of the panel that got through did.\<close>

lemma at_world_okE: "at_world m pw = (Inr x, qw) \<Longrightarrow> (\<And>w'. m (snd pw) = (Inr x, w') \<Longrightarrow> qw = (fst pw, w') \<Longrightarrow> P) \<Longrightarrow> P"
  by (auto simp: at_world_def split: prod.splits)

lemma set_phase_okE: "set_phase ph pw = (Inr x, qw) \<Longrightarrow> (qw = ((fst pw) \<lparr>ip_phase := ph\<rparr>, snd pw) \<Longrightarrow> P) \<Longrightarrow> P"
  by (auto simp: set_phase_def)

lemma fetch_identity_ok:
  "fetch_identity L M B body w = (Inr r, w') \<Longrightarrow>
     derive_identity_POST L (dm_decoders M) (dm_wallet M) (ib_bs58_encode B) (Some body) = Inr (ReplyOk r)"
  unfolding fetch_identity_def by (erule io_bind_okE) (auto split: sum.splits reply.splits)

lemma identity_stepsE:
  assumes "identity_steps L M B owner signMessage pw = (Inr (), qw)"
  obtains sig derived inputs pf wA wB wC air where
    "derive_identity_POST L (dm_decoders M) (dm_wallet M) (ib_bs58_encode B)
       (Some \<lparr>dib_phantomSignatureBase58 = Some (ib_bs58_encode B sig), dib_ownerPubkeyBase58 = Some owner\<rparr>) = Inr (ReplyOk derived)"
    "panel_wallet_inputs (idr_walletCreateInputs derived) = Inr inputs"
    "ib_walletCreate_prove B inputs wA = (Inr pf, wB)"
    "proof_input_hex pf = Inr (idp_userCommitmentHex (idr_publicData derived))"
    "map_option ids_derived (ip_identity (fst qw)) = Some derived" "map_option ids_signatureBase58 (ip_identity (fst qw)) = Some (ib_bs58_encode B sig)"
    "io_catch (ib_setItem B NYX_DAPP_SESSION_KEY (ib_stringify B (identity_session (ib_bs58_encode B sig) owner derived pf))) (\<lambda>_. io_return ()) wB = (Inr (), wC)"
    "identity_airdrop L M B (ib_bs58_encode B sig) owner wC = (Inr air, snd qw)"
  using assms unfolding identity_steps_def Let_def
  by (elim io_bind_okE at_world_okE set_phase_okE throw_guard_okE io_of_okE) (clarsimp dest!: fetch_identity_ok split: prod.splits)

lemma register_okE:
  assumes "register_wallet_POST L M body w = (ReplyOk r, w')"
  obtains vo u cm a b c programs owner walletPda existing ix ob where
    "verifyPhantomSeedSignature L (dm_decoders M) (dm_wallet M) (the (rgb_phantomSignatureBase58 body)) (the (rgb_ownerPubkeyBase58 body)) = Inr vo"
    "identity_inputs L (dm_wallet M) (vo_seed vo) = Inr u" "userCommitmentFromKeys L u = Inr cm"
    "register_hexToBytes (wph_piAHex (the (rgb_proof body))) = Inr a" "register_hexToBytes (wph_piBHex (the (rgb_proof body))) = Inr b"
    "register_hexToBytes (wph_piCHex (the (rgb_proof body))) = Inr c" "length a = 64" "length b = 128" "length c = 64"
    "publicKeyOf (dm_decoders M) (rgb_ownerPubkeyBase58 body) = Inr owner"
    "register_instruction L \<lparr>cw_programId = pr_vaultProgramId (programs :: DemoPrograms), cw_owner = owner,
       cw_commitment = cm, cw_proof = \<lparr>piA = a, piB = b, piC = c\<rparr>\<rparr> existing = Inr ix"
    "r = \<lparr>rgr_alreadyRegistered = (existing \<noteq> None), rgr_walletPdaBase58 = pubkey_toBase58 L walletPda,
       rgr_instruction = ix, rgr_userCommitmentHex = bytes_hex cm, rgr_ownerCommitmentHex = bytes_hex ob\<rparr>"
  using assms unfolding register_wallet_POST_def route_ok Let_def
  by (elim reply_elims) clarsimp

lemma createWallet_wire:
  assumes "buildCreateWalletInstruction L p = Inr ix"
  shows "slice (ix_data ix) 8 32 = cw_commitment p" "drop 40 (ix_data ix) = piA (cw_proof p) @ piB (cw_proof p) @ piC (cw_proof p)"
    "signers_of ix = [cw_owner p]"
  using assms
  by (auto simp: buildCreateWalletInstruction_def rbind_eq_Inr serializeProof_def rcat.simps signers_of_def wire_simps split: if_splits)

section \<open>Properties\<close>

text \<open>(C13) What the identity route answers has the form its consumers need: the circuit inputs, as the panel
  parses them, are integers that satisfy \<open>VALID_WALLET_CREATE\<close>; the public commitment is 32 bytes and
  the circuit's public input; the trading secret passes the key check of the order routes for the same
  wallet signature and belongs to the announced public key; and the owner commitment is 32 bytes, the
  one every deposit of this seed uses, the same in hex and decimal.\<close>

theorem derived_identity_valid:
  assumes "derive_identity_POST L D W enc (Some b) = Inr (ReplyOk r)"
    and "poseidon_canonical L" and "bs58_inverse D enc" and "nacl_keypairs W"
  shows "\<exists>vo inputs cm kp.
      verifyPhantomSeedSignature L D W (the (dib_phantomSignatureBase58 b)) (the (dib_ownerPubkeyBase58 b)) = Inr vo
    \<and> panel_wallet_inputs (idr_walletCreateInputs r) = Inr inputs \<and> ValidWalletCreate L inputs
    \<and> idp_userCommitmentHex (idr_publicData r) = bytes_hex cm \<and> length cm = 32 \<and> wc_userCommitment inputs = be_to_int cm
    \<and> session_trading_key L D W (vo_seed vo) (idr_tradingSecretKeyBase58 r) = Inr (Some kp)
    \<and> idr_tradingPublicKeyBase58 r = enc (toBytes (kp_publicKey kp))
    \<and> length (route_hexToBytes (idp_ownerCommitmentHex (idr_publicData r))) = 32
    \<and> be_to_int (route_hexToBytes (idp_ownerCommitmentHex (idr_publicData r))) = identity_owner L (vo_seed vo)
    \<and> js_BigInt (idp_ownerCommitmentDecimal (idr_publicData r)) = Inr (identity_owner L (vo_seed vo))"
proof -
  obtain vo u tpk tsk cm lo hi ob where d:
    "verifyPhantomSeedSignature L D W (the (dib_phantomSignatureBase58 b)) (the (dib_ownerPubkeyBase58 b)) = Inr vo"
    "nacl_fromSeed W (secretKey (deriveTradingKeyAtOffset L (vo_seed vo) 0)) = Inr (tpk, tsk)"
    "userCommitmentFromKeys L u = Inr cm" "pubkeyToFrPair (uc_rootKeyPubkey u) = Inr (lo, hi)"
    "bn254ToBE32 (identity_owner L (vo_seed vo)) = Inr ob"
    "panel_wallet_inputs (idr_walletCreateInputs r) = Inr \<lparr>wc_userCommitment = be_to_int cm, wc_rootKey = (lo, hi),
       wc_spendingKey = uc_spendingKey u, wc_viewingKey = uc_viewingKey u, wc_r0 = uc_r0 u, wc_r1 = uc_r1 u, wc_r2 = uc_r2 u\<rparr>"
    "idr_tradingPublicKeyBase58 r = enc tpk" "idr_tradingSecretKeyBase58 r = enc tsk"
    "idp_userCommitmentHex (idr_publicData r) = bytes_hex cm" "idp_ownerCommitmentHex (idr_publicData r) = bytes_hex ob"
    "idp_ownerCommitmentDecimal (idr_publicData r) = bigint_toString (identity_owner L (vo_seed vo))"
    using assms(1) by (rule derive_identity_okE)
  obtain kp where kp: "session_trading_key L D W (vo_seed vo) (enc tsk) = Inr (Some kp)" "toBytes (kp_publicKey kp) = tpk"
    using session_trading_key_derived [OF assms(3,4) d(2)] .
  have ob: "length ob = 32" "be_to_int ob = identity_owner L (vo_seed vo)"
    using d(5) by (simp_all add: bn254ToBE32_Inr_iff)
  show ?thesis
    using d(1) d(6) userCommitment_valid [OF assms(2) d(3,4)] d(9) kp ob
    by (intro exI [of _ vo] exI [of _ "\<lparr>wc_userCommitment = be_to_int cm, wc_rootKey = (lo, hi),
       wc_spendingKey = uc_spendingKey u, wc_viewingKey = uc_viewingKey u, wc_r0 = uc_r0 u, wc_r1 = uc_r1 u, wc_r2 = uc_r2 u\<rparr>"]
       exI [of _ cm] exI [of _ kp] conjI) (simp_all add: d route_hexToBytes_def)
qed

text \<open>Documented behaviour of \<open>JSON\<close>: the text of a value is not empty and is parsed back to it.\<close>

definition json_roundtrip :: "'w identity_browser \<Rightarrow> bool" where
  "json_roundtrip B \<longleftrightarrow> (\<forall>j. ib_stringify B j \<noteq> [] \<and> br_json_parse B (ib_stringify B j) = Inr j)"

lemma identity_session_members:
  "session_string (identity_session s ow d pf) ''phantomSignatureBase58'' = Some s"
  "session_string (identity_session s ow d pf) ''ownerPubkeyBase58'' = Some ow"
  "session_string (identity_session s ow d pf) ''tradingSecretKeyBase58'' = Some (idr_tradingSecretKeyBase58 d)"
  "register_request (identity_session s ow d pf) = \<lparr>rgb_phantomSignatureBase58 = Some s, rgb_ownerPubkeyBase58 = Some ow,
     rgb_proof = Some \<lparr>wph_piAHex = Some (bytes_hex (gp_piA pf)), wph_piBHex = Some (bytes_hex (gp_piB pf)), wph_piCHex = Some (bytes_hex (gp_piC pf))\<rparr>\<rparr>"
  by (simp_all add: identity_session_def session_string_def json_string_def register_request_def)

lemma identity_session_read:
  assumes "json_roundtrip B" and "br_window B" and "ow \<noteq> []"
    and "br_getItem B NYX_DAPP_SESSION_KEY w = Inr (Some (ib_stringify B (identity_session s ow d pf)))"
  shows "readDappSessionForOwner (browser.truncate B) (Some ow) w = Some (identity_session s ow d pf)"
  using assms
  by (simp add: readDappSessionForOwner_def readDappSession_def browser.truncate_def json_roundtrip_def absent_def identity_session_def)

text \<open>Documented behaviour of \<open>sessionStorage\<close>: an item that was set is read, and neither the network nor the chain touches it.\<close>

definition session_storage :: "'w identity_browser \<Rightarrow> 'w demo \<Rightarrow> bool" where
  "session_storage B M \<longleftrightarrow>
     (\<forall>k v w. \<exists>w'. ib_setItem B k v w = (Inr (), w') \<and> br_getItem B k w' = Inr (Some v))
     \<and> keeps (\<lambda>w k. br_getItem B k w) (br_network B)
     \<and> (\<forall>url c ixs ks. dm_newConnection M url = Inr c \<longrightarrow> keeps (\<lambda>w k. br_getItem B k w) (rpc_sendAndConfirm c ixs ks))"

lemma keeps_of_bind: "(\<And>x. r = Inr x \<Longrightarrow> keeps obs (f x)) \<Longrightarrow> keeps obs (io_bind (io_of r) f)"
  by (cases r) (simp_all add: keeps_def io_bind_def)

lemma airdrop_keeps:
  assumes "\<And>url c ixs ks. dm_newConnection M url = Inr c \<Longrightarrow> keeps obs (rpc_sendAndConfirm c ixs ks)"
  shows "obs (snd (airdrop_POST L M body w)) = obs w"
proof -
  have send: "keeps obs (rpc_sendAndConfirm (dcn_l1 conns) ixs ks)" if "getDemoConnections M cfg = Inr conns" for cfg conns ixs ks
    using that assms by (auto simp: getDemoConnections_def Let_def rbind_eq_Inr)
  have route: "obs (snd (route m w)) = obs w" if "keeps obs m" for m :: "('a, js_error, AirdropPreview reply) io"
    using that by (auto simp: route_def keeps_def split: prod.splits sum.splits) (metis snd_conv)+
  show ?thesis unfolding airdrop_POST_def Let_def bad_request_def
    by (rule route) (intro keeps_if keeps_basic keeps_of_bind keeps_bind send)
qed

lemma identity_airdrop_keeps:
  assumes "session_storage B M" and "identity_airdrop L M B sig ow w = (r, w')"
  shows "br_getItem B k w' = br_getItem B k w"
proof -
  let ?obs = "\<lambda>w k. br_getItem B k w"
  have net: "keeps ?obs (br_network B)" using assms(1) by (simp add: session_storage_def)
  have air: "?obs (snd (airdrop_POST L M body v)) = ?obs v" for body v
    using assms(1) by (intro airdrop_keeps) (auto simp: session_storage_def)
  have "keeps ?obs (identity_airdrop L M B sig ow)"
    unfolding identity_airdrop_def
  proof (intro keeps_catch keeps_bind keeps_basic net)
    show "keeps ?obs (\<lambda>v. case airdrop_POST L M \<lparr>adb_phantomSignatureBase58 = Some sig, adb_ownerPubkeyBase58 = Some ow,
              adb_baseAmount = None, adb_quoteAmount = None\<rparr> v of
            (ReplyError st msg d, w') \<Rightarrow> (Inr (None, Some msg), w')
          | (ReplyOk r, w') \<Rightarrow> (Inr (if adr_signature r = [] then (None, Some ''HTTP 200'') else (Some r, None)), w'))"
      unfolding keeps_def using air by (auto split: prod.splits reply.splits) (metis snd_conv)+
  qed
  from fun_cong [OF keepsD [OF this assms(2)]] show ?thesis .
qed

lemma register_hexToBytes_hex [simp]: "register_hexToBytes (Some (bytes_hex x)) = Inr x"
  by (simp add: register_hexToBytes_def)

lemma register_session:
  assumes "register_wallet_POST L M (register_request (identity_session s ow d pf)) v = (ReplyOk r, v')" and "rgr_instruction r = Some j"
    and "verifyPhantomSeedSignature L (dm_decoders M) (dm_wallet M) s ow = Inr vo"
    and "identity_inputs L (dm_wallet M) (vo_seed vo) = Inr u" and "userCommitmentFromKeys L u = Inr cm"
    and "base58_inverse L (dm_decoders M)"
  shows "\<exists>ix pk. instructionFromJson (dm_decoders M) j = Inr ix \<and> publicKeyOf (dm_decoders M) (Some ow) = Inr pk
     \<and> signers_of ix = [pk] \<and> slice (ix_data ix) 8 32 = cm \<and> drop 40 (ix_data ix) = gp_piA pf @ gp_piB pf @ gp_piC pf"
  using assms(1)
proof (rule register_okE, goal_cases)
  case (1 vo' u' cm' a b c programs owner walletPda existing ix ob)
  have "vo' = vo" "u' = u" "cm' = cm" "a = gp_piA pf" "b = gp_piB pf" "c = gp_piC pf"
    using 1(1-6) assms(3-5) by (simp_all add: identity_session_members)
  moreover obtain i where i: "buildCreateWalletInstruction L \<lparr>cw_programId = pr_vaultProgramId programs, cw_owner = owner,
       cw_commitment = cm', cw_proof = \<lparr>piA = a, piB = b, piC = c\<rparr>\<rparr> = Inr i" "j = instructionToJson L i"
    using 1(11,12) assms(2) by (auto simp: register_instruction_def rbind_eq_Inr split: if_splits)
  moreover have "publicKeyOf (dm_decoders M) (Some ow) = Inr owner" using 1(10) by (simp add: identity_session_members)
  ultimately show ?case
    using createWallet_wire [OF i(1)] instruction_json_inverse [OF assms(6), of i] by auto
qed

text \<open>(C12) A run of the identity panel that ends in the phase \<open>ready\<close> has a proof for inputs that satisfy
  \<open>VALID_WALLET_CREATE\<close>, and in a browser whose storage takes items the session of that proof is what is read
  for the connected wallet after the run. Registering with the session builds the instruction of
  exactly this proof: its commitment argument is the public input the browser checked, its proof
  argument the proof, and only the wallet signs.\<close>

theorem stored_session_registers:
  assumes "identity_run L M B (p, w) = (q, w')" and "ip_phase q = PhaseReady"
    and "poseidon_canonical L" and "base58_inverse L (dm_decoders M)" and "json_roundtrip B"
    and "br_window B" and "session_storage B M"
  shows "\<exists>owner sig derived inputs pf wA wB cm s.
      br_connectedOwner B = Some owner \<and> s = identity_session (ib_bs58_encode B sig) owner derived pf
    \<and> map_option ids_derived (ip_identity q) = Some derived
    \<and> panel_wallet_inputs (idr_walletCreateInputs derived) = Inr inputs \<and> ValidWalletCreate L inputs
    \<and> ib_walletCreate_prove B inputs wA = (Inr pf, wB)
    \<and> gp_publicInputs pf \<noteq> [] \<and> hd (gp_publicInputs pf) = cm \<and> be_to_int cm = wc_userCommitment inputs
    \<and> readDappSessionForOwner (browser.truncate B) (br_connectedOwner B) w' = Some s
    \<and> (\<forall>v v' r j. register_wallet_POST L M (register_request s) v = (ReplyOk r, v') \<and> rgr_instruction r = Some j
         \<longrightarrow> (\<exists>ix pk. instructionFromJson (dm_decoders M) j = Inr ix \<and> publicKeyOf (dm_decoders M) (Some owner) = Inr pk
              \<and> signers_of ix = [pk] \<and> slice (ix_data ix) 8 32 = cm \<and> drop 40 (ix_data ix) = gp_piA pf @ gp_piB pf @ gp_piC pf))"
proof -
  obtain owner signMessage where c: "br_connectedOwner B = Some owner" "ib_signMessage B = Some signMessage"
    using assms(1,2) by (auto simp: identity_run_def split: option.splits)
  have "identity_steps L M B owner signMessage (p \<lparr>ip_error := None, ip_identity := None\<rparr>, w) = (Inr (), (q, w'))"
    using assms(1,2) by (auto simp: identity_run_def c split: prod.splits sum.splits)
  then obtain sig derived inputs pf wA wB wC air where s:
    "derive_identity_POST L (dm_decoders M) (dm_wallet M) (ib_bs58_encode B)
       (Some \<lparr>dib_phantomSignatureBase58 = Some (ib_bs58_encode B sig), dib_ownerPubkeyBase58 = Some owner\<rparr>) = Inr (ReplyOk derived)"
    "panel_wallet_inputs (idr_walletCreateInputs derived) = Inr inputs"
    "ib_walletCreate_prove B inputs wA = (Inr pf, wB)"
    "proof_input_hex pf = Inr (idp_userCommitmentHex (idr_publicData derived))"
    "map_option ids_derived (ip_identity (fst (q, w'))) = Some derived"
    "io_catch (ib_setItem B NYX_DAPP_SESSION_KEY (ib_stringify B (identity_session (ib_bs58_encode B sig) owner derived pf))) (\<lambda>_. io_return ()) wB = (Inr (), wC)"
    "identity_airdrop L M B (ib_bs58_encode B sig) owner wC = (Inr air, snd (q, w'))"
    by (rule identity_stepsE)
  let ?s = "identity_session (ib_bs58_encode B sig) owner derived pf"
  obtain w1 where set: "ib_setItem B NYX_DAPP_SESSION_KEY (ib_stringify B ?s) wB = (Inr (), w1)" "br_getItem B NYX_DAPP_SESSION_KEY w1 = Inr (Some (ib_stringify B ?s))"
    using assms(7) unfolding session_storage_def by blast
  have stored: "br_getItem B NYX_DAPP_SESSION_KEY w' = Inr (Some (ib_stringify B ?s))"
    using s(6) set identity_airdrop_keeps [OF assms(7) s(7)] by (simp add: io_catch_def)
  from s(1) show ?thesis
  proof (rule derive_identity_okE, goal_cases)
    case (1 vo u tpk tsk cm lo hi ob)
    have vo: "verifyPhantomSeedSignature L (dm_decoders M) (dm_wallet M) (ib_bs58_encode B sig) owner = Inr vo" using 1(1) by simp
    have pub: "gp_publicInputs pf \<noteq> []" "hd (gp_publicInputs pf) = cm"
      using s(4) 1(10) hex_decode_bytes_hex [of cm] hex_decode_bytes_hex [of "hd (gp_publicInputs pf)"]
      by (auto simp: proof_input_hex_def split: list.splits)
    have inp: "ValidWalletCreate L inputs" "be_to_int cm = wc_userCommitment inputs"
      using 1(7) s(2) userCommitment_valid(1) [OF assms(3) 1(4,5)] by auto
    have ne: "owner \<noteq> []" using s(1) by (auto simp: derive_identity_POST_def absent_def split: if_splits)
    note read = identity_session_read [OF assms(5,6) ne stored] and register = register_session [OF _ _ vo 1(2,4) assms(4)]
    have "readDappSessionForOwner (browser.truncate B) (br_connectedOwner B) w' = Some ?s"
      using read c(1) by simp
    moreover have "\<forall>v v' r j. register_wallet_POST L M (register_request ?s) v = (ReplyOk r, v') \<and> rgr_instruction r = Some j
        \<longrightarrow> (\<exists>ix pk. instructionFromJson (dm_decoders M) j = Inr ix \<and> publicKeyOf (dm_decoders M) (Some owner) = Inr pk
              \<and> signers_of ix = [pk] \<and> slice (ix_data ix) 8 32 = cm \<and> drop 40 (ix_data ix) = gp_piA pf @ gp_piB pf @ gp_piC pf)"
      using register by blast
    ultimately show ?case
      using c(1) s(2,3) s(5) [unfolded fst_conv] pub inp
      by (intro exI [of _ owner] exI [of _ sig] exI [of _ derived] exI [of _ inputs] exI [of _ pf] exI [of _ wA] exI [of _ wB]
          exI [of _ cm] exI [of _ ?s] conjI) (assumption | rule refl)+
  qed
qed

end
