(* ===== verification/Nyx_Demo_Counter.thy ===== *)
theory Nyx_Demo_Counter
  imports Nyx_Demo_Trade Nyx_Demo_Identity "HOL-Library.Sublist"
begin

text \<open>
  The counterparty of the demo (\<open>app/api/dapp/counter-and-match/route.ts\<close> with the client of
  \<open>lib/dapp/persona-client.ts\<close>): it funds a maker, deposits the maker's note, submits the opposite order
  to the rollup, runs the batch, undelegates the market, waits for the batch account to change on L1,
  and settles. The route collects the signatures of its transactions in an array that the \<open>catch\<close> of
  the handler still returns, so a step acts on that array and the world. The wait need not end, so
  the handler is a function into an option.

  \<open>Number(process.env.DEMO_COUNTERPARTY_MINT_UI)\<close> is the parameter \<open>mintAmount\<close>: the amount the mint
  instruction encodes for the text, or the error it throws. Sleeping is the parameter \<open>sleep\<close>.

  Proved: the order it submits for the maker crosses the user's and the program accepts it, backed by the
  note just deposited; what it settles is the match that has the user's note as the buyer's; and the
  labels of the signatures it collects are in the order of the protocol (\<open>adds\<close>). That it answers, and that it
  reports what it sent, is in \<open>Nyx_Demo_Sends\<close>.
\<close>

section \<open>The maker's client\<close>

definition makePersonaDarkPoolClient ::
    "lib \<Rightarrow> 'w rpc \<Rightarrow> string \<Rightarrow> pubkey \<Rightarrow> pubkey \<Rightarrow> keypair \<Rightarrow> persona \<Rightarrow> 'w DarkPoolClient" where
  "makePersonaDarkPoolClient L connection erRpcUrl vaultProgramId meProgramId signer role =
     (let seed = actorSeed L role signer in
      getDarkPoolClient \<lparr>cfg_programId = vaultProgramId, cfg_matchingEngineProgramId = Some meProgramId,
        cfg_seedMode = Csprng \<lparr>ms_load = io_return (Some seed), ms_store = (\<lambda>_. io_return ()), ms_generate = io_return seed\<rparr>,
        cfg_tradingOffset = None, cfg_perRpcUrl = erRpcUrl,
        cfg_providers = \<lparr>pv_getAccountInfo = rpc_getAccountInfo connection,
          pv_sendAndConfirm = (\<lambda>ixs. rpc_sendAndConfirm connection ixs [signer]),
          pv_getInclusionProof = (\<lambda>_. io_throw (newError ''merkleProofProvider not used for persona deposit''))\<rparr>,
        cfg_zkProver = UnimplementedProverSuite (Some ''not needed for deposit''),
        cfg_ownerCommitmentBlinding = (case role of Taker \<Rightarrow> 1111 | Maker \<Rightarrow> 2222)\<rparr>)"

text \<open>A new client has not resolved its seed yet.\<close>

definition with_client :: "('w client_state, js_error, 'a) io \<Rightarrow> ('w, js_error, 'a) io" where
  "with_client m w = (case m \<lparr>cs_resolvedSeed = None, cs_world = w\<rparr> of (r, s) \<Rightarrow> (r, cs_world s))"

section \<open>The signatures\<close>

type_synonym 'w run = "tx_signature list \<times> 'w"

definition in_run :: "('w, js_error, 'a) io \<Rightarrow> ('w run, js_error, 'a) io" where
  "in_run m sw = (case m (snd sw) of (r, w') \<Rightarrow> (r, (fst sw, w')))"

definition push_signature :: "string \<Rightarrow> string \<Rightarrow> string \<Rightarrow> ('w run, js_error, unit) io" where
  "push_signature label sig cluster sw =
     (Inr (), (fst sw @ [\<lparr>txs_label = label, txs_signature = sig, txs_cluster = cluster\<rparr>], snd sw))"

definition send_labelled :: "'w rpc \<Rightarrow> instruction list \<Rightarrow> keypair list \<Rightarrow> string \<Rightarrow> string \<Rightarrow> ('w run, js_error, unit) io" where
  "send_labelled c ixs signers label cluster =
     io_bind (in_run (rpc_sendAndConfirm c ixs signers)) (\<lambda>sig. push_signature label sig cluster)"

section \<open>The handler\<close>

record counter_body =
  cmb_phantomSignatureBase58 :: "string option"
  cmb_ownerPubkeyBase58 :: "string option"
  cmb_tradingSecretKeyBase58 :: "string option"
  cmb_userSlotIdx :: "int option"
  cmb_userSide :: "int option"
  cmb_userAmount :: "string option"
  cmb_userPriceLimit :: "string option"
  cmb_userNoteAmount :: "string option"
  cmb_userNoteCommitmentHex :: "string option"
  cmb_userOwnerCommitmentHex :: "string option"
  cmb_userOrderIdHex :: "string option"
  cmb_userExpirySlot :: "string option"

definition cmb_incomplete :: "counter_body \<Rightarrow> bool" where
  "cmb_incomplete body \<longleftrightarrow>
     absent (cmb_phantomSignatureBase58 body) \<or> absent (cmb_ownerPubkeyBase58 body) \<or> absent (cmb_tradingSecretKeyBase58 body)
     \<or> cmb_userSlotIdx body = None \<or> cmb_userSide body = None \<or> absent (cmb_userAmount body) \<or> absent (cmb_userPriceLimit body)
     \<or> absent (cmb_userNoteAmount body) \<or> absent (cmb_userNoteCommitmentHex body) \<or> absent (cmb_userOwnerCommitmentHex body)
     \<or> absent (cmb_userOrderIdHex body) \<or> cmb_userExpirySlot body = None"

record counter_reply =
  cmr_signatures :: "tx_signature list"
  cmr_makerSlotIdx :: int
  cmr_makerOrderIdHex :: string
  cmr_makerNoteCommitmentHex :: string
  cmr_tradeWithdrawBuyerBase :: buyer_base_note

text \<open>What is known when the market has been undelegated.\<close>

record 'w counter_state =
  cst_conns :: "'w demo_connections"
  cst_programs :: DemoPrograms
  cst_keyring :: DemoKeyring
  cst_seed :: bytes
  cst_makerNoteCommitment :: bytes
  cst_makerSlot :: int
  cst_makerOrderId :: bytes
  cst_makerExpiry :: int
  cst_batchPda :: pubkey
  cst_preHex :: "string option"

definition maker_slots_error :: string where
  "maker_slots_error = ''Maker has all '' @ bigint_toString MAX_PENDING_SLOTS_PER_USER @ '' pending-order slots with live orders. ''
     @ ''Wait for outstanding maker orders to clear or rotate the demo maker keypair.''"

definition MAX_SAFE_INTEGER :: int where "MAX_SAFE_INTEGER = 2 ^ 53 - 1"

text \<open>The mint of test tokens to the maker.\<close>

definition mint_to_maker ::
    "'w demo \<Rightarrow> (string \<Rightarrow> js_error + int) \<Rightarrow> 'w rpc \<Rightarrow> DemoPrograms \<Rightarrow> DemoKeyring \<Rightarrow> pubkey \<Rightarrow> pubkey \<Rightarrow> ('w run, js_error, unit) io" where
  "mint_to_maker M mintAmount l1 programs keyring makerBaseAta makerQuoteAta =
     (let W = dm_wallet M; admin = kp_publicKey (kr_admin keyring); maker = kp_publicKey (kr_maker keyring) in
      io_bind (io_of (mintAmount (env_default (dm_host M) None ''DEMO_COUNTERPARTY_MINT_UI'' ''200000000000''))) (\<lambda>n.
      let mintUi = min n MAX_SAFE_INTEGER in
      send_labelled l1
        [createAtaIdempotent W admin makerBaseAta maker (pr_baseMint programs),
         createAtaIdempotent W admin makerQuoteAta maker (pr_quoteMint programs),
         createMintTo W (pr_baseMint programs) makerBaseAta admin mintUi,
         createMintTo W (pr_quoteMint programs) makerQuoteAta admin mintUi]
        [kr_admin keyring] ''counterparty mint'' ''l1''))"

text \<open>The maker's slot: chosen as in \<open>init-slot\<close>, then created and delegated where needed.\<close>

definition maker_slot ::
    "lib \<Rightarrow> 'w demo_connections \<Rightarrow> DemoPrograms \<Rightarrow> DemoKeyring \<Rightarrow> ('w run, js_error, int) io" where
  "maker_slot L conns programs keyring =
     (let me = pr_meProgramId programs; market = pr_market programs; maker = kr_maker keyring; l1 = dcn_l1 conns in
      io_bind (in_run (slot_loop L l1 (dcn_er conns) me market (kp_publicKey maker) maker_slots_error None slot_indices)) (\<lambda>pick.
      let makerSlot = sp_slotIdx pick in
      io_bind (io_of (pendingOrderPda L me market (kp_publicKey maker) makerSlot)) (\<lambda>(slotPda, _).
      io_bind (in_run (rpc_getAccountInfo l1 slotPda)) (\<lambda>info0.
      io_bind (if info0 = None \<and> sp_needsInit pick
               then io_bind (io_of (buildInitPendingOrderSlotInstruction L \<lparr>ip_programId = me, ip_tradingKey = kp_publicKey maker,
                      ip_market = market, ip_slotIdx = makerSlot\<rparr>)) (\<lambda>ix.
                    io_bind (send_labelled l1 [ix] [maker] ''maker init slot'' ''l1'') (\<lambda>_. in_run (rpc_getAccountInfo l1 slotPda)))
               else io_return info0) (\<lambda>info.
      case info of
        None \<Rightarrow> io_throw (newError ''maker slot missing'')
      | Some i \<Rightarrow>
          io_bind (if ai_owner i = DELEGATION_PROGRAM_ID L then io_return ()
                   else io_bind (io_of (buildDelegatePendingOrderInstruction L \<lparr>dpo_programId = me, dpo_payer = kp_publicKey (kr_funder keyring),
                          dpo_tradingKey = kp_publicKey maker, dpo_market = market, dpo_slotIdx = makerSlot\<rparr>)) (\<lambda>ix.
                        send_labelled l1 [ix] [kr_funder keyring, maker] ''maker delegate slot'' ''l1'')) (\<lambda>_.
          io_return makerSlot))))))"

text \<open>The maker deposits three times what its side of the trade needs: in base when the user bids,
  in quote at the demo's exchange rate when the user asks.\<close>

definition maker_deposit_with ::
    "lib \<Rightarrow> 'w demo \<Rightarrow> 'w demo_connections \<Rightarrow> DemoPrograms \<Rightarrow> DemoKeyring \<Rightarrow> counter_body \<Rightarrow> pubkey \<Rightarrow> pubkey \<Rightarrow> int
      \<Rightarrow> ('w run, js_error, int \<times> DepositReceipt) io" where
  "maker_deposit_with L M conns programs keyring body makerBaseAta makerQuoteAta depNonce =
     (let maker = kr_maker keyring; l1 = dcn_l1 conns; userBidsBase = (cmb_userSide body = Some 0);
          client = makePersonaDarkPoolClient L l1 (dcn_erRpcUrl conns) (pr_vaultProgramId programs) (pr_meProgramId programs) maker Maker in
      io_bind (io_of (js_BigInt (env_default (dm_host M) None ''DEMO_EXCHANGE_QUOTE_PER_BASE'' ''100''))) (\<lambda>quotePerBase.
      io_bind (io_of (js_BigInt (the (cmb_userAmount body)))) (\<lambda>userAmount.
      let depAmount = (if userBidsBase then userAmount * 3 else userAmount * quotePerBase * 3) in
      io_bind (in_run (with_client (getDepositFunction L (dm_randomBytes M) client
        \<lparr>dpp_depositor = kp_publicKey maker,
         dpp_tokenMint = toBytes (if userBidsBase then pr_baseMint programs else pr_quoteMint programs), dpp_amount = depAmount,
         dpp_depositorTokenAccount = (if userBidsBase then makerBaseAta else makerQuoteAta), dpp_nonce = depNonce,
         dpp_tokenProgramId = None, dpp_callbacks = None\<rparr>))) (\<lambda>receipt.
      io_bind (push_signature ''counterparty deposit'' (dr_signature receipt) ''l1'') (\<lambda>_.
      io_return (depAmount, receipt))))))"

definition maker_deposit ::
    "lib \<Rightarrow> 'w demo \<Rightarrow> 'w demo_connections \<Rightarrow> DemoPrograms \<Rightarrow> DemoKeyring \<Rightarrow> counter_body \<Rightarrow> pubkey \<Rightarrow> pubkey
      \<Rightarrow> ('w run, js_error, int \<times> DepositReceipt) io" where
  "maker_deposit L M conns programs keyring body makerBaseAta makerQuoteAta sw =
     maker_deposit_with L M conns programs keyring body makerBaseAta makerQuoteAta (dm_now M (snd sw) + 888888) sw"

text \<open>The order of the maker, sent to the rollup.\<close>

definition maker_order ::
    "lib \<Rightarrow> 'w demo \<Rightarrow> 'w demo_connections \<Rightarrow> DemoPrograms \<Rightarrow> DemoKeyring \<Rightarrow> counter_body \<Rightarrow> int \<Rightarrow> int \<Rightarrow> DepositReceipt
      \<Rightarrow> ('w run, js_error, bytes \<times> int) io" where
  "maker_order L M conns programs keyring body makerSlot depAmount receipt =
     io_bind (io_of (js_BigInt (the (cmb_userAmount body)))) (\<lambda>makerAmount.
     io_bind (io_of (js_BigInt (the (cmb_userPriceLimit body)))) (\<lambda>makerPrice.
     io_bind (in_run (rpc_getSlot (dcn_l1 conns))) (\<lambda>now.
     let expiry = now + 500 in
     io_bind (in_run (dm_randomBytes M 16)) (\<lambda>rnd.
     let orderId = (if list_all (\<lambda>b. b = 0) rnd then rnd[0 := 1] else rnd) in
     io_bind (io_of (bn254ToBE32 (nt_ownerCommitment (dr_notePlaintext receipt)))) (\<lambda>makerOwnerCommitBytes.
     io_bind (io_of (buildSubmitOrderInstruction L
       \<lparr>so_programId = pr_meProgramId programs, so_tradingKey = kp_publicKey (kr_maker keyring), so_market = pr_market programs,
        so_slotIdx = makerSlot, so_side = (if cmb_userSide body = Some 0 then 1 else 0), so_amount = makerAmount, so_priceLimit = makerPrice,
        so_noteAmount = depAmount, so_expirySlot = expiry, so_orderId = orderId, so_noteCommitment = dr_noteCommitment receipt,
        so_userCommitment = makerOwnerCommitBytes, so_orderType = None, so_minFillQty = None\<rparr>)) (\<lambda>keys.
     io_bind (send_labelled (dcn_er conns) [sok_ix keys] [kr_maker keyring] ''counterparty submit_order (PER)'' ''er'') (\<lambda>_.
     io_return (orderId, expiry))))))))"

text \<open>The batch is run over both slots and the market is undelegated.\<close>

definition run_batch_and_undelegate ::
    "lib \<Rightarrow> 'w demo_connections \<Rightarrow> DemoPrograms \<Rightarrow> DemoKeyring \<Rightarrow> pubkey \<Rightarrow> int \<Rightarrow> int \<Rightarrow> ('w run, js_error, pubkey \<times> string option) io" where
  "run_batch_and_undelegate L conns programs keyring userTradingKey userSlotIdx makerSlot =
     (let me = pr_meProgramId programs; market = pr_market programs; er = dcn_er conns in
      io_bind (io_of (pendingOrderPda L me market userTradingKey userSlotIdx)) (\<lambda>(userPda, _).
      io_bind (io_of (pendingOrderPda L me market (kp_publicKey (kr_maker keyring)) makerSlot)) (\<lambda>(makerPda, _).
      io_bind (io_of (batchResultsPda L me market)) (\<lambda>(batchPda, _).
      io_bind (in_run (rpc_getAccountInfo (dcn_l1 conns) batchPda)) (\<lambda>preBatch.
      let preHex = map_option (\<lambda>i. bytes_hex (ai_data i)) preBatch in
      io_bind (io_of (buildRunBatchInstruction L \<lparr>rb_programId = me, rb_vaultProgramId = pr_vaultProgramId programs,
        rb_teeAuthority = kp_publicKey (kr_tee keyring), rb_market = market, rb_pythAccount = pr_pythAccount programs,
        rb_pendingOrderPdas = [userPda, makerPda]\<rparr>)) (\<lambda>runIx.
      io_bind (send_labelled er [runIx] [kr_tee keyring] ''run_batch'' ''er'') (\<lambda>_.
      io_bind (io_of (buildUndelegateMarketInstruction L \<lparr>cm_programId = me, cm_payer = kp_publicKey (kr_funder keyring), cm_market = market\<rparr>)) (\<lambda>undIx.
      io_bind (send_labelled er [undIx] [kr_funder keyring] ''undelegate_market'' ''er'') (\<lambda>_.
      io_return (batchPda, preHex))))))))))"

text \<open>Everything before the wait: \<open>Inl\<close> a reply with status 400.\<close>

definition counter_prepare ::
    "lib \<Rightarrow> 'w demo \<Rightarrow> (string \<Rightarrow> js_error + int) \<Rightarrow> counter_body \<Rightarrow> ('w run, js_error, string + 'w counter_state) io" where
  "counter_prepare L M mintAmount body =
     (if cmb_incomplete body
      then io_return (Inl ''missing counter-and-match fields (need userOrderIdHex + userExpirySlot for L1 settle)'')
      else
      let D = dm_decoders M; W = dm_wallet M in
      io_bind (io_of (verifyPhantomSeedSignature L D W (the (cmb_phantomSignatureBase58 body)) (the (cmb_ownerPubkeyBase58 body)))) (\<lambda>vo.
      io_bind (io_of (session_trading_key L D W (vo_seed vo) (the (cmb_tradingSecretKeyBase58 body)))) (\<lambda>tk.
      if tk = None then io_return (Inl ''trading key mismatch'')
      else
      io_bind (io_of (resolveRepoRoot (dm_host M))) (\<lambda>repoRoot.
      io_bind (io_of (loadDemoE2eConfig (dm_host M) repoRoot)) (\<lambda>cfg.
      io_bind (io_of (getDemoConnections M cfg)) (\<lambda>conns.
      io_bind (io_of (parseDemoPrograms D cfg)) (\<lambda>programs.
      io_bind (io_of (loadDemoKeyring (dm_host M) D W repoRoot)) (\<lambda>keyring.
      let l1 = dcn_l1 conns; maker = kp_publicKey (kr_maker keyring) in
      io_bind (in_run (ensureMarketDelegatedOnL1 L l1 (pr_meProgramId programs) (pr_market programs) (kr_funder keyring))) (\<lambda>_.
      io_bind (in_run (topUpSol W l1 (kr_funder keyring) maker DEFAULT_MIN_LAMPORTS)) (\<lambda>_.
      io_bind (in_run (topUpSol W l1 (kr_funder keyring) (kp_publicKey (kr_admin keyring)) DEFAULT_MIN_LAMPORTS)) (\<lambda>_.
      io_bind (in_run (ensureZeroProtocolFee L l1 (pr_vaultProgramId programs) (kr_admin keyring))) (\<lambda>fee.
      io_bind (if zf_zeroed fee \<and> \<not> absent (zf_signature fee)
               then push_signature ''protocol fees set to 0 for this demo'' (the (zf_signature fee)) ''l1'' else io_return ()) (\<lambda>_.
      io_bind (io_of (getAssociatedTokenAddress W (pr_baseMint programs) maker)) (\<lambda>makerBaseAta.
      io_bind (io_of (getAssociatedTokenAddress W (pr_quoteMint programs) maker)) (\<lambda>makerQuoteAta.
      io_bind (mint_to_maker M mintAmount l1 programs keyring makerBaseAta makerQuoteAta) (\<lambda>_.
      io_bind (maker_deposit L M conns programs keyring body makerBaseAta makerQuoteAta) (\<lambda>(depAmount, receipt).
      io_bind (maker_slot L conns programs keyring) (\<lambda>makerSlot.
      io_bind (maker_order L M conns programs keyring body makerSlot depAmount receipt) (\<lambda>(orderId, expiry).
      io_bind (run_batch_and_undelegate L conns programs keyring (kp_publicKey (the tk)) (the (cmb_userSlotIdx body)) makerSlot) (\<lambda>(batchPda, preHex).
      io_return (Inr \<lparr>cst_conns = conns, cst_programs = programs, cst_keyring = keyring, cst_seed = vo_seed vo,
        cst_makerNoteCommitment = dr_noteCommitment receipt, cst_makerSlot = makerSlot, cst_makerOrderId = orderId,
        cst_makerExpiry = expiry, cst_batchPda = batchPda, cst_preHex = preHex\<rparr>)))))))))))))))))))))"

definition settle_context :: "'w counter_state \<Rightarrow> bytes \<Rightarrow> bytes \<Rightarrow> int \<Rightarrow> 'w TradeL1SettleContext" where
  "settle_context st userNote userOrderId userExpiry =
     \<lparr>tc_l1 = dcn_l1 (cst_conns st), tc_vaultProgramId = pr_vaultProgramId (cst_programs st), tc_baseMint = pr_baseMint (cst_programs st),
      tc_quoteMint = pr_quoteMint (cst_programs st), tc_batchPda = cst_batchPda st, tc_tee = kr_tee (cst_keyring st),
      tc_maker = kr_maker (cst_keyring st), tc_userMasterSeed = cst_seed st, tc_userQuoteNoteCommitment = userNote,
      tc_userOrderId = userOrderId, tc_userExpirySlot = userExpiry, tc_makerNoteCommitment = cst_makerNoteCommitment st,
      tc_makerOrderId = cst_makerOrderId st, tc_makerExpirySlot = cst_makerExpiry st\<rparr>"

text \<open>Everything after the wait.\<close>

definition counter_settle ::
    "lib \<Rightarrow> 'w demo \<Rightarrow> counter_body \<Rightarrow> 'w counter_state \<Rightarrow> ('w run, js_error, string + counter_reply) io" where
  "counter_settle L M body st =
     (let userOrderBytes = route_hexToBytes (the (cmb_userOrderIdHex body));
          userNoteBuyer = route_hexToBytes (the (cmb_userNoteCommitmentHex body)) in
      if length userOrderBytes \<noteq> 16 then io_return (Inl ''userOrderIdHex must be 32 hex chars (16 bytes)'')
      else if length userNoteBuyer \<noteq> 32 then io_return (Inl ''bad userNoteCommitmentHex'')
      else
      io_bind (io_of (js_BigInt (the (cmb_userExpirySlot body)))) (\<lambda>userExpirySlot.
      io_bind (in_run (runTradeL1Settle L (dm_decoders M) (dm_wallet M) (settle_context st userNoteBuyer userOrderBytes userExpirySlot))) (\<lambda>settleOutcome sw.
      let sigs = fst sw @ sr_lockSettleSignatures settleOutcome in
      (Inr (Inr \<lparr>cmr_signatures = sigs, cmr_makerSlotIdx = cst_makerSlot st, cmr_makerOrderIdHex = bytes_hex (cst_makerOrderId st),
         cmr_makerNoteCommitmentHex = bytes_hex (cst_makerNoteCommitment st),
         cmr_tradeWithdrawBuyerBase = sr_buyerBaseNote settleOutcome\<rparr>), (sigs, snd sw)))))"

definition signatures_json :: "tx_signature list \<Rightarrow> json" where
  "signatures_json sigs =
     JList (map (\<lambda>s. JObj [(''label'', JStr (txs_label s)), (''signature'', JStr (txs_signature s)), (''cluster'', JStr (txs_cluster s))]) sigs)"

definition counter_failed :: "js_error \<Rightarrow> 'w run \<Rightarrow> counter_reply reply \<times> 'w" where
  "counter_failed e sw = (ReplyError 500 (err_message e) (Some (signatures_json (fst sw))), snd sw)"

definition counter_polling :: "'w demo \<Rightarrow> (int \<Rightarrow> 'w \<Rightarrow> 'w) \<Rightarrow> 'w rpc \<Rightarrow> 'w polling_env" where
  "counter_polling M sleep l1 =
     \<lparr>env_getAccountInfo = (\<lambda>k. io_bind (rpc_getAccountInfo l1 k) (\<lambda>i. io_return (map_option ai_data i))),
      env_now = dm_now M, env_sleep = sleep\<rparr>"

definition counter_and_match_POST ::
    "lib \<Rightarrow> 'w demo \<Rightarrow> (string \<Rightarrow> js_error + int) \<Rightarrow> (int \<Rightarrow> 'w \<Rightarrow> 'w) \<Rightarrow> counter_body \<Rightarrow> 'w \<Rightarrow> (counter_reply reply \<times> 'w) option" where
  "counter_and_match_POST L M mintAmount sleep body w =
     (case counter_prepare L M mintAmount body ([], w) of
        (Inl e, sw) \<Rightarrow> Some (counter_failed e sw)
      | (Inr (Inl msg), sw) \<Rightarrow> Some (ReplyError 400 msg None, snd sw)
      | (Inr (Inr st), sw) \<Rightarrow>
          (case waitForL1AccountChange L (counter_polling M sleep (dcn_l1 (cst_conns st))) (cst_batchPda st) (cst_preHex st) (Some 90000) (Some 1000) (snd sw) of
             None \<Rightarrow> None
           | Some (Inl e, w2) \<Rightarrow> Some (counter_failed e (fst sw, w2))
           | Some (Inr _, w2) \<Rightarrow>
               (case counter_settle L M body st (fst sw, w2) of
                  (Inl e, sw3) \<Rightarrow> Some (counter_failed e sw3)
                | (Inr (Inl msg), sw3) \<Rightarrow> Some (ReplyError 400 msg None, snd sw3)
                | (Inr (Inr r), sw3) \<Rightarrow> Some (ReplyOk r, snd sw3))))"

section \<open>Lemmas\<close>

lemma in_run_okE: "in_run m sw = (Inr x, tw) \<Longrightarrow> (\<And>w'. m (snd sw) = (Inr x, w') \<Longrightarrow> tw = (fst sw, w') \<Longrightarrow> P) \<Longrightarrow> P"
  by (auto simp: in_run_def split: prod.splits)

lemma refuse_leftE:
  "(if b then io_return (Inl m) else k) s = (Inr (Inr y), u) \<Longrightarrow> (\<not> b \<Longrightarrow> k s = (Inr (Inr y), u) \<Longrightarrow> P) \<Longrightarrow> P"
  by (auto split: if_splits)

lemma send_labelledE:
  "send_labelled c ixs signers label cluster sw = (Inr x, tw) \<Longrightarrow>
     (\<And>sig w'. rpc_sendAndConfirm c ixs signers (snd sw) = (Inr sig, w') \<Longrightarrow> snd tw = w' \<Longrightarrow> P) \<Longrightarrow> P"
  unfolding send_labelled_def by (erule io_bind_okE, erule in_run_okE) (auto simp: push_signature_def)

lemma counter_prepare_okE:
  assumes "counter_prepare L M mintAmount body sw = (Inr (Inr st), tw)"
  obtains vo trading root baseAta quoteAta depAmount receipt sw1 sw2 sw3 sw4 where
    "\<not> cmb_incomplete body" "demo_setup M = Inr (cst_conns st, cst_programs st)"
    "resolveRepoRoot (dm_host M) = Inr root" "loadDemoKeyring (dm_host M) (dm_decoders M) (dm_wallet M) root = Inr (cst_keyring st)"
    "verifyPhantomSeedSignature L (dm_decoders M) (dm_wallet M) (the (cmb_phantomSignatureBase58 body)) (the (cmb_ownerPubkeyBase58 body)) = Inr vo"
    "session_trading_key L (dm_decoders M) (dm_wallet M) (vo_seed vo) (the (cmb_tradingSecretKeyBase58 body)) = Inr (Some trading)"
    "cst_seed st = vo_seed vo"
    "maker_deposit L M (cst_conns st) (cst_programs st) (cst_keyring st) body baseAta quoteAta sw1 = (Inr (depAmount, receipt), sw2)"
    "maker_slot L (cst_conns st) (cst_programs st) (cst_keyring st) sw2 = (Inr (cst_makerSlot st), sw3)"
    "maker_order L M (cst_conns st) (cst_programs st) (cst_keyring st) body (cst_makerSlot st) depAmount receipt sw3
       = (Inr (cst_makerOrderId st, cst_makerExpiry st), sw4)"
    "run_batch_and_undelegate L (cst_conns st) (cst_programs st) (cst_keyring st) (kp_publicKey trading) (the (cmb_userSlotIdx body)) (cst_makerSlot st) sw4
       = (Inr (cst_batchPda st, cst_preHex st), tw)"
    "cst_makerNoteCommitment st = dr_noteCommitment receipt"
  using assms unfolding counter_prepare_def Let_def
  by (elim refuse_leftE io_bind_okE io_of_okE pair_okE io_return_okE) (clarsimp simp: demo_setup_def)

lemma counter_settle_okE:
  assumes "counter_settle L M body st sw = (Inr (Inr r), tw)"
  obtains userExpirySlot res w' where
    "js_BigInt (the (cmb_userExpirySlot body)) = Inr userExpirySlot"
    "runTradeL1Settle L (dm_decoders M) (dm_wallet M) (settle_context st (route_hexToBytes (the (cmb_userNoteCommitmentHex body)))
       (route_hexToBytes (the (cmb_userOrderIdHex body))) userExpirySlot) (snd sw) = (Inr res, w')"
    "snd tw = w'" "length (route_hexToBytes (the (cmb_userOrderIdHex body))) = 16"
    "length (route_hexToBytes (the (cmb_userNoteCommitmentHex body))) = 32"
    "cmr_tradeWithdrawBuyerBase r = sr_buyerBaseNote res" "cmr_signatures r = fst sw @ sr_lockSettleSignatures res"
    "cmr_makerSlotIdx r = cst_makerSlot st" "cmr_makerNoteCommitmentHex r = bytes_hex (cst_makerNoteCommitment st)"
  using assms unfolding counter_settle_def Let_def
  by (elim refuse_leftE io_bind_okE io_of_okE in_run_okE) clarsimp

lemma counter_okE:
  assumes "counter_and_match_POST L M mintAmount sleep body w = Some (ReplyOk r, w')"
  obtains st sw data w2 sw3 where
    "counter_prepare L M mintAmount body ([], w) = (Inr (Inr st), sw)"
    "waitForL1AccountChange L (counter_polling M sleep (dcn_l1 (cst_conns st))) (cst_batchPda st) (cst_preHex st) (Some 90000) (Some 1000) (snd sw)
       = Some (Inr data, w2)"
    "counter_settle L M body st (fst sw, w2) = (Inr (Inr r), sw3)" "snd sw3 = w'"
  using assms
  by (auto simp: counter_and_match_POST_def counter_failed_def split: prod.splits sum.splits option.splits)

lemma with_client_okE:
  "with_client m w = (Inr x, w') \<Longrightarrow> (\<And>s. m \<lparr>cs_resolvedSeed = None, cs_world = w\<rparr> = (Inr x, s) \<Longrightarrow> P) \<Longrightarrow> P"
  by (auto simp: with_client_def split: prod.splits)

lemma deposit_receipt_note:
  assumes "getDepositFunction L rng c p s = (Inr rec, s')"
  shows "noteCommitment L (dr_notePlaintext rec) = Inr (dr_noteCommitment rec)" "nt_amount (dr_notePlaintext rec) = dpp_amount p"
    "nt_tokenMint (dr_notePlaintext rec) = dpp_tokenMint p"
  using assms by (rule deposit_success, simp add: deposit_note_def)+

lemma maker_deposit_okE:
  assumes "maker_deposit L M conns programs keyring body baseAta quoteAta sw = (Inr (depAmount, receipt), tw)"
  obtains quotePerBase userAmount where
    "js_BigInt (env_default (dm_host M) None ''DEMO_EXCHANGE_QUOTE_PER_BASE'' ''100'') = Inr quotePerBase"
    "js_BigInt (the (cmb_userAmount body)) = Inr userAmount"
    "depAmount = (if cmb_userSide body = Some 0 then userAmount * 3 else userAmount * quotePerBase * 3)"
    "noteCommitment L (dr_notePlaintext receipt) = Inr (dr_noteCommitment receipt)" "nt_amount (dr_notePlaintext receipt) = depAmount"
    "nt_tokenMint (dr_notePlaintext receipt) = toBytes (if cmb_userSide body = Some 0 then pr_baseMint programs else pr_quoteMint programs)"
  using assms unfolding maker_deposit_def maker_deposit_with_def Let_def
  by (elim io_bind_okE io_of_okE in_run_okE io_return_okE with_client_okE)
    (frule deposit_receipt_note(1), frule deposit_receipt_note(2), drule deposit_receipt_note(3), simp)

text \<open>An order id of random bytes is never the program's empty one.\<close>

lemma fresh_order_id: "(if list_all (\<lambda>b. b = 0) rnd then rnd[0 := 1] else rnd) \<noteq> zeros 16" for rnd :: bytes
proof (cases "list_all (\<lambda>b. b = 0) rnd")
  case True
  then show ?thesis by (cases rnd) (auto simp: zeros_def Cons_replicate_eq)
next
  case False
  then show ?thesis by (auto simp: zeros_def list_all_iff)
qed

text \<open>The order instruction the maker sent.\<close>

lemma maker_order_okE:
  assumes "maker_order L M conns programs keyring body makerSlot depAmount receipt sw = (Inr (orderId, expiry), tw)"
  obtains makerAmount makerPrice now ownerBytes keys sig w1 w2 where
    "js_BigInt (the (cmb_userAmount body)) = Inr makerAmount" "js_BigInt (the (cmb_userPriceLimit body)) = Inr makerPrice"
    "expiry = now + 500" "bn254ToBE32 (nt_ownerCommitment (dr_notePlaintext receipt)) = Inr ownerBytes"
    "orderId \<noteq> zeros 16"
    "buildSubmitOrderInstruction L
       \<lparr>so_programId = pr_meProgramId programs, so_tradingKey = kp_publicKey (kr_maker keyring), so_market = pr_market programs,
        so_slotIdx = makerSlot, so_side = (if cmb_userSide body = Some 0 then 1 else 0), so_amount = makerAmount, so_priceLimit = makerPrice,
        so_noteAmount = depAmount, so_expirySlot = now + 500, so_orderId = orderId, so_noteCommitment = dr_noteCommitment receipt,
        so_userCommitment = ownerBytes, so_orderType = None, so_minFillQty = None\<rparr> = Inr keys"
    "rpc_sendAndConfirm (dcn_er conns) [sok_ix keys] [kr_maker keyring] w1 = (Inr sig, w2)"
  using assms that unfolding maker_order_def Let_def
  by (elim io_bind_okE io_of_okE in_run_okE io_return_okE send_labelledE) (clarsimp simp: fresh_order_id split del: if_split)

text \<open>How the program handles the maker's order.\<close>

lemma maker_order_handled:
  fixes side0 :: bool
  assumes keys: "buildSubmitOrderInstruction L p = Inr keys" and plain: "so_orderType p = None" "so_minFillQty p = None"
    and side: "so_side p = (if side0 then 1 else 0)" and backed: "so_noteAmount p = (if side0 then so_amount p * 3 else so_amount p * rate * 3)"
    and range: "0 < so_amount p" "0 < so_priceLimit p" "so_priceLimit p < 2 ^ 64" "0 < rate" "so_amount p * rate * 3 < 2 ^ 64"
    and id: "so_orderId p \<noteq> zeros 16"
    and slot: "po_trading_key slot = k" "po_market slot = so_market p" "po_slot_idx slot = so_slotIdx p" "isReusablePendingOrderStatus (po_status slot)"
    and time: "0 \<le> now" "now < so_expirySlot p" "so_expirySlot p < 2 ^ 64"
  shows "submit_order_handler L now k (borshSubmitOrderArgs (drop 8 (ix_data (sok_ix keys)))) slot =
     (if side0 \<or> so_priceLimit p \<le> rate * 3 then Inr (resting_order L now k p slot) else Inl NotionalExceedsNoteValue)"
proof -
  have "so_amount p \<le> so_amount p * rate" using range(1,4) by simp
  then have am: "so_amount p * 3 < 2 ^ 64" "so_amount p < 2 ^ 64" "0 \<le> so_amount p * rate * 3" using range(1,5) by linarith+
  have na: "0 \<le> so_noteAmount p" "so_noteAmount p < 2 ^ 64" using am range(1,5) by (simp_all add: backed)
  have "so_amount p * so_priceLimit p \<le> so_amount p * (rate * 3) \<longleftrightarrow> so_priceLimit p \<le> rate * 3"
    using range(1) by simp
  then have "(if so_side p = 0 then so_amount p * so_priceLimit p else so_amount p) > so_noteAmount p
      \<longleftrightarrow> \<not> (side0 \<or> so_priceLimit p \<le> rate * 3)"
    using range(1) by (auto simp: side backed mult.assoc not_le [symmetric])
  with order_handled [OF keys plain slot(1-3) range(1) am(2) range(2,3) na time(2,1,3) id] slot(4) show ?thesis by simp
qed

lemma counter_matched:
  assumes "counter_settle L M body st sw = (Inr (Inr r), tw)"
  obtains data view mr w4 where
    "account_data (dcn_l1 (cst_conns st)) (cst_batchPda st) ''BatchResults account missing on L1'' (snd sw) = (Inr data, w4)"
    "decodeBatchResults data = Inr view" "mr \<in> set (br_results view)" "mr_status mr = 1"
    "mr_noteBuyer mr = route_hexToBytes (the (cmb_userNoteCommitmentHex body))" "mr_noteSeller mr = cst_makerNoteCommitment st"
    "mr_buyerFeeAmt mr = 0" "mr_sellerFeeAmt mr = 0" "js_BigInt (bb_amount (cmr_tradeWithdrawBuyerBase r)) = Inr (mr_baseAmt mr)"
    "cmr_makerSlotIdx r = cst_makerSlot st" "cmr_makerNoteCommitmentHex r = bytes_hex (cst_makerNoteCommitment st)"
  using assms
proof (rule counter_settle_okE, goal_cases)
  case settle: (1 userExpirySlot res w')
  show ?case using settle(3)
  proof (rule runTradeL1Settle_okE, goal_cases)
    case (1 brData brView mr)
    have "mr \<in> set (br_results brView)" "mr_status mr = 1"
        "mr_noteBuyer mr = route_hexToBytes (the (cmb_userNoteCommitmentHex body))" "mr_noteSeller mr = cst_makerNoteCommitment st"
      using find_in [OF 1(3)] by (simp_all add: is_this_match_def settle_context_def)
    then show ?case
      using settle(1) [of brData] 1(1,2,4,5) 1(23) settle(7-) by (simp add: settle_context_def)
  qed
qed

text \<open>What a step appends to the signatures: \<open>adds ls m\<close> says that, however \<open>m\<close> ends, the new labels are a
  subsequence of \<open>ls\<close>.\<close>

definition adds :: "string list \<Rightarrow> ('w run, js_error, 'a) io \<Rightarrow> bool" where
  "adds ls m \<longleftrightarrow> (\<forall>sw. \<exists>new. fst (snd (m sw)) = fst sw @ new \<and> subseq (map txs_label new) ls)"

lemma adds_bind:
  assumes "adds ls m" and "\<And>x. adds ks (f x)"
  shows "adds (ls @ ks) (io_bind m f)"
  unfolding adds_def
proof
  fix sw
  obtain r tw where m: "m sw = (r, tw)" by (cases "m sw")
  obtain new where new: "fst tw = fst sw @ new" "subseq (map txs_label new) ls"
    using assms(1) m unfolding adds_def by (metis snd_conv)
  show "\<exists>new. fst (snd (io_bind m f sw)) = fst sw @ new \<and> subseq (map txs_label new) (ls @ ks)"
  proof (cases r)
    case (Inl e)
    have "subseq (map txs_label new) (ls @ ks)" using list_emb_append_mono [OF new(2) list_emb_Nil [of _ ks]] by simp
    with new(1) show ?thesis by (auto simp: io_bind_def m Inl)
  next
    case (Inr x)
    obtain new' where "fst (snd (f x tw)) = fst tw @ new'" "subseq (map txs_label new') ks"
      using assms(2) unfolding adds_def by blast
    with new show ?thesis by (auto simp: io_bind_def m Inr intro!: exI [of _ "new @ new'"] list_emb_append_mono)
  qed
qed

lemma adds_quiet: "adds [] (io_of x)" "adds [] (io_return y)" "adds [] (io_throw e)" "adds [] (in_run m)"
  by (auto simp: adds_def in_run_def io_of_def split: prod.splits sum.splits)

lemma adds_quiet_bind: "adds [] m \<Longrightarrow> (\<And>x. adds ks (f x)) \<Longrightarrow> adds ks (io_bind m f)"
  using adds_bind [of "[]" m ks f] by simp

lemma adds_push: "adds [label] (push_signature label sig cluster)"
  by (simp add: adds_def push_signature_def)

lemma adds_send: "adds [label] (send_labelled c ixs signers label cluster)"
  unfolding send_labelled_def by (intro adds_quiet_bind adds_quiet adds_push)

lemma adds_more: "adds [] m \<Longrightarrow> adds ls m"
  unfolding adds_def by (metis list_emb_Nil list_emb_Nil2)

lemma adds_if: "adds ls m \<Longrightarrow> adds ls m' \<Longrightarrow> adds ls (if b then m else m')"
  by simp

lemma adds_pair: "(\<And>a b. adds ls (f a b)) \<Longrightarrow> adds ls (case p of (a, b) \<Rightarrow> f a b)"
  by (cases p) simp

lemma adds_option: "adds ls m \<Longrightarrow> (\<And>a. adds ls (f a)) \<Longrightarrow> adds ls (case x of None \<Rightarrow> m | Some a \<Rightarrow> f a)"
  by (cases x) simp_all

lemma adds_send_bind: "(\<And>x. adds ks (f x)) \<Longrightarrow> adds (label # ks) (io_bind (send_labelled c ixs signers label cluster) f)"
  using adds_bind [OF adds_send [of label c ixs signers cluster]] by simp

lemma adds_of_bind: "(\<And>x. adds ks (f x)) \<Longrightarrow> adds ks (io_bind (io_of y) f)" "(\<And>x. adds ks (f x)) \<Longrightarrow> adds ks (io_bind (in_run m) f)"
  by (rule adds_quiet_bind [OF adds_quiet(1)] adds_quiet_bind [OF adds_quiet(4)], assumption)+

lemma adds_push_bind: "(\<And>x. adds ks (f x)) \<Longrightarrow> adds (label # ks) (io_bind (push_signature label sig cluster) f)"
  using adds_bind [OF adds_push [of label sig cluster]] by simp

lemmas adds_intros = adds_of_bind adds_send_bind adds_push_bind adds_send adds_pair adds_option adds_if adds_quiet

definition counter_labels :: "string list" where
  "counter_labels = [''protocol fees set to 0 for this demo'', ''counterparty mint'', ''counterparty deposit'', ''maker init slot'',
     ''maker delegate slot'', ''counterparty submit_order (PER)'', ''run_batch'', ''undelegate_market'']"

lemma adds_mint: "adds [''counterparty mint''] (mint_to_maker M mintAmount l1 programs keyring a b)"
  unfolding mint_to_maker_def Let_def by (intro adds_intros)

lemma adds_deposit: "adds [''counterparty deposit''] (maker_deposit L M conns programs keyring body a b)"
proof -
  have "adds [''counterparty deposit''] (maker_deposit_with L M conns programs keyring body a b n)" for n
    unfolding maker_deposit_with_def Let_def by (intro adds_intros)
  then show ?thesis by (simp add: adds_def maker_deposit_def)
qed

lemma adds_slot: "adds [''maker init slot'', ''maker delegate slot''] (maker_slot L conns programs keyring)"
proof -
  have split: "adds [''maker init slot'', ''maker delegate slot''] (io_bind m f)"
    if "adds [''maker init slot''] m" "\<And>x. adds [''maker delegate slot''] (f x)" for m f
    using adds_bind [OF that] by simp
  have last: "adds [''maker delegate slot''] (io_bind m f)"
    if "adds [''maker delegate slot''] m" "\<And>x. adds [] (f x)" for m f
    using adds_bind [OF that] by simp
  show ?thesis
    unfolding maker_slot_def Let_def
    by (intro adds_of_bind adds_pair split adds_option)
      (intro adds_intros adds_more [OF adds_quiet(2)] adds_more [OF adds_quiet(3)]
        | rule last, (intro adds_intros adds_more [OF adds_quiet(2)]))+
qed

lemma adds_order: "adds [''counterparty submit_order (PER)''] (maker_order L M conns programs keyring body makerSlot depAmount receipt)"
  unfolding maker_order_def Let_def by (intro adds_intros)

lemma adds_batch: "adds [''run_batch'', ''undelegate_market''] (run_batch_and_undelegate L conns programs keyring k i j)"
  unfolding run_batch_and_undelegate_def Let_def by (intro adds_intros)

lemma adds_prepare: "adds counter_labels (counter_prepare L M mintAmount body)"
proof -
  have fee: "adds (l # ls) (io_bind (if b then push_signature l s c else io_return ()) f)" if "\<And>x. adds ls (f x)" for b s c f l ls
    using adds_bind [OF adds_if [OF adds_push [of l s c] adds_more [OF adds_quiet(2)]] that] by simp
  note mint = adds_bind [OF adds_mint, simplified] and dep = adds_bind [OF adds_deposit, simplified]
    and slot = adds_bind [OF adds_slot, simplified] and ord = adds_bind [OF adds_order, simplified]
    and batch = adds_bind [OF adds_batch, where ks = "[]", simplified]
  show ?thesis
    unfolding counter_prepare_def Let_def counter_labels_def
    by (intro adds_if adds_more [OF adds_quiet(2)] adds_of_bind fee mint dep slot ord batch adds_pair adds_quiet)
qed

section \<open>Properties\<close>

text \<open>A successful answer. The maker sent one order to the rollup, signed by the maker alone: opposite side,
  same amount and price limit as the user's, and as collateral the note the maker just deposited, of
  three times the base amount (user bids) or three times the amount at the demo's exchange rate (user
  asks). The program accepts it in the maker's own slot before it expires, unless the user asks for
  more than three times the exchange rate, when the maker's note does not cover its bid. What was
  settled is a match of the batch with the user's note as the buyer's and the maker's as the
  seller's, whichever side the user is on, without fees, and the note reported to the user has its
  base amount.\<close>

theorem counter_order_crosses:
  assumes "counter_and_match_POST L M mintAmount sleep body w = Some (ReplyOk r, w')"
    and "js_BigInt (the (cmb_userAmount body)) = Inr amount" and "js_BigInt (the (cmb_userPriceLimit body)) = Inr price"
    and "js_BigInt (env_default (dm_host M) None ''DEMO_EXCHANGE_QUOTE_PER_BASE'' ''100'') = Inr rate"
    and "0 < amount" and "0 < price" and "price < 2 ^ 64" and "0 < rate" and "amount * rate * 3 < 2 ^ 64"
  shows "\<exists>conns programs root keyring note cm ix expiry sig w1 w2 data view mr w3 w4.
      demo_setup M = Inr (conns, programs) \<and> resolveRepoRoot (dm_host M) = Inr root
    \<and> loadDemoKeyring (dm_host M) (dm_decoders M) (dm_wallet M) root = Inr keyring
    \<and> rpc_sendAndConfirm (dcn_er conns) [ix] [kr_maker keyring] w1 = (Inr sig, w2) \<and> signers_of ix = [kp_publicKey (kr_maker keyring)]
    \<and> noteCommitment L note = Inr cm \<and> cmr_makerNoteCommitmentHex r = bytes_hex cm
    \<and> nt_amount note = (if cmb_userSide body = Some 0 then amount * 3 else amount * rate * 3)
    \<and> nt_tokenMint note = toBytes (if cmb_userSide body = Some 0 then pr_baseMint programs else pr_quoteMint programs)
    \<and> (\<forall>slot now. po_trading_key slot = kp_publicKey (kr_maker keyring) \<and> po_market slot = pr_market programs
         \<and> po_slot_idx slot = cmr_makerSlotIdx r \<and> isReusablePendingOrderStatus (po_status slot)
         \<and> 0 \<le> now \<and> now < expiry \<and> expiry < 2 ^ 64
       \<longrightarrow> (if cmb_userSide body = Some 0 \<or> price \<le> rate * 3
            then \<exists>slot'. submit_order_handler L now (kp_publicKey (kr_maker keyring)) (borshSubmitOrderArgs (drop 8 (ix_data ix))) slot = Inr slot'
              \<and> po_side slot' = (if cmb_userSide body = Some 0 then 1 else 0) \<and> po_amount slot' = amount \<and> po_price_limit slot' = price
              \<and> po_status slot' = PENDING_STATUS_PENDING \<and> po_collateral_note slot' = cm \<and> po_note_amount slot' = nt_amount note
            else submit_order_handler L now (kp_publicKey (kr_maker keyring)) (borshSubmitOrderArgs (drop 8 (ix_data ix))) slot
              = Inl NotionalExceedsNoteValue))
    \<and> (\<exists>batch. account_data (dcn_l1 conns) batch ''BatchResults account missing on L1'' w3 = (Inr data, w4))
    \<and> decodeBatchResults data = Inr view \<and> mr \<in> set (br_results view) \<and> mr_status mr = 1
    \<and> mr_noteBuyer mr = route_hexToBytes (the (cmb_userNoteCommitmentHex body)) \<and> mr_noteSeller mr = cm
    \<and> mr_buyerFeeAmt mr = 0 \<and> mr_sellerFeeAmt mr = 0
    \<and> js_BigInt (bb_amount (cmr_tradeWithdrawBuyerBase r)) = Inr (mr_baseAmt mr)"
  using assms(1)
proof (rule counter_okE, goal_cases)
  case (1 st sw data w2 sw3)
  show ?case using 1(1)
  proof (rule counter_prepare_okE, goal_cases)
    case prep: (1 vo trading root baseAta quoteAta depAmount receipt sw1 sw2 sw3' sw4)
    show ?case using prep(8)
    proof (rule maker_deposit_okE, goal_cases)
      case dep: (1 rate' amount')
      show ?case using prep(10)
      proof (rule maker_order_okE, goal_cases)
        case ord: (1 makerAmount makerPrice now ownerBytes keys sig w1 w2)
        show ?case using 1(3)
        proof (rule counter_matched, goal_cases)
          case mat: (1 bdata view mr w4)
          let ?ix = "sok_ix keys" and ?k = "kp_publicKey (kr_maker (cst_keyring st))" and ?note = "dr_notePlaintext receipt"
          have am: "makerAmount = amount" "amount' = amount" "makerPrice = price" "rate' = rate"
            using ord(1,2) dep(1,2) assms(2-4) by simp_all
          have signs: "signers_of ?ix = [?k]"
            using buildSubmitOrder_wire(6) [OF ord(6)] by (simp add: signers_of_def meta_def)
          have cm: "cst_makerNoteCommitment st = dr_noteCommitment receipt" by (rule prep(12))
          have handled: "\<forall>slot now. po_trading_key slot = ?k \<and> po_market slot = pr_market (cst_programs st)
              \<and> po_slot_idx slot = cmr_makerSlotIdx r \<and> isReusablePendingOrderStatus (po_status slot)
              \<and> 0 \<le> now \<and> now < cst_makerExpiry st \<and> cst_makerExpiry st < 2 ^ 64
            \<longrightarrow> (if cmb_userSide body = Some 0 \<or> price \<le> rate * 3
              then \<exists>slot'. submit_order_handler L now ?k (borshSubmitOrderArgs (drop 8 (ix_data ?ix))) slot = Inr slot'
                \<and> po_side slot' = (if cmb_userSide body = Some 0 then 1 else 0) \<and> po_amount slot' = amount \<and> po_price_limit slot' = price
                \<and> po_status slot' = PENDING_STATUS_PENDING \<and> po_collateral_note slot' = dr_noteCommitment receipt \<and> po_note_amount slot' = nt_amount ?note
              else submit_order_handler L now ?k (borshSubmitOrderArgs (drop 8 (ix_data ?ix))) slot = Inl NotionalExceedsNoteValue)"
          proof (intro allI impI, elim conjE, goal_cases)
            case (1 slot t)
            show ?case
              using maker_order_handled [OF ord(6), of "cmb_userSide body = Some 0" rate slot ?k t] assms(5-9) 1 ord(3,5) mat(10) dep(3,5)
              by (simp add: am resting_order_def)
          qed
          show ?case
            using prep(2-4) ord(7) signs dep(4) mat(11) [unfolded cm] dep(5) [unfolded dep(3) am] dep(6) handled mat(1-9) [unfolded cm]
            by (intro exI conjI) assumption+
        qed
      qed
    qed
  qed
qed

end
