(* ===== verification/Nyx_Machine.thy ===== *)
theory Nyx_Machine
  imports Main
begin

text \<open>
  State machines in general: what is reachable by the steps of a component, the contract of an invariant
  and the contract of a measure that some step can always decrease. The trade panels of the
  demo and its prover state theirs through these locales.
\<close>

inductive reach :: "('s \<Rightarrow> 'e \<Rightarrow> 's \<Rightarrow> bool) \<Rightarrow> 's \<Rightarrow> 's \<Rightarrow> bool" for step where
  start: "reach step s s"
| move: "reach step s t \<Longrightarrow> step t e u \<Longrightarrow> reach step s u"

lemma reach_step: "step s e t \<Longrightarrow> reach step s t"
  by (rule reach.move [OF reach.start])

lemma reach_trans: "reach step t u \<Longrightarrow> reach step s t \<Longrightarrow> reach step s u"
  by (induction rule: reach.induct) (auto intro: reach.move)

lemma reach_mono: "reach step s t \<Longrightarrow> (\<And>s e t. step s e t \<Longrightarrow> step' s e t) \<Longrightarrow> reach step' s t"
  by (induction rule: reach.induct) (auto intro: reach.start reach.move)

locale machine_invariant =
  fixes step :: "'s \<Rightarrow> 'e \<Rightarrow> 's \<Rightarrow> bool" and good :: "'s \<Rightarrow> bool"
  assumes good_step: "good s \<Longrightarrow> step s e t \<Longrightarrow> good t"
begin

lemma invariant: "reach step s t \<Longrightarrow> good s \<Longrightarrow> good t"
  by (induction rule: reach.induct) (auto intro: good_step)

end

text \<open>While the measure is positive, a step of the machine decreases it.\<close>

locale draining_machine = machine_invariant +
  fixes load :: "'s \<Rightarrow> nat"
  assumes progress: "good s \<Longrightarrow> 0 < load s \<Longrightarrow> \<exists>e t. step s e t \<and> load t < load s"
begin

lemma drains: "good s \<Longrightarrow> \<exists>t. reach step s t \<and> good t \<and> load t = 0"
proof (induction "load s" arbitrary: s rule: less_induct)
  case less
  show ?case
  proof (cases "load s = 0")
    case True
    then show ?thesis using less.prems reach.start [of step s] by (intro exI [of _ s]) simp
  next
    case False
    then obtain e t where t: "step s e t" "load t < load s" using progress [OF less.prems] by blast
    obtain u where u: "reach step t u" "good u" "load u = 0"
      using less.hyps [OF t(2) good_step [OF less.prems t(1)]] by blast
    have "reach step s u" using u(1) reach_step [of step, OF t(1)] by (rule reach_trans)
    with u show ?thesis by (intro exI [of _ u]) simp
  qed
qed

end

end
