(* ===== verification/Nyx_Demo_Flow.thy ===== *)
theory Nyx_Demo_Flow
  imports Nyx_Demo_Counter Nyx_Machine
begin

text \<open>
  The trade flow of the browser (\<open>apps/demo/src/components/dapp/dapp-trade-flow-panel.tsx\<close>): register the
  wallet, get a slot, deposit quote collateral, submit a bid to the rollup, let the counterparty match
  it; with the two routes only it calls, \<open>deposit-prepare\<close> and \<open>token-meta\<close>. A handler works on the
  state of the render it was created in, which is the state before the click because the button is
  disabled while a handler runs. The last step calls a route that need not return, so a click is a
  function into an option. The unawaited refresh of the balances and the rendering are left out;
  sending a signed transaction to the rollup is the field \<open>fb_sendRollup\<close> of the browser.

  Proved: what is known in every step of the flow; that the collateral deposited is the note the
  panel remembers and covers the bid; and that the program accepts the bid the panel sends.
\<close>

section \<open>Routes\<close>

record deposit_prepare_reply =
  dpr_instruction :: InstructionJson
  dpr_leafIndex :: string
  dpr_noteCommitmentHex :: string
  dpr_nonce :: string
  dpr_blindingR :: string
  dpr_ownerCommitmentHex :: string
  dpr_ownerCommitForOrderHex :: string

text \<open>The body has the fields of \<open>private-deposit\<close>.\<close>

definition deposit_prepare_POST :: "lib \<Rightarrow> 'w demo \<Rightarrow> private_deposit_body \<Rightarrow> 'w \<Rightarrow> deposit_prepare_reply reply \<times> 'w" where
  "deposit_prepare_POST L M body = route (
     if absent (pdb_phantomSignatureBase58 body) \<or> absent (pdb_ownerPubkeyBase58 body)
        \<or> absent (pdb_side body) \<or> absent (pdb_amount body)
     then bad_request ''missing phantomSignatureBase58, ownerPubkeyBase58, side, or amount''
     else
     let D = dm_decoders M; W = dm_wallet M in
     io_bind (io_of (verifyPhantomSeedSignature L D W (the (pdb_phantomSignatureBase58 body)) (the (pdb_ownerPubkeyBase58 body)))) (\<lambda>vo.
     io_bind (io_of (js_BigInt (the (pdb_amount body)))) (\<lambda>amount.
     if amount \<le> 0 then bad_request ''amount must be > 0''
     else
     io_bind (\<lambda>w. (case pdb_nonce body of Some n \<Rightarrow> js_BigInt n | None \<Rightarrow> Inr (dm_now M w), w)) (\<lambda>nonce.
     io_bind (io_of (demo_setup M)) (\<lambda>(conns, programs).
     let tokenMint = (if pdb_side body = Some ''base'' then pr_baseMint programs else pr_quoteMint programs) in
     io_bind (vault_info L (dcn_l1 conns) (pr_vaultProgramId programs)) (\<lambda>data.
     io_bind (io_of (getBigUint64 data 104)) (\<lambda>leafIndex.
     let note = private_deposit_note L (vo_seed vo) tokenMint amount nonce leafIndex in
     io_bind (io_of (noteCommitment L note)) (\<lambda>commitment.
     io_bind (io_of (bn254ToBE32 (nt_ownerCommitment note))) (\<lambda>ownerBytes.
     io_bind (io_of (bn254ToBE32 nonce)) (\<lambda>nonceBytes.
     io_bind (io_of (bn254ToBE32 (nt_blindingR note))) (\<lambda>blindingBytes.
     io_bind (io_of (publicKeyOf D (pdb_ownerPubkeyBase58 body))) (\<lambda>depositor.
     io_bind (io_of (getAssociatedTokenAddress W tokenMint depositor)) (\<lambda>ata.
     io_bind (io_of (buildDepositInstruction L
       \<lparr>dp_programId = pr_vaultProgramId programs, dp_depositor = depositor, dp_tokenMint = tokenMint,
        dp_depositorTokenAccount = ata, dp_tokenProgramId = TOKEN_PROGRAM_ID L, dp_amount = amount,
        dp_ownerCommitment = ownerBytes, dp_nonce = nonceBytes, dp_blindingR = blindingBytes\<rparr>)) (\<lambda>ix.
     io_return (ReplyOk
       \<lparr>dpr_instruction = instructionToJson L ix, dpr_leafIndex = bigint_toString leafIndex, dpr_noteCommitmentHex = bytes_hex commitment,
        dpr_nonce = bigint_toString nonce, dpr_blindingR = bigint_toString (nt_blindingR note),
        dpr_ownerCommitmentHex = bytes_hex ownerBytes, dpr_ownerCommitForOrderHex = bytes_hex ownerBytes\<rparr>)))))))))))))))"

record TokenMeta =
  tm_baseDecimals :: "nat option"
  tm_quoteDecimals :: "nat option"
  tm_exchangeQuotePerBaseAtomic :: string
  tm_orderPriceLimit :: string

definition token_meta_GET :: "host \<Rightarrow> TokenMeta reply" where
  "token_meta_GET H = fst (route (
     io_bind (io_of (resolveRepoRoot H)) (\<lambda>repoRoot.
     io_bind (io_of (loadDemoE2eConfig H repoRoot)) (\<lambda>cfg.
     let exchange = env_default H (host_env H ''NEXT_PUBLIC_DEMO_EXCHANGE_QUOTE_PER_BASE'') ''DEMO_EXCHANGE_QUOTE_PER_BASE'' ''100'';
         orderPriceLimit = env_default H (host_env H ''NEXT_PUBLIC_DEMO_ORDER_PRICE'') ''DEMO_ORDER_PRICE'' exchange in
     io_bind (io_of (cfg_decimals cfg ''baseMint'')) (\<lambda>baseDecimals.
     io_bind (io_of (cfg_decimals cfg ''quoteMint'')) (\<lambda>quoteDecimals.
     io_return (ReplyOk \<lparr>tm_baseDecimals = baseDecimals, tm_quoteDecimals = quoteDecimals,
       tm_exchangeQuotePerBaseAtomic = exchange, tm_orderPriceLimit = orderPriceLimit\<rparr>)))))) ())"

section \<open>The panel\<close>

datatype FlowStep = FlowIdle | FlowRegistered | FlowSlotReady | FlowDeposited | FlowOrderEr | FlowMatched

record flow =
  fl_step :: FlowStep
  fl_busy :: bool
  fl_error :: "string option"
  fl_slotIdx :: "int option"
  fl_baseAmount :: string
  fl_depositNonce :: string
  fl_tokenMeta :: "TokenMeta option"
  fl_depositNote :: "(string \<times> string) option"
  fl_orderCtx :: "(string \<times> string) option"
  fl_receipt :: "tx_signature list"

definition initial_flow :: "string \<Rightarrow> int \<Rightarrow> flow" where
  "initial_flow default_base now =
     \<lparr>fl_step = FlowIdle, fl_busy = False, fl_error = None, fl_slotIdx = None, fl_baseAmount = default_base,
      fl_depositNonce = bigint_toString (now + 333333), fl_tokenMeta = None, fl_depositNote = None, fl_orderCtx = None, fl_receipt = []\<rparr>"

record 'w flow_browser = "'w identity_browser" +
  fb_getSlot :: "('w, js_error, int) io"
  fb_randomValues :: "nat \<Rightarrow> ('w, js_error, bytes) io"
  fb_sendRollup :: "instruction \<Rightarrow> keypair \<Rightarrow> ('w, js_error, string) io"

abbreviation flow_base :: "'w flow_browser \<Rightarrow> 'w browser" where "flow_base B \<equiv> browser.truncate B"

text \<open>The values the component computes when it renders. Meta data without decimals is not kept.\<close>

definition keep_meta :: "TokenMeta \<Rightarrow> TokenMeta option" where
  "keep_meta m =
     (if tm_baseDecimals m \<noteq> None \<and> tm_quoteDecimals m \<noteq> None \<and> tm_exchangeQuotePerBaseAtomic m \<noteq> [] \<and> tm_orderPriceLimit m \<noteq> []
      then Some m else None)"

definition flow_baseDecimals :: "flow \<Rightarrow> nat" where
  "flow_baseDecimals p = (case fl_tokenMeta p of Some m \<Rightarrow> (case tm_baseDecimals m of Some d \<Rightarrow> d | None \<Rightarrow> 6) | None \<Rightarrow> 6)"
definition flow_quoteDecimals :: "flow \<Rightarrow> nat" where
  "flow_quoteDecimals p = (case fl_tokenMeta p of Some m \<Rightarrow> (case tm_quoteDecimals m of Some d \<Rightarrow> d | None \<Rightarrow> 6) | None \<Rightarrow> 6)"
definition flow_quotePerBase :: "flow \<Rightarrow> js_error + int" where
  "flow_quotePerBase p = js_BigInt (case fl_tokenMeta p of Some m \<Rightarrow> tm_exchangeQuotePerBaseAtomic m | None \<Rightarrow> ''100'')"
definition flow_priceLimit :: "flow \<Rightarrow> string" where
  "flow_priceLimit p = (case fl_tokenMeta p of Some m \<Rightarrow> tm_orderPriceLimit m | None \<Rightarrow> ''100'')"

definition set_flow :: "(flow \<Rightarrow> flow) \<Rightarrow> (flow \<times> 'w, js_error, unit) io" where
  "set_flow f pw = (Inr (), (f (fst pw), snd pw))"

definition in_flow :: "('w, js_error, 'a) io \<Rightarrow> (flow \<times> 'w, js_error, 'a) io" where
  "in_flow m pw = (case m (snd pw) of (r, w') \<Rightarrow> (r, (fst pw, w')))"

abbreviation start_step :: "(flow \<times> 'w, js_error, unit) io" where
  "start_step \<equiv> set_flow (\<lambda>p. p \<lparr>fl_busy := True, fl_error := None\<rparr>)"

definition flow_receipt :: "string \<Rightarrow> string \<Rightarrow> string \<Rightarrow> tx_signature" where
  "flow_receipt label sig cluster = \<lparr>txs_label = label, txs_signature = sig, txs_cluster = cluster\<rparr>"

definition with_session ::
    "'w flow_browser \<Rightarrow> string \<Rightarrow> (json \<Rightarrow> flow \<Rightarrow> (flow \<times> 'w, js_error, 'a) io) \<Rightarrow> (flow \<times> 'w, js_error, 'a) io" where
  "with_session B msg f pw =
     (case readDappSessionForOwner (flow_base B) (br_connectedOwner B) (snd pw) of
        None \<Rightarrow> (Inl (newError msg), pw)
      | Some s \<Rightarrow> f s (fst pw) pw)"

definition registered_label :: "string \<Rightarrow> string" where
  "registered_label pda = ''wallet already registered (PDA '' @ take 8 pda @ [char_of (226 :: nat), char_of (128 :: nat), char_of (166 :: nat)] @ '')''"

definition runRegister :: "lib \<Rightarrow> 'w demo \<Rightarrow> 'w flow_browser \<Rightarrow> (flow \<times> 'w, js_error, unit) io" where
  "runRegister L M B = with_session B ''Complete the identity step above first.'' (\<lambda>s p.
     io_bind start_step (\<lambda>_.
     io_bind (in_flow (fetch_route (flow_base B) (register_wallet_POST L M (register_request s)))) (\<lambda>r.
     io_bind (if rgr_alreadyRegistered r
              then io_return (flow_receipt (registered_label (rgr_walletPdaBase58 r)) ''skipped'' ''l1'')
              else (case rgr_instruction r of
                 None \<Rightarrow> io_throw (newError ''register-wallet: missing instruction in response'')
               | Some j \<Rightarrow>
                   io_bind (io_of (instructionFromJson (dm_decoders M) j)) (\<lambda>ix.
                   io_bind (in_flow (br_sendAndConfirm B [ix])) (\<lambda>sig.
                   io_return (flow_receipt ''create_wallet (L1)'' sig ''l1''))))) (\<lambda>line.
     set_flow (\<lambda>q. q \<lparr>fl_receipt := fl_receipt q @ [line], fl_step := FlowRegistered, fl_busy := False\<rparr>)))))"

definition init_slot_request :: "json \<Rightarrow> init_slot_body" where
  "init_slot_request s =
     \<lparr>isb_phantomSignatureBase58 = session_string s ''phantomSignatureBase58'', isb_ownerPubkeyBase58 = session_string s ''ownerPubkeyBase58'',
      isb_tradingSecretKeyBase58 = session_string s ''tradingSecretKeyBase58''\<rparr>"

definition runInitSlot :: "lib \<Rightarrow> 'w demo \<Rightarrow> 'w flow_browser \<Rightarrow> (flow \<times> 'w, js_error, unit) io" where
  "runInitSlot L M B = with_session B ''No session'' (\<lambda>s p.
     io_bind start_step (\<lambda>_.
     io_bind (in_flow (fetch_route (flow_base B) (init_slot_POST L M (init_slot_request s)))) (\<lambda>r.
     set_flow (\<lambda>q. q \<lparr>fl_slotIdx := Some (isr_slotIdx r), fl_step := FlowSlotReady, fl_busy := False\<rparr>))))"

definition baseAtomsForCurrentInput :: "flow \<Rightarrow> js_error + int" where
  "baseAtomsForCurrentInput p =
     (case toAtoms (AmountString (fl_baseAmount p)) (flow_baseDecimals p) of
        Inl e \<Rightarrow> Inl (newError (err_message e))
      | Inr baseAtoms \<Rightarrow> if baseAtoms \<le> 0 then Inl (newError ''Base amount must be > 0'') else Inr baseAtoms)"

definition small_deposit_error :: "int \<Rightarrow> int \<Rightarrow> nat \<Rightarrow> js_error" where
  "small_deposit_error quoteAtoms bidNotional dec =
     newError (''Quote deposit ('' @ formatAtoms quoteAtoms dec @ '' QUOTE) is smaller than '' @ ''the bid notional ('' @ formatAtoms bidNotional dec
       @ '' QUOTE). '' @ ''Lower the base size or the order price so the shielded deposit covers the trade.'')"

definition flow_deposit_amount :: "flow \<Rightarrow> int \<Rightarrow> js_error + int" where
  "flow_deposit_amount p quotePerBase =
     rbind (baseAtomsForCurrentInput p) (\<lambda>baseAtoms.
     rbind (js_BigInt (flow_priceLimit p)) (\<lambda>priceLim.
     let quoteAtoms = baseAtoms * quotePerBase; bidNotional = baseAtoms * priceLim in
     if quoteAtoms < bidNotional then Inl (small_deposit_error quoteAtoms bidNotional (flow_quoteDecimals p)) else Inr quoteAtoms))"

definition flow_runDeposit :: "lib \<Rightarrow> 'w demo \<Rightarrow> 'w flow_browser \<Rightarrow> int \<Rightarrow> (flow \<times> 'w, js_error, unit) io" where
  "flow_runDeposit L M B quotePerBase = with_session B ''No session'' (\<lambda>s p.
     io_bind (io_of (flow_deposit_amount p quotePerBase)) (\<lambda>quoteAtoms.
     io_bind start_step (\<lambda>_.
     io_bind (in_flow (fetch_route (flow_base B) (deposit_prepare_POST L M
       \<lparr>pdb_phantomSignatureBase58 = session_string s ''phantomSignatureBase58'', pdb_ownerPubkeyBase58 = session_string s ''ownerPubkeyBase58'',
        pdb_side = Some ''quote'', pdb_amount = Some (bigint_toString quoteAtoms), pdb_nonce = Some (fl_depositNonce p)\<rparr>))) (\<lambda>r.
     io_bind (io_of (instructionFromJson (dm_decoders M) (dpr_instruction r))) (\<lambda>ix.
     io_bind (in_flow (br_sendAndConfirm B [ix])) (\<lambda>sig.
     set_flow (\<lambda>q. q \<lparr>fl_receipt := fl_receipt q @ [flow_receipt ''deposit quote collateral (L1)'' sig ''l1''],
       fl_depositNote := Some (dpr_noteCommitmentHex r, bigint_toString quoteAtoms), fl_step := FlowDeposited, fl_busy := False\<rparr>)))))))"

definition session_owner_commitment :: "json \<Rightarrow> js_error + string option" where
  "session_owner_commitment s =
     rbind (jget s ''publicData'') (\<lambda>d.
       case d of None \<Rightarrow> Inl (undefined_error ''ownerCommitmentHex'')
       | Some j \<Rightarrow> rbind (jget j ''ownerCommitmentHex'') (\<lambda>v. Inr (json_string v)))"

definition exceeds_note_error :: "int \<Rightarrow> int \<Rightarrow> nat \<Rightarrow> js_error" where
  "exceeds_note_error required noteAmt dec =
     newError (''Bid notional ('' @ formatAtoms required dec @ '' QUOTE) exceeds your shielded '' @ ''quote note ('' @ formatAtoms noteAmt dec
       @ '' QUOTE). '' @ ''Lower the base size or price limit, or deposit more quote.'')"

definition flow_bid_amount :: "flow \<Rightarrow> string \<Rightarrow> js_error + int" where
  "flow_bid_amount p noteAmount =
     rbind (baseAtomsForCurrentInput p) (\<lambda>baseAtoms.
     rbind (js_BigInt (if flow_priceLimit p = [] then ''0'' else flow_priceLimit p)) (\<lambda>priceLim.
     rbind (js_BigInt noteAmount) (\<lambda>noteAmt.
     let required = baseAtoms * priceLim in
     if required > noteAmt then Inl (exceeds_note_error required noteAmt (flow_quoteDecimals p)) else Inr baseAtoms)))"

definition submit_request :: "json \<Rightarrow> flow \<Rightarrow> int \<Rightarrow> string \<times> string \<Rightarrow> int \<Rightarrow> int \<Rightarrow> string \<Rightarrow> string option \<Rightarrow> build_order_body" where
  "submit_request s p slotIdx depositNote baseAtoms expiry orderIdHex ownerCommitmentHex =
     \<lparr>bob_phantomSignatureBase58 = session_string s ''phantomSignatureBase58'', bob_ownerPubkeyBase58 = session_string s ''ownerPubkeyBase58'',
      bob_tradingSecretKeyBase58 = session_string s ''tradingSecretKeyBase58'', bob_slotIdx = Some slotIdx, bob_side = Some 0,
      bob_amount = Some (bigint_toString baseAtoms), bob_priceLimit = Some (flow_priceLimit p), bob_noteAmount = Some (snd depositNote),
      bob_expirySlot = Some (bigint_toString expiry), bob_noteCommitmentHex = Some (fst depositNote),
      bob_userOwnerCommitmentHex = ownerCommitmentHex, bob_orderIdHex = Some orderIdHex\<rparr>"

definition runSubmitOrderEr :: "lib \<Rightarrow> 'w demo \<Rightarrow> 'w flow_browser \<Rightarrow> (flow \<times> 'w, js_error, unit) io" where
  "runSubmitOrderEr L M B = with_session B ''Complete slot + deposit steps first.'' (\<lambda>s p.
     case (fl_slotIdx p, fl_depositNote p) of
       (Some slotIdx, Some note) \<Rightarrow>
         if fst note = [] then io_throw (newError ''Complete slot + deposit steps first.'')
         else
         io_bind (io_of (flow_bid_amount p (snd note))) (\<lambda>baseAtoms.
         io_bind start_step (\<lambda>_.
         io_bind (io_of (case session_string s ''tradingSecretKeyBase58'' of
             Some t \<Rightarrow> rbind (bs58_decode (dm_decoders M) t) (Keypair_fromSecretKey (dm_wallet M)) | None \<Rightarrow> Inl (undefined_error ''length''))) (\<lambda>trading.
         io_bind (in_flow (fb_getSlot B)) (\<lambda>now.
         let expiry = now + 500 in
         io_bind (in_flow (fb_randomValues B 16)) (\<lambda>orderId.
         io_bind (set_flow (\<lambda>q. q \<lparr>fl_orderCtx := Some (bytes_hex orderId, bigint_toString expiry)\<rparr>)) (\<lambda>_.
         io_bind (io_of (session_owner_commitment s)) (\<lambda>oc.
         io_bind (in_flow (fetch_route (flow_base B) (build_submit_order_POST L M
           (submit_request s p slotIdx note baseAtoms expiry (bytes_hex orderId) oc)))) (\<lambda>r.
         io_bind (io_of (instructionFromJson (dm_decoders M) (bor_instruction r))) (\<lambda>ix.
         io_bind (in_flow (fb_sendRollup B ix trading)) (\<lambda>sig.
         set_flow (\<lambda>q. q \<lparr>fl_receipt := fl_receipt q @ [flow_receipt ''submit_order bid (PER)'' sig ''er''],
           fl_step := FlowOrderEr, fl_busy := False\<rparr>)))))))))))
     | _ \<Rightarrow> io_throw (newError ''Complete slot + deposit steps first.''))"

definition NYX_TRADE_WITHDRAW_KEY :: string where
  "NYX_TRADE_WITHDRAW_KEY = ''nyx_dapp_trade_withdraw_v1''"

definition counter_request :: "json \<Rightarrow> flow \<Rightarrow> int \<Rightarrow> string \<times> string \<Rightarrow> int \<Rightarrow> string option \<Rightarrow> counter_body" where
  "counter_request s p slotIdx ctx baseAtoms ownerCommitmentHex =
     \<lparr>cmb_phantomSignatureBase58 = session_string s ''phantomSignatureBase58'', cmb_ownerPubkeyBase58 = session_string s ''ownerPubkeyBase58'',
      cmb_tradingSecretKeyBase58 = session_string s ''tradingSecretKeyBase58'', cmb_userSlotIdx = Some slotIdx, cmb_userSide = Some 0,
      cmb_userAmount = Some (bigint_toString baseAtoms), cmb_userPriceLimit = Some (flow_priceLimit p),
      cmb_userNoteAmount = Some (case fl_depositNote p of Some n \<Rightarrow> snd n | None \<Rightarrow> ''0''),
      cmb_userNoteCommitmentHex = Some (case fl_depositNote p of Some n \<Rightarrow> fst n | None \<Rightarrow> []),
      cmb_userOwnerCommitmentHex = ownerCommitmentHex, cmb_userOrderIdHex = Some (fst ctx), cmb_userExpirySlot = Some (snd ctx)\<rparr>"

definition buyer_note_json :: "buyer_base_note \<Rightarrow> json" where
  "buyer_note_json b =
     JObj [(''matchId'', JStr (bb_matchId b)), (''leafIndex'', JStr (bb_leafIndex b)), (''amount'', JStr (bb_amount b)), (''nonce'', JStr (bb_nonce b)),
       (''blindingR'', JStr (bb_blindingR b)), (''commitmentHex'', JStr (bb_commitmentHex b)), (''tokenMintBase58'', JStr (bb_tokenMintBase58 b)),
       (''vaultLeafCountAfter'', JStr (bb_vaultLeafCountAfter b))]"

definition withdraw_hint :: "buyer_base_note \<Rightarrow> string option \<Rightarrow> json" where
  "withdraw_hint b oc =
     JObj ((''tradeWithdrawBuyerBase'', buyer_note_json b) # (case oc of Some c \<Rightarrow> [(''ownerCommitmentHex'', JStr c)] | None \<Rightarrow> []))"

text \<open>The step up to the request, the request, and the step after a successful reply.\<close>

definition counter_before :: "'w flow_browser \<Rightarrow> (flow \<times> 'w, js_error, counter_body \<times> string option) io" where
  "counter_before B = with_session B ''Missing slot'' (\<lambda>s p.
     case fl_slotIdx p of
       None \<Rightarrow> io_throw (newError ''Missing slot'')
     | Some slotIdx \<Rightarrow>
         io_bind start_step (\<lambda>_.
         case fl_orderCtx p of
           None \<Rightarrow> io_throw (newError (''Internal: order id / expiry missing '' @ em_dash @ '' submit_order step must run first.''))
         | Some ctx \<Rightarrow>
             if fst ctx = [] \<or> snd ctx = []
             then io_throw (newError (''Internal: order id / expiry missing '' @ em_dash @ '' submit_order step must run first.''))
             else
             io_bind (io_of (baseAtomsForCurrentInput p)) (\<lambda>baseAtoms.
             io_bind (io_of (session_owner_commitment s)) (\<lambda>oc.
             io_bind (in_flow (br_network B)) (\<lambda>_.
             io_return (counter_request s p slotIdx ctx baseAtoms oc, oc))))))"

definition counter_after :: "'w flow_browser \<Rightarrow> string option \<Rightarrow> counter_reply \<Rightarrow> (flow \<times> 'w, js_error, unit) io" where
  "counter_after B oc r =
     io_bind (set_flow (\<lambda>q. q \<lparr>fl_receipt := fl_receipt q @ cmr_signatures r\<rparr>)) (\<lambda>_.
     io_bind (in_flow (io_catch (ib_setItem B NYX_TRADE_WITHDRAW_KEY (ib_stringify B (withdraw_hint (cmr_tradeWithdrawBuyerBase r) oc))) (\<lambda>_. io_return ()))) (\<lambda>_.
     set_flow (\<lambda>q. q \<lparr>fl_step := FlowMatched, fl_busy := False\<rparr>)))"

definition runCounterMatch ::
    "lib \<Rightarrow> 'w demo \<Rightarrow> (string \<Rightarrow> js_error + int) \<Rightarrow> (int \<Rightarrow> 'w \<Rightarrow> 'w) \<Rightarrow> 'w flow_browser \<Rightarrow> flow \<times> 'w \<Rightarrow> ((js_error + unit) \<times> flow \<times> 'w) option" where
  "runCounterMatch L M mintAmount sleep B pw =
     (case counter_before B pw of
        (Inl e, qw) \<Rightarrow> Some (Inl e, qw)
      | (Inr (body, oc), qw) \<Rightarrow>
          (case counter_and_match_POST L M mintAmount sleep body (snd qw) of
             None \<Rightarrow> None
           | Some (ReplyError st msg d, w') \<Rightarrow> Some (Inl (newError msg), (fst qw, w'))
           | Some (ReplyOk r, w') \<Rightarrow> Some (counter_after B oc r (fst qw, w'))))"

text \<open>The handler of the button. When the exchange rate is not a number the component does not render,
  so there is no button.\<close>

definition nextAction ::
    "lib \<Rightarrow> 'w demo \<Rightarrow> (string \<Rightarrow> js_error + int) \<Rightarrow> (int \<Rightarrow> 'w \<Rightarrow> 'w) \<Rightarrow> 'w flow_browser \<Rightarrow> flow \<times> 'w \<Rightarrow> (flow \<times> 'w) option" where
  "nextAction L M mintAmount sleep B pw =
     (if readDappSessionForOwner (flow_base B) (br_connectedOwner B) (snd pw) = None then Some pw
      else
      case flow_quotePerBase (fst pw) of
        Inl _ \<Rightarrow> Some pw
      | Inr quotePerBase \<Rightarrow>
          map_option (\<lambda>(res, qw). case res of
              Inr _ \<Rightarrow> qw
            | Inl e \<Rightarrow> ((fst qw) \<lparr>fl_error := Some (err_message e), fl_busy := False\<rparr>, snd qw))
            (case fl_step (fst pw) of
               FlowIdle \<Rightarrow> Some (runRegister L M B pw)
             | FlowRegistered \<Rightarrow> Some (runInitSlot L M B pw)
             | FlowSlotReady \<Rightarrow> Some (flow_runDeposit L M B quotePerBase pw)
             | FlowDeposited \<Rightarrow> Some (runSubmitOrderEr L M B pw)
             | FlowOrderEr \<Rightarrow> runCounterMatch L M mintAmount sleep B pw
             | FlowMatched \<Rightarrow> Some (Inr (), pw)))"

section \<open>The panel as a state machine\<close>

text \<open>The size can be edited in the first two steps only; meta data arrives once; the world changes at
  any time.\<close>

datatype flow_event = FlowClick | FlowEdit string | FlowMeta TokenMeta | FlowElsewhere

inductive flow_moves ::
    "lib \<Rightarrow> 'w demo \<Rightarrow> (string \<Rightarrow> js_error + int) \<Rightarrow> (int \<Rightarrow> 'w \<Rightarrow> 'w) \<Rightarrow> 'w flow_browser \<Rightarrow> flow \<times> 'w \<Rightarrow> flow_event \<Rightarrow> flow \<times> 'w \<Rightarrow> bool"
  for L M mintAmount sleep B where
  click: "nextAction L M mintAmount sleep B (p, w) = Some qw \<Longrightarrow> \<not> fl_busy p \<Longrightarrow> fl_step p \<noteq> FlowMatched \<Longrightarrow>
    flow_moves L M mintAmount sleep B (p, w) FlowClick qw"
| edit: "fl_step p \<in> {FlowIdle, FlowRegistered} \<Longrightarrow> flow_moves L M mintAmount sleep B (p, w) (FlowEdit a) (p \<lparr>fl_baseAmount := a\<rparr>, w)"
| token_meta: "fl_tokenMeta p = None \<Longrightarrow> flow_moves L M mintAmount sleep B (p, w) (FlowMeta m) (p \<lparr>fl_tokenMeta := keep_meta m\<rparr>, w)"
| elsewhere: "flow_moves L M mintAmount sleep B (p, w) FlowElsewhere (p, w')"

inductive_cases flow_movesE: "flow_moves L M mintAmount sleep B pw ev qw"

section \<open>What a step leaves alone\<close>

text \<open>\<open>flow_keeps f m\<close>: \<open>m\<close> does not change the part \<open>f\<close> of the panel; \<open>fails_keep f m\<close>: it does not when it fails.\<close>

abbreviation flow_keeps :: "(flow \<Rightarrow> 'b) \<Rightarrow> (flow \<times> 'w, js_error, 'a) io \<Rightarrow> bool" where
  "flow_keeps f m \<equiv> keeps (\<lambda>pw. f (fst pw)) m"

definition fails_keep :: "(flow \<Rightarrow> 'b) \<Rightarrow> (flow \<times> 'w, js_error, 'a) io \<Rightarrow> bool" where
  "fails_keep f m \<longleftrightarrow> (\<forall>pw e qw. m pw = (Inl e, qw) \<longrightarrow> f (fst qw) = f (fst pw))"

lemma flow_keeps_in: "flow_keeps f (in_flow m)"
  by (simp add: keeps_def in_flow_def split: prod.splits)

lemma flow_keeps_set: "(\<And>p. f (g p) = f p) \<Longrightarrow> flow_keeps f (set_flow g)"
  by (simp add: keeps_def set_flow_def)

lemma fails_keep_set: "fails_keep f (set_flow g)"
  by (simp add: fails_keep_def set_flow_def)

lemma flow_keeps_fails: "flow_keeps f m \<Longrightarrow> fails_keep f m"
  unfolding keeps_def fails_keep_def by (metis snd_conv)

lemma fails_keep_bind:
  assumes "flow_keeps f m" and "\<And>x. fails_keep f (k x)"
  shows "fails_keep f (io_bind m k)"
  unfolding fails_keep_def
proof (intro allI impI)
  fix pw e qw
  assume run: "io_bind m k pw = (Inl e, qw)"
  obtain r tw where m: "m pw = (r, tw)" by (cases "m pw")
  have same: "f (fst tw) = f (fst pw)" using assms(1) m unfolding keeps_def by (metis snd_conv)
  show "f (fst qw) = f (fst pw)"
  proof (cases r)
    case (Inl e')
    then show ?thesis using run m same by (simp add: io_bind_def)
  next
    case (Inr x)
    then have "k x tw = (Inl e, qw)" using run m by (simp add: io_bind_def)
    then show ?thesis using assms(2) same unfolding fails_keep_def by metis
  qed
qed

lemma fails_keep_session: "(\<And>s p. fails_keep f (k s p)) \<Longrightarrow> fails_keep f (with_session B msg k)"
  unfolding fails_keep_def with_session_def by (auto split: option.splits)

lemma flow_keeps_session: "(\<And>s p. flow_keeps f (k s p)) \<Longrightarrow> flow_keeps f (with_session B msg k)"
  unfolding keeps_def with_session_def by (auto split: option.splits)

lemmas flow_keeps_intros = keeps_option keeps_if keeps_bind keeps_basic flow_keeps_in flow_keeps_set

abbreviation flow_core :: "flow \<Rightarrow> FlowStep \<times> int option \<times> (string \<times> string) option" where
  "flow_core p \<equiv> (fl_step p, fl_slotIdx p, fl_depositNote p)"

abbreviation flow_order :: "flow \<Rightarrow> (FlowStep \<times> int option \<times> (string \<times> string) option) \<times> (string \<times> string) option" where
  "flow_order p \<equiv> (flow_core p, fl_orderCtx p)"

lemma runRegister_fails: "fails_keep flow_order (runRegister L M B)"
  unfolding runRegister_def by (intro fails_keep_session fails_keep_bind fails_keep_set flow_keeps_intros) simp_all

lemma runInitSlot_fails: "fails_keep flow_order (runInitSlot L M B)"
  unfolding runInitSlot_def by (intro fails_keep_session fails_keep_bind fails_keep_set flow_keeps_intros) simp_all

lemma flow_runDeposit_fails: "fails_keep flow_order (flow_runDeposit L M B rate)"
  unfolding flow_runDeposit_def by (intro fails_keep_session fails_keep_bind fails_keep_set flow_keeps_intros) simp_all

lemma runSubmitOrderEr_fails: "fails_keep flow_core (runSubmitOrderEr L M B)"
proof -
  have "fails_keep flow_core (io_throw e)" for e by (rule flow_keeps_fails) (rule keeps_basic)
  then show ?thesis
    unfolding runSubmitOrderEr_def Let_def
    by (intro fails_keep_session)
      (auto split: option.splits prod.splits intro!: fails_keep_bind fails_keep_set flow_keeps_intros)
qed

lemma counter_before_keeps: "flow_keeps flow_order (counter_before B)"
  unfolding counter_before_def Let_def by (intro flow_keeps_session flow_keeps_intros) simp_all

section \<open>What a step establishes\<close>

lemma set_flow_okE: "set_flow f pw = (Inr x, qw) \<Longrightarrow> (qw = (f (fst pw), snd pw) \<Longrightarrow> P) \<Longrightarrow> P"
  by (auto simp: set_flow_def)

lemma in_flow_okE: "in_flow m pw = (Inr x, qw) \<Longrightarrow> (\<And>w'. m (snd pw) = (Inr x, w') \<Longrightarrow> qw = (fst pw, w') \<Longrightarrow> P) \<Longrightarrow> P"
  by (auto simp: in_flow_def split: prod.splits)

lemma with_session_okE:
  "with_session B msg f pw = (Inr x, qw) \<Longrightarrow>
     (\<And>s. readDappSessionForOwner (flow_base B) (br_connectedOwner B) (snd pw) = Some s \<Longrightarrow> f s (fst pw) pw = (Inr x, qw) \<Longrightarrow> P) \<Longrightarrow> P"
  by (auto simp: with_session_def split: option.splits)

lemma fetch_route_okE: "fetch_route B m w = (Inr r, w') \<Longrightarrow> (\<And>w0. m w0 = (ReplyOk r, w') \<Longrightarrow> P) \<Longrightarrow> P"
  unfolding fetch_route_def by (erule io_bind_okE) (auto split: prod.splits reply.splits)

lemmas flow_elims = with_session_okE io_bind_okE io_of_okE in_flow_okE set_flow_okE fetch_route_okE

lemma runRegister_ok: "runRegister L M B pw = (Inr x, qw) \<Longrightarrow> fl_step (fst qw) = FlowRegistered \<and> \<not> fl_busy (fst qw)"
  unfolding runRegister_def by (elim flow_elims) simp

lemma slot_loop_range:
  "slot_loop L l1 er me market key msg fr idxs w = (Inr pick, w') \<Longrightarrow> set idxs \<subseteq> S \<Longrightarrow> (\<And>i. fr = Some i \<Longrightarrow> i \<in> S) \<Longrightarrow> sp_slotIdx pick \<in> S"
proof (induction idxs arbitrary: fr w)
  case Nil
  then show ?case by (auto split: option.splits)
next
  case (Cons i idxs)
  have i: "i \<in> S" "set idxs \<subseteq> S" using Cons.prems(2) by simp_all
  obtain info :: "account_info option" and w1 pda where info: "(case info of
      None \<Rightarrow> io_return \<lparr>sp_slotIdx = i, sp_needsInit = True\<rparr>
    | Some a \<Rightarrow>
        if fr \<noteq> None then slot_loop L l1 er me market key msg fr idxs
        else
          io_bind (if ai_owner a = DELEGATION_PROGRAM_ID L
                   then io_bind (rpc_getAccountInfo er pda) (\<lambda>erInfo. io_return (map_option ai_data erInfo))
                   else io_return (Some (ai_data a))) (\<lambda>data.
          slot_loop L l1 er me market key msg (if slot_reusable data then Some i else None) idxs)) w1 = (Inr pick, w')"
    using Cons.prems(1) unfolding slot_loop.simps by (elim io_bind_okE io_of_okE pair_okE) iprover
  show ?case
  proof (cases info)
    case None
    then show ?thesis using info i by auto
  next
    case (Some a)
    show ?thesis
    proof (cases fr)
      case None
      obtain data w2 where "slot_loop L l1 er me market key msg (if slot_reusable data then Some i else None) idxs w2 = (Inr pick, w')"
        using info Some None by (simp only: option.case) (auto elim: io_bind_okE)
      then show ?thesis by (rule Cons.IH) (use i in \<open>auto split: if_splits\<close>)
    next
      case (Some j)
      have "slot_loop L l1 er me market key msg fr idxs w1 = (Inr pick, w')" using info \<open>info = Some a\<close> Some by simp
      then show ?thesis using Cons.IH i Cons.prems(3) by blast
    qed
  qed
qed

lemma chooseFreshSlot_range:
  assumes "chooseFreshSlot L l1 er me market key w = (Inr pick, w')"
  shows "0 \<le> sp_slotIdx pick \<and> sp_slotIdx pick < 4"
  using slot_loop_range [OF assms [unfolded chooseFreshSlot_def], of "{0..<4}"] by (simp add: slot_indices_4)

lemma init_slot_range:
  assumes "init_slot_POST L M body w = (ReplyOk r, w')"
  shows "0 \<le> isr_slotIdx r \<and> isr_slotIdx r < 4"
  using assms unfolding init_slot_POST_def route_ok Let_def by (elim reply_elims) (drule chooseFreshSlot_range, simp)

lemma runInitSlot_ok:
  assumes "runInitSlot L M B pw = (Inr x, qw)"
  shows "fl_step (fst qw) = FlowSlotReady \<and> \<not> fl_busy (fst qw) \<and> (\<exists>i. fl_slotIdx (fst qw) = Some i \<and> 0 \<le> i \<and> i < 4)"
  using assms unfolding runInitSlot_def by (elim flow_elims) (auto dest!: init_slot_range)

lemma deposit_prepare_okE:
  assumes "deposit_prepare_POST L M body w = (ReplyOk r, w')" and nonce: "pdb_nonce body = Some n"
  obtains vo amount nonce conns programs leafIndex cm ownerB nonceB blindB depositor ata ix where
    "verifyPhantomSeedSignature L (dm_decoders M) (dm_wallet M) (the (pdb_phantomSignatureBase58 body)) (the (pdb_ownerPubkeyBase58 body)) = Inr vo"
    "js_BigInt (the (pdb_amount body)) = Inr amount" "0 < amount" "js_BigInt n = Inr nonce" "demo_setup M = Inr (conns, programs)"
    "noteCommitment L (private_deposit_note L (vo_seed vo) (side_mint programs (the (pdb_side body))) amount nonce leafIndex) = Inr cm"
    "bn254ToBE32 (ownerCommitment L (deriveSpendingKey L (vo_seed vo)) (deriveBlindingFactor L (vo_seed vo) 0)) = Inr ownerB"
    "bn254ToBE32 nonce = Inr nonceB" "bn254ToBE32 (deriveBlindingFactor L (vo_seed vo) leafIndex) = Inr blindB"
    "buildDepositInstruction L \<lparr>dp_programId = pr_vaultProgramId programs, dp_depositor = depositor,
       dp_tokenMint = side_mint programs (the (pdb_side body)), dp_depositorTokenAccount = ata, dp_tokenProgramId = TOKEN_PROGRAM_ID L,
       dp_amount = amount, dp_ownerCommitment = ownerB, dp_nonce = nonceB, dp_blindingR = blindB\<rparr> = Inr ix"
    "dpr_instruction r = instructionToJson L ix" "dpr_noteCommitmentHex r = bytes_hex cm" "dpr_nonce r = bigint_toString nonce"
    "pdb_side body \<noteq> None"
  using assms(1) unfolding deposit_prepare_POST_def route_ok Let_def
  by (elim reply_elims) (clarsimp simp: nonce absent_def private_deposit_note_def cong: if_cong split del: if_split)

lemma flow_runDeposit_okE:
  assumes "flow_runDeposit L M B rate pw = (Inr x, qw)"
  obtains s n r ix w0 w1 sig where
    "readDappSessionForOwner (flow_base B) (br_connectedOwner B) (snd pw) = Some s" "flow_deposit_amount (fst pw) rate = Inr n"
    "deposit_prepare_POST L M \<lparr>pdb_phantomSignatureBase58 = session_string s ''phantomSignatureBase58'',
       pdb_ownerPubkeyBase58 = session_string s ''ownerPubkeyBase58'', pdb_side = Some ''quote'', pdb_amount = Some (bigint_toString n),
       pdb_nonce = Some (fl_depositNonce (fst pw))\<rparr> w0 = (ReplyOk r, w1)"
    "instructionFromJson (dm_decoders M) (dpr_instruction r) = Inr ix" "br_sendAndConfirm B [ix] w1 = (Inr sig, snd qw)"
    "fst qw = (fst pw) \<lparr>fl_error := None, fl_receipt := fl_receipt (fst pw) @ [flow_receipt ''deposit quote collateral (L1)'' sig ''l1''],
       fl_depositNote := Some (dpr_noteCommitmentHex r, bigint_toString n), fl_step := FlowDeposited, fl_busy := False\<rparr>"
  using assms unfolding flow_runDeposit_def by (elim flow_elims) (erule that, assumption+, simp_all)

lemma runSubmitOrderEr_okE:
  assumes "runSubmitOrderEr L M B (p, w) = (Inr x, (q, w3))"
  obtains s slotIdx cmHex noteAmount baseAtoms t trading now orderId oc r ix w0 w1 w2 sig where
    "readDappSessionForOwner (flow_base B) (br_connectedOwner B) w = Some s" "fl_slotIdx p = Some slotIdx"
    "fl_depositNote p = Some (cmHex, noteAmount)" "flow_bid_amount p noteAmount = Inr baseAtoms"
    "session_string s ''tradingSecretKeyBase58'' = Some t"
    "rbind (bs58_decode (dm_decoders M) t) (Keypair_fromSecretKey (dm_wallet M)) = Inr trading"
    "fb_getSlot B w = (Inr now, w0)" "session_owner_commitment s = Inr oc"
    "build_submit_order_POST L M (submit_request s p slotIdx (cmHex, noteAmount) baseAtoms (now + 500) (bytes_hex orderId) oc) w1 = (ReplyOk r, w2)"
    "instructionFromJson (dm_decoders M) (bor_instruction r) = Inr ix" "fb_sendRollup B ix trading w2 = (Inr sig, w3)"
    "q = p \<lparr>fl_error := None, fl_orderCtx := Some (bytes_hex orderId, bigint_toString (now + 500)),
       fl_receipt := fl_receipt p @ [flow_receipt ''submit_order bid (PER)'' sig ''er''], fl_step := FlowOrderEr, fl_busy := False\<rparr>"
proof -
  obtain s where s: "readDappSessionForOwner (flow_base B) (br_connectedOwner B) w = Some s"
    using assms unfolding runSubmitOrderEr_def by (elim with_session_okE) simp
  obtain slotIdx cmHex noteAmount where got: "fl_slotIdx p = Some slotIdx" "fl_depositNote p = Some (cmHex, noteAmount)" "cmHex \<noteq> []"
    using assms unfolding runSubmitOrderEr_def by (elim with_session_okE) (auto split: option.splits if_splits)
  show thesis
    using assms unfolding runSubmitOrderEr_def Let_def with_session_def fst_conv snd_conv s got option.case prod.case if_False
    apply (elim throw_guard_okE flow_elims)
    apply (clarsimp split: option.splits)
    apply (rule that [OF s got(1,2)])
    apply (assumption | rule refl)+
    done
qed

lemma flow_runDeposit_ok:
  assumes "flow_runDeposit L M B rate pw = (Inr x, qw)"
  obtains cm n where "fl_step (fst qw) = FlowDeposited" "\<not> fl_busy (fst qw)" "fl_slotIdx (fst qw) = fl_slotIdx (fst pw)"
    "fl_depositNote (fst qw) = Some (bytes_hex cm, bigint_toString n)" "length cm = 32" "0 < n"
  using assms
proof (rule flow_runDeposit_okE)
  fix s n r ix w0 w1 sig
  assume dep: "deposit_prepare_POST L M \<lparr>pdb_phantomSignatureBase58 = session_string s ''phantomSignatureBase58'',
       pdb_ownerPubkeyBase58 = session_string s ''ownerPubkeyBase58'', pdb_side = Some ''quote'', pdb_amount = Some (bigint_toString n),
       pdb_nonce = Some (fl_depositNonce (fst pw))\<rparr> w0 = (ReplyOk r, w1)"
    and q: "fst qw = (fst pw) \<lparr>fl_error := None, fl_receipt := fl_receipt (fst pw) @ [flow_receipt ''deposit quote collateral (L1)'' sig ''l1''],
       fl_depositNote := Some (dpr_noteCommitmentHex r, bigint_toString n), fl_step := FlowDeposited, fl_busy := False\<rparr>"
  obtain nt cm where "noteCommitment L nt = Inr cm" "dpr_noteCommitmentHex r = bytes_hex cm" "0 < n"
    using dep by (rule deposit_prepare_okE) auto
  then show thesis using q noteCommitment_length by (intro that [of cm n]) simp_all
qed

lemma runSubmitOrderEr_ok:
  assumes "runSubmitOrderEr L M B (p, w) = (Inr x, (q, w3))"
  obtains orderId e where "flow_core q = (FlowOrderEr, fl_slotIdx p, fl_depositNote p)" "\<not> fl_busy q"
    "fl_orderCtx q = Some (bytes_hex orderId, bigint_toString e)" "length orderId = 16"
  using assms
proof (rule runSubmitOrderEr_okE)
  fix s slotIdx cmHex noteAmount baseAtoms now orderId oc r w1 w2 sig
  assume "build_submit_order_POST L M (submit_request s p slotIdx (cmHex, noteAmount) baseAtoms (now + 500) (bytes_hex orderId) oc) w1 = (ReplyOk r, w2)"
    and q: "q = p \<lparr>fl_error := None, fl_orderCtx := Some (bytes_hex orderId, bigint_toString (now + 500)),
       fl_receipt := fl_receipt p @ [flow_receipt ''submit_order bid (PER)'' sig ''er''], fl_step := FlowOrderEr, fl_busy := False\<rparr>"
  then have "length orderId = 16"
    by (elim build_order_okE) (auto dest!: buildSubmitOrder_wire(1) simp: submit_request_def route_hexToBytes_def)
  then show thesis using q by (intro that [of orderId "now + 500"]) simp_all
qed


definition flow_ok :: "flow \<Rightarrow> bool" where
  "flow_ok p \<longleftrightarrow> \<not> fl_busy p
     \<and> (fl_step p \<in> {FlowSlotReady, FlowDeposited, FlowOrderEr, FlowMatched} \<longrightarrow> (\<exists>i. fl_slotIdx p = Some i \<and> 0 \<le> i \<and> i < 4))
     \<and> (fl_step p \<in> {FlowDeposited, FlowOrderEr, FlowMatched} \<longrightarrow>
          (\<exists>cm n. fl_depositNote p = Some (bytes_hex cm, bigint_toString n) \<and> length cm = 32 \<and> 0 < n))
     \<and> (fl_step p \<in> {FlowOrderEr, FlowMatched} \<longrightarrow>
          (\<exists>orderId e. fl_orderCtx p = Some (bytes_hex orderId, bigint_toString e) \<and> length orderId = 16))"

lemma flow_ok_core:
  assumes "flow_ok p" and "flow_core q = flow_core p" and "fl_orderCtx q = fl_orderCtx p \<or> fl_step p \<notin> {FlowOrderEr, FlowMatched}" and "\<not> fl_busy q"
  shows "flow_ok q"
  using assms unfolding flow_ok_def by auto

lemma flow_ok_edits [simp]: "flow_ok (p \<lparr>fl_baseAmount := a\<rparr>) = flow_ok p" "flow_ok (p \<lparr>fl_tokenMeta := m\<rparr>) = flow_ok p"
  by (simp_all add: flow_ok_def)

text \<open>What a click does with the result of a step.\<close>

abbreviation flow_settle :: "(js_error + unit) \<times> flow \<times> 'w \<Rightarrow> flow \<times> 'w" where
  "flow_settle \<equiv> \<lambda>(res, qw). case res of
      Inr _ \<Rightarrow> qw
    | Inl e \<Rightarrow> ((fst qw) \<lparr>fl_error := Some (err_message e), fl_busy := False\<rparr>, snd qw)"

lemma fails_keep_core: "fails_keep flow_order m \<Longrightarrow> fails_keep flow_core m"
  unfolding fails_keep_def by auto

lemma flow_ok_click:
  assumes "flow_ok p" and "fl_step p \<notin> {FlowOrderEr, FlowMatched}" and "fails_keep flow_core m"
    and "\<And>x q w'. m (p, w) = (Inr x, (q, w')) \<Longrightarrow> flow_ok q"
  shows "flow_ok (fst (flow_settle (m (p, w))))"
proof -
  obtain res q w' where m: "m (p, w) = (res, (q, w'))" by (metis prod.exhaust)
  show ?thesis
  proof (cases res)
    case (Inl e)
    then have "flow_core q = flow_core p" using assms(3) m unfolding fails_keep_def by (metis fst_conv)
    then show ?thesis using m Inl flow_ok_core [OF assms(1)] assms(2) by simp
  next
    case (Inr x)
    then show ?thesis using assms(4) m by simp
  qed
qed

lemma counter_after_returns:
  obtains q' u' where "counter_after B oc r (q, u) = (Inr (), (q', u'))" "flow_core q' = (FlowMatched, fl_slotIdx q, fl_depositNote q)"
    "fl_orderCtx q' = fl_orderCtx q" "\<not> fl_busy q'"
proof -
  obtain a b where "ib_setItem B NYX_TRADE_WITHDRAW_KEY (ib_stringify B (withdraw_hint (cmr_tradeWithdrawBuyerBase r) oc)) u = (a, b)"
    by (metis surj_pair)
  then show thesis
    by (intro that [of "q \<lparr>fl_receipt := fl_receipt q @ cmr_signatures r, fl_step := FlowMatched, fl_busy := False\<rparr>" b]; cases a)
      (simp_all add: counter_after_def io_bind_def set_flow_def in_flow_def io_catch_def)
qed

lemma flow_ok_counter:
  assumes ok: "flow_ok p" and step: "fl_step p = FlowOrderEr" and run: "runCounterMatch L M mintAmount sleep B (p, w) = Some m"
  shows "flow_ok (fst (flow_settle m))"
proof -
  obtain res q w' where b: "counter_before B (p, w) = (res, (q, w'))" by (metis prod.exhaust)
  have keep: "flow_order q = flow_order p" using counter_before_keeps [of B] b unfolding keeps_def by (metis fst_conv snd_conv)
  show ?thesis
  proof (cases res)
    case (Inl e)
    then show ?thesis using run b keep flow_ok_core [OF ok] by (auto simp: runCounterMatch_def)
  next
    case (Inr bo)
    obtain body oc where bo: "bo = (body, oc)" by (cases bo)
    obtain rep u where c: "counter_and_match_POST L M mintAmount sleep body w' = Some (rep, u)"
      using run b Inr bo by (auto simp: runCounterMatch_def split: option.splits)
    show ?thesis
    proof (cases rep)
      case (ReplyOk r)
      have m: "m = counter_after B oc r (q, u)" using run b Inr bo c ReplyOk by (simp add: runCounterMatch_def)
      obtain q' u' where "m = (Inr (), (q', u'))" "flow_core q' = (FlowMatched, fl_slotIdx q, fl_depositNote q)" "fl_orderCtx q' = fl_orderCtx q" "\<not> fl_busy q'"
        unfolding m by (rule counter_after_returns)
      then show ?thesis using ok step keep unfolding flow_ok_def by auto
    next
      case (ReplyError st msg d)
      then show ?thesis using run b Inr bo c keep flow_ok_core [OF ok] by (auto simp: runCounterMatch_def)
    qed
  qed
qed

lemma flow_ok_next:
  assumes ok: "flow_ok p" and run: "nextAction L M mintAmount sleep B (p, w) = Some qw"
  shows "flow_ok (fst qw)"
proof -
  have reg: "flow_ok (fst (flow_settle (runRegister L M B (p, w))))" if "fl_step p = FlowIdle"
    by (rule flow_ok_click [OF ok _ fails_keep_core [OF runRegister_fails]])
      (use that in \<open>auto dest!: runRegister_ok simp: flow_ok_def\<close>)
  have slot: "flow_ok (fst (flow_settle (runInitSlot L M B (p, w))))" if "fl_step p = FlowRegistered"
    by (rule flow_ok_click [OF ok _ fails_keep_core [OF runInitSlot_fails]])
      (use that in \<open>auto dest!: runInitSlot_ok simp: flow_ok_def\<close>)
  have dep: "flow_ok (fst (flow_settle (flow_runDeposit L M B rate (p, w))))" if "fl_step p = FlowSlotReady" for rate
    by (rule flow_ok_click [OF ok _ fails_keep_core [OF flow_runDeposit_fails]])
      (use that ok in \<open>auto elim!: flow_runDeposit_ok simp: flow_ok_def\<close>)
  have sub: "flow_ok (fst (flow_settle (runSubmitOrderEr L M B (p, w))))" if "fl_step p = FlowDeposited"
    by (rule flow_ok_click [OF ok _ runSubmitOrderEr_fails])
      (use that ok in \<open>auto elim!: runSubmitOrderEr_ok simp: flow_ok_def\<close>)
  show ?thesis
  proof (cases "readDappSessionForOwner (flow_base B) (br_connectedOwner B) w = None \<or> (\<exists>e. flow_quotePerBase p = Inl e)")
    case True
    then show ?thesis using run ok by (auto simp: nextAction_def split: if_splits)
  next
    case False
    then obtain rate s where rate: "flow_quotePerBase p = Inr rate" "readDappSessionForOwner (flow_base B) (br_connectedOwner B) w = Some s"
      by (metis option.exhaust sum.exhaust)
    obtain m where m: "(case fl_step p of FlowIdle \<Rightarrow> Some (runRegister L M B (p, w)) | FlowRegistered \<Rightarrow> Some (runInitSlot L M B (p, w))
        | FlowSlotReady \<Rightarrow> Some (flow_runDeposit L M B rate (p, w)) | FlowDeposited \<Rightarrow> Some (runSubmitOrderEr L M B (p, w))
        | FlowOrderEr \<Rightarrow> runCounterMatch L M mintAmount sleep B (p, w) | FlowMatched \<Rightarrow> Some (Inr (), (p, w))) = Some m" "qw = flow_settle m"
      using run unfolding nextAction_def fst_conv snd_conv rate by (simp only: option.distinct if_False sum.case map_option_eq_Some) blast
    show ?thesis
      using m ok reg slot dep [of rate] sub flow_ok_counter [OF ok, of L M mintAmount sleep B w m] by (cases "fl_step p") (auto simp only: FlowStep.case FlowStep.distinct option.inject prod.case sum.case fst_conv simp_thms)
  qed
qed

lemma js_BigInt_empty: "js_BigInt [] = Inr 0"
  by code_simp

lemma flow_bid_amount_covered:
  assumes "flow_bid_amount p (bigint_toString n) = Inr base"
  obtains price where "baseAtomsForCurrentInput p = Inr base" "js_BigInt (flow_priceLimit p) = Inr price" "base * price \<le> n" "0 < base"
proof -
  obtain price where "baseAtomsForCurrentInput p = Inr base" "js_BigInt (if flow_priceLimit p = [] then ''0'' else flow_priceLimit p) = Inr price" "base * price \<le> n"
    using assms unfolding flow_bid_amount_def by (auto simp: rbind_eq_Inr Let_def split: if_splits)
  moreover have "js_BigInt ''0'' = Inr 0" by code_simp
  moreover have "0 < base" using calculation(1) by (auto simp: baseAtomsForCurrentInput_def split: sum.splits if_splits)
  ultimately show thesis using that js_BigInt_empty by (metis)
qed

text \<open>The note of the deposit the panel sent.\<close>

lemma flow_deposit_note:
  assumes law: "base58_inverse L (dm_decoders M)" and dep: "flow_runDeposit L M B rate (p0, w0) = (Inr x, (p1, w1))"
    and n: "flow_deposit_amount p0 rate = Inr n" "n < 2 ^ 64"
  obtains cm ix sig w where "br_sendAndConfirm B [ix] w = (Inr sig, w1)" "noteCommitment L (deposit_ix_note ix) = Inr cm" "nt_amount (deposit_ix_note ix) = n"
    "fl_depositNote p1 = Some (bytes_hex cm, bigint_toString n)" "length cm = 32"
  using dep
proof (rule flow_runDeposit_okE, goal_cases)
  case (1 s n' r ix wa wb sig)
  have n': "n' = n" using 1(3) n(1) by simp
  show ?thesis
    using 1(4)
  proof (rule deposit_prepare_okE [where n = "fl_depositNonce p0"], goal_cases)
    case prems: (2 vo amount nonce conns programs leafIndex cm ownerB nonceB blindB depositor ata dix)
    have amount: "amount = n" using prems(2) n' by simp
    have "ix = dix" using 1(5) prems(11) instruction_json_inverse [OF law] by simp
    then have "deposit_ix_note ix = private_deposit_note L (vo_seed vo) (side_mint programs ''quote'') n nonce leafIndex"
      using buildDepositInstruction_note(1) [OF prems(10)] prems(3,7,8,9) n(2) amount
      by (simp add: private_deposit_note_def bn254ToBE32_Inr_iff)
    then show ?thesis
      using that [of ix wb sig cm] 1(6,7) prems(6,12) amount n' noteCommitment_length [OF prems(6)] by (simp add: private_deposit_note_def)
  qed simp
qed

interpretation flow: machine_invariant "flow_moves L M mintAmount sleep B" "\<lambda>pw. flow_ok (fst pw)" for L M mintAmount sleep B
  by unfold_locales (auto elim!: flow_movesE intro: flow_ok_next)

section \<open>Properties\<close>

text \<open>(C17) Whatever the user clicks, whatever fails, whenever the size is edited or the meta data arrives, and however the
  world changes in between: the trade panel never stays busy, from the slot step on it has a slot the
  program knows, from the deposit on it remembers a 32-byte commitment with a positive amount, and
  from the order on a 16-byte order id with its expiry.\<close>

theorem flow_invariant:
  assumes "reach (flow_moves L M mintAmount sleep B) (initial_flow base now, w0) (p, w)"
  shows "\<not> fl_busy p
     \<and> (fl_step p \<in> {FlowSlotReady, FlowDeposited, FlowOrderEr, FlowMatched} \<longrightarrow> (\<exists>i. fl_slotIdx p = Some i \<and> 0 \<le> i \<and> i < 4))
     \<and> (fl_step p \<in> {FlowDeposited, FlowOrderEr, FlowMatched} \<longrightarrow>
          (\<exists>cm n. fl_depositNote p = Some (bytes_hex cm, bigint_toString n) \<and> length cm = 32 \<and> 0 < n))
     \<and> (fl_step p \<in> {FlowOrderEr, FlowMatched} \<longrightarrow>
          (\<exists>orderId e. fl_orderCtx p = Some (bytes_hex orderId, bigint_toString e) \<and> length orderId = 16))"
proof -
  from flow.invariant [OF assms] have "flow_ok p" by (simp add: flow_ok_def initial_flow_def)
  then show ?thesis unfolding flow_ok_def .
qed

text \<open>(C11) A bid that the panel placed after its deposit is backed: the deposit instruction it sent describes the note it
  remembers, of the amount it computed; that amount covers the bid; the trading key of the session
  signs the order, and the program accepts it in a reusable slot of that key before it expires, as a
  resting bid of the entered size at the price limit with exactly that note as collateral.\<close>

theorem flow_bid_backed:
  assumes law: "base58_inverse L (dm_decoders M)" and env: "demo_setup M = Inr (conns, programs)"
    and dep: "flow_runDeposit L M B rate (p0, w0) = (Inr x, (p1, w1))" and n: "flow_deposit_amount p0 rate = Inr n" "n < 2 ^ 64"
    and sub: "runSubmitOrderEr L M B (p1, w) = (Inr y, (p2, w2))"
  shows "\<exists>cm dix dsig wd s secret ix sig ws trading base price expiry orderId.
      br_sendAndConfirm B [dix] wd = (Inr dsig, w1) \<and> noteCommitment L (deposit_ix_note dix) = Inr cm \<and> nt_amount (deposit_ix_note dix) = n
    \<and> readDappSessionForOwner (flow_base B) (br_connectedOwner B) w = Some s \<and> session_string s ''tradingSecretKeyBase58'' = Some secret
    \<and> rbind (bs58_decode (dm_decoders M) secret) (Keypair_fromSecretKey (dm_wallet M)) = Inr trading
    \<and> fb_sendRollup B ix trading ws = (Inr sig, w2) \<and> signers_of ix = [kp_publicKey trading]
    \<and> baseAtomsForCurrentInput p1 = Inr base \<and> js_BigInt (flow_priceLimit p1) = Inr price \<and> base * price \<le> n
    \<and> fl_orderCtx p2 = Some (bytes_hex orderId, bigint_toString expiry)
    \<and> (\<forall>slot now. po_trading_key slot = kp_publicKey trading \<and> po_market slot = pr_market programs \<and> Some (po_slot_idx slot) = fl_slotIdx p1
         \<and> isReusablePendingOrderStatus (po_status slot) \<and> 0 < price \<and> 0 \<le> now \<and> now < expiry \<and> expiry < 2 ^ 64 \<and> orderId \<noteq> zeros 16
       \<longrightarrow> (\<exists>slot'. submit_order_handler L now (kp_publicKey trading) (borshSubmitOrderArgs (drop 8 (ix_data ix))) slot = Inr slot'
             \<and> po_status slot' = PENDING_STATUS_PENDING \<and> po_side slot' = 0 \<and> po_amount slot' = base \<and> po_price_limit slot' = price
             \<and> po_note_amount slot' = n \<and> po_collateral_note slot' = cm \<and> po_order_id slot' = orderId \<and> po_expiry_slot slot' = expiry))"
proof -
  obtain cm dix dsig wd where d: "br_sendAndConfirm B [dix] wd = (Inr dsig, w1)" "noteCommitment L (deposit_ix_note dix) = Inr cm"
      "nt_amount (deposit_ix_note dix) = n" "fl_depositNote p1 = Some (bytes_hex cm, bigint_toString n)" "length cm = 32"
    using law dep n by (rule flow_deposit_note)
  show ?thesis
    using sub
  proof (rule runSubmitOrderEr_okE, goal_cases)
    case o: (1 s slotIdx cmHex noteAmount base t trading now orderId oc r ix wa wb wc sig)
    have note_is: "cmHex = bytes_hex cm" "noteAmount = bigint_toString n" using o(3) d(4) by simp_all
    obtain price where price: "baseAtomsForCurrentInput p1 = Inr base" "js_BigInt (flow_priceLimit p1) = Inr price" "base * price \<le> n" "0 < base"
      using o(4) unfolding note_is by (rule flow_bid_amount_covered)
    show ?thesis
      using o(9)
    proof (rule build_order_okE, goal_cases)
      case b: (1 vo tk conns' programs' amount priceLimit na expirySlot keys)
      have same: "programs' = programs" "amount = base" "priceLimit = price" "na = n" "expirySlot = now + 500"
        using b(3-7) env price(2) note_is by (simp_all add: submit_request_def)
      have tk: "tk = trading" using b(2) o(5,6) by (auto simp: submit_request_def session_trading_key_def rbind_eq_Inr split: if_splits)
      have ix: "ix = sok_ix keys" using o(10) b(9) instruction_json_inverse [OF law] by simp
      note keys = b(8) [unfolded same tk]
      have signs: "signers_of ix = [kp_publicKey trading]" unfolding ix by (simp add: signers_of_def buildSubmitOrder_wire(6) [OF keys] meta_def)
      have ctx: "fl_orderCtx p2 = Some (bytes_hex orderId, bigint_toString (now + 500))" by (simp add: o(12))
      have handled: "\<exists>slot'. submit_order_handler L h (kp_publicKey trading) (borshSubmitOrderArgs (drop 8 (ix_data ix))) slot = Inr slot'
             \<and> po_status slot' = PENDING_STATUS_PENDING \<and> po_side slot' = 0 \<and> po_amount slot' = base \<and> po_price_limit slot' = price
             \<and> po_note_amount slot' = n \<and> po_collateral_note slot' = cm \<and> po_order_id slot' = orderId \<and> po_expiry_slot slot' = now + 500"
        if "po_trading_key slot = kp_publicKey trading" "po_market slot = pr_market programs" "Some (po_slot_idx slot) = fl_slotIdx p1"
          "isReusablePendingOrderStatus (po_status slot)" "0 < price" "0 \<le> h" "h < now + 500" "now + 500 < 2 ^ 64" "orderId \<noteq> zeros 16" for slot h
      proof -
        have "base \<le> base * price" "price \<le> base * price" using price(4) that(5) by simp_all
        then have fits: "base < 2 ^ 64" "price < 2 ^ 64" "0 \<le> n" using price(3,4) n(2) by linarith+
        show ?thesis
          using order_handled [OF keys, of slot "kp_publicKey trading" h] that fits price(3,4) n(2) o(2) note_is
          by (simp add: submit_request_def route_hexToBytes_def ix resting_order_def)
      qed
      show ?thesis
        by (intro exI conjI, rule d(1), rule d(2), rule d(3), rule o(1), rule o(5), rule o(6), rule o(11), rule signs, rule price(1), rule price(2), rule price(3), rule ctx)
          (use handled in blast)
    qed
  qed
qed

end
