(* ===== verification/Nyx_Demo_Sends.thy ===== *)
theory Nyx_Demo_Sends
  imports Nyx_Demo_Counter
begin

text \<open>
  Which transactions the routes of the demo send, beside the signatures they report. The locale \<open>demo_log\<close> is a
  pair of connections, to L1 and to the rollup, with one log. \<open>logs sent E Q m\<close> says what a step adds to
  the log: \<open>E\<close> when it fails, \<open>Q\<close> with its result when it succeeds; \<open>reports sent hide m\<close> says that the signatures
  a step collects are those of the transactions it got confirmed, in order, except the ones in \<open>hide\<close>.

  Proved: a deposit of the SDK's client sends one transaction, with the instruction of its note; and what the
  counterparty's route reports, in success and in failure, is what it sent.
\<close>

section \<open>What a step adds to the log\<close>

definition logs :: "('w \<Rightarrow> 'x list) \<Rightarrow> ('x list \<Rightarrow> bool) \<Rightarrow> ('a \<Rightarrow> 'x list \<Rightarrow> bool) \<Rightarrow> ('w, 'e, 'a) io \<Rightarrow> bool" where
  "logs sent E Q m \<longleftrightarrow> (\<forall>w r w'. m w = (r, w') \<longrightarrow> (\<exists>ts. sent w' = sent w @ ts \<and> (case r of Inl e \<Rightarrow> E ts | Inr x \<Rightarrow> Q x ts)))"

lemma logsI: "(\<And>w r w'. m w = (r, w') \<Longrightarrow> \<exists>ts. sent w' = sent w @ ts \<and> (case r of Inl e \<Rightarrow> E ts | Inr x \<Rightarrow> Q x ts)) \<Longrightarrow> logs sent E Q m"
  by (simp add: logs_def)

lemma logs_okE:
  assumes "logs sent E Q m" and "m w = (Inr x, w')"
  obtains ts where "sent w' = sent w @ ts" "Q x ts"
  using assms unfolding logs_def by fastforce

lemma logs_failE:
  assumes "logs sent E Q m" and "m w = (Inl e, w')"
  obtains ts where "sent w' = sent w @ ts" "E ts"
  using assms unfolding logs_def by fastforce

lemma logs_weaken:
  assumes "logs sent E Q m" and "\<And>ts. E ts \<Longrightarrow> E' ts" and "\<And>x ts. Q x ts \<Longrightarrow> Q' x ts"
  shows "logs sent E' Q' m"
proof (rule logsI)
  fix w r w'
  assume "m w = (r, w')"
  then obtain ts where "sent w' = sent w @ ts" "case r of Inl e \<Rightarrow> E ts | Inr x \<Rightarrow> Q x ts" using assms(1) unfolding logs_def by blast
  then show "\<exists>ts. sent w' = sent w @ ts \<and> (case r of Inl e \<Rightarrow> E' ts | Inr x \<Rightarrow> Q' x ts)"
    using assms(2,3) by (cases r) auto
qed

lemma logs_bind:
  assumes "logs sent E R m" and "\<And>x us. R x us \<Longrightarrow> logs sent (\<lambda>ts. E (us @ ts)) (\<lambda>y ts. Q y (us @ ts)) (f x)"
  shows "logs sent E Q (io_bind m f)"
proof (rule logsI)
  fix w r w'
  assume run: "io_bind m f w = (r, w')"
  obtain r1 u where m: "m w = (r1, u)" by fastforce
  show "\<exists>ts. sent w' = sent w @ ts \<and> (case r of Inl e \<Rightarrow> E ts | Inr x \<Rightarrow> Q x ts)"
  proof (cases r1)
    case (Inl e)
    obtain ts where "sent u = sent w @ ts" "E ts" using logs_failE [OF assms(1) m [unfolded Inl]] .
    moreover have "r = Inl e" "w' = u" using run by (simp_all add: io_bind_def m Inl)
    ultimately show ?thesis by auto
  next
    case (Inr x)
    obtain us where us: "sent u = sent w @ us" "R x us" using logs_okE [OF assms(1) m [unfolded Inr]] .
    have "f x u = (r, w')" using run by (simp add: io_bind_def m Inr)
    then obtain ts where "sent w' = sent u @ ts" "case r of Inl e \<Rightarrow> E (us @ ts) | Inr y \<Rightarrow> Q y (us @ ts)"
      using assms(2) [OF us(2)] unfolding logs_def by blast
    then show ?thesis using us by (intro exI [of _ "us @ ts"]) simp
  qed
qed

lemma logs_basic: "Q x [] \<Longrightarrow> logs sent E Q (io_return x)" "E [] \<Longrightarrow> logs sent E Q (io_throw e)"
  by (simp_all add: logs_def)

lemma io_bind_return: "io_bind (io_return x) f = f x"
  by (simp add: io_bind_def fun_eq_iff)

lemma logs_keeps_bind: "keeps sent m \<Longrightarrow> E [] \<Longrightarrow> (\<And>x. logs sent E Q (f x)) \<Longrightarrow> logs sent E Q (io_bind m f)"
proof (rule logs_bind [where R = "\<lambda>x ts. ts = []"])
  assume "keeps sent m" "E []"
  then show "logs sent E (\<lambda>x ts. ts = []) m"
    by (intro logsI exI [of _ "[]"]) (auto dest: keepsD split: sum.splits)
qed simp

lemma logs_of_bind: "E [] \<Longrightarrow> (\<And>x. r = Inr x \<Longrightarrow> logs sent E Q (f x)) \<Longrightarrow> logs sent E Q (io_bind (io_of r) f)"
  by (cases r) (simp_all add: logs_def io_bind_def)

lemma logs_if: "(b \<Longrightarrow> logs sent E Q m) \<Longrightarrow> (\<not> b \<Longrightarrow> logs sent E Q m') \<Longrightarrow> logs sent E Q (if b then m else m')"
  by simp

lemma logs_option: "logs sent E Q m \<Longrightarrow> (\<And>x. y = Some x \<Longrightarrow> logs sent E Q (f x)) \<Longrightarrow> logs sent E Q (case y of None \<Rightarrow> m | Some x \<Rightarrow> f x)"
  by (cases y) simp_all

lemma logs_pair: "(\<And>a b. p = (a, b) \<Longrightarrow> logs sent E Q (f a b)) \<Longrightarrow> logs sent E Q (case p of (a, b) \<Rightarrow> f a b)"
  by (cases p) simp

lemma sends_only_logs: "sends_only sent P m \<longleftrightarrow> logs sent (\<lambda>ts. \<forall>t \<in> set ts. P t) (\<lambda>x ts. \<forall>t \<in> set ts. P t) m"
  unfolding sends_only_def logs_def by (auto split: sum.splits) (metis snd_conv sum.exhaust surj_pair)+

context recorded
begin

abbreviation entry :: "instruction list \<Rightarrow> keypair list \<Rightarrow> js_error + string \<Rightarrow> sent_tx" where
  "entry ixs ks r \<equiv> \<lparr>st_cluster = cluster, st_ixs = ixs, st_signers = ks, st_result = r\<rparr>"

lemma logs_send: "(\<And>e. E [entry ixs ks (Inl e)]) \<Longrightarrow> logs sent E (\<lambda>sig ts. ts = [entry ixs ks (Inr sig)]) (rpc_sendAndConfirm c ixs ks)"
  by (rule logsI, drule sends) (auto split: sum.splits)

lemma logs_send_bind:
  assumes "\<And>e. E [entry ixs ks (Inl e)]"
    and "\<And>sig. logs sent (\<lambda>ts. E (entry ixs ks (Inr sig) # ts)) (\<lambda>y ts. Q y (entry ixs ks (Inr sig) # ts)) (f sig)"
  shows "logs sent E Q (io_bind (rpc_sendAndConfirm c ixs ks) f)"
  using logs_send [where E = E, OF assms(1)] by (rule logs_bind) (use assms(2) in auto)

end

section \<open>A deposit sends one transaction\<close>

lemma keeps_in_world: "keeps sent m \<Longrightarrow> keeps (\<lambda>s. sent (cs_world s)) (in_world m)"
  by (simp add: keeps_def in_world_def split: prod.splits) (metis snd_conv)

lemma deposit_ix_content:
  assumes "buildDepositInstruction L (deposit_ix_params L c p mk ob nb bb) = Inr ix" and "newPublicKey (dpp_tokenMint p) = Inr mk"
    and "length (dpp_tokenMint p) = 32" and "bn254ToBE32 (dpp_nonce p) = Inr nb"
    and "bn254ToBE32 (nt_blindingR (deposit_note L p keys n)) = Inr bb" and "bn254ToBE32 (nt_ownerCommitment (deposit_note L p keys n)) = Inr ob"
  shows "deposit_ix_note ix = (deposit_note L p keys n) \<lparr>nt_amount := dpp_amount p mod 2 ^ 64\<rparr>" and "signers_of ix = [dpp_depositor p]"
proof -
  have "toBytes mk = dpp_tokenMint p" using assms(2,3) by (simp add: newPublicKey_def split: if_splits) auto
  then show "deposit_ix_note ix = (deposit_note L p keys n) \<lparr>nt_amount := dpp_amount p mod 2 ^ 64\<rparr>"
    using buildDepositInstruction_note(1) [OF assms(1)] assms(4-6) [THEN bn254ToBE32_Inr_iff [THEN iffD1]]
    by (simp add: deposit_ix_params_def deposit_note_def)
  show "signers_of ix = [dpp_depositor p]" using buildDepositInstruction_note(2) [OF assms(1)] by (simp add: deposit_ix_params_def)
qed

lemma deposit_note_simps: "nt_amount (deposit_note L p keys n) = dpp_amount p" "nt_tokenMint (deposit_note L p keys n) = dpp_tokenMint p"
  by (simp_all add: deposit_note_def)

lemma deposit_logs:
  fixes c :: "'w DarkPoolClient" and tx :: "instruction list \<Rightarrow> js_error + string \<Rightarrow> 'x"
  assumes reads: "\<And>k. keeps sent (pv_getAccountInfo (dc_providers c) k)" and seed: "keeps sent (resolveMasterSeed L rng (dc_seedMode c))"
    and sends: "\<And>ixs w r w'. pv_sendAndConfirm (dc_providers c) ixs w = (r, w') \<Longrightarrow> sent w' = sent w @ [tx ixs r]"
    and "dpp_callbacks p = None"
  shows "logs (\<lambda>s. sent (cs_world s)) (\<lambda>ts. ts = [] \<or> (\<exists>ix e. ts = [tx [ix] (Inl e)]))
     (\<lambda>rec ts. \<exists>ix. ts = [tx [ix] (Inr (dr_signature rec))] \<and> noteCommitment L (dr_notePlaintext rec) = Inr (dr_noteCommitment rec)
        \<and> deposit_ix_note ix = (dr_notePlaintext rec) \<lparr>nt_amount := dpp_amount p mod 2 ^ 64\<rparr> \<and> signers_of ix = [dpp_depositor p]
        \<and> 0 < dpp_amount p \<and> nt_amount (dr_notePlaintext rec) = dpp_amount p \<and> nt_tokenMint (dr_notePlaintext rec) = dpp_tokenMint p)
     (getDepositFunction L rng c p)"
proof -
  let ?sent = "\<lambda>s. sent (cs_world s)"
  let ?E = "\<lambda>ts. ts = [] \<or> (\<exists>ix e. ts = [tx [ix] (Inl e)])"
  have keys: "keeps ?sent (getResolvedKeys L rng c)"
    using keeps_in_world [OF seed] unfolding keeps_def getResolvedKeys_def
    by (auto simp: io_bind_def split: option.splits prod.splits sum.splits) (metis snd_conv)+
  have send: "logs ?sent ?E (\<lambda>sig ts. ts = [tx [ix] (Inr sig)]) (in_world (pv_sendAndConfirm (dc_providers c) [ix]))" for ix
  proof (rule logsI)
    fix s r s'
    assume "in_world (pv_sendAndConfirm (dc_providers c) [ix]) s = (r, s')"
    then have "sent (cs_world s') = sent (cs_world s) @ [tx [ix] r]" by (auto simp: in_world_eq dest: sends)
    then show "\<exists>ts. sent (cs_world s') = sent (cs_world s) @ ts \<and> (case r of Inl e \<Rightarrow> ?E ts | Inr sig \<Rightarrow> ts = [tx [ix] (Inr sig)])"
      by (cases r) auto
  qed
  have pre: "call_pre (dpp_callbacks p) st = io_return ()" "call_post (dpp_callbacks p) st sig = io_return ()" for st sig
    by (simp_all add: assms(4) call_pre_def call_post_def)
  show ?thesis
    unfolding getDepositFunction_def Let_def pre io_bind_return
    by (intro logs_if logs_basic logs_keeps_bind [OF keys] logs_of_bind logs_keeps_bind [OF keeps_in_world [OF reads]] logs_pair
        logs_bind [OF send]) (auto simp: deposit_note_simps intro!: exI deposit_ix_content(1) [simplified] deposit_ix_content(2))
qed

lemma with_client_logs: "logs (\<lambda>s. sent (cs_world s)) E Q m \<Longrightarrow> logs sent E Q (with_client m)"
proof (rule logsI)
  fix w r w'
  assume m: "logs (\<lambda>s. sent (cs_world s)) E Q m" and "with_client m w = (r, w')"
  then obtain s where "m \<lparr>cs_resolvedSeed = None, cs_world = w\<rparr> = (r, s)" "w' = cs_world s" by (auto simp: with_client_def split: prod.splits)
  then show "\<exists>ts. sent w' = sent w @ ts \<and> (case r of Inl e \<Rightarrow> E ts | Inr x \<Rightarrow> Q x ts)" using m unfolding logs_def by fastforce
qed

section \<open>Signatures and transactions\<close>

text \<open>A step of a route acts on the signatures and the world; its log is that of the world.\<close>

abbreviation run_sent :: "('w \<Rightarrow> 'x list) \<Rightarrow> 'w run \<Rightarrow> 'x list" where
  "run_sent sent sw \<equiv> sent (snd sw)"

lemma in_run_logs: "logs sent E Q m \<Longrightarrow> logs (run_sent sent) E Q (in_run m)"
  unfolding logs_def in_run_def by (auto split: prod.splits)

lemma in_run_keeps: "keeps sent m \<Longrightarrow> keeps (run_sent sent) (in_run m)"
  by (simp add: keeps_def in_run_def split: prod.splits) (metis snd_conv)

lemma push_keeps: "keeps (run_sent sent) (push_signature label sig cluster)"
  by (simp add: keeps_def push_signature_def)

definition reported :: "tx_signature list \<Rightarrow> (string \<times> string) list" where
  "reported sigs = map (\<lambda>s. (txs_cluster s, txs_signature s)) sigs"

definition shown :: "(sent_tx \<Rightarrow> bool) \<Rightarrow> sent_tx list \<Rightarrow> (string \<times> string) list" where
  "shown hide ts = confirmed (filter (\<lambda>t. \<not> hide t) ts)"

lemma shown_append [simp]: "shown hide (ts @ us) = shown hide ts @ shown hide us" "shown hide [] = []" "reported [] = []"
  "reported (a @ b) = reported a @ reported b"
  by (simp_all add: shown_def reported_def)

lemma shown_one: "\<not> hide t \<Longrightarrow> shown hide [t] = (case st_result t of Inl e \<Rightarrow> [] | Inr sig \<Rightarrow> [(st_cluster t, sig)])"
  by (simp add: shown_def)

lemma shown_hidden: "\<forall>t \<in> set ts. hide t \<Longrightarrow> shown hide ts = []"
  by (simp add: shown_def)

definition reports :: "('w \<Rightarrow> sent_tx list) \<Rightarrow> (sent_tx \<Rightarrow> bool) \<Rightarrow> ('w run, js_error, 'a) io \<Rightarrow> bool" where
  "reports sent hide m \<longleftrightarrow> (\<forall>sw r tw. m sw = (r, tw) \<longrightarrow>
     (\<exists>new ts. fst tw = fst sw @ new \<and> sent (snd tw) = sent (snd sw) @ ts \<and> reported new = shown hide ts))"

lemma reportsI:
  "(\<And>sw r tw. m sw = (r, tw) \<Longrightarrow> \<exists>new ts. fst tw = fst sw @ new \<and> sent (snd tw) = sent (snd sw) @ ts \<and> reported new = shown hide ts)
     \<Longrightarrow> reports sent hide m"
  by (simp add: reports_def)

lemma reportsE:
  assumes "reports sent hide m" and "m sw = (r, tw)"
  obtains new ts where "fst tw = fst sw @ new" "sent (snd tw) = sent (snd sw) @ ts" "reported new = shown hide ts"
  using assms unfolding reports_def by blast

lemma reports_bind:
  assumes "reports sent hide m" and "\<And>x. reports sent hide (f x)"
  shows "reports sent hide (io_bind m f)"
proof (rule reportsI)
  fix sw r tw
  assume run: "io_bind m f sw = (r, tw)"
  obtain r1 uw where m: "m sw = (r1, uw)" by (metis surj_pair)
  obtain new ts where one: "fst uw = fst sw @ new" "sent (snd uw) = sent (snd sw) @ ts" "reported new = shown hide ts"
    using reportsE [OF assms(1) m] .
  show "\<exists>new ts. fst tw = fst sw @ new \<and> sent (snd tw) = sent (snd sw) @ ts \<and> reported new = shown hide ts"
  proof (cases r1)
    case (Inl e)
    then show ?thesis using one run by (auto simp: io_bind_def m)
  next
    case (Inr x)
    have "f x uw = (r, tw)" using run by (simp add: io_bind_def m Inr)
    from reportsE [OF assms(2) this] obtain new' ts' where
      "fst tw = fst uw @ new'" "sent (snd tw) = sent (snd uw) @ ts'" "reported new' = shown hide ts'" .
    then show ?thesis using one by (intro exI [of _ "new @ new'"] exI [of _ "ts @ ts'"]) simp
  qed
qed

lemma reports_basic: "reports sent hide (io_return x)" "reports sent hide (io_throw e)" "reports sent hide (io_of y)"
  by (auto simp: reports_def intro: exI [of _ "[]"])

lemma reports_of_bind: "(\<And>x. r = Inr x \<Longrightarrow> reports sent hide (f x)) \<Longrightarrow> reports sent hide (io_bind (io_of r) f)"
  by (cases r) (auto simp: reports_def io_bind_def intro: exI [of _ "[]"])

lemma reports_quiet: "sends_only sent hide m \<Longrightarrow> reports sent hide (in_run m)"
proof (rule reportsI)
  fix sw r tw
  assume m: "sends_only sent hide m" and run: "in_run m sw = (r, tw)"
  obtain w' where w: "m (snd sw) = (r, w')" "tw = (fst sw, w')" using run by (auto simp: in_run_def split: prod.splits)
  obtain ts where "sent w' = sent (snd sw) @ ts" "\<forall>t \<in> set ts. hide t" using sends_onlyE [OF m w(1)] .
  then show "\<exists>new ts. fst tw = fst sw @ new \<and> sent (snd tw) = sent (snd sw) @ ts \<and> reported new = shown hide ts"
    by (intro exI [of _ "[]"] exI [of _ ts]) (simp add: w(2) shown_hidden)
qed

lemma reports_push:
  assumes "logs sent (\<lambda>ts. shown hide ts = []) (\<lambda>x ts. shown hide ts = reported (new x)) m"
    and "\<And>x sw. p x sw = (Inr (), (fst sw @ new x, snd sw))"
  shows "reports sent hide (io_bind (in_run m) (\<lambda>x. io_bind (p x) (\<lambda>_. io_return x)))"
proof (rule reportsI)
  fix sw r tw
  assume run: "io_bind (in_run m) (\<lambda>x. io_bind (p x) (\<lambda>_. io_return x)) sw = (r, tw)"
  obtain r1 w1 where m: "m (snd sw) = (r1, w1)" by (metis surj_pair)
  obtain ts where ts: "sent w1 = sent (snd sw) @ ts" "case r1 of Inl e \<Rightarrow> shown hide ts = [] | Inr x \<Rightarrow> shown hide ts = reported (new x)"
    using assms(1) m unfolding logs_def by blast
  have "tw = (case r1 of Inl e \<Rightarrow> (fst sw, w1) | Inr x \<Rightarrow> (fst sw @ new x, w1))"
    using run by (auto simp: io_bind_def in_run_def m assms(2) split: sum.splits)
  then show "\<exists>new ts. fst tw = fst sw @ new \<and> sent (snd tw) = sent (snd sw) @ ts \<and> reported new = shown hide ts"
    using ts by (cases r1) (auto intro: exI [of _ "[]"])
qed

lemma reports_push_bind:
  assumes "logs sent (\<lambda>ts. shown hide ts = []) (\<lambda>x ts. shown hide ts = reported (new x)) m"
    and "\<And>x sw. p x sw = (Inr (), (fst sw @ new x, snd sw))" and "\<And>x u. reports sent hide (f x u)"
  shows "reports sent hide (io_bind (in_run m) (\<lambda>x. io_bind (p x) (f x)))"
proof -
  have "io_bind (in_run m) (\<lambda>x. io_bind (p x) (f x)) = io_bind (io_bind (in_run m) (\<lambda>x. io_bind (p x) (\<lambda>_. io_return x))) (\<lambda>x. f x ())"
    by (simp add: io_bind_def fun_eq_iff split: prod.splits sum.splits)
  then show ?thesis using reports_bind [OF reports_push [OF assms(1,2)], of "\<lambda>x. f x ()"] assms(3) by simp
qed

lemma reports_if: "reports sent hide m \<Longrightarrow> reports sent hide m' \<Longrightarrow> reports sent hide (if b then m else m')"
  by simp

lemma reports_option: "reports sent hide m \<Longrightarrow> (\<And>x. reports sent hide (f x)) \<Longrightarrow> reports sent hide (case y of None \<Rightarrow> m | Some x \<Rightarrow> f x)"
  by (cases y) simp_all

lemma reports_pair: "(\<And>a b. reports sent hide (f a b)) \<Longrightarrow> reports sent hide (case p of (a, b) \<Rightarrow> f a b)"
  by (cases p) simp

lemmas reports_intros = reports_of_bind reports_bind reports_basic reports_if reports_option reports_pair

context recorded
begin

lemma reports_send:
  assumes "\<And>r. \<not> hide (entry ixs ks r)"
  shows "reports sent hide (send_labelled c ixs ks label cluster)"
proof -
  have "logs sent (\<lambda>ts. shown hide ts = []) (\<lambda>sig ts. shown hide ts = reported [\<lparr>txs_label = label, txs_signature = sig, txs_cluster = cluster\<rparr>])
      (rpc_sendAndConfirm c ixs ks)"
    by (rule logs_weaken [OF logs_send [where E = "\<lambda>ts. \<exists>e. ts = [entry ixs ks (Inl e)]"]]) (auto simp: shown_one assms reported_def)
  from reports_push [OF this, of "\<lambda>sig. push_signature label sig cluster"]
  have "reports sent hide (io_bind (in_run (rpc_sendAndConfirm c ixs ks)) (\<lambda>sig. io_bind (push_signature label sig cluster) (\<lambda>_. io_return sig)))"
    by (simp add: push_signature_def)
  then show ?thesis
    unfolding reports_def send_labelled_def by (auto simp: io_bind_def push_signature_def split: prod.splits sum.splits) 
qed

end

section \<open>The two connections of the demo\<close>

locale demo_log = l1: recorded "''l1''" "dcn_l1 conns" sent + er: recorded "''er''" "dcn_er conns" sent
  for conns :: "'w demo_connections" and sent :: "'w \<Rightarrow> sent_tx list"

interpretation logged_demo: demo_log "\<lparr>dcn_l1 = logged ''l1'' c, dcn_er = logged ''er'' d, dcn_erRpcUrl = url\<rparr>" snd for c d url
  by (simp add: demo_log_def logged.recorded_axioms)

text \<open>Transactions on L1 with one of the given lists of signers, whose signatures a route does not report.\<close>

definition unreported :: "keypair list set \<Rightarrow> sent_tx \<Rightarrow> bool" where
  "unreported S t \<longleftrightarrow> st_cluster t = ''l1'' \<and> st_signers t \<in> S"

text \<open>A signature is never the empty text.\<close>

definition signatures_given :: "'w rpc \<Rightarrow> bool" where
  "signatures_given c \<longleftrightarrow> (\<forall>ixs ks w sig w'. rpc_sendAndConfirm c ixs ks w = (Inr sig, w') \<longrightarrow> sig \<noteq> [])"

context demo_log
begin

lemma market_quiet:
  "[funder] \<in> S \<Longrightarrow> sends_only sent (unreported S) (ensureMarketDelegatedOnL1 L (dcn_l1 conns) me market funder)"
  unfolding ensureMarketDelegatedOnL1_def
  by (intro sends_only_intros l1.sends_only_reads l1.sends_only_send) (simp add: unreported_def)

lemma topUp_quiet: "[funder] \<in> S \<Longrightarrow> sends_only sent (unreported S) (topUpSol W (dcn_l1 conns) funder k n)"
  unfolding topUpSol_def by (intro sends_only_intros l1.sends_only_reads l1.sends_only_send) (simp add: unreported_def)

lemma slot_loop_keeps: "keeps sent (slot_loop L (dcn_l1 conns) (dcn_er conns) me market key msg first idxs)"
  by (induction idxs arbitrary: first) (auto intro!: keeps_intros l1.keeps_reads er.keeps_reads split: option.split)

lemma settle_logs:
  assumes "tc_l1 ctx = dcn_l1 conns"
  shows "logs sent (\<lambda>ts. \<forall>t \<in> set ts. unreported {[tc_tee ctx]} t)
     (\<lambda>res ts. confirmed ts = reported (sr_lockSettleSignatures res) \<and> (\<forall>t \<in> set ts. unreported {[tc_tee ctx]} t)) (runTradeL1Settle L D W ctx)"
  unfolding runTradeL1Settle_def Let_def assms
  by (intro logs_of_bind logs_keeps_bind [OF l1.keeps_account_data] logs_keeps_bind [OF l1.keeps_post_settle_replay [OF assms]]
      l1.logs_send_bind logs_pair logs_option logs_if logs_basic)
    (simp_all add: unreported_def reported_def)

lemma fee_logs:
  assumes "signatures_given (dcn_l1 conns)" and "[admin] \<notin> S"
  shows "logs sent (\<lambda>ts. shown (unreported S) ts = [])
     (\<lambda>fee ts. shown (unreported S) ts = reported (if zf_zeroed fee \<and> \<not> absent (zf_signature fee)
        then [\<lparr>txs_label = label, txs_signature = the (zf_signature fee), txs_cluster = ''l1''\<rparr>] else []))
     (ensureZeroProtocolFee L (dcn_l1 conns) vault admin)"
proof -
  have send: "logs sent (\<lambda>ts. shown (unreported S) ts = []) (\<lambda>sig ts. ts = [l1.entry ixs [admin] (Inr sig)] \<and> sig \<noteq> [])
      (rpc_sendAndConfirm (dcn_l1 conns) ixs [admin])" for ixs
  proof (rule logsI)
    fix w r w'
    assume run: "rpc_sendAndConfirm (dcn_l1 conns) ixs [admin] w = (r, w')"
    have "sig \<noteq> []" if "r = Inr sig" for sig using assms(1) run that unfolding signatures_given_def by blast
    then show "\<exists>ts. sent w' = sent w @ ts \<and> (case r of Inl e \<Rightarrow> shown (unreported S) ts = [] | Inr sig \<Rightarrow> ts = [l1.entry ixs [admin] (Inr sig)] \<and> sig \<noteq> [])"
      using l1.sends [OF run] assms(2) by (cases r) (auto simp: shown_one unreported_def)
  qed
  show ?thesis
    unfolding ensureZeroProtocolFee_def Let_def
    by (intro logs_of_bind logs_keeps_bind [OF l1.keeps_reads(1)] logs_pair logs_option logs_if logs_basic logs_bind [OF send])
      (auto simp: shown_one unreported_def assms(2) reported_def absent_def intro!: logs_basic)
qed

lemma mint_reports:
  "[kr_admin keyring] \<notin> S \<Longrightarrow> reports sent (unreported S) (mint_to_maker M mintAmount (dcn_l1 conns) programs keyring a b)"
  unfolding mint_to_maker_def Let_def
  by (intro reports_of_bind l1.reports_send) (simp add: unreported_def)

lemma deposit_reports:
  assumes "[kr_maker keyring] \<notin> S"
  shows "reports sent (unreported S) (maker_deposit L M conns programs keyring body a b)"
proof -
  let ?maker = "kr_maker keyring"
  let ?c = "makePersonaDarkPoolClient L (dcn_l1 conns) (dcn_erRpcUrl conns) (pr_vaultProgramId programs) (pr_meProgramId programs) ?maker Maker"
  have dep: "logs sent (\<lambda>ts. shown (unreported S) ts = [])
      (\<lambda>rec ts. shown (unreported S) ts = reported [\<lparr>txs_label = l, txs_signature = dr_signature rec, txs_cluster = ''l1''\<rparr>])
      (with_client (getDepositFunction L (dm_randomBytes M) ?c p))" if "dpp_callbacks p = None" for p l
  proof (rule logs_weaken [OF with_client_logs [OF deposit_logs [where tx = "\<lambda>ixs. l1.entry ixs [?maker]"]]])
    show "keeps sent (pv_getAccountInfo (dc_providers ?c) k)" for k
      by (simp add: makePersonaDarkPoolClient_def getDarkPoolClient_def l1.keeps_reads Let_def)
    show "keeps sent (resolveMasterSeed L (dm_randomBytes M) (dc_seedMode ?c))"
      by (simp add: makePersonaDarkPoolClient_def getDarkPoolClient_def resolveMasterSeed_def io_bind_return keeps_def Let_def)
    show "sent w' = sent w @ [l1.entry ixs [?maker] r]" if "pv_sendAndConfirm (dc_providers ?c) ixs w = (r, w')" for ixs w r w'
      using that by (intro l1.sends) (simp add: makePersonaDarkPoolClient_def getDarkPoolClient_def Let_def)
  qed (use that assms in \<open>auto simp: shown_one unreported_def reported_def\<close>)
  have "reports sent (unreported S) (maker_deposit_with L M conns programs keyring body a b n)" for n
    unfolding maker_deposit_with_def Let_def
    by (intro reports_of_bind reports_push_bind [OF dep] reports_basic) (simp_all add: push_signature_def)
  then show ?thesis by (simp add: reports_def maker_deposit_def)
qed

lemma slot_reports:
  assumes "[kr_maker keyring] \<notin> S" and "[kr_funder keyring, kr_maker keyring] \<notin> S"
  shows "reports sent (unreported S) (maker_slot L conns programs keyring)"
  unfolding maker_slot_def Let_def
  by (intro reports_intros reports_quiet keeps_sends_only slot_loop_keeps l1.keeps_reads l1.reports_send) (simp_all add: unreported_def assms)

lemma order_reports:
  assumes "\<And>n. keeps sent (dm_randomBytes M n)"
  shows "reports sent (unreported S) (maker_order L M conns programs keyring body makerSlot depAmount receipt)"
  unfolding maker_order_def Let_def
  by (intro reports_intros reports_quiet keeps_sends_only assms l1.keeps_reads er.reports_send) (simp add: unreported_def)

lemma batch_reports: "reports sent (unreported S) (run_batch_and_undelegate L conns programs keyring k i j)"
  unfolding run_batch_and_undelegate_def Let_def
  by (intro reports_intros reports_quiet keeps_sends_only l1.keeps_reads er.reports_send) (simp_all add: unreported_def)

lemma prepare_reports:
  assumes "demo_setup M = Inr (conns, programs)" and "resolveRepoRoot (dm_host M) = Inr repo"
    and "loadDemoKeyring (dm_host M) (dm_decoders M) (dm_wallet M) repo = Inr keyring"
    and "signatures_given (dcn_l1 conns)" and "\<And>n. keeps sent (dm_randomBytes M n)"
    and "[kr_funder keyring] \<in> S" and "[kr_admin keyring] \<notin> S" and "[kr_maker keyring] \<notin> S" and "[kr_funder keyring, kr_maker keyring] \<notin> S"
  shows "reports sent (unreported S) (counter_prepare L M mintAmount body)"
  unfolding counter_prepare_def Let_def
proof (intro reports_if reports_basic reports_of_bind, goal_cases)
  case (1 vo tk repo' cfg conns' programs' keyring')
  have eqs: "conns' = conns" "keyring' = keyring" "programs' = programs"
    using 1 assms(1-3) by (auto simp: demo_setup_def)
  show ?case unfolding eqs
    by (intro reports_push_bind [OF fee_logs [OF assms(4,7), where label = "''protocol fees set to 0 for this demo''"]] reports_bind reports_of_bind reports_quiet market_quiet topUp_quiet mint_reports deposit_reports slot_reports order_reports
        batch_reports reports_pair reports_basic assms)
      (simp_all add: push_signature_def)
qed

text \<open>The same signatures whether the TEE's transactions count as reported or not: none is sent before the wait.\<close>

lemma prepare_sent:
  assumes "demo_setup M = Inr (conns, programs)" and "resolveRepoRoot (dm_host M) = Inr repo"
    and "loadDemoKeyring (dm_host M) (dm_decoders M) (dm_wallet M) repo = Inr keyring"
    and "signatures_given (dcn_l1 conns)" and "\<And>n. keeps sent (dm_randomBytes M n)"
    and "kr_funder keyring \<notin> {kr_admin keyring, kr_maker keyring, kr_tee keyring}" and "kr_tee keyring \<notin> {kr_admin keyring, kr_maker keyring}"
    and "counter_prepare L M mintAmount body ([], w) = (res, sw)"
  obtains ts where "sent (snd sw) = sent w @ ts" "reported (fst sw) = shown (unreported {[kr_funder keyring]}) ts"
    "reported (fst sw) = shown (unreported {[kr_funder keyring], [kr_tee keyring]}) ts"
proof -
  have one: "\<exists>ts. sent (snd sw) = sent w @ ts \<and> reported (fst sw) = shown (unreported S) ts"
    if "S = {[kr_funder keyring]} \<or> S = {[kr_funder keyring], [kr_tee keyring]}" for S
  proof -
    have "reports sent (unreported S) (counter_prepare L M mintAmount body)"
      using that assms(6,7) by (intro prepare_reports [OF assms(1-5)]) auto
    then show ?thesis using assms(8) by (rule reportsE) auto
  qed
  from one [of "{[kr_funder keyring]}"] one [of "{[kr_funder keyring], [kr_tee keyring]}"] show thesis using that by auto
qed

lemma wait_sends_nothing:
  assumes "clock_advances (counter_polling M sleep (dcn_l1 conns))" and "\<forall>n w. sent (sleep n w) = sent w"
  obtains out w2 where
    "waitForL1AccountChange L (counter_polling M sleep (dcn_l1 conns)) k pre (Some 90000) (Some 1000) w = Some (out, w2)" "sent w2 = sent w"
proof -
  let ?env = "counter_polling M sleep (dcn_l1 conns)"
  from wait_loop_returns [OF assms(1), of 1000, simplified] obtain out w2 where wait:
    "waitForL1AccountChange L ?env k pre (Some 90000) (Some 1000) w = Some (out, w2)"
    by (simp add: waitForL1AccountChange_def) meson
  have "\<forall>k. keeps sent (env_getAccountInfo ?env k)"
    by (auto simp: counter_polling_def intro!: keeps_intros l1.keeps_reads)
  then have "sent w2 = sent w"
    using wait_loop_keeps [of ?env _ _ _ _ _ w "(out, w2)" sent] wait assms(2)
    by (auto simp: waitForL1AccountChange_def counter_polling_def)
  then show thesis using that wait by blast
qed

lemma settle_reports:
  assumes "cst_conns st = conns" and "counter_settle L M body st sw = (r, tw)"
  shows "\<exists>ts. sent (snd tw) = sent (snd sw) @ ts \<and> (\<forall>t \<in> set ts. st_cluster t = ''l1'' \<and> st_signers t = [kr_tee (cst_keyring st)])
     \<and> (case r of Inl e \<Rightarrow> fst tw = fst sw | Inr (Inl msg) \<Rightarrow> True
        | Inr (Inr rep) \<Rightarrow> \<exists>new. cmr_signatures rep = fst sw @ new \<and> reported new = confirmed ts)"
proof -
  let ?note = "route_hexToBytes (the (cmb_userNoteCommitmentHex body))" and ?id = "route_hexToBytes (the (cmb_userOrderIdHex body))"
  show ?thesis
  proof (cases "\<exists>n. js_BigInt (the (cmb_userExpirySlot body)) = Inr n \<and> length ?id = 16 \<and> length ?note = 32")
    case True
    then obtain n where n: "js_BigInt (the (cmb_userExpirySlot body)) = Inr n" "length ?id = 16" "length ?note = 32" by blast
    let ?m = "runTradeL1Settle L (dm_decoders M) (dm_wallet M) (settle_context st ?note ?id n)"
    obtain r1 w1 where m: "?m (snd sw) = (r1, w1)" by (metis surj_pair)
    have "logs sent (\<lambda>ts. \<forall>t \<in> set ts. unreported {[kr_tee (cst_keyring st)]} t)
        (\<lambda>res ts. confirmed ts = reported (sr_lockSettleSignatures res) \<and> (\<forall>t \<in> set ts. unreported {[kr_tee (cst_keyring st)]} t)) ?m"
      using settle_logs [of "settle_context st ?note ?id n" L "dm_decoders M" "dm_wallet M"] by (simp add: settle_context_def assms(1))
    then obtain ts where ts: "sent w1 = sent (snd sw) @ ts" "\<forall>t \<in> set ts. unreported {[kr_tee (cst_keyring st)]} t"
        "case r1 of Inl e \<Rightarrow> True | Inr res \<Rightarrow> confirmed ts = reported (sr_lockSettleSignatures res)"
      using m unfolding logs_def by (fastforce split: sum.splits)
    show ?thesis
      using assms(2) ts n m
      by (intro exI [of _ ts]) (cases r1, auto simp: counter_settle_def Let_def io_bind_def in_run_def unreported_def)
  next
    case False
    then show ?thesis
      using assms(2) by (intro exI [of _ "[]"]) (auto simp: counter_settle_def Let_def io_bind_def split: if_splits sum.splits)
  qed
qed

end

section \<open>Properties\<close>

lemma shown_all: "\<forall>t \<in> set ts. \<not> hide t \<Longrightarrow> shown hide ts = confirmed ts"
  by (simp add: shown_def)

text \<open>(C18) The route always answers when the clock advances, and what it reports is what it sent. A successful answer
  has the cluster and the signature of every transaction that was confirmed, in the order they were
  sent, except those on L1 that the funder alone signed (delegating the market and topping up
  accounts). An answer with status 500 has those of every confirmed transaction except these and the ones
  the TEE alone signed on L1: a settlement that fails after the notes were locked does not report the
  lock. Its labels are in the order of the protocol: fee reset, mint, deposit, slot, order, batch,
  undelegation. An answer with status 400 carries none.\<close>

theorem counter_failure_reported:
  assumes "demo_setup M = Inr (conns, programs)" and "clock_advances (counter_polling M sleep (dcn_l1 conns))"
    and "resolveRepoRoot (dm_host M) = Inr repo" and "loadDemoKeyring (dm_host M) (dm_decoders M) (dm_wallet M) repo = Inr keyring"
    and "kr_funder keyring \<notin> {kr_admin keyring, kr_maker keyring, kr_tee keyring}" and "kr_tee keyring \<notin> {kr_admin keyring, kr_maker keyring}"
    and "demo_log conns sent" and "signatures_given (dcn_l1 conns)"
    and "\<forall>n. keeps sent (dm_randomBytes M n)" and "\<forall>n w. sent (sleep n w) = sent w"
  shows "\<exists>answer w' ts. counter_and_match_POST L M mintAmount sleep body w = Some (answer, w') \<and> sent w' = sent w @ ts
     \<and> (case answer of
          ReplyOk r \<Rightarrow> reported (cmr_signatures r) = shown (unreported {[kr_funder keyring]}) ts
        | ReplyError st msg d \<Rightarrow>
            st = 400 \<and> d = None
            \<or> st = 500 \<and> (\<exists>sigs. d = Some (signatures_json sigs) \<and> subseq (map txs_label sigs) counter_labels
                \<and> reported sigs = shown (unreported {[kr_funder keyring], [kr_tee keyring]}) ts))"
proof -
  let ?F = "unreported {[kr_funder keyring]}" and ?T = "unreported {[kr_funder keyring], [kr_tee keyring]}"
  obtain res sw where prep: "counter_prepare L M mintAmount body ([], w) = (res, sw)" by (metis surj_pair)
  have sigs: "subseq (map txs_label (fst sw)) counter_labels"
    using adds_prepare [of L M mintAmount body] prep unfolding adds_def by (metis append_Nil fst_conv snd_conv)
  have "\<And>n. keeps sent (dm_randomBytes M n)" using assms(9) by simp
  then obtain ts where ts: "sent (snd sw) = sent w @ ts" "reported (fst sw) = shown ?F ts" "reported (fst sw) = shown ?T ts"
    using demo_log.prepare_sent [OF assms(7,1,3,4,8) _ assms(5,6) prep] by blast
  show ?thesis
  proof (cases res)
    case (Inl e)
    show ?thesis using sigs ts by (intro exI [of _ ts] exI) (auto simp: counter_and_match_POST_def prep Inl counter_failed_def)
  next
    case (Inr x)
    show ?thesis
    proof (cases x)
      case left: (Inl msg)
      show ?thesis using ts(1) by (auto simp: counter_and_match_POST_def prep Inr left)
    next
      case right: (Inr st)
      have conns: "demo_setup M = Inr (cst_conns st, cst_programs st)" "kr_tee (cst_keyring st) = kr_tee keyring"
        by (rule counter_prepare_okE [OF prep [unfolded Inr right]], use assms in simp)+
      then have st: "cst_conns st = conns" using assms(1) by simp
      obtain out w2 where wait: "waitForL1AccountChange L (counter_polling M sleep (dcn_l1 (cst_conns st))) (cst_batchPda st) (cst_preHex st)
          (Some 90000) (Some 1000) (snd sw) = Some (out, w2)" and w2: "sent w2 = sent (snd sw)"
        unfolding st using demo_log.wait_sends_nothing [OF assms(7,2,10)] by blast
      obtain r3 sw3 where set: "counter_settle L M body st (fst sw, w2) = (r3, sw3)" by (metis surj_pair)
      from demo_log.settle_reports [OF assms(7) st set] obtain us where us: "sent (snd sw3) = sent w2 @ us"
          "\<forall>t \<in> set us. st_cluster t = ''l1'' \<and> st_signers t = [kr_tee keyring]"
          "case r3 of Inl e \<Rightarrow> fst sw3 = fst sw | Inr (Inl msg) \<Rightarrow> True
            | Inr (Inr rep) \<Rightarrow> \<exists>new. cmr_signatures rep = fst sw @ new \<and> reported new = confirmed us"
        unfolding conns(2) fst_conv snd_conv by blast
      have shown: "shown ?F us = confirmed us" "shown ?T us = []"
        using us(2) assms(5) by (auto intro!: shown_all shown_hidden simp: unreported_def)
      have post: "counter_and_match_POST L M mintAmount sleep body w = Some (case out of Inl e \<Rightarrow> counter_failed e (fst sw, w2)
          | Inr d \<Rightarrow> (case r3 of Inl e \<Rightarrow> counter_failed e sw3 | Inr (Inl msg) \<Rightarrow> (ReplyError 400 msg None, snd sw3) | Inr (Inr r) \<Rightarrow> (ReplyOk r, snd sw3)))"
        by (simp add: counter_and_match_POST_def prep Inr right wait set split: sum.splits)
      have sent3: "sent (snd sw3) = sent w @ ts @ us" using us(1) w2 ts(1) by simp
      show ?thesis
      proof (cases out)
        case (Inl e)
        then show ?thesis using sigs ts w2 by (auto simp: post counter_failed_def)
      next
        case got: (Inr d)
        show ?thesis
        proof (cases r3)
          case (Inl e)
          then show ?thesis using us(3) sigs ts(3) sent3 shown by (auto simp: post got counter_failed_def)
        next
          case settled: (Inr y)
          show ?thesis
          proof (cases y)
            case (Inl msg)
            then show ?thesis using sent3 by (auto simp: post got settled)
          next
            case (Inr r)
            then obtain new2 where "cmr_signatures r = fst sw @ new2" "reported new2 = confirmed us" using us(3) settled by auto
            then show ?thesis using sent3 ts(2) shown(1) Inr by (auto simp: post got settled)
          qed
        qed
      qed
    qed
  qed
qed

end
