(* ===== verification/Nyx_Demo_Flow_Scenario.thy ===== *)
theory Nyx_Demo_Flow_Scenario
  imports Nyx_Demo_Deposit_Scenario Nyx_Demo_Order_Scenario Nyx_Demo_Flow Nyx_Demo_Sends "HOL-Library.Countable"
begin

text \<open>
  A concrete bid of the trade panel and a concrete identity, on which the properties of these panels are
  applied. The libraries and the routes' environment are those of the other scenarios.
\<close>

section \<open>The trade panel\<close>

definition bid_session :: json where
  "bid_session = JObj [(''phantomSignatureBase58'', JStr demo_sig), (''ownerPubkeyBase58'', JStr demo_pubkey),
     (''tradingSecretKeyBase58'', JStr demo_trading_secret), (''publicData'', JObj [(''ownerCommitmentHex'', JStr (bytes_hex (replicate 32 4)))])]"

definition bid_browser :: "bool flow_browser" where
  "bid_browser = \<lparr>br_window = True, br_getItem = (\<lambda>k w. Inr (Some ''s'')), br_json_parse = (\<lambda>t. Inr bid_session),
     br_connectedOwner = Some demo_pubkey, br_network = (\<lambda>w. (Inr (), w)), br_sendAndConfirm = (\<lambda>ixs w. (Inr ''sig'', w)),
     br_prove = (\<lambda>inp w. (Inr demo_proof, w)), br_now = (\<lambda>w. 0),
     ib_signMessage = None, ib_bs58_encode = bytes_hex, ib_walletCreate_prove = (\<lambda>inp w. (Inr demo_proof, w)),
     ib_stringify = (\<lambda>j. ''s''), ib_setItem = (\<lambda>k v w. (Inr (), w)), ib_removeItem = (\<lambda>k w. (Inr (), w)), ib_error_page = [],
     fb_getSlot = (\<lambda>w. (Inr 100, w)), fb_randomValues = (\<lambda>n w. (Inr (replicate n 1), w)), fb_sendRollup = (\<lambda>ix k w. (Inr ''er'', w))\<rparr>"

lemma bid_session_read: "readDappSessionForOwner (flow_base bid_browser) (br_connectedOwner bid_browser) w = Some bid_session"
  using demo_verifies(3)
  by (simp add: readDappSessionForOwner_def readDappSession_def bid_browser_def browser.truncate_def absent_def bid_session_def)

lemma bid_session_members:
  "session_string bid_session ''phantomSignatureBase58'' = Some demo_sig" "session_string bid_session ''ownerPubkeyBase58'' = Some demo_pubkey"
  "session_string bid_session ''tradingSecretKeyBase58'' = Some demo_trading_secret"
  "session_owner_commitment bid_session = Inr (Some (bytes_hex (replicate 32 4)))"
  by (simp_all add: session_string_def bid_session_def json_string_def session_owner_commitment_def)

text \<open>Five atoms at a price of seven, in slot 1.\<close>

definition bid_flow :: flow where
  "bid_flow = (initial_flow ''5'' 0) \<lparr>fl_step := FlowSlotReady, fl_slotIdx := Some 1,
     fl_tokenMeta := Some \<lparr>tm_baseDecimals = Some 0, tm_quoteDecimals = Some 0, tm_exchangeQuotePerBaseAtomic = ''7'', tm_orderPriceLimit = ''7''\<rparr>\<rparr>"

lemma seven: "js_BigInt ''7'' = Inr 7" by code_simp

lemma bid_flow_simps: "fl_slotIdx bid_flow = Some 1" "flow_priceLimit bid_flow = ''7''" "fl_depositNonce bid_flow = bigint_toString 333333"
  by (simp_all add: bid_flow_def initial_flow_def flow_priceLimit_def)

lemma bid_base: "fl_baseAmount p = ''5'' \<Longrightarrow> fl_tokenMeta p = fl_tokenMeta bid_flow \<Longrightarrow> baseAtomsForCurrentInput p = Inr 5"
proof -
  assume "fl_baseAmount p = ''5''" "fl_tokenMeta p = fl_tokenMeta bid_flow"
  moreover have "toAtoms (AmountString ''5'') 0 = Inr 5" by code_simp
  ultimately show ?thesis by (simp add: baseAtomsForCurrentInput_def flow_baseDecimals_def bid_flow_def)
qed

lemma bid_deposit: "flow_deposit_amount bid_flow 7 = Inr 35"
  using bid_base [of bid_flow] by (simp add: flow_deposit_amount_def bid_flow_simps seven Let_def) (simp add: bid_flow_def initial_flow_def)

lemma bid_parts:
  assumes "0 < amount" and "0 \<le> nonce" and "nonce < BN254_R"
  obtains cm nb bb owner ix where
    "noteCommitment disc_lib (private_deposit_note disc_lib demo_seed 2 amount nonce (int n)) = Inr cm"
    "bn254ToBE32 nonce = Inr nb" "bn254ToBE32 (deriveBlindingFactor disc_lib demo_seed (int n)) = Inr bb"
    "bn254ToBE32 (ownerCommitment disc_lib (deriveSpendingKey disc_lib demo_seed) (deriveBlindingFactor disc_lib demo_seed 0)) = Inr (int_to_be 32 demo_owner)"
    "publicKeyOf ref_decoders (Some demo_pubkey) = Inr owner" "getAssociatedTokenAddress sample_wallet 2 owner = Inr (2 + owner)"
    "buildDepositInstruction disc_lib \<lparr>dp_programId = 9, dp_depositor = owner, dp_tokenMint = 2,
      dp_depositorTokenAccount = 2 + owner, dp_tokenProgramId = TOKEN_PROGRAM_ID disc_lib, dp_amount = amount,
      dp_ownerCommitment = int_to_be 32 demo_owner, dp_nonce = nb, dp_blindingR = bb\<rparr> = Inr ix"
proof -
  let ?note = "private_deposit_note disc_lib demo_seed 2 amount nonce (int n)"
  obtain cm where cm: "noteCommitment disc_lib ?note = Inr cm"
    using noteCommitment_total [OF disc_lib_canonical, of ?note] assms by (auto simp: private_deposit_note_def)
  have fld: "\<exists>bs. bn254ToBE32 x = Inr bs \<and> length bs = 32" if "0 \<le> x" "x < BN254_R" for x
    using that by (auto simp: bn254ToBE32_eq)
  obtain nb where nb: "bn254ToBE32 nonce = Inr nb" "length nb = 32" using fld [OF assms(2,3)] by blast
  obtain bb where bb: "bn254ToBE32 (deriveBlindingFactor disc_lib demo_seed (int n)) = Inr bb" "length bb = 32"
    using fld [of "deriveBlindingFactor disc_lib demo_seed (int n)"] by (auto simp: deriveBlindingFactor_def Let_def)
  have ob: "bn254ToBE32 (ownerCommitment disc_lib (deriveSpendingKey disc_lib demo_seed) (deriveBlindingFactor disc_lib demo_seed 0))
      = Inr (int_to_be 32 demo_owner)" using demo_owner_bytes(1) by (simp add: demo_owner_def)
  obtain owner where ow: "publicKeyOf ref_decoders (Some demo_pubkey) = Inr owner" by (simp add: ref_decoders_def)
  have ata: "getAssociatedTokenAddress sample_wallet 2 owner = Inr (2 + owner)" by (simp add: sample_wallet_def)
  have "\<exists>ix. buildDepositInstruction disc_lib \<lparr>dp_programId = 9, dp_depositor = owner, dp_tokenMint = 2,
      dp_depositorTokenAccount = 2 + owner, dp_tokenProgramId = TOKEN_PROGRAM_ID disc_lib, dp_amount = amount,
      dp_ownerCommitment = int_to_be 32 demo_owner, dp_nonce = nb, dp_blindingR = bb\<rparr> = Inr ix"
    using nb bb by (simp add: buildDepositInstruction_def demo_vault_pda vaultTokenAccountPda_def disc_lib_pda fixed_ok)
  then show thesis using that [OF cm nb(1) bb(1) ob ow ata] by blast
qed


lemma bid_deposit_answers:
  assumes "vault_data v (vault_bytes v)"
  obtains r ix cm where
    "deposit_prepare_POST disc_lib (demo_app (demo_rpc [] v v')) \<lparr>pdb_phantomSignatureBase58 = Some demo_sig, pdb_ownerPubkeyBase58 = Some demo_pubkey,
       pdb_side = Some ''quote'', pdb_amount = Some (bigint_toString 35), pdb_nonce = Some (bigint_toString 333333)\<rparr> False = (ReplyOk r, False)"
    "dpr_instruction r = instructionToJson disc_lib ix" "dpr_noteCommitmentHex r = bytes_hex cm" "length cm = 32"
proof -
  let ?rpc = "demo_rpc [] v v'" and ?n = "vc_leaf_count v"
  have info: "vault_info disc_lib ?rpc 9 False = (Inr (vault_bytes v), False)"
    by (simp add: vault_info_def demo_vault_pda io_bind_def demo_rpc_def)
  obtain cm nb bb owner ix where p: "noteCommitment disc_lib (private_deposit_note disc_lib demo_seed 2 35 333333 (int ?n)) = Inr cm"
    "bn254ToBE32 333333 = Inr nb" "bn254ToBE32 (deriveBlindingFactor disc_lib demo_seed (int ?n)) = Inr bb"
    "bn254ToBE32 (ownerCommitment disc_lib (deriveSpendingKey disc_lib demo_seed) (deriveBlindingFactor disc_lib demo_seed 0)) = Inr (int_to_be 32 demo_owner)"
    "publicKeyOf ref_decoders (Some demo_pubkey) = Inr owner" "getAssociatedTokenAddress sample_wallet 2 owner = Inr (2 + owner)"
    "buildDepositInstruction disc_lib \<lparr>dp_programId = 9, dp_depositor = owner, dp_tokenMint = 2,
      dp_depositorTokenAccount = 2 + owner, dp_tokenProgramId = TOKEN_PROGRAM_ID disc_lib, dp_amount = 35,
      dp_ownerCommitment = int_to_be 32 demo_owner, dp_nonce = nb, dp_blindingR = bb\<rparr> = Inr ix"
    by (rule bid_parts [of 35 333333 ?n]) (simp_all add: BN254_R_def)
  have c: "nt_ownerCommitment (private_deposit_note disc_lib demo_seed 2 35 333333 (int ?n)) = ownerCommitment disc_lib (deriveSpendingKey disc_lib demo_seed) (deriveBlindingFactor disc_lib demo_seed 0)"
      "nt_blindingR (private_deposit_note disc_lib demo_seed 2 35 333333 (int ?n)) = deriveBlindingFactor disc_lib demo_seed (int ?n)"
    by (simp_all add: private_deposit_note_def)
  have app: "dm_decoders (demo_app ?rpc) = ref_decoders" "dm_wallet (demo_app ?rpc) = sample_wallet" by (simp_all add: demo_app_def)
  have "\<exists>r. deposit_prepare_POST disc_lib (demo_app ?rpc) \<lparr>pdb_phantomSignatureBase58 = Some demo_sig, pdb_ownerPubkeyBase58 = Some demo_pubkey,
       pdb_side = Some ''quote'', pdb_amount = Some (bigint_toString 35), pdb_nonce = Some (bigint_toString 333333)\<rparr> False = (ReplyOk r, False)
     \<and> dpr_instruction r = instructionToJson disc_lib ix \<and> dpr_noteCommitmentHex r = bytes_hex cm"
    unfolding deposit_prepare_POST_def route_def io_bind_def
    by (simp add: absent_def demo_verifies app demo_setup_app demo_programs_def info vault_data_reads(1) [OF assms] p c Let_def)
  then show thesis using that noteCommitment_length [OF p(1)] by blast
qed


lemma bid_order_answers:
  assumes "length cm = 32" and "flow_priceLimit p = ''7''"
  obtains r ix where
    "build_submit_order_POST disc_lib (demo_app rpc) (submit_request bid_session p 1 (bytes_hex cm, bigint_toString 35) 5 600
       (bytes_hex (replicate 16 1)) (Some (bytes_hex (replicate 32 4)))) w = (ReplyOk r, w)"
    "instructionFromJson ref_decoders (bor_instruction r) = Inr ix"
proof -
  let ?p = "\<lparr>so_programId = 8, so_tradingKey = kp_publicKey demo_trading, so_market = 6, so_slotIdx = 1, so_side = 0, so_amount = 5,
     so_priceLimit = 7, so_noteAmount = 35, so_expirySlot = 600, so_orderId = replicate 16 1, so_noteCommitment = cm,
     so_userCommitment = replicate 32 4, so_orderType = None, so_minFillQty = None\<rparr>"
  have ne: "\<not> absent (Some (bytes_hex bs))" if "length bs = Suc n" for bs n
    using that by (cases bs) (simp_all add: absent_def)
  have fields: "\<not> absent (Some demo_sig)" "\<not> absent (Some demo_pubkey)" "\<not> absent (Some demo_trading_secret)" "\<not> absent (Some ''7'')"
      "\<not> absent (Some (bigint_toString (numeral k)))" for k
    using demo_verifies(2,3) demo_session_key(2) by (simp_all add: absent_def)
  obtain keys where keys: "buildSubmitOrderInstruction disc_lib ?p = Inr keys"
    using assms(1) by (simp add: buildSubmitOrderInstruction_def slot_guard_ok pendingOrderPda_def disc_lib_pda submit_order_args_def fixed_ok)
  have app: "dm_decoders (demo_app rpc) = ref_decoders" "dm_wallet (demo_app rpc) = sample_wallet" by (simp_all add: demo_app_def)
  have "\<exists>r. build_submit_order_POST disc_lib (demo_app rpc) (submit_request bid_session p 1 (bytes_hex cm, bigint_toString 35) 5 600
       (bytes_hex (replicate 16 1)) (Some (bytes_hex (replicate 32 4)))) w = (ReplyOk r, w) \<and> bor_instruction r = instructionToJson disc_lib (sok_ix keys)"
    unfolding build_submit_order_POST_def route_def io_bind_def submit_request_def bid_session_members assms(2)
    by (simp add: fields ne [of _ 15] ne [of _ 31] assms(1) app demo_verifies(1) demo_session_key(1) demo_setup_app seven route_hexToBytes_def Let_def)
      (simp add: demo_programs_def keys)
  then show thesis using that instruction_json_inverse [OF disc_lib_base58] by metis
qed

lemma demo_wallet_app: "dm_wallet (demo_app rpc) = sample_wallet" by (simp add: demo_app_def)

text \<open>The panel after the deposit.\<close>

definition bid_placed :: "bytes \<Rightarrow> flow" where
  "bid_placed cm = bid_flow \<lparr>fl_error := None, fl_receipt := [flow_receipt ''deposit quote collateral (L1)'' ''sig'' ''l1''],
     fl_depositNote := Some (bytes_hex cm, bigint_toString 35), fl_step := FlowDeposited, fl_busy := False\<rparr>"

lemma bid_runs:
  assumes "vault_data v (vault_bytes v)"
  obtains cm q where "flow_runDeposit disc_lib (demo_app (demo_rpc [] v v')) bid_browser 7 (bid_flow, False) = (Inr (), (bid_placed cm, False))"
    "runSubmitOrderEr disc_lib (demo_app (demo_rpc [] v v')) bid_browser (bid_placed cm, False) = (Inr (), (q, False))"
    "fl_orderCtx q = Some (bytes_hex (replicate 16 1), bigint_toString 600)"
proof -
  let ?M = "demo_app (demo_rpc [] v v')"
  obtain r ix cm where r: "deposit_prepare_POST disc_lib ?M \<lparr>pdb_phantomSignatureBase58 = Some demo_sig, pdb_ownerPubkeyBase58 = Some demo_pubkey,
       pdb_side = Some ''quote'', pdb_amount = Some (bigint_toString 35), pdb_nonce = Some (bigint_toString 333333)\<rparr> False = (ReplyOk r, False)"
    "dpr_instruction r = instructionToJson disc_lib ix" "dpr_noteCommitmentHex r = bytes_hex cm" "length cm = 32"
    using assms by (rule bid_deposit_answers)
  have net: "br_network (flow_base bid_browser) w = (Inr (), w)" "br_sendAndConfirm bid_browser ixs w = (Inr ''sig'', w)"
      "fb_getSlot bid_browser w = (Inr 100, w)" "fb_randomValues bid_browser n w = (Inr (replicate n 1), w)"
      "fb_sendRollup bid_browser i k w = (Inr ''er'', w)" for w ixs n i k
    by (simp_all add: bid_browser_def browser.truncate_def)
  have dep: "flow_runDeposit disc_lib ?M bid_browser 7 (bid_flow, False) = (Inr (), (bid_placed cm, False))"
    unfolding flow_runDeposit_def with_session_def
    by (simp add: bid_session_read bid_deposit bid_session_members bid_flow_simps io_bind_def set_flow_def in_flow_def fetch_route_def net r
        demo_decoders instruction_json_inverse [OF disc_lib_base58] bid_placed_def)
      (simp add: bid_flow_def initial_flow_def)
  have price: "flow_priceLimit (bid_placed cm) = ''7''" by (simp add: bid_placed_def bid_flow_def flow_priceLimit_def)
  obtain r' ix' where r': "build_submit_order_POST disc_lib ?M (submit_request bid_session (bid_placed cm) 1 (bytes_hex cm, bigint_toString 35) 5 600
       (bytes_hex (replicate 16 1)) (Some (bytes_hex (replicate 32 4)))) False = (ReplyOk r', False)"
      "instructionFromJson ref_decoders (bor_instruction r') = Inr ix'"
    using r(4) price by (rule bid_order_answers)
  have key: "rbind (bs58_decode ref_decoders demo_trading_secret) (Keypair_fromSecretKey sample_wallet) = Inr demo_trading"
    using demo_session_key(1) by (auto simp: session_trading_key_def rbind_eq_Inr split: if_splits)
  have base: "baseAtomsForCurrentInput (bid_placed cm) = Inr 5"
    by (rule bid_base) (simp_all add: bid_placed_def bid_flow_def initial_flow_def)
  have bid: "flow_bid_amount (bid_placed cm) (bigint_toString 35) = Inr 5"
    by (simp add: flow_bid_amount_def base price seven)
  have at: "fl_slotIdx (bid_placed cm) = Some 1" "fl_depositNote (bid_placed cm) = Some (bytes_hex cm, bigint_toString 35)" "bytes_hex cm \<noteq> []"
    using r(4) by (auto simp: bid_placed_def bid_flow_simps) (use hex_decode_bytes_hex [of cm] in auto)
  have "\<exists>q. runSubmitOrderEr disc_lib ?M bid_browser (bid_placed cm, False) = (Inr (), (q, False))
      \<and> fl_orderCtx q = Some (bytes_hex (replicate 16 1), bigint_toString 600)"
    unfolding runSubmitOrderEr_def with_session_def
    by (simp add: bid_session_read at bid bid_session_members io_bind_def set_flow_def in_flow_def fetch_route_def net r' demo_decoders demo_wallet_app key Let_def)
  then show thesis using that [OF dep] by blast
qed


theorem flow_bid_backed_witness:
  "\<exists>v v' cm q dix (ix :: instruction) slot.
      flow_runDeposit disc_lib (demo_app (demo_rpc [] v v')) bid_browser 7 (bid_flow, False) = (Inr (), (bid_placed cm, False))
    \<and> runSubmitOrderEr disc_lib (demo_app (demo_rpc [] v v')) bid_browser (bid_placed cm, False) = (Inr (), (q, False))
    \<and> nt_amount (deposit_ix_note dix) = 35
    \<and> submit_order_handler disc_lib 100 (kp_publicKey demo_trading) (borshSubmitOrderArgs (drop 8 (ix_data ix))) demo_slot = Inr slot
    \<and> po_status slot = PENDING_STATUS_PENDING \<and> po_amount slot = 5 \<and> po_price_limit slot = 7 \<and> po_note_amount slot = 35"
proof -
  obtain v where v: "vault_data v (vault_bytes v)"
    by (rule vault_image [OF disc_lib_canonical, of "[]"]) simp_all
  let ?M = "demo_app (demo_rpc [] v v)"
  obtain cm q where run: "flow_runDeposit disc_lib ?M bid_browser 7 (bid_flow, False) = (Inr (), (bid_placed cm, False))"
      "runSubmitOrderEr disc_lib ?M bid_browser (bid_placed cm, False) = (Inr (), (q, False))"
      and ctx: "fl_orderCtx q = Some (bytes_hex (replicate 16 1), bigint_toString 600)"
    using v by (rule bid_runs)
  have law: "base58_inverse disc_lib (dm_decoders ?M)" by (simp add: demo_decoders disc_lib_base58)
  have small: "(35 :: int) < 2 ^ 64" by simp
  show ?thesis
    using flow_bid_backed [OF law demo_setup_app run(1) bid_deposit small run(2)]
  proof (elim exE conjE, goal_cases)
    case (1 cm' dix dsig wd s secret ix sig ws trading base price expiry orderId)
    have s: "secret = demo_trading_secret" using 1(4,5) by (simp add: bid_session_read bid_session_members)
    have tk: "trading = demo_trading"
      using 1(6) demo_session_key(1) by (auto simp: s demo_decoders demo_wallet_app session_trading_key_def rbind_eq_Inr split: if_splits)
    have nums: "base = 5" "price = 7"
      using 1(9,10) bid_base [of "bid_placed cm"] by (auto simp: bid_placed_def bid_flow_def initial_flow_def flow_priceLimit_def seven)
    have "bytes_hex orderId = bytes_hex (replicate 16 1)" "bigint_toString expiry = bigint_toString 600" using 1(12) ctx by simp_all
    then have ctx': "orderId = replicate 16 1" "expiry = 600"
      using hex_decode_bytes_hex js_BigInt_toString by (metis, metis sum.inject(2))
    have id: "replicate 16 1 \<noteq> zeros 16" by (simp add: zeros_def)
    have "isReusablePendingOrderStatus (po_status demo_slot)" by (simp add: demo_slot_def isReusablePendingOrderStatus_def)
    then obtain slot where "submit_order_handler disc_lib 100 (kp_publicKey demo_trading) (borshSubmitOrderArgs (drop 8 (ix_data ix))) demo_slot = Inr slot"
        "po_status slot = PENDING_STATUS_PENDING" "po_amount slot = 5" "po_price_limit slot = 7" "po_note_amount slot = 35"
      using 1(13) [THEN spec, THEN spec, of demo_slot 100] id
      by (auto simp: tk nums ctx' demo_slot_def demo_programs_def bid_placed_def bid_flow_simps)
    with run 1(3) show ?case by (intro exI conjI)
  qed
qed

text \<open>The size is edited while the wallet is not connected.\<close>

theorem flow_invariant_witness:
  "\<exists>M. reach (flow_moves disc_lib M (\<lambda>s. Inr 0) (\<lambda>n w. w) bid_browser) (initial_flow ''5'' 0, False) ((initial_flow ''5'' 0) \<lparr>fl_baseAmount := ''6''\<rparr>, True)
     \<and> \<not> fl_busy ((initial_flow ''5'' 0) \<lparr>fl_baseAmount := ''6''\<rparr>)"
proof -
  let ?M = "demo_app undefined" and ?p = "initial_flow ''5'' 0"
  have "fl_step ?p \<in> {FlowIdle, FlowRegistered}" by (simp add: initial_flow_def)
  note edit = flow_moves.edit [OF this, of disc_lib ?M "\<lambda>s. Inr 0" "\<lambda>n w. w" bid_browser False "''6''"]
  have run: "reach (flow_moves disc_lib ?M (\<lambda>s. Inr 0) (\<lambda>n w. w) bid_browser) (?p, False) (?p \<lparr>fl_baseAmount := ''6''\<rparr>, True)"
    by (rule reach.move [OF reach_step [of "flow_moves disc_lib ?M (\<lambda>s. Inr 0) (\<lambda>n w. w) bid_browser", OF edit]], rule flow_moves.elsewhere)
  from flow_invariant [OF run] run show ?thesis by blast
qed


section \<open>The identity\<close>

text \<open>Key pairs of tweetnacl are made of seeds of 32 bytes.\<close>

definition nacl_wallet :: wallet_lib where
  "nacl_wallet = sample_wallet \<lparr>nacl_fromSeed := (\<lambda>s. if length s = 32 then Inr (s, s @ s) else Inl (newError ''bad seed size''))\<rparr>"

lemma nacl_wallet_keypairs: "nacl_keypairs nacl_wallet"
  by (auto simp: nacl_keypairs_def nacl_wallet_def sample_wallet_def split: if_splits)

definition demo_identity :: DeriveIdentityRequest where
  "demo_identity = \<lparr>dib_phantomSignatureBase58 = Some demo_sig, dib_ownerPubkeyBase58 = Some demo_pubkey\<rparr>"

lemma demo_identity_answers:
  assumes "\<And>s. length s = 32 \<Longrightarrow> nacl_fromSeed W s = Inr (s, s @ s)"
    and "verifyPhantomSeedSignature disc_lib ref_decoders W demo_sig demo_pubkey = Inr vo" and "vo_seed vo = demo_seed"
  obtains r where "derive_identity_POST disc_lib ref_decoders W bytes_hex (Some demo_identity) = Inr (ReplyOk r)"
proof -
  let ?u = "\<lparr>uc_rootKeyPubkey = secretKey (deriveRootKey disc_lib demo_seed), uc_spendingKey = deriveSpendingKey disc_lib demo_seed,
      uc_viewingKey = deriveMasterViewingKey disc_lib demo_seed, uc_r0 = deriveBlindingFactor disc_lib demo_seed 1,
      uc_r1 = deriveBlindingFactor disc_lib demo_seed 2, uc_r2 = deriveBlindingFactor disc_lib demo_seed 3\<rparr>"
  obtain lo hi where fr: "pubkeyToFrPair (secretKey (deriveRootKey disc_lib demo_seed)) = Inr (lo, hi)"
    by (rule pubkeyToFrPair_value [of "secretKey (deriveRootKey disc_lib demo_seed)"]) simp_all
  obtain cm where cm: "userCommitmentFromKeys disc_lib ?u = Inr cm"
    using disc_lib_canonical by (simp add: userCommitmentFromKeys_def fr Let_def bn254ToBE32_eq poseidon_canonical_def)
  have ob: "bn254ToBE32 (identity_owner disc_lib demo_seed) = Inr (int_to_be 32 demo_owner)"
    using demo_owner_bytes(1) by (simp add: demo_owner_def identity_owner_def)
  show thesis
    by (rule that) (simp add: derive_identity_POST_def demo_identity_def absent_def demo_verifies(2,3) assms identity_inputs_def cm fr ob Let_def)
qed

theorem derived_identity_valid_witness:
  "\<exists>r inputs kp. derive_identity_POST disc_lib ref_decoders nacl_wallet bytes_hex (Some demo_identity) = Inr (ReplyOk r)
     \<and> panel_wallet_inputs (idr_walletCreateInputs r) = Inr inputs \<and> ValidWalletCreate disc_lib inputs
     \<and> session_trading_key disc_lib ref_decoders nacl_wallet demo_seed (idr_tradingSecretKeyBase58 r) = Inr (Some kp)"
proof -
  let ?vo = "\<lparr>vo_ownerPubkey = zeros 32, vo_signature = zeros 64, vo_seed = demo_seed\<rparr>"
  have vo: "verifyPhantomSeedSignature disc_lib ref_decoders nacl_wallet demo_sig demo_pubkey = Inr ?vo"
    by (simp add: verifyPhantomSeedSignature_def ref_decoders_def demo_sig_def demo_pubkey_def nacl_wallet_def sample_wallet_def demo_seed_def)
  obtain r where r: "derive_identity_POST disc_lib ref_decoders nacl_wallet bytes_hex (Some demo_identity) = Inr (ReplyOk r)"
    by (rule demo_identity_answers [OF _ vo]) (simp_all add: nacl_wallet_def)
  have enc: "bs58_inverse ref_decoders bytes_hex" by (simp add: bs58_inverse_def ref_decoders_def)
  show ?thesis
    using derived_identity_valid [OF r disc_lib_canonical enc nacl_wallet_keypairs] r by (auto simp: demo_identity_def vo)
qed

text \<open>A browser whose world is its session storage and whose JSON text is a number for every value, and
  an application on an empty chain.\<close>

instance json :: countable
  by countable_datatype

definition identity_demo_browser :: "(string \<Rightarrow> string option) identity_browser" where
  "identity_demo_browser = \<lparr>br_window = True, br_getItem = (\<lambda>k w. Inr (w k)),
     br_json_parse = (\<lambda>t. Inr (from_nat (dec_val t))),
     br_connectedOwner = Some demo_pubkey, br_network = (\<lambda>w. (Inr (), w)), br_sendAndConfirm = (\<lambda>ixs w. (Inr ''sig'', w)),
     br_prove = (\<lambda>inp w. (Inr demo_proof, w)), br_now = (\<lambda>w. 0),
     ib_signMessage = Some (\<lambda>m w. (Inr (zeros 64), w)), ib_bs58_encode = bytes_hex,
     ib_walletCreate_prove = (\<lambda>inp w. (Inr (demo_proof \<lparr>gp_publicInputs := [int_to_be 32 (wc_userCommitment inp)]\<rparr>), w)),
     ib_stringify = (\<lambda>j. nat_toString (to_nat j)), ib_setItem = (\<lambda>k v w. (Inr (), w(k \<mapsto> v))),
     ib_removeItem = (\<lambda>k w. (Inr (), w(k := None))), ib_error_page = []\<rparr>"

definition quiet_rpc :: "'w rpc" where
  "quiet_rpc = \<lparr>cn_getTransaction = (\<lambda>sig w. (Inr None, w)), cn_getSignaturesForAddress = (\<lambda>vp limit before w. (Inr [], w)),
     rpc_getAccountInfo = (\<lambda>k w. (Inr None, w)), rpc_getBalance = (\<lambda>k w. (Inr 0, w)), rpc_getSlot = (\<lambda>w. (Inr 100, w)),
     rpc_sendAndConfirm = (\<lambda>ixs ks w. (Inr ''sig'', w))\<rparr>"

lemma identity_demo_storage: "session_storage identity_demo_browser (demo_app quiet_rpc)"
  by (simp add: session_storage_def identity_demo_browser_def demo_app_def quiet_rpc_def Nyx_Observe.keeps_def)

lemma identity_airdrop_returns:
  assumes "\<And>w. br_network B w = (Inr (), w)"
  obtains a w' where "identity_airdrop L M B s ow w = (Inr a, w')"
proof -
  obtain rep u where "airdrop_POST L M \<lparr>adb_phantomSignatureBase58 = Some s, adb_ownerPubkeyBase58 = Some ow,
      adb_baseAmount = None, adb_quoteAmount = None\<rparr> w = (rep, u)" by (metis surj_pair)
  then show thesis
    using that assms by (cases rep) (simp_all add: identity_airdrop_def io_catch_def io_bind_def)
qed

theorem stored_session_registers_witness:
  "\<exists>q w inputs s. identity_run disc_lib (demo_app quiet_rpc) identity_demo_browser
       (\<lparr>ip_phase = PhaseIdle, ip_error = None, ip_identity = None\<rparr>, Map.empty) = (q, w)
     \<and> ip_phase q = PhaseReady \<and> ValidWalletCreate disc_lib inputs
     \<and> map_option (panel_wallet_inputs \<circ> idr_walletCreateInputs \<circ> ids_derived) (ip_identity q) = Some (Inr inputs)
     \<and> readDappSessionForOwner (browser.truncate identity_demo_browser) (Some demo_pubkey) w = Some s"
proof -
  let ?M = "demo_app quiet_rpc" and ?B = identity_demo_browser and ?p = "\<lparr>ip_phase = PhaseIdle, ip_error = None, ip_identity = None\<rparr>"
  let ?start = "Map.empty :: string \<Rightarrow> string option"
  have json: "json_roundtrip ?B" by (simp add: json_roundtrip_def identity_demo_browser_def nat_toString_digits)
  have law: "base58_inverse disc_lib (dm_decoders ?M)" by (simp add: demo_decoders disc_lib_base58)
  obtain r where r: "derive_identity_POST disc_lib ref_decoders sample_wallet bytes_hex (Some demo_identity) = Inr (ReplyOk r)"
    by (rule demo_identity_answers [OF _ demo_verifies(1)]) (simp_all add: sample_wallet_def)
  obtain inputs cm where d: "panel_wallet_inputs (idr_walletCreateInputs r) = Inr inputs" "wc_userCommitment inputs = be_to_int cm"
      "idp_userCommitmentHex (idr_publicData r) = bytes_hex cm" "length cm = 32"
    using r by (rule derive_identity_okE) (use userCommitment_valid(2) [OF disc_lib_canonical] in fastforce)
  have B: "br_connectedOwner ?B = Some demo_pubkey" "ib_signMessage ?B = Some (\<lambda>m w. (Inr (zeros 64), w))" "ib_bs58_encode ?B = bytes_hex"
      "br_network ?B w = (Inr (), w)" "ib_setItem ?B k v w = (Inr (), w(k \<mapsto> v))" "br_window ?B"
      "ib_walletCreate_prove ?B inp w = (Inr (demo_proof \<lparr>gp_publicInputs := [int_to_be 32 (wc_userCommitment inp)]\<rparr>), w)" for w k v inp
    by (simp_all add: identity_demo_browser_def)
  have sig: "bytes_hex (zeros 64) = demo_sig" by (simp add: demo_sig_def)
  have air: "\<exists>a w'. identity_airdrop disc_lib ?M ?B demo_sig demo_pubkey w = (Inr a, w')" for w
    by (rule identity_airdrop_returns [of ?B disc_lib ?M demo_sig demo_pubkey w]) (simp_all add: B)
  obtain q w where run: "identity_run disc_lib ?M ?B (?p, ?start) = (q, w)" "ip_phase q = PhaseReady"
  proof -
    let ?w = "?start(NYX_DAPP_SESSION_KEY \<mapsto> ib_stringify ?B (identity_session demo_sig demo_pubkey r
        (demo_proof \<lparr>gp_publicInputs := [int_to_be 32 (wc_userCommitment inputs)]\<rparr>)))"
    obtain a w1 where "identity_airdrop disc_lib ?M ?B demo_sig demo_pubkey ?w = (Inr a, w1)" using air by blast
    then show thesis
      using that unfolding identity_run_def identity_steps_def
      by (cases a) (simp add: B sig io_bind_def set_phase_def at_world_def fetch_identity_def demo_decoders demo_wallet_app
        r [unfolded demo_identity_def] d proof_input_hex_def io_catch_def Let_def)
  qed
  show ?thesis
    using stored_session_registers [OF run disc_lib_canonical law json B(6) identity_demo_storage] run B(1) by (elim exE conjE) auto
qed

section \<open>The counterparty\<close>

text \<open>A host whose four keys differ.\<close>

definition keyed_host :: host where
  "keyed_host = sample_host \<lparr>
     host_env := (\<lambda>n. if n = ''DEMO_E2E_CONFIG_JSON'' then Some ''cfg'' else if n = ''DEMO_ADMIN_KEYPAIR_JSON'' then Some ''a''
       else if n = ''DEMO_FUNDER_KEYPAIR_JSON'' then Some ''f'' else if n = ''DEMO_TEE_KEYPAIR_JSON'' then Some ''t''
       else if n = ''DEMO_MAKER_KEYPAIR_JSON'' then Some ''m'' else None),
     host_json_parse := (\<lambda>s. Inr (if s = ''cfg'' then sample_config
       else json_bytes (replicate 64 (if s = ''a'' then 1 else if s = ''f'' then 2 else if s = ''t'' then 3 else 4))))\<rparr>"

definition demo_key :: "byte \<Rightarrow> keypair" where
  "demo_key b = \<lparr>kp_publicKey = bytes_to_word (replicate 32 b), kp_secretKey = replicate 64 b\<rparr>"

definition keyed_ring :: DemoKeyring where
  "keyed_ring = \<lparr>kr_admin = demo_key 1, kr_funder = demo_key 2, kr_tee = demo_key 3, kr_maker = demo_key 4\<rparr>"

lemma keyed_root: "resolveRepoRoot keyed_host = Inr ''/repo''"
  by (simp add: resolveRepoRoot_def keyed_host_def sample_host_def path_resolve_def path_step_def Let_def)

lemma keyed_keyring: "loadDemoKeyring keyed_host ref_decoders sample_wallet repo = Inr keyed_ring"
proof -
  have tr: "trim ''a'' = ''a''" "trim ''f'' = ''f''" "trim ''t'' = ''t''" "trim ''m'' = ''m''" by (simp_all add: trim_def is_space_def)
  have "json_to_bytes (Some (json_bytes bs)) = bs" for bs by (simp add: json_bytes_def comp_def)
  then have "keypair_of_json sample_wallet n (json_bytes (replicate 64 b)) = Inr (demo_key b)" for n b
    by (simp add: keypair_of_json_def json_bytes_def sample_wallet_def demo_key_def list_all_iff)
  then have "loadKeypairFromEnv keyed_host ref_decoders sample_wallet ''DEMO_ADMIN_KEYPAIR'' = Inr (Some (demo_key 1))"
      "loadKeypairFromEnv keyed_host ref_decoders sample_wallet ''DEMO_FUNDER_KEYPAIR'' = Inr (Some (demo_key 2))"
      "loadKeypairFromEnv keyed_host ref_decoders sample_wallet ''DEMO_TEE_KEYPAIR'' = Inr (Some (demo_key 3))"
      "loadKeypairFromEnv keyed_host ref_decoders sample_wallet ''DEMO_MAKER_KEYPAIR'' = Inr (Some (demo_key 4))"
    by (simp_all add: loadKeypairFromEnv_def env_set_def keyed_host_def tr)
  then show ?thesis
    by (simp add: loadDemoKeyring_def loadDemoAdminKeypair_def loadKeypairFromEnvOrPath_def loadDemoMakerKeypair_def keyed_ring_def)
qed

text \<open>An application whose world is its clock and the log of its two connections, on a chain whose accounts are
  delegated and whose vault takes a fee. Minting fails.\<close>

definition clock_rpc :: "int rpc" where
  "clock_rpc = \<lparr>cn_getTransaction = (\<lambda>sig w. (Inr None, w)), cn_getSignaturesForAddress = (\<lambda>vp limit before w. (Inr [], w)),
     rpc_getAccountInfo = (\<lambda>k w. (Inr (Some \<lparr>ai_data = replicate 3000 1, ai_owner = DELEGATION_PROGRAM_ID disc_lib\<rparr>), w + 1)),
     rpc_getBalance = (\<lambda>k w. (Inr 0, w)), rpc_getSlot = (\<lambda>w. (Inr 100, w)), rpc_sendAndConfirm = (\<lambda>ixs ks w. (Inr ''sig'', w))\<rparr>"

definition clock_app :: "(int \<times> sent_tx list) demo" where
  "clock_app = (demo_app quiet_rpc) \<lparr>dm_host := keyed_host, dm_now := fst,
     dm_newConnection := (\<lambda>url. Inr (logged (if url = Some ''https://devnet.magicblock.app'' then ''er'' else ''l1'') clock_rpc))\<rparr>"

abbreviation clock_conns :: "(int \<times> sent_tx list) demo_connections" where
  "clock_conns \<equiv> \<lparr>dcn_l1 = logged ''l1'' clock_rpc, dcn_er = logged ''er'' clock_rpc, dcn_erRpcUrl = ''https://devnet.magicblock.app''\<rparr>"

lemma clock_config:
  "loadDemoE2eConfig keyed_host ''/repo'' = Inr sample_config" "getDemoConnections clock_app sample_config = Inr clock_conns"
  "parseDemoPrograms ref_decoders sample_config = Inr demo_programs"
proof -
  have tr: "trim ''cfg'' = ''cfg''" by (simp add: trim_def is_space_def)
  show "loadDemoE2eConfig keyed_host ''/repo'' = Inr sample_config"
    by (simp add: loadDemoE2eConfig_def env_set_def keyed_host_def tr parseE2eConfig_def sample_config_def)
  show "getDemoConnections clock_app sample_config = Inr clock_conns"
    by (simp add: getDemoConnections_def clock_app_def keyed_host_def sample_config_def cfg_string_def json_string_def)
  have "resolveRepoRoot sample_host = Inr ''/repo''"
    by (simp add: resolveRepoRoot_def sample_host_def path_resolve_def path_step_def Let_def)
  moreover have "loadDemoE2eConfig sample_host ''/repo'' = Inr sample_config"
    by (simp add: loadDemoE2eConfig_def env_set_def sample_host_def tr parseE2eConfig_def sample_config_def)
  ultimately show "parseDemoPrograms ref_decoders sample_config = Inr demo_programs"
    using demo_setup_app [of "quiet_rpc :: unit rpc"] by (auto simp: demo_setup_def demo_app_def rbind_eq_Inr)
qed

lemma clock_parts: "dm_host clock_app = keyed_host" "dm_decoders clock_app = ref_decoders" "dm_wallet clock_app = sample_wallet"
  "dm_now clock_app = fst" "dm_randomBytes clock_app n w = (Inr (replicate n 1), w)"
  by (simp_all add: clock_app_def demo_app_def)

lemma clock_setup: "demo_setup clock_app = Inr (clock_conns, demo_programs)"
  by (simp add: demo_setup_def clock_parts keyed_root clock_config)

definition clock_body :: counter_body where
  "clock_body = \<lparr>cmb_phantomSignatureBase58 = Some demo_sig, cmb_ownerPubkeyBase58 = Some demo_pubkey, cmb_tradingSecretKeyBase58 = Some demo_trading_secret,
     cmb_userSlotIdx = Some 1, cmb_userSide = Some 0, cmb_userAmount = Some ''5'', cmb_userPriceLimit = Some ''7'', cmb_userNoteAmount = Some ''35'',
     cmb_userNoteCommitmentHex = Some ''01'', cmb_userOwnerCommitmentHex = Some ''02'', cmb_userOrderIdHex = Some ''03'', cmb_userExpirySlot = Some ''600''\<rparr>"

lemma clock_rpc_runs:
  "rpc_getAccountInfo (logged cl clock_rpc) k w = (Inr (Some \<lparr>ai_data = replicate 3000 1, ai_owner = DELEGATION_PROGRAM_ID disc_lib\<rparr>), (fst w + 1, snd w))"
  "rpc_getBalance (logged cl clock_rpc) k w = (Inr 0, w)"
  "rpc_sendAndConfirm (logged cl clock_rpc) ixs ks w = (Inr ''sig'', (fst w, snd w @ [\<lparr>st_cluster = cl, st_ixs = ixs, st_signers = ks, st_result = Inr ''sig''\<rparr>]))"
  by (simp_all add: logged_def beside_def clock_rpc_def)

text \<open>The run up to the mint: two transfers of the funder and the fee reset of the admin.\<close>

lemma clock_failure:
  "\<exists>ix1 ix2 ix3 sigs w'. counter_and_match_POST disc_lib clock_app (\<lambda>s. Inl (newError ''amount'')) (\<lambda>n w. (fst w + n, snd w)) clock_body (0, [])
     = Some (ReplyError 500 ''amount'' (Some (signatures_json sigs)), w')
   \<and> snd w' = [\<lparr>st_cluster = ''l1'', st_ixs = ix1, st_signers = [demo_key 2], st_result = Inr ''sig''\<rparr>,
       \<lparr>st_cluster = ''l1'', st_ixs = ix2, st_signers = [demo_key 2], st_result = Inr ''sig''\<rparr>,
       \<lparr>st_cluster = ''l1'', st_ixs = ix3, st_signers = [demo_key 1], st_result = Inr ''sig''\<rparr>]"
proof -
  have complete: "\<not> cmb_incomplete clock_body"
    using demo_verifies(2,3) demo_session_key(2) by (simp add: cmb_incomplete_def clock_body_def absent_def)
  obtain clob b where "darkClobPda disc_lib me market = Inr (clob me market, b me market)" for me market
    unfolding darkClobPda_def by (simp add: disc_lib_pda)
  then have market: "ensureMarketDelegatedOnL1 disc_lib (logged ''l1'' clock_rpc) me mk k w = (Inr (), (fst w + 1, snd w))" for me mk k w
    by (simp add: ensureMarketDelegatedOnL1_def io_bind_def clock_rpc_runs)
  have top: "topUpSol W (logged ''l1'' clock_rpc) f k DEFAULT_MIN_LAMPORTS w
      = (Inr (), (fst w, snd w @ [\<lparr>st_cluster = ''l1'', st_ixs = [system_transfer W (kp_publicKey f) k DEFAULT_MIN_LAMPORTS], st_signers = [f], st_result = Inr ''sig''\<rparr>]))" for W f k w
    by (simp add: topUpSol_def io_bind_def clock_rpc_runs DEFAULT_MIN_LAMPORTS_def)
  have le: "le_to_int (replicate 2 1) = 257" by code_simp
  have fee: "\<exists>n ix. ensureZeroProtocolFee disc_lib (logged ''l1'' clock_rpc) v k w
      = (Inr \<lparr>zf_observedFeeBps = n, zf_zeroed = True, zf_signature = Some ''sig''\<rparr>,
          (fst w + 1, snd w @ [\<lparr>st_cluster = ''l1'', st_ixs = [ix], st_signers = [k], st_result = Inr ''sig''\<rparr>]))" for v k w
    by (simp add: ensureZeroProtocolFee_def io_bind_def clock_rpc_runs vaultConfigPda_def disc_lib_pda FEE_RATE_BPS_OFFSET_def
        PROTOCOL_OWNER_COMMITMENT_OFFSET_def slice_def buildSetProtocolConfigInstruction_def fixed_ok le Let_def)
  let ?t = "\<lambda>k. \<lparr>st_cluster = ''l1'', st_ixs = [system_transfer sample_wallet (kp_publicKey (demo_key 2)) (kp_publicKey (demo_key k)) DEFAULT_MIN_LAMPORTS],
      st_signers = [demo_key 2], st_result = Inr ''sig'' :: js_error + string\<rparr>"
  obtain n ix where fee1: "ensureZeroProtocolFee disc_lib (logged ''l1'' clock_rpc) (pr_vaultProgramId demo_programs) (demo_key 1) (1, [?t 4, ?t 1])
      = (Inr \<lparr>zf_observedFeeBps = n, zf_zeroed = True, zf_signature = Some ''sig''\<rparr>,
          (2, [?t 4, ?t 1, \<lparr>st_cluster = ''l1'', st_ixs = [ix], st_signers = [demo_key 1], st_result = Inr ''sig''\<rparr>]))"
    using fee [of "pr_vaultProgramId demo_programs" "demo_key 1" "(1, [?t 4, ?t 1])"] by auto
  have ring: "kr_admin keyed_ring = demo_key 1" "kr_funder keyed_ring = demo_key 2" "kr_maker keyed_ring = demo_key 4" by (simp_all add: keyed_ring_def)
  have ata: "getAssociatedTokenAddress sample_wallet m k = Inr (m + k)" for m k by (simp add: sample_wallet_def)
  have body: "cmb_phantomSignatureBase58 clock_body = Some demo_sig" "cmb_ownerPubkeyBase58 clock_body = Some demo_pubkey"
      "cmb_tradingSecretKeyBase58 clock_body = Some demo_trading_secret" by (simp_all add: clock_body_def)
  have "counter_prepare disc_lib clock_app (\<lambda>s. Inl (newError ''amount'')) clock_body ([], (0, []))
      = (Inl (newError ''amount''), ([\<lparr>txs_label = ''protocol fees set to 0 for this demo'', txs_signature = ''sig'', txs_cluster = ''l1''\<rparr>],
          (2, [?t 4, ?t 1, \<lparr>st_cluster = ''l1'', st_ixs = [ix], st_signers = [demo_key 1], st_result = Inr ''sig''\<rparr>])))"
    using complete fee1
    by (simp add: counter_prepare_def io_bind_def clock_parts clock_config keyed_root keyed_keyring body demo_verifies(1) demo_session_key(1) ring
        in_run_def market top absent_def push_signature_def ata mint_to_maker_def Let_def)
  then show ?thesis by (auto simp: counter_and_match_POST_def counter_failed_def)
qed

theorem counter_failure_reported_witness:
  "\<exists>sigs w'. counter_and_match_POST disc_lib clock_app (\<lambda>s. Inl (newError ''amount'')) (\<lambda>n w. (fst w + n, snd w)) clock_body (0, [])
       = Some (ReplyError 500 ''amount'' (Some (signatures_json sigs)), w')
     \<and> length (snd w') = 3 \<and> reported sigs = [(''l1'', ''sig'')]"
proof -
  let ?sleep = "\<lambda>n w :: int \<times> sent_tx list. (fst w + n, snd w)"
  let ?post = "counter_and_match_POST disc_lib clock_app (\<lambda>s. Inl (newError ''amount'')) ?sleep clock_body (0, [])"
  obtain ix1 ix2 ix3 sigs w' where run: "?post = Some (ReplyError 500 ''amount'' (Some (signatures_json sigs)), w')"
      and log: "snd w' = [\<lparr>st_cluster = ''l1'', st_ixs = ix1, st_signers = [demo_key 2], st_result = Inr ''sig''\<rparr>,
       \<lparr>st_cluster = ''l1'', st_ixs = ix2, st_signers = [demo_key 2], st_result = Inr ''sig''\<rparr>,
       \<lparr>st_cluster = ''l1'', st_ixs = ix3, st_signers = [demo_key 1], st_result = Inr ''sig''\<rparr>]"
    using clock_failure by blast
  have clock: "clock_advances (counter_polling clock_app ?sleep (dcn_l1 clock_conns))"
    by (simp add: clock_advances_def counter_polling_def clock_parts clock_rpc_runs io_bind_def)
  have keys: "demo_key b = demo_key b' \<longleftrightarrow> b = b'" for b b' by (auto simp: demo_key_def replicate_eq_replicate)
  have distinct: "kr_funder keyed_ring \<notin> {kr_admin keyed_ring, kr_maker keyed_ring, kr_tee keyed_ring}"
      "kr_tee keyed_ring \<notin> {kr_admin keyed_ring, kr_maker keyed_ring}"
    by (simp_all add: keyed_ring_def keys)
  have signed: "signatures_given (dcn_l1 clock_conns)" by (simp add: signatures_given_def clock_rpc_runs)
  have quiet: "\<forall>n. Nyx_Observe.keeps snd (dm_randomBytes clock_app n)" "\<forall>n w. snd (?sleep n w) = snd w" by (simp_all add: keeps_def clock_parts)
  have ring: "loadDemoKeyring (dm_host clock_app) (dm_decoders clock_app) (dm_wallet clock_app) ''/repo'' = Inr keyed_ring"
    by (simp add: clock_parts keyed_keyring)
  have repo: "resolveRepoRoot (dm_host clock_app) = Inr ''/repo''" by (simp add: clock_parts keyed_root)
  from counter_failure_reported [OF clock_setup clock repo ring distinct logged_demo.demo_log_axioms signed quiet,
      of disc_lib "\<lambda>s. Inl (newError ''amount'')" clock_body "(0, [])"]
  obtain sigs' where s: "Some (signatures_json sigs) = Some (signatures_json sigs')"
      "reported sigs' = shown (unreported {[kr_funder keyed_ring], [kr_tee keyed_ring]}) (snd w')"
    by (auto simp: run)
  have "reported sigs' = [(''l1'', ''sig'')]" unfolding s(2) log by (simp add: shown_def unreported_def keyed_ring_def keys)
  then show ?thesis using run log s(1) by auto
qed

end
