(* ===== verification/Nyx_Demo_Prover.thy ===== *)
theory Nyx_Demo_Prover
  imports Nyx_Client Nyx_Text Nyx_Machine "HOL-Library.AList"
begin

text \<open>
  The browser's prover (\<open>apps/demo/src/lib/web-prover/web-prover-suite.ts\<close>) and the worker it runs
  (\<open>workers/prover.worker.ts\<close>). The suite hands a request to the worker under a fresh id and keeps a
  promise under that id; the worker answers later, in any order; a crash of a worker and \<open>dispose\<close> reject
  what is pending. A promise is named by the number of its request, and the state has, beside the
  fields of the class, the workers that were created and stopped, the messages that were posted, those
  not answered yet, and the promises settled so far. Times are left out. \<open>groth16.fullProve\<close> is a relation
  between its arguments and its possible results, because a proof is randomised.

  Proved: a proof is an answer to the request it is returned for, whatever the order of the answers
  and however often workers crash; no request is lost or settled twice; and when the prover
  returns, every pending request can be answered.
\<close>

section \<open>The worker\<close>

datatype circuit_value = Dec string | Decs "string list"

type_synonym circuit_inputs = "(string \<times> circuit_value) list"

record ProverWorkerRequest =
  pwr_id :: string
  pwr_inputs :: circuit_inputs
  pwr_wasmUrl :: string
  pwr_zkeyUrl :: string

datatype ProverWorkerResponse = WorkerOk string SnarkjsRawProof "string list" | WorkerError string string

text \<open>The possible results of \<open>groth16.fullProve\<close>: the text of a thrown value, or a proof with its
  public signals.\<close>

type_synonym full_prove = "circuit_inputs \<Rightarrow> string \<Rightarrow> string \<Rightarrow> string + SnarkjsRawProof \<times> string list \<Rightarrow> bool"

definition worker_reply :: "ProverWorkerRequest \<Rightarrow> string + SnarkjsRawProof \<times> string list \<Rightarrow> ProverWorkerResponse" where
  "worker_reply req res =
     (case res of
        Inr (pf, publicSignals) \<Rightarrow> WorkerOk (pwr_id req) \<lparr>pi_a = pi_a pf, pi_b = pi_b pf, pi_c = pi_c pf\<rparr> publicSignals
      | Inl err \<Rightarrow> WorkerError (pwr_id req) err)"

section \<open>The suite\<close>

record WebProverAssets =
  wpa_walletCreate :: "string \<times> string"
  wpa_spend :: "string \<times> string"

definition DEFAULT_ASSETS :: WebProverAssets where
  "DEFAULT_ASSETS =
     \<lparr>wpa_walletCreate = (''/circuits/valid_wallet_create/circuit.wasm'', ''/circuits/valid_wallet_create/circuit.zkey''),
      wpa_spend = (''/circuits/valid_spend/circuit.wasm'', ''/circuits/valid_spend/circuit.zkey'')\<rparr>"

record suite =
  ws_worker :: "nat option"
  ws_pending :: "(string \<times> nat) list"
  ws_nextId :: nat
  ws_created :: nat
  ws_terminated :: "nat list"
  ws_posted :: "(nat \<times> ProverWorkerRequest) list"
  ws_unanswered :: "(nat \<times> ProverWorkerRequest) list"
  ws_settled :: "(nat \<times> (js_error + Groth16ProofBytes)) list"

definition new_suite :: suite where
  "new_suite = \<lparr>ws_worker = None, ws_pending = [], ws_nextId = 0, ws_created = 0, ws_terminated = [], ws_posted = [], ws_unanswered = [], ws_settled = []\<rparr>"

definition ensureWorker :: "bool \<Rightarrow> suite \<Rightarrow> js_error + nat \<times> suite" where
  "ensureWorker window s =
     (case ws_worker s of
        Some w \<Rightarrow> Inr (w, s)
      | None \<Rightarrow>
          if \<not> window then Inl (newError ''WebProverSuite can only run in a browser context'')
          else Inr (ws_created s, s \<lparr>ws_worker := Some (ws_created s), ws_created := ws_created s + 1\<rparr>))"

text \<open>The listeners of a worker. They act on the suite, not on the worker they belong to.\<close>

definition proof_bytes :: "SnarkjsRawProof \<Rightarrow> string list \<Rightarrow> js_error + Groth16ProofBytes" where
  "proof_bytes pf publicSignals =
     rbind (formatGroth16ForOnChain pf publicSignals) (\<lambda>r.
       Inr \<lparr>gp_piA = piA (fg_proof r), gp_piB = piB (fg_proof r), gp_piC = piC (fg_proof r), gp_publicInputs = fg_publicInputsBE r\<rparr>)"

definition on_message :: "ProverWorkerResponse \<Rightarrow> suite \<Rightarrow> suite" where
  "on_message reply s =
     (let (i, result) = (case reply of
         WorkerOk i pf publicSignals \<Rightarrow> (i, proof_bytes pf publicSignals)
       | WorkerError i err \<Rightarrow> (i, Inl (newError err))) in
      case map_of (ws_pending s) i of
        None \<Rightarrow> s
      | Some n \<Rightarrow> s \<lparr>ws_pending := AList.delete i (ws_pending s), ws_settled := ws_settled s @ [(n, result)]\<rparr>)"

definition reject_all :: "(string \<Rightarrow> string) \<Rightarrow> suite \<Rightarrow> suite" where
  "reject_all msg s =
     s \<lparr>ws_settled := ws_settled s @ map (\<lambda>(i, n). (n, Inl (newError (msg i)))) (ws_pending s), ws_pending := [], ws_worker := None\<rparr>"

definition on_error :: "string \<Rightarrow> suite \<Rightarrow> suite" where
  "on_error msg = reject_all (\<lambda>i. (if msg = [] then ''prover worker crashed'' else msg) @ '' (request '' @ i @ '')'')"

definition prover_dispose :: "suite \<Rightarrow> suite" where
  "prover_dispose s =
     reject_all (\<lambda>i. ''WebProverSuite disposed before resolving'')
       (s \<lparr>ws_terminated := (case ws_worker s of Some w \<Rightarrow> w # ws_terminated s | None \<Rightarrow> ws_terminated s)\<rparr>)"

definition request_id :: "nat \<Rightarrow> string" where
  "request_id n = ''req-'' @ nat_toString n"

text \<open>\<open>proveOne\<close> up to the promise it waits for.\<close>

definition proveOne :: "bool \<Rightarrow> circuit_inputs \<Rightarrow> string \<times> string \<Rightarrow> suite \<Rightarrow> js_error + suite" where
  "proveOne window inputs urls s =
     rbind (ensureWorker window s) (\<lambda>(w, t).
       let n = ws_nextId t;
           msg = \<lparr>pwr_id = request_id n, pwr_inputs = inputs, pwr_wasmUrl = fst urls, pwr_zkeyUrl = snd urls\<rparr>
       in Inr (t \<lparr>ws_nextId := n + 1, ws_pending := AList.update (pwr_id msg) n (ws_pending t),
                  ws_posted := ws_posted t @ [(w, msg)], ws_unanswered := ws_unanswered t @ [(w, msg)]\<rparr>))"

definition walletCreate_circuit_inputs :: "WalletCreateInputs \<Rightarrow> circuit_inputs" where
  "walletCreate_circuit_inputs inputs =
     [(''userCommitment'', Dec (bigint_toString (wc_userCommitment inputs))),
      (''rootKey'', Decs [bigint_toString (fst (wc_rootKey inputs)), bigint_toString (snd (wc_rootKey inputs))]),
      (''spendingKey'', Dec (bigint_toString (wc_spendingKey inputs))), (''viewingKey'', Dec (bigint_toString (wc_viewingKey inputs))),
      (''r0'', Dec (bigint_toString (wc_r0 inputs))), (''r1'', Dec (bigint_toString (wc_r1 inputs))), (''r2'', Dec (bigint_toString (wc_r2 inputs)))]"

definition spend_circuit_inputs :: "SpendInputs \<Rightarrow> circuit_inputs" where
  "spend_circuit_inputs inputs =
     [(''merkleRoot'', Dec (bigint_toString (si_merkleRoot inputs))), (''nullifier'', Dec (bigint_toString (si_nullifier inputs))),
      (''tokenMint'', Decs [bigint_toString (fst (si_tokenMint inputs)), bigint_toString (snd (si_tokenMint inputs))]),
      (''amount'', Dec (bigint_toString (si_amount inputs))), (''spendingKey'', Dec (bigint_toString (si_spendingKey inputs))),
      (''ownerCommitmentBlinding'', Dec (bigint_toString (si_ownerCommitmentBlinding inputs))), (''nonce'', Dec (bigint_toString (si_nonce inputs))),
      (''blindingR'', Dec (bigint_toString (si_blindingR inputs))), (''merklePath'', Decs (map bigint_toString (si_merklePath inputs))),
      (''merkleIndices'', Decs (map bigint_toString (si_merkleIndices inputs)))]"

definition walletCreate_prove :: "bool \<Rightarrow> WebProverAssets \<Rightarrow> WalletCreateInputs \<Rightarrow> suite \<Rightarrow> js_error + suite" where
  "walletCreate_prove window assets inputs = proveOne window (walletCreate_circuit_inputs inputs) (wpa_walletCreate assets)"

definition spend_prove :: "bool \<Rightarrow> WebProverAssets \<Rightarrow> SpendInputs \<Rightarrow> suite \<Rightarrow> js_error + suite" where
  "spend_prove window assets inputs s =
     (if length (si_merklePath inputs) \<noteq> 20 \<or> length (si_merkleIndices inputs) \<noteq> 20
      then Inl (newError (''WebProverSuite.spend.prove: expected merkle path/indices length 20, got ''
             @ nat_toString (length (si_merklePath inputs)) @ ''/'' @ nat_toString (length (si_merkleIndices inputs))))
      else proveOne window (spend_circuit_inputs inputs) (wpa_spend assets) s)"

definition prefetch :: "bool \<Rightarrow> suite \<Rightarrow> js_error + suite" where
  "prefetch window s = map_sum id snd (ensureWorker window s)"

section \<open>The suite as a state machine\<close>

datatype prover_event =
    AskWallet WalletCreateInputs
  | AskSpend SpendInputs
  | Answer nat ProverWorkerRequest "string + SnarkjsRawProof \<times> string list"
  | Crash nat string
  | Dispose
  | Prefetch

text \<open>A worker that was not terminated answers a message it has not answered yet, or reports an error.
  A call that throws leaves the suite as it is.\<close>

inductive prover_step :: "full_prove \<Rightarrow> bool \<Rightarrow> WebProverAssets \<Rightarrow> suite \<Rightarrow> prover_event \<Rightarrow> suite \<Rightarrow> bool" for fullProve window assets where
  ask_wallet: "walletCreate_prove window assets inputs s = Inr t \<Longrightarrow> prover_step fullProve window assets s (AskWallet inputs) t"
| ask_wallet_throws: "walletCreate_prove window assets inputs s = Inl e \<Longrightarrow> prover_step fullProve window assets s (AskWallet inputs) s"
| ask_spend: "spend_prove window assets inputs s = Inr t \<Longrightarrow> prover_step fullProve window assets s (AskSpend inputs) t"
| ask_spend_throws: "spend_prove window assets inputs s = Inl e \<Longrightarrow> prover_step fullProve window assets s (AskSpend inputs) s"
| answer: "ws_unanswered s = before @ (w, req) # rest \<Longrightarrow> w \<notin> set (ws_terminated s) \<Longrightarrow>
    fullProve (pwr_inputs req) (pwr_wasmUrl req) (pwr_zkeyUrl req) res \<Longrightarrow>
    prover_step fullProve window assets s (Answer w req res) (on_message (worker_reply req res) (s \<lparr>ws_unanswered := before @ rest\<rparr>))"
| crash: "w < ws_created s \<Longrightarrow> w \<notin> set (ws_terminated s) \<Longrightarrow> prover_step fullProve window assets s (Crash w msg) (on_error msg s)"
| dispose: "prover_step fullProve window assets s Dispose (prover_dispose s)"
| prefetch: "prefetch window s = Inr t \<Longrightarrow> prover_step fullProve window assets s Prefetch t"

inductive_cases prover_stepE: "prover_step fullProve window assets s e t"

section \<open>The invariant\<close>

lemma request_id_inject [simp]: "request_id m = request_id n \<longleftrightarrow> m = n"
  by (auto simp: request_id_def dest: arg_cong [of _ _ dec_val])

text \<open>Of the promises: every request has a promise that is pending or settled, never both.\<close>

definition promises_ok :: "suite \<Rightarrow> bool" where
  "promises_ok s \<longleftrightarrow>
     length (ws_posted s) = ws_nextId s
     \<and> (\<forall>n < ws_nextId s. pwr_id (snd (ws_posted s ! n)) = request_id n)
     \<and> distinct (map fst (ws_pending s)) \<and> (\<forall>(i, n) \<in> set (ws_pending s). i = request_id n)
     \<and> distinct (map fst (ws_settled s)) \<and> snd ` set (ws_pending s) \<inter> fst ` set (ws_settled s) = {}
     \<and> snd ` set (ws_pending s) \<union> fst ` set (ws_settled s) = {..<ws_nextId s}"

text \<open>Of the workers: what is pending is with the current worker.\<close>

definition workers_ok :: "suite \<Rightarrow> bool" where
  "workers_ok s \<longleftrightarrow>
     set (ws_unanswered s) \<subseteq> set (ws_posted s)
     \<and> (\<forall>w. ws_worker s = Some w \<longrightarrow> w < ws_created s \<and> w \<notin> set (ws_terminated s))
     \<and> set (ws_terminated s) \<subseteq> {..<ws_created s}
     \<and> (\<forall>n \<in> snd ` set (ws_pending s). ws_posted s ! n \<in> set (ws_unanswered s) \<and> ws_worker s = Some (fst (ws_posted s ! n)))"

text \<open>Of the proofs: each answers its own request.\<close>

definition proofs_ok :: "full_prove \<Rightarrow> suite \<Rightarrow> bool" where
  "proofs_ok fullProve s \<longleftrightarrow>
     (\<forall>n pf. (n, Inr pf) \<in> set (ws_settled s) \<longrightarrow>
        (\<exists>raw sigs. let req = snd (ws_posted s ! n) in
           fullProve (pwr_inputs req) (pwr_wasmUrl req) (pwr_zkeyUrl req) (Inr (raw, sigs)) \<and> proof_bytes raw sigs = Inr pf))"

definition suite_ok :: "full_prove \<Rightarrow> suite \<Rightarrow> bool" where
  "suite_ok fullProve s \<longleftrightarrow> promises_ok s \<and> workers_ok s \<and> proofs_ok fullProve s"


lemma suite_ok_new: "suite_ok fullProve new_suite"
  by (simp add: suite_ok_def promises_ok_def workers_ok_def proofs_ok_def new_suite_def)

lemma suite_ok_ensureWorker:
  assumes "suite_ok fullProve s" and "ensureWorker window s = Inr (w, t)"
  shows "suite_ok fullProve t" and "ws_worker t = Some w" and "ws_pending t = ws_pending s"
proof -
  have t: "ws_worker s = Some w \<and> t = s \<or> ws_worker s = None \<and> w = ws_created s \<and> t = s \<lparr>ws_worker := Some w, ws_created := w + 1\<rparr>"
    using assms(2) by (auto simp: ensureWorker_def split: option.splits if_splits)
  then show "ws_worker t = Some w" "ws_pending t = ws_pending s" by auto
  show "suite_ok fullProve t"
  proof (cases "ws_worker s")
    case (Some v)
    then show ?thesis using t assms(1) by simp
  next
    case None
    have "ws_pending s = []" using assms(1) None unfolding suite_ok_def workers_ok_def by (cases "ws_pending s") auto
    then show ?thesis using t None assms(1)
      unfolding suite_ok_def promises_ok_def workers_ok_def proofs_ok_def by auto
  qed
qed

lemma promisesD:
  assumes "promises_ok s"
  shows "length (ws_posted s) = ws_nextId s" and "n < ws_nextId s \<Longrightarrow> pwr_id (snd (ws_posted s ! n)) = request_id n"
    and "distinct (map fst (ws_pending s))" and "(i, n) \<in> set (ws_pending s) \<Longrightarrow> i = request_id n"
    and "distinct (map fst (ws_settled s))" and "n \<in> snd ` set (ws_pending s) \<Longrightarrow> n \<notin> fst ` set (ws_settled s)"
    and "n \<in> snd ` set (ws_pending s) \<or> n \<in> fst ` set (ws_settled s) \<longleftrightarrow> n < ws_nextId s"
proof -
  show "n \<in> snd ` set (ws_pending s) \<or> n \<in> fst ` set (ws_settled s) \<longleftrightarrow> n < ws_nextId s"
    using assms unfolding promises_ok_def by (metis Un_iff lessThan_iff)
qed (use assms in \<open>auto simp: promises_ok_def\<close>)

lemma promises_pending_id:
  assumes "promises_ok s"
  shows "map_of (ws_pending s) (request_id n) = (if n \<in> snd ` set (ws_pending s) then Some n else None)"
proof (cases "n \<in> snd ` set (ws_pending s)")
  case True
  then obtain i where "(i, n) \<in> set (ws_pending s)" by auto
  moreover from this have "i = request_id n" by (rule promisesD(4) [OF assms])
  ultimately show ?thesis using True promisesD(3) [OF assms] by (simp add: map_of_is_SomeI)
next
  case False
  have "request_id n \<notin> fst ` set (ws_pending s)"
  proof
    assume "request_id n \<in> fst ` set (ws_pending s)"
    then obtain m where m: "(request_id n, m) \<in> set (ws_pending s)" by auto
    then have "m = n" using promisesD(4) [OF assms m] by simp
    with m False show False by force
  qed
  then show ?thesis using False by (simp add: map_of_eq_None_iff)
qed

lemma update_new: "k \<notin> fst ` set al \<Longrightarrow> AList.update k v al = al @ [(k, v)]"
  by (induction al) auto

text \<open>A request with the next number, handed to worker \<open>w\<close>.\<close>

definition add_request :: "nat \<Rightarrow> ProverWorkerRequest \<Rightarrow> suite \<Rightarrow> suite" where
  "add_request w msg t = t \<lparr>ws_nextId := ws_nextId t + 1, ws_pending := ws_pending t @ [(request_id (ws_nextId t), ws_nextId t)],
     ws_posted := ws_posted t @ [(w, msg)], ws_unanswered := ws_unanswered t @ [(w, msg)]\<rparr>"

lemma posted_nth:
  assumes "promises_ok t"
  shows "n < ws_nextId t \<Longrightarrow> (ws_posted t @ [x]) ! n = ws_posted t ! n" and "(ws_posted t @ [x]) ! ws_nextId t = x"
  using promisesD(1) [OF assms] by (simp_all add: nth_append)

lemma next_fresh:
  assumes "promises_ok t"
  shows "ws_nextId t \<notin> fst ` set (ws_settled t)" and "request_id (ws_nextId t) \<notin> fst ` set (ws_pending t)"
  using promisesD(7) [OF assms, of "ws_nextId t"] promises_pending_id [OF assms, of "ws_nextId t"] by (auto simp: map_of_eq_None_iff)

lemma promises_ok_add:
  assumes p: "promises_ok t" and "pwr_id msg = request_id (ws_nextId t)"
  shows "promises_ok (add_request w msg t)"
  unfolding promises_ok_def add_request_def suite.simps
proof (intro conjI, goal_cases)
  case 2
  show ?case using promisesD(2) [OF p] posted_nth [OF p] assms(2) by (auto simp: less_Suc_eq)
next
  case 6
  show ?case using promisesD(6) [OF p] next_fresh(1) [OF p] by auto
next
  case 7
  show ?case using p unfolding promises_ok_def by (simp add: lessThan_Suc)
qed (use promisesD(1,3,4,5) [OF p] next_fresh(2) [OF p] in auto)

lemma workers_ok_add:
  assumes p: "promises_ok t" and wk: "workers_ok t" and w: "ws_worker t = Some w"
  shows "workers_ok (add_request w msg t)"
proof -
  have "(ws_posted t @ [(w, msg)]) ! m \<in> set (ws_unanswered t @ [(w, msg)]) \<and> Some w = Some (fst ((ws_posted t @ [(w, msg)]) ! m))"
    if "m \<in> snd ` set (ws_pending t @ [(request_id (ws_nextId t), ws_nextId t)])" for m
  proof (cases "m = ws_nextId t")
    case True
    then show ?thesis by (simp add: posted_nth(2) [OF p])
  next
    case False
    then have m: "m \<in> snd ` set (ws_pending t)" using that by simp
    then have "m < ws_nextId t" using promisesD(7) [OF p, of m] by simp
    then show ?thesis using wk w m unfolding workers_ok_def posted_nth(1) [OF p \<open>m < ws_nextId t\<close>] by auto
  qed
  then show ?thesis using wk w unfolding workers_ok_def add_request_def by auto
qed

lemma proofs_ok_add:
  assumes p: "promises_ok t" and pf: "proofs_ok fullProve t"
  shows "proofs_ok fullProve (add_request w msg t)"
  unfolding proofs_ok_def add_request_def suite.simps
proof (intro allI impI, goal_cases)
  case (1 n pf0)
  then have "n < ws_nextId t" using promisesD(7) [OF p, of n] by force
  then show ?case using 1 pf posted_nth(1) [OF p] unfolding proofs_ok_def by auto
qed

lemma suite_ok_proveOne:
  assumes "suite_ok fullProve s" and "proveOne window inputs urls s = Inr u"
  shows "suite_ok fullProve u"
proof -
  obtain w t where t: "ensureWorker window s = Inr (w, t)"
    using assms(2) by (auto simp: proveOne_def rbind_eq_Inr)
  let ?msg = "\<lparr>pwr_id = request_id (ws_nextId t), pwr_inputs = inputs, pwr_wasmUrl = fst urls, pwr_zkeyUrl = snd urls\<rparr>"
  note ok = suite_ok_ensureWorker [OF assms(1) t]
  have p: "promises_ok t" and wk: "workers_ok t" and pf: "proofs_ok fullProve t" using ok(1) by (simp_all add: suite_ok_def)
  have "u = add_request w ?msg t"
    using assms(2) t by (simp add: proveOne_def add_request_def Let_def update_new [OF next_fresh(2) [OF p]])
  then show ?thesis
    using promises_ok_add [OF p] workers_ok_add [OF p wk ok(2)] proofs_ok_add [OF p pf] by (simp add: suite_ok_def)
qed

lemma promises_distinct:
  assumes "promises_ok s"
  shows "distinct (map snd (ws_pending s))"
proof -
  have "map fst (ws_pending s) = map request_id (map snd (ws_pending s))"
    using promisesD(4) [OF assms] by (auto simp: comp_def)
  then show ?thesis using promisesD(3) [OF assms] by (metis distinct_map)
qed

lemma suite_ok_reject_all:
  assumes "suite_ok fullProve s"
  shows "suite_ok fullProve (reject_all msg s)"
proof -
  have p: "promises_ok s" and wk: "workers_ok s" and pf: "proofs_ok fullProve s" using assms by (simp_all add: suite_ok_def)
  define rejected where "rejected = map (\<lambda>(i, n). (n, Inl (newError (msg i)) :: js_error + Groth16ProofBytes)) (ws_pending s)"
  have nums: "map fst rejected = map snd (ws_pending s)" by (simp add: rejected_def comp_def case_prod_beta)
  then have set: "fst ` set rejected = snd ` set (ws_pending s)" by (metis list.set_map)
  have "promises_ok (reject_all msg s)"
    using p promises_distinct [OF p] unfolding promises_ok_def reject_all_def rejected_def [symmetric]
    by (simp add: nums set image_Un Int_commute Un_commute)
  moreover have "workers_ok (reject_all msg s)" using wk by (simp add: workers_ok_def reject_all_def)
  moreover have "proofs_ok fullProve (reject_all msg s)" using pf by (auto simp: proofs_ok_def reject_all_def)
  ultimately show ?thesis by (simp add: suite_ok_def)
qed

lemma suite_ok_dispose:
  assumes "suite_ok fullProve s"
  shows "suite_ok fullProve (prover_dispose s)"
proof -
  have p: "promises_ok s" and wk: "workers_ok s" and pf: "proofs_ok fullProve s" using assms by (simp_all add: suite_ok_def)
  let ?s = "s \<lparr>ws_worker := None, ws_terminated := (case ws_worker s of Some w \<Rightarrow> w # ws_terminated s | None \<Rightarrow> ws_terminated s)\<rparr>"
  have "prover_dispose s = reject_all (\<lambda>i. ''WebProverSuite disposed before resolving'') s
      \<lparr>ws_terminated := (case ws_worker s of Some w \<Rightarrow> w # ws_terminated s | None \<Rightarrow> ws_terminated s)\<rparr>"
    by (simp add: prover_dispose_def reject_all_def)
  moreover have "suite_ok fullProve (reject_all (\<lambda>i. ''WebProverSuite disposed before resolving'') s)" using assms by (rule suite_ok_reject_all)
  ultimately show ?thesis
    using wk unfolding suite_ok_def promises_ok_def workers_ok_def proofs_ok_def reject_all_def by (auto split: option.splits)
qed

text \<open>What the suite makes of an answer to the request with number \<open>n\<close>.\<close>

definition answer_result :: "string + SnarkjsRawProof \<times> string list \<Rightarrow> js_error + Groth16ProofBytes" where
  "answer_result res = (case res of Inl err \<Rightarrow> Inl (newError err) | Inr (pf, sigs) \<Rightarrow> proof_bytes pf sigs)"

lemma raw_proof_copy: "\<lparr>pi_a = pi_a x, pi_b = pi_b x, pi_c = pi_c x\<rparr> = (x :: SnarkjsRawProof)"
  by simp

lemma on_message_reply:
  assumes "promises_ok s" and "pwr_id req = request_id n"
  shows "on_message (worker_reply req res) s =
    (if n \<in> snd ` set (ws_pending s)
     then s \<lparr>ws_pending := AList.delete (request_id n) (ws_pending s), ws_settled := ws_settled s @ [(n, answer_result res)]\<rparr>
     else s)"
  using promises_pending_id [OF assms(1), of n] assms(2)
  by (cases res) (auto simp: on_message_def worker_reply_def answer_result_def raw_proof_copy split: prod.splits)


lemma suite_ok_answer:
  assumes ok: "suite_ok fullProve s" and split: "ws_unanswered s = before @ (w, req) # rest"
    and res: "fullProve (pwr_inputs req) (pwr_wasmUrl req) (pwr_zkeyUrl req) res"
  defines "t \<equiv> on_message (worker_reply req res) (s \<lparr>ws_unanswered := before @ rest\<rparr>)"
  obtains n where "n < ws_nextId s" "ws_posted s ! n = (w, req)" "suite_ok fullProve t"
    "set (ws_pending t) = set (ws_pending s) - {(request_id n, n)}" "ws_nextId t = ws_nextId s"
proof -
  have p: "promises_ok s" and wk: "workers_ok s" and pf: "proofs_ok fullProve s" using ok by (simp_all add: suite_ok_def)
  have "(w, req) \<in> set (ws_posted s)" using wk split unfolding workers_ok_def by auto
  then obtain n where n: "n < ws_nextId s" "ws_posted s ! n = (w, req)" using promisesD(1) [OF p] by (metis in_set_conv_nth)
  have i: "pwr_id req = request_id n" using promisesD(2) [OF p n(1)] n(2) by simp
  let ?s = "s \<lparr>ws_unanswered := before @ rest\<rparr>"
  have p': "promises_ok ?s" using p by (simp add: promises_ok_def)
  have other: "ws_posted s ! m \<noteq> (w, req)" if "m < ws_nextId s" "m \<noteq> n" for m
    using promisesD(2) [OF p that(1)] i that(2) by auto
  have rest: "ws_posted s ! m \<in> set (before @ rest)" if "m \<in> snd ` set (ws_pending s)" "m \<noteq> n" for m
  proof -
    have "ws_posted s ! m \<in> set (ws_unanswered s)" using wk that(1) unfolding workers_ok_def by blast
    moreover have "m < ws_nextId s" using promisesD(7) [OF p, of m] that(1) by simp
    ultimately show ?thesis using other [of m] that(2) unfolding split by simp
  qed
  let ?del = "AList.delete (request_id n) (ws_pending s)"
  have del: "set ?del = set (ws_pending s) - {(request_id n, n)}"
    by (auto simp: AList.delete_eq dest: promisesD(4) [OF p])
  show thesis
  proof (cases "n \<in> snd ` set (ws_pending s)")
    case True
    have t: "t = s \<lparr>ws_unanswered := before @ rest, ws_pending := ?del, ws_settled := ws_settled s @ [(n, answer_result res)]\<rparr>"
      unfolding t_def using on_message_reply [OF p' i, of res] True by simp
    have nums: "snd ` set ?del = snd ` set (ws_pending s) - {n}"
      unfolding del using promisesD(4) [OF p] by force
    have unsettled: "n \<notin> fst ` set (ws_settled s)" using True by (rule promisesD(6) [OF p])
    have "promises_ok t"
      unfolding promises_ok_def t suite.simps
    proof (intro conjI, goal_cases)
      case 7
      have "snd ` set (ws_pending s) - {n} \<union> (insert n (fst ` set (ws_settled s))) = snd ` set (ws_pending s) \<union> fst ` set (ws_settled s)" using True by auto
      then show ?case using p unfolding promises_ok_def by (simp add: nums)
    qed (use p unsettled in \<open>auto simp: promises_ok_def nums del distinct_delete\<close>)
    moreover have "workers_ok t" using wk rest unfolding workers_ok_def t by (auto simp: nums split)
    moreover have "proofs_ok fullProve t"
      using pf n(2) res unfolding proofs_ok_def t by (auto simp: answer_result_def Let_def split: sum.splits)
    ultimately show thesis using that [of n] n del by (simp add: suite_ok_def t)
  next
    case False
    have t: "t = ?s" unfolding t_def using on_message_reply [OF p' i, of res] False by simp
    have "workers_ok t" using wk rest False unfolding workers_ok_def t by (auto simp: split)
    then have "suite_ok fullProve t" using p pf by (simp add: suite_ok_def t promises_ok_def proofs_ok_def)
    moreover have "(request_id n, n) \<notin> set (ws_pending s)" using False by force
    ultimately show thesis using that [of n] n by (simp add: t)
  qed
qed

lemma suite_ok_step:
  assumes "suite_ok fullProve s" and "prover_step fullProve window assets s e t"
  shows "suite_ok fullProve t"
  using assms(2)
proof cases
  case (answer before w req rest res)
  show ?thesis unfolding answer(2) by (rule suite_ok_answer [OF assms(1) answer(3,5)])
next
  case prefetch
  then show ?thesis using suite_ok_ensureWorker(1) [OF assms(1)] by (auto simp: prefetch_def map_sum_def split: sum.splits)
qed (use assms(1) suite_ok_proveOne suite_ok_reject_all suite_ok_dispose in \<open>auto simp: walletCreate_prove_def spend_prove_def on_error_def split: if_splits\<close>)


section \<open>The contracts\<close>

interpretation prover: machine_invariant "prover_step fullProve window assets" "suite_ok fullProve" for fullProve window assets
  by unfold_locales (rule suite_ok_step)

text \<open>Only the worker acts.\<close>

definition prover_answers :: "full_prove \<Rightarrow> bool \<Rightarrow> WebProverAssets \<Rightarrow> suite \<Rightarrow> prover_event \<Rightarrow> suite \<Rightarrow> bool" where
  "prover_answers fullProve window assets s e t \<longleftrightarrow> prover_step fullProve window assets s e t \<and> (\<exists>w req res. e = Answer w req res)"

text \<open>Documented behaviour of \<open>groth16.fullProve\<close>: it returns or throws.\<close>

definition prover_total :: "full_prove \<Rightarrow> bool" where
  "prover_total fullProve \<longleftrightarrow> (\<forall>inputs wasm zkey. \<exists>res. fullProve inputs wasm zkey res)"

lemma prover_progress:
  assumes ok: "suite_ok fullProve s" and total: "prover_total fullProve" and pending: "ws_pending s \<noteq> []"
  shows "\<exists>e t. prover_answers fullProve window assets s e t \<and> card (set (ws_pending t)) < card (set (ws_pending s))"
proof -
  have p: "promises_ok s" and wk: "workers_ok s" using ok by (simp_all add: suite_ok_def)
  obtain i n where "(i, n) \<in> set (ws_pending s)" using pending by (metis list.set_intros(1) neq_Nil_conv surj_pair)
  moreover from this have "i = request_id n" by (rule promisesD(4) [OF p])
  ultimately have n: "(request_id n, n) \<in> set (ws_pending s)" "n \<in> snd ` set (ws_pending s)" by force+
  obtain w req where req: "ws_posted s ! n = (w, req)" by (cases "ws_posted s ! n")
  then have "(w, req) \<in> set (ws_unanswered s)" "ws_worker s = Some w" using wk n(2) unfolding workers_ok_def by auto
  then obtain before rest where split: "ws_unanswered s = before @ (w, req) # rest" and live: "w \<notin> set (ws_terminated s)"
    using wk unfolding workers_ok_def by (metis split_list)
  obtain res where res: "fullProve (pwr_inputs req) (pwr_wasmUrl req) (pwr_zkeyUrl req) res" using total unfolding prover_total_def by blast
  let ?t = "on_message (worker_reply req res) (s \<lparr>ws_unanswered := before @ rest\<rparr>)"
  have step: "prover_step fullProve window assets s (Answer w req res) ?t" using split live res by (rule prover_step.answer)
  obtain m where m: "m < ws_nextId s" "ws_posted s ! m = (w, req)" "set (ws_pending ?t) = set (ws_pending s) - {(request_id m, m)}"
    by (rule suite_ok_answer [OF ok split res])
  have "n < ws_nextId s" using promisesD(7) [OF p, of n] n(2) by simp
  then have "m = n" using promisesD(2) [OF p, of n] promisesD(2) [OF p m(1)] req m(2) by simp
  then have "card (set (ws_pending ?t)) < card (set (ws_pending s))" using m(3) card_Diff1_less [OF _ n(1)] by simp
  then show ?thesis using step unfolding prover_answers_def by blast
qed

lemma prover_answers_keep:
  assumes "suite_ok fullProve s" and "prover_answers fullProve window assets s e t"
  shows "suite_ok fullProve t" and "ws_nextId t = ws_nextId s"
proof -
  have step: "prover_step fullProve window assets s e t" using assms(2) unfolding prover_answers_def by blast
  show "suite_ok fullProve t" using assms(1) step by (rule suite_ok_step)
  from step assms(2) show "ws_nextId t = ws_nextId s"
    by cases (auto simp: prover_answers_def elim!: suite_ok_answer [OF assms(1)])
qed

interpretation answering: draining_machine "prover_answers fullProve window assets"
  "\<lambda>s. suite_ok fullProve s \<and> prover_total fullProve \<and> ws_nextId s = N" "\<lambda>s. card (set (ws_pending s))" for fullProve window assets N
proof
  show "\<exists>e t. prover_answers fullProve window assets s e t \<and> card (set (ws_pending t)) < card (set (ws_pending s))"
    if "suite_ok fullProve s \<and> prover_total fullProve \<and> ws_nextId s = N" "0 < card (set (ws_pending s))" for s
    using that by (intro prover_progress) auto
qed (auto dest: prover_answers_keep)

section \<open>Properties\<close>

text \<open>(C14) Whatever requests are made, in whatever order workers answer, fail or crash, and whenever the suite is disposed:
  every request has one promise, pending or settled and never settled twice; and a proof that a promise
  was resolved with is a proof \<open>fullProve\<close> gave for the inputs of that very request, in the program's
  format.\<close>

theorem prover_answers_own_request:
  assumes "reach (prover_step fullProve window assets) new_suite s"
  shows "distinct (map fst (ws_settled s)) \<and> length (ws_posted s) = ws_nextId s
    \<and> (\<forall>n < ws_nextId s. (n \<in> snd ` set (ws_pending s)) \<noteq> (n \<in> fst ` set (ws_settled s)))
    \<and> (\<forall>n pf. (n, Inr pf) \<in> set (ws_settled s) \<longrightarrow>
         (\<exists>w req raw sigs. n < ws_nextId s \<and> ws_posted s ! n = (w, req) \<and> pwr_id req = request_id n
            \<and> fullProve (pwr_inputs req) (pwr_wasmUrl req) (pwr_zkeyUrl req) (Inr (raw, sigs)) \<and> proof_bytes raw sigs = Inr pf))"
proof -
  have ok: "suite_ok fullProve s" using prover.invariant [OF assms suite_ok_new] .
  have p: "promises_ok s" and pf: "proofs_ok fullProve s" using ok by (simp_all add: suite_ok_def)
  have "\<exists>w req raw sigs. n < ws_nextId s \<and> ws_posted s ! n = (w, req) \<and> pwr_id req = request_id n
      \<and> fullProve (pwr_inputs req) (pwr_wasmUrl req) (pwr_zkeyUrl req) (Inr (raw, sigs)) \<and> proof_bytes raw sigs = Inr pf"
    if "(n, Inr pf) \<in> set (ws_settled s)" for n pf
  proof -
    have n: "n < ws_nextId s" using promisesD(7) [OF p, of n] that by force
    obtain w req where req: "ws_posted s ! n = (w, req)" by (cases "ws_posted s ! n")
    show ?thesis using n req promisesD(2) [OF p n] \<open>proofs_ok fullProve s\<close> that unfolding proofs_ok_def by fastforce
  qed
  then show ?thesis using promisesD(1,5,6,7) [OF p] by blast
qed

text \<open>(C15) No request is stuck: in every reachable state, if \<open>fullProve\<close> returns or throws on every input, answers of the
  workers alone lead to a state in which nothing is pending and every request made so far is settled.\<close>

theorem prover_drains:
  assumes "reach (prover_step fullProve window assets) new_suite s" and "prover_total fullProve"
  shows "\<exists>t. reach (prover_answers fullProve window assets) s t \<and> ws_pending t = [] \<and> ws_nextId t = ws_nextId s
     \<and> (\<forall>n < ws_nextId s. n \<in> fst ` set (ws_settled t))"
proof -
  have ok: "suite_ok fullProve s" using prover.invariant [OF assms(1) suite_ok_new] .
  obtain t where t: "reach (prover_answers fullProve window assets) s t" "suite_ok fullProve t" "ws_nextId t = ws_nextId s" "ws_pending t = []"
    using answering.drains [of fullProve s "ws_nextId s" window assets] ok assms(2) by auto
  then have "promises_ok t" by (simp add: suite_ok_def)
  then show ?thesis using t promisesD(7) [of t] by (intro exI [of _ t]) auto
qed

section \<open>A run\<close>

text \<open>Two requests, of which the worker answers the second first. The prover of the run returns a proof for the
  wallet circuit and throws for every other.\<close>

definition run_proof :: SnarkjsRawProof where
  "run_proof = \<lparr>pi_a = [''3'', ''5'', ''1''], pi_b = [[''1'', ''2''], [''3'', ''4''], [''1'', ''0'']], pi_c = [''7'', ''9'', ''1'']\<rparr>"

definition run_prover :: full_prove where
  "run_prover inputs wasm zkey res \<longleftrightarrow>
     res = (if wasm = ''/circuits/valid_wallet_create/circuit.wasm'' then Inr (run_proof, [''11'']) else Inl ''Assert Failed'')"

definition run_wallet :: WalletCreateInputs where
  "run_wallet = \<lparr>wc_userCommitment = 1, wc_rootKey = (2, 3), wc_spendingKey = 4, wc_viewingKey = 5, wc_r0 = 6, wc_r1 = 7, wc_r2 = 8\<rparr>"

definition run_request :: "nat \<Rightarrow> nat \<times> ProverWorkerRequest" where
  "run_request n = (0, \<lparr>pwr_id = request_id n, pwr_inputs = walletCreate_circuit_inputs run_wallet,
     pwr_wasmUrl = fst (wpa_walletCreate DEFAULT_ASSETS), pwr_zkeyUrl = snd (wpa_walletCreate DEFAULT_ASSETS)\<rparr>)"

definition run_asked :: suite where
  "run_asked = \<lparr>ws_worker = Some 0, ws_pending = [(request_id 0, 0), (request_id 1, 1)], ws_nextId = 2, ws_created = 1,
     ws_terminated = [], ws_posted = [run_request 0, run_request 1], ws_unanswered = [run_request 0, run_request 1], ws_settled = []\<rparr>"

definition run_answered :: suite where
  "run_answered = on_message (worker_reply (snd (run_request 1)) (Inr (run_proof, [''11'']))) (run_asked \<lparr>ws_unanswered := [run_request 0]\<rparr>)"

lemma run_reach: "reach (prover_step run_prover True DEFAULT_ASSETS) new_suite run_answered"
proof -
  let ?step = "prover_step run_prover True DEFAULT_ASSETS"
  obtain s where s: "walletCreate_prove True DEFAULT_ASSETS run_wallet new_suite = Inr s" "walletCreate_prove True DEFAULT_ASSETS run_wallet s = Inr run_asked"
    by (simp add: walletCreate_prove_def proveOne_def ensureWorker_def new_suite_def run_asked_def run_request_def Let_def)
  have "?step run_asked (Answer 0 (snd (run_request 1)) (Inr (run_proof, [''11'']))) run_answered"
    unfolding run_answered_def
    by (rule prover_step.answer [where before = "[run_request 0]" and rest = "[]", simplified])
      (simp_all add: run_asked_def run_request_def run_prover_def DEFAULT_ASSETS_def)
  then show ?thesis
    using reach.move [OF reach.move [OF reach.move [OF reach.start]], of ?step new_suite "AskWallet run_wallet" s "AskWallet run_wallet" run_asked]
      prover_step.ask_wallet [OF s(1), of run_prover] prover_step.ask_wallet [OF s(2), of run_prover] by blast
qed

lemma run_formatted: "\<not> isl (proof_bytes run_proof [''11''])"
  by code_simp

lemma run_settled: "\<exists>pf. ws_settled run_answered = [(1, Inr pf)]"
  using run_formatted by (cases "proof_bytes run_proof [''11'']") (auto simp: run_answered_def run_asked_def on_message_def worker_reply_def run_request_def raw_proof_copy)

theorem prover_answers_own_request_witness:
  "\<exists>pf w req raw sigs. ws_settled run_answered = [(1, Inr pf)] \<and> ws_posted run_answered ! 1 = (w, req) \<and> pwr_id req = ''req-1''
     \<and> run_prover (pwr_inputs req) (pwr_wasmUrl req) (pwr_zkeyUrl req) (Inr (raw, sigs)) \<and> proof_bytes raw sigs = Inr pf"
proof -
  obtain pf where pf: "ws_settled run_answered = [(1, Inr pf)]" using run_settled by blast
  have "request_id 1 = ''req-1''" by code_simp
  then show ?thesis using prover_answers_own_request [OF run_reach] pf by fastforce
qed

theorem prover_drains_witness:
  "\<exists>t. reach (prover_answers run_prover True DEFAULT_ASSETS) run_answered t \<and> ws_pending t = [] \<and> {0, 1} \<subseteq> fst ` set (ws_settled t)"
proof -
  have "prover_total run_prover" by (simp add: prover_total_def run_prover_def)
  moreover have "ws_nextId run_answered = 2" by (auto simp: run_answered_def run_asked_def on_message_def worker_reply_def split: option.splits)
  ultimately show ?thesis using prover_drains [OF run_reach] by force
qed

end
