(* ===== verification/Nyx_Demo_Base.thy ===== *)
theory Nyx_Demo_Base
  imports Nyx_Demo_Flow
begin

text \<open>
  The panel that withdraws what a trade bought (\<open>apps/demo/src/components/dapp/trade-base-withdraw-panel.tsx\<close>).
  It works on the hint the trade panel stored in \<open>sessionStorage\<close>. The buttons Refresh and Clear stay
  enabled while a withdrawal runs, so its handler is cut at its awaits: \<open>base_click\<close> up to the first request,
  \<open>base_prepare\<close> up to the prover, \<open>base_finish\<close> to the end, with what the handler holds in its closure in
  \<open>bp_flight\<close>. Between two of these any event can happen. The milliseconds of the prover and the
  rendering are left out.

  Proved: the note of a settled trade is withdrawn by refreshing the panel and one click; what the
  panel shows in every reachable state; and that a panel that has withdrawn one note offers no
  withdrawal of the next.
\<close>

section \<open>State\<close>

datatype BaseStep = BaseIdle | BaseProving | BaseDone

text \<open>The closure of a handler that runs: the session and the hint it was started with; later the request, for
  the values it sends again, and the reply.\<close>

datatype base_flight = Preparing json json | Submitting json trade_withdraw_body trade_withdraw_reply

record base_panel =
  bp_stored :: "json option"
  bp_step :: BaseStep
  bp_busy :: bool
  bp_error :: "string option"
  bp_receipt :: "string option"
  bp_flight :: "base_flight option"

definition initial_base_panel :: base_panel where
  "initial_base_panel = \<lparr>bp_stored = None, bp_step = BaseIdle, bp_busy = False, bp_error = None, bp_receipt = None, bp_flight = None\<rparr>"

section \<open>Handlers\<close>

definition base_stored :: "'w flow_browser \<Rightarrow> 'w \<Rightarrow> json option" where
  "base_stored B w =
     (case br_getItem B NYX_TRADE_WITHDRAW_KEY w of
        Inl _ \<Rightarrow> None
      | Inr raw \<Rightarrow> if absent raw then None else (case br_json_parse B (the raw) of Inl _ \<Rightarrow> None | Inr j \<Rightarrow> Some j))"

definition base_refresh :: "'w flow_browser \<Rightarrow> base_panel \<times> 'w \<Rightarrow> base_panel \<times> 'w" where
  "base_refresh B pw = (fst pw \<lparr>bp_stored := base_stored B (snd pw)\<rparr>, snd pw)"

definition clearHint :: "'w flow_browser \<Rightarrow> base_panel \<times> 'w \<Rightarrow> base_panel \<times> 'w" where
  "clearHint B pw =
     (fst pw \<lparr>bp_stored := None, bp_step := BaseIdle, bp_receipt := None, bp_error := None\<rparr>,
      snd (ib_removeItem B NYX_TRADE_WITHDRAW_KEY (snd pw)))"

text \<open>A throw before the \<open>try\<close> rejects a promise nobody looks at.\<close>

definition base_start :: "'w flow_browser \<Rightarrow> (base_panel \<times> 'w, js_error, unit) io" where
  "base_start B pw =
     (let p = fst pw; s = readDappSession (flow_base B) (snd pw) in
      if \<not> truthy s then (Inl (newError (''Session missing '' @ em_dash @ '' re-derive identity.'')), pw)
      else if \<not> truthy (bp_stored p) then (Inl (newError (''Nothing to withdraw '' @ em_dash @ '' complete trade step 5 first.'')), pw)
      else (Inr (), (p \<lparr>bp_busy := True, bp_error := None, bp_flight := Some (Preparing (the s) (the (bp_stored p)))\<rparr>, snd pw)))"

definition base_click :: "'w flow_browser \<Rightarrow> base_panel \<times> 'w \<Rightarrow> base_panel \<times> 'w" where
  "base_click B pw = snd (base_start B pw)"

definition base_withdraw_request :: "json \<Rightarrow> json \<Rightarrow> js_error + trade_withdraw_body" where
  "base_withdraw_request s stored =
     rbind (jget stored ''tradeWithdrawBuyerBase'') (\<lambda>v.
       case v of None \<Rightarrow> Inl (undefined_error ''matchId'')
       | Some b \<Rightarrow> rbind (jget b ''matchId'') (\<lambda>matchId. Inr
           \<lparr>twb_phantomSignatureBase58 = session_string s ''phantomSignatureBase58'', twb_ownerPubkeyBase58 = session_string s ''ownerPubkeyBase58'',
            twb_ownerCommitmentHex = session_string stored ''ownerCommitmentHex'', twb_matchId = json_string matchId,
            twb_tokenMintBase58 = session_string b ''tokenMintBase58'', twb_amount = session_string b ''amount'', twb_nonce = session_string b ''nonce'',
            twb_blindingR = session_string b ''blindingR'', twb_leafIndex = session_string b ''leafIndex'',
            twb_commitmentHex = session_string b ''commitmentHex'', twb_maxSignatures = None\<rparr>))"

definition base_fail :: "js_error \<Rightarrow> base_panel \<Rightarrow> base_panel" where
  "base_fail e p = p \<lparr>bp_error := Some (err_message e), bp_step := BaseIdle, bp_busy := False, bp_flight := None\<rparr>"

definition base_prepare :: "lib \<Rightarrow> 'w demo \<Rightarrow> 'w flow_browser \<Rightarrow> base_panel \<times> 'w \<Rightarrow> base_panel \<times> 'w" where
  "base_prepare L M B pw =
     (case bp_flight (fst pw) of
        Some (Preparing s stored) \<Rightarrow>
          (case base_withdraw_request s stored of
             Inl e \<Rightarrow> (base_fail e (fst pw), snd pw)
           | Inr body \<Rightarrow>
               (case fetch_route (flow_base B) (trade_withdraw_POST L M body) (snd pw) of
                  (Inl e, w) \<Rightarrow> (base_fail e (fst pw), w)
                | (Inr r, w) \<Rightarrow> (fst pw \<lparr>bp_step := BaseProving, bp_flight := Some (Submitting s body r)\<rparr>, w)))
      | _ \<Rightarrow> pw)"

text \<open>A value the hint lacks is left out of the request; the route treats the empty text alike.\<close>

definition text_or_empty :: "string option \<Rightarrow> string" where
  "text_or_empty x = (case x of None \<Rightarrow> [] | Some t \<Rightarrow> t)"

definition base_finish :: "lib \<Rightarrow> 'w demo \<Rightarrow> 'w flow_browser \<Rightarrow> base_panel \<times> 'w \<Rightarrow> base_panel \<times> 'w" where
  "base_finish L M B pw =
     (case bp_flight (fst pw) of
        Some (Submitting s body r) \<Rightarrow>
          (case prove_and_send L M (flow_base B) s (text_or_empty (twb_tokenMintBase58 body)) (text_or_empty (twb_amount body))
                  (twr_proverInputs r) (twr_ixContext r) (snd pw) of
             (Inl e, w) \<Rightarrow> (base_fail e (fst pw), w)
           | (Inr sig, w) \<Rightarrow> (fst pw \<lparr>bp_receipt := Some sig, bp_step := BaseDone, bp_busy := False, bp_flight := None\<rparr>, w))
      | _ \<Rightarrow> pw)"

text \<open>A handler that is not interrupted.\<close>

definition base_runWithdraw :: "lib \<Rightarrow> 'w demo \<Rightarrow> 'w flow_browser \<Rightarrow> base_panel \<times> 'w \<Rightarrow> base_panel \<times> 'w" where
  "base_runWithdraw L M B pw = base_finish L M B (base_prepare L M B (base_click B pw))"

section \<open>The panel as a state machine\<close>

datatype base_event = BaseClick | BasePrepared | BaseFinished | BaseRefresh | BaseClear | BaseElsewhere

text \<open>The withdraw button is rendered when there is a hint, and enabled when nothing runs and nothing was withdrawn;
  the clear button is rendered when there is a hint.\<close>

inductive base_moves :: "lib \<Rightarrow> 'w demo \<Rightarrow> 'w flow_browser \<Rightarrow> base_panel \<times> 'w \<Rightarrow> base_event \<Rightarrow> base_panel \<times> 'w \<Rightarrow> bool" for L M B where
  click: "truthy (bp_stored p) \<Longrightarrow> \<not> bp_busy p \<Longrightarrow> bp_step p \<noteq> BaseDone \<Longrightarrow> base_moves L M B (p, w) BaseClick (base_click B (p, w))"
| prepared: "bp_flight p = Some (Preparing s stored) \<Longrightarrow> base_moves L M B (p, w) BasePrepared (base_prepare L M B (p, w))"
| finished: "bp_flight p = Some (Submitting s body r) \<Longrightarrow> base_moves L M B (p, w) BaseFinished (base_finish L M B (p, w))"
| refresh: "base_moves L M B (p, w) BaseRefresh (base_refresh B (p, w))"
| clear: "truthy (bp_stored p) \<Longrightarrow> base_moves L M B (p, w) BaseClear (clearHint B (p, w))"
| elsewhere: "base_moves L M B (p, w) BaseElsewhere (p, w')"

inductive_cases base_movesE: "base_moves L M B pw e qw"

text \<open>Busy exactly while a handler runs; proving exactly while one submits, unless the hint was cleared meanwhile; a receipt
  exactly when done; an error only when idle.\<close>

definition base_ok :: "base_panel \<Rightarrow> bool" where
  "base_ok p \<longleftrightarrow>
     (bp_busy p \<longleftrightarrow> bp_flight p \<noteq> None)
     \<and> (bp_step p = BaseProving \<longrightarrow> (\<exists>s body r. bp_flight p = Some (Submitting s body r)))
     \<and> (bp_step p = BaseDone \<longleftrightarrow> bp_receipt p \<noteq> None)
     \<and> (bp_step p = BaseDone \<longrightarrow> bp_flight p = None)
     \<and> (bp_error p \<noteq> None \<longrightarrow> bp_step p = BaseIdle \<and> bp_flight p = None)"

lemmas base_handler_defs = base_click_def base_start_def base_prepare_def base_finish_def base_refresh_def clearHint_def base_fail_def

interpretation base: machine_invariant "base_moves L M B" "\<lambda>pw. base_ok (fst pw)" for L M B
proof
  show "base_ok (fst t)" if "base_ok (fst s)" "base_moves L M B s e t" for s e t
    using that(2,1) by (cases rule: base_moves.cases)
      (auto simp: base_ok_def base_handler_defs Let_def split: prod.splits sum.splits option.splits)
qed

text \<open>Without a clear a panel that is done stays done.\<close>

definition base_keeps_hint :: "lib \<Rightarrow> 'w demo \<Rightarrow> 'w flow_browser \<Rightarrow> base_panel \<times> 'w \<Rightarrow> base_event \<Rightarrow> base_panel \<times> 'w \<Rightarrow> bool" where
  "base_keeps_hint L M B pw e qw \<longleftrightarrow> base_moves L M B pw e qw \<and> e \<noteq> BaseClear"

interpretation done_base: machine_invariant "base_keeps_hint L M B"
  "\<lambda>pw. bp_step (fst pw) = BaseDone \<and> bp_flight (fst pw) = None \<and> bp_receipt (fst pw) = receipt" for L M B receipt
  by unfold_locales (auto simp: base_keeps_hint_def base_refresh_def elim!: base_movesE)

section \<open>Properties\<close>

lemma base_request_hint:
  assumes "session_string s ''phantomSignatureBase58'' = Some sg" and "session_string s ''ownerPubkeyBase58'' = Some ow"
  shows "base_withdraw_request s (withdraw_hint b (Some oc)) = Inr (trade_withdraw_request sg ow oc b)"
  using assms
  by (simp add: base_withdraw_request_def withdraw_hint_def buyer_note_json_def trade_withdraw_request_def session_string_def json_string_def)

lemma base_stored_hint:
  assumes "json_roundtrip (identity_browser.truncate B)"
    and "br_getItem B NYX_TRADE_WITHDRAW_KEY w = Inr (Some (ib_stringify B (withdraw_hint b oc)))"
  shows "base_stored B w = Some (withdraw_hint b oc)"
  using assms by (simp add: base_stored_def json_roundtrip_def identity_browser.truncate_def absent_def)

lemma trade_withdraw_context:
  assumes canon: "poseidon_canonical L" and env: "demo_setup M = Inr (conns, programs)"
    and acct: "account_holds L (dcn_l1 conns) (pr_vaultProgramId programs) w v" and rep: "vault_rep L v xs"
    and hist: "honest_history L (dm_decoders M) (connection.truncate (dcn_l1 conns)) (pr_vaultProgramId programs) xs"
    and ok: "trade_withdraw_POST L M body w = (ReplyOk r, w')" and body: "twb_maxSignatures body = None"
    and leaf: "js_BigInt (the (twb_leafIndex body)) = Inr (int i)" "i < length xs"
  shows "ic_commitmentHex (twr_ixContext r) = bytes_hex (xs ! i)" and "length (xs ! i) = 32"
    and "\<exists>nl. ic_nullifierHex (twr_ixContext r) = bytes_hex nl \<and> length nl = 32"
proof -
  have all: "ic_commitmentHex (twr_ixContext r) = bytes_hex (xs ! i) \<and> length (xs ! i) = 32
     \<and> (\<exists>nl. ic_nullifierHex (twr_ixContext r) = bytes_hex nl \<and> length nl = 32)"
    using ok env
  proof (rule trade_withdraw_okE, goal_cases)
    case (1 vo matchId amount nonce blindingR leafIndex cm data leaves w1 w2 ch tried nl mint ob live)
    obtain data' where d: "vault_info L (dcn_l1 conns) (pr_vaultProgramId programs) w = (Inr data', w)" "vault_data v data'"
      using acct by (rule vault_info_holds)
    have same: "data' = data" "w1 = w" using 1(8) d(1) by simp_all
    have "vc_leaf_count v = length xs" using rep by (simp add: vault_rep_def)
    then have "live = int (length xs)" using vault_data_reads(1) [OF d(2)] 1(9) same(1) by (simp add: VAULT_LEAF_COUNT_OFFSET_def)
    then have "leaves = xs" using 1(11) honest_replay [OF hist, of w] body same(2) by simp
    moreover have "leafIndex = int i" using 1(4) leaf(1) by simp
    ultimately have "xs ! i = cm" using 1(12) leaf(2) by simp
    then show ?case using 1(17) noteCommitment_length [OF 1(7)] nullifier_length [OF 1(14)] by auto
  qed
  then show "ic_commitmentHex (twr_ixContext r) = bytes_hex (xs ! i)" "length (xs ! i) = 32"
    "\<exists>nl. ic_nullifierHex (twr_ixContext r) = bytes_hex nl \<and> length nl = 32" by simp_all
qed

lemma contained_root_length:
  assumes "account_holds L l1 programId w v" and "contains_root v rt"
  shows "length rt = 32"
proof -
  obtain data where "vault_data v data" using assms(1) by (rule vault_info_holds)
  then show ?thesis using assms(2) by (auto simp: vault_data_def contains_root_def list_all_iff)
qed

text \<open>(C2) What a trade bought is withdrawn with one click. After a settlement, when the trade panel has stored the reported
  note with the owner's commitment, the vault holds the note at the reported index, the RPC serves its
  history, and the browser works: the panel refreshes, and the click hands the prover inputs that
  satisfy the VALID_SPEND circuit for a root the vault accepts and sends the owner's withdrawal of
  the note's commitment, for the whole base amount, with that proof; the panel shows its signature.\<close>

theorem settled_trade_withdrawn:
  fixes B :: "'w flow_browser"
  assumes lib: "poseidon_canonical L" "base58_inverse L (dm_decoders M)" "pda_total L"
    and run: "runTradeL1Settle L (dm_decoders M) (dm_wallet M) ctx w0 = (Inr res, w1)"
    and env: "demo_setup M = Inr (conns, programs)" "tc_baseMint ctx = pr_baseMint programs"
    and user: "verifyPhantomSeedSignature L (dm_decoders M) (dm_wallet M) sg ow = Inr vo" "sg \<noteq> []" "ow \<noteq> []"
      "match_owned L ctx w0 (vo_seed vo)"
      "bn254ToBE32 (ownerCommitment L (deriveSpendingKey L (vo_seed vo)) (deriveBlindingFactor L (vo_seed vo) 0)) = Inr ob"
    and vault: "account_holds L (dcn_l1 conns) (pr_vaultProgramId programs) w2 v" "vault_rep L v xs"
      "honest_history L (dm_decoders M) (connection.truncate (dcn_l1 conns)) (pr_vaultProgramId programs) xs"
    and leaf: "js_BigInt (bb_leafIndex (sr_buyerBaseNote res)) = Inr (int i)" "i < length xs"
      "xs ! i = hex_decode (bb_commitmentHex (sr_buyerBaseNote res))"
    and session: "readDappSession (flow_base B) w2 = Some s" "session_string s ''phantomSignatureBase58'' = Some sg"
      "session_string s ''ownerPubkeyBase58'' = Some ow"
    and owner: "publicKeyOf (dm_decoders M) (Some ow) = Inr owner" "getAssociatedTokenAddress (dm_wallet M) (pr_baseMint programs) owner = Inr ata"
    and hint: "json_roundtrip (identity_browser.truncate B)"
      "br_getItem B NYX_TRADE_WITHDRAW_KEY w2 = Inr (Some (ib_stringify B (withdraw_hint (sr_buyerBaseNote res) (Some (bytes_hex ob)))))"
    and works: "browser_works L (flow_base B)"
  shows "\<exists>inp root nl pf wix sig w3 w4. ValidSpend L inp \<and> contains_root v root \<and> si_merkleRoot inp = be_to_int root
     \<and> js_BigInt (bb_amount (sr_buyerBaseNote res)) = Inr (si_amount inp)
     \<and> br_prove B inp w2 = (Inr pf, w3) \<and> br_sendAndConfirm B [wix] w3 = (Inr sig, w4) \<and> signers_of wix = [owner]
     \<and> ix_data wix = anchorDiscriminator L ''withdraw'' @ hex_decode (bb_commitmentHex (sr_buyerBaseNote res)) @ nl @ root
          @ u64LE (si_amount inp) @ gp_piA pf @ gp_piB pf @ gp_piC pf
     \<and> (\<exists>q. base_runWithdraw L M B (base_refresh B (initial_base_panel, w2)) = (q, w4)
          \<and> bp_step q = BaseDone \<and> \<not> bp_busy q \<and> bp_error q = None \<and> bp_receipt q = Some sig)"
proof -
  let ?note = "sr_buyerBaseNote res" and ?body = "trade_withdraw_request sg ow (bytes_hex ob) (sr_buyerBaseNote res)"
  obtain r where r: "trade_withdraw_POST L M ?body w2 = (ReplyOk r, w2)"
    using settled_trade_answered [OF lib(1,2) run env user vault leaf] by blast
  obtain inp root nl where inp: "panel_spend_inputs (twr_proverInputs r) = Inr inp" "ValidSpend L inp" "contains_root v root"
      "si_merkleRoot inp = be_to_int root" "ic_merkleRootHex (twr_ixContext r) = bytes_hex root" "ic_nullifierHex (twr_ixContext r) = bytes_hex nl"
      "js_BigInt (bb_amount ?note) = Inr (si_amount inp)"
    using trade_withdraw_answer_valid [OF lib(1) env(1) vault(1,2) r] by (auto simp: trade_withdraw_request_def)
  have body: "twb_maxSignatures ?body = None" "js_BigInt (the (twb_leafIndex ?body)) = Inr (int i)"
    using leaf(1) by (simp_all add: trade_withdraw_request_def)
  note c = trade_withdraw_context [OF lib(1) env(1) vault r body leaf(2)]
  have len: "length (xs ! i) = 32" "length nl = 32" "length root = 32"
    using c inp(6) contained_root_length [OF vault(1) inp(3)] by auto
  obtain a where "bb_amount ?note = bigint_toString a" and mint: "bb_tokenMintBase58 ?note = pubkey_toBase58 L (pr_baseMint programs)"
    using run by (rule runTradeL1Settle_okE) (simp add: env(2))
  then have texts: "bb_amount ?note = bigint_toString (si_amount inp)" "bb_tokenMintBase58 ?note = pubkey_toBase58 L (pr_baseMint programs)"
    using inp(7) by simp_all
  obtain pf wix w3 w4 sig where sent: "br_prove (flow_base B) inp w2 = (Inr pf, w3)" "br_sendAndConfirm (flow_base B) [wix] w3 = (Inr sig, w4)"
      "prove_and_send L M (flow_base B) s (pubkey_toBase58 L (pr_baseMint programs)) (bigint_toString (si_amount inp)) (twr_proverInputs r) (twr_ixContext r) w2 = (Inr sig, w4)"
      "ix_data wix = anchorDiscriminator L ''withdraw'' @ (xs ! i) @ nl @ root @ u64LE (si_amount inp) @ gp_piA pf @ gp_piB pf @ gp_piC pf"
      "signers_of wix = [owner]"
    by (rule prove_and_send_ok [OF works lib(3,2) env(1) inp(1,2) c(1) inp(6,5) len, where s = s and vo = vo and owner = owner and ata = ata])
      (use session user owner in \<open>simp_all add: absent_def\<close>)
  have s: "truthy (Some s)" using session(2) by (cases s) (auto simp: session_string_def json_string_def)
  have stored: "base_stored B w2 = Some (withdraw_hint ?note (Some (bytes_hex ob)))" using hint by (rule base_stored_hint)
  let ?p = "initial_base_panel \<lparr>bp_stored := base_stored B w2\<rparr>"
  let ?q = "?p \<lparr>bp_receipt := Some sig, bp_step := BaseDone\<rparr>"
  have click: "base_click B (?p, w2) = (?p \<lparr>bp_busy := True, bp_flight := Some (Preparing s (withdraw_hint ?note (Some (bytes_hex ob))))\<rparr>, w2)"
    using s by (simp add: base_click_def base_start_def stored session(1) initial_base_panel_def Let_def) (simp add: withdraw_hint_def)
  have prep: "base_prepare L M B (base_click B (?p, w2)) = (?p \<lparr>bp_busy := True, bp_step := BaseProving, bp_flight := Some (Submitting s ?body r)\<rparr>, w2)"
    unfolding click using fetch_route_ok [where m = "trade_withdraw_POST L M ?body", OF works r]
    by (simp add: base_prepare_def base_request_hint [OF session(2,3)])
  have "base_runWithdraw L M B (base_refresh B (initial_base_panel, w2)) = (?q, w4)"
    unfolding base_runWithdraw_def base_refresh_def fst_conv snd_conv prep
    using sent(3) by (simp add: base_finish_def texts text_or_empty_def trade_withdraw_request_def initial_base_panel_def)
  then show ?thesis using sent(1,2,4,5) inp leaf(3)
    by (intro exI conjI) (assumption | simp add: initial_base_panel_def browser.truncate_def)+
qed

text \<open>(C20) In every state the panel reaches from its first rendering, whatever is clicked while a withdrawal runs: it is busy exactly
  while one withdrawal runs, it shows a signature exactly when it is done, then nothing runs and no
  error is shown, and an error is shown only in a panel that is idle and can be clicked again.\<close>

theorem base_panel_invariant:
  assumes "reach (base_moves L M B) (initial_base_panel, w) (p, u)"
  shows "(bp_busy p \<longleftrightarrow> bp_flight p \<noteq> None) \<and> (bp_step p = BaseDone \<longleftrightarrow> bp_receipt p \<noteq> None)
     \<and> (bp_step p = BaseDone \<longrightarrow> \<not> bp_busy p \<and> bp_error p = None)
     \<and> (bp_error p \<noteq> None \<longrightarrow> bp_step p = BaseIdle \<and> \<not> bp_busy p)
     \<and> (bp_error p \<noteq> None \<and> truthy (bp_stored p) \<longrightarrow> (\<exists>z. base_moves L M B (p, u) BaseClick z))"
proof -
  have ok: "base_ok p" using base.invariant [OF assms] by (simp add: base_ok_def initial_base_panel_def)
  then have "\<exists>z. base_moves L M B (p, u) BaseClick z" if "bp_error p \<noteq> None" "truthy (bp_stored p)"
    using that base_moves.click [of p L M B u] unfolding base_ok_def by (metis BaseStep.distinct(3))
  then show ?thesis using ok unfolding base_ok_def by (cases "bp_step p") auto
qed

text \<open>(C21) The next note is out of reach: once a panel has withdrawn, whatever is stored by later trades and however often it is
  refreshed, without a clear it stays done and offers no withdrawal; and a clear removes the stored
  hint of the later trade.\<close>

theorem next_note_out_of_reach:
  assumes "bp_step p = BaseDone" and "bp_flight p = None" and "reach (base_keeps_hint L M B) (p, w) (q, u)"
  shows "bp_step q = BaseDone \<and> bp_receipt q = bp_receipt p \<and> \<not> (\<exists>z. base_moves L M B (q, u) BaseClick z)
     \<and> bp_stored (fst (clearHint B (q, u))) = None \<and> snd (clearHint B (q, u)) = snd (ib_removeItem B NYX_TRADE_WITHDRAW_KEY u)"
proof -
  have q: "bp_step q = BaseDone \<and> bp_flight q = None \<and> bp_receipt q = bp_receipt p"
    using done_base.invariant [OF assms(3), of "bp_receipt p"] assms(1,2) by simp
  then show ?thesis by (auto simp: clearHint_def elim: base_movesE)
qed

end
