(* ===== verification/Nyx_Demo_Base_Scenario.thy ===== *)
theory Nyx_Demo_Base_Scenario
  imports Nyx_Demo_Flow_Scenario Nyx_Demo_Base
begin

text \<open>
  The settled trade of \<open>Nyx_Demo_Scenario\<close> in a browser that stores its hint, on which the properties of the
  withdrawal panel are applied.
\<close>

text \<open>The storage holds the session and the hint \<open>h\<close>.\<close>

definition hint_browser :: "json \<Rightarrow> bool flow_browser" where
  "hint_browser h = \<lparr>br_window = True,
     br_getItem = (\<lambda>k w. Inr (Some (nat_toString (to_nat (if k = NYX_DAPP_SESSION_KEY then demo_session else h))))),
     br_json_parse = (\<lambda>t. Inr (from_nat (dec_val t))),
     br_connectedOwner = Some demo_pubkey, br_network = (\<lambda>w. (Inr (), w)), br_sendAndConfirm = (\<lambda>ixs w. (Inr ''sig'', w)),
     br_prove = (\<lambda>inp w. (Inr demo_proof, w)), br_now = (\<lambda>w. 0),
     ib_signMessage = None, ib_bs58_encode = bytes_hex, ib_walletCreate_prove = (\<lambda>inp w. (Inr demo_proof, w)),
     ib_stringify = (\<lambda>j. nat_toString (to_nat j)), ib_setItem = (\<lambda>k v w. (Inr (), w)), ib_removeItem = (\<lambda>k w. (Inr (), w)), ib_error_page = [],
     fb_getSlot = (\<lambda>w. (Inr 100, w)), fb_randomValues = (\<lambda>n w. (Inr (replicate n 1), w)), fb_sendRollup = (\<lambda>ix k w. (Inr ''er'', w))\<rparr>"

lemma hint_browser_laws:
  "browser_works L (flow_base (hint_browser h))" "json_roundtrip (identity_browser.truncate (hint_browser h))"
  "readDappSession (flow_base (hint_browser h)) w = Some demo_session"
  "br_getItem (hint_browser h) NYX_TRADE_WITHDRAW_KEY w = Inr (Some (ib_stringify (hint_browser h) h))"
  by (simp_all add: browser_works_def hint_browser_def browser.truncate_def demo_proof_def json_roundtrip_def identity_browser.truncate_def
      nat_toString_digits readDappSession_def absent_def NYX_DAPP_SESSION_KEY_def NYX_TRADE_WITHDRAW_KEY_def)

lemma demo_user_keys:
  obtains owner ata where "publicKeyOf ref_decoders (Some demo_pubkey) = Inr owner" "getAssociatedTokenAddress sample_wallet mint owner = Inr ata"
  using that by (simp add: ref_decoders_def sample_wallet_def)

theorem settled_trade_withdrawn_witness:
  "\<exists>rpc (res :: TradeL1SettleResult) (v :: VaultConfig) root (inp :: SpendInputs) q w.
     base_runWithdraw disc_lib (demo_app rpc) (hint_browser (withdraw_hint (sr_buyerBaseNote res) (Some (bytes_hex (int_to_be 32 demo_owner)))))
       (base_refresh (hint_browser (withdraw_hint (sr_buyerBaseNote res) (Some (bytes_hex (int_to_be 32 demo_owner))))) (initial_base_panel, True)) = (q, w)
     \<and> bp_step q = BaseDone \<and> ValidSpend disc_lib inp \<and> contains_root v root
     \<and> js_BigInt (bb_amount (sr_buyerBaseNote res)) = Inr (si_amount inp)"
proof (rule demo_trade)
  fix rpc res u v xs
  assume run: "runTradeL1Settle disc_lib ref_decoders sample_wallet (demo_ctx rpc) False = (Inr res, u)"
    and own: "match_owned disc_lib (demo_ctx rpc) False demo_seed"
    and acct: "account_holds disc_lib rpc 9 True v" and rep: "vault_rep disc_lib v xs"
    and hist: "honest_history disc_lib ref_decoders (connection.truncate rpc) 9 xs"
    and leaf: "js_BigInt (bb_leafIndex (sr_buyerBaseNote res)) = Inr (int 0)" "0 < length xs"
      "xs ! 0 = hex_decode (bb_commitmentHex (sr_buyerBaseNote res))"
  let ?h = "withdraw_hint (sr_buyerBaseNote res) (Some (bytes_hex (int_to_be 32 demo_owner)))"
  note f = demo_facts [OF own acct hist]
  obtain owner ata where k: "publicKeyOf ref_decoders (Some demo_pubkey) = Inr owner"
      "getAssociatedTokenAddress sample_wallet (pr_baseMint demo_programs) owner = Inr ata" by (rule demo_user_keys)
  from settled_trade_withdrawn [of disc_lib "demo_app rpc", unfolded f(1,2), OF disc_lib_canonical disc_lib_base58 disc_lib_pda_total
      run demo_setup_app f(3) demo_verifies f(6,7,4) rep f(5) leaf hint_browser_laws(3) demo_session_strings k hint_browser_laws(2,4,1)]
  show ?thesis by (elim exE conjE) (intro exI conjI, assumption+)
qed

text \<open>A refresh that finds a hint, and a click whose withdrawal is refused because the hint lacks its note.\<close>

abbreviation bad_hint :: json where "bad_hint \<equiv> JObj []"

definition refused_panel :: base_panel where
  "refused_panel = \<lparr>bp_stored = Some bad_hint, bp_step = BaseIdle, bp_busy = False,
     bp_error = Some (err_message (undefined_error ''matchId'')), bp_receipt = None, bp_flight = None\<rparr>"

lemma refused_reach: "reach (base_moves disc_lib M (hint_browser bad_hint)) (initial_base_panel, True) (refused_panel, True)"
proof -
  let ?B = "hint_browser bad_hint" and ?p = "initial_base_panel \<lparr>bp_stored := Some bad_hint\<rparr>"
  let ?step = "base_moves disc_lib M ?B" and ?q = "?p \<lparr>bp_busy := True, bp_flight := Some (Preparing demo_session bad_hint)\<rparr>"
  have "base_refresh ?B (initial_base_panel, True) = (?p, True)"
    by (simp add: base_refresh_def base_stored_def hint_browser_def nat_toString_digits absent_def NYX_DAPP_SESSION_KEY_def NYX_TRADE_WITHDRAW_KEY_def)
  then have 1: "?step (initial_base_panel, True) BaseRefresh (?p, True)" by (metis base_moves.refresh)
  have "base_click ?B (?p, True) = (?q, True)"
    by (simp add: base_click_def base_start_def hint_browser_laws(3) initial_base_panel_def Let_def) (simp add: demo_session_def)
  moreover have "?step (?p, True) BaseClick (base_click ?B (?p, True))" by (rule base_moves.click) (simp_all add: initial_base_panel_def)
  ultimately have 2: "?step (?p, True) BaseClick (?q, True)" by simp
  have "base_prepare disc_lib M ?B (?q, True) = (refused_panel, True)"
    by (simp add: base_prepare_def base_withdraw_request_def base_fail_def refused_panel_def initial_base_panel_def)
  moreover have "?step (?q, True) BasePrepared (base_prepare disc_lib M ?B (?q, True))" by (rule base_moves.prepared) simp
  ultimately have 3: "?step (?q, True) BasePrepared (refused_panel, True)" by simp
  have "reach ?step (initial_base_panel, True) (?p, True)" using 1 by (rule reach_step [of ?step])
  then have "reach ?step (initial_base_panel, True) (?q, True)" using 2 by (rule reach.move)
  then show ?thesis using 3 by (rule reach.move)
qed

theorem base_panel_invariant_witness:
  "\<forall>M. bp_error refused_panel \<noteq> None \<and> \<not> bp_busy refused_panel
     \<and> (\<exists>z. base_moves disc_lib M (hint_browser bad_hint) (refused_panel, True) BaseClick z)"
proof
  fix M
  show "bp_error refused_panel \<noteq> None \<and> \<not> bp_busy refused_panel
     \<and> (\<exists>z. base_moves disc_lib M (hint_browser bad_hint) (refused_panel, True) BaseClick z)"
    using base_panel_invariant [OF refused_reach [of M]] by (auto simp: refused_panel_def)
qed

text \<open>A panel that has withdrawn, and the hint of the next trade.\<close>

definition done_panel :: base_panel where
  "done_panel = initial_base_panel \<lparr>bp_step := BaseDone, bp_receipt := Some ''sig''\<rparr>"

theorem next_note_out_of_reach_witness:
  "\<forall>M. \<exists>q. base_refresh (hint_browser bad_hint) (done_panel, False) = (q, False) \<and> bp_stored q = Some bad_hint
     \<and> \<not> (\<exists>z. base_moves disc_lib M (hint_browser bad_hint) (q, False) BaseClick z)"
proof
  fix M
  let ?B = "hint_browser bad_hint" and ?q = "done_panel \<lparr>bp_stored := Some bad_hint\<rparr>"
  have r: "base_refresh ?B (done_panel, False) = (?q, False)"
    by (simp add: base_refresh_def base_stored_def hint_browser_def nat_toString_digits absent_def NYX_DAPP_SESSION_KEY_def NYX_TRADE_WITHDRAW_KEY_def)
  then have "base_keeps_hint disc_lib M ?B (done_panel, False) BaseRefresh (?q, False)"
    unfolding base_keeps_hint_def by (metis base_moves.refresh base_event.distinct(25))
  from next_note_out_of_reach [OF _ _ reach_step [of "base_keeps_hint disc_lib M ?B", OF this]] r
  show "\<exists>q. base_refresh ?B (done_panel, False) = (q, False) \<and> bp_stored q = Some bad_hint
     \<and> \<not> (\<exists>z. base_moves disc_lib M ?B (q, False) BaseClick z)"
    by (intro exI [of _ ?q]) (simp add: done_panel_def initial_base_panel_def)
qed

end
