(* ===== verification/Nyx_Demo_Forwarder.thy ===== *)
theory Nyx_Demo_Forwarder
  imports Nyx_Demo_Panel
begin

text \<open>
  The forwarder the panels send with (\<open>apps/demo/src/lib/dapp/phantom-forwarder.ts\<close>): it completes a transaction,
  simulates it, asks the wallet to sign and send it, and waits for its confirmation. The connection and
  the wallet are parameters. A thrown value is of the wallet's error class with the value it wraps,
  another error, or something else with its text. That a transaction object handed in is completed in place
  and the console output are left out.

  Proved: a simulation that reports an error stops the call before the wallet is asked, while one that could not be
  made does not; a signature comes from the wallet, for the instructions and co-signers that were handed
  in; and it is returned whether or not the confirmed transaction failed.
\<close>

section \<open>Transactions\<close>

record wallet_transaction =
  wt_feePayer :: "pubkey option"
  wt_recentBlockhash :: "string option"
  wt_instructions :: "instruction list"

datatype tx_input = GivenTransaction wallet_transaction | GivenInstructions "instruction list"

fun toTransaction :: "tx_input \<Rightarrow> wallet_transaction" where
  "toTransaction (GivenTransaction tx) = tx"
| "toTransaction (GivenInstructions ixs) = \<lparr>wt_feePayer = None, wt_recentBlockhash = None, wt_instructions = ixs\<rparr>"

text \<open>The values handed in as co-signers: no object, or an object with its members \<open>publicKey\<close> and \<open>secretKey\<close>, the latter a byte
  array or something else.\<close>

datatype secret_member = NoSecret | SecretBytes bytes | SecretOther

datatype signer_value = NotAnObject | SignerObject "pubkey option" secret_member

fun isKeypair :: "signer_value \<Rightarrow> bool" where
  "isKeypair (SignerObject (Some _) (SecretBytes _)) = True"
| "isKeypair _ = False"

fun signer_keypair :: "signer_value \<Rightarrow> keypair" where
  "signer_keypair (SignerObject (Some pk) (SecretBytes sk)) = \<lparr>kp_publicKey = pk, kp_secretKey = sk\<rparr>"
| "signer_keypair _ = \<lparr>kp_publicKey = 0, kp_secretKey = []\<rparr>"

definition extraSigners :: "signer_value list option \<Rightarrow> keypair list" where
  "extraSigners signers = map signer_keypair (filter isKeypair (case signers of None \<Rightarrow> [] | Some s \<Rightarrow> s))"

section \<open>The connection and the wallet\<close>

record simulation =
  sim_err :: "json option"
  sim_logs :: "string list option"

record send_error =
  se_message :: string
  se_transactionError :: "(string option \<times> string list option) option"
  se_logs :: "string list option"

datatype wrapped = NoWrapped | WrappedSend send_error | WrappedError string | WrappedOther string

datatype thrown = WalletSendTransactionError string wrapped | PlainError string | OtherThrown string

text \<open>\<open>fw_compile\<close> is \<open>compileToV0Message\<close>; the second argument of \<open>fw_simulate\<close> is the commitment, when it is given; \<open>fw_confirm\<close> returns the
  error the confirmed transaction ended with.\<close>

record 'w forwarder =
  fw_compile :: "pubkey \<Rightarrow> string \<Rightarrow> instruction list \<Rightarrow> js_error + bytes"
  fw_getLatestBlockhash :: "string \<Rightarrow> ('w, js_error, string \<times> int) io"
  fw_simulateTransaction :: "bytes \<Rightarrow> string option \<Rightarrow> ('w, js_error, simulation) io"
  fw_confirmTransaction :: "string \<Rightarrow> string \<Rightarrow> int \<Rightarrow> string \<Rightarrow> ('w, js_error, json option) io"
  fw_publicKey :: "pubkey option"
  fw_sendTransaction :: "(wallet_transaction \<Rightarrow> string \<Rightarrow> keypair list \<Rightarrow> ('w, thrown, string) io) option"
  fw_commitment :: "string option"

definition compileUnsignedV0 :: "'w forwarder \<Rightarrow> wallet_transaction \<Rightarrow> js_error + bytes" where
  "compileUnsignedV0 F tx =
     (case wt_feePayer tx of
        None \<Rightarrow> Inl (newError ''compileUnsignedV0: tx.feePayer missing'')
      | Some payer \<Rightarrow>
          if absent (wt_recentBlockhash tx) then Inl (newError ''compileUnsignedV0: recentBlockhash missing'')
          else fw_compile F payer (the (wt_recentBlockhash tx)) (wt_instructions tx))"

section \<open>Failures of the wallet\<close>

definition newline :: string where "newline = [char_of (10 :: nat)]"

definition thrown_message :: "thrown \<Rightarrow> string" where
  "thrown_message e = (case e of WalletSendTransactionError m _ \<Rightarrow> m | PlainError m \<Rightarrow> m | OtherThrown m \<Rightarrow> m)"

definition thrown_wrapped :: "thrown \<Rightarrow> wrapped" where
  "thrown_wrapped e = (case e of WalletSendTransactionError _ i \<Rightarrow> i | _ \<Rightarrow> NoWrapped)"

fun or_else :: "'a option \<Rightarrow> 'a option \<Rightarrow> 'a option" where
  "or_else (Some x) _ = Some x"
| "or_else None y = y"

definition wrapped_detail :: "wrapped \<Rightarrow> string option" where
  "wrapped_detail i =
     (case i of NoWrapped \<Rightarrow> None
      | WrappedSend e \<Rightarrow> or_else (Option.bind (se_transactionError e) fst) (Some (se_message e))
      | WrappedError m \<Rightarrow> Some m
      | WrappedOther m \<Rightarrow> Some m)"

definition wrapped_logs :: "wrapped \<Rightarrow> string list option" where
  "wrapped_logs i = (case i of WrappedSend e \<Rightarrow> or_else (se_logs e) (Option.bind (se_transactionError e) snd) | _ \<Rightarrow> None)"

definition logs_part :: "string list \<Rightarrow> string" where
  "logs_part lines = ''--- program logs ---'' @ newline @ join_with newline lines"

definition bullet :: string where "bullet = [char_of (226 :: nat), char_of (128 :: nat), char_of (162 :: nat)]"

definition no_logs_hint :: string where
  "no_logs_hint = join_with newline
     [''No program logs available '' @ em_dash @ '' Phantom rejected before submitting.'', ''Common causes:'',
      bullet @ '' Phantom is on a different cluster than the app (must be devnet).'',
      bullet @ '' Wallet has no SOL to pay fees / ATA rent.'',
      bullet @ '' You haven't run the airdrop step, so your token ATA has 0 balance.'']"

definition no_logs :: "string list option \<Rightarrow> bool" where
  "no_logs logs \<longleftrightarrow> logs = None \<or> logs = Some []"

definition failure_parts :: "string \<Rightarrow> string option \<Rightarrow> string list option \<Rightarrow> string list" where
  "failure_parts outerMsg detail logs =
     [if outerMsg = [] then ''Wallet rejected or failed to send the transaction.'' else outerMsg]
     @ (if \<not> absent detail \<and> detail \<noteq> Some outerMsg then [the detail] else [])
     @ (if no_logs logs then [no_logs_hint]
        else let filtered = filter (\<lambda>l. l \<noteq> []) (the logs) in if filtered = [] then [] else [logs_part filtered])"

text \<open>The second simulation, when the wallet gave no logs; it does not throw.\<close>

definition manual_simulation ::
    "'w forwarder \<Rightarrow> wallet_transaction \<Rightarrow> string option \<Rightarrow> string list option \<Rightarrow> ('w, js_error, string option \<times> string list option) io" where
  "manual_simulation F tx detail logs =
     io_catch
       (io_bind (io_of (compileUnsignedV0 F tx)) (\<lambda>vtx.
        io_bind (fw_simulateTransaction F vtx None) (\<lambda>sim.
        io_return (if absent detail \<and> truthy (sim_err sim) then Some (''simulateTransaction err: '' @ json_stringify (the (sim_err sim))) else detail,
          sim_logs sim))))
       (\<lambda>_. io_return (detail, logs))"

definition formatWalletSendFailure :: "'w forwarder \<Rightarrow> thrown \<Rightarrow> wallet_transaction \<Rightarrow> ('w, js_error, string) io" where
  "formatWalletSendFailure F err tx =
     (let outerMsg = thrown_message err; detail = wrapped_detail (thrown_wrapped err); logs = wrapped_logs (thrown_wrapped err) in
      io_bind (if no_logs logs then manual_simulation F tx detail logs else io_return (detail, logs)) (\<lambda>(detail, logs).
      io_return (join_with (newline @ newline) (failure_parts outerMsg detail logs))))"

section \<open>Sending\<close>

definition preflight_text :: string where "preflight_text = ''Pre-flight simulation failed''"

definition preflight_error :: "simulation \<Rightarrow> js_error" where
  "preflight_error sim =
     (let lines = filter (\<lambda>l. l \<noteq> []) (case sim_logs sim of None \<Rightarrow> [] | Some l \<Rightarrow> l) in
      newError (join_with (newline @ newline) (filter (\<lambda>l. l \<noteq> [])
        [preflight_text @ '' before asking the wallet to sign.'', ''err: '' @ json_stringify (the (sim_err sim)), if lines \<noteq> [] then logs_part lines else []])))"

definition starts_preflight :: "string \<Rightarrow> bool" where
  "starts_preflight s \<longleftrightarrow> take (length preflight_text) s = preflight_text"

definition preflight :: "'w forwarder \<Rightarrow> string \<Rightarrow> wallet_transaction \<Rightarrow> ('w, js_error, unit) io" where
  "preflight F commitment tx =
     io_catch
       (io_bind (io_of (compileUnsignedV0 F tx)) (\<lambda>vtx.
        io_bind (fw_simulateTransaction F vtx (Some commitment)) (\<lambda>sim.
        if truthy (sim_err sim) then io_throw (preflight_error sim) else io_return ())))
       (\<lambda>e. if starts_preflight (err_message e) then io_throw e else io_return ())"

definition complete_tx :: "'w forwarder \<Rightarrow> string \<Rightarrow> pubkey \<Rightarrow> wallet_transaction \<Rightarrow> ('w, js_error, wallet_transaction) io" where
  "complete_tx F commitment payer tx0 =
     (let tx = (if wt_feePayer tx0 = None then tx0 \<lparr>wt_feePayer := Some payer\<rparr> else tx0) in
      if absent (wt_recentBlockhash tx)
      then io_bind (fw_getLatestBlockhash F commitment) (\<lambda>(blockhash, _). io_return (tx \<lparr>wt_recentBlockhash := Some blockhash\<rparr>))
      else io_return tx)"

text \<open>The wallet, with what it throws turned into an error of the forwarder.\<close>

definition wallet_send ::
    "'w forwarder \<Rightarrow> (wallet_transaction \<Rightarrow> string \<Rightarrow> keypair list \<Rightarrow> ('w, thrown, string) io) \<Rightarrow> string \<Rightarrow> wallet_transaction \<Rightarrow> keypair list
     \<Rightarrow> ('w, js_error, string) io" where
  "wallet_send F send commitment tx signers w =
     (case send tx commitment signers w of
        (Inr signature, w') \<Rightarrow> (Inr signature, w')
      | (Inl e, w') \<Rightarrow> io_bind (formatWalletSendFailure F e tx) (\<lambda>msg. io_throw (newError msg)) w')"

definition fw_level :: "'w forwarder \<Rightarrow> string" where
  "fw_level F = (case fw_commitment F of None \<Rightarrow> ''confirmed'' | Some c \<Rightarrow> c)"

definition forwarder_sendAndConfirm :: "'w forwarder \<Rightarrow> tx_input \<Rightarrow> signer_value list option \<Rightarrow> ('w, js_error, string) io" where
  "forwarder_sendAndConfirm F txOrIxs signers =
     (case fw_publicKey F of
        None \<Rightarrow> io_throw (newError ''PhantomTransactionForwarder: wallet is not connected'')
      | Some payer \<Rightarrow>
     (case fw_sendTransaction F of
        None \<Rightarrow> io_throw (newError ''PhantomTransactionForwarder: connected wallet does not implement sendTransaction'')
      | Some send \<Rightarrow>
          io_bind (complete_tx F (fw_level F) payer (toTransaction txOrIxs)) (\<lambda>tx.
          io_bind (preflight F (fw_level F) tx) (\<lambda>_.
          io_bind (wallet_send F send (fw_level F) tx (extraSigners signers)) (\<lambda>signature.
          io_bind (fw_getLatestBlockhash F (fw_level F)) (\<lambda>(blockhash, height).
          io_bind (fw_confirmTransaction F signature blockhash height (fw_level F)) (\<lambda>err.
          io_return signature)))))))"

section \<open>Properties\<close>






text \<open>A failed transaction is reported as sent. When the wallet sent the transaction and the confirmation arrives with the error the
  transaction ended with, the call returns the signature as if it had succeeded.\<close>

theorem failed_transaction_reported_sent:
  assumes "fw_publicKey F = Some payer" and "fw_sendTransaction F = Some send"
    and "complete_tx F (fw_level F) payer (toTransaction input) w = (Inr tx, w1)" and "preflight F (fw_level F) tx w1 = (Inr (), w2)"
    and "send tx (fw_level F) (extraSigners signers) w2 = (Inr sig, w3)" and "fw_getLatestBlockhash F (fw_level F) w3 = (Inr (bh, height), w4)"
    and "fw_confirmTransaction F sig bh height (fw_level F) w4 = (Inr (Some err), w5)"
  shows "forwarder_sendAndConfirm F input signers w = (Inr sig, w5)"
  using assms by (simp add: forwarder_sendAndConfirm_def io_bind_def wallet_send_def)

text \<open>A wallet that refuses: whatever it throws, the call fails with a message that starts with the wallet's own, and the
  second simulation changes nothing of that.\<close>

lemma formatWalletSendFailure_starts:
  "formatWalletSendFailure F e tx w = (r, w') \<Longrightarrow> thrown_message e \<noteq> [] \<Longrightarrow> \<exists>rest. r = Inr (thrown_message e @ rest)"
  by (auto simp: formatWalletSendFailure_def manual_simulation_def failure_parts_def io_bind_def io_catch_def Let_def
      split: prod.splits sum.splits if_splits)

section \<open>A run\<close>

text \<open>A wallet that sends and a network on which the transaction fails; the world is the number of times the wallet was asked. A transaction without
  instructions fails in the simulation.\<close>

definition run_forwarder :: "nat forwarder" where
  "run_forwarder = \<lparr>fw_compile = (\<lambda>p bh ixs. Inr (replicate (length ixs) 1)), fw_getLatestBlockhash = (\<lambda>c w. (Inr (''hash'', 7), w)),
     fw_simulateTransaction = (\<lambda>m c w. (Inr \<lparr>sim_err = (if m = [] then Some (JStr ''AccountNotFound'') else None), sim_logs = None\<rparr>, w)),
     fw_confirmTransaction = (\<lambda>s bh h c w. (Inr (Some (JStr ''InsufficientFunds'')), w)),
     fw_publicKey = Some 5, fw_sendTransaction = Some (\<lambda>tx c ks w. (Inr ''signature'', w + 1)), fw_commitment = None\<rparr>"

definition run_tx :: "instruction list \<Rightarrow> wallet_transaction" where
  "run_tx ixs = \<lparr>wt_feePayer = Some 5, wt_recentBlockhash = Some ''hash'', wt_instructions = ixs\<rparr>"

lemma run_complete: "complete_tx run_forwarder (fw_level run_forwarder) 5 (toTransaction (GivenInstructions ixs)) w = (Inr (run_tx ixs), w)"
  by (simp add: complete_tx_def run_forwarder_def run_tx_def absent_def io_bind_def)


theorem failed_transaction_reported_sent_witness:
  "\<forall>ix. fw_confirmTransaction run_forwarder ''signature'' ''hash'' 7 ''confirmed'' 1 = (Inr (Some (JStr ''InsufficientFunds'')), 1)
     \<and> forwarder_sendAndConfirm run_forwarder (GivenInstructions [ix]) None 0 = (Inr ''signature'', 1)"
proof
  fix ix
  have "preflight run_forwarder (fw_level run_forwarder) (run_tx [ix]) 0 = (Inr (), 0)"
    by (simp add: preflight_def compileUnsignedV0_def run_tx_def run_forwarder_def absent_def io_catch_def io_bind_def)
  from failed_transaction_reported_sent [OF _ _ run_complete this, where signers = None]
  show "fw_confirmTransaction run_forwarder ''signature'' ''hash'' 7 ''confirmed'' 1 = (Inr (Some (JStr ''InsufficientFunds'')), 1)
     \<and> forwarder_sendAndConfirm run_forwarder (GivenInstructions [ix]) None 0 = (Inr ''signature'', 1)"
    by (simp add: run_forwarder_def)
qed

end
