(* ===== verification/Nyx_Demo_Live.thy ===== *)
theory Nyx_Demo_Live
  imports Nyx_Demo_Sends Nyx_Session
begin

text \<open>
  The scripted demo (\<open>apps/demo/src/app/api/live-er-flow/route.ts\<close>): five actions of one route, between which the
  accounts of the two personas are kept in a state file. Signatures of transactions are collected as in
  \<open>Nyx_Demo_Counter\<close>; an error drops them. The file system beyond what the host reads, \<open>fetch\<close>, base58 encoding,
  \<open>JSON.stringify\<close>, the clock as text and the amount a mint instruction encodes for \<open>Number(n)\<close> are the record
  \<open>live_env\<close>. A state file is read as the record it was written from; an actor that lacks a member counts as
  missing. The wait need not end, so the route is a function into an option.

  Proved: the state file is read back as written; the order each persona submits has the note the bootstrap
  deposited for it as collateral and the program accepts it exactly when the note covers it; once a
  persona's four slots exist, every bootstrap fails after it minted and deposited; and the route
  answers when the clock advances.
\<close>

section \<open>The state file\<close>

record FlowStateActor =
  fsa_role :: string
  fsa_tradingPubkey :: string
  fsa_slotIdx :: int
  fsa_noteCommitmentHex :: string
  fsa_ownerCommitmentHex :: string
  fsa_noteAmount :: string
  fsa_depositSignature :: "string option"
  fsa_orderSignature :: "string option"
  fsa_orderIdHex :: "string option"

record FlowState =
  fs_updatedAt :: string
  fs_taker :: "FlowStateActor option"
  fs_maker :: "FlowStateActor option"
  fs_runBatchSignature :: "string option"
  fs_undelegateSignature :: "string option"

definition opt_member :: "string \<Rightarrow> json option \<Rightarrow> (string \<times> json) list" where
  "opt_member k v = (case v of None \<Rightarrow> [] | Some j \<Rightarrow> [(k, j)])"

definition actor_json :: "FlowStateActor \<Rightarrow> json" where
  "actor_json a = JObj ([(''role'', JStr (fsa_role a)), (''tradingPubkey'', JStr (fsa_tradingPubkey a)), (''slotIdx'', JNum (fsa_slotIdx a)),
     (''noteCommitmentHex'', JStr (fsa_noteCommitmentHex a)), (''ownerCommitmentHex'', JStr (fsa_ownerCommitmentHex a)),
     (''noteAmount'', JStr (fsa_noteAmount a))] @ opt_member ''depositSignature'' (map_option JStr (fsa_depositSignature a))
     @ opt_member ''orderSignature'' (map_option JStr (fsa_orderSignature a)) @ opt_member ''orderIdHex'' (map_option JStr (fsa_orderIdHex a)))"

definition state_json :: "FlowState \<Rightarrow> json" where
  "state_json s = JObj ([(''updatedAt'', JStr (fs_updatedAt s))] @ opt_member ''taker'' (map_option actor_json (fs_taker s))
     @ opt_member ''maker'' (map_option actor_json (fs_maker s)) @ opt_member ''runBatchSignature'' (map_option JStr (fs_runBatchSignature s))
     @ opt_member ''undelegateSignature'' (map_option JStr (fs_undelegateSignature s)))"

definition member_number :: "json \<Rightarrow> string \<Rightarrow> int option" where
  "member_number j k = (case jget j k of Inr (Some (JNum n)) \<Rightarrow> Some n | _ \<Rightarrow> None)"

definition actor_of_json :: "json \<Rightarrow> FlowStateActor option" where
  "actor_of_json j =
     (case (session_string j ''role'', session_string j ''tradingPubkey'', member_number j ''slotIdx'', session_string j ''noteCommitmentHex'',
            session_string j ''ownerCommitmentHex'', session_string j ''noteAmount'') of
        (Some role, Some key, Some idx, Some cm, Some oc, Some amount) \<Rightarrow> Some
          \<lparr>fsa_role = role, fsa_tradingPubkey = key, fsa_slotIdx = idx, fsa_noteCommitmentHex = cm, fsa_ownerCommitmentHex = oc,
           fsa_noteAmount = amount, fsa_depositSignature = session_string j ''depositSignature'',
           fsa_orderSignature = session_string j ''orderSignature'', fsa_orderIdHex = session_string j ''orderIdHex''\<rparr>
      | _ \<Rightarrow> None)"

definition state_actor :: "json \<Rightarrow> string \<Rightarrow> FlowStateActor option" where
  "state_actor j k = (case jget j k of Inr (Some a) \<Rightarrow> actor_of_json a | _ \<Rightarrow> None)"

definition state_of_json :: "json \<Rightarrow> FlowState" where
  "state_of_json j =
     \<lparr>fs_updatedAt = (case session_string j ''updatedAt'' of Some t \<Rightarrow> t | None \<Rightarrow> []), fs_taker = state_actor j ''taker'', fs_maker = state_actor j ''maker'',
      fs_runBatchSignature = session_string j ''runBatchSignature'', fs_undelegateSignature = session_string j ''undelegateSignature''\<rparr>"

record 'w live_env =
  lv_readFile :: "string \<Rightarrow> ('w, js_error, string) io"
  lv_mkdir :: "string \<Rightarrow> ('w, js_error, unit) io"
  lv_writeFile :: "string \<Rightarrow> string \<Rightarrow> ('w, js_error, unit) io"
  lv_stringify :: "json \<Rightarrow> string"
  lv_isoNow :: "'w \<Rightarrow> string"
  lv_fetch :: "'w fetch_fn"
  lv_bs58_encode :: "bytes \<Rightarrow> string"
  lv_mintAmount :: "int \<Rightarrow> js_error + int"

definition readState :: "'w demo \<Rightarrow> 'w live_env \<Rightarrow> string \<Rightarrow> ('w, js_error, FlowState) io" where
  "readState M V path =
     io_catch (io_bind (lv_readFile V path) (\<lambda>raw. io_bind (io_of (host_json_parse (dm_host M) raw)) (\<lambda>j. io_return (state_of_json j))))
       (\<lambda>_. io_return \<lparr>fs_updatedAt = ''1970-01-01T00:00:00.000Z'', fs_taker = None, fs_maker = None,
          fs_runBatchSignature = None, fs_undelegateSignature = None\<rparr>)"

definition writeState :: "'w live_env \<Rightarrow> string \<Rightarrow> FlowState \<Rightarrow> ('w, js_error, unit) io" where
  "writeState V path state =
     io_bind (lv_mkdir V (path_resolve path [''..''])) (\<lambda>_. lv_writeFile V path (lv_stringify V (state_json state)))"

section \<open>The context\<close>

record 'w RouteCtx =
  rc_statePath :: string
  rc_conns :: "'w demo_connections"
  rc_programs :: DemoPrograms
  rc_admin :: keypair
  rc_funder :: keypair
  rc_tee :: keypair
  rc_taker :: keypair
  rc_maker :: keypair
  rc_perBaseUrl :: string

definition live_resolveRepoRoot :: "host \<Rightarrow> js_error + string" where
  "live_resolveRepoRoot H =
     (let cwd = host_cwd H; upTwo = path_resolve cwd [''..'', ''..'']
      in if host_exists H (path_resolve cwd [''packages'', ''sdk'']) then Inr cwd
         else if host_exists H (path_resolve upTwo [''packages'', ''sdk'']) then Inr upTwo
         else Inl (newError ''Unable to resolve monorepo root from current working directory.''))"

definition persona_key :: "'w RouteCtx \<Rightarrow> persona \<Rightarrow> keypair" where
  "persona_key ctx role = (case role of Taker \<Rightarrow> rc_taker ctx | Maker \<Rightarrow> rc_maker ctx)"

definition buildCtx :: "'w demo \<Rightarrow> js_error + 'w RouteCtx" where
  "buildCtx M =
     (let H = dm_host M; D = dm_decoders M; W = dm_wallet M in
      rbind (live_resolveRepoRoot H) (\<lambda>repoRoot.
      rbind (rbind (host_read H (path_resolve repoRoot [''.devnet'', ''e2e-config.json''])) (host_json_parse H)) (\<lambda>cfg.
      rbind (getDemoConnections M cfg) (\<lambda>conns.
      rbind (parseDemoPrograms D cfg) (\<lambda>programs.
      rbind (loadKeypairFromPath H W repoRoot (env_default H None ''DEMO_ADMIN_KEYPAIR_PATH'' ''.devnet/keypairs/admin.json'')) (\<lambda>admin.
      rbind (loadKeypairFromPath H W repoRoot (env_default H None ''DEMO_FUNDER_KEYPAIR_PATH'' ''~/.config/solana/id.json'')) (\<lambda>funder.
      rbind (loadKeypairFromPath H W repoRoot (env_default H None ''DEMO_TEE_KEYPAIR_PATH'' ''.devnet/keypairs/tee_authority.json'')) (\<lambda>tee.
      rbind (rbind (requireEnv H ''DEMO_TAKER_SECRET_BASE58'') (keypairFromBase58 D W)) (\<lambda>taker.
      rbind (rbind (requireEnv H ''DEMO_MAKER_SECRET_BASE58'') (keypairFromBase58 D W)) (\<lambda>maker.
      Inr \<lparr>rc_statePath = path_resolve repoRoot [''.devnet'', ''demo-live-state.json''], rc_conns = conns, rc_programs = programs,
           rc_admin = admin, rc_funder = funder, rc_tee = tee, rc_taker = taker, rc_maker = maker,
           rc_perBaseUrl = strip_slash (env_default H None ''DEMO_PER_BASE_URL'' ''https://tee.magicblock.app'')\<rparr>))))))))))"

definition live_makeClient :: "lib \<Rightarrow> 'w RouteCtx \<Rightarrow> persona \<Rightarrow> 'w DarkPoolClient" where
  "live_makeClient L ctx role =
     (let signer = persona_key ctx role; seed = actorSeed L role signer; connection = dcn_l1 (rc_conns ctx) in
      getDarkPoolClient \<lparr>cfg_programId = pr_vaultProgramId (rc_programs ctx), cfg_matchingEngineProgramId = Some (pr_meProgramId (rc_programs ctx)),
        cfg_seedMode = Csprng \<lparr>ms_load = io_return (Some seed), ms_store = (\<lambda>_. io_return ()), ms_generate = io_return seed\<rparr>,
        cfg_tradingOffset = None, cfg_perRpcUrl = dcn_erRpcUrl (rc_conns ctx),
        cfg_providers = \<lparr>pv_getAccountInfo = rpc_getAccountInfo connection,
          pv_sendAndConfirm = (\<lambda>ixs. rpc_sendAndConfirm connection ixs [signer]),
          pv_getInclusionProof = (\<lambda>_. io_throw (newError ''Merkle proof provider not required for this flow.''))\<rparr>,
        cfg_zkProver = UnimplementedProverSuite (Some ''not needed for deposit/submit flow''),
        cfg_ownerCommitmentBlinding = (case role of Taker \<Rightarrow> 1111 | Maker \<Rightarrow> 2222)\<rparr>)"

section \<open>Steps\<close>

definition live_send :: "'w rpc \<Rightarrow> instruction list \<Rightarrow> keypair list \<Rightarrow> string \<Rightarrow> string \<Rightarrow> ('w run, js_error, string) io" where
  "live_send c ixs signers label cluster =
     io_bind (in_run (rpc_sendAndConfirm c ixs signers)) (\<lambda>sig. io_bind (push_signature label sig cluster) (\<lambda>_. io_return sig))"

definition ellipsis :: string where "ellipsis = [char_of (226 :: nat), char_of (128 :: nat), char_of (166 :: nat)]"

definition ensureTopUp :: "lib \<Rightarrow> wallet_lib \<Rightarrow> 'w RouteCtx \<Rightarrow> pubkey \<Rightarrow> ('w run, js_error, unit) io" where
  "ensureTopUp L W ctx recipient =
     io_bind (in_run (rpc_getBalance (dcn_l1 (rc_conns ctx)) recipient)) (\<lambda>current.
     if current \<ge> DEFAULT_MIN_LAMPORTS then io_return ()
     else io_bind (live_send (dcn_l1 (rc_conns ctx))
            [system_transfer W (kp_publicKey (rc_funder ctx)) recipient (DEFAULT_MIN_LAMPORTS - current)] [rc_funder ctx]
            (''Fund '' @ take 6 (pubkey_toBase58 L recipient) @ ellipsis) ''l1'') (\<lambda>_. io_return ()))"

fun live_slot_loop :: "lib \<Rightarrow> 'w rpc \<Rightarrow> pubkey \<Rightarrow> pubkey \<Rightarrow> pubkey \<Rightarrow> ('w \<Rightarrow> int) \<Rightarrow> int list \<Rightarrow> ('w, js_error, int) io" where
  "live_slot_loop L l1 me market key now [] w = (Inr (now w mod 8), w)"
| "live_slot_loop L l1 me market key now (idx # rest) w =
     io_bind (io_of (pendingOrderPda L me market key idx)) (\<lambda>(pda, _).
     io_bind (rpc_getAccountInfo l1 pda) (\<lambda>info.
       if info = None then io_return idx else live_slot_loop L l1 me market key now rest)) w"

definition live_chooseFreshSlot :: "lib \<Rightarrow> 'w demo \<Rightarrow> 'w RouteCtx \<Rightarrow> pubkey \<Rightarrow> ('w, js_error, int) io" where
  "live_chooseFreshSlot L M ctx key =
     live_slot_loop L (dcn_l1 (rc_conns ctx)) (pr_meProgramId (rc_programs ctx)) (pr_market (rc_programs ctx)) key (dm_now M) (map int [0..<8])"

definition live_ensureSlotDelegated :: "lib \<Rightarrow> 'w RouteCtx \<Rightarrow> keypair \<Rightarrow> int \<Rightarrow> ('w run, js_error, unit) io" where
  "live_ensureSlotDelegated L ctx trading slotIdx =
     (let l1 = dcn_l1 (rc_conns ctx); me = pr_meProgramId (rc_programs ctx); market = pr_market (rc_programs ctx) in
      io_bind (io_of (pendingOrderPda L me market (kp_publicKey trading) slotIdx)) (\<lambda>(slotPda, _).
      io_bind (in_run (rpc_getAccountInfo l1 slotPda)) (\<lambda>info0.
      io_bind (if info0 = None
               then io_bind (io_of (buildInitPendingOrderSlotInstruction L \<lparr>ip_programId = me, ip_tradingKey = kp_publicKey trading,
                      ip_market = market, ip_slotIdx = slotIdx\<rparr>)) (\<lambda>ix.
                    io_bind (live_send l1 [ix] [trading] (''init_pending_order_slot['' @ bigint_toString slotIdx @ '']'') ''l1'') (\<lambda>_.
                    in_run (rpc_getAccountInfo l1 slotPda)))
               else io_return info0) (\<lambda>info.
      case info of
        None \<Rightarrow> io_throw (newError ''pending order slot missing after init'')
      | Some i \<Rightarrow>
          if ai_owner i = DELEGATION_PROGRAM_ID L then io_return ()
          else io_bind (io_of (buildDelegatePendingOrderInstruction L \<lparr>dpo_programId = me, dpo_payer = kp_publicKey (rc_funder ctx),
                 dpo_tradingKey = kp_publicKey trading, dpo_market = market, dpo_slotIdx = slotIdx\<rparr>)) (\<lambda>ix.
               io_bind (live_send l1 [ix] [rc_funder ctx, trading] (''delegate_pending_order['' @ bigint_toString slotIdx @ '']'') ''l1'') (\<lambda>_.
               io_return ()))))))"

definition live_ensureMarketDelegated :: "lib \<Rightarrow> 'w RouteCtx \<Rightarrow> ('w run, js_error, unit) io" where
  "live_ensureMarketDelegated L ctx =
     (let l1 = dcn_l1 (rc_conns ctx); me = pr_meProgramId (rc_programs ctx); market = pr_market (rc_programs ctx);
          p = market_params me (rc_funder ctx) market in
      io_bind (io_of (darkClobPda L me market)) (\<lambda>(clobPda, _).
      io_bind (in_run (rpc_getAccountInfo l1 clobPda)) (\<lambda>clob.
      case clob of
        None \<Rightarrow> io_throw (newError ''DarkCLOB account missing on L1.'')
      | Some c \<Rightarrow>
          if ai_owner c = DELEGATION_PROGRAM_ID L then io_return ()
          else
            io_bind (io_of (buildDelegateDarkClobInstruction L p)) (\<lambda>ix1.
            io_bind (io_of (buildDelegateMatchingConfigInstruction L p)) (\<lambda>ix2.
            io_bind (io_of (buildDelegateBatchResultsInstruction L p)) (\<lambda>ix3.
            io_bind (live_send l1 [ix1, ix2, ix3] [rc_funder ctx] ''delegate market PDAs'' ''l1'') (\<lambda>_. io_return ())))))))"

section \<open>Actions\<close>

definition handlePerAuth :: "lib \<Rightarrow> 'w demo \<Rightarrow> 'w live_env \<Rightarrow> 'w RouteCtx \<Rightarrow> ('w, js_error, string) io" where
  "handlePerAuth L M V ctx =
     (let key = pubkey_toBase58 L (kp_publicKey (rc_taker ctx)) in
      io_bind (lv_fetch V \<lparr>rq_url = rc_perBaseUrl ctx @ ''/auth/challenge?pubkey='' @ key, rq_method = ''GET'', rq_headers = [], rq_body = None\<rparr>) (\<lambda>challengeRes.
      if \<not> res_ok challengeRes then io_throw (newError (''PER challenge failed ('' @ bigint_toString (rs_status challengeRes) @ '').''))
      else
      io_bind (io_of (rbind (rs_json challengeRes) (\<lambda>j. jget j ''challenge''))) (\<lambda>v.
      case json_string v of
        None \<Rightarrow> io_throw (JsError ''TypeError'' ''The first argument must be of type string or an instance of Buffer'')
      | Some challenge \<Rightarrow>
      io_bind (io_of (nacl_sign (dm_wallet M) (utf8 challenge) (kp_secretKey (rc_taker ctx)))) (\<lambda>sig.
      io_bind (lv_fetch V \<lparr>rq_url = rc_perBaseUrl ctx @ ''/auth/login'', rq_method = ''POST'', rq_headers = json_header,
        rq_body = Some (JObj [(''pubkey'', JStr key), (''challenge'', JStr challenge), (''signature'', JStr (lv_bs58_encode V sig))])\<rparr>) (\<lambda>loginRes.
      if \<not> res_ok loginRes then io_throw (newError (''PER login failed ('' @ bigint_toString (rs_status loginRes) @ '').''))
      else
      io_bind (io_of (rbind (rs_json loginRes) (\<lambda>j. jget j ''token''))) (\<lambda>t.
      case json_string t of
        None \<Rightarrow> io_throw (undefined_error ''slice'')
      | Some token \<Rightarrow> io_return (take 16 token)))))))"

text \<open>The mint of one persona: the taker gets quote, the maker base.\<close>

definition persona_mint :: "'w RouteCtx \<Rightarrow> persona \<Rightarrow> pubkey" where
  "persona_mint ctx role = (case role of Taker \<Rightarrow> pr_quoteMint (rc_programs ctx) | Maker \<Rightarrow> pr_baseMint (rc_programs ctx))"

definition persona_amount :: "'w demo \<Rightarrow> persona \<Rightarrow> js_error + int" where
  "persona_amount M role =
     (case role of
        Taker \<Rightarrow> js_BigInt (env_default (dm_host M) None ''DEMO_TAKER_QUOTE_DEPOSIT'' ''5000'')
      | Maker \<Rightarrow> js_BigInt (env_default (dm_host M) None ''DEMO_MAKER_BASE_DEPOSIT'' ''30''))"

definition live_mint ::
    "lib \<Rightarrow> 'w demo \<Rightarrow> 'w live_env \<Rightarrow> 'w RouteCtx \<Rightarrow> int \<Rightarrow> int \<Rightarrow> pubkey \<Rightarrow> pubkey \<Rightarrow> ('w run, js_error, unit) io" where
  "live_mint L M V ctx quoteDeposit baseDeposit takerQuoteAta makerBaseAta =
     (let W = dm_wallet M; admin = kp_publicKey (rc_admin ctx); quote = persona_mint ctx Taker; base = persona_mint ctx Maker in
      io_bind (io_of (lv_mintAmount V quoteDeposit)) (\<lambda>q.
      io_bind (io_of (lv_mintAmount V baseDeposit)) (\<lambda>b.
      io_bind (live_send (dcn_l1 (rc_conns ctx))
        [createAtaIdempotent W admin takerQuoteAta (kp_publicKey (rc_taker ctx)) quote, createAtaIdempotent W admin makerBaseAta (kp_publicKey (rc_maker ctx)) base,
         createMintTo W quote takerQuoteAta admin q, createMintTo W base makerBaseAta admin b] [rc_admin ctx] ''mint demo balances'' ''l1'') (\<lambda>_.
      io_return ()))))"

definition live_deposit ::
    "lib \<Rightarrow> 'w demo \<Rightarrow> 'w RouteCtx \<Rightarrow> persona \<Rightarrow> int \<Rightarrow> pubkey \<Rightarrow> int \<Rightarrow> ('w run, js_error, DepositReceipt) io" where
  "live_deposit L M ctx role amount ata nonce =
     io_bind (in_run (with_client (getDepositFunction L (dm_randomBytes M) (live_makeClient L ctx role)
       \<lparr>dpp_depositor = kp_publicKey (persona_key ctx role), dpp_tokenMint = toBytes (persona_mint ctx role), dpp_amount = amount,
        dpp_depositorTokenAccount = ata, dpp_nonce = nonce, dpp_tokenProgramId = None, dpp_callbacks = None\<rparr>))) (\<lambda>receipt.
     io_bind (push_signature (persona_name role @ '' deposit'') (dr_signature receipt) ''l1'') (\<lambda>_.
     io_return receipt))"

definition bootstrap_actor :: "lib \<Rightarrow> 'w RouteCtx \<Rightarrow> persona \<Rightarrow> int \<Rightarrow> int \<Rightarrow> DepositReceipt \<Rightarrow> js_error + FlowStateActor" where
  "bootstrap_actor L ctx role slot amount receipt =
     rbind (bn254ToBE32 (nt_ownerCommitment (dr_notePlaintext receipt))) (\<lambda>oc.
     Inr \<lparr>fsa_role = persona_name role, fsa_tradingPubkey = pubkey_toBase58 L (kp_publicKey (persona_key ctx role)), fsa_slotIdx = slot,
          fsa_noteCommitmentHex = bytes_hex (dr_noteCommitment receipt), fsa_ownerCommitmentHex = bytes_hex oc,
          fsa_noteAmount = bigint_toString amount, fsa_depositSignature = Some (dr_signature receipt),
          fsa_orderSignature = None, fsa_orderIdHex = None\<rparr>)"

text \<open>Minting and the two deposits.\<close>

definition bootstrap_deposits ::
    "lib \<Rightarrow> 'w demo \<Rightarrow> 'w live_env \<Rightarrow> 'w RouteCtx \<Rightarrow> int \<Rightarrow> int \<Rightarrow> ('w run, js_error, DepositReceipt \<times> DepositReceipt) io" where
  "bootstrap_deposits L M V ctx quoteDeposit baseDeposit =
     (let W = dm_wallet M; taker = kp_publicKey (rc_taker ctx); maker = kp_publicKey (rc_maker ctx) in
      io_bind (ensureTopUp L W ctx taker) (\<lambda>_.
      io_bind (ensureTopUp L W ctx maker) (\<lambda>_.
      io_bind (io_of (getAssociatedTokenAddress W (persona_mint ctx Taker) taker)) (\<lambda>takerQuoteAta.
      io_bind (io_of (getAssociatedTokenAddress W (persona_mint ctx Maker) maker)) (\<lambda>makerBaseAta.
      io_bind (live_mint L M V ctx quoteDeposit baseDeposit takerQuoteAta makerBaseAta) (\<lambda>_.
      (\<lambda>sw. let takerNonce = dm_now M (snd sw); makerNonce = dm_now M (snd sw) + 777 in
        io_bind (live_deposit L M ctx Taker quoteDeposit takerQuoteAta takerNonce) (\<lambda>takerReceipt.
        io_bind (live_deposit L M ctx Maker baseDeposit makerBaseAta makerNonce) (\<lambda>makerReceipt.
        io_return (takerReceipt, makerReceipt))) sw)))))))"

text \<open>The slots of both, and the market.\<close>

definition bootstrap_slots :: "lib \<Rightarrow> 'w demo \<Rightarrow> 'w RouteCtx \<Rightarrow> ('w run, js_error, int \<times> int) io" where
  "bootstrap_slots L M ctx =
     io_bind (in_run (live_chooseFreshSlot L M ctx (kp_publicKey (rc_taker ctx)))) (\<lambda>takerSlot.
     io_bind (in_run (live_chooseFreshSlot L M ctx (kp_publicKey (rc_maker ctx)))) (\<lambda>makerSlot.
     io_bind (live_ensureSlotDelegated L ctx (rc_taker ctx) takerSlot) (\<lambda>_.
     io_bind (live_ensureSlotDelegated L ctx (rc_maker ctx) makerSlot) (\<lambda>_.
     io_bind (live_ensureMarketDelegated L ctx) (\<lambda>_.
     io_return (takerSlot, makerSlot))))))"

definition handleBootstrap :: "lib \<Rightarrow> 'w demo \<Rightarrow> 'w live_env \<Rightarrow> 'w RouteCtx \<Rightarrow> ('w run, js_error, FlowState) io" where
  "handleBootstrap L M V ctx =
     io_bind (io_of (persona_amount M Taker)) (\<lambda>quoteDeposit.
     io_bind (io_of (persona_amount M Maker)) (\<lambda>baseDeposit.
     io_bind (bootstrap_deposits L M V ctx quoteDeposit baseDeposit) (\<lambda>(takerReceipt, makerReceipt).
     io_bind (bootstrap_slots L M ctx) (\<lambda>(takerSlot, makerSlot).
     io_bind (\<lambda>sw. (Inr (lv_isoNow V (snd sw)), sw)) (\<lambda>updatedAt.
     io_bind (io_of (bootstrap_actor L ctx Taker takerSlot quoteDeposit takerReceipt)) (\<lambda>taker.
     io_bind (io_of (bootstrap_actor L ctx Maker makerSlot baseDeposit makerReceipt)) (\<lambda>maker.
     let state = \<lparr>fs_updatedAt = updatedAt, fs_taker = Some taker, fs_maker = Some maker, fs_runBatchSignature = None, fs_undelegateSignature = None\<rparr> in
     io_bind (in_run (writeState V (rc_statePath ctx) state)) (\<lambda>_.
     io_return state))))))))"

definition state_of :: "persona \<Rightarrow> FlowState \<Rightarrow> FlowStateActor option" where
  "state_of role s = (case role of Taker \<Rightarrow> fs_taker s | Maker \<Rightarrow> fs_maker s)"

definition with_order :: "persona \<Rightarrow> string \<Rightarrow> string \<Rightarrow> FlowState \<Rightarrow> FlowState" where
  "with_order role sig orderIdHex s =
     (let f = map_option (\<lambda>a. a \<lparr>fsa_orderSignature := Some sig, fsa_orderIdHex := Some orderIdHex\<rparr>) in
      case role of Taker \<Rightarrow> s \<lparr>fs_taker := f (fs_taker s)\<rparr> | Maker \<Rightarrow> s \<lparr>fs_maker := f (fs_maker s)\<rparr>)"

text \<open>The order of a persona, sent to the rollup, with its id.\<close>

definition submit_live_order ::
    "lib \<Rightarrow> 'w demo \<Rightarrow> 'w RouteCtx \<Rightarrow> persona \<Rightarrow> FlowStateActor \<Rightarrow> ('w run, js_error, string \<times> bytes) io" where
  "submit_live_order L M ctx role actor =
     io_bind (io_of (js_BigInt (env_default (dm_host M) None ''DEMO_ORDER_BASE_AMOUNT'' ''30''))) (\<lambda>amount.
     io_bind (io_of (js_BigInt (env_default (dm_host M) None ''DEMO_ORDER_PRICE'' ''100''))) (\<lambda>price.
     io_bind (in_run (rpc_getSlot (dcn_l1 (rc_conns ctx)))) (\<lambda>now.
     let expiry = now + 500 in
     io_bind (in_run (dm_randomBytes M 16)) (\<lambda>rnd.
     let orderId = (if list_all (\<lambda>b. b = 0) rnd then rnd[0 := 1] else rnd) in
     io_bind (io_of (js_BigInt (fsa_noteAmount actor))) (\<lambda>noteAmount.
     io_bind (io_of (buildSubmitOrderInstruction L
       \<lparr>so_programId = pr_meProgramId (rc_programs ctx), so_tradingKey = kp_publicKey (persona_key ctx role), so_market = pr_market (rc_programs ctx),
        so_slotIdx = fsa_slotIdx actor, so_side = (case role of Taker \<Rightarrow> 0 | Maker \<Rightarrow> 1), so_amount = amount, so_priceLimit = price,
        so_noteAmount = noteAmount, so_expirySlot = expiry, so_orderId = orderId,
        so_noteCommitment = route_hexToBytes (fsa_noteCommitmentHex actor), so_userCommitment = route_hexToBytes (fsa_ownerCommitmentHex actor),
        so_orderType = None, so_minFillQty = None\<rparr>)) (\<lambda>keys.
     io_bind (live_send (dcn_er (rc_conns ctx)) [sok_ix keys] [persona_key ctx role] (persona_name role @ '' submit_order'') ''er'') (\<lambda>sig.
     io_return (sig, orderId))))))))"

definition handleSubmitOrder :: "lib \<Rightarrow> 'w demo \<Rightarrow> 'w live_env \<Rightarrow> 'w RouteCtx \<Rightarrow> persona \<Rightarrow> ('w run, js_error, FlowState) io" where
  "handleSubmitOrder L M V ctx role =
     io_bind (in_run (readState M V (rc_statePath ctx))) (\<lambda>state.
     case state_of role state of
       None \<Rightarrow> io_throw (newError ''Missing bootstrap state. Run bootstrap first.'')
     | Some actor \<Rightarrow>
         io_bind (submit_live_order L M ctx role actor) (\<lambda>(sig, orderId).
         io_bind (in_run (readState M V (rc_statePath ctx))) (\<lambda>next0.
         io_bind (\<lambda>sw. (Inr (lv_isoNow V (snd sw)), sw)) (\<lambda>updatedAt.
         let state' = (with_order role sig (bytes_hex orderId) next0) \<lparr>fs_updatedAt := updatedAt\<rparr> in
         io_bind (in_run (writeState V (rc_statePath ctx) state')) (\<lambda>_.
         io_return state')))))"

text \<open>The batch up to the wait, and after it.\<close>

definition live_batch ::
    "lib \<Rightarrow> 'w demo \<Rightarrow> 'w live_env \<Rightarrow> 'w RouteCtx \<Rightarrow> ('w run, js_error, FlowState \<times> string \<times> string \<times> pubkey \<times> string option) io" where
  "live_batch L M V ctx =
     io_bind (in_run (readState M V (rc_statePath ctx))) (\<lambda>state.
     case (fs_taker state, fs_maker state) of
       (Some taker, Some maker) \<Rightarrow>
         let me = pr_meProgramId (rc_programs ctx); market = pr_market (rc_programs ctx); er = dcn_er (rc_conns ctx) in
         io_bind (io_of (rbind (publicKeyOf (dm_decoders M) (Some (fsa_tradingPubkey taker))) (\<lambda>k. pendingOrderPda L me market k (fsa_slotIdx taker)))) (\<lambda>(takerPda, _).
         io_bind (io_of (rbind (publicKeyOf (dm_decoders M) (Some (fsa_tradingPubkey maker))) (\<lambda>k. pendingOrderPda L me market k (fsa_slotIdx maker)))) (\<lambda>(makerPda, _).
         io_bind (io_of (batchResultsPda L me market)) (\<lambda>(batchPda, _).
         io_bind (in_run (rpc_getAccountInfo (dcn_l1 (rc_conns ctx)) batchPda)) (\<lambda>preBatch.
         io_bind (io_of (buildRunBatchInstruction L \<lparr>rb_programId = me, rb_vaultProgramId = pr_vaultProgramId (rc_programs ctx),
           rb_teeAuthority = kp_publicKey (rc_tee ctx), rb_market = market, rb_pythAccount = pr_pythAccount (rc_programs ctx),
           rb_pendingOrderPdas = [takerPda, makerPda]\<rparr>)) (\<lambda>runIx.
         io_bind (live_send er [runIx] [rc_tee ctx] ''run_batch'' ''er'') (\<lambda>runSig.
         io_bind (io_of (buildUndelegateMarketInstruction L \<lparr>cm_programId = me, cm_payer = kp_publicKey (rc_funder ctx), cm_market = market\<rparr>)) (\<lambda>undIx.
         io_bind (live_send er [undIx] [rc_funder ctx] ''undelegate_market'' ''er'') (\<lambda>undSig.
         io_return (state, runSig, undSig, batchPda, map_option (\<lambda>i. bytes_hex (ai_data i)) preBatch)))))))))
     | _ \<Rightarrow> io_throw (newError ''Missing state for taker/maker. Run bootstrap and order submits first.''))"

definition live_batch_done :: "'w live_env \<Rightarrow> 'w RouteCtx \<Rightarrow> FlowState \<Rightarrow> string \<Rightarrow> string \<Rightarrow> ('w run, js_error, FlowState) io" where
  "live_batch_done V ctx state runSig undSig =
     io_bind (\<lambda>sw. (Inr (lv_isoNow V (snd sw)), sw)) (\<lambda>updatedAt.
     let state' = state \<lparr>fs_runBatchSignature := Some runSig, fs_undelegateSignature := Some undSig, fs_updatedAt := updatedAt\<rparr> in
     io_bind (in_run (writeState V (rc_statePath ctx) state')) (\<lambda>_. io_return state'))"

definition handleRunBatch ::
    "lib \<Rightarrow> 'w demo \<Rightarrow> 'w live_env \<Rightarrow> (int \<Rightarrow> 'w \<Rightarrow> 'w) \<Rightarrow> 'w RouteCtx \<Rightarrow> 'w run \<Rightarrow> ((js_error + FlowState) \<times> 'w run) option" where
  "handleRunBatch L M V sleep ctx sw =
     (case live_batch L M V ctx sw of
        (Inl e, tw) \<Rightarrow> Some (Inl e, tw)
      | (Inr (state, runSig, undSig, batchPda, preHex), tw) \<Rightarrow>
          (case waitForL1AccountChange L (counter_polling M sleep (dcn_l1 (rc_conns ctx))) batchPda preHex (Some 90000) (Some 1000) (snd tw) of
             None \<Rightarrow> None
           | Some (Inl e, w) \<Rightarrow> Some (Inl e, (fst tw, w))
           | Some (Inr _, w) \<Rightarrow> Some (live_batch_done V ctx state runSig undSig (fst tw, w))))"

section \<open>The route\<close>

datatype live_payload = TokenPreview string | FlowPayload FlowState

record live_reply =
  lr_action :: string
  lr_signatures :: "tx_signature list"
  lr_message :: string
  lr_payload :: live_payload

definition live_answer :: "string \<Rightarrow> string \<Rightarrow> ('a \<Rightarrow> live_payload) \<Rightarrow> (js_error + 'a) \<times> 'w run \<Rightarrow> live_reply reply \<times> 'w" where
  "live_answer action message payload rw =
     (case rw of
        (Inl e, sw) \<Rightarrow> (ReplyError 500 (err_message e) None, snd sw)
      | (Inr x, sw) \<Rightarrow> (ReplyOk \<lparr>lr_action = action, lr_signatures = fst sw, lr_message = message, lr_payload = payload x\<rparr>, snd sw))"

definition live_POST :: "lib \<Rightarrow> 'w demo \<Rightarrow> 'w live_env \<Rightarrow> (int \<Rightarrow> 'w \<Rightarrow> 'w) \<Rightarrow> string option \<Rightarrow> 'w \<Rightarrow> (live_reply reply \<times> 'w) option" where
  "live_POST L M V sleep action w =
     (if absent action then Some (ReplyError 400 ''Missing action.'' None, w)
      else case buildCtx M of
        Inl e \<Rightarrow> Some (ReplyError 500 (err_message e) None, w)
      | Inr ctx \<Rightarrow>
          let a = the action in
          if a = ''per_auth'' then Some (live_answer a ''PER challenge/login succeeded.'' TokenPreview (in_run (handlePerAuth L M V ctx) ([], w)))
          else if a = ''bootstrap'' then Some (live_answer a ''Bootstrap complete: minted balances, deposited notes, delegated slots.'' FlowPayload
            (handleBootstrap L M V ctx ([], w)))
          else if a = ''submit_taker'' then Some (live_answer a ''taker order submitted to ER.'' FlowPayload (handleSubmitOrder L M V ctx Taker ([], w)))
          else if a = ''submit_maker'' then Some (live_answer a ''maker order submitted to ER.'' FlowPayload (handleSubmitOrder L M V ctx Maker ([], w)))
          else if a = ''run_batch'' then map_option (live_answer a ''run_batch completed and market state committed to L1.'' FlowPayload)
            (handleRunBatch L M V sleep ctx ([], w))
          else Some (ReplyError 400 (''Unsupported action: '' @ a) None, w))"

section \<open>The state file is read back\<close>

declare map_of_append [simp del]

lemma session_string_obj: "session_string (JObj ps) k = json_string (map_of ps k)"
  by (simp add: session_string_def)

lemma opt_members: "map_of (opt_member k v @ ps) k' = (if k' = k \<and> v \<noteq> None then v else map_of ps k')"
  by (cases v) (simp_all add: opt_member_def)

lemma opt_member_last: "map_of (opt_member k v) k' = (if k' = k then v else None)"
  by (cases v) (simp_all add: opt_member_def)

lemma json_string_opt: "json_string (map_option JStr x) = x"
  by (cases x) (simp_all add: json_string_def)

lemma json_string_JStr: "json_string (Some (JStr x)) = Some x"
  by (simp add: json_string_def)

lemma actor_roundtrip: "actor_of_json (actor_json a) = Some a"
  by (cases a) (simp add: actor_of_json_def actor_json_def session_string_obj member_number_def opt_members opt_member_last json_string_opt json_string_JStr
      json_string_def [of None])

lemma state_roundtrip: "state_of_json (state_json s) = s"
proof -
  have "state_actor (state_json s) ''taker'' = fs_taker s" "state_actor (state_json s) ''maker'' = fs_maker s"
    by (auto simp: state_actor_def state_json_def opt_members opt_member_last actor_roundtrip split: option.splits)
  then show ?thesis
    by (cases s) (simp add: state_of_json_def state_json_def session_string_obj opt_members opt_member_last json_string_opt json_string_JStr json_string_def [of None])
qed

declare map_of_append [simp]

text \<open>Documented behaviour of the file system and of \<open>JSON\<close>: a file that was written is read, and the text of a value is parsed back to it.\<close>

definition file_law :: "'w demo \<Rightarrow> 'w live_env \<Rightarrow> bool" where
  "file_law M V \<longleftrightarrow>
     (\<forall>p txt w w'. lv_writeFile V p txt w = (Inr (), w') \<longrightarrow> lv_readFile V p w' = (Inr txt, w'))
     \<and> (\<forall>j. host_json_parse (dm_host M) (lv_stringify V j) = Inr j)"

lemma write_read_state:
  assumes "file_law M V" and "writeState V path s w = (Inr (), w')"
  shows "readState M V path w' = (Inr s, w')"
  using assms by (auto simp: file_law_def writeState_def readState_def io_catch_def io_bind_def state_roundtrip split: prod.splits sum.splits)

section \<open>What a bootstrap leaves\<close>

lemma live_sendE:
  "live_send c ixs signers label cluster sw = (Inr sig, tw) \<Longrightarrow>
     (\<And>w'. rpc_sendAndConfirm c ixs signers (snd sw) = (Inr sig, w') \<Longrightarrow> tw = (fst sw @ [\<lparr>txs_label = label, txs_signature = sig, txs_cluster = cluster\<rparr>], w') \<Longrightarrow> P) \<Longrightarrow> P"
  unfolding live_send_def by (erule io_bind_okE, erule in_run_okE) (auto simp: push_signature_def io_bind_def)

lemma deposit_positive: "getDepositFunction L rng c p s = (Inr rec, s') \<Longrightarrow> 0 < dpp_amount p"
  by (rule deposit_success)

lemma live_deposit_okE:
  assumes "live_deposit L M ctx role amount ata nonce sw = (Inr receipt, tw)"
  obtains w' where "0 < amount" "noteCommitment L (dr_notePlaintext receipt) = Inr (dr_noteCommitment receipt)" "nt_amount (dr_notePlaintext receipt) = amount"
    "nt_tokenMint (dr_notePlaintext receipt) = toBytes (persona_mint ctx role)"
    "tw = (fst sw @ [\<lparr>txs_label = persona_name role @ '' deposit'', txs_signature = dr_signature receipt, txs_cluster = ''l1''\<rparr>], w')"
  using assms unfolding live_deposit_def
  by (elim io_bind_okE in_run_okE io_return_okE with_client_okE)
    (frule deposit_receipt_note(1), frule deposit_receipt_note(2), frule deposit_receipt_note(3), drule deposit_positive, auto simp: push_signature_def)

lemma bootstrap_deposits_okE:
  assumes "bootstrap_deposits L M V ctx q b sw = (Inr (rt, rm), tw)"
  obtains "0 < q" "0 < b" "noteCommitment L (dr_notePlaintext rt) = Inr (dr_noteCommitment rt)" "nt_amount (dr_notePlaintext rt) = q"
    "nt_tokenMint (dr_notePlaintext rt) = toBytes (persona_mint ctx Taker)"
    "noteCommitment L (dr_notePlaintext rm) = Inr (dr_noteCommitment rm)" "nt_amount (dr_notePlaintext rm) = b"
    "nt_tokenMint (dr_notePlaintext rm) = toBytes (persona_mint ctx Maker)"
    "{''taker deposit'', ''maker deposit''} \<subseteq> set (map txs_label (fst tw))"
  using assms unfolding bootstrap_deposits_def Let_def
  by (elim io_bind_okE io_of_okE io_return_okE live_deposit_okE) simp

lemma bootstrap_okE:
  assumes "handleBootstrap L M V ctx sw = (Inr st, tw)"
  obtains q b rt rm st1 st2 sw1 w0 where
    "persona_amount M Taker = Inr q" "persona_amount M Maker = Inr b"
    "bootstrap_deposits L M V ctx q b sw = (Inr (rt, rm), sw1)"
    "bootstrap_actor L ctx Taker st1 q rt = Inr (the (fs_taker st))" "bootstrap_actor L ctx Maker st2 b rm = Inr (the (fs_maker st))"
    "fs_taker st \<noteq> None" "fs_maker st \<noteq> None"
    "writeState V (rc_statePath ctx) st w0 = (Inr (), snd tw)"
  using assms unfolding handleBootstrap_def Let_def
  by (elim io_bind_okE io_of_okE io_return_okE pair_okE in_run_okE) clarsimp

lemma bootstrap_actor_okE:
  assumes "bootstrap_actor L ctx role slot amount receipt = Inr a"
  obtains oc where "bn254ToBE32 (nt_ownerCommitment (dr_notePlaintext receipt)) = Inr oc" "fsa_ownerCommitmentHex a = bytes_hex oc"
    "fsa_noteCommitmentHex a = bytes_hex (dr_noteCommitment receipt)" "fsa_noteAmount a = bigint_toString amount" "fsa_slotIdx a = slot"
    "fsa_tradingPubkey a = pubkey_toBase58 L (kp_publicKey (persona_key ctx role))"
  using assms by (cases a) (auto simp: bootstrap_actor_def rbind_eq_Inr)

text \<open>Files and randomness do not touch the log of the connections.\<close>

definition live_quiet :: "'w demo \<Rightarrow> 'w live_env \<Rightarrow> ('w \<Rightarrow> sent_tx list) \<Rightarrow> bool" where
  "live_quiet M V sent \<longleftrightarrow> (\<forall>p. keeps sent (lv_readFile V p)) \<and> (\<forall>p. keeps sent (lv_mkdir V p)) \<and> (\<forall>p t. keeps sent (lv_writeFile V p t))
     \<and> (\<forall>n. keeps sent (dm_randomBytes M n))"

lemma live_quiet_keeps:
  assumes "live_quiet M V sent"
  shows "keeps sent (readState M V path)" "keeps sent (writeState V path s)" "keeps sent (dm_randomBytes M n)"
  using assms unfolding readState_def writeState_def live_quiet_def by (auto intro!: keeps_intros)

text \<open>A deposit that a log has: the transaction of a receipt, with an instruction for its note.\<close>

definition deposited :: "lib \<Rightarrow> 'w RouteCtx \<Rightarrow> persona \<Rightarrow> int \<Rightarrow> DepositReceipt \<Rightarrow> sent_tx list \<Rightarrow> bool" where
  "deposited L ctx role amount rec ts \<longleftrightarrow> (\<exists>ix.
     \<lparr>st_cluster = ''l1'', st_ixs = [ix], st_signers = [persona_key ctx role], st_result = Inr (dr_signature rec)\<rparr> \<in> set ts
     \<and> noteCommitment L (dr_notePlaintext rec) = Inr (dr_noteCommitment rec)
     \<and> deposit_ix_note ix = (dr_notePlaintext rec) \<lparr>nt_amount := amount mod 2 ^ 64\<rparr> \<and> signers_of ix = [kp_publicKey (persona_key ctx role)]
     \<and> 0 < amount \<and> nt_amount (dr_notePlaintext rec) = amount \<and> nt_tokenMint (dr_notePlaintext rec) = toBytes (persona_mint ctx role))"

lemma deposited_more: "deposited L ctx role amount rec ts \<Longrightarrow> set ts \<subseteq> set us \<Longrightarrow> deposited L ctx role amount rec us"
  unfolding deposited_def by blast

text \<open>After a bootstrap the state has both personas, each with a deposit that was sent.\<close>

definition bootstrapped :: "lib \<Rightarrow> 'w demo \<Rightarrow> 'w RouteCtx \<Rightarrow> FlowState \<Rightarrow> sent_tx list \<Rightarrow> bool" where
  "bootstrapped L M ctx st ts \<longleftrightarrow> (\<forall>role. \<exists>actor rec amount slot. state_of role st = Some actor \<and> persona_amount M role = Inr amount
     \<and> bootstrap_actor L ctx role slot amount rec = Inr actor \<and> deposited L ctx role amount rec ts)"

abbreviation anything :: "'x list \<Rightarrow> bool" where "anything ts \<equiv> True"

context recorded
begin

lemma live_send_logs:
  assumes "\<And>e. E [entry ixs ks (Inl e)]"
  shows "logs (run_sent sent) E (\<lambda>sig ts. ts = [entry ixs ks (Inr sig)]) (live_send c ixs ks label cl)"
proof -
  have "logs (run_sent sent) (\<lambda>ts. E (us @ ts)) (\<lambda>sig' ts. us @ ts = [entry ixs ks (Inr sig')]) (io_bind (push_signature label sig cl) (\<lambda>_. io_return sig))"
    if "us = [entry ixs ks (Inr sig)]" for sig us
    using that by (simp add: logs_def io_bind_def push_signature_def)
  then show ?thesis
    unfolding live_send_def by (intro logs_bind [OF in_run_logs [OF logs_send [where E = E, OF assms]]])
qed

lemma live_send_any: "logs (run_sent sent) anything (\<lambda>_. anything) (live_send c ixs ks label cl)"
  by (rule logs_weaken [OF live_send_logs [where E = anything]]) simp_all

end

lemma io_bind_return_right: "io_bind m io_return = m"
  by (simp add: io_bind_def fun_eq_iff split: prod.splits sum.splits)

lemma logs_any_bind:
  assumes "logs sent anything (\<lambda>_. anything) m" and "\<And>x us. logs sent anything (\<lambda>y ts. Q y (us @ ts)) (f x)"
  shows "logs sent anything Q (io_bind m f)"
  using assms by (intro logs_bind [where R = "\<lambda>_. anything"]) auto

lemmas logs_any = logs_any_bind [where Q = "\<lambda>_. anything"]

context demo_log
begin

lemma topUp_logs: "rc_conns ctx = conns \<Longrightarrow> logs (run_sent sent) anything (\<lambda>_. anything) (ensureTopUp L W ctx k)"
  unfolding ensureTopUp_def
  by (simp only:) (intro logs_keeps_bind [OF in_run_keeps [OF l1.keeps_reads(2)]] logs_if logs_any l1.live_send_any logs_basic TrueI)

lemma mint_logs: "rc_conns ctx = conns \<Longrightarrow> logs (run_sent sent) anything (\<lambda>_. anything) (live_mint L M V ctx q b x y)"
  unfolding live_mint_def Let_def by (simp only:) (intro logs_of_bind logs_any l1.live_send_any logs_basic TrueI)

lemma live_deposit_logs:
  assumes "rc_conns ctx = conns"
  shows "logs (run_sent sent) anything (deposited L ctx role amount) (live_deposit L M ctx role amount ata nonce)"
proof -
  let ?c = "live_makeClient L ctx role" and ?k = "persona_key ctx role"
  let ?p = "\<lparr>dpp_depositor = kp_publicKey ?k, dpp_tokenMint = toBytes (persona_mint ctx role), dpp_amount = amount,
      dpp_depositorTokenAccount = ata, dpp_nonce = nonce, dpp_tokenProgramId = None, dpp_callbacks = None\<rparr> :: 'w DepositParams"
  have "logs sent anything (deposited L ctx role amount) (with_client (getDepositFunction L (dm_randomBytes M) ?c ?p))"
  proof (rule logs_weaken [OF with_client_logs [OF deposit_logs [where tx = "\<lambda>ixs. l1.entry ixs [?k]"]]])
    show "keeps sent (pv_getAccountInfo (dc_providers ?c) k)" for k
      by (simp add: live_makeClient_def getDarkPoolClient_def l1.keeps_reads assms Let_def)
    show "keeps sent (resolveMasterSeed L (dm_randomBytes M) (dc_seedMode ?c))"
      by (simp add: live_makeClient_def getDarkPoolClient_def resolveMasterSeed_def io_bind_return keeps_def Let_def)
    show "sent w' = sent w @ [l1.entry ixs [?k] r]" if "pv_sendAndConfirm (dc_providers ?c) ixs w = (r, w')" for ixs w r w'
      using that by (intro l1.sends) (simp add: live_makeClient_def getDarkPoolClient_def assms Let_def)
  qed (auto simp: deposited_def)
  moreover have "logs (run_sent sent) anything (\<lambda>y ts. deposited L ctx role amount y (us @ ts)) (io_bind (push_signature l s cl) (\<lambda>_. io_return x))"
    if "deposited L ctx role amount x us" for x us l s cl
    using that by (intro logs_keeps_bind push_keeps logs_basic) simp_all
  ultimately show ?thesis unfolding live_deposit_def by (intro logs_bind [OF in_run_logs])
qed

lemma bootstrap_deposits_logs:
  assumes "rc_conns ctx = conns"
  shows "logs (run_sent sent) anything (\<lambda>(rt, rm) ts. deposited L ctx Taker q rt ts \<and> deposited L ctx Maker b rm ts) (bootstrap_deposits L M V ctx q b)"
proof -
  let ?both = "\<lambda>(rt, rm) ts. deposited L ctx Taker q rt ts \<and> deposited L ctx Maker b rm ts"
  have dep: "logs (run_sent sent) anything ?both
      (io_bind (live_deposit L M ctx Taker q ta n) (\<lambda>rt. io_bind (live_deposit L M ctx Maker b ma m) (\<lambda>rm. io_return (rt, rm))))" for ta ma n m
    by (intro logs_bind [OF live_deposit_logs [OF assms]] logs_basic) (auto elim: deposited_more)
  have "logs (run_sent sent) anything ?both (\<lambda>sw. io_bind (live_deposit L M ctx Taker q ta (dm_now M (snd sw)))
      (\<lambda>rt. io_bind (live_deposit L M ctx Maker b ma (dm_now M (snd sw) + 777)) (\<lambda>rm. io_return (rt, rm))) sw)" for ta ma
    using dep unfolding logs_def by blast
  then have last: "logs (run_sent sent) anything (\<lambda>y ts. ?both y (us @ ts)) (\<lambda>sw. io_bind (live_deposit L M ctx Taker q ta (dm_now M (snd sw)))
      (\<lambda>rt. io_bind (live_deposit L M ctx Maker b ma (dm_now M (snd sw) + 777)) (\<lambda>rm. io_return (rt, rm))) sw)" for ta ma us
    by (rule logs_weaken) (auto elim: deposited_more)
  show ?thesis
    unfolding bootstrap_deposits_def Let_def
    by (intro logs_any_bind [OF topUp_logs [OF assms]] logs_any_bind [OF mint_logs [OF assms]] logs_of_bind TrueI)
      (use last [of "_ @ _ @ _"] in simp)
qed

lemma slots_logs:
  assumes "rc_conns ctx = conns"
  shows "logs (run_sent sent) anything (\<lambda>_. anything) (bootstrap_slots L M ctx)"
proof -
  have "keeps sent (live_slot_loop L (dcn_l1 conns) me market key now idxs)" for me market key now idxs
  proof (induction idxs)
    case Nil
    show ?case by (simp add: keeps_def)
  next
    case (Cons idx rest)
    have "keeps sent (io_bind (io_of (pendingOrderPda L me market key idx)) (\<lambda>(pda, _).
        io_bind (rpc_getAccountInfo (dcn_l1 conns) pda) (\<lambda>info. if info = None then io_return idx else live_slot_loop L (dcn_l1 conns) me market key now rest)))"
      by (intro keeps_intros l1.keeps_reads Cons)
    then show ?case by (simp add: keeps_def)
  qed
  then have choose: "keeps (run_sent sent) (in_run (live_chooseFreshSlot L M ctx k))" for k
    unfolding live_chooseFreshSlot_def by (intro in_run_keeps) (simp add: assms)
  note read = in_run_keeps [OF l1.keeps_reads(1)]
  note steps = logs_of_bind logs_keeps_bind [OF read] logs_if logs_option logs_pair logs_any l1.live_send_any logs_basic
    logs_keeps_bind [OF read, where f = io_return, unfolded io_bind_return_right] TrueI
  have slot: "logs (run_sent sent) anything (\<lambda>_. anything) (live_ensureSlotDelegated L ctx t i)" for t i
    unfolding live_ensureSlotDelegated_def Let_def assms by (intro steps)
  have "logs (run_sent sent) anything (\<lambda>_. anything) (live_ensureMarketDelegated L ctx)"
    unfolding live_ensureMarketDelegated_def Let_def assms by (intro steps)
  then show ?thesis unfolding bootstrap_slots_def by (intro logs_keeps_bind [OF choose] logs_any slot logs_basic TrueI)
qed

lemma bootstrap_logs:
  assumes "rc_conns ctx = conns" and "live_quiet M V sent"
  shows "logs (run_sent sent) anything (bootstrapped L M ctx) (handleBootstrap L M V ctx)"
proof -
  have clock: "keeps (run_sent sent) (\<lambda>sw. (Inr (lv_isoNow V (snd sw)), sw))" by (simp add: keeps_def)
  have both: "bootstrapped L M ctx \<lparr>fs_updatedAt = t, fs_taker = Some tk, fs_maker = Some mk, fs_runBatchSignature = None, fs_undelegateSignature = None\<rparr> (us @ vs)"
    if "persona_amount M Taker = Inr q" "persona_amount M Maker = Inr b" "bootstrap_actor L ctx Taker s1 q rt = Inr tk" "bootstrap_actor L ctx Maker s2 b rm = Inr mk"
      "deposited L ctx Taker q rt us" "deposited L ctx Maker b rm us" for t tk mk us vs q b s1 s2 rt rm
    unfolding bootstrapped_def
  proof
    fix role
    have "deposited L ctx Taker q rt (us @ vs)" "deposited L ctx Maker b rm (us @ vs)" using that(5,6) by (auto elim: deposited_more)
    with that(1-4) show "\<exists>actor rec amount slot. state_of role \<lparr>fs_updatedAt = t, fs_taker = Some tk, fs_maker = Some mk, fs_runBatchSignature = None, fs_undelegateSignature = None\<rparr> = Some actor
      \<and> persona_amount M role = Inr amount \<and> bootstrap_actor L ctx role slot amount rec = Inr actor \<and> deposited L ctx role amount rec (us @ vs)"
      by (cases role) (auto simp: state_of_def)
  qed
  show ?thesis
    unfolding handleBootstrap_def Let_def
    by (intro logs_of_bind logs_bind [OF bootstrap_deposits_logs [OF assms(1)]] logs_pair logs_any_bind [OF slots_logs [OF assms(1)]]
        logs_keeps_bind [OF clock] logs_keeps_bind [OF in_run_keeps [OF live_quiet_keeps(2) [OF assms(2)]]] logs_basic TrueI)
      (auto intro: both)
qed

lemma submit_live_order_logs:
  assumes "rc_conns ctx = conns" and "live_quiet M V sent"
  shows "logs (run_sent sent) anything (\<lambda>(sig, orderId) ts. \<exists>amount price now noteAmount keys.
      js_BigInt (env_default (dm_host M) None ''DEMO_ORDER_BASE_AMOUNT'' ''30'') = Inr amount
    \<and> js_BigInt (env_default (dm_host M) None ''DEMO_ORDER_PRICE'' ''100'') = Inr price \<and> js_BigInt (fsa_noteAmount actor) = Inr noteAmount
    \<and> orderId \<noteq> zeros 16
    \<and> buildSubmitOrderInstruction L
       \<lparr>so_programId = pr_meProgramId (rc_programs ctx), so_tradingKey = kp_publicKey (persona_key ctx role), so_market = pr_market (rc_programs ctx),
        so_slotIdx = fsa_slotIdx actor, so_side = (case role of Taker \<Rightarrow> 0 | Maker \<Rightarrow> 1), so_amount = amount, so_priceLimit = price,
        so_noteAmount = noteAmount, so_expirySlot = now + 500, so_orderId = orderId,
        so_noteCommitment = route_hexToBytes (fsa_noteCommitmentHex actor), so_userCommitment = route_hexToBytes (fsa_ownerCommitmentHex actor),
        so_orderType = None, so_minFillQty = None\<rparr> = Inr keys
    \<and> ts = [er.entry [sok_ix keys] [persona_key ctx role] (Inr sig)]) (submit_live_order L M ctx role actor)"
  unfolding submit_live_order_def Let_def assms(1)
  by (intro logs_of_bind logs_keeps_bind [OF in_run_keeps [OF l1.keeps_reads(3)]] logs_keeps_bind [OF in_run_keeps [OF live_quiet_keeps(3) [OF assms(2)]]]
      logs_bind [OF er.live_send_logs [where E = anything]] logs_basic TrueI)
    (simp only: prod.case append_Nil2, (intro exI conjI; (assumption | rule fresh_order_id refl)))

end

lemma submit_okE:
  assumes "handleSubmitOrder L M V ctx role sw = (Inr st', uw)"
  obtains st actor w1 sig orderId sw2 next0 w3 where "readState M V (rc_statePath ctx) (snd sw) = (Inr st, w1)" "state_of role st = Some actor"
    "submit_live_order L M ctx role actor (fst sw, w1) = (Inr (sig, orderId), sw2)"
    "readState M V (rc_statePath ctx) (snd sw2) = (Inr next0, w3)" "writeState V (rc_statePath ctx) st' w3 = (Inr (), snd uw)"
  using assms unfolding handleSubmitOrder_def Let_def
  by (elim io_bind_okE in_run_okE option_throw_okE pair_okE io_return_okE) (auto intro: that)

lemma deposited_below:
  assumes "deposited L ctx role amount rec ts" and "amount < 2 ^ 64"
  obtains dep where "\<lparr>st_cluster = ''l1'', st_ixs = [dep], st_signers = [persona_key ctx role], st_result = Inr (dr_signature rec)\<rparr> \<in> set ts"
    "noteCommitment L (dr_notePlaintext rec) = Inr (dr_noteCommitment rec)" "deposit_ix_note dep = dr_notePlaintext rec"
    "signers_of dep = [kp_publicKey (persona_key ctx role)]" "0 < amount" "nt_amount (dr_notePlaintext rec) = amount"
    "nt_tokenMint (dr_notePlaintext rec) = toBytes (persona_mint ctx role)"
  using assms unfolding deposited_def by (auto simp: mod_pos_pos_trivial)

text \<open>An order submitted right after the state was stored: what it sends is what \<open>submit_live_order\<close> sends.\<close>

lemma submit_after:
  assumes "handleSubmitOrder L M V ctx role (sigs, w) = (Inr st', uw)" and "readState M V (rc_statePath ctx) w = (Inr st, w)"
    and "state_of role st = Some actor" and "live_quiet M V sent"
  obtains sig orderId sw2 where "submit_live_order L M ctx role actor (sigs, w) = (Inr (sig, orderId), sw2)" "sent (snd uw) = sent (snd sw2)"
  using assms(1)
proof (rule submit_okE, goal_cases)
  case (1 st2 actor2 w1 sig orderId sw2 next0 w3)
  have "st2 = st" "w1 = w" "actor2 = actor" using 1(2,3) assms(2,3) by auto
  moreover have "sent (snd uw) = sent (snd sw2)"
    using keepsD [OF live_quiet_keeps(1) [OF assms(4)] 1(5)] keepsD [OF live_quiet_keeps(2) [OF assms(4)] 1(6)] by simp
  ultimately show ?case using 1(1,4) by simp
qed

section \<open>Choosing a slot\<close>

lemma slot_key_pda:
  assumes "pda_total L" and "0 \<le> i" and "i < 8"
  obtains b where "pendingOrderPda L me market key i = Inr (slot_key L me market key i, b)"
proof -
  obtain k b where "findProgramAddressSync L [PENDING_ORDER_SEED, toBytes market, toBytes key, u8 i] me = Inr (k, b)"
    using assms(1) by (rule pda_totalE)
  then show ?thesis using that assms by (simp add: slot_key_def pendingOrderPda_def)
qed

lemma live_slot_loop_eq:
  assumes "pda_total L" and "reads l1 acc" and "set idxs \<subseteq> {0..<8}"
  shows "live_slot_loop L l1 me market key now idxs w =
     (Inr (case List.find (\<lambda>i. acc (slot_key L me market key i) = None) idxs of Some i \<Rightarrow> i | None \<Rightarrow> now w mod 8), w)"
  using assms(3)
proof (induction idxs)
  case (Cons idx rest)
  then have i: "0 \<le> idx" "idx < 8" by auto
  obtain b where pda: "pendingOrderPda L me market key idx = Inr (slot_key L me market key idx, b)" using slot_key_pda [OF assms(1) i] .
  have "rpc_getAccountInfo l1 (slot_key L me market key idx) w = (Inr (acc (slot_key L me market key idx)), w)"
    using assms(2) by (simp add: reads_def)
  then show ?case using Cons by (simp add: io_bind_def pda)
qed simp

lemma eight: "map int [0..<8] = [0, 1, 2, 3, 4, 5, 6, 7]"
  by (simp add: eval_nat_numeral)

lemma live_choose_eq:
  assumes "pda_total L" and "reads (dcn_l1 (rc_conns ctx)) acc"
  shows "live_chooseFreshSlot L M ctx key w =
     (Inr (case List.find (\<lambda>i. acc (slot_key L (pr_meProgramId (rc_programs ctx)) (pr_market (rc_programs ctx)) key i) = None) (map int [0..<8]) of
        Some i \<Rightarrow> i | None \<Rightarrow> dm_now M w mod 8), w)"
  unfolding live_chooseFreshSlot_def by (rule live_slot_loop_eq [OF assms]) (auto simp: eight)

section \<open>Properties\<close>

text \<open>The route answers every request when the clock advances.\<close>

lemma live_POST_answers:
  assumes "\<And>ctx. buildCtx M = Inr ctx \<Longrightarrow> clock_advances (counter_polling M sleep (dcn_l1 (rc_conns ctx)))"
  shows "live_POST L M V sleep action w \<noteq> None"
proof (cases "buildCtx M")
  case (Inr ctx)
  have "handleRunBatch L M V sleep ctx sw \<noteq> None" for sw
  proof -
    obtain res tw where Pair: "live_batch L M V ctx sw = (res, tw)" by (metis surj_pair)
    show ?thesis
    proof (cases res)
      case right: (Inr x)
      obtain state runSig undSig batchPda preHex where x: "x = (state, runSig, undSig, batchPda, preHex)" by (cases x)
      from wait_loop_returns [OF assms [OF Inr], of 1000, simplified] obtain out w2 where
        "waitForL1AccountChange L (counter_polling M sleep (dcn_l1 (rc_conns ctx))) batchPda preHex (Some 90000) (Some 1000) (snd tw) = Some (out, w2)"
        by (simp add: waitForL1AccountChange_def) meson
      then show ?thesis by (cases out) (simp_all add: handleRunBatch_def Pair right x)
    qed (simp add: handleRunBatch_def Pair)
  qed
  then show ?thesis by (simp add: live_POST_def Inr Let_def del: not_None_eq)
qed (simp add: live_POST_def)

text \<open>The state file is read back: a state the route wrote is the state it reads next, orders and signatures included.\<close>

theorem live_state_roundtrip:
  assumes "file_law M V" and "writeState V path s w = (Inr (), w')"
  shows "readState M V path w' = (Inr s, w')"
  using assms by (rule write_read_state)

text \<open>(C10) The orders are backed. When a persona submits after a bootstrap, the bootstrap sent a transaction to L1, signed by
  the persona and confirmed with the signature in the state file, that deposits a note of the persona's
  mint and configured amount; and submitting sends exactly one transaction, one order to the rollup
  that only the persona signs. The program handles it in the persona's slot of the bootstrap, when that is
  free, as an order backed by that very note: it refuses it exactly when the note does not cover the
  order, and otherwise keeps the note's commitment, amount and owner.\<close>

theorem live_orders_backed:
  assumes boot: "handleBootstrap L M V ctx sw = (Inr st, tw)" and law: "file_law M V"
    and sub: "handleSubmitOrder L M V ctx role (sigs, snd tw) = (Inr st', uw)"
    and log: "demo_log (rc_conns ctx) sent" "live_quiet M V sent"
    and env: "js_BigInt (env_default (dm_host M) None ''DEMO_ORDER_BASE_AMOUNT'' ''30'') = Inr amount"
      "js_BigInt (env_default (dm_host M) None ''DEMO_ORDER_PRICE'' ''100'') = Inr price" "persona_amount M role = Inr deposit"
    and range: "0 < amount" "amount < 2 ^ 64" "0 < price" "price < 2 ^ 64" "deposit < 2 ^ 64"
  shows "\<exists>actor (note0 :: Note) cm oc dep dsig ts ix sig expiry. state_of role st = Some actor
     \<and> sent (snd tw) = sent (snd sw) @ ts
     \<and> \<lparr>st_cluster = ''l1'', st_ixs = [dep], st_signers = [persona_key ctx role], st_result = Inr dsig\<rparr> \<in> set ts
     \<and> fsa_depositSignature actor = Some dsig \<and> deposit_ix_note dep = note0 \<and> signers_of dep = [kp_publicKey (persona_key ctx role)]
     \<and> noteCommitment L note0 = Inr cm \<and> nt_amount note0 = deposit \<and> nt_tokenMint note0 = toBytes (persona_mint ctx role)
     \<and> bn254ToBE32 (nt_ownerCommitment note0) = Inr oc
     \<and> sent (snd uw) = sent (snd tw) @ [\<lparr>st_cluster = ''er'', st_ixs = [ix], st_signers = [persona_key ctx role], st_result = Inr sig\<rparr>]
     \<and> signers_of ix = [kp_publicKey (persona_key ctx role)]
     \<and> (\<forall>slot now. po_trading_key slot = kp_publicKey (persona_key ctx role) \<and> po_market slot = pr_market (rc_programs ctx)
          \<and> po_slot_idx slot = fsa_slotIdx actor \<and> isReusablePendingOrderStatus (po_status slot) \<and> 0 \<le> now \<and> now < expiry \<and> expiry < 2 ^ 64
        \<longrightarrow> (let h = submit_order_handler L now (kp_publicKey (persona_key ctx role)) (borshSubmitOrderArgs (drop 8 (ix_data ix))) slot in
             if (case role of Taker \<Rightarrow> amount * price | Maker \<Rightarrow> amount) > deposit then h = Inl NotionalExceedsNoteValue
             else \<exists>slot'. h = Inr slot' \<and> po_collateral_note slot' = cm \<and> po_note_amount slot' = deposit \<and> po_user_commitment slot' = oc
               \<and> po_amount slot' = amount \<and> po_price_limit slot' = price \<and> po_status slot' = PENDING_STATUS_PENDING))"
proof -
  obtain ts where ts: "sent (snd tw) = sent (snd sw) @ ts" "bootstrapped L M ctx st ts"
    using logs_okE [OF demo_log.bootstrap_logs [OF log(1) refl log(2)] boot] .
  obtain actor rec slot where act: "state_of role st = Some actor" "bootstrap_actor L ctx role slot deposit rec = Inr actor"
      and d: "deposited L ctx role deposit rec ts"
    using ts(2) env(3) unfolding bootstrapped_def by (metis sum.inject(2))
  obtain oc where f: "bn254ToBE32 (nt_ownerCommitment (dr_notePlaintext rec)) = Inr oc" "fsa_ownerCommitmentHex actor = bytes_hex oc"
      "fsa_noteCommitmentHex actor = bytes_hex (dr_noteCommitment rec)" "fsa_noteAmount actor = bigint_toString deposit"
    using act(2) by (rule bootstrap_actor_okE)
  have fsig: "fsa_depositSignature actor = Some (dr_signature rec)" using act(2) f(1) by (auto simp: bootstrap_actor_def)
  obtain dep where dep: "\<lparr>st_cluster = ''l1'', st_ixs = [dep], st_signers = [persona_key ctx role], st_result = Inr (dr_signature rec)\<rparr> \<in> set ts"
      "noteCommitment L (dr_notePlaintext rec) = Inr (dr_noteCommitment rec)" "deposit_ix_note dep = dr_notePlaintext rec"
      "signers_of dep = [kp_publicKey (persona_key ctx role)]" "0 < deposit" "nt_amount (dr_notePlaintext rec) = deposit"
      "nt_tokenMint (dr_notePlaintext rec) = toBytes (persona_mint ctx role)"
    using deposited_below [OF d range(5)] .
  have stored: "readState M V (rc_statePath ctx) (snd tw) = (Inr st, snd tw)"
    using boot by (rule bootstrap_okE) (rule write_read_state [OF law])
  obtain sig orderId sw2 where s: "submit_live_order L M ctx role actor (sigs, snd tw) = (Inr (sig, orderId), sw2)" "sent (snd uw) = sent (snd sw2)"
    using submit_after [OF sub stored act(1) log(2)] .
  obtain now keys where o: "orderId \<noteq> zeros 16" "buildSubmitOrderInstruction L
       \<lparr>so_programId = pr_meProgramId (rc_programs ctx), so_tradingKey = kp_publicKey (persona_key ctx role), so_market = pr_market (rc_programs ctx),
        so_slotIdx = fsa_slotIdx actor, so_side = (case role of Taker \<Rightarrow> 0 | Maker \<Rightarrow> 1), so_amount = amount, so_priceLimit = price,
        so_noteAmount = deposit, so_expirySlot = now + 500, so_orderId = orderId,
        so_noteCommitment = dr_noteCommitment rec, so_userCommitment = oc,
        so_orderType = None, so_minFillQty = None\<rparr> = Inr keys"
      "sent (snd sw2) = sent (snd tw) @ [\<lparr>st_cluster = ''er'', st_ixs = [sok_ix keys], st_signers = [persona_key ctx role], st_result = Inr sig\<rparr>]"
    by (rule logs_okE [OF demo_log.submit_live_order_logs [OF log(1) refl log(2)] s(1)]) (auto simp: env f route_hexToBytes_def)
  let ?k = "kp_publicKey (persona_key ctx role)"
  have sgn: "signers_of (sok_ix keys) = [?k]" using buildSubmitOrder_wire(6) [OF o(2)] by (simp add: signers_of_def meta_def)
  have h: "let h = submit_order_handler L t ?k (borshSubmitOrderArgs (drop 8 (ix_data (sok_ix keys)))) slot in
             if (case role of Taker \<Rightarrow> amount * price | Maker \<Rightarrow> amount) > deposit then h = Inl NotionalExceedsNoteValue
             else \<exists>slot'. h = Inr slot' \<and> po_collateral_note slot' = dr_noteCommitment rec \<and> po_note_amount slot' = deposit \<and> po_user_commitment slot' = oc
               \<and> po_amount slot' = amount \<and> po_price_limit slot' = price \<and> po_status slot' = PENDING_STATUS_PENDING"
    if "po_trading_key slot = ?k" "po_market slot = pr_market (rc_programs ctx)" "po_slot_idx slot = fsa_slotIdx actor"
      "isReusablePendingOrderStatus (po_status slot)" "0 \<le> t" "t < now + 500" "now + 500 < 2 ^ 64" for slot t
    using order_handled [OF o(2), of slot ?k t] that range dep(5) o(1) by (cases role) (simp_all add: resting_order_def Let_def)
  show ?thesis
    by (intro exI conjI, rule act(1), rule ts(1), rule dep(1), rule fsig, rule dep(3), rule dep(4), rule dep(2), rule dep(6), rule dep(7), rule f(1),
        simp add: s(2) o(3), rule sgn) (use h in blast)
qed

text \<open>(C24) Four bootstraps at most. The route looks for a free slot among eight, but the SDK and the program know four: when the taker's four
  slots exist, it picks the fifth, and the bootstrap fails when it builds the instruction for it,
  after it has minted and made both deposits.\<close>

theorem live_bootstrap_exhausted:
  assumes "pda_total L" and "reads (dcn_l1 (rc_conns ctx)) acc"
    and "\<forall>i \<in> {0, 1, 2, 3}. acc (slot_key L (pr_meProgramId (rc_programs ctx)) (pr_market (rc_programs ctx)) (kp_publicKey (rc_taker ctx)) i) \<noteq> None"
    and "acc (slot_key L (pr_meProgramId (rc_programs ctx)) (pr_market (rc_programs ctx)) (kp_publicKey (rc_taker ctx)) 4) = None"
    and "persona_amount M Taker = Inr q" and "persona_amount M Maker = Inr b"
    and "bootstrap_deposits L M V ctx q b sw = (Inr (rt, rm), tw)"
  shows "handleBootstrap L M V ctx sw = (Inl (newError ''slotIdx must be in [0, 4); got 4''), tw)
     \<and> {''taker deposit'', ''maker deposit''} \<subseteq> set (map txs_label (fst tw))"
proof -
  let ?key = "slot_key L (pr_meProgramId (rc_programs ctx)) (pr_market (rc_programs ctx)) (kp_publicKey (rc_taker ctx))"
  have four: "live_chooseFreshSlot L M ctx (kp_publicKey (rc_taker ctx)) w = (Inr 4, w)" for w
    unfolding live_choose_eq [OF assms(1,2)] eight using assms(3,4) by simp
  have maker: "\<exists>m. live_chooseFreshSlot L M ctx (kp_publicKey (rc_maker ctx)) w = (Inr m, w)" for w
    unfolding live_choose_eq [OF assms(1,2)] by blast
  obtain bp where pda: "pendingOrderPda L (pr_meProgramId (rc_programs ctx)) (pr_market (rc_programs ctx)) (kp_publicKey (rc_taker ctx)) 4 = Inr (?key 4, bp)"
    by (rule slot_key_pda [OF assms(1), of 4]) simp_all
  have msg: "''slotIdx must be in [0, '' @ bigint_toString MAX_PENDING_SLOTS_PER_USER @ ''); got '' @ bigint_toString 4 = ''slotIdx must be in [0, 4); got 4''"
    by code_simp
  have none: "rpc_getAccountInfo (dcn_l1 (rc_conns ctx)) (?key 4) w = (Inr None, w)" for w using assms(2,4) by (simp add: reads_def)
  have "live_ensureSlotDelegated L ctx (rc_taker ctx) 4 sw' = (Inl (newError ''slotIdx must be in [0, 4); got 4''), sw')" for sw'
    unfolding live_ensureSlotDelegated_def io_bind_def Let_def
    by (simp add: pda in_run_def none buildInitPendingOrderSlotInstruction_def slot_guard_def msg [symmetric]) (simp add: MAX_PENDING_SLOTS_PER_USER_def)
  then have "bootstrap_slots L M ctx sw' = (Inl (newError ''slotIdx must be in [0, 4); got 4''), sw')" for sw'
    using maker [of "snd sw'"] by (cases sw') (auto simp: bootstrap_slots_def io_bind_def in_run_def four)
  then have "handleBootstrap L M V ctx sw = (Inl (newError ''slotIdx must be in [0, 4); got 4''), tw)"
    by (simp add: handleBootstrap_def io_bind_def assms(5-7))
  then show ?thesis using bootstrap_deposits_okE [OF assms(7)] by blast
qed

end
