(* ===== verification/Nyx_Demo_Live_Scenario.thy ===== *)
theory Nyx_Demo_Live_Scenario
  imports Nyx_Demo_Flow_Scenario Nyx_Demo_Live
begin

text \<open>
  The scripted demo on a concrete machine, on which its properties are applied. The world is the content of the
  state file and the log of the connections; an RPC serves the accounts \<open>acc\<close> and confirms every transaction.
\<close>

section \<open>The machine\<close>

definition live_lib :: lib where
  "live_lib = ref_lib \<lparr>findProgramAddressSync := (\<lambda>seeds pid. Inr (of_nat (256 * length (concat seeds) + unat (last (concat seeds))), 255))\<rparr>"

definition live_rpc :: "(pubkey \<Rightarrow> account_info option) \<Rightarrow> string rpc" where
  "live_rpc acc = \<lparr>cn_getTransaction = (\<lambda>sig w. (Inr None, w)), cn_getSignaturesForAddress = (\<lambda>vp limit before w. (Inr [], w)),
     rpc_getAccountInfo = (\<lambda>k w. (Inr (acc k), w)), rpc_getBalance = (\<lambda>k w. (Inr 60000000, w)), rpc_getSlot = (\<lambda>w. (Inr 100, w)),
     rpc_sendAndConfirm = (\<lambda>ixs ks w. (Inr ''sig'', w))\<rparr>"

type_synonym live_world = "string \<times> sent_tx list"

definition live_demo :: "live_world demo" where
  "live_demo = (demo_app (logged ''l1'' (live_rpc (\<lambda>_. None))))
     \<lparr>dm_host := sample_host \<lparr>host_env := (\<lambda>_. None), host_json_parse := (\<lambda>t. Inr (from_nat (dec_val t)))\<rparr>\<rparr>"

definition live_files :: "live_world live_env" where
  "live_files = \<lparr>lv_readFile = (\<lambda>p w. (Inr (fst w), w)), lv_mkdir = (\<lambda>p w. (Inr (), w)), lv_writeFile = (\<lambda>p t w. (Inr (), (t, snd w))),
     lv_stringify = (\<lambda>j. nat_toString (to_nat j)), lv_isoNow = (\<lambda>w. ''now''), lv_fetch = (\<lambda>r w. (Inl (newError ''offline''), w)),
     lv_bs58_encode = bytes_hex, lv_mintAmount = Inr\<rparr>"

definition live_ctx :: "(pubkey \<Rightarrow> account_info option) \<Rightarrow> live_world RouteCtx" where
  "live_ctx acc = \<lparr>rc_statePath = ''/state'', rc_conns = \<lparr>dcn_l1 = logged ''l1'' (live_rpc acc), dcn_er = logged ''er'' (live_rpc acc), dcn_erRpcUrl = ''er''\<rparr>, rc_programs = demo_programs,
     rc_admin = \<lparr>kp_publicKey = 11, kp_secretKey = zeros 64\<rparr>, rc_funder = \<lparr>kp_publicKey = 13, kp_secretKey = zeros 64\<rparr>,
     rc_tee = \<lparr>kp_publicKey = 14, kp_secretKey = zeros 64\<rparr>, rc_taker = \<lparr>kp_publicKey = 5, kp_secretKey = zeros 64\<rparr>,
     rc_maker = \<lparr>kp_publicKey = 12, kp_secretKey = zeros 64\<rparr>, rc_perBaseUrl = ''per''\<rparr>"

text \<open>An account that is delegated and has the size of a vault account.\<close>

definition live_account :: account_info where
  "live_account = \<lparr>ai_data = zeros 112, ai_owner = DELEGATION_PROGRAM_ID live_lib\<rparr>"

lemma live_lib_laws: "poseidon_canonical live_lib" "pda_total live_lib"
  using ref_lib_canonical by (simp_all add: poseidon_canonical_def live_lib_def pda_total_def)

lemma live_file_law: "file_law live_demo live_files"
  by (auto simp: file_law_def live_files_def live_demo_def nat_toString_digits)

lemma live_quiet_files: "live_quiet live_demo live_files snd"
  by (simp add: live_quiet_def live_files_def live_demo_def demo_app_def keeps_def)

lemma live_net:
  "rpc_getAccountInfo (logged cl (live_rpc acc)) k w = (Inr (acc k), w)" "rpc_getBalance (logged cl (live_rpc acc)) k w = (Inr 60000000, w)"
  "rpc_getSlot (logged cl (live_rpc acc)) w = (Inr 100, w)"
  "\<exists>l. rpc_sendAndConfirm (logged cl (live_rpc acc)) ixs ks w = (Inr ''sig'', (fst w, l))"
  by (simp_all add: logged_def beside_def live_rpc_def)

lemma live_ctx_conns: "dcn_l1 (rc_conns (live_ctx acc)) = logged ''l1'' (live_rpc acc)" "dcn_er (rc_conns (live_ctx acc)) = logged ''er'' (live_rpc acc)"
  by (simp_all add: live_ctx_def)

theorem live_state_roundtrip_witness:
  "\<forall>s. \<exists>w. writeState live_files ''/state'' s ([], []) = (Inr (), w) \<and> readState live_demo live_files ''/state'' w = (Inr s, w)"
proof
  fix s
  obtain w where w: "writeState live_files ''/state'' s ([], []) = (Inr (), w)" by (simp add: writeState_def io_bind_def live_files_def)
  with live_state_roundtrip [OF live_file_law w] show "\<exists>w. writeState live_files ''/state'' s ([], []) = (Inr (), w)
    \<and> readState live_demo live_files ''/state'' w = (Inr s, w)" by blast
qed

section \<open>Deposits\<close>

lemma deposit_runs:
  fixes c :: "'w DarkPoolClient"
  assumes lib: "poseidon_canonical L" "pda_total L" and p: "0 < dpp_amount p" "length (dpp_tokenMint p) = 32" "0 \<le> dpp_nonce p" "dpp_nonce p < BN254_R"
      "dpp_callbacks p = None"
    and keys: "getResolvedKeys L rng c s = (Inr keys, s1)"
    and acct: "vaultConfigPda L (dc_programId c) = Inr (v, vb)" "pv_getAccountInfo (dc_providers c) v (cs_world s1) = (Inr (Some i), cs_world s1)"
      "read_leaf_count (Some i) = Inr n"
    and send: "\<And>ixs. \<exists>u. pv_sendAndConfirm (dc_providers c) ixs (cs_world s1) = (Inr sig, u) \<and> P u"
  shows "\<exists>rec u. getDepositFunction L rng c p s = (Inr rec, s1 \<lparr>cs_world := u\<rparr>) \<and> P u"
proof -
  let ?note = "deposit_note L p keys n"
  have fld: "\<exists>bs. bn254ToBE32 x = Inr bs \<and> length bs = 32" if "0 \<le> x" "x < BN254_R" for x using that by (auto simp: bn254ToBE32_eq)
  obtain nb where nb: "bn254ToBE32 (dpp_nonce p) = Inr nb" "length nb = 32" using fld p(3,4) by blast
  obtain bb where bb: "bn254ToBE32 (nt_blindingR ?note) = Inr bb" "length bb = 32"
    using fld [of "nt_blindingR ?note"] by (auto simp: deposit_note_def)
  obtain ob where ob: "bn254ToBE32 (nt_ownerCommitment ?note) = Inr ob" "length ob = 32"
    using fld [of "nt_ownerCommitment ?note"] lib(1) by (auto simp: deposit_note_def ownerCommitment_def poseidon_canonical_def)
  have "length (nt_tokenMint ?note) = 32" using p(2) by (simp add: deposit_note_def)
  then obtain cm where cm: "noteCommitment L ?note = Inr cm" using noteCommitment_total [OF lib(1)] by blast
  obtain mk where mk: "newPublicKey (dpp_tokenMint p) = Inr mk" using p(2) by (simp add: newPublicKey_def)
  obtain t tb where t: "vaultTokenAccountPda L (dc_programId c) mk = Inr (t, tb)"
    unfolding vaultTokenAccountPda_def using pda_totalE [OF lib(2)] by blast
  obtain ix where ix: "buildDepositInstruction L (deposit_ix_params L c p mk ob nb bb) = Inr ix"
    by (simp add: buildDepositInstruction_def deposit_ix_params_def fixed_ok acct(1) t nb(2) ob(2) bb(2) Let_def)
  obtain u where "pv_sendAndConfirm (dc_providers c) [ix] (cs_world s1) = (Inr sig, u)" "P u" using send by blast
  then show ?thesis
    using p(1,2)
    by (simp add: getDepositFunction_def p(5) io_bind_def keys call_pre_def call_post_def in_world_def acct nb bb ob cm mk ix Let_def) blast
qed

lemma live_vault_key: "vaultConfigPda live_lib pid = Inr (3175, 255)"
  by (simp add: vaultConfigPda_def live_lib_def seed_defs utf8_def)

lemma live_slot_key:
  assumes "0 \<le> i" and "i < 8"
  shows "pendingOrderPda live_lib me market key i = Inr (of_int (19968 + i), 255)"
proof -
  have "ucast (word_of_int i :: byte) = (word_of_int i :: pubkey)"
    using assms by (simp add: unsigned_of_int take_bit_int_eq_self)
  then show ?thesis using assms by (simp add: pendingOrderPda_def live_lib_def seed_defs utf8_def u8_def)
qed

text \<open>The parts of a receipt that the state file needs.\<close>

definition receipt_ok :: "DepositReceipt \<Rightarrow> bool" where
  "receipt_ok r \<longleftrightarrow> (\<exists>oc. bn254ToBE32 (nt_ownerCommitment (dr_notePlaintext r)) = Inr oc \<and> length oc = 32) \<and> length (dr_noteCommitment r) = 32"

lemma deposit_receipt_ok:
  assumes "getDepositFunction L rng c p s = (Inr r, s')" and "poseidon_canonical L"
  shows "receipt_ok r"
  using assms(1)
  by (rule deposit_success)
    (use assms(2) in \<open>auto simp: receipt_ok_def deposit_note_def ownerCommitment_def poseidon_canonical_def bn254ToBE32_eq noteCommitment_length\<close>)

lemma live_deposit_runs:
  assumes "acc 3175 = Some live_account" and "0 < amount" and "0 \<le> nonce" and "nonce < BN254_R"
  shows "\<exists>receipt new l. live_deposit live_lib live_demo (live_ctx acc) role amount ata nonce sw = (Inr receipt, (fst sw @ new, (fst (snd sw), l))) \<and> receipt_ok receipt"
proof -
  let ?c = "live_makeClient live_lib (live_ctx acc) role"
  let ?p = "\<lparr>dpp_depositor = kp_publicKey (persona_key (live_ctx acc) role), dpp_tokenMint = toBytes (persona_mint (live_ctx acc) role), dpp_amount = amount,
        dpp_depositorTokenAccount = ata, dpp_nonce = nonce, dpp_tokenProgramId = None, dpp_callbacks = None\<rparr> :: live_world DepositParams"
  let ?s = "\<lparr>cs_resolvedSeed = None, cs_world = snd sw\<rparr> :: live_world client_state"
  let ?s1 = "?s \<lparr>cs_resolvedSeed := Some (actorSeed live_lib role (persona_key (live_ctx acc) role))\<rparr>"
  obtain keys where k: "getResolvedKeys live_lib rng ?c ?s = (Inr keys, ?s1)" for rng
    by (simp add: getResolvedKeys_def live_makeClient_def getDarkPoolClient_def resolveMasterSeed_def in_world_def io_bind_def Let_def)
  have leaf: "read_leaf_count (Some live_account) = Inr 0"
    by (simp add: read_leaf_count_def getBigUint64_def slice_def zeros_def live_account_def)
  have prov: "pv_getAccountInfo (dc_providers ?c) 3175 (cs_world ?s1) = (Inr (Some live_account), cs_world ?s1)"
      "\<exists>u. pv_sendAndConfirm (dc_providers ?c) ixs (cs_world ?s1) = (Inr ''sig'', u) \<and> fst u = fst (snd sw)" for ixs
    using assms(1) live_net(4) [of "''l1''" acc ixs "[persona_key (live_ctx acc) role]" "snd sw"]
    by (auto simp: live_makeClient_def getDarkPoolClient_def live_ctx_conns live_net(1) Let_def)
  obtain rec u where run: "getDepositFunction live_lib (dm_randomBytes live_demo) ?c ?p ?s = (Inr rec, ?s1 \<lparr>cs_world := u\<rparr>)" and u: "fst u = fst (snd sw)"
    using deposit_runs [where P = "\<lambda>u. fst u = fst (snd sw)", OF live_lib_laws _ _ _ _ _ k live_vault_key prov(1) leaf prov(2), of ?p "dm_randomBytes live_demo"] assms by auto
  then show ?thesis using deposit_receipt_ok [OF run live_lib_laws(1)]
    by (cases u) (simp add: live_deposit_def io_bind_def in_run_def with_client_def push_signature_def)
qed

lemma live_amounts: "persona_amount live_demo Taker = Inr 5000" "persona_amount live_demo Maker = Inr 30"
  "js_BigInt (env_default (dm_host live_demo) None ''DEMO_ORDER_BASE_AMOUNT'' ''30'') = Inr 30"
  "js_BigInt (env_default (dm_host live_demo) None ''DEMO_ORDER_PRICE'' ''100'') = Inr 100"
proof -
  have "js_BigInt ''5000'' = Inr 5000" "js_BigInt ''30'' = Inr 30" "js_BigInt ''100'' = Inr 100" by code_simp+
  then show "persona_amount live_demo Taker = Inr 5000" "persona_amount live_demo Maker = Inr 30"
    "js_BigInt (env_default (dm_host live_demo) None ''DEMO_ORDER_BASE_AMOUNT'' ''30'') = Inr 30"
    "js_BigInt (env_default (dm_host live_demo) None ''DEMO_ORDER_PRICE'' ''100'') = Inr 100"
    by (simp_all add: persona_amount_def env_default_def live_demo_def)
qed

lemma live_deposits_run:
  assumes "acc 3175 = Some live_account"
  shows "\<exists>rt rm new l. bootstrap_deposits live_lib live_demo live_files (live_ctx acc) 5000 30 ([], ([], [])) = (Inr (rt, rm), (new, ([], l)))
     \<and> receipt_ok rt \<and> receipt_ok rm"
proof -
  have top: "ensureTopUp live_lib W (live_ctx acc) k tw = (Inr (), tw)" for W k tw
    by (simp add: ensureTopUp_def io_bind_def in_run_def live_ctx_conns live_net DEFAULT_MIN_LAMPORTS_def)
  have ata: "getAssociatedTokenAddress (dm_wallet live_demo) m k = Inr (m + k)" for m k
    by (simp add: live_demo_def demo_app_def sample_wallet_def)
  have now: "dm_now live_demo w = 0" for w by (simp add: live_demo_def demo_app_def)
  let ?ta = "persona_mint (live_ctx acc) Taker + kp_publicKey (rc_taker (live_ctx acc))" and ?ma = "persona_mint (live_ctx acc) Maker + kp_publicKey (rc_maker (live_ctx acc))"
  have send: "\<exists>new l. io_bind (live_send (logged ''l1'' (live_rpc acc)) ixs ks lab cl) (\<lambda>_. io_return ()) ([], ([], [])) = (Inr (), (new, ([], l)))" for ixs ks lab cl
    using live_net(4) [of "''l1''" acc ixs ks "([], [])"] by (auto simp: live_send_def io_bind_def in_run_def push_signature_def)
  have amount: "lv_mintAmount live_files n = Inr n" for n by (simp add: live_files_def)
  have pure: "io_bind (io_of (Inr x)) f = f x" for x and f :: "int \<Rightarrow> (live_world run, js_error, unit) io" by (simp add: io_bind_def fun_eq_iff)
  obtain new0 l0 where mint: "live_mint live_lib live_demo live_files (live_ctx acc) 5000 30 ?ta ?ma ([], ([], [])) = (Inr (), (new0, ([], l0)))"
    unfolding live_mint_def Let_def live_ctx_conns amount pure using send by blast
  obtain rt new1 l1 where t: "live_deposit live_lib live_demo (live_ctx acc) Taker 5000 ?ta 0 (new0, ([], l0)) = (Inr rt, (new1, ([], l1)))" "receipt_ok rt"
    using assms live_deposit_runs [of acc 5000 0 Taker ?ta "(new0, ([], l0))"] by (auto simp: BN254_R_def)
  obtain rm new2 l2 where m: "live_deposit live_lib live_demo (live_ctx acc) Maker 30 ?ma 777 (new1, ([], l1)) = (Inr rm, (new2, ([], l2)))" "receipt_ok rm"
    using assms live_deposit_runs [of acc 30 777 Maker ?ma "(new1, ([], l1))"] by (auto simp: BN254_R_def)
  show ?thesis using t m by (simp add: bootstrap_deposits_def io_bind_def top ata mint now Let_def)
qed

section \<open>A free slot, and none\<close>

abbreviation all_there :: "pubkey \<Rightarrow> account_info option" where "all_there \<equiv> \<lambda>_. Some live_account"

lemma live_slots_run: "bootstrap_slots live_lib live_demo (live_ctx all_there) sw = (Inr (0, 0), sw)"
proof -
  have choose: "live_chooseFreshSlot live_lib live_demo (live_ctx all_there) k w = (Inr 0, w)" for k w
    using live_choose_eq [OF live_lib_laws(2), of "live_ctx all_there" all_there live_demo k w]
    by (simp add: reads_def live_ctx_conns live_net eight live_demo_def demo_app_def)
  have slot: "live_ensureSlotDelegated live_lib (live_ctx all_there) k 0 sw = (Inr (), sw)" for k
    by (simp add: live_ensureSlotDelegated_def io_bind_def in_run_def live_slot_key live_ctx_conns live_net live_account_def Let_def)
  obtain clob b where "darkClobPda live_lib (pr_meProgramId (rc_programs (live_ctx all_there))) (pr_market (rc_programs (live_ctx all_there))) = Inr (clob, b)"
    unfolding darkClobPda_def using pda_totalE [OF live_lib_laws(2)] by blast
  then have "live_ensureMarketDelegated live_lib (live_ctx all_there) sw = (Inr (), sw)"
    by (simp add: live_ensureMarketDelegated_def io_bind_def in_run_def live_ctx_conns live_net live_account_def Let_def)
  then show ?thesis using choose slot by (simp add: bootstrap_slots_def io_bind_def in_run_def)
qed

definition actor_ready :: "FlowStateActor \<Rightarrow> bool" where
  "actor_ready a \<longleftrightarrow> fsa_slotIdx a = 0 \<and> (\<exists>cm. fsa_noteCommitmentHex a = bytes_hex cm \<and> length cm = 32)
     \<and> (\<exists>oc. fsa_ownerCommitmentHex a = bytes_hex oc \<and> length oc = 32) \<and> (\<exists>n. fsa_noteAmount a = bigint_toString n)"

lemma bootstrap_actor_ready:
  assumes "receipt_ok r"
  obtains a where "bootstrap_actor L ctx role 0 n r = Inr a" "actor_ready a"
proof -
  obtain a where a: "bootstrap_actor L ctx role 0 n r = Inr a" using assms by (auto simp: bootstrap_actor_def receipt_ok_def)
  obtain oc where oc: "bn254ToBE32 (nt_ownerCommitment (dr_notePlaintext r)) = Inr oc" "fsa_ownerCommitmentHex a = bytes_hex oc"
      "fsa_noteCommitmentHex a = bytes_hex (dr_noteCommitment r)" "fsa_noteAmount a = bigint_toString n" "fsa_slotIdx a = 0"
    using a by (rule bootstrap_actor_okE)
  have "length oc = 32" "length (dr_noteCommitment r) = 32" using assms oc(1) by (auto simp: receipt_ok_def)
  then have "actor_ready a" using oc unfolding actor_ready_def by blast
  then show thesis using that a by blast
qed

lemma live_bootstrap_runs:
  obtains st new w where "handleBootstrap live_lib live_demo live_files (live_ctx all_there) ([], ([], [])) = (Inr st, (new, w))"
    "\<And>role. \<exists>a. state_of role st = Some a \<and> actor_ready a"
proof -
  obtain rt rm new l where d: "bootstrap_deposits live_lib live_demo live_files (live_ctx all_there) 5000 30 ([], ([], [])) = (Inr (rt, rm), (new, ([], l)))"
      and ok: "receipt_ok rt" "receipt_ok rm"
    using live_deposits_run [of all_there] by auto
  obtain t where t: "bootstrap_actor live_lib (live_ctx all_there) Taker 0 5000 rt = Inr t" "actor_ready t" using ok(1) by (rule bootstrap_actor_ready)
  obtain m where m: "bootstrap_actor live_lib (live_ctx all_there) Maker 0 30 rm = Inr m" "actor_ready m" using ok(2) by (rule bootstrap_actor_ready)
  let ?st = "\<lparr>fs_updatedAt = ''now'', fs_taker = Some t, fs_maker = Some m, fs_runBatchSignature = None, fs_undelegateSignature = None\<rparr>"
  obtain w where "writeState live_files (rc_statePath (live_ctx all_there)) ?st ([], l) = (Inr (), w)" by (simp add: writeState_def io_bind_def live_files_def)
  then have "handleBootstrap live_lib live_demo live_files (live_ctx all_there) ([], ([], [])) = (Inr ?st, (new, w))"
    by (simp add: handleBootstrap_def io_bind_def live_amounts d live_slots_run t m in_run_def Let_def) (simp add: live_files_def)
  moreover have "\<exists>a. state_of role ?st = Some a \<and> actor_ready a" for role using t(2) m(2) by (cases role) (simp_all add: state_of_def)
  ultimately show thesis by (rule that)
qed

lemma live_submit_runs:
  assumes st: "state_of role st = Some a" "\<And>l. readState live_demo live_files (rc_statePath (live_ctx all_there)) (t, l) = (Inr st, (t, l))" and "actor_ready a"
  shows "\<exists>st' uw. handleSubmitOrder live_lib live_demo live_files (live_ctx all_there) role ([], (t, l)) = (Inr st', uw)"
proof -
  obtain cm oc n where a: "fsa_slotIdx a = 0" "fsa_noteCommitmentHex a = bytes_hex cm" "length cm = 32" "fsa_ownerCommitmentHex a = bytes_hex oc" "length oc = 32"
      "fsa_noteAmount a = bigint_toString n"
    using assms(3) unfolding actor_ready_def by blast
  let ?p = "\<lparr>so_programId = pr_meProgramId (rc_programs (live_ctx all_there)), so_tradingKey = kp_publicKey (persona_key (live_ctx all_there) role),
      so_market = pr_market (rc_programs (live_ctx all_there)), so_slotIdx = 0, so_side = (case role of Taker \<Rightarrow> 0 | Maker \<Rightarrow> 1), so_amount = 30, so_priceLimit = 100,
      so_noteAmount = n, so_expirySlot = 600, so_orderId = replicate 16 1, so_noteCommitment = cm, so_userCommitment = oc, so_orderType = None, so_minFillQty = None\<rparr>"
  obtain keys where keys: "buildSubmitOrderInstruction live_lib ?p = Inr keys"
    using a(3,5) by (cases role) (simp_all add: buildSubmitOrderInstruction_def slot_guard_ok live_slot_key submit_order_args_def fixed_ok)
  have rnd: "dm_randomBytes live_demo 16 u = (Inr (replicate 16 1), u)" for u by (simp add: live_demo_def demo_app_def)
  have id: "\<not> list_all (\<lambda>b. b = (0 :: byte)) (replicate 16 1)" by (simp add: list_all_iff)
  obtain l' where send: "rpc_sendAndConfirm (logged ''er'' (live_rpc all_there)) [sok_ix keys] [persona_key (live_ctx all_there) role] (t, l) = (Inr ''sig'', (t, l'))"
    using live_net(4) [of "''er''" all_there "[sok_ix keys]" "[persona_key (live_ctx all_there) role]" "(t, l)"] by auto
  have "\<exists>orderId new. submit_live_order live_lib live_demo (live_ctx all_there) role a ([], (t, l)) = (Inr (''sig'', orderId), (new, (t, l')))"
    unfolding submit_live_order_def io_bind_def Let_def
    using keys id send by (simp add: live_amounts in_run_def live_ctx_conns live_net(3) rnd a route_hexToBytes_def live_send_def io_bind_def push_signature_def)
  then obtain orderId new where s: "submit_live_order live_lib live_demo (live_ctx all_there) role a ([], (t, l)) = (Inr (''sig'', orderId), (new, (t, l')))" by blast
  let ?st = "(with_order role ''sig'' (bytes_hex orderId) st) \<lparr>fs_updatedAt := lv_isoNow live_files (t, l')\<rparr>"
  obtain u where "writeState live_files (rc_statePath (live_ctx all_there)) ?st (t, l') = (Inr (), u)" by (simp add: writeState_def io_bind_def live_files_def)
  then have "handleSubmitOrder live_lib live_demo live_files (live_ctx all_there) role ([], (t, l)) = (Inr ?st, (new, u))"
    by (simp add: handleSubmitOrder_def io_bind_def in_run_def st s Let_def)
  then show ?thesis by blast
qed

theorem live_orders_backed_witness:
  "\<exists>st tw st' uw (dep :: instruction) dsig cm ix sig.
     handleBootstrap live_lib live_demo live_files (live_ctx all_there) ([], ([], [])) = (Inr st, tw)
   \<and> handleSubmitOrder live_lib live_demo live_files (live_ctx all_there) Taker ([], snd tw) = (Inr st', uw)
   \<and> \<lparr>st_cluster = ''l1'', st_ixs = [dep], st_signers = [persona_key (live_ctx all_there) Taker], st_result = Inr dsig\<rparr> \<in> set (snd (snd tw))
   \<and> noteCommitment live_lib (deposit_ix_note dep) = Inr cm \<and> nt_amount (deposit_ix_note dep) = 5000
   \<and> snd (snd uw) = snd (snd tw) @ [\<lparr>st_cluster = ''er'', st_ixs = [ix], st_signers = [persona_key (live_ctx all_there) Taker], st_result = Inr sig\<rparr>]
   \<and> signers_of ix = [5]"
proof (rule live_bootstrap_runs)
  fix st new w
  let ?ctx = "live_ctx all_there"
  assume boot: "handleBootstrap live_lib live_demo live_files ?ctx ([], ([], [])) = (Inr st, (new, w))"
    and acts: "\<And>role. \<exists>a. state_of role st = Some a \<and> actor_ready a"
  obtain a where a: "state_of Taker st = Some a" "actor_ready a" using acts by blast
  have "readState live_demo live_files (rc_statePath ?ctx) w = (Inr st, w)"
    using boot by (rule bootstrap_okE) (use write_read_state [OF live_file_law] in auto)
  then have rd: "readState live_demo live_files (rc_statePath ?ctx) (fst w, l) = (Inr st, (fst w, l))" for l
    by (cases w) (auto simp: readState_def live_files_def io_catch_def io_bind_def split: sum.splits)
  obtain st' uw where sub: "handleSubmitOrder live_lib live_demo live_files ?ctx Taker ([], snd (new, w)) = (Inr st', uw)"
    using live_submit_runs [OF a(1) rd a(2), of "snd w"] by auto
  have log: "demo_log (rc_conns ?ctx) snd" using logged_demo.demo_log_axioms by (simp add: live_ctx_def)
  have "(30 :: int) < 2 ^ 64" "(100 :: int) < 2 ^ 64" "(5000 :: int) < 2 ^ 64" by simp_all
  from live_orders_backed [OF boot live_file_law sub log live_quiet_files live_amounts(3,4,1) _ this(1) _ this(2,3)]
  obtain dep dsig cm ix sig where
    "\<lparr>st_cluster = ''l1'', st_ixs = [dep], st_signers = [persona_key ?ctx Taker], st_result = Inr dsig\<rparr> \<in> set (snd w)"
    "noteCommitment live_lib (deposit_ix_note dep) = Inr cm" "nt_amount (deposit_ix_note dep) = 5000"
    "snd (snd uw) = snd w @ [\<lparr>st_cluster = ''er'', st_ixs = [ix], st_signers = [persona_key ?ctx Taker], st_result = Inr sig\<rparr>]"
    "signers_of ix = [kp_publicKey (persona_key ?ctx Taker)]"
    by auto
  moreover have "kp_publicKey (persona_key ?ctx Taker) = 5" by (simp add: live_ctx_def persona_key_def)
  ultimately show ?thesis using boot sub by (metis snd_conv)
qed

text \<open>The taker's four slots are there, the fifth is not.\<close>

definition four_slots :: "pubkey \<Rightarrow> account_info option" where
  "four_slots k = (if k = 19972 then None else Some live_account)"

theorem live_bootstrap_exhausted_witness:
  "\<exists>new w. handleBootstrap live_lib live_demo live_files (live_ctx four_slots) ([], ([], [])) = (Inl (newError ''slotIdx must be in [0, 4); got 4''), (new, w))
     \<and> ''maker deposit'' \<in> set (map txs_label new)"
proof -
  let ?ctx = "live_ctx four_slots"
  obtain rt rm new l where d: "bootstrap_deposits live_lib live_demo live_files ?ctx 5000 30 ([], ([], [])) = (Inr (rt, rm), (new, ([], l)))"
    using live_deposits_run [of four_slots] by (auto simp: four_slots_def)
  have r: "reads (dcn_l1 (rc_conns ?ctx)) four_slots" by (simp add: reads_def live_ctx_conns live_net)
  have key: "slot_key live_lib me market k i = of_int (19968 + i)" if "0 \<le> i" "i < 8" for me market k i
    using that by (simp add: slot_key_def live_slot_key)
  have "\<forall>i\<in>{0, 1, 2, 3}. four_slots (slot_key live_lib (pr_meProgramId (rc_programs ?ctx)) (pr_market (rc_programs ?ctx)) (kp_publicKey (rc_taker ?ctx)) i) \<noteq> None"
      "four_slots (slot_key live_lib (pr_meProgramId (rc_programs ?ctx)) (pr_market (rc_programs ?ctx)) (kp_publicKey (rc_taker ?ctx)) 4) = None"
    by (simp_all add: key four_slots_def)
  from live_bootstrap_exhausted [OF live_lib_laws(2) r this live_amounts(1,2) d] show ?thesis by auto
qed

end
