(* ===== verification/Spec2Isabelle.thy ===== *)
theory Spec2Isabelle
  imports Nyx_Orders Nyx_Er_Client Nyx_Batch_Results Nyx_Settle Nyx_Spend Nyx_History Nyx_Groth16 Nyx_Demo_Flow_Scenario
    Nyx_Demo_Prover Nyx_Demo_Base_Scenario Nyx_Demo_Forwarder Nyx_Demo_Live_Scenario
begin

text \<open>
  Verification of the Nyx dark pool: its TypeScript SDK (\<open>packages/sdk\<close>), the demo application that drives it
  (\<open>apps/demo\<close>), and as much of the circuits and of the two Solana programs as the correctness of the clients
  rests on. Paths are relative to \<open>src/\<close>.

  \<^bold>\<open>The program.\<close> A user deposits tokens into a vault and gets a note, a Poseidon commitment that is a leaf of
  the vault's Merkle tree. An order in the matching engine, which runs in an ephemeral rollup (ER), is backed by
  such a note. A batch matches orders; the result comes back to L1, where the TEE settles it: the notes
  of both sides are consumed and notes for what they traded and for their change are appended. A note is withdrawn
  with a zero-knowledge proof of its opening and of its path to a root the vault still accepts. The SDK
  derives keys, computes commitments, builds every instruction, decodes accounts and events, and runs the
  deposit, withdrawal and order flows over injected providers. The demo's server routes call the SDK; its browser
  panels call the routes, prove, and let a wallet send.

  \<^bold>\<open>Conventions\<close> (\<open>Nyx_Prelude\<close>, \<open>Nyx_Lib\<close>, \<open>Nyx_Json\<close>, \<open>Nyx_Text\<close>). A byte array is a list of 8-bit words, a \<open>bigint\<close> an
  \<open>int\<close>, a key a 256-bit word. Code that may throw returns a sum whose left side is the error; awaited code is a
  function from a state to such a sum and a new state, where \<open>io_bind\<close> is \<open>await\<close> and \<open>io_catch\<close> is \<open>try\<close>. The state
  of a function is what it can change: a cached seed or token, the \<open>useState\<close> hooks of a panel, the signatures a
  route collected, and a type variable \<open>'w\<close> for the world outside. Fixed-width encoders reduce modulo their
  width exactly as \<open>setBigUint64\<close> and its likes do, so a property that needs an amount below \<open>2 ^ 64\<close> says so. JSON
  values are a datatype; a missing member is \<open>None\<close>.

  \<^bold>\<open>Parameters.\<close> Code that is not in the repository is an argument: hashes, Poseidon, ed25519 and address
  derivation are the record \<open>lib\<close>; tweetnacl, \<open>@solana/web3.js\<close> and the token library \<open>wallet_lib\<close>; connections \<open>rpc\<close>, \<open>connection\<close>
  and \<open>forwarder\<close>; process environment, files and \<open>JSON.parse\<close> \<open>host\<close> and \<open>live_env\<close>; the browser \<open>browser\<close> and \<open>flow_browser\<close>;
  \<open>groth16.fullProve\<close> a relation. What is used of them is a named hypothesis: \<open>poseidon_canonical\<close> (results are field
  elements), \<open>chain_poseidon\<close> (the program's Poseidon is the client's), \<open>pda_total\<close>, \<open>base58_inverse\<close>, \<open>clock_advances\<close>,
  \<open>file_law\<close>, \<open>session_storage\<close> (an item that was set is read), \<open>signatures_given\<close>, \<open>prover_total\<close>. Each property that uses one is applied to concrete parameters in its witness. Security
  statements do not assume that a hash has no collisions: they exhibit the collision.

  \<^bold>\<open>General theories.\<close>
  \<^item> \<open>Nyx_Tree\<close>: hash trees; the locale \<open>merkle_scheme\<close> gives, for any padded tree, that a path verifies and that two
    verified leaves at a position are equal or collide. It is interpreted for the SHA-256 tree of a batch
    (\<open>Nyx_Inclusion\<close>) and the Poseidon tree of the vault (\<open>Nyx_Shadow\<close>).
  \<^item> \<open>Nyx_Machine\<close>: reachability, invariants (\<open>machine_invariant\<close>) and draining of pending work (\<open>draining_machine\<close>),
    interpreted for the trade panels and the prover.
  \<^item> \<open>Nyx_Observe\<close>: what an observer sees of a run. The locale \<open>recorded\<close> is a connection whose world has a log of the
    transactions sent through it, \<open>demo_log\<close> (\<open>Nyx_Demo_Sends\<close>) the two connections of the demo with one log; any connection
    with a log beside its world (\<open>logged\<close>) is an instance. The log serves to state which transactions a route sends, in
    which order, and that it sends no other.

  \<^bold>\<open>The SDK.\<close>
  \<^item> \<open>Nyx_Errors\<close> (\<open>errors.ts\<close>), \<open>Nyx_Keys\<close> (\<open>keys/key-generators.ts\<close>, \<open>key-rotation.ts\<close>): HKDF is RFC 5869, KMAC inputs encode their
    arguments injectively, seeds are resolved once.
  \<^item> \<open>Nyx_Note\<close> (\<open>utxo/note.ts\<close>, \<open>keys/user-commitment.ts\<close>, \<open>keys/viewing-keys.ts\<close>): commitments and nullifiers are total on
    well-formed input, canonical, and binding.
  \<^item> \<open>Nyx_Groth16\<close> (\<open>zk/groth16-format.ts\<close>): decimal strings to proof bytes.
  \<^item> \<open>Nyx_Vault_Client\<close>, \<open>Nyx_Matching_Client\<close>, \<open>Nyx_Er_Client\<close> (\<open>idl\<close>): addresses and every instruction builder, with
    round trips against the programs' argument layouts; the polling loop of the ER client, a \<open>partial_function\<close> into an
    option, returns whenever the clock advances.
  \<^item> \<open>Nyx_Inclusion\<close>, \<open>Nyx_Batch_Results\<close> (\<open>batch/inclusion-proof.ts\<close>): inclusion proofs verify exactly what they should; the
    account decoder inverts the layout of the program.
  \<^item> \<open>Nyx_Settle\<close>, \<open>Nyx_Watcher\<close> (\<open>settlement\<close>): the payload, the hash the TEE signs, which binds every field, and
    the notifications, which point to the leaves the program appended.
  \<^item> \<open>Nyx_Session\<close>, \<open>Nyx_Orders\<close> (\<open>per\<close>, \<open>orders\<close>): the locale \<open>per_session\<close> is the contract of a session manager, with the live
    and the mock manager as instances; an order leaves the client only after a positive attestation and at
    most twice.
  \<^item> \<open>Nyx_Client\<close> (\<open>client.ts\<close>, \<open>providers.ts\<close>, \<open>utxo/deposit.ts\<close>, \<open>utxo/withdraw.ts\<close>): what a receipt says is what went on the wire.

  \<^bold>\<open>Circuits and programs.\<close> \<open>Nyx_Spend\<close> has the constraints of both circuits as predicates; \<open>Nyx_Vault_Tree\<close> the tree of
  \<open>programs/vault\<close> with its ring of roots as a step relation; \<open>Nyx_Demo_Slots\<close> the handlers \<open>submit_order\<close> and \<open>set_protocol_config\<close>.
  The vault's tree refines the shadow tree of the application, and a root stays accepted for as many appends as
  the ring is long.

  \<^bold>\<open>The demo.\<close>
  \<^item> Libraries: \<open>Nyx_Decimals\<close>, \<open>Nyx_Shadow\<close> (both ways to compute a witness), \<open>Nyx_History\<close> (replay of the vault's leaves from
    its transactions), \<open>Nyx_Demo_Lib\<close>, \<open>Nyx_Demo_Env\<close>.
  \<^item> Deposits: \<open>Nyx_Demo_Withdraw\<close> (the four routes), \<open>Nyx_Demo_Spend\<close> (their soundness against account, circuit and history)
    and \<open>Nyx_Demo_Panel\<close> (the panel). A deposit that landed can be withdrawn; a failed withdrawal strands the panel.
  \<^item> Trades: \<open>Nyx_Demo_Slots\<close> (slots, fee, order route), \<open>Nyx_Demo_Identity\<close> (identity panel, registration, airdrop), \<open>Nyx_Demo_Trade\<close>
    (settlement), \<open>Nyx_Demo_Counter\<close> (the counterparty route) and \<open>Nyx_Demo_Sends\<close> (what it sends and reports), \<open>Nyx_Demo_Flow\<close> (the trade panel), \<open>Nyx_Demo_Base\<close> (the panel that
    withdraws what was bought, its handler cut at every \<open>await\<close>). A settlement sends the locks of both notes and the settlement
    and nothing else, the counterparty reports the transactions it sent, a stored session registers its own commitment, a
    bid is covered by the deposit before it and accepted by the program, and what a settled trade bought is
    withdrawn with one click.
  \<^item> \<open>Nyx_Demo_Live\<close>: the scripted route with two personas and a state file. It sends a deposit for each persona and one
    order backed by it; after four bootstraps it fails.
  \<^item> \<open>Nyx_Demo_Prover\<close>, \<open>Nyx_Demo_Forwarder\<close>: the proving worker as a concurrent machine, in which an answer belongs to the
    request it settles and no request is stuck, and the forwarder, which does not ask the wallet when the simulation
    reports an error.
  \<^item> The theories named \<open>Scenario\<close> hold the concrete libraries, accounts and runs on which the properties are applied.

  \<^bold>\<open>Bounds.\<close> There is no fuel. Loops over lists recurse on the list; paging in \<open>Nyx_History\<close> is bounded by the source's own
  limits; the only loop that may not end is the wait for an L1 account, and the routes that contain it are
  functions into an option, with a proof that they answer when the clock advances.

  \<^bold>\<open>Not modelled.\<close> Rendered markup, styling and canned texts; console output; durations that are only
  displayed; React providers; the batch matcher and the other handlers of the Rust programs, of which
  only the layouts and effects the clients rely on appear; re-exports and type shims.
\<close>

end
